(* ===== verification/Prelude.thy ===== *)
theory Prelude
  imports Main "HOL-Library.Multiset" "HOL-Library.Sublist" "HOL-Library.Char_ord"
    "HOL-Library.List_Lexorder"
begin

text \<open>
  Shared vocabulary of the development: the part of the Go language and of its standard
  library that the operator's sources use (package \<open>strings\<close>, \<open>slices\<close>, \<open>fmt\<close>,
  \<open>errors\<close>), the result of a reconcile pass, the simp collections the component proofs
  draw on, and general lemmas on lists that several components need.

  A Go string is a byte sequence, here \<open>string\<close> (a \<open>char list\<close>). The zero value of a
  pointer or of an interface is \<open>None\<close>; a function that returns \<open>(T, error)\<close> is a
  function into \<open>go_error + 'a\<close> when its value is meaningless on an error.
\<close>

section \<open>Simp collections\<close>

named_theorems record_defs \<open>unfolds the small accessors and updaters of a component\<close>
named_theorems handler_defs \<open>unfolds the handlers of a component\<close>

section \<open>Package errors and fmt.Errorf\<close>

text \<open>
  An error value: created in place, returned by an OpenStack call (with the HTTP code it
  reports, if any), returned by the Kubernetes client, wrapped by \<open>fmt.Errorf\<close> with a
  final \<open>%w\<close>, or the join of several.
\<close>

datatype kube_reason = ReasonNotFound | ReasonConflict | ReasonOther

datatype go_error =
    ErrorNew string
  | HttpError "nat option" string
  | KubeError kube_reason string
  | Errorf string go_error
  | ErrorsJoin "go_error list"

fun join_with :: "string \<Rightarrow> string list \<Rightarrow> string" where
  "join_with sep [] = []"
| "join_with sep [x] = x"
| "join_with sep (x # y # ys) = x @ sep @ join_with sep (y # ys)"

fun Error_text :: "go_error \<Rightarrow> string" where
  "Error_text (ErrorNew s) = s"
| "Error_text (HttpError c s) = s"
| "Error_text (KubeError r s) = s"
| "Error_text (Errorf p e) = p @ Error_text e"
| "Error_text (ErrorsJoin es) = join_with [CHR 0x0A] (map Error_text es)"

text \<open>\<open>errors.Join\<close> drops nil errors and is nil when nothing is left.\<close>

definition errors_Join :: "go_error option list \<Rightarrow> go_error option" where
  "errors_Join es = (let xs = List.map_filter (\<lambda>x. x) es in if xs = [] then None else Some (ErrorsJoin xs))"

lemma errors_Join_None_iff [simp]: "errors_Join es = None \<longleftrightarrow> (\<forall>e \<in> set es. e = None)"
  by (auto simp: errors_Join_def List.map_filter_def filter_empty_conv)

lemma errors_Join_head: "\<exists>y. errors_Join (Some e # es) = Some y"
  by (simp add: errors_Join_def List.map_filter_simps)

section \<open>Result of a reconcile pass\<close>

text \<open>\<open>ctrl.Result\<close>: the requeue interval in nanoseconds, \<open>0\<close> for none.\<close>

record ctrl_result =
  RequeueAfter :: int

definition no_requeue :: ctrl_result where
  "no_requeue = \<lparr>RequeueAfter = 0\<rparr>"

type_synonym reconcile_result = "ctrl_result \<times> go_error option"

abbreviation reconcile_ok :: reconcile_result where
  "reconcile_ok \<equiv> (no_requeue, None)"

abbreviation second_ns :: int where
  "second_ns \<equiv> 1000000000"

section \<open>Package strings\<close>

definition strings_HasPrefix :: "string \<Rightarrow> string \<Rightarrow> bool" where
  "strings_HasPrefix s p = (take (length p) s = p)"

fun strings_Contains :: "string \<Rightarrow> string \<Rightarrow> bool" where
  "strings_Contains [] sub = (sub = [])"
| "strings_Contains (c # cs) sub = (strings_HasPrefix (c # cs) sub \<or> strings_Contains cs sub)"

text \<open>\<open>strings.Cut\<close> for a separator of one byte: the text before it, after it, and whether it occurs.\<close>

definition strings_Cut :: "string \<Rightarrow> char \<Rightarrow> string \<times> string \<times> bool" where
  "strings_Cut s sep =
     (if sep \<in> set s then (takeWhile (\<lambda>c. c \<noteq> sep) s, tl (dropWhile (\<lambda>c. c \<noteq> sep) s), True)
      else (s, [], False))"

text \<open>\<open>strings.SplitSeq\<close> for a separator of one byte.\<close>

fun strings_Split :: "string \<Rightarrow> char \<Rightarrow> string list" where
  "strings_Split [] sep = [[]]"
| "strings_Split (c # cs) sep =
     (if c = sep then [] # strings_Split cs sep
      else (case strings_Split cs sep of [] \<Rightarrow> [[c]] | w # ws \<Rightarrow> (c # w) # ws))"

text \<open>
  \<open>strings.TrimSpace\<close> removes leading and trailing Unicode white space. The white-space code
  points, as the bytes of their UTF-8 encodings: the six ASCII ones, U+0085, U+00A0, U+1680,
  U+2000 to U+200A, U+2028, U+2029, U+202F, U+205F and U+3000.
\<close>

definition unicode_spaces :: "string list" where
  "unicode_spaces =
     [[CHR 0x09], [CHR 0x0A], [CHR 0x0B], [CHR 0x0C], [CHR 0x0D], [CHR 0x20],
      [CHR 0xC2, CHR 0x85], [CHR 0xC2, CHR 0xA0], [CHR 0xE1, CHR 0x9A, CHR 0x80],
      [CHR 0xE2, CHR 0x80, CHR 0x80], [CHR 0xE2, CHR 0x80, CHR 0x81],
      [CHR 0xE2, CHR 0x80, CHR 0x82], [CHR 0xE2, CHR 0x80, CHR 0x83],
      [CHR 0xE2, CHR 0x80, CHR 0x84], [CHR 0xE2, CHR 0x80, CHR 0x85],
      [CHR 0xE2, CHR 0x80, CHR 0x86], [CHR 0xE2, CHR 0x80, CHR 0x87],
      [CHR 0xE2, CHR 0x80, CHR 0x88], [CHR 0xE2, CHR 0x80, CHR 0x89],
      [CHR 0xE2, CHR 0x80, CHR 0x8A], [CHR 0xE2, CHR 0x80, CHR 0xA8],
      [CHR 0xE2, CHR 0x80, CHR 0xA9], [CHR 0xE2, CHR 0x80, CHR 0xAF],
      [CHR 0xE2, CHR 0x81, CHR 0x9F], [CHR 0xE3, CHR 0x80, CHR 0x80]]"

text \<open>The length of the first of the given encodings that starts the text, \<open>0\<close> when none does.\<close>

fun space_len :: "string list \<Rightarrow> string \<Rightarrow> nat" where
  "space_len [] s = 0"
| "space_len (p # ps) s = (if p \<noteq> [] \<and> strings_HasPrefix s p then length p else space_len ps s)"

function trim_left :: "string list \<Rightarrow> string \<Rightarrow> string" where
  "trim_left ps s = (if s = [] \<or> space_len ps s = 0 then s else trim_left ps (drop (space_len ps s) s))"
  by pat_completeness auto
termination
  by (relation "measure (\<lambda>(ps, s). length s)") auto

declare trim_left.simps [simp del]

definition strings_TrimSpace :: "string \<Rightarrow> string" where
  "strings_TrimSpace s =
     rev (trim_left (map rev unicode_spaces) (rev (trim_left unicode_spaces s)))"

lemma trim_left_Nil [simp]: "trim_left ps [] = []"
  by (simp add: trim_left.simps)

lemma trim_left_suffix: "suffix (trim_left ps s) s"
proof (induction ps s rule: trim_left.induct)
  case (1 ps s)
  show ?case
  proof (cases "s = [] \<or> space_len ps s = 0")
    case True
    then show ?thesis by (auto simp: trim_left.simps [of ps s])
  next
    case False
    with 1 have "suffix (trim_left ps (drop (space_len ps s) s)) (drop (space_len ps s) s)"
      by blast
    then have "suffix (trim_left ps (drop (space_len ps s) s)) s"
      by (meson suffix_drop suffix_order.order_trans)
    with False show ?thesis by (simp add: trim_left.simps [of ps s])
  qed
qed

lemma trim_left_stops: "space_len ps (trim_left ps s) = 0 \<or> trim_left ps s = []"
proof (induction ps s rule: trim_left.induct)
  case (1 ps s)
  then show ?case
    by (cases "s = [] \<or> space_len ps s = 0") (auto simp: trim_left.simps [of ps s])
qed

section \<open>Formatting of integers (verb %d)\<close>

fun nat_digits :: "nat \<Rightarrow> string" where
  "nat_digits n = (if n < 10 then [char_of (48 + n)] else nat_digits (n div 10) @ [char_of (48 + n mod 10)])"

declare nat_digits.simps [simp del]

definition fmt_d :: "int \<Rightarrow> string" where
  "fmt_d i = (if i < 0 then CHR ''-'' # nat_digits (nat (- i)) else nat_digits (nat i))"

lemma nat_digits_nonempty [simp]: "nat_digits n \<noteq> []"
  by (subst nat_digits.simps) simp

text \<open>\<open>%v\<close> on a slice of strings.\<close>

definition fmt_strings :: "string list \<Rightarrow> string" where
  "fmt_strings xs = ''['' @ join_with '' '' xs @ '']''"

section \<open>Package slices\<close>

abbreviation slices_Contains :: "'a list \<Rightarrow> 'a \<Rightarrow> bool" where
  "slices_Contains xs x \<equiv> x \<in> set xs"

abbreviation slices_Sort :: "string list \<Rightarrow> string list" where
  "slices_Sort xs \<equiv> sort xs"

section \<open>General lemmas\<close>

lemma filter_neq_remove1_mset: "mset (remove1 x xs) \<subseteq># mset xs"
  by (simp add: diff_subset_eq_self)

lemma strings_HasPrefix_prefix: "strings_HasPrefix s p \<longleftrightarrow> prefix p s"
  unfolding strings_HasPrefix_def
  by (metis append_eq_conv_conj prefixE prefixI append_take_drop_id)

lemma strings_Contains_sublist: "strings_Contains s sub \<longleftrightarrow> sublist sub s"
  by (induction s) (auto simp: strings_HasPrefix_prefix sublist_Cons_right)

lemma strings_Cut_no_sep [simp]: "sep \<notin> set s \<Longrightarrow> strings_Cut s sep = (s, [], False)"
  by (simp add: strings_Cut_def)

lemma fst_strings_Cut: "fst (strings_Cut s sep) = takeWhile (\<lambda>c. c \<noteq> sep) s"
proof (cases "sep \<in> set s")
  case True
  then show ?thesis by (simp add: strings_Cut_def)
next
  case False
  then have "s = takeWhile (\<lambda>c. c \<noteq> sep) s" by (metis (full_types) takeWhile_eq_all_conv)
  with False show ?thesis by (simp add: strings_Cut_def)
qed

lemma strings_Split_join: "join_with [sep] (strings_Split s sep) = s \<and> strings_Split s sep \<noteq> []"
proof (induction s)
  case Nil
  then show ?case by simp
next
  case (Cons c cs)
  then show ?case
    by (cases "strings_Split cs sep"; cases "tl (strings_Split cs sep)") auto
qed

end
