(* ===== verification/Go_Time.thy ===== *)
theory Go_Time
  imports Prelude
begin

text \<open>
  The part of package \<open>time\<close> the operator uses. A \<open>time.Time\<close> is the number of whole seconds since
  the zero time of Go (January 1, year 1, 00:00:00 UTC), so that \<open>0\<close> is the zero value; fractions
  of a second are dropped. The two renderings of a UTC time: layout \<open>RFC3339\<close> and method \<open>String\<close>.
\<close>

type_synonym go_time = nat

definition IsZero :: "go_time \<Rightarrow> bool" where
  "IsZero t = (t = 0)"

section \<open>Days to civil dates\<close>

definition is_leap :: "nat \<Rightarrow> bool" where
  "is_leap y = (y mod 4 = 0 \<and> (y mod 100 \<noteq> 0 \<or> y mod 400 = 0))"

definition month_lengths :: "bool \<Rightarrow> nat list" where
  "month_lengths leap = [31, if leap then 29 else 28, 31, 30, 31, 30, 31, 31, 30, 31, 30, 31]"

text \<open>The year of a day and the day's number in it, both by the cycles of 400, 100, 4 and 1 years.\<close>

definition year_of_day :: "nat \<Rightarrow> nat \<times> nat" where
  "year_of_day n =
     (let a = n div 146097; n1 = n mod 146097;
          b = min 3 (n1 div 36524); n2 = n1 - b * 36524;
          c = n2 div 1461; n3 = n2 mod 1461;
          d = min 3 (n3 div 365)
      in (400 * a + 100 * b + 4 * c + d + 1, n3 - d * 365))"

fun month_of_day :: "nat list \<Rightarrow> nat \<Rightarrow> nat \<Rightarrow> nat \<times> nat" where
  "month_of_day [] m d = (m, d + 1)"
| "month_of_day (l # ls) m d = (if d < l then (m, d + 1) else month_of_day ls (m + 1) (d - l))"

text \<open>The days before a year, the inverse direction.\<close>

definition days_before_year :: "nat \<Rightarrow> nat" where
  "days_before_year y = 365 * (y - 1) + (y - 1) div 4 + (y - 1) div 400 - (y - 1) div 100"

lemma year_of_day_inverse:
  assumes "year_of_day n = (y, r)"
  shows "days_before_year y + r = n" and "r < 366"
proof -
  define a where "a = n div 146097"
  define n1 where "n1 = n mod 146097"
  define b where "b = min 3 (n1 div 36524)"
  define n2 where "n2 = n1 - b * 36524"
  define c where "c = n2 div 1461"
  define n3 where "n3 = n2 mod 1461"
  define d where "d = min 3 (n3 div 365)"
  have y: "y = 400 * a + 100 * b + 4 * c + d + 1" "r = n3 - d * 365"
  proof -
    have "year_of_day n = (400 * a + 100 * b + 4 * c + d + 1, n3 - d * 365)"
      unfolding year_of_day_def Let_def d_def n3_def c_def n2_def b_def n1_def a_def by (rule refl)
    with assms show "y = 400 * a + 100 * b + 4 * c + d + 1" "r = n3 - d * 365" by simp_all
  qed
  have n: "n = 146097 * a + n1" by (simp add: a_def n1_def)
  have lt: "n1 \<le> 146096" by (simp add: n1_def)
  have split: "m = min 3 (m div k) * k + (m - min 3 (m div k) * k) \<and> m - min 3 (m div k) * k \<le> k"
    if "m \<le> 4 * k" "0 < k" for m k :: nat
  proof (cases "m div k \<le> 3")
    case True
    have "m = (m div k) * k + m mod k" by simp
    with True that(2) show ?thesis by (metis add_diff_cancel_left' min.absorb2 mod_less_divisor nat_less_le)
  next
    case False
    then have "3 * k \<le> m" using that(2) less_eq_div_iff_mult_less_eq [of k 3 m] by simp
    with False that show ?thesis by simp
  qed
  have n1: "n1 = b * 36524 + n2" "n2 \<le> 36524" using split [of n1 36524] lt by (simp_all add: b_def n2_def)
  have n2: "n2 = 1461 * c + n3" "n3 < 1461" by (simp_all add: c_def n3_def)
  have n3: "n3 = d * 365 + r" "r < 366" using split [of n3 365] n2(2) by (simp_all add: y d_def)
  have le: "b \<le> 3" "d \<le> 3" by (simp_all add: b_def d_def)
  have "1461 * c \<le> 36524" using n1(2) n2(1) by linarith
  then have lec: "c \<le> 24" by linarith
  have y1: "y - 1 = 4 * (100 * a + 25 * b + c) + d" "y - 1 = 100 * (4 * a + b) + (4 * c + d)"
    "y - 1 = 400 * a + (100 * b + 4 * c + d)" by (simp_all add: y)
  have dv: "(k * q + m) div k = q" if "m < k" for k q m :: nat using that by simp
  have "(y - 1) div 4 = 100 * a + 25 * b + c" unfolding y1(1) by (rule dv) (use le lec in linarith)
  moreover have "(y - 1) div 100 = 4 * a + b" unfolding y1(2) by (rule dv) (use le lec in linarith)
  moreover have "(y - 1) div 400 = a" unfolding y1(3) by (rule dv) (use le lec in linarith)
  ultimately show "days_before_year y + r = n"
    unfolding days_before_year_def n n1(1) n2(1) n3(1) by (simp only: y1(3)) simp
  show "r < 366" by (rule n3(2))
qed

section \<open>Rendering\<close>

definition pad :: "nat \<Rightarrow> nat \<Rightarrow> string" where
  "pad w n = replicate (w - length (nat_digits n)) (CHR ''0'') @ nat_digits n"

definition render_date :: "go_time \<Rightarrow> string" where
  "render_date t =
     (case year_of_day (t div 86400) of
        (y, r) \<Rightarrow>
          (case month_of_day (month_lengths (is_leap y)) 1 r of
             (m, d) \<Rightarrow> pad 4 y @ ''-'' @ pad 2 m @ ''-'' @ pad 2 d))"

definition render_clock :: "go_time \<Rightarrow> string" where
  "render_clock t =
     (let s = t mod 86400 in pad 2 (s div 3600) @ '':'' @ pad 2 (s div 60 mod 60) @ '':'' @ pad 2 (s mod 60))"

definition RFC3339_UTC :: "go_time \<Rightarrow> string" where
  "RFC3339_UTC t = render_date t @ ''T'' @ render_clock t @ ''Z''"

definition Time_String_UTC :: "go_time \<Rightarrow> string" where
  "Time_String_UTC t = render_date t @ '' '' @ render_clock t @ '' +0000 UTC''"

lemma RFC3339_UTC_sample: "RFC3339_UTC 62140698061 = ''1970-03-01T01:01:01Z''"
  by (simp add: RFC3339_UTC_def render_date_def render_clock_def year_of_day_def month_lengths_def is_leap_def pad_def
      nat_digits.simps Let_def char_of_def bit_0 bit_Suc)

end
