(* ===== verification/Api_Types.thy ===== *)
theory Api_Types
  imports Go_Time Complex_Main
begin

text \<open>
  The custom resources of the operator: \<^verbatim>\<open>src/api/v1/hypervisor_types.go\<close> and
  \<^verbatim>\<open>src/api/v1/eviction_types.go\<close>. Every struct is a record with the fields of the source
  (prefixed where two structs use one name), every string constant an abbreviation. The
  kubebuilder markers that the API server enforces on a write (the CEL rules and the enum on
  \<open>maintenance\<close>) are bool-valued admission predicates.

  \<open>metav1.Time\<close> is a \<open>go_time\<close>; a \<open>resource.Quantity\<close> is its canonical text; a \<open>float64\<close> ratio is a rational.
  A Go map is a partial function.
\<close>

type_synonym quantity = string
type_synonym label_map = "string \<rightharpoonup> string"

section \<open>Conditions\<close>

datatype ConditionStatus = ConditionTrue | ConditionFalse | ConditionUnknown

text \<open>\<open>metav1.Condition\<close>\<close>

record condition =
  Type :: string
  Status :: ConditionStatus
  ObservedGeneration :: int
  LastTransitionTime :: go_time
  Reason :: string
  Message :: string

text \<open>A condition literal of the sources, which leaves the other two fields at their zero values.\<close>

definition mk_condition :: "string \<Rightarrow> ConditionStatus \<Rightarrow> string \<Rightarrow> string \<Rightarrow> condition" where
  "mk_condition ty st reason msg =
     \<lparr>Type = ty, Status = st, ObservedGeneration = 0, LastTransitionTime = 0, Reason = reason, Message = msg\<rparr>"

lemma mk_condition_sel [simp]:
  "Type (mk_condition ty st reason msg) = ty"
  "Status (mk_condition ty st reason msg) = st"
  "Reason (mk_condition ty st reason msg) = reason"
  "Message (mk_condition ty st reason msg) = msg"
  "ObservedGeneration (mk_condition ty st reason msg) = 0"
  "LastTransitionTime (mk_condition ty st reason msg) = 0"
  by (simp_all add: mk_condition_def)

subsection \<open>Hypervisor condition types\<close>

abbreviation ConditionTypeOnboarding :: string where "ConditionTypeOnboarding \<equiv> ''Onboarding''"
abbreviation ConditionTypeOffboarded :: string where "ConditionTypeOffboarded \<equiv> ''Offboarded''"
abbreviation ConditionTypeReady :: string where "ConditionTypeReady \<equiv> ''Ready''"
abbreviation ConditionTypeTerminating :: string where "ConditionTypeTerminating \<equiv> ''Terminating''"
abbreviation ConditionTypeTainted :: string where "ConditionTypeTainted \<equiv> ''Tainted''"
abbreviation ConditionTypeTraitsUpdated :: string where "ConditionTypeTraitsUpdated \<equiv> ''TraitsUpdated''"
abbreviation ConditionTypeAggregatesUpdated :: string where
  "ConditionTypeAggregatesUpdated \<equiv> ''AggregatesUpdated''"
abbreviation ConditionTypeAgentPodsEvicted :: string where
  "ConditionTypeAgentPodsEvicted \<equiv> ''AgentPodsEvicted''"

subsection \<open>Hypervisor condition reasons\<close>

abbreviation ConditionReasonReadyReady :: string where "ConditionReasonReadyReady \<equiv> ''Ready''"
abbreviation ConditionReasonReadyMaintenance :: string where "ConditionReasonReadyMaintenance \<equiv> ''Maintenance''"
abbreviation ConditionReasonReadyEvicted :: string where "ConditionReasonReadyEvicted \<equiv> ''Evicted''"
abbreviation ConditionReasonReadyEvicting :: string where "ConditionReasonReadyEvicting \<equiv> ''Evicting''"
abbreviation ConditionReasonInitial :: string where "ConditionReasonInitial \<equiv> ''Initial''"
abbreviation ConditionReasonOnboarding :: string where "ConditionReasonOnboarding \<equiv> ''Onboarding''"
abbreviation ConditionReasonTesting :: string where "ConditionReasonTesting \<equiv> ''Testing''"
abbreviation ConditionReasonHandover :: string where "ConditionReasonHandover \<equiv> ''Handover''"
abbreviation ConditionReasonAborted :: string where "ConditionReasonAborted \<equiv> ''Aborted''"
abbreviation ConditionReasonTestAggregates :: string where "ConditionReasonTestAggregates \<equiv> ''TestAggregates''"
abbreviation ConditionReasonTerminating :: string where "ConditionReasonTerminating \<equiv> ''Terminating''"
abbreviation ConditionReasonEvictionInProgress :: string where
  "ConditionReasonEvictionInProgress \<equiv> ''EvictionInProgress''"
abbreviation ConditionReasonWaitingForTraits :: string where
  "ConditionReasonWaitingForTraits \<equiv> ''WaitingForTraits''"

subsection \<open>Eviction condition types and reasons\<close>

abbreviation ConditionTypeMigration :: string where "ConditionTypeMigration \<equiv> ''MigratingInstance''"
abbreviation ConditionTypePreflight :: string where "ConditionTypePreflight \<equiv> ''PreflightChecksSucceeded''"
abbreviation ConditionTypeHypervisorDisabled :: string where
  "ConditionTypeHypervisorDisabled \<equiv> ''HypervisorDisabled''"
abbreviation ConditionTypeIncomingMigrationsSettled :: string where
  "ConditionTypeIncomingMigrationsSettled \<equiv> ''IncomingMigrationsSettled''"
abbreviation ConditionTypeHaEnabled :: string where "ConditionTypeHaEnabled \<equiv> ''HaEnabled''"
abbreviation ConditionTypeEvicting :: string where "ConditionTypeEvicting \<equiv> ''Evicting''"
abbreviation ConditionReasonRunning :: string where "ConditionReasonRunning \<equiv> ''Running''"
abbreviation ConditionReasonFailed :: string where "ConditionReasonFailed \<equiv> ''Failed''"
abbreviation ConditionReasonSucceeded :: string where "ConditionReasonSucceeded \<equiv> ''Succeeded''"
abbreviation ConditionReasonSettled :: string where "ConditionReasonSettled \<equiv> ''Settled''"
abbreviation ConditionReasonAborting :: string where "ConditionReasonAborting \<equiv> ''AbortingIncomingMigrations''"
abbreviation ConditionReasonWaiting :: string where "ConditionReasonWaiting \<equiv> ''WaitingForIncomingMigrations''"

subsection \<open>Maintenance modes\<close>

abbreviation (input) MaintenanceUnset :: string where "MaintenanceUnset \<equiv> ''''"
abbreviation MaintenanceManual :: string where "MaintenanceManual \<equiv> ''manual''"
abbreviation MaintenanceAuto :: string where "MaintenanceAuto \<equiv> ''auto''"
abbreviation MaintenanceHA :: string where "MaintenanceHA \<equiv> ''ha''"
abbreviation MaintenanceTermination :: string where "MaintenanceTermination \<equiv> ''termination''"

section \<open>Groups\<close>

record TraitGroup =
  tg_Name :: string

record AggregateGroup =
  ag_Name :: string
  ag_UUID :: string
  ag_Metadata :: label_map

record Group =
  g_Trait :: "TraitGroup option"
  g_Aggregate :: "AggregateGroup option"

fun HasTrait :: "Group list \<Rightarrow> string \<Rightarrow> bool" where
  "HasTrait [] name = False"
| "HasTrait (g # gs) name =
     (case g_Trait g of
        Some t \<Rightarrow> if tg_Name t = name then True else HasTrait gs name
      | None \<Rightarrow> HasTrait gs name)"

fun GetTraits :: "Group list \<Rightarrow> TraitGroup list" where
  "GetTraits [] = []"
| "GetTraits (g # gs) = (case g_Trait g of Some t \<Rightarrow> t # GetTraits gs | None \<Rightarrow> GetTraits gs)"

fun HasAggregate :: "Group list \<Rightarrow> string \<Rightarrow> bool" where
  "HasAggregate [] uuid = False"
| "HasAggregate (g # gs) uuid =
     (case g_Aggregate g of
        Some a \<Rightarrow> if ag_UUID a = uuid then True else HasAggregate gs uuid
      | None \<Rightarrow> HasAggregate gs uuid)"

fun GetAggregates :: "Group list \<Rightarrow> AggregateGroup list" where
  "GetAggregates [] = []"
| "GetAggregates (g # gs) =
     (case g_Aggregate g of Some a \<Rightarrow> a # GetAggregates gs | None \<Rightarrow> GetAggregates gs)"

text \<open>
  Admission of a group entry: exactly one type-specific field is set, names have at least one
  character, and an aggregate's UUID has the 8-4-4-4-12 hexadecimal form.
\<close>

definition is_hex :: "char \<Rightarrow> bool" where
  "is_hex c = (let n = of_char c :: nat in
     48 \<le> n \<and> n \<le> 57 \<or> 65 \<le> n \<and> n \<le> 70 \<or> 97 \<le> n \<and> n \<le> 102)"

definition uuid_pattern :: "string \<Rightarrow> bool" where
  "uuid_pattern s =
     (map length (strings_Split s (CHR ''-'')) = [8, 4, 4, 4, 12]
      \<and> list_all (list_all is_hex) (strings_Split s (CHR ''-'')))"

definition TraitGroup_valid :: "TraitGroup \<Rightarrow> bool" where
  "TraitGroup_valid t = (1 \<le> length (tg_Name t))"

definition AggregateGroup_valid :: "AggregateGroup \<Rightarrow> bool" where
  "AggregateGroup_valid a = (1 \<le> length (ag_Name a) \<and> uuid_pattern (ag_UUID a))"

definition Group_valid :: "Group \<Rightarrow> bool" where
  "Group_valid g =
     ((if g_Trait g \<noteq> None then 1 else 0) + (if g_Aggregate g \<noteq> None then 1 else 0) = (1::nat)
      \<and> pred_option TraitGroup_valid (g_Trait g) \<and> pred_option AggregateGroup_valid (g_Aggregate g))"

section \<open>Hypervisor\<close>

record HypervisorSpec =
  OperatingSystemVersion :: string
  Reboot :: bool
  EvacuateOnReboot :: bool
  LifecycleEnabled :: bool
  SkipTests :: bool
  CustomTraits :: "string list"
  spec_Aggregates :: "string list"
  Groups :: "Group list"
  AllowedProjects :: "string list"
  HighAvailability :: bool
  CreateCertManagerCertificate :: bool
  InstallCertificate :: bool
  Maintenance :: string
  MaintenanceReason :: string
  Overcommit :: "string \<rightharpoonup> rat"

record Instance =
  in_ID :: string
  in_Name :: string
  in_Active :: bool

record Aggregate =
  agg_Name :: string
  agg_UUID :: string
  agg_Metadata :: label_map

record HyperVisorUpdateStatus =
  InProgress :: bool
  Installed :: string
  Retry :: int

record OperatingSystemStatus =
  os_Version :: string
  VariantID :: string
  PrettyVersion :: string
  KernelName :: string
  KernelRelease :: string
  KernelVersion :: string
  KernelCommandLine :: string
  HardwareVendor :: string
  HardwareModel :: string
  HardwareSerial :: string
  FirmwareVersion :: string
  FirmwareVendor :: string
  FirmwareDate :: go_time
  GardenLinuxCommitID :: string
  GardenLinuxFeatures :: "string list"

record Capabilities =
  HostCpuArch :: string
  HostMemory :: quantity
  HostCpus :: quantity

record DomainCapabilities =
  Arch :: string
  HypervisorType :: string
  SupportedDevices :: "string list"
  SupportedCpuModes :: "string list"
  SupportedFeatures :: "string list"

record Cell =
  CellID :: nat
  cell_Allocation :: "string \<rightharpoonup> quantity"
  cell_Capacity :: "string \<rightharpoonup> quantity"
  cell_EffectiveCapacity :: "string \<rightharpoonup> quantity"

record HypervisorStatus =
  LibVirtVersion :: string
  HypervisorVersion :: string
  OperatingSystem :: OperatingSystemStatus
  Update :: HyperVisorUpdateStatus
  Instances :: "Instance list"
  st_Capabilities :: Capabilities
  st_DomainCapabilities :: DomainCapabilities
  Allocation :: "string \<rightharpoonup> quantity"
  Capacity :: "string \<rightharpoonup> quantity"
  EffectiveCapacity :: "string \<rightharpoonup> quantity"
  Cells :: "Cell list"
  NumInstances :: int
  HypervisorID :: string
  ServiceID :: string
  Traits :: "string list"
  Aggregates :: "Aggregate list"
  InternalIP :: string
  Evicted :: bool
  Conditions :: "condition list"
  SpecHash :: string

text \<open>
  The object metadata the operator reads: name, UID, generation, labels, annotations, the
  managers of \<open>managedFields\<close>, the owner references and the deletion timestamp
  (\<open>0\<close> when unset).
\<close>

record OwnerRef =
  or_APIVersion :: string
  or_Kind :: string
  or_Name :: string
  or_UID :: string
  or_Controller :: "bool option"
  or_BlockOwnerDeletion :: "bool option"

record ObjectMeta =
  Name :: string
  UID :: string
  Generation :: int
  Labels :: label_map
  Annotations :: label_map
  ManagedFields :: "string list"
  OwnerReferences :: "OwnerRef list"
  DeletionTimestamp :: go_time

record Hypervisor =
  Meta :: ObjectMeta
  Spec :: HypervisorSpec
  hv_Status :: HypervisorStatus

abbreviation hv_Name :: "Hypervisor \<Rightarrow> string" where "hv_Name hv \<equiv> Name (Meta hv)"
abbreviation hv_Conditions :: "Hypervisor \<Rightarrow> condition list" where
  "hv_Conditions hv \<equiv> Conditions (hv_Status hv)"
abbreviation hv_Maintenance :: "Hypervisor \<Rightarrow> string" where
  "hv_Maintenance hv \<equiv> Maintenance (Spec hv)"

section \<open>Eviction\<close>

record EvictionSpec =
  es_Hypervisor :: string
  es_Reason :: string

record EvictionStatus =
  HypervisorServiceId :: string
  OutstandingRamMb :: int
  OutstandingInstances :: "string list"
  ev_Conditions :: "condition list"

record Eviction =
  ev_Meta :: ObjectMeta
  ev_Spec :: EvictionSpec
  ev_Status :: EvictionStatus

section \<open>Zero values, for object literals and concrete inputs\<close>

definition empty_meta :: "string \<Rightarrow> ObjectMeta" where
  "empty_meta n = \<lparr>Name = n, UID = [], Generation = 0, Labels = Map.empty, Annotations = Map.empty,
     ManagedFields = [], OwnerReferences = [], DeletionTimestamp = 0\<rparr>"

definition zero_spec :: HypervisorSpec where
  "zero_spec = \<lparr>OperatingSystemVersion = [], Reboot = False, EvacuateOnReboot = False,
     LifecycleEnabled = False, SkipTests = False, CustomTraits = [], spec_Aggregates = [], Groups = [],
     AllowedProjects = [], HighAvailability = False, CreateCertManagerCertificate = False,
     InstallCertificate = False, Maintenance = [], MaintenanceReason = [], Overcommit = Map.empty\<rparr>"

definition zero_os :: OperatingSystemStatus where
  "zero_os = \<lparr>os_Version = [], VariantID = [], PrettyVersion = [], KernelName = [], KernelRelease = [],
     KernelVersion = [], KernelCommandLine = [], HardwareVendor = [], HardwareModel = [],
     HardwareSerial = [], FirmwareVersion = [], FirmwareVendor = [], FirmwareDate = 0,
     GardenLinuxCommitID = [], GardenLinuxFeatures = []\<rparr>"

definition zero_status :: HypervisorStatus where
  "zero_status = \<lparr>LibVirtVersion = [], HypervisorVersion = [], OperatingSystem = zero_os,
     Update = \<lparr>InProgress = False, Installed = [], Retry = 0\<rparr>, Instances = [],
     st_Capabilities = \<lparr>HostCpuArch = [], HostMemory = [], HostCpus = []\<rparr>,
     st_DomainCapabilities = \<lparr>Arch = [], HypervisorType = [], SupportedDevices = [],
       SupportedCpuModes = [], SupportedFeatures = []\<rparr>,
     Allocation = Map.empty, Capacity = Map.empty, EffectiveCapacity = Map.empty, Cells = [],
     NumInstances = 0, HypervisorID = [], ServiceID = [], Traits = [], Aggregates = [],
     InternalIP = [], Evicted = False, Conditions = [], SpecHash = []\<rparr>"

definition empty_hypervisor :: "string \<Rightarrow> Hypervisor" where
  "empty_hypervisor n = \<lparr>Meta = empty_meta n, Spec = zero_spec, hv_Status = zero_status\<rparr>"

definition empty_eviction :: "string \<Rightarrow> Eviction" where
  "empty_eviction n = \<lparr>ev_Meta = empty_meta n, ev_Spec = \<lparr>es_Hypervisor = [], es_Reason = []\<rparr>,
     ev_Status = \<lparr>HypervisorServiceId = [], OutstandingRamMb = 0, OutstandingInstances = [], ev_Conditions = []\<rparr>\<rparr>"

lemmas zero_values = empty_meta_def zero_spec_def zero_os_def zero_status_def empty_hypervisor_def
  empty_eviction_def

section \<open>Admission of Hypervisor and Eviction writes\<close>

text \<open>
  The rules of the markers on \<open>HypervisorSpec\<close>. A field with \<open>omitempty\<close> is absent exactly when
  it holds the zero value, so \<open>has(self.maintenance)\<close> is \<open>Maintenance s \<noteq> ''''\<close>; a CEL
  comparison on an absent field is an error, which a disjunction treats as false.
\<close>

definition spec_valid :: "HypervisorSpec \<Rightarrow> bool" where
  "spec_valid s =
     (Maintenance s \<in> {MaintenanceUnset, MaintenanceManual, MaintenanceAuto, MaintenanceHA, MaintenanceTermination}
      \<and> (Maintenance s = MaintenanceUnset \<or> Maintenance s \<noteq> MaintenanceManual \<or> 0 < length (MaintenanceReason s))
      \<and> (\<forall>k \<in> dom (Overcommit s). 1 \<le> the (Overcommit s k))
      \<and> list_all Group_valid (Groups s))"

definition spec_transition_valid :: "HypervisorSpec \<Rightarrow> HypervisorSpec \<Rightarrow> bool" where
  "spec_transition_valid oldSelf self =
     (Maintenance oldSelf = MaintenanceUnset \<or> Maintenance oldSelf \<noteq> MaintenanceTermination
      \<or> Maintenance self = MaintenanceHA \<or> self = oldSelf)"

definition admits_update :: "HypervisorSpec \<Rightarrow> HypervisorSpec \<Rightarrow> bool" where
  "admits_update oldSelf self = (spec_valid self \<and> spec_transition_valid oldSelf self)"

definition eviction_spec_valid :: "EvictionSpec \<Rightarrow> bool" where
  "eviction_spec_valid s = (1 \<le> length (es_Hypervisor s) \<and> 1 \<le> length (es_Reason s))"

text \<open>A sequence of admitted writes, each against the spec the one before it stored.\<close>

fun admitted_run :: "HypervisorSpec \<Rightarrow> HypervisorSpec list \<Rightarrow> bool" where
  "admitted_run s [] = True"
| "admitted_run s (t # ts) = (admits_update s t \<and> admitted_run t ts)"

end
