(* ===== verification/Environment.thy ===== *)
theory Environment
  imports Api_Types
begin

text \<open>
  What the controllers talk to. Kubernetes (through controller-runtime), Nova, Placement,
  Glance, Neutron and Cinder (through gophercloud) and the helpers of apimachinery are not part
  of this repository, so they are parameters: the record \<open>lib\<close> holds the pure library functions
  the sources call, the records \<open>kube\<close>, \<open>nova\<close>, \<open>placement\<close> and \<open>test_resources\<close> hold one
  response function per remote operation.

  A remote operation answers from the history of all calls made so far (a \<open>trace\<close>), so that an
  arbitrary function of that history is an arbitrary, stateful and concurrently changing service:
  reading twice may give two answers, because the first read is part of the history of the second.
  Every handler takes the history at its start and returns the history at its end; what it did is
  the part it appended. \<open>ask\<close> performs one call.
\<close>

section \<open>Data of the remote services\<close>

record server =
  sv_ID :: string
  sv_Name :: string
  sv_Status :: string
  sv_TaskState :: string
  sv_PowerState :: int
  sv_HypervisorHostname :: string
  sv_FaultMessage :: string
  sv_LaunchedAt :: go_time

record nova_hypervisor =
  nh_ID :: string
  nh_HypervisorHostname :: string
  nh_ServiceID :: string
  nh_Servers :: "string list option"
  nh_MemoryMBUsed :: int
  nh_RunningVMs :: int

record nova_aggregate =
  na_ID :: int
  na_Name :: string
  na_UUID :: string
  na_Hosts :: "string list"
  na_Metadata :: label_map

text \<open>\<open>MigrationInfo\<close> and \<open>UpdateServiceOpts\<close> are declared by the repository (package openstack).\<close>

record MigrationInfo =
  mi_ID :: int
  mi_UUID :: string
  mi_InstanceUUID :: string
  mi_Status :: string
  mi_SourceCompute :: string
  mi_DestCompute :: string
  mi_MigrationType :: string

record UpdateServiceOpts =
  us_Status :: string
  us_DisabledReason :: string
  us_ForcedDown :: "bool option"

record UpdateTraitsOpts =
  ut_Traits :: "string list"
  ut_ResourceProviderGeneration :: int

record server_create_opts =
  sc_Name :: string
  sc_AvailabilityZone :: string
  sc_FlavorRef :: string
  sc_ImageUUID :: string
  sc_BootIndex :: int
  sc_SourceType :: string
  sc_VolumeSize :: int
  sc_DiskBus :: string
  sc_DeleteOnTermination :: bool
  sc_DestinationType :: string
  sc_VolumeType :: string
  sc_NetworkUUID :: string

record volume =
  vo_ID :: string
  vo_Name :: string
  vo_Status :: string

record image =
  im_ID :: string
  im_Name :: string

section \<open>Kubernetes objects other than the custom resources\<close>

record taint =
  ta_Key :: string
  ta_Effect :: string

record toleration =
  to_Key :: string
  to_Operator :: string
  to_Value :: string
  to_Effect :: string
  to_TolerationSeconds :: "int option"

record pod =
  pod_Namespace :: string
  pod_Name :: string
  pod_Phase :: string
  pod_Tolerations :: "toleration list"

record node_condition =
  nc_Type :: string
  nc_Status :: string

record node_address =
  na_Type :: string
  na_Address :: string

record node =
  node_Meta :: ObjectMeta
  node_Taints :: "taint list"
  node_Conditions :: "node_condition list"
  node_Addresses :: "node_address list"

record pod_disruption_budget =
  pdb_Name :: string
  pdb_Namespace :: string
  pdb_Labels :: label_map
  pdb_OwnerReferences :: "OwnerRef list"
  pdb_MinAvailable :: int
  pdb_MatchLabels :: label_map

record deployment =
  dep_Name :: string
  dep_Namespace :: string
  dep_OwnerReferences :: "OwnerRef list"
  dep_Labels :: label_map
  dep_Replicas :: int
  dep_MatchLabels :: label_map
  dep_MaxUnavailable :: int
  dep_MaxSurge :: int
  dep_PodLabels :: label_map
  dep_HostNetwork :: bool
  dep_NodeSelector :: label_map
  dep_TerminationGracePeriodSeconds :: int
  dep_Tolerations :: "toleration list"
  dep_ContainerName :: string
  dep_Image :: string
  dep_Command :: "string list"
  dep_StartupProbe :: "string list"
  dep_ProbeInitialDelaySeconds :: int
  dep_ProbePeriodSeconds :: int
  dep_ProbeFailureThreshold :: int
  dep_ProbeSuccessThreshold :: int

record certificate =
  crt_Name :: string
  crt_Namespace :: string
  crt_OwnerReferences :: "OwnerRef list"
  crt_SecretName :: string
  crt_KeyAlgorithm :: string
  crt_KeyEncoding :: string
  crt_KeySize :: int
  crt_Duration :: int
  crt_RenewBefore :: int
  crt_IsCA :: bool
  crt_Usages :: "string list"
  crt_Organizations :: "string list"
  crt_CommonName :: string
  crt_DNSNames :: "string list"
  crt_IPAddresses :: "string list"
  crt_IssuerName :: string
  crt_IssuerKind :: string
  crt_IssuerGroup :: string

text \<open>
  Apply configurations: a field that is \<open>None\<close> is absent from the payload. The status
  configuration has the fields some controller of the repository sets.
\<close>

record ConditionApplyConfiguration =
  ac_Type :: "string option"
  ac_Status :: "ConditionStatus option"
  ac_ObservedGeneration :: "int option"
  ac_LastTransitionTime :: "go_time option"
  ac_Reason :: "string option"
  ac_Message :: "string option"

record HypervisorStatusApplyConfiguration =
  cfg_Evicted :: "bool option"
  cfg_HypervisorID :: "string option"
  cfg_ServiceID :: "string option"
  cfg_Traits :: "string list"
  cfg_Conditions :: "ConditionApplyConfiguration list"

definition HypervisorStatus_cfg :: HypervisorStatusApplyConfiguration where
  "HypervisorStatus_cfg = \<lparr>cfg_Evicted = None, cfg_HypervisorID = None, cfg_ServiceID = None,
     cfg_Traits = [], cfg_Conditions = []\<rparr>"

record EvictionApplyConfiguration =
  ea_Name :: string
  ea_Labels :: label_map
  ea_OwnerReferences :: "OwnerRef list"
  ea_Spec :: EvictionSpec

section \<open>Calls and histories\<close>

datatype (plugins only: code) kube_call =
    GetHypervisor string
  | GetEviction string
  | GetNode string
  | StatusPatchHypervisor Hypervisor Hypervisor string
  | StatusPatchEviction Eviction Eviction string
  | StatusApplyHypervisor string HypervisorStatusApplyConfiguration string
  | PatchHypervisor Hypervisor Hypervisor string
  | CreateHypervisor Hypervisor
  | ApplyEviction EvictionApplyConfiguration string
  | DeleteEviction string
  | ListPods string string string
  | PatchNode node node string
  | ApplyPodDisruptionBudget pod_disruption_budget string
  | ApplyDeployment deployment string
  | ApplyCertificate certificate string

datatype (plugins only: code) server_call =
    ServersGet string
  | ServersList string
  | ServersListSimple string
  | ServersCreate server_create_opts
  | ServersDelete string
  | ServersConfirmResize string
  | ServersLiveMigrate string bool
  | ServersMigrate string
  | ServersShowConsoleOutput string int

datatype (plugins only: code) compute_call =
    HypervisorsGetExt string
  | HypervisorsList string bool
  | ServicesUpdate string UpdateServiceOpts
  | ServicesDelete string
  | MigrationsList string string
  | MigrationsDelete string int
  | AggregatesList
  | AggregatesAddHost int string
  | AggregatesRemoveHost int string

datatype (plugins only: code) placement_call =
    ProvidersGet string
  | ProvidersGetTraits string
  | ProvidersUpdateTraits string UpdateTraitsOpts
  | ProvidersGetAllocations string
  | ProvidersDelete string
  | AllocationsList string
  | AllocationsDelete string

datatype (plugins only: code) test_call =
    VolumesList
  | VolumesDelete string
  | ImagesList string
  | NetworksList

datatype (plugins only: code) call =
    Kube kube_call
  | Server server_call
  | Compute compute_call
  | Placement placement_call
  | TestProject test_call

type_synonym trace = "call list"

text \<open>One remote call: the answer depends on the history before it, which then grows by the call.\<close>

definition ask :: "(trace \<Rightarrow> 'r) \<Rightarrow> call \<Rightarrow> trace \<Rightarrow> 'r \<times> trace" where
  "ask f c tr = (f tr, tr @ [c])"

lemma fst_ask [simp]: "fst (ask f c tr) = f tr"
  and snd_ask [simp]: "snd (ask f c tr) = tr @ [c]"
  by (simp_all add: ask_def)

text \<open>The calls a handler made: what the history after it has beyond the one before it.\<close>

definition new_calls :: "trace \<Rightarrow> trace \<Rightarrow> call list" where
  "new_calls tr tr' = drop (length tr) tr'"

lemma new_calls_self [simp]: "new_calls tr tr = []"
  by (simp add: new_calls_def)

lemma new_calls_append [simp]: "new_calls tr (tr @ cs) = cs"
  by (simp add: new_calls_def)

text \<open>The history grew by calls that all satisfy a predicate.\<close>

definition extends_by :: "(call \<Rightarrow> bool) \<Rightarrow> trace \<Rightarrow> trace \<Rightarrow> bool" where
  "extends_by P tr tr' \<longleftrightarrow> (\<exists>cs. tr' = tr @ cs \<and> list_all P cs)"

lemma extends_by_refl [simp, intro]: "extends_by P tr tr"
  by (auto simp: extends_by_def)

lemma extends_by_trans: "extends_by P tr tr1 \<Longrightarrow> extends_by P tr1 tr2 \<Longrightarrow> extends_by P tr tr2"
  by (auto simp: extends_by_def)

lemma extends_by_append: "extends_by P tr tr1 \<Longrightarrow> list_all P cs \<Longrightarrow> extends_by P tr (tr1 @ cs)"
  by (auto simp: extends_by_def)

lemma extends_by_mono: "extends_by P tr tr' \<Longrightarrow> (\<And>c. P c \<Longrightarrow> Q c) \<Longrightarrow> extends_by Q tr tr'"
  by (auto simp: extends_by_def list_all_iff)

lemma extends_by_new_calls: "extends_by P tr tr' \<Longrightarrow> c \<in> set (new_calls tr tr') \<Longrightarrow> P c"
  by (auto simp: extends_by_def list_all_iff)

lemma extends_by_trivial: "extends_by P tr tr' \<Longrightarrow> \<exists>cs. tr' = tr @ cs"
  by (auto simp: extends_by_def)

lemma extends_by_Cons: "extends_by P (tr @ [c]) tr' \<Longrightarrow> P c \<Longrightarrow> extends_by P tr tr'"
  by (auto simp: extends_by_def)

lemma extends_by_snoc [intro]: "P c \<Longrightarrow> extends_by P tr (tr @ [c])"
  by (auto simp: extends_by_def)

text \<open>
  Events of a stretch of history: \<open>Q tr c\<close> says that the call \<open>c\<close>, made after history \<open>tr\<close>, is such
  an event (its answer is a function of \<open>tr\<close>). How often one happened, and whether one did.
\<close>

fun count_calls :: "(trace \<Rightarrow> call \<Rightarrow> bool) \<Rightarrow> trace \<Rightarrow> call list \<Rightarrow> nat" where
  "count_calls Q tr [] = 0"
| "count_calls Q tr (c # cs) = (if Q tr c then 1 else 0) + count_calls Q (tr @ [c]) cs"

fun occurs :: "(trace \<Rightarrow> call \<Rightarrow> bool) \<Rightarrow> trace \<Rightarrow> call list \<Rightarrow> bool" where
  "occurs Q tr [] = False"
| "occurs Q tr (c # cs) = (Q tr c \<or> occurs Q (tr @ [c]) cs)"

lemma count_calls_append [simp]:
  "count_calls Q tr (xs @ ys) = count_calls Q tr xs + count_calls Q (tr @ xs) ys"
  by (induction xs arbitrary: tr) auto

lemma occurs_append [simp]: "occurs Q tr (xs @ ys) \<longleftrightarrow> occurs Q tr xs \<or> occurs Q (tr @ xs) ys"
  by (induction xs arbitrary: tr) auto

lemma count_calls_none: "(\<And>t c. c \<in> set cs \<Longrightarrow> \<not> Q t c) \<Longrightarrow> count_calls Q tr cs = 0"
  by (induction cs arbitrary: tr) auto

text \<open>An event of a stretch happened at one of its calls, after the part of it before that call.\<close>

lemma occurs_iff: "occurs Q tr cs \<longleftrightarrow> (\<exists>xs c ys. cs = xs @ c # ys \<and> Q (tr @ xs) c)"
proof (induction cs arbitrary: tr)
  case Nil
  then show ?case by simp
next
  case (Cons d ds)
  show ?case
  proof
    assume "occurs Q tr (d # ds)"
    then consider "Q tr d" | "occurs Q (tr @ [d]) ds" by auto
    then show "\<exists>xs c ys. d # ds = xs @ c # ys \<and> Q (tr @ xs) c"
    proof cases
      case 1
      then show ?thesis by (intro exI [of _ "[]"]) auto
    next
      case 2
      then obtain xs c ys where "ds = xs @ c # ys" "Q (tr @ [d] @ xs) c"
        using Cons.IH by auto
      then show ?thesis by (intro exI [of _ "d # xs"]) auto
    qed
  next
    assume "\<exists>xs c ys. d # ds = xs @ c # ys \<and> Q (tr @ xs) c"
    then obtain xs c ys where "d # ds = xs @ c # ys" "Q (tr @ xs) c" by blast
    then show "occurs Q tr (d # ds)" by (simp del: occurs.simps(2)) simp
  qed
qed

lemma occursD: "occurs Q tr cs \<Longrightarrow> \<exists>c t. c \<in> set cs \<and> Q t c"
  unfolding occurs_iff by auto

section \<open>Remote services\<close>

record kube =
  k_get_Hypervisor :: "string \<Rightarrow> trace \<Rightarrow> go_error + Hypervisor"
  k_get_Eviction :: "string \<Rightarrow> trace \<Rightarrow> go_error + Eviction"
  k_get_Node :: "string \<Rightarrow> trace \<Rightarrow> go_error + node"
  k_status_patch_Hypervisor :: "Hypervisor \<Rightarrow> Hypervisor \<Rightarrow> trace \<Rightarrow> go_error option"
  k_status_patch_Eviction :: "Eviction \<Rightarrow> Eviction \<Rightarrow> trace \<Rightarrow> go_error option"
  k_status_apply_Hypervisor :: "string \<Rightarrow> HypervisorStatusApplyConfiguration \<Rightarrow> trace \<Rightarrow> go_error option"
  k_patch_Hypervisor :: "Hypervisor \<Rightarrow> Hypervisor \<Rightarrow> trace \<Rightarrow> go_error + Hypervisor"
  k_create_Hypervisor :: "Hypervisor \<Rightarrow> trace \<Rightarrow> go_error option"
  k_apply_Eviction :: "EvictionApplyConfiguration \<Rightarrow> trace \<Rightarrow> go_error option"
  k_delete_Eviction :: "string \<Rightarrow> trace \<Rightarrow> go_error option"
  k_list_Pods :: "string \<Rightarrow> string \<Rightarrow> string \<Rightarrow> trace \<Rightarrow> go_error + (pod list \<times> string)"
  k_patch_Node :: "node \<Rightarrow> node \<Rightarrow> trace \<Rightarrow> go_error option"
  k_apply_PodDisruptionBudget :: "pod_disruption_budget \<Rightarrow> trace \<Rightarrow> go_error option"
  k_apply_Deployment :: "deployment \<Rightarrow> trace \<Rightarrow> go_error option"
  k_apply_Certificate :: "certificate \<Rightarrow> trace \<Rightarrow> go_error option"

record nova =
  n_servers_Get :: "string \<Rightarrow> trace \<Rightarrow> go_error + server"
  n_servers_List :: "string \<Rightarrow> trace \<Rightarrow> go_error option \<times> (go_error + server list)"
  n_servers_ListSimple :: "string \<Rightarrow> trace \<Rightarrow> go_error option \<times> (go_error + server list)"
  n_servers_Create :: "server_create_opts \<Rightarrow> trace \<Rightarrow> go_error + server option"
  n_servers_Delete :: "string \<Rightarrow> trace \<Rightarrow> go_error option"
  n_servers_ConfirmResize :: "string \<Rightarrow> trace \<Rightarrow> go_error option"
  n_servers_LiveMigrate :: "string \<Rightarrow> bool \<Rightarrow> trace \<Rightarrow> go_error option"
  n_servers_Migrate :: "string \<Rightarrow> trace \<Rightarrow> go_error option"
  n_servers_ShowConsoleOutput :: "string \<Rightarrow> int \<Rightarrow> trace \<Rightarrow> go_error + string"
  n_hypervisors_GetExt :: "string \<Rightarrow> trace \<Rightarrow> go_error + nova_hypervisor"
  n_hypervisors_List :: "string \<Rightarrow> bool \<Rightarrow> trace \<Rightarrow> go_error + (go_error + nova_hypervisor list)"
  n_services_Update :: "string \<Rightarrow> UpdateServiceOpts \<Rightarrow> trace \<Rightarrow> go_error option"
  n_services_Delete :: "string \<Rightarrow> trace \<Rightarrow> go_error option"
  n_migrations_List :: "string \<Rightarrow> string \<Rightarrow> trace \<Rightarrow> go_error + MigrationInfo list"
  n_migrations_Delete :: "string \<Rightarrow> int \<Rightarrow> trace \<Rightarrow> go_error option"
  n_aggregates_List :: "trace \<Rightarrow> go_error + (go_error + nova_aggregate list)"
  n_aggregates_AddHost :: "int \<Rightarrow> string \<Rightarrow> trace \<Rightarrow> go_error option"
  n_aggregates_RemoveHost :: "int \<Rightarrow> string \<Rightarrow> trace \<Rightarrow> go_error option"

text \<open>
  \<open>p_providers_Get\<close> keeps both results of the Go call, since the caller uses the pointer after an
  ignored error: the UUID of the provider it points to, if it is not nil.
\<close>

record placement =
  p_providers_Get :: "string \<Rightarrow> trace \<Rightarrow> string option \<times> go_error option"
  p_providers_GetTraits :: "string \<Rightarrow> trace \<Rightarrow> go_error + (string list \<times> int)"
  p_providers_UpdateTraits :: "string \<Rightarrow> UpdateTraitsOpts \<Rightarrow> trace \<Rightarrow> go_error option"
  p_providers_GetAllocations :: "string \<Rightarrow> trace \<Rightarrow> go_error + string list"
  p_providers_Delete :: "string \<Rightarrow> trace \<Rightarrow> go_error option"
  p_allocations_List :: "string \<Rightarrow> trace \<Rightarrow> go_error + string list"
  p_allocations_Delete :: "string \<Rightarrow> trace \<Rightarrow> go_error option"

record test_resources =
  t_volumes_List :: "trace \<Rightarrow> go_error + (go_error + volume list)"
  t_volumes_Delete :: "string \<Rightarrow> trace \<Rightarrow> go_error option"
  t_images_List :: "string \<Rightarrow> trace \<Rightarrow> go_error + (go_error + image list)"
  t_networks_List :: "trace \<Rightarrow> go_error + (go_error + string list)"

section \<open>Library functions\<close>

text \<open>
  Of \<open>k8s.io/apimachinery\<close> (meta and equality), \<open>client-go/util/retry\<close>, controller-runtime
  and gophercloud. \<open>SetStatusCondition\<close> returns the updated list and whether it changed; the
  clock it may read is inside the parameter. \<open>uuid_Parse\<close> (of google/uuid) tells whether a text
  parses; \<open>ToleratesTaint\<close> is the method of \<open>corev1.Toleration\<close>; \<open>SetOwnerReference owner object\<close> (of
  controller-runtime, with \<open>blockOwnerDeletion\<close>) gives the metadata with the reference added, or fails.
\<close>

type_synonym attempt = "trace \<Rightarrow> go_error option \<times> trace"

record lib =
  FindStatusCondition :: "condition list \<Rightarrow> string \<Rightarrow> condition option"
  SetStatusCondition :: "condition list \<Rightarrow> condition \<Rightarrow> condition list \<times> bool"
  IsStatusConditionTrue :: "condition list \<Rightarrow> string \<Rightarrow> bool"
  IsStatusConditionFalse :: "condition list \<Rightarrow> string \<Rightarrow> bool"
  ResponseCodeIs :: "go_error \<Rightarrow> nat \<Rightarrow> bool"
  IgnoreNotFound :: "go_error \<Rightarrow> go_error option"
  IsNotFound :: "go_error \<Rightarrow> bool"
  RetryOnConflict :: "attempt \<Rightarrow> attempt"
  DeepEqual_Hypervisor :: "Hypervisor \<Rightarrow> Hypervisor \<Rightarrow> bool"
  DeepEqual_Status :: "HypervisorStatus \<Rightarrow> HypervisorStatus \<Rightarrow> bool"
  uuid_Parse :: "string \<Rightarrow> bool"
  ToleratesTaint :: "toleration \<Rightarrow> taint \<Rightarrow> bool"
  SetOwnerReference :: "ObjectMeta \<Rightarrow> ObjectMeta \<Rightarrow> go_error + ObjectMeta"

abbreviation setCondition :: "lib \<Rightarrow> condition list \<Rightarrow> condition \<Rightarrow> condition list" where
  "setCondition L cs c \<equiv> fst (SetStatusCondition L cs c)"

end
