(* ===== verification/Utils.thy ===== *)
theory Utils
  imports Environment
begin

text \<open>
  Small helpers shared by the controllers: \<^verbatim>\<open>src/internal/utils/slices.go\<close>,
  \<^verbatim>\<open>src/internal/utils/lifecycle_enabled.go\<close>, \<^verbatim>\<open>src/internal/controller/utils.go\<close>,
  the constants of \<^verbatim>\<open>src/internal/controller/constants.go\<close> and
  \<open>slicesEqualUnordered\<close> of \<^verbatim>\<open>src/internal/controller/aggregates_controller.go\<close>, with the
  multiset and set specifications that their clients use.
\<close>

section \<open>Constants\<close>

abbreviation labelHypervisor :: string where "labelHypervisor \<equiv> ''nova.openstack.cloud.sap/virt-driver''"
abbreviation testAggregateName :: string where "testAggregateName \<equiv> ''tenant_filter_tests''"
abbreviation DefaultPollTime :: int where "DefaultPollTime \<equiv> 10 * second_ns"
abbreviation ShortRetryTime :: int where "ShortRetryTime \<equiv> 1 * second_ns"
abbreviation taintKeyOffboarding :: string where "taintKeyOffboarding \<equiv> ''kvm.cloud.sap/offboarding''"
abbreviation MaintenanceLabelKey :: string where "MaintenanceLabelKey \<equiv> ''cobaltcore-maintenance-controller''"
abbreviation MaintenanceNamespace :: string where "MaintenanceNamespace \<equiv> ''kube-system''"

text \<open>Label keys of the Kubernetes core API.\<close>

abbreviation LabelHostname :: string where "LabelHostname \<equiv> ''kubernetes.io/hostname''"
abbreviation LabelTopologyZone :: string where "LabelTopologyZone \<equiv> ''topology.kubernetes.io/zone''"
abbreviation LabelTopologyRegion :: string where "LabelTopologyRegion \<equiv> ''topology.kubernetes.io/region''"
abbreviation TaintEffectNoExecute :: string where "TaintEffectNoExecute \<equiv> ''NoExecute''"
abbreviation TaintEffectNoSchedule :: string where "TaintEffectNoSchedule \<equiv> ''NoSchedule''"

text \<open>Reading a missing key of a Go map gives the zero value.\<close>

definition map_get :: "label_map \<Rightarrow> string \<Rightarrow> string" where
  "map_get m k = (case m k of None \<Rightarrow> [] | Some v \<Rightarrow> v)"

section \<open>Difference\<close>

fun Difference :: "'a list \<Rightarrow> 'a list \<Rightarrow> 'a list" where
  "Difference s1 [] = []"
| "Difference s1 (item # s2) =
     (if \<not> slices_Contains s1 item then item # Difference s1 s2 else Difference s1 s2)"

lemma Difference_eq_filter: "Difference s1 s2 = filter (\<lambda>x. x \<notin> set s1) s2"
  by (induction s2) auto

lemma set_Difference [simp]: "set (Difference s1 s2) = set s2 - set s1"
  by (auto simp: Difference_eq_filter)

lemma distinct_Difference: "distinct s2 \<Longrightarrow> distinct (Difference s1 s2)"
  by (simp add: Difference_eq_filter)

section \<open>slicesEqualUnordered\<close>

text \<open>The map of counts: an absent key counts as zero.\<close>

fun count_up :: "(string \<Rightarrow> int) \<Rightarrow> string list \<Rightarrow> (string \<Rightarrow> int)" where
  "count_up counts [] = counts"
| "count_up counts (s # a) = count_up (counts(s := counts s + 1)) a"

fun count_down :: "(string \<Rightarrow> int) \<Rightarrow> string list \<Rightarrow> bool" where
  "count_down counts [] = True"
| "count_down counts (s # b) =
     (let counts' = counts(s := counts s - 1) in
      if counts' s < 0 then False else count_down counts' b)"

definition slicesEqualUnordered :: "string list \<Rightarrow> string list \<Rightarrow> bool" where
  "slicesEqualUnordered a b =
     (if length a \<noteq> length b then False else count_down (count_up (\<lambda>_. 0) a) b)"

lemma count_up_eq: "count_up counts a = (\<lambda>x. counts x + int (count_list a x))"
  by (induction a arbitrary: counts) (auto simp: fun_eq_iff)

lemma count_down_iff:
  "(\<And>x. 0 \<le> counts x) \<Longrightarrow> count_down counts b \<longleftrightarrow> (\<forall>x. int (count_list b x) \<le> counts x)"
proof (induction b arbitrary: counts)
  case Nil
  then show ?case by simp
next
  case (Cons s b)
  show ?case
  proof (cases "counts s < 1")
    case True
    then have "\<not> int (count_list (s # b) s) \<le> counts s" by simp
    with True show ?thesis by (auto simp: Let_def)
  next
    case False
    let ?c = "counts(s := counts s - 1)"
    have "count_down ?c b \<longleftrightarrow> (\<forall>x. int (count_list b x) \<le> ?c x)"
      by (rule Cons.IH) (use False Cons.prems in simp)
    also have "\<dots> \<longleftrightarrow> (\<forall>x. int (count_list (s # b) x) \<le> counts x)"
      by (rule all_cong1) auto
    finally show ?thesis using False by (simp add: Let_def)
  qed
qed

lemma slicesEqualUnordered_iff: "slicesEqualUnordered a b \<longleftrightarrow> mset a = mset b"
proof
  assume eq: "slicesEqualUnordered a b"
  then have len: "length a = length b" and "\<forall>x. count_list b x \<le> count_list a x"
    by (auto simp: slicesEqualUnordered_def count_down_iff count_up_eq split: if_splits)
  then have "mset b \<subseteq># mset a"
    by (simp add: subseteq_mset_def count_mset)
  with len show "mset a = mset b"
    by (metis mset_subset_size nat_neq_iff size_mset subset_mset.le_imp_less_or_eq)
next
  assume "mset a = mset b"
  then show "slicesEqualUnordered a b"
    by (metis (mono_tags, lifting) add.left_neutral count_down_iff count_mset count_up_eq
        mset_eq_length of_nat_0_le_iff order_refl slicesEqualUnordered_def)
qed

section \<open>Nodes and metadata\<close>

fun IsNodeConditionPresentAndEqual :: "node_condition list \<Rightarrow> string \<Rightarrow> string \<Rightarrow> bool" where
  "IsNodeConditionPresentAndEqual [] conditionType status = False"
| "IsNodeConditionPresentAndEqual (c # cs) conditionType status =
     (if nc_Type c = conditionType then nc_Status c = status
      else IsNodeConditionPresentAndEqual cs conditionType status)"

fun FindNodeStatusCondition :: "node_condition list \<Rightarrow> string \<Rightarrow> node_condition option" where
  "FindNodeStatusCondition [] conditionType = None"
| "FindNodeStatusCondition (c # cs) conditionType =
     (if nc_Type c = conditionType then Some c else FindNodeStatusCondition cs conditionType)"

definition OwnerReference :: "ObjectMeta \<Rightarrow> string \<Rightarrow> string \<Rightarrow> string \<Rightarrow> OwnerRef" where
  "OwnerReference obj grp version kind =
     \<lparr>or_APIVersion = grp @ ''/'' @ version, or_Kind = kind, or_Name = Name obj, or_UID = UID obj,
      or_Controller = None, or_BlockOwnerDeletion = None\<rparr>"

fun any_kubectl :: "string list \<Rightarrow> bool" where
  "any_kubectl [] = False"
| "any_kubectl (m # ms) = (if strings_HasPrefix m ''kubectl'' then True else any_kubectl ms)"

definition HasKubectlManagedFields :: "ObjectMeta \<Rightarrow> bool" where
  "HasKubectlManagedFields object = any_kubectl (ManagedFields object)"

definition LifecycleEnabledPredicate :: "Hypervisor option \<Rightarrow> bool" where
  "LifecycleEnabledPredicate object =
     (case object of Some hv \<Rightarrow> LifecycleEnabled (Spec hv) | None \<Rightarrow> True)"

text \<open>Two readings of a node condition agree: the one by value and the one by pointer.\<close>

lemma node_condition_readings_agree:
  "IsNodeConditionPresentAndEqual cs ty st \<longleftrightarrow>
     (\<exists>c. FindNodeStatusCondition cs ty = Some c \<and> nc_Status c = st)"
  by (induction cs) auto

end
