(* ===== verification/Conditions.thy ===== *)
theory Conditions
  imports Environment
begin

text \<open>
  Status conditions: \<^verbatim>\<open>src/internal/utils/conditions.go\<close> (the repository's own upsert on apply
  configurations), the contract of a condition list as a locale, and what the sources rely on
  of \<open>meta.SetStatusCondition\<close> and its companions in apimachinery. The comment in conditions.go
  says that its upsert mirrors \<open>meta.SetStatusCondition\<close>: the locale is that common contract,
  proved for the repository's function by interpretation and assumed, as \<open>meta_laws\<close>, of the
  library's.
\<close>

section \<open>ConditionFromStatus and SetApplyConfigurationStatusCondition\<close>

definition ConditionFromStatus :: "condition \<Rightarrow> ConditionApplyConfiguration" where
  "ConditionFromStatus c =
     \<lparr>ac_Type = Some (Type c), ac_Status = Some (Status c),
      ac_ObservedGeneration = Some (ObservedGeneration c),
      ac_LastTransitionTime = Some (LastTransitionTime c),
      ac_Reason = Some (Reason c), ac_Message = Some (Message c)\<rparr>"

text \<open>\<open>k8sacmetav1.Condition().WithType(..).WithStatus(..).WithReason(..).WithMessage(..)\<close>\<close>

definition ac_condition :: "string \<Rightarrow> ConditionStatus \<Rightarrow> string \<Rightarrow> string \<Rightarrow> ConditionApplyConfiguration" where
  "ac_condition ty st reason msg =
     \<lparr>ac_Type = Some ty, ac_Status = Some st, ac_ObservedGeneration = None,
      ac_LastTransitionTime = None, ac_Reason = Some reason, ac_Message = Some msg\<rparr>"

lemma ac_condition_sel [simp]:
  "ac_Type (ac_condition ty st reason msg) = Some ty"
  "ac_Status (ac_condition ty st reason msg) = Some st"
  "ac_Reason (ac_condition ty st reason msg) = Some reason"
  "ac_Message (ac_condition ty st reason msg) = Some msg"
  "ac_LastTransitionTime (ac_condition ty st reason msg) = None"
  "ac_ObservedGeneration (ac_condition ty st reason msg) = None"
  by (simp_all add: ac_condition_def)

lemma ConditionFromStatus_sel [simp]:
  "ac_Type (ConditionFromStatus c) = Some (Type c)"
  "ac_Status (ConditionFromStatus c) = Some (Status c)"
  "ac_Reason (ConditionFromStatus c) = Some (Reason c)"
  "ac_Message (ConditionFromStatus c) = Some (Message c)"
  "ac_LastTransitionTime (ConditionFromStatus c) = Some (LastTransitionTime c)"
  "ac_ObservedGeneration (ConditionFromStatus c) = Some (ObservedGeneration c)"
  by (simp_all add: ConditionFromStatus_def)

text \<open>\<open>newCondition.LastTransitionTime == nil || newCondition.LastTransitionTime.IsZero()\<close>\<close>

definition no_time :: "ConditionApplyConfiguration \<Rightarrow> bool" where
  "no_time c = (case ac_LastTransitionTime c of None \<Rightarrow> True | Some t \<Rightarrow> t = 0)"

definition status_changed :: "ConditionApplyConfiguration \<Rightarrow> ConditionApplyConfiguration \<Rightarrow> bool" where
  "status_changed existing newCondition =
     ((ac_Status existing = None) \<noteq> (ac_Status newCondition = None)
      \<or> (ac_Status existing \<noteq> None \<and> the (ac_Status existing) \<noteq> the (ac_Status newCondition)))"

definition update_existing ::
    "go_time \<Rightarrow> ConditionApplyConfiguration \<Rightarrow> ConditionApplyConfiguration \<Rightarrow> ConditionApplyConfiguration" where
  "update_existing now existing newCondition =
     (let e1 = (if status_changed existing newCondition
                then existing\<lparr>ac_Status := ac_Status newCondition,
                       ac_LastTransitionTime :=
                         (if \<not> no_time newCondition then ac_LastTransitionTime newCondition else Some now)\<rparr>
                else existing)
      in e1\<lparr>ac_Reason := ac_Reason newCondition, ac_Message := ac_Message newCondition,
            ac_ObservedGeneration := ac_ObservedGeneration newCondition\<rparr>)"

text \<open>
  The loop that finds the first entry of the new condition's type, and what is done at that
  entry in place, or at the end of the list when there is none.
\<close>

fun upsert_first ::
    "go_time \<Rightarrow> ConditionApplyConfiguration list \<Rightarrow> ConditionApplyConfiguration \<Rightarrow> ConditionApplyConfiguration list" where
  "upsert_first now [] newCondition =
     [if no_time newCondition then newCondition\<lparr>ac_LastTransitionTime := Some now\<rparr> else newCondition]"
| "upsert_first now (c # cs) newCondition =
     (if ac_Type c \<noteq> None \<and> ac_Type c = ac_Type newCondition
      then update_existing now c newCondition # cs
      else c # upsert_first now cs newCondition)"

definition set_apply_condition ::
    "go_time \<Rightarrow> ConditionApplyConfiguration list \<Rightarrow> ConditionApplyConfiguration \<Rightarrow> ConditionApplyConfiguration list" where
  "set_apply_condition now conditions newCondition =
     (if ac_Type newCondition = None \<or> ac_Type newCondition = Some [] then conditions
      else upsert_first now conditions newCondition)"

text \<open>The exported function takes a pointer to the slice, which may be nil.\<close>

definition SetApplyConfigurationStatusCondition ::
    "go_time \<Rightarrow> ConditionApplyConfiguration list option \<Rightarrow> ConditionApplyConfiguration
     \<Rightarrow> ConditionApplyConfiguration list option" where
  "SetApplyConfigurationStatusCondition now conditions newCondition =
     (case conditions of None \<Rightarrow> None
      | Some cs \<Rightarrow> Some (set_apply_condition now cs newCondition))"

section \<open>The contract of a condition list\<close>

text \<open>
  \<open>find\<close> looks an entry up by its key, \<open>put\<close> is the upsert, \<open>view\<close> the fields that an
  upsert always writes (everything but the transition time), \<open>ok\<close> the entries it accepts.
\<close>

locale condition_store =
  fixes find :: "'cs \<Rightarrow> 'k \<Rightarrow> 'c option"
    and put :: "'cs \<Rightarrow> 'c \<Rightarrow> 'cs"
    and key :: "'c \<Rightarrow> 'k"
    and view :: "'c \<Rightarrow> 'v"
    and ok :: "'c \<Rightarrow> bool"
  assumes find_put_same: "ok c \<Longrightarrow> map_option view (find (put s c) (key c)) = Some (view c)"
    and find_put_other: "ok c \<Longrightarrow> k \<noteq> key c \<Longrightarrow> find (put s c) k = find s k"
begin

lemma view_find_put:
  "ok c \<Longrightarrow> map_option view (find (put s c) k) = (if k = key c then Some (view c) else map_option view (find s k))"
  by (simp add: find_put_same find_put_other)

lemma find_puts_other:
  "\<forall>c \<in> set cs. ok c \<Longrightarrow> k \<notin> key ` set cs \<Longrightarrow> find (foldl put s cs) k = find s k"
  by (induction cs arbitrary: s) (auto simp: find_put_other)

lemma find_puts_same:
  "\<forall>c \<in> set cs. ok c \<Longrightarrow> distinct (map key cs) \<Longrightarrow> c \<in> set cs \<Longrightarrow>
   map_option view (find (foldl put s cs) (key c)) = Some (view c)"
proof (induction cs arbitrary: s)
  case Nil
  then show ?case by simp
next
  case (Cons d ds)
  show ?case
  proof (cases "c = d")
    case True
    with Cons.prems have "find (foldl put (put s d) ds) (key d) = find (put s d) (key d)"
      by (intro find_puts_other) auto
    with True Cons.prems show ?thesis by (simp add: find_put_same)
  next
    case False
    with Cons show ?thesis by simp
  qed
qed

end

text \<open>A store whose entries have pairwise distinct keys, as a map list of the API server needs.\<close>

locale keyed_condition_store = condition_store find put key view ok
  for find :: "'cs \<Rightarrow> 'k \<Rightarrow> 'c option" and put and key and view :: "'c \<Rightarrow> 'v" and ok +
  fixes keys :: "'cs \<Rightarrow> 'k list"
  assumes keys_put: "ok c \<Longrightarrow> keys (put s c) = (if key c \<in> set (keys s) then keys s else keys s @ [key c])"
begin

lemma distinct_keys_put: "ok c \<Longrightarrow> distinct (keys s) \<Longrightarrow> distinct (keys (put s c))"
  by (simp add: keys_put)

lemma distinct_keys_puts:
  "\<forall>c \<in> set cs. ok c \<Longrightarrow> distinct (keys s) \<Longrightarrow> distinct (keys (foldl put s cs))"
  by (induction cs arbitrary: s) (auto simp: distinct_keys_put)

lemma set_keys_puts:
  "\<forall>c \<in> set cs. ok c \<Longrightarrow> set (keys (foldl put s cs)) = set (keys s) \<union> key ` set cs"
  by (induction cs arbitrary: s) (auto simp: keys_put)

end

section \<open>The repository's upsert meets the contract\<close>

definition find_apply :: "ConditionApplyConfiguration list \<Rightarrow> string option \<Rightarrow> ConditionApplyConfiguration option" where
  "find_apply cs k = List.find (\<lambda>c. ac_Type c = k) cs"

definition apply_view :: "ConditionApplyConfiguration \<Rightarrow> ConditionStatus option \<times> string option \<times> string option \<times> int option" where
  "apply_view c = (ac_Status c, ac_Reason c, ac_Message c, ac_ObservedGeneration c)"

definition apply_ok :: "ConditionApplyConfiguration \<Rightarrow> bool" where
  "apply_ok c = (ac_Type c \<noteq> None \<and> ac_Type c \<noteq> Some [])"

lemma status_changed_iff: "status_changed e n \<longleftrightarrow> ac_Status e \<noteq> ac_Status n"
  by (cases "ac_Status e"; cases "ac_Status n") (simp_all add: status_changed_def)

lemma update_existing_sel [simp]:
  "ac_Type (update_existing now e n) = ac_Type e"
  "ac_Status (update_existing now e n) = ac_Status n"
  "ac_Reason (update_existing now e n) = ac_Reason n"
  "ac_Message (update_existing now e n) = ac_Message n"
  "ac_ObservedGeneration (update_existing now e n) = ac_ObservedGeneration n"
  by (auto simp: update_existing_def Let_def status_changed_iff)

lemma find_upsert_same:
  "ac_Type n \<noteq> None \<Longrightarrow>
   find_apply (upsert_first now cs n) (ac_Type n) =
     Some (case find_apply cs (ac_Type n) of
             None \<Rightarrow> if no_time n then n\<lparr>ac_LastTransitionTime := Some now\<rparr> else n
           | Some e \<Rightarrow> update_existing now e n)"
  by (induction cs) (auto simp: find_apply_def)

lemma find_upsert_other:
  "k \<noteq> ac_Type n \<Longrightarrow> find_apply (upsert_first now cs n) k = find_apply cs k"
  by (induction cs) (auto simp: find_apply_def)

lemma keys_upsert:
  "ac_Type n \<noteq> None \<Longrightarrow> map ac_Type (upsert_first now cs n) =
     (if ac_Type n \<in> ac_Type ` set cs then map ac_Type cs else map ac_Type cs @ [ac_Type n])"
  by (induction cs) auto

lemma view_upsert_same:
  "ac_Type n \<noteq> None \<Longrightarrow>
   map_option apply_view (find_apply (upsert_first now cs n) (ac_Type n)) = Some (apply_view n)"
  by (simp add: find_upsert_same apply_view_def split: option.splits)

lemma set_apply_view_same:
  "apply_ok n \<Longrightarrow>
   map_option apply_view (find_apply (set_apply_condition now cs n) (ac_Type n)) = Some (apply_view n)"
  using view_upsert_same [of n now cs] by (auto simp add: apply_ok_def set_apply_condition_def)

lemma set_apply_other:
  "apply_ok n \<Longrightarrow> k \<noteq> ac_Type n \<Longrightarrow> find_apply (set_apply_condition now cs n) k = find_apply cs k"
  by (simp add: apply_ok_def set_apply_condition_def find_upsert_other)

lemma set_apply_keys:
  "apply_ok n \<Longrightarrow> map ac_Type (set_apply_condition now cs n) =
     (if ac_Type n \<in> set (map ac_Type cs) then map ac_Type cs else map ac_Type cs @ [ac_Type n])"
  using keys_upsert [of n now cs] by (auto simp add: apply_ok_def set_apply_condition_def)

interpretation apply_store: keyed_condition_store find_apply "set_apply_condition now" ac_Type apply_view apply_ok
  "map ac_Type" for now
  by unfold_locales
    (simp_all add: set_apply_view_same set_apply_other set_apply_keys del: map_option_eq_Some)

lemma apply_ok_condition [simp]: "apply_ok (ac_condition ty st reason msg) \<longleftrightarrow> ty \<noteq> []"
  by (simp add: apply_ok_def)

lemma apply_ok_FromStatus [simp]: "apply_ok (ConditionFromStatus c) \<longleftrightarrow> Type c \<noteq> []"
  by (simp add: apply_ok_def)

lemma find_apply_Nil [simp]: "find_apply [] k = None"
  by (simp add: find_apply_def)

text \<open>
  The transition time: a new entry carries the time it was given or the time of the upsert;
  an existing entry keeps its time exactly as long as its status does.
\<close>

lemma set_apply_transition_time:
  assumes "apply_ok n"
  shows "map_option ac_LastTransitionTime (find_apply (set_apply_condition now cs n) (ac_Type n)) =
    Some (case find_apply cs (ac_Type n) of
            None \<Rightarrow> if no_time n then Some now else ac_LastTransitionTime n
          | Some e \<Rightarrow> if ac_Status e = ac_Status n then ac_LastTransitionTime e
                       else if no_time n then Some now else ac_LastTransitionTime n)"
  using assms
  by (auto simp: apply_ok_def set_apply_condition_def find_upsert_same update_existing_def Let_def
      status_changed_iff split: option.splits)

section \<open>What the sources rely on of apimachinery's condition helpers\<close>

definition meta_view :: "condition \<Rightarrow> ConditionStatus \<times> string \<times> string \<times> int" where
  "meta_view c = (Status c, Reason c, Message c, ObservedGeneration c)"

text \<open>
  Documented behaviour: \<open>FindStatusCondition\<close> finds the condition of a type;
  \<open>SetStatusCondition\<close> sets the condition of its type and leaves the others, and reports a
  change exactly when one of the compared fields differs, leaving the list as it is otherwise;
  \<open>IsStatusConditionTrue\<close> and \<open>IsStatusConditionFalse\<close> report presence with that status.
\<close>

definition meta_laws :: "lib \<Rightarrow> bool" where
  "meta_laws L \<longleftrightarrow>
     condition_store (FindStatusCondition L) (setCondition L) Type meta_view (\<lambda>c. Type c \<noteq> [])
     \<and> (\<forall>cs t c. FindStatusCondition L cs t = Some c \<longrightarrow> Type c = t)
     \<and> (\<forall>cs c. snd (SetStatusCondition L cs c) =
          (map_option meta_view (FindStatusCondition L cs (Type c)) \<noteq> Some (meta_view c)))
     \<and> (\<forall>cs c. \<not> snd (SetStatusCondition L cs c) \<longrightarrow> setCondition L cs c = cs)
     \<and> (\<forall>cs t. IsStatusConditionTrue L cs t =
          (map_option Status (FindStatusCondition L cs t) = Some ConditionTrue))
     \<and> (\<forall>cs t. IsStatusConditionFalse L cs t =
          (map_option Status (FindStatusCondition L cs t) = Some ConditionFalse))"

lemma meta_store:
  "meta_laws L \<Longrightarrow> condition_store (FindStatusCondition L) (setCondition L) Type meta_view (\<lambda>c. Type c \<noteq> [])"
  by (simp add: meta_laws_def)

lemma meta_find_Type: "meta_laws L \<Longrightarrow> FindStatusCondition L cs t = Some c \<Longrightarrow> Type c = t"
  by (simp add: meta_laws_def)

lemma meta_True_iff:
  "meta_laws L \<Longrightarrow> IsStatusConditionTrue L cs t \<longleftrightarrow>
     map_option Status (FindStatusCondition L cs t) = Some ConditionTrue"
  by (simp add: meta_laws_def)

lemma meta_False_iff:
  "meta_laws L \<Longrightarrow> IsStatusConditionFalse L cs t \<longleftrightarrow>
     map_option Status (FindStatusCondition L cs t) = Some ConditionFalse"
  by (simp add: meta_laws_def)

lemma meta_changed_iff:
  "meta_laws L \<Longrightarrow> snd (SetStatusCondition L cs c) \<longleftrightarrow>
     map_option meta_view (FindStatusCondition L cs (Type c)) \<noteq> Some (meta_view c)"
  by (simp add: meta_laws_def)

lemma meta_unchanged: "meta_laws L \<Longrightarrow> \<not> snd (SetStatusCondition L cs c) \<Longrightarrow> setCondition L cs c = cs"
  by (simp add: meta_laws_def)

text \<open>The facts a component needs after an upsert, as rewrite rules on what it reads.\<close>

lemma meta_view_find_set:
  "meta_laws L \<Longrightarrow> Type c \<noteq> [] \<Longrightarrow>
   map_option meta_view (FindStatusCondition L (setCondition L cs c) t) =
     (if t = Type c then Some (meta_view c) else map_option meta_view (FindStatusCondition L cs t))"
  by (rule condition_store.view_find_put [OF meta_store])

lemma meta_find_set_other:
  "meta_laws L \<Longrightarrow> Type c \<noteq> [] \<Longrightarrow> t \<noteq> Type c \<Longrightarrow>
   FindStatusCondition L (setCondition L cs c) t = FindStatusCondition L cs t"
  by (rule condition_store.find_put_other [OF meta_store])

lemma meta_find_set_same:
  assumes "meta_laws L" "Type c \<noteq> []"
  obtains c' where "FindStatusCondition L (setCondition L cs c) (Type c) = Some c'"
    "Status c' = Status c" "Reason c' = Reason c" "Message c' = Message c"
  using meta_view_find_set [OF assms, of cs "Type c"] by (auto simp: meta_view_def)

lemma meta_Status_set:
  assumes "meta_laws L" "Type c \<noteq> []"
  shows "map_option Status (FindStatusCondition L (setCondition L cs c) t) =
     (if t = Type c then Some (Status c) else map_option Status (FindStatusCondition L cs t))"
proof (cases "t = Type c")
  case True
  then show ?thesis by (metis assms meta_find_set_same option.simps(9))
next
  case False
  then show ?thesis by (simp add: meta_find_set_other [OF assms])
qed

lemma meta_Reason_set:
  assumes "meta_laws L" "Type c \<noteq> []"
  shows "map_option Reason (FindStatusCondition L (setCondition L cs c) t) =
     (if t = Type c then Some (Reason c) else map_option Reason (FindStatusCondition L cs t))"
proof (cases "t = Type c")
  case True
  then show ?thesis by (metis assms meta_find_set_same option.simps(9))
next
  case False
  then show ?thesis by (simp add: meta_find_set_other [OF assms])
qed

lemmas meta_simps = meta_True_iff meta_False_iff meta_Status_set meta_Reason_set meta_view_find_set

text \<open>
  The list structure, where a component merges two lists: \<open>FindStatusCondition\<close> returns the first
  condition of the type, and \<open>SetStatusCondition\<close> changes a condition in place or appends it.
\<close>

definition meta_list_laws :: "lib \<Rightarrow> bool" where
  "meta_list_laws L \<longleftrightarrow> meta_laws L
     \<and> (\<forall>cs t. FindStatusCondition L cs t = List.find (\<lambda>c. Type c = t) cs)
     \<and> (\<forall>cs c. map Type (setCondition L cs c) =
          (if Type c \<in> set (map Type cs) then map Type cs else map Type cs @ [Type c]))"

lemma meta_list_meta: "meta_list_laws L \<Longrightarrow> meta_laws L"
  by (simp add: meta_list_laws_def)

lemma meta_keyed_store:
  "meta_list_laws L \<Longrightarrow> keyed_condition_store (FindStatusCondition L) (setCondition L) Type meta_view
     (\<lambda>c. Type c \<noteq> []) (map Type)"
  by (simp add: keyed_condition_store_def meta_store [OF meta_list_meta]
      keyed_condition_store_axioms_def meta_list_laws_def)

lemma find_Type_distinct:
  "distinct (map Type cs) \<Longrightarrow> c \<in> set cs \<Longrightarrow> List.find (\<lambda>d. Type d = Type c) cs = Some c"
  by (induction cs) auto

text \<open>Setting every condition of a list with distinct types onto another list.\<close>

lemma meta_view_merge:
  assumes L: "meta_list_laws L" and "distinct (map Type ds)" and "\<forall>d \<in> set ds. Type d \<noteq> []"
  shows "map_option meta_view (FindStatusCondition L (foldl (setCondition L) cs ds) t) =
    (case FindStatusCondition L ds t of
       Some d \<Rightarrow> Some (meta_view d)
     | None \<Rightarrow> map_option meta_view (FindStatusCondition L cs t))"
proof (cases "FindStatusCondition L ds t")
  case None
  then have "t \<notin> Type ` set ds"
    using L by (auto simp: meta_list_laws_def find_None_iff)
  with None condition_store.find_puts_other [OF meta_store [OF meta_list_meta [OF L]]] assms(3)
  show ?thesis by simp
next
  case (Some d)
  then have "d \<in> set ds" "Type d = t"
    using L by (auto simp: meta_list_laws_def find_Some_iff)
  with Some condition_store.find_puts_same [OF meta_store [OF meta_list_meta [OF L]] assms(3,2)]
  show ?thesis by fastforce
qed

subsection \<open>A list implementation with these laws, for concrete instances\<close>

definition list_find :: "condition list \<Rightarrow> string \<Rightarrow> condition option" where
  "list_find cs t = List.find (\<lambda>c. Type c = t) cs"

fun list_set :: "condition list \<Rightarrow> condition \<Rightarrow> condition list" where
  "list_set [] n = [n]"
| "list_set (c # cs) n =
     (if Type c = Type n
      then (if Status c = Status n then n\<lparr>LastTransitionTime := LastTransitionTime c\<rparr> else n) # cs
      else c # list_set cs n)"

definition is_not_found :: "go_error \<Rightarrow> bool" where
  "is_not_found e = (case e of KubeError ReasonNotFound _ \<Rightarrow> True | _ \<Rightarrow> False)"

fun response_code_is :: "go_error \<Rightarrow> nat \<Rightarrow> bool" where
  "response_code_is (HttpError c _) n = (c = Some n)"
| "response_code_is (Errorf _ e) n = response_code_is e n"
| "response_code_is (ErrorsJoin es) n = (\<exists>e \<in> set es. response_code_is e n)"
| "response_code_is (ErrorNew _) n = False"
| "response_code_is (KubeError _ _) n = False"

fun retry_list :: "nat \<Rightarrow> attempt \<Rightarrow> attempt" where
  "retry_list 0 f tr = f tr"
| "retry_list (Suc n) f tr =
     (case f tr of
        (Some (KubeError ReasonConflict _), tr') \<Rightarrow> retry_list n f tr'
      | r \<Rightarrow> r)"

definition tolerates :: "toleration \<Rightarrow> taint \<Rightarrow> bool" where
  "tolerates t ta =
     ((to_Effect t = [] \<or> to_Effect t = ta_Effect ta) \<and> (to_Key t = [] \<or> to_Key t = ta_Key ta)
      \<and> (to_Operator t = ''Exists'' \<or> (to_Operator t = [] \<or> to_Operator t = ''Equal'') \<and> to_Value t = []))"

definition list_lib :: lib where
  "list_lib = \<lparr>FindStatusCondition = list_find, SetStatusCondition = (\<lambda>cs c.
       if map_option meta_view (list_find cs (Type c)) = Some (meta_view c) then (cs, False)
       else (list_set cs c, True)),
     IsStatusConditionTrue = (\<lambda>cs t. map_option Status (list_find cs t) = Some ConditionTrue),
     IsStatusConditionFalse = (\<lambda>cs t. map_option Status (list_find cs t) = Some ConditionFalse),
     ResponseCodeIs = response_code_is,
     IgnoreNotFound = (\<lambda>e. if is_not_found e then None else Some e),
     IsNotFound = is_not_found, RetryOnConflict = retry_list 9,
     DeepEqual_Hypervisor = (=), DeepEqual_Status = (=), uuid_Parse = uuid_pattern,
     ToleratesTaint = tolerates, SetOwnerReference = (\<lambda>owner obj. Inr (obj\<lparr>OwnerReferences := OwnerReferences obj @
       [\<lparr>or_APIVersion = ''v1'', or_Kind = ''Node'', or_Name = Name owner, or_UID = UID owner,
         or_Controller = None, or_BlockOwnerDeletion = Some True\<rparr>]\<rparr>))\<rparr>"

lemma list_find_set_same:
  "map_option meta_view (list_find (list_set cs n) (Type n)) = Some (meta_view n)"
  by (induction cs) (auto simp: list_find_def meta_view_def)

lemma list_find_set_other: "t \<noteq> Type n \<Longrightarrow> list_find (list_set cs n) t = list_find cs t"
  by (induction cs) (auto simp: list_find_def)

lemma list_find_Type: "list_find cs t = Some c \<Longrightarrow> Type c = t"
  by (auto simp: list_find_def find_Some_iff)

lemma meta_laws_list_lib [simp]: "meta_laws list_lib"
proof -
  have "condition_store list_find (setCondition list_lib) Type meta_view (\<lambda>c. Type c \<noteq> [])"
    by unfold_locales
      (simp_all add: list_lib_def list_find_set_same list_find_set_other del: map_option_eq_Some)
  then show ?thesis
    by (simp add: meta_laws_def list_lib_def list_find_Type)
qed

lemma list_set_Types:
  "map Type (list_set cs n) = (if Type n \<in> Type ` set cs then map Type cs else map Type cs @ [Type n])"
  by (induction cs) auto

lemma meta_list_laws_list_lib [simp]: "meta_list_laws list_lib"
proof -
  have "Type c \<in> Type ` set cs" if "map_option meta_view (list_find cs (Type c)) = Some v" for cs c v
    using that by (auto simp: list_find_def find_Some_iff simp del: map_option_eq_Some) (metis image_eqI nth_mem)
  moreover have "FindStatusCondition list_lib cs t = List.find (\<lambda>c. Type c = t) cs" for cs t
    by (simp add: list_lib_def list_find_def)
  moreover have "map Type (setCondition list_lib cs c) =
      (if Type c \<in> set (map Type cs) then map Type cs else map Type cs @ [Type c])" for cs c
    using calculation(1) [of cs c] by (simp add: list_lib_def list_set_Types)
  ultimately show ?thesis by (simp add: meta_list_laws_def)
qed

end
