(* ===== verification/Status_Patch.thy ===== *)
theory Status_Patch
  imports Conditions
begin

text \<open>
  Read-modify-write of a status with optimistic locking: \<^verbatim>\<open>src/internal/utils/status_patch.go\<close>.
  \<open>retry.RetryOnConflict\<close> of client-go is a parameter; \<open>retry_laws\<close> is what its documentation
  promises of it: the closure is run, it is run again after a conflict, and the result is that
  of the last run.
\<close>

section \<open>RetryOnConflict\<close>

inductive retry_run :: "(go_error \<Rightarrow> bool) \<Rightarrow> attempt \<Rightarrow> trace \<Rightarrow> go_error option \<Rightarrow> trace \<Rightarrow> bool"
  for isConflict :: "go_error \<Rightarrow> bool" and f :: attempt where
  success: "f tr = (None, tr') \<Longrightarrow> retry_run isConflict f tr None tr'"
| failure: "f tr = (Some e, tr') \<Longrightarrow> retry_run isConflict f tr (Some e) tr'"
| again: "f tr = (Some e, tr1) \<Longrightarrow> isConflict e \<Longrightarrow> retry_run isConflict f tr1 r tr' \<Longrightarrow>
    retry_run isConflict f tr r tr'"

definition retry_laws :: "lib \<Rightarrow> bool" where
  "retry_laws L \<longleftrightarrow> (\<exists>isConflict. \<forall>f tr.
     retry_run isConflict f tr (fst (RetryOnConflict L f tr)) (snd (RetryOnConflict L f tr)))"

lemma retry_run_list:
  "retry_run (\<lambda>e. \<exists>s. e = KubeError ReasonConflict s) f tr (fst (retry_list n f tr)) (snd (retry_list n f tr))"
proof (induction n arbitrary: tr)
  case 0
  obtain r tr' where "f tr = (r, tr')" by fastforce
  then show ?case by (cases r) (auto intro: retry_run.intros)
next
  case (Suc n)
  obtain r tr' where f: "f tr = (r, tr')" by fastforce
  show ?case
  proof (cases "\<exists>s. r = Some (KubeError ReasonConflict s)")
    case True
    with f Suc [of tr'] show ?thesis by (auto intro: retry_run.again)
  next
    case False
    then have "retry_list (Suc n) f tr = (r, tr')"
      using f by (auto split: option.splits go_error.splits kube_reason.splits)
    with f show ?thesis by (cases r) (auto intro: retry_run.success retry_run.failure)
  qed
qed

lemma retry_laws_list_lib [simp]: "retry_laws list_lib"
  unfolding retry_laws_def list_lib_def using retry_run_list by fastforce

text \<open>
  Two consequences carry every use: the last attempt of a successful retry succeeded, and what
  each attempt keeps, the retry keeps.
\<close>

lemma retry_run_last:
  "retry_run c f tr r tr' \<Longrightarrow> r = None \<Longrightarrow> \<exists>tr0. f tr0 = (None, tr')"
  by (induction rule: retry_run.induct) auto

lemma retry_run_keeps:
  assumes "retry_run c f tr r tr'" and "P tr" and step: "\<And>t. P t \<Longrightarrow> P (snd (f t))"
  shows "P tr'"
  using assms(1,2)
proof (induction rule: retry_run.induct)
  case (success tr tr')
  with step [of tr] show ?case by simp
next
  case (failure tr e tr')
  with step [of tr] show ?case by simp
next
  case (again tr e tr1 r tr')
  with step [of tr] show ?case by simp
qed

lemma retry_last_attempt:
  assumes "retry_laws L" and "RetryOnConflict L f tr = (None, tr')"
  obtains tr0 where "f tr0 = (None, tr')"
  using assms retry_run_last unfolding retry_laws_def by (metis fst_conv snd_conv)

lemma retry_keeps:
  assumes "retry_laws L" and "P tr" and "\<And>t. P t \<Longrightarrow> P (snd (f t))"
  shows "P (snd (RetryOnConflict L f tr))"
  using assms retry_run_keeps [where P = P] unfolding retry_laws_def by metis

text \<open>The last attempt started from a history that every earlier attempt had kept \<open>P\<close> in.\<close>

lemma retry_run_last_keeps:
  assumes "retry_run c f tr r tr'" and "r = None" and "P tr" and step: "\<And>t. P t \<Longrightarrow> P (snd (f t))"
  shows "\<exists>tr0. P tr0 \<and> f tr0 = (None, tr')"
  using assms(1-3)
proof (induction rule: retry_run.induct)
  case (again tr e tr1 r tr')
  with step [of tr] show ?case by simp
qed auto

lemma retry_last_attempt_keeps:
  assumes "retry_laws L" and "RetryOnConflict L f tr = (None, tr')" and "P tr"
    and "\<And>t. P t \<Longrightarrow> P (snd (f t))"
  obtains tr0 where "P tr0" and "f tr0 = (None, tr')"
proof -
  obtain c where "retry_run c f tr (fst (RetryOnConflict L f tr)) (snd (RetryOnConflict L f tr))"
    using assms(1) unfolding retry_laws_def by blast
  then have "retry_run c f tr None tr'"
    by (simp add: assms(2))
  with assms(3,4) show ?thesis
    using retry_run_last_keeps [where P = P] that by blast
qed

section \<open>PatchHypervisorStatusWithRetry\<close>

definition patch_hypervisor_attempt ::
    "kube \<Rightarrow> string \<Rightarrow> string \<Rightarrow> (Hypervisor \<Rightarrow> Hypervisor) \<Rightarrow> attempt" where
  "patch_hypervisor_attempt K name fieldOwner updateFn tr =
     (case ask (k_get_Hypervisor K name) (Kube (GetHypervisor name)) tr of
        (Inl err, tr1) \<Rightarrow> (Some err, tr1)
      | (Inr hv, tr1) \<Rightarrow>
          ask (k_status_patch_Hypervisor K hv (updateFn hv))
            (Kube (StatusPatchHypervisor hv (updateFn hv) fieldOwner)) tr1)"

definition PatchHypervisorStatusWithRetry ::
    "lib \<Rightarrow> kube \<Rightarrow> string \<Rightarrow> string \<Rightarrow> (Hypervisor \<Rightarrow> Hypervisor) \<Rightarrow> trace \<Rightarrow> go_error option \<times> trace" where
  "PatchHypervisorStatusWithRetry L K name fieldOwner updateFn tr =
     RetryOnConflict L (patch_hypervisor_attempt K name fieldOwner updateFn) tr"

text \<open>
  The calls an attempt may append, and hence the calls of the whole retry: reads of the one
  object, and writes of the update applied to what was read.
\<close>

definition patch_call :: "string \<Rightarrow> string \<Rightarrow> (Hypervisor \<Rightarrow> Hypervisor) \<Rightarrow> call \<Rightarrow> bool" where
  "patch_call name fieldOwner updateFn c \<longleftrightarrow>
     c = Kube (GetHypervisor name) \<or> (\<exists>hv. c = Kube (StatusPatchHypervisor hv (updateFn hv) fieldOwner))"

lemma patch_attempt_extends:
  "extends_by (patch_call name ow f) tr t \<Longrightarrow>
   extends_by (patch_call name ow f) tr (snd (patch_hypervisor_attempt K name ow f t))"
  by (auto simp: patch_hypervisor_attempt_def ask_def patch_call_def split: sum.splits
      intro!: extends_by_append)

lemma patch_retry_extends:
  assumes "retry_laws L"
  shows "extends_by (patch_call name ow f) tr (snd (PatchHypervisorStatusWithRetry L K name ow f tr))"
  unfolding PatchHypervisorStatusWithRetry_def
  by (rule retry_keeps [OF assms]) (auto intro: patch_attempt_extends)

lemma patch_attempt_success:
  assumes "patch_hypervisor_attempt K name ow f tr = (None, tr')"
  obtains hv where "k_get_Hypervisor K name tr = Inr hv"
    and "tr' = tr @ [Kube (GetHypervisor name), Kube (StatusPatchHypervisor hv (f hv) ow)]"
    and "k_status_patch_Hypervisor K hv (f hv) (tr @ [Kube (GetHypervisor name)]) = None"
  using assms by (auto simp: patch_hypervisor_attempt_def ask_def split: sum.splits)

section \<open>Writing one condition\<close>

text \<open>The update most controllers make: one condition of the status set, everything else as read.\<close>

definition hv_set_condition :: "lib \<Rightarrow> condition \<Rightarrow> Hypervisor \<Rightarrow> Hypervisor" where
  "hv_set_condition L c hv =
     hv\<lparr>hv_Status := (hv_Status hv)\<lparr>Conditions := setCondition L (hv_Conditions hv) c\<rparr>\<rparr>"

lemma hv_set_condition_sel [simp]:
  "hv_Conditions (hv_set_condition L c hv) = setCondition L (hv_Conditions hv) c"
  "Meta (hv_set_condition L c hv) = Meta hv" "Spec (hv_set_condition L c hv) = Spec hv"
  by (simp_all add: hv_set_condition_def)

text \<open>The calls of such a write as a predicate, to be used with \<open>extends_by\<close>.\<close>

lemma patch_extends_mono:
  assumes "retry_laws L" and "P (Kube (GetHypervisor name))"
    and "\<And>hv t. k_get_Hypervisor K name t = Inr hv \<Longrightarrow> P (Kube (StatusPatchHypervisor hv (f hv) ow))"
  shows "extends_by P tr (snd (PatchHypervisorStatusWithRetry L K name ow f tr))"
  unfolding PatchHypervisorStatusWithRetry_def
proof (rule retry_keeps [OF assms(1)])
  show "extends_by P tr tr" by simp
  fix t
  assume t: "extends_by P tr t"
  show "extends_by P tr (snd (patch_hypervisor_attempt K name ow f t))"
  proof (cases "k_get_Hypervisor K name t")
    case (Inl e)
    with t assms(2) show ?thesis by (auto simp: patch_hypervisor_attempt_def ask_def intro: extends_by_append)
  next
    case (Inr hv)
    with t assms(2) assms(3) [OF Inr] show ?thesis
      by (auto simp: patch_hypervisor_attempt_def ask_def intro!: extends_by_append)
  qed
qed

text \<open>A write that succeeded ends with a read of the object and the patch of what was read.\<close>

lemma patch_success:
  assumes "retry_laws L" and "PatchHypervisorStatusWithRetry L K name ow f tr = (None, tr')"
  obtains hv t cs where "k_get_Hypervisor K name t = Inr hv"
    and "tr' = t @ [Kube (GetHypervisor name), Kube (StatusPatchHypervisor hv (f hv) ow)]"
    and "k_status_patch_Hypervisor K hv (f hv) (t @ [Kube (GetHypervisor name)]) = None"
    and "t = tr @ cs"
proof -
  have "\<exists>cs. (snd (patch_hypervisor_attempt K name ow f t)) = tr @ cs" if "\<exists>cs. t = tr @ cs" for t
    using that by (auto simp: patch_hypervisor_attempt_def ask_def split: sum.splits)
  then obtain t where "\<exists>cs. t = tr @ cs" and "patch_hypervisor_attempt K name ow f t = (None, tr')"
    using retry_last_attempt_keeps [OF assms(1), of "patch_hypervisor_attempt K name ow f" tr tr' "\<lambda>t. \<exists>cs. t = tr @ cs"]
      assms(2) by (auto simp: PatchHypervisorStatusWithRetry_def)
  with patch_attempt_success that show ?thesis by blast
qed

text \<open>A retried patch of the hypervisor with a known update, as a fact about its status writes.\<close>

lemma patched_writes:
  assumes "retry_laws L" "PatchHypervisorStatusWithRetry L K n w f t = (err, tr')"
    and "extends_by (\<lambda>c. \<forall>a b v. c \<noteq> Kube (StatusPatchHypervisor a b v)) tr t"
    and "Kube (StatusPatchHypervisor fresh new ow) \<in> set (new_calls tr tr')"
  shows "new = f fresh"
proof -
  let ?P = "\<lambda>c. \<forall>a b v. c = Kube (StatusPatchHypervisor a b v) \<longrightarrow> b = f a"
  have "extends_by ?P t tr'"
    using patch_extends_mono [OF assms(1), of ?P n K f w t] assms(2) by simp
  moreover have "extends_by ?P tr t" using assms(3) by (rule extends_by_mono) simp
  ultimately show ?thesis using extends_by_new_calls [OF extends_by_trans assms(4)] by blast
qed

end
