(* ===== verification/Sample_World.thy ===== *)
theory Sample_World
  imports Status_Patch
begin

text \<open>
  Concrete services at which the properties are applied: a Kubernetes API that serves three fixed
  objects and accepts every write, a Nova without servers that accepts every request, and the
  like for Placement and the test project. The components update single operations of them.
\<close>

definition empty_node :: "string \<Rightarrow> node" where
  "empty_node n = \<lparr>node_Meta = empty_meta n, node_Taints = [], node_Conditions = [], node_Addresses = []\<rparr>"

definition sample_kube :: "Hypervisor \<Rightarrow> Eviction \<Rightarrow> node \<Rightarrow> kube" where
  "sample_kube hv ev nd =
     \<lparr>k_get_Hypervisor = (\<lambda>_ _. Inr hv), k_get_Eviction = (\<lambda>_ _. Inr ev), k_get_Node = (\<lambda>_ _. Inr nd),
      k_status_patch_Hypervisor = (\<lambda>_ _ _. None), k_status_patch_Eviction = (\<lambda>_ _ _. None),
      k_status_apply_Hypervisor = (\<lambda>_ _ _. None), k_patch_Hypervisor = (\<lambda>_ h _. Inr h),
      k_create_Hypervisor = (\<lambda>_ _. None), k_apply_Eviction = (\<lambda>_ _. None), k_delete_Eviction = (\<lambda>_ _. None),
      k_list_Pods = (\<lambda>_ _ _ _. Inr ([], [])), k_patch_Node = (\<lambda>_ _ _. None),
      k_apply_PodDisruptionBudget = (\<lambda>_ _. None), k_apply_Deployment = (\<lambda>_ _. None),
      k_apply_Certificate = (\<lambda>_ _. None)\<rparr>"

definition http_404 :: go_error where
  "http_404 = HttpError (Some 404) ''not found''"

definition sample_nova :: nova where
  "sample_nova =
     \<lparr>n_servers_Get = (\<lambda>_ _. Inl http_404), n_servers_List = (\<lambda>_ _. (None, Inr [])),
      n_servers_ListSimple = (\<lambda>_ _. (None, Inr [])), n_servers_Create = (\<lambda>_ _. Inr None),
      n_servers_Delete = (\<lambda>_ _. None), n_servers_ConfirmResize = (\<lambda>_ _. None),
      n_servers_LiveMigrate = (\<lambda>_ _ _. None), n_servers_Migrate = (\<lambda>_ _. None),
      n_servers_ShowConsoleOutput = (\<lambda>_ _ _. Inr []), n_hypervisors_GetExt = (\<lambda>_ _. Inl http_404),
      n_hypervisors_List = (\<lambda>_ _ _. Inr (Inr [])), n_services_Update = (\<lambda>_ _ _. None),
      n_services_Delete = (\<lambda>_ _. None), n_migrations_List = (\<lambda>_ _ _. Inr []),
      n_migrations_Delete = (\<lambda>_ _ _. None), n_aggregates_List = (\<lambda>_. Inr (Inr [])),
      n_aggregates_AddHost = (\<lambda>_ _ _. None), n_aggregates_RemoveHost = (\<lambda>_ _ _. None)\<rparr>"

definition sample_placement :: placement where
  "sample_placement =
     \<lparr>p_providers_Get = (\<lambda>i _. (Some i, None)), p_providers_GetTraits = (\<lambda>_ _. Inr ([], 0)),
      p_providers_UpdateTraits = (\<lambda>_ _ _. None), p_providers_GetAllocations = (\<lambda>_ _. Inr []),
      p_providers_Delete = (\<lambda>_ _. None), p_allocations_List = (\<lambda>_ _. Inr []),
      p_allocations_Delete = (\<lambda>_ _. None)\<rparr>"

definition sample_tests :: test_resources where
  "sample_tests =
     \<lparr>t_volumes_List = (\<lambda>_. Inr (Inr [])), t_volumes_Delete = (\<lambda>_ _. None),
      t_images_List = (\<lambda>_ _. Inr (Inr [])), t_networks_List = (\<lambda>_. Inr (Inr []))\<rparr>"

text \<open>A server that runs on a host.\<close>

definition active_server :: "string \<Rightarrow> string \<Rightarrow> server" where
  "active_server host u =
     \<lparr>sv_ID = u, sv_Name = u, sv_Status = ''ACTIVE'', sv_TaskState = [], sv_PowerState = 1,
      sv_HypervisorHostname = host @ ''.example.org'', sv_FaultMessage = [], sv_LaunchedAt = 0\<rparr>"

lemmas sample_defs = empty_node_def sample_kube_def http_404_def sample_nova_def sample_placement_def
  sample_tests_def active_server_def

end
