(* ===== verification/Host_Aggregates.thy ===== *)
theory Host_Aggregates
  imports Utils Sample_World
begin

text \<open>
  Membership of a host in Nova aggregates: \<open>ApplyAggregates\<close> of
  \<^verbatim>\<open>src/internal/openstack/aggregates.go\<close>. Setting and restoring the microversion of the
  client has no part in the result and is left out; the two failures of the listing (the
  request and its decoding) are the two error branches of \<open>n_aggregates_List\<close>.
\<close>

text \<open>The loop over all aggregates: the map by name (a later one replaces an earlier one of its
  name) and the names of those that hold the host.\<close>

fun scan_aggregates ::
    "string \<Rightarrow> nova_aggregate list \<Rightarrow> (string \<rightharpoonup> nova_aggregate) \<Rightarrow> string list
     \<Rightarrow> (string \<rightharpoonup> nova_aggregate) \<times> string list" where
  "scan_aggregates host [] aggregateMap currentAggregates = (aggregateMap, currentAggregates)"
| "scan_aggregates host (agg # aggs) aggregateMap currentAggregates =
     scan_aggregates host aggs (aggregateMap(na_Name agg \<mapsto> agg))
       (if slices_Contains (na_Hosts agg) host then currentAggregates @ [na_Name agg] else currentAggregates)"

text \<open>Indexing the map with an absent name gives a nil pointer, whose use panics; the callers
  only index names of the map.\<close>

definition agg_ID :: "(string \<rightharpoonup> nova_aggregate) \<Rightarrow> string \<Rightarrow> int" where
  "agg_ID aggregateMap name = (case aggregateMap name of Some agg \<Rightarrow> na_ID agg | None \<Rightarrow> 0)"

fun add_loop ::
    "nova \<Rightarrow> string \<Rightarrow> (string \<rightharpoonup> nova_aggregate) \<Rightarrow> string list \<Rightarrow> go_error list \<Rightarrow> trace
     \<Rightarrow> go_error list \<times> trace" where
  "add_loop N host aggregateMap [] errs tr = (errs, tr)"
| "add_loop N host aggregateMap (name # names) errs tr =
     (case ask (n_aggregates_AddHost N (agg_ID aggregateMap name) host)
             (Compute (AggregatesAddHost (agg_ID aggregateMap name) host)) tr of
        (None, tr1) \<Rightarrow> add_loop N host aggregateMap names errs tr1
      | (Some err, tr1) \<Rightarrow>
          add_loop N host aggregateMap names
            (errs @ [Errorf (''failed to add host '' @ host @ '' to aggregate '' @ name @ '': '') err]) tr1)"

fun remove_loop ::
    "nova \<Rightarrow> string \<Rightarrow> (string \<rightharpoonup> nova_aggregate) \<Rightarrow> string list \<Rightarrow> go_error list \<Rightarrow> trace
     \<Rightarrow> go_error list \<times> trace" where
  "remove_loop N host aggregateMap [] errs tr = (errs, tr)"
| "remove_loop N host aggregateMap (name # names) errs tr =
     (case ask (n_aggregates_RemoveHost N (agg_ID aggregateMap name) host)
             (Compute (AggregatesRemoveHost (agg_ID aggregateMap name) host)) tr of
        (None, tr1) \<Rightarrow> remove_loop N host aggregateMap names errs tr1
      | (Some err, tr1) \<Rightarrow>
          remove_loop N host aggregateMap names
            (errs @ [Errorf (''failed to remove host '' @ host @ '' from aggregate '' @ name @ '': '') err]) tr1)"

fun collect_result :: "(string \<rightharpoonup> nova_aggregate) \<Rightarrow> string list \<Rightarrow> Aggregate list" where
  "collect_result aggregateMap [] = []"
| "collect_result aggregateMap (name # names) =
     (case aggregateMap name of
        Some agg \<Rightarrow> \<lparr>agg_Name = na_Name agg, agg_UUID = na_UUID agg, agg_Metadata = na_Metadata agg\<rparr>
                    # collect_result aggregateMap names
      | None \<Rightarrow> collect_result aggregateMap names)"

definition ApplyAggregates ::
    "nova \<Rightarrow> string \<Rightarrow> string list \<Rightarrow> trace \<Rightarrow> (go_error + Aggregate list) \<times> trace" where
  "ApplyAggregates N host desiredAggregates tr =
     (case ask (n_aggregates_List N) (Compute AggregatesList) tr of
        (Inl err, tr1) \<Rightarrow> (Inl (Errorf ''failed to list aggregates: '' err), tr1)
      | (Inr (Inl err), tr1) \<Rightarrow> (Inl (Errorf ''failed to extract aggregates: '' err), tr1)
      | (Inr (Inr allAggregates), tr1) \<Rightarrow>
          (case scan_aggregates host allAggregates Map.empty [] of
             (aggregateMap, currentAggregates) \<Rightarrow>
               let toAdd = Difference currentAggregates desiredAggregates;
                   toRemove = Difference desiredAggregates currentAggregates;
                   missingAggregates = filter (\<lambda>name. aggregateMap name = None) desiredAggregates
               in if missingAggregates \<noteq> []
                  then (Inl (ErrorNew (''aggregates not found: '' @ fmt_strings missingAggregates)), tr1)
                  else
                    (case add_loop N host aggregateMap toAdd [] tr1 of
                       (errs1, tr2) \<Rightarrow>
                         (case remove_loop N host aggregateMap toRemove errs1 tr2 of
                            (errs2, tr3) \<Rightarrow>
                              if errs2 \<noteq> [] then (Inl (ErrorsJoin errs2), tr3)
                              else (Inr (collect_result aggregateMap desiredAggregates), tr3)))))"

section \<open>Lemmas\<close>

lemma scan_aggregates_eq:
  "scan_aggregates host aggs m cur =
     (m ++ map_of (rev (map (\<lambda>a. (na_Name a, a)) aggs)),
      cur @ map na_Name (filter (\<lambda>a. host \<in> set (na_Hosts a)) aggs))"
  by (induction aggs arbitrary: m cur) (auto simp: map_add_def fun_eq_iff split: option.splits)

abbreviation by_name :: "nova_aggregate list \<Rightarrow> (string \<rightharpoonup> nova_aggregate)" where
  "by_name aggs \<equiv> map_of (rev (map (\<lambda>a. (na_Name a, a)) aggs))"

abbreviation holding :: "string \<Rightarrow> nova_aggregate list \<Rightarrow> string list" where
  "holding host aggs \<equiv> map na_Name (filter (\<lambda>a. host \<in> set (na_Hosts a)) aggs)"

lemma scan_aggregates_top [simp]:
  "scan_aggregates host aggs Map.empty [] = (by_name aggs, holding host aggs)"
  by (simp add: scan_aggregates_eq)

lemma by_name_None: "by_name aggs n = None \<longleftrightarrow> n \<notin> na_Name ` set aggs"
  by (simp add: map_of_eq_None_iff image_image)

lemma by_name_Some: "by_name aggs n = Some a \<Longrightarrow> a \<in> set aggs \<and> na_Name a = n"
  by (auto dest!: map_of_SomeD)

lemma by_name_distinct:
  "distinct (map na_Name aggs) \<Longrightarrow> a \<in> set aggs \<Longrightarrow> by_name aggs (na_Name a) = Some a"
  by (rule map_of_is_SomeI) (auto simp: rev_map [symmetric] comp_def)

definition add_call :: "string \<Rightarrow> (string \<rightharpoonup> nova_aggregate) \<Rightarrow> string \<Rightarrow> call" where
  "add_call host m name = Compute (AggregatesAddHost (agg_ID m name) host)"

definition remove_call :: "string \<Rightarrow> (string \<rightharpoonup> nova_aggregate) \<Rightarrow> string \<Rightarrow> call" where
  "remove_call host m name = Compute (AggregatesRemoveHost (agg_ID m name) host)"

lemma snd_add_loop: "snd (add_loop N host m names errs tr) = tr @ map (add_call host m) names"
  by (induction names arbitrary: errs tr) (auto simp: ask_def add_call_def split: option.splits)

lemma snd_remove_loop: "snd (remove_loop N host m names errs tr) = tr @ map (remove_call host m) names"
  by (induction names arbitrary: errs tr) (auto simp: ask_def remove_call_def split: option.splits)

lemma collect_result_names:
  "(\<And>n. n \<in> set names \<Longrightarrow> m n \<noteq> None) \<Longrightarrow> (\<And>n a. m n = Some a \<Longrightarrow> na_Name a = n) \<Longrightarrow>
   map agg_Name (collect_result m names) = names"
  by (induction names) (auto split: option.splits)

text \<open>The whole of a run as one equation: the calls it makes and the branch it takes.\<close>

lemma ApplyAggregates_calls:
  "snd (ApplyAggregates N host desired tr) =
     (case n_aggregates_List N tr of
        Inr (Inr aggs) \<Rightarrow>
          if \<exists>n \<in> set desired. by_name aggs n = None then tr @ [Compute AggregatesList]
          else tr @ [Compute AggregatesList]
                 @ map (add_call host (by_name aggs)) (Difference (holding host aggs) desired)
                 @ map (remove_call host (by_name aggs)) (Difference desired (holding host aggs))
      | _ \<Rightarrow> tr @ [Compute AggregatesList])"
proof (cases "n_aggregates_List N tr")
  case (Inl e)
  then show ?thesis by (simp add: ApplyAggregates_def ask_def)
next
  case (Inr r)
  show ?thesis
  proof (cases r)
    case (Inl e)
    with Inr show ?thesis by (simp add: ApplyAggregates_def ask_def)
  next
    case aggs: (Inr aggs)
    let ?m = "by_name aggs" and ?tr1 = "tr @ [Compute AggregatesList]"
    let ?add = "Difference (holding host aggs) desired" and ?rm = "Difference desired (holding host aggs)"
    obtain e1 t1 where a: "add_loop N host ?m ?add [] ?tr1 = (e1, t1)" by fastforce
    then have t1: "t1 = ?tr1 @ map (add_call host ?m) ?add"
      using snd_add_loop [of N host ?m ?add "[]" ?tr1] by simp
    obtain e2 t2 where r: "remove_loop N host ?m ?rm e1 t1 = (e2, t2)" by fastforce
    then have t2: "t2 = t1 @ map (remove_call host ?m) ?rm"
      using snd_remove_loop [of N host ?m ?rm e1 t1] by simp
    show ?thesis
    proof (cases "\<exists>n \<in> set desired. ?m n = None")
      case True
      with Inr aggs show ?thesis
        by (simp add: ApplyAggregates_def ask_def Let_def filter_empty_conv)
    next
      case False
      then have "filter (\<lambda>n. ?m n = None) desired = []" by (simp add: filter_empty_conv)
      with False Inr aggs a r show ?thesis
        by (auto simp: ApplyAggregates_def ask_def Let_def t1 t2 simp del: not_None_eq)
    qed
  qed
qed

section \<open>What Nova promises of aggregate membership\<close>

text \<open>
  \<open>mem tr id\<close>: the host is in the aggregate with this ID after history \<open>tr\<close>. A successful add or
  remove changes that one membership; a listing reports the memberships and changes none.
\<close>

definition aggregate_laws :: "nova \<Rightarrow> string \<Rightarrow> (trace \<Rightarrow> int \<Rightarrow> bool) \<Rightarrow> bool" where
  "aggregate_laws N host mem \<longleftrightarrow>
     (\<forall>tr i. n_aggregates_AddHost N i host tr = None \<longrightarrow>
        mem (tr @ [Compute (AggregatesAddHost i host)]) = (mem tr)(i := True))
     \<and> (\<forall>tr i. n_aggregates_RemoveHost N i host tr = None \<longrightarrow>
        mem (tr @ [Compute (AggregatesRemoveHost i host)]) = (mem tr)(i := False))
     \<and> (\<forall>tr aggs. n_aggregates_List N tr = Inr (Inr aggs) \<longrightarrow>
        mem (tr @ [Compute AggregatesList]) = mem tr
        \<and> (\<forall>a \<in> set aggs. host \<in> set (na_Hosts a) \<longleftrightarrow> mem tr (na_ID a)))"

lemma add_loop_no_errs: "add_loop N host m names errs tr = ([], tr') \<Longrightarrow> errs = []"
  by (induction names arbitrary: errs tr) (force simp: ask_def split: option.splits)+

lemma remove_loop_no_errs: "remove_loop N host m names errs tr = ([], tr') \<Longrightarrow> errs = []"
  by (induction names arbitrary: errs tr) (force simp: ask_def split: option.splits)+

lemma add_loop_mem:
  assumes "aggregate_laws N host mem"
  shows "add_loop N host m names [] tr = ([], tr') \<Longrightarrow>
    mem tr' = (\<lambda>i. mem tr i \<or> i \<in> agg_ID m ` set names)"
proof (induction names arbitrary: tr)
  case Nil
  then show ?case by auto
next
  case (Cons n names)
  then have ok: "n_aggregates_AddHost N (agg_ID m n) host tr = None"
    by (auto simp: ask_def split: option.splits dest: add_loop_no_errs)
  with Cons have "mem tr' = (\<lambda>i. mem (tr @ [Compute (AggregatesAddHost (agg_ID m n) host)]) i
      \<or> i \<in> agg_ID m ` set names)"
    by (simp add: ask_def)
  with ok assms show ?case by (auto simp: aggregate_laws_def)
qed

lemma remove_loop_mem:
  assumes "aggregate_laws N host mem"
  shows "remove_loop N host m names [] tr = ([], tr') \<Longrightarrow>
    mem tr' = (\<lambda>i. mem tr i \<and> i \<notin> agg_ID m ` set names)"
proof (induction names arbitrary: tr)
  case Nil
  then show ?case by auto
next
  case (Cons n names)
  then have ok: "n_aggregates_RemoveHost N (agg_ID m n) host tr = None"
    by (auto simp: ask_def split: option.splits dest: remove_loop_no_errs)
  with Cons have "mem tr' = (\<lambda>i. mem (tr @ [Compute (AggregatesRemoveHost (agg_ID m n) host)]) i
      \<and> i \<notin> agg_ID m ` set names)"
    by (simp add: ask_def)
  with ok assms show ?case by (auto simp: aggregate_laws_def)
qed

text \<open>A successful run, taken apart: the listing, nothing missing, both loops without an error.\<close>

lemma ApplyAggregates_InrE:
  assumes "ApplyAggregates N host desired tr = (Inr res, tr')"
  obtains aggs t1 where "n_aggregates_List N tr = Inr (Inr aggs)"
    and "\<forall>n \<in> set desired. by_name aggs n \<noteq> None"
    and "add_loop N host (by_name aggs) (Difference (holding host aggs) desired) []
           (tr @ [Compute AggregatesList]) = ([], t1)"
    and "remove_loop N host (by_name aggs) (Difference desired (holding host aggs)) [] t1 = ([], tr')"
    and "res = collect_result (by_name aggs) desired"
proof -
  from assms obtain aggs where aggs: "n_aggregates_List N tr = Inr (Inr aggs)"
    by (auto simp: ApplyAggregates_def ask_def split: sum.splits)
  obtain e1 t1 where a: "add_loop N host (by_name aggs) (Difference (holding host aggs) desired) []
      (tr @ [Compute AggregatesList]) = (e1, t1)" by fastforce
  obtain e2 t2 where r: "remove_loop N host (by_name aggs) (Difference desired (holding host aggs)) e1 t1
      = (e2, t2)" by fastforce
  from assms aggs a r have "e2 = []" "t2 = tr'" "\<forall>n \<in> set desired. by_name aggs n \<noteq> None"
    "res = collect_result (by_name aggs) desired"
    by (auto simp: ApplyAggregates_def ask_def Let_def filter_empty_conv split: if_splits)
  moreover from r \<open>e2 = []\<close> have "e1 = []" by (blast dest: remove_loop_no_errs)
  ultimately show ?thesis using that aggs a r by simp
qed

lemma ApplyAggregates_names:
  assumes "ApplyAggregates N host desired tr = (Inr res, tr')"
  shows "map agg_Name res = desired"
proof -
  from assms obtain aggs where dom: "\<forall>n \<in> set desired. by_name aggs n \<noteq> None" and res: "res = collect_result (by_name aggs) desired"
    by (rule ApplyAggregates_InrE)
  show ?thesis unfolding res by (rule collect_result_names) (use dom in \<open>auto dest!: by_name_Some\<close>)
qed

section \<open>Properties\<close>

lemma agg_ID_by_name: "distinct (map na_Name aggs) \<Longrightarrow> a \<in> set aggs \<Longrightarrow> agg_ID (by_name aggs) (na_Name a) = na_ID a"
  by (simp add: agg_ID_def by_name_distinct)

lemma agg_ID_image:
  assumes "distinct (map na_Name aggs)" "distinct (map na_ID aggs)" "a \<in> set aggs" "ns \<subseteq> na_Name ` set aggs"
  shows "na_ID a \<in> agg_ID (by_name aggs) ` ns \<longleftrightarrow> na_Name a \<in> ns"
proof
  assume "na_ID a \<in> agg_ID (by_name aggs) ` ns"
  then obtain n where n: "n \<in> ns" "na_ID a = agg_ID (by_name aggs) n" by blast
  with assms(4) obtain b where b: "n = na_Name b" "b \<in> set aggs" by blast
  with n agg_ID_by_name [OF assms(1) b(2)] have "na_ID a = na_ID b" by simp
  with assms(2,3) b(2) have "a = b" by (auto simp: distinct_map dest: inj_onD)
  with n b show "na_Name a \<in> ns" by simp
next
  assume "na_Name a \<in> ns"
  then show "na_ID a \<in> agg_ID (by_name aggs) ` ns"
    by (rule rev_image_eqI) (simp add: agg_ID_by_name [OF assms(1,3)])
qed

text \<open>
  C18. When \<open>ApplyAggregates\<close> returns a result, the host is in exactly the desired ones of the
  aggregates Nova listed, and the result names the desired aggregates in the given order. (Nova's
  aggregates have distinct names and IDs; a successful add or remove changes the one membership.)
\<close>

theorem ApplyAggregates_exact:
  assumes "aggregate_laws N host mem"
    and "n_aggregates_List N tr = Inr (Inr aggs)" "distinct (map na_Name aggs)" "distinct (map na_ID aggs)"
    and "ApplyAggregates N host desired tr = (Inr res, tr')"
  shows "(\<forall>a \<in> set aggs. mem tr' (na_ID a) \<longleftrightarrow> na_Name a \<in> set desired) \<and> map agg_Name res = desired"
proof -
  from assms(5) obtain t1 where dom: "\<forall>n \<in> set desired. by_name aggs n \<noteq> None"
    and a: "add_loop N host (by_name aggs) (Difference (holding host aggs) desired) [] (tr @ [Compute AggregatesList]) = ([], t1)"
    and r: "remove_loop N host (by_name aggs) (Difference desired (holding host aggs)) [] t1 = ([], tr')"
    by (rule ApplyAggregates_InrE) (simp add: assms(2))
  have dom': "set desired \<subseteq> na_Name ` set aggs" using dom by (auto simp: by_name_None)
  have list: "mem (tr @ [Compute AggregatesList]) = mem tr" "\<forall>a \<in> set aggs. host \<in> set (na_Hosts a) \<longleftrightarrow> mem tr (na_ID a)"
    using assms(1,2) by (auto simp: aggregate_laws_def)
  have "mem tr' (na_ID x) \<longleftrightarrow> na_Name x \<in> set desired" if x: "x \<in> set aggs" for x
  proof -
    have held: "na_Name x \<in> set (holding host aggs) \<longleftrightarrow> mem tr (na_ID x)"
      using list(2) x assms(3) by (auto simp: distinct_map dest: inj_onD)
    have "na_ID x \<in> agg_ID (by_name aggs) ` set (Difference (holding host aggs) desired)
        \<longleftrightarrow> na_Name x \<in> set desired - set (holding host aggs)"
      using agg_ID_image [OF assms(3,4) x, of "set desired - set (holding host aggs)"] dom' by auto
    moreover have "na_ID x \<in> agg_ID (by_name aggs) ` set (Difference desired (holding host aggs))
        \<longleftrightarrow> na_Name x \<in> set (holding host aggs) - set desired"
      using agg_ID_image [OF assms(3,4) x, of "set (holding host aggs) - set desired"] by auto
    ultimately show ?thesis
      using held add_loop_mem [OF assms(1) a] remove_loop_mem [OF assms(1) r] by (auto simp: list(1))
  qed
  moreover have "map agg_Name res = desired" by (rule ApplyAggregates_names [OF assms(5)])
  ultimately show ?thesis by blast
qed

text \<open>A Nova that keeps the memberships of one host in two aggregates.\<close>

fun track_member :: "string \<Rightarrow> (int \<Rightarrow> bool) \<Rightarrow> call \<Rightarrow> (int \<Rightarrow> bool)" where
  "track_member host m (Compute (AggregatesAddHost i h)) = (if h = host then m(i := True) else m)"
| "track_member host m (Compute (AggregatesRemoveHost i h)) = (if h = host then m(i := False) else m)"
| "track_member host m _ = m"

definition member_after :: "string \<Rightarrow> trace \<Rightarrow> int \<Rightarrow> bool" where
  "member_after host tr = foldl (track_member host) (\<lambda>i. i = 2) tr"

definition two_aggregates :: "string \<Rightarrow> trace \<Rightarrow> nova_aggregate list" where
  "two_aggregates host tr =
     map (\<lambda>(i, n). \<lparr>na_ID = i, na_Name = n, na_UUID = n, na_Hosts = (if member_after host tr i then [host] else []),
                    na_Metadata = Map.empty\<rparr>) [(1, ''az1''), (2, testAggregateName)]"

definition aggregate_nova :: "string \<Rightarrow> nova" where
  "aggregate_nova host = sample_nova\<lparr>n_aggregates_List := \<lambda>tr. Inr (Inr (two_aggregates host tr))\<rparr>"

lemma aggregate_nova_laws: "aggregate_laws (aggregate_nova host) host (member_after host)"
  by (simp add: aggregate_laws_def aggregate_nova_def sample_nova_def member_after_def two_aggregates_def)

lemma two_aggregates_simps:
  "map na_Name (two_aggregates host tr) = [''az1'', testAggregateName]"
  "map na_ID (two_aggregates host tr) = [1, 2]"
  by (simp_all add: two_aggregates_def)

theorem ApplyAggregates_exact_witness:
  "\<exists>res tr'. ApplyAggregates (aggregate_nova ''h1'') ''h1'' [''az1''] [] = (Inr res, tr')
     \<and> (\<forall>a \<in> set (two_aggregates ''h1'' []). member_after ''h1'' tr' (na_ID a) \<longleftrightarrow> na_Name a \<in> {''az1''})"
proof -
  have l: "n_aggregates_List (aggregate_nova ''h1'') [] = Inr (Inr (two_aggregates ''h1'' []))"
    by (simp add: aggregate_nova_def)
  have "\<exists>res tr'. ApplyAggregates (aggregate_nova ''h1'') ''h1'' [''az1''] [] = (Inr res, tr')"
    by (simp add: ApplyAggregates_def ask_def aggregate_nova_def sample_nova_def two_aggregates_def member_after_def Let_def)
  then obtain res tr' where r: "ApplyAggregates (aggregate_nova ''h1'') ''h1'' [''az1''] [] = (Inr res, tr')" by blast
  from ApplyAggregates_exact [OF aggregate_nova_laws l _ _ r] r show ?thesis
    by (simp add: two_aggregates_simps)
qed

text \<open>
  An aggregate that does not exist stops the run before any membership changes: when a desired
  name is not among the listed aggregates the result is an error that names the missing ones, and
  the listing is the only call.
\<close>

theorem ApplyAggregates_missing:
  assumes "n_aggregates_List N tr = Inr (Inr aggs)" and "n \<in> set desired" "n \<notin> na_Name ` set aggs"
  shows "ApplyAggregates N host desired tr =
    (Inl (ErrorNew (''aggregates not found: '' @ fmt_strings (filter (\<lambda>m. m \<notin> na_Name ` set aggs) desired))),
     tr @ [Compute AggregatesList])"
proof -
  have eq: "filter (\<lambda>m. by_name aggs m = None) desired = filter (\<lambda>m. m \<notin> na_Name ` set aggs) desired"
    by (rule filter_cong) (auto simp: by_name_None)
  with assms(2,3) have ne: "filter (\<lambda>m. by_name aggs m = None) desired \<noteq> []"
    by (auto simp: filter_empty_conv)
  show ?thesis
    using assms(1) ne by (simp add: ApplyAggregates_def ask_def Let_def eq)
qed

theorem ApplyAggregates_missing_witness:
  "snd (ApplyAggregates sample_nova ''h1'' [''az1''] []) = [Compute AggregatesList]"
  using ApplyAggregates_missing [of sample_nova "[]" "[]" "''az1''" "[''az1'']" "''h1''"]
  by (simp add: sample_nova_def)

end
