(* ===== verification/Aggregates_Ctrl.thy ===== *)
theory Aggregates_Ctrl
  imports Host_Aggregates Sample_World
begin

text \<open>
  The aggregates controller: \<^verbatim>\<open>src/internal/controller/aggregates_controller.go\<close>. It decides from
  the phase of the host's life cycle which aggregates the host belongs to, has
  \<open>ApplyAggregates\<close> bring Nova in line when the recorded ones differ, and records the outcome.
\<close>

abbreviation AggregatesControllerName :: string where "AggregatesControllerName \<equiv> ''aggregates''"

section \<open>determineDesiredState\<close>

abbreviation current_names :: "Hypervisor \<Rightarrow> string list" where
  "current_names hv \<equiv> map agg_Name (Aggregates (hv_Status hv))"

definition determineDesiredState :: "lib \<Rightarrow> Hypervisor \<Rightarrow> string list \<times> condition" where
  "determineDesiredState L hv =
     (if hv_Maintenance hv = MaintenanceTermination then
        (case FindStatusCondition L (hv_Conditions hv) ConditionTypeEvicting of
           Some evictingCondition \<Rightarrow>
             if Status evictingCondition = ConditionFalse
             then ([], mk_condition ConditionTypeAggregatesUpdated ConditionFalse ConditionReasonTerminating
                         ''Aggregates cleared due to termination after eviction'')
             else (current_names hv,
                   mk_condition ConditionTypeAggregatesUpdated ConditionFalse ConditionReasonEvictionInProgress
                     ''Aggregates unchanged while terminating and eviction in progress'')
         | None \<Rightarrow> (current_names hv,
                   mk_condition ConditionTypeAggregatesUpdated ConditionFalse ConditionReasonEvictionInProgress
                     ''Aggregates unchanged while terminating and eviction in progress''))
      else
        let zone = map_get (Labels (Meta hv)) LabelTopologyZone;
            normal = (spec_Aggregates (Spec hv),
                      mk_condition ConditionTypeAggregatesUpdated ConditionTrue ConditionReasonSucceeded
                        ''Aggregates from spec applied successfully'') in
        (case FindStatusCondition L (hv_Conditions hv) ConditionTypeOnboarding of
           None \<Rightarrow> normal
         | Some onboardingCondition \<Rightarrow>
             if Status onboardingCondition = ConditionTrue then
               if Reason onboardingCondition = ConditionReasonInitial \<or> Reason onboardingCondition = ConditionReasonTesting
               then ([zone, testAggregateName],
                     mk_condition ConditionTypeAggregatesUpdated ConditionFalse ConditionReasonTestAggregates
                       ''Test aggregate applied during onboarding instead of spec aggregates'')
               else if Reason onboardingCondition = ConditionReasonHandover
               then (if \<not> IsStatusConditionTrue L (hv_Conditions hv) ConditionTypeTraitsUpdated
                     then ([zone, testAggregateName],
                           mk_condition ConditionTypeAggregatesUpdated ConditionFalse ConditionReasonWaitingForTraits
                             ''Waiting for traits to be applied before switching to spec aggregates'')
                     else normal)
               else normal
             else normal))"

section \<open>Reconcile\<close>

definition Aggregates_Reconcile ::
    "lib \<Rightarrow> kube \<Rightarrow> nova \<Rightarrow> string \<Rightarrow> trace \<Rightarrow> reconcile_result \<times> trace" where
  "Aggregates_Reconcile L K N name tr =
     (case ask (k_get_Hypervisor K name) (Kube (GetHypervisor name)) tr of
        (Inl err, tr1) \<Rightarrow> ((no_requeue, IgnoreNotFound L err), tr1)
      | (Inr hv, tr1) \<Rightarrow>
          if HypervisorID (hv_Status hv) = [] \<or> ServiceID (hv_Status hv) = [] then (reconcile_ok, tr1)
          else
            (case determineDesiredState L hv of
               (desiredAggregateNames, desiredCondition) \<Rightarrow>
                 (case (if \<not> slicesEqualUnordered desiredAggregateNames (current_names hv)
                        then (case ApplyAggregates N (hv_Name hv) desiredAggregateNames tr1 of
                                (Inl err, tr2) \<Rightarrow> (Inl err, tr2)
                              | (Inr aggregates, tr2) \<Rightarrow> (Inr (Some aggregates), tr2))
                        else (Inr None, tr1)) of
                    (Inl err, tr2) \<Rightarrow>
                      (case PatchHypervisorStatusWithRetry L K (hv_Name hv) AggregatesControllerName
                              (hv_set_condition L (mk_condition ConditionTypeAggregatesUpdated ConditionFalse
                                 ConditionReasonFailed (Error_text (Errorf ''failed to apply aggregates: '' err)))) tr2 of
                         (Some err2, tr3) \<Rightarrow> ((no_requeue, errors_Join [Some err, Some err2]), tr3)
                       | (None, tr3) \<Rightarrow> ((no_requeue, Some err), tr3))
                  | (Inr newAggregates, tr2) \<Rightarrow>
                      let existing = FindStatusCondition L (hv_Conditions hv) (Type desiredCondition);
                          conditionUnchanged =
                            (case existing of
                               None \<Rightarrow> False
                             | Some e \<Rightarrow> Status e = Status desiredCondition \<and> Reason e = Reason desiredCondition
                                          \<and> Message e = Message desiredCondition) in
                      if newAggregates = None \<and> conditionUnchanged then (reconcile_ok, tr2)
                      else
                        (case PatchHypervisorStatusWithRetry L K (hv_Name hv) AggregatesControllerName
                                (\<lambda>h. hv_set_condition L desiredCondition
                                   (case newAggregates of
                                      Some aggs \<Rightarrow> h\<lparr>hv_Status := (hv_Status h)\<lparr>Aggregates := aggs\<rparr>\<rparr>
                                    | None \<Rightarrow> h)) tr2 of
                           (err, tr3) \<Rightarrow> ((no_requeue, err), tr3)))))"

section \<open>Lemmas\<close>

lemma desired_Type [simp]: "Type (snd (determineDesiredState L hv)) = ConditionTypeAggregatesUpdated"
  by (simp add: determineDesiredState_def Let_def split: option.split)

lemma desired_terminating:
  "hv_Maintenance hv = MaintenanceTermination \<Longrightarrow>
   fst (determineDesiredState L hv) =
     (if \<exists>e. FindStatusCondition L (hv_Conditions hv) ConditionTypeEvicting = Some e \<and> Status e = ConditionFalse
      then [] else current_names hv)"
  by (simp add: determineDesiredState_def split: option.split)

text \<open>The condition is \<open>True\<close> exactly when the aggregates of the spec are the desired ones by rule.\<close>

definition spec_phase :: "lib \<Rightarrow> Hypervisor \<Rightarrow> bool" where
  "spec_phase L hv \<longleftrightarrow> hv_Maintenance hv \<noteq> MaintenanceTermination
     \<and> (\<forall>c. FindStatusCondition L (hv_Conditions hv) ConditionTypeOnboarding = Some c \<and> Status c = ConditionTrue \<longrightarrow>
          Reason c \<noteq> ConditionReasonInitial \<and> Reason c \<noteq> ConditionReasonTesting
          \<and> (Reason c = ConditionReasonHandover \<longrightarrow> IsStatusConditionTrue L (hv_Conditions hv) ConditionTypeTraitsUpdated))"

lemma desired_True_iff:
  "Status (snd (determineDesiredState L hv)) = ConditionTrue \<longleftrightarrow> spec_phase L hv"
  by (simp add: determineDesiredState_def spec_phase_def Let_def split: option.split)

lemma desired_spec: "spec_phase L hv \<Longrightarrow> fst (determineDesiredState L hv) = spec_Aggregates (Spec hv)"
  by (auto simp: determineDesiredState_def spec_phase_def Let_def split: option.split)

definition agg_gate :: "Hypervisor \<Rightarrow> bool" where
  "agg_gate hv \<longleftrightarrow> HypervisorID (hv_Status hv) \<noteq> [] \<and> ServiceID (hv_Status hv) \<noteq> []"

definition set_aggregates :: "lib \<Rightarrow> condition \<Rightarrow> Aggregate list option \<Rightarrow> Hypervisor \<Rightarrow> Hypervisor" where
  "set_aggregates L c naggs h = hv_set_condition L c
     (case naggs of Some aggs \<Rightarrow> h\<lparr>hv_Status := (hv_Status h)\<lparr>Aggregates := aggs\<rparr>\<rparr> | None \<Rightarrow> h)"

lemma set_aggregates_sel [simp]:
  "hv_Conditions (set_aggregates L c naggs h) = setCondition L (hv_Conditions h) c"
  "Aggregates (hv_Status (set_aggregates L c naggs h)) = (case naggs of Some aggs \<Rightarrow> aggs | None \<Rightarrow> Aggregates (hv_Status h))"
  by (simp_all add: set_aggregates_def hv_set_condition_def split: option.split)

text \<open>One case per way a pass can go.\<close>

lemma Aggregates_Reconcile_cases:
  assumes "Aggregates_Reconcile L K N name tr = (res, tr')"
  obtains (no_hv) e where "k_get_Hypervisor K name tr = Inl e" "tr' = tr @ [Kube (GetHypervisor name)]"
      "res = (no_requeue, IgnoreNotFound L e)"
  | (gated) hv where "k_get_Hypervisor K name tr = Inr hv" "\<not> agg_gate hv" "tr' = tr @ [Kube (GetHypervisor name)]"
      "res = reconcile_ok"
  | (unchanged) hv where "k_get_Hypervisor K name tr = Inr hv" "agg_gate hv"
      "mset (fst (determineDesiredState L hv)) = mset (current_names hv)"
      "tr' = tr @ [Kube (GetHypervisor name)]" "res = reconcile_ok"
  | (failed) hv e tr2 err2 c where "k_get_Hypervisor K name tr = Inr hv" "agg_gate hv"
      "mset (fst (determineDesiredState L hv)) \<noteq> mset (current_names hv)"
      "ApplyAggregates N (hv_Name hv) (fst (determineDesiredState L hv)) (tr @ [Kube (GetHypervisor name)]) = (Inl e, tr2)"
      "c = mk_condition ConditionTypeAggregatesUpdated ConditionFalse ConditionReasonFailed (''failed to apply aggregates: '' @ Error_text e)"
      "PatchHypervisorStatusWithRetry L K (hv_Name hv) AggregatesControllerName (hv_set_condition L c) tr2 = (err2, tr')"
      "snd res \<noteq> None"
  | (recorded) hv naggs tr2 err where "k_get_Hypervisor K name tr = Inr hv" "agg_gate hv"
      "if mset (fst (determineDesiredState L hv)) = mset (current_names hv)
       then naggs = None \<and> tr2 = tr @ [Kube (GetHypervisor name)]
       else \<exists>aggs. naggs = Some aggs \<and> ApplyAggregates N (hv_Name hv) (fst (determineDesiredState L hv))
              (tr @ [Kube (GetHypervisor name)]) = (Inr aggs, tr2)"
      "PatchHypervisorStatusWithRetry L K (hv_Name hv) AggregatesControllerName
         (set_aggregates L (snd (determineDesiredState L hv)) naggs) tr2 = (err, tr')"
      "res = (no_requeue, err)"
proof (cases "k_get_Hypervisor K name tr")
  case (Inl e)
  with assms no_hv show ?thesis by (simp add: Aggregates_Reconcile_def ask_def)
next
  case hv: (Inr hv)
  obtain names c where d: "determineDesiredState L hv = (names, c)" by fastforce
  show ?thesis
  proof (cases "agg_gate hv")
    case False
    with assms hv gated show ?thesis by (auto simp: Aggregates_Reconcile_def ask_def agg_gate_def)
  next
    case g: True
    let ?tr1 = "tr @ [Kube (GetHypervisor name)]"
    note eq = assms [unfolded Aggregates_Reconcile_def ask_def hv d prod.case sum.case slicesEqualUnordered_iff]
    show ?thesis
    proof (cases "mset names = mset (current_names hv)")
      case same: True
      show ?thesis
      proof (cases "res = reconcile_ok \<and> tr' = ?tr1")
        case True
        with unchanged [OF hv g] same d show ?thesis by simp
      next
        case False
        with eq g same show ?thesis
          by (intro recorded [OF hv g, where naggs = None and ?tr2.0 = ?tr1 and err = "snd res"])
            (auto simp: agg_gate_def Let_def d set_aggregates_def [abs_def] split: if_splits prod.splits)
      qed
    next
      case diff: False
      obtain r tr2 where a: "ApplyAggregates N (hv_Name hv) names ?tr1 = (r, tr2)" by fastforce
      show ?thesis
      proof (cases r)
        case (Inl e)
        with eq g diff a show ?thesis
          by (intro failed [OF hv g, where e = e and ?tr2.0 = tr2 and ?err2.0 = "fst (PatchHypervisorStatusWithRetry L K (hv_Name hv)
             AggregatesControllerName (hv_set_condition L (mk_condition ConditionTypeAggregatesUpdated ConditionFalse
             ConditionReasonFailed (''failed to apply aggregates: '' @ Error_text e))) tr2)"])
            (auto simp: agg_gate_def d errors_Join_head split: prod.splits option.splits)
      next
        case (Inr aggs)
        with eq g diff a show ?thesis
          by (intro recorded [OF hv g, where naggs = "Some aggs" and ?tr2.0 = tr2 and err = "snd res"])
            (auto simp: agg_gate_def Let_def d set_aggregates_def [abs_def] split: prod.splits)
      qed
    qed
  qed
qed

section \<open>Properties\<close>

text \<open>The calls of a run of \<open>ApplyAggregates\<close>, by kind.\<close>

lemma ApplyAggregates_extends:
  "extends_by (\<lambda>c. c = Compute AggregatesList
      \<or> (\<exists>i. c = Compute (AggregatesAddHost i host) \<and> desired \<noteq> []) \<or> (\<exists>i. c = Compute (AggregatesRemoveHost i host)))
     tr (snd (ApplyAggregates N host desired tr))"
  unfolding ApplyAggregates_calls
  by (auto simp: list_all_iff add_call_def remove_call_def Difference_eq_filter split: sum.split
      intro!: extends_by_append extends_by_snoc)

text \<open>A change of membership, taken apart: who made it and behind which gate.\<close>

lemma membership_change_gate:
  assumes "retry_laws L"
    and "c \<in> set (new_calls tr (snd (Aggregates_Reconcile L K N name tr)))"
    and "c = Compute (AggregatesAddHost i host) \<or> c = Compute (AggregatesRemoveHost i host)"
  shows "\<exists>hv. k_get_Hypervisor K name tr = Inr hv \<and> host = hv_Name hv
    \<and> HypervisorID (hv_Status hv) \<noteq> [] \<and> ServiceID (hv_Status hv) \<noteq> []
    \<and> mset (fst (determineDesiredState L hv)) \<noteq> mset (current_names hv)
    \<and> (hv_Maintenance hv = MaintenanceTermination \<longrightarrow>
        c = Compute (AggregatesRemoveHost i host)
        \<and> (\<exists>e. FindStatusCondition L (hv_Conditions hv) ConditionTypeEvicting = Some e \<and> Status e = ConditionFalse))"
proof -
  let ?tr1 = "tr @ [Kube (GetHypervisor name)]"
  let ?Q = "\<lambda>hv c. \<forall>i h. c = Compute (AggregatesAddHost i h) \<or> c = Compute (AggregatesRemoveHost i h) \<longrightarrow>
      h = hv_Name hv \<and> (c = Compute (AggregatesAddHost i h) \<longrightarrow> fst (determineDesiredState L hv) \<noteq> [])"
  obtain res tr' where eq: "Aggregates_Reconcile L K N name tr = (res, tr')" by fastforce
  with assms have c: "c \<in> set (new_calls tr tr')" by simp
  have ext: "extends_by (?Q hv) ?tr1 t"
    if "ApplyAggregates N (hv_Name hv) (fst (determineDesiredState L hv)) ?tr1 = (r, t)" for hv r t
    using ApplyAggregates_extends [of "hv_Name hv" "fst (determineDesiredState L hv)" ?tr1 N] that
    by (auto elim!: extends_by_mono)
  have patched: "extends_by (?Q hv) t (snd (PatchHypervisorStatusWithRetry L K n w f t))" for hv n w f t
    by (rule patch_extends_mono [OF assms(1)]) auto
  have key: ?thesis if hv: "k_get_Hypervisor K name tr = Inr hv" "agg_gate hv"
    and d: "mset (fst (determineDesiredState L hv)) \<noteq> mset (current_names hv)"
    and a: "ApplyAggregates N (hv_Name hv) (fst (determineDesiredState L hv)) ?tr1 = (r, tr2)"
    and p: "tr' = snd (PatchHypervisorStatusWithRetry L K n w f tr2)" for hv r tr2 n w f
  proof -
    from extends_by_trans [OF ext [OF a] patched] have "extends_by (?Q hv) tr tr'"
      unfolding p by (rule extends_by_Cons) simp
    from extends_by_new_calls [OF this c] have "host = hv_Name hv"
      and add: "c = Compute (AggregatesAddHost i host) \<longrightarrow> fst (determineDesiredState L hv) \<noteq> []"
      using assms(3) by auto
    moreover have "\<exists>e. FindStatusCondition L (hv_Conditions hv) ConditionTypeEvicting = Some e \<and> Status e = ConditionFalse"
      and "fst (determineDesiredState L hv) = []"
      if "hv_Maintenance hv = MaintenanceTermination"
      using d desired_terminating [OF that, of L] by (auto split: if_splits)
    ultimately show ?thesis using hv d assms(3) by (auto simp: agg_gate_def)
  qed
  from eq show ?thesis
  proof (cases rule: Aggregates_Reconcile_cases)
    case (failed hv e tr2 err2 c')
    from failed(6) have "tr' = snd (PatchHypervisorStatusWithRetry L K (hv_Name hv) AggregatesControllerName (hv_set_condition L c') tr2)"
      by simp
    from key [OF failed(1-4) this] show ?thesis .
  next
    case (recorded hv naggs tr2 err)
    show ?thesis
    proof (cases "mset (fst (determineDesiredState L hv)) = mset (current_names hv)")
      case True
      have "extends_by (\<lambda>c. \<forall>i h. c \<noteq> Compute (AggregatesAddHost i h) \<and> c \<noteq> Compute (AggregatesRemoveHost i h)) ?tr1 tr'"
        using patch_extends_mono [OF assms(1), of "\<lambda>c. \<forall>i h. c \<noteq> Compute (AggregatesAddHost i h) \<and> c \<noteq> Compute (AggregatesRemoveHost i h)"
            "hv_Name hv" K "set_aggregates L (snd (determineDesiredState L hv)) naggs" AggregatesControllerName tr2] recorded(3,4) True by simp
      then have "extends_by (\<lambda>c. \<forall>i h. c \<noteq> Compute (AggregatesAddHost i h) \<and> c \<noteq> Compute (AggregatesRemoveHost i h)) tr tr'"
        by (rule extends_by_Cons) simp
      from extends_by_new_calls [OF this c] assms(3) show ?thesis by blast
    next
      case False
      with recorded(3) obtain aggs where "ApplyAggregates N (hv_Name hv) (fst (determineDesiredState L hv)) ?tr1 = (Inr aggs, tr2)"
        by auto
      from key [OF recorded(1,2) False this] recorded(4) show ?thesis by (metis snd_conv)
    qed
  qed (use c assms(3) in auto)
qed

text \<open>
  C19. The controller changes the membership of a host in an aggregate only for the hypervisor it
  read, under that hypervisor's name, once Nova's identifiers are recorded in the status, and only
  when the recorded names are not, as a multiset, the desired ones. While the
  host is being terminated it changes nothing before \<open>Evicting\<close> is reported as \<open>False\<close>, and then it
  only removes.
\<close>

theorem aggregate_change_gate:
  assumes "retry_laws L"
    and "c \<in> set (new_calls tr (snd (Aggregates_Reconcile L K N name tr)))"
    and "c = Compute (AggregatesAddHost i host) \<or> c = Compute (AggregatesRemoveHost i host)"
  shows "\<exists>hv. k_get_Hypervisor K name tr = Inr hv \<and> host = hv_Name hv
    \<and> HypervisorID (hv_Status hv) \<noteq> [] \<and> ServiceID (hv_Status hv) \<noteq> []
    \<and> mset (fst (determineDesiredState L hv)) \<noteq> mset (current_names hv)
    \<and> (hv_Maintenance hv = MaintenanceTermination \<longrightarrow>
        c = Compute (AggregatesRemoveHost i host)
        \<and> (\<exists>e. FindStatusCondition L (hv_Conditions hv) ConditionTypeEvicting = Some e \<and> Status e = ConditionFalse))"
  by (rule membership_change_gate [OF assms])

lemma no_patch_ApplyAggregates:
  assumes "ApplyAggregates N host desired (tr @ [Kube (GetHypervisor name)]) = (r, t)"
  shows "extends_by (\<lambda>c. \<forall>a b v. c \<noteq> Kube (StatusPatchHypervisor a b v)) tr t"
proof (rule extends_by_Cons [where c = "Kube (GetHypervisor name)"])
  show "extends_by (\<lambda>c. \<forall>a b v. c \<noteq> Kube (StatusPatchHypervisor a b v)) (tr @ [Kube (GetHypervisor name)]) t"
    using ApplyAggregates_extends [of host desired "tr @ [Kube (GetHypervisor name)]" N] assms
    by (auto elim!: extends_by_mono)
qed simp

lemma no_patch_recorded:
  assumes "if mset (fst (determineDesiredState L hv)) = mset (current_names hv)
       then naggs = None \<and> tr2 = tr @ [Kube (GetHypervisor name)]
       else \<exists>aggs. naggs = Some aggs \<and> ApplyAggregates N (hv_Name hv) (fst (determineDesiredState L hv))
              (tr @ [Kube (GetHypervisor name)]) = (Inr aggs, tr2)"
  shows "extends_by (\<lambda>c. \<forall>a b v. c \<noteq> Kube (StatusPatchHypervisor a b v)) tr tr2"
proof (cases "mset (fst (determineDesiredState L hv)) = mset (current_names hv)")
  case True
  with assms show ?thesis by (simp add: extends_by_snoc)
next
  case False
  with assms show ?thesis using no_patch_ApplyAggregates by auto
qed

text \<open>
  C20. What a pass writes about aggregates. Every status it writes leaves the recorded aggregates as
  in the object patched when the names recorded in the status read are the desired ones, or when
  \<open>ApplyAggregates\<close> failed for the desired ones (\<open>AggregatesUpdated\<close> is then not \<open>True\<close>); when it
  succeeded, the recorded aggregates are the ones it returned. And \<open>AggregatesUpdated\<close> is written
  as \<open>True\<close> only when the desired aggregates are those of the spec: the host is not being
  terminated, is not in the test phases of its onboarding, and in the handover phase the traits were
  applied before.
\<close>

theorem aggregates_recorded:
  assumes "retry_laws L" "meta_laws L"
    and "Kube (StatusPatchHypervisor fresh new ow) \<in> set (new_calls tr (snd (Aggregates_Reconcile L K N name tr)))"
  shows "\<exists>hv :: Hypervisor. k_get_Hypervisor K name tr = Inr hv
    \<and> (if mset (fst (determineDesiredState L hv)) = mset (current_names hv)
       then Aggregates (hv_Status new) = Aggregates (hv_Status fresh)
       else (case fst (ApplyAggregates N (hv_Name hv) (fst (determineDesiredState L hv)) (tr @ [Kube (GetHypervisor name)])) of
               Inl e \<Rightarrow> Aggregates (hv_Status new) = Aggregates (hv_Status fresh)
                 \<and> map_option Status (FindStatusCondition L (hv_Conditions new) ConditionTypeAggregatesUpdated) = Some ConditionFalse
             | Inr aggs \<Rightarrow> Aggregates (hv_Status new) = aggs))
    \<and> (map_option Status (FindStatusCondition L (hv_Conditions new) ConditionTypeAggregatesUpdated) = Some ConditionTrue \<longrightarrow>
         spec_phase L hv \<and> fst (determineDesiredState L hv) = spec_Aggregates (Spec hv))"
proof -
  obtain res tr' where eq: "Aggregates_Reconcile L K N name tr = (res, tr')" by fastforce
  with assms have w: "Kube (StatusPatchHypervisor fresh new ow) \<in> set (new_calls tr tr')" by simp
  have status: "map_option Status (FindStatusCondition L (hv_Conditions new) ConditionTypeAggregatesUpdated) = Some (Status d)"
    if "hv_Conditions new = setCondition L (hv_Conditions fresh) d" "Type d = ConditionTypeAggregatesUpdated" for d
    using meta_view_find_set [OF assms(2), of d "hv_Conditions fresh" ConditionTypeAggregatesUpdated] that
    by (auto simp: meta_view_def)
  from eq show ?thesis
  proof (cases rule: Aggregates_Reconcile_cases)
    case (failed hv e tr2 err2 c')
    have "new = hv_set_condition L c' fresh"
      by (rule patched_writes [OF assms(1) failed(6) no_patch_ApplyAggregates [OF failed(4)] w])
    with status [of c'] failed(1-5) show ?thesis by (simp add: hv_set_condition_def del: map_option_eq_Some)
  next
    case (recorded hv naggs tr2 err)
    from patched_writes [OF assms(1) recorded(4) no_patch_recorded [OF recorded(3)] w]
    have new: "new = set_aggregates L (snd (determineDesiredState L hv)) naggs fresh" .
    with status [of "snd (determineDesiredState L hv)"]
    have st: "map_option Status (FindStatusCondition L (hv_Conditions new) ConditionTypeAggregatesUpdated)
        = Some (Status (snd (determineDesiredState L hv)))" by simp
    show ?thesis using recorded(1,3) new desired_spec [of L hv] unfolding st option.inject desired_True_iff
      by (auto split: if_splits)
  qed (use w in auto)
qed

section \<open>Concrete passes\<close>

definition agg_hv :: "string \<Rightarrow> string list \<Rightarrow> Hypervisor" where
  "agg_hv mode specAggs = \<lparr>Meta = empty_meta ''h1'', Spec = zero_spec\<lparr>Maintenance := mode, spec_Aggregates := specAggs\<rparr>,
     hv_Status = zero_status\<lparr>HypervisorID := ''id'', ServiceID := ''svc'',
       Aggregates := [\<lparr>agg_Name = testAggregateName, agg_UUID = [], agg_Metadata = Map.empty\<rparr>],
       Conditions := [mk_condition ConditionTypeEvicting ConditionFalse ConditionReasonSucceeded []]\<rparr>\<rparr>"

abbreviation agg_pass :: "string \<Rightarrow> trace" where
  "agg_pass mode \<equiv> snd (Aggregates_Reconcile list_lib
     (sample_kube (agg_hv mode [''az1'']) (empty_eviction ''e'') (empty_node ''h1'')) (aggregate_nova ''h1'') ''h1'' [])"

lemmas agg_pass_defs = agg_hv_def Aggregates_Reconcile_def ask_def sample_kube_def aggregate_nova_def
  sample_nova_def zero_values Let_def list_lib_def list_find_def slicesEqualUnordered_def new_calls_def
  determineDesiredState_def ApplyAggregates_def two_aggregates_def member_after_def
  PatchHypervisorStatusWithRetry_def numeral_eq_Suc patch_hypervisor_attempt_def hv_set_condition_def mk_condition_def

theorem aggregate_change_gate_witness:
  "\<exists>i hv. Compute (AggregatesRemoveHost i ''h1'') \<in> set (new_calls [] (agg_pass MaintenanceTermination))
     \<and> mset (fst (determineDesiredState list_lib hv)) \<noteq> mset (current_names hv)"
proof -
  have "Compute (AggregatesRemoveHost 2 ''h1'') \<in> set (new_calls [] (agg_pass MaintenanceTermination))"
    by (simp add: agg_pass_defs agg_ID_def)
  with aggregate_change_gate [OF retry_laws_list_lib this] show ?thesis by blast
qed

theorem aggregates_recorded_witness:
  "\<exists>fresh new ow. Kube (StatusPatchHypervisor fresh new ow) \<in> set (new_calls [] (agg_pass MaintenanceUnset))
     \<and> (\<exists>tr2. ApplyAggregates (aggregate_nova ''h1'') ''h1'' [''az1''] [Kube (GetHypervisor ''h1'')]
            = (Inr (Aggregates (hv_Status new)), tr2))"
proof -
  have "\<exists>fresh new ow. Kube (StatusPatchHypervisor fresh new ow) \<in> set (new_calls [] (agg_pass MaintenanceUnset))"
    by (simp add: agg_pass_defs agg_ID_def)
  then obtain fresh new ow where w: "Kube (StatusPatchHypervisor fresh new ow) \<in> set (new_calls [] (agg_pass MaintenanceUnset))"
    by blast
  obtain aggs t where a: "ApplyAggregates (aggregate_nova ''h1'') ''h1'' [''az1''] [Kube (GetHypervisor ''h1'')] = (Inr aggs, t)"
    by (simp add: agg_pass_defs agg_ID_def)
  have "fst (determineDesiredState list_lib (agg_hv MaintenanceUnset [''az1''])) = [''az1'']"
    by (simp add: determineDesiredState_def agg_hv_def list_lib_def list_find_def zero_values mk_condition_def)
  with aggregates_recorded [OF retry_laws_list_lib meta_laws_list_lib w] w a show ?thesis
    by (auto simp: sample_kube_def agg_hv_def empty_meta_def)
qed

end
