(* ===== verification/Placement_Api.thy ===== *)
theory Placement_Api
  imports Utils
begin

text \<open>
  \<open>CleanupResourceProvider\<close> of \<^verbatim>\<open>src/internal/openstack/placement.go\<close> and
  \<open>GetHypervisorByName\<close> of \<^verbatim>\<open>src/internal/openstack/hypervisor.go\<close>. The requests behind
  the calls are in \<open>Placement_Http\<close>. A provider is given by its UUID, \<open>None\<close> for a nil pointer; the
  allocations of a provider are the consumer IDs in the order in which Go iterates over the map,
  which the environment chooses.
\<close>

section \<open>CleanupResourceProvider\<close>

fun cleanup_consumers ::
    "placement \<Rightarrow> string list \<Rightarrow> trace \<Rightarrow> go_error option \<times> trace" where
  "cleanup_consumers P [] tr = (None, tr)"
| "cleanup_consumers P (consumerID # rest) tr =
     (case ask (p_allocations_List P consumerID) (Placement (AllocationsList consumerID)) tr of
        (Inl err, tr1) \<Rightarrow> (Some err, tr1)
      | (Inr consumerAllocations, tr1) \<Rightarrow>
          if length consumerAllocations > 0
          then (Some (ErrorNew ''cannot clean up provider, cannot handle non-empty consumer allocations''), tr1)
          else
            (case ask (p_allocations_Delete P consumerID) (Placement (AllocationsDelete consumerID)) tr1 of
               (Some err, tr2) \<Rightarrow>
                 (Some (Errorf (''deleteConsumerAllocations failed for consumer '' @ consumerID @ '': '') err), tr2)
             | (None, tr2) \<Rightarrow> cleanup_consumers P rest tr2))"

definition CleanupResourceProvider ::
    "placement \<Rightarrow> string option \<Rightarrow> trace \<Rightarrow> go_error option \<times> trace" where
  "CleanupResourceProvider P provider tr =
     (case provider of
        None \<Rightarrow> (None, tr)
      | Some uuid \<Rightarrow>
          (case ask (p_providers_GetAllocations P uuid) (Placement (ProvidersGetAllocations uuid)) tr of
             (Inl err, tr1) \<Rightarrow> (Some err, tr1)
           | (Inr consumers, tr1) \<Rightarrow>
               (case cleanup_consumers P consumers tr1 of
                  (Some err, tr2) \<Rightarrow> (Some err, tr2)
                | (None, tr2) \<Rightarrow>
                    (case ask (p_providers_Delete P uuid) (Placement (ProvidersDelete uuid)) tr2 of
                       (Some err, tr3) \<Rightarrow> (Some (Errorf ''failed to delete after cleanup due to '' err), tr3)
                     | (None, tr3) \<Rightarrow> (None, tr3)))))"

section \<open>GetHypervisorByName\<close>

definition ErrNoHypervisor :: go_error where
  "ErrNoHypervisor = ErrorNew ''no hypervisor found''"

definition ErrMultipleHypervisors :: go_error where
  "ErrMultipleHypervisors = ErrorNew ''multiple hypervisors found''"

definition GetHypervisorByName ::
    "lib \<Rightarrow> nova \<Rightarrow> string \<Rightarrow> bool \<Rightarrow> trace \<Rightarrow> (go_error + nova_hypervisor) \<times> trace" where
  "GetHypervisorByName L N hypervisorHostnamePattern withServers tr =
     (case ask (n_hypervisors_List N hypervisorHostnamePattern withServers)
             (Compute (HypervisorsList hypervisorHostnamePattern withServers)) tr of
        (Inl err, tr1) \<Rightarrow> (Inl (if ResponseCodeIs L err 404 then ErrNoHypervisor else err), tr1)
      | (Inr (Inl err), tr1) \<Rightarrow> (Inl err, tr1)
      | (Inr (Inr hs), tr1) \<Rightarrow>
          (case hs of
             [] \<Rightarrow> (Inl ErrNoHypervisor, tr1)
           | [h] \<Rightarrow> (Inr h, tr1)
           | _ \<Rightarrow> (Inl ErrMultipleHypervisors, tr1)))"

section \<open>Lemmas\<close>

definition consumer_calls :: "string \<Rightarrow> call list" where
  "consumer_calls c = [Placement (AllocationsList c), Placement (AllocationsDelete c)]"

text \<open>The loop ends without an error exactly after checking and dropping every consumer in turn.\<close>

lemma cleanup_consumers_ok:
  "cleanup_consumers P cs tr = (None, tr') \<Longrightarrow> tr' = tr @ concat (map consumer_calls cs)"
  by (induction cs arbitrary: tr)
    (fastforce simp: ask_def consumer_calls_def split: sum.splits if_splits option.splits)+

text \<open>Each consumer it dropped had reported no allocations right before.\<close>

lemma cleanup_consumers_empty:
  "cleanup_consumers P cs tr = (None, tr') \<Longrightarrow> k < length cs \<Longrightarrow>
   p_allocations_List P (cs ! k) (tr @ concat (map consumer_calls (take k cs))) = Inr []"
proof (induction cs arbitrary: tr k)
  case Nil
  then show ?case by simp
next
  case (Cons c cs)
  then have empty: "p_allocations_List P c tr = Inr []"
    and rest: "cleanup_consumers P cs (tr @ consumer_calls c) = (None, tr')"
    by (auto simp: ask_def consumer_calls_def split: sum.splits if_splits option.splits)
  show ?case
  proof (cases k)
    case 0
    with empty show ?thesis by simp
  next
    case (Suc j)
    with Cons.IH [OF rest, of j] Cons.prems show ?thesis by simp
  qed
qed

definition provider_delete :: "call \<Rightarrow> bool" where
  "provider_delete c \<longleftrightarrow> (\<exists>u. c = Placement (ProvidersDelete u))"

lemma cleanup_consumers_no_provider_delete:
  "extends_by (\<lambda>c. \<not> provider_delete c) tr0 tr \<Longrightarrow>
   extends_by (\<lambda>c. \<not> provider_delete c) tr0 (snd (cleanup_consumers P cs tr))"
proof (induction cs arbitrary: tr)
  case Nil
  then show ?case by simp
next
  case (Cons c cs)
  have "extends_by (\<lambda>c. \<not> provider_delete c) tr0 (tr @ [Placement (AllocationsList c)])"
    and next1: "extends_by (\<lambda>c. \<not> provider_delete c) tr0
      (tr @ [Placement (AllocationsList c), Placement (AllocationsDelete c)])"
    using Cons.prems by (auto intro!: extends_by_append simp: provider_delete_def)
  with Cons.IH [OF next1] show ?case
    by (auto simp: ask_def split: sum.splits option.splits)
qed

end
