(* ===== verification/Offboarding_Ctrl.thy ===== *)
theory Offboarding_Ctrl
  imports Placement_Api Sample_World
begin

text \<open>
  The offboarding controller: \<^verbatim>\<open>src/internal/controller/offboarding_controller.go\<close>. For a host
  that is to be terminated it waits until the host is drained, its agents are gone and it is in no
  aggregate, then deletes the compute service and the resource provider and reports
  \<open>Offboarded\<close>.
\<close>

abbreviation OffboardingControllerName :: string where "OffboardingControllerName \<equiv> ''offboarding''"

section \<open>setOffboardingCondition and markOffboarded\<close>

definition offboarding_condition :: "string \<Rightarrow> condition" where
  "offboarding_condition message = mk_condition ConditionTypeOffboarded ConditionFalse ''Offboarding'' message"

definition offboarded_condition :: condition where
  "offboarded_condition = mk_condition ConditionTypeOffboarded ConditionTrue ''Offboarded'' ''Offboarding successful''"

definition setOffboardingCondition ::
    "lib \<Rightarrow> kube \<Rightarrow> Hypervisor \<Rightarrow> string \<Rightarrow> trace \<Rightarrow> reconcile_result \<times> trace" where
  "setOffboardingCondition L K hv message tr =
     (case PatchHypervisorStatusWithRetry L K (hv_Name hv) OffboardingControllerName
             (hv_set_condition L (offboarding_condition message)) tr of
        (Some err, tr1) \<Rightarrow> ((no_requeue, Some (Errorf ''cannot update hypervisor status due to '' err)), tr1)
      | (None, tr1) \<Rightarrow> (reconcile_ok, tr1))"

definition markOffboarded :: "lib \<Rightarrow> kube \<Rightarrow> Hypervisor \<Rightarrow> trace \<Rightarrow> go_error option \<times> trace" where
  "markOffboarded L K hv tr =
     (case PatchHypervisorStatusWithRetry L K (hv_Name hv) OffboardingControllerName
             (hv_set_condition L offboarded_condition) tr of
        (Some err, tr1) \<Rightarrow> (Some (Errorf ''cannot update hypervisor status due to '' err), tr1)
      | (None, tr1) \<Rightarrow> (None, tr1))"

section \<open>Reconcile\<close>

text \<open>
  The pass in the order of the source, cut where it turns from reading the object to calling
  OpenStack. \<open>errors.Is\<close> compares with the sentinel \<open>ErrNoHypervisor\<close>.
\<close>

definition offboard_cleanup ::
    "lib \<Rightarrow> kube \<Rightarrow> nova \<Rightarrow> placement \<Rightarrow> Hypervisor \<Rightarrow> nova_hypervisor \<Rightarrow> trace \<Rightarrow> reconcile_result \<times> trace" where
  "offboard_cleanup L K N P hv hypervisor tr =
     (case ask (n_services_Delete N (nh_ServiceID hypervisor)) (Compute (ServicesDelete (nh_ServiceID hypervisor))) tr of
        (err, tr1) \<Rightarrow>
          if (case err of Some e \<Rightarrow> \<not> ResponseCodeIs L e 404 | None \<Rightarrow> False)
          then setOffboardingCondition L K hv
                 (''cannot delete service '' @ nh_ServiceID hypervisor @ '' due to '' @ Error_text (the err)) tr1
          else
            (case ask (p_providers_Get P (nh_ID hypervisor)) (Placement (ProvidersGet (nh_ID hypervisor))) tr1 of
               ((rp, err), tr2) \<Rightarrow>
                 if (case err of Some e \<Rightarrow> \<not> ResponseCodeIs L e 404 | None \<Rightarrow> False)
                 then setOffboardingCondition L K hv (''cannot get resource provider: '' @ Error_text (the err)) tr2
                 else
                   (case CleanupResourceProvider P rp tr2 of
                      (Some err, tr3) \<Rightarrow>
                        setOffboardingCondition L K hv (''cannot clean up resource provider: '' @ Error_text err) tr3
                    | (None, tr3) \<Rightarrow>
                        (case markOffboarded L K hv tr3 of (err, tr4) \<Rightarrow> ((no_requeue, err), tr4)))))"

definition offboard_nova ::
    "lib \<Rightarrow> kube \<Rightarrow> nova \<Rightarrow> placement \<Rightarrow> string \<Rightarrow> Hypervisor \<Rightarrow> trace \<Rightarrow> reconcile_result \<times> trace" where
  "offboard_nova L K N P hostname hv tr =
     (case GetHypervisorByName L N hostname True tr of
        (Inl err, tr1) \<Rightarrow>
          if err = ErrNoHypervisor
          then (case markOffboarded L K hv tr1 of (err2, tr2) \<Rightarrow> ((no_requeue, err2), tr2))
          else setOffboardingCondition L K hv
                 (''cannot get hypervisor by name '' @ hostname @ '' due to '' @ Error_text err) tr1
      | (Inr hypervisor, tr1) \<Rightarrow>
          if nh_RunningVMs hypervisor > 0
          then setOffboardingCondition L K hv
                 (''Hypervisor is being offboarded, but still has '' @ fmt_d (nh_RunningVMs hypervisor) @ '' running VMs'') tr1
          else if (case nh_Servers hypervisor of Some ss \<Rightarrow> length ss > 0 | None \<Rightarrow> False)
          then setOffboardingCondition L K hv
                 (''Hypervisor is being offboarded, but still has '' @ fmt_d (int (length (the (nh_Servers hypervisor))))
                  @ '' assigned VMs, check with `openstack server list --all-projects --host '' @ hostname @ ''`'') tr1
          else if length (Aggregates (hv_Status hv)) > 0
          then setOffboardingCondition L K hv
                 (''Waiting for aggregates to be removed, current: '' @ fmt_strings (map agg_Name (Aggregates (hv_Status hv)))) tr1
          else offboard_cleanup L K N P hv hypervisor tr1)"

definition Offboarding_Reconcile ::
    "lib \<Rightarrow> kube \<Rightarrow> nova \<Rightarrow> placement \<Rightarrow> string \<Rightarrow> trace \<Rightarrow> reconcile_result \<times> trace" where
  "Offboarding_Reconcile L K N P hostname tr =
     (case ask (k_get_Hypervisor K hostname) (Kube (GetHypervisor hostname)) tr of
        (Inl err, tr1) \<Rightarrow> ((no_requeue, IgnoreNotFound L err), tr1)
      | (Inr hv, tr1) \<Rightarrow>
          if \<not> LifecycleEnabled (Spec hv) \<or> hv_Maintenance hv \<noteq> MaintenanceTermination then (reconcile_ok, tr1)
          else
            (case FindStatusCondition L (hv_Conditions hv) ConditionTypeOffboarded of
               None \<Rightarrow> setOffboardingCondition L K hv ''Hypervisor is being offboarded, removing host from nova'' tr1
             | Some offboardedCondition \<Rightarrow>
                 if Status offboardedCondition = ConditionTrue then (reconcile_ok, tr1)
                 else if IsStatusConditionTrue L (hv_Conditions hv) ConditionTypeOnboarding then (reconcile_ok, tr1)
                 else if ServiceID (hv_Status hv) \<noteq> [] \<and> \<not> IsStatusConditionFalse L (hv_Conditions hv) ConditionTypeEvicting
                 then (reconcile_ok, tr1)
                 else if \<not> IsStatusConditionTrue L (hv_Conditions hv) ConditionTypeAgentPodsEvicted
                 then setOffboardingCondition L K hv
                        (case FindStatusCondition L (hv_Conditions hv) ConditionTypeAgentPodsEvicted of
                           Some cond \<Rightarrow> if Message cond \<noteq> [] then ''Waiting for agent pods to be evicted: '' @ Message cond
                                        else ''Waiting for agent pods (nova-compute, neutron) to be evicted from node''
                         | None \<Rightarrow> ''Waiting for agent pods (nova-compute, neutron) to be evicted from node'') tr1
                 else offboard_nova L K N P hostname hv tr1))"

section \<open>Lemmas\<close>

text \<open>Everything that must hold of the object before OpenStack is called at all.\<close>

definition offboard_gate :: "lib \<Rightarrow> Hypervisor \<Rightarrow> bool" where
  "offboard_gate L hv \<longleftrightarrow> LifecycleEnabled (Spec hv) \<and> hv_Maintenance hv = MaintenanceTermination
     \<and> (\<exists>c. FindStatusCondition L (hv_Conditions hv) ConditionTypeOffboarded = Some c \<and> Status c \<noteq> ConditionTrue)
     \<and> \<not> IsStatusConditionTrue L (hv_Conditions hv) ConditionTypeOnboarding
     \<and> (ServiceID (hv_Status hv) = [] \<or> IsStatusConditionFalse L (hv_Conditions hv) ConditionTypeEvicting)
     \<and> IsStatusConditionTrue L (hv_Conditions hv) ConditionTypeAgentPodsEvicted"

definition host_empty :: "nova_hypervisor \<Rightarrow> bool" where
  "host_empty h \<longleftrightarrow> nh_RunningVMs h \<le> 0 \<and> (nh_Servers h = None \<or> nh_Servers h = Some [])"

definition patch_of :: "(Hypervisor \<Rightarrow> Hypervisor) \<Rightarrow> call \<Rightarrow> bool" where
  "patch_of f c \<longleftrightarrow> (\<exists>n. c = Kube (GetHypervisor n)) \<or> (\<exists>h w. c = Kube (StatusPatchHypervisor h (f h) w))"

lemma setOffboardingCondition_calls:
  "retry_laws L \<Longrightarrow> extends_by (patch_of (hv_set_condition L (offboarding_condition m))) tr (snd (setOffboardingCondition L K hv m tr))"
  using patch_extends_mono [of L "patch_of (hv_set_condition L (offboarding_condition m))" "hv_Name hv" K
      "hv_set_condition L (offboarding_condition m)" OffboardingControllerName tr]
  by (auto simp: setOffboardingCondition_def patch_of_def split: prod.splits option.splits)

lemma markOffboarded_calls:
  "retry_laws L \<Longrightarrow> extends_by (patch_of (hv_set_condition L offboarded_condition)) tr (snd (markOffboarded L K hv tr))"
  using patch_extends_mono [of L "patch_of (hv_set_condition L offboarded_condition)" "hv_Name hv" K
      "hv_set_condition L offboarded_condition" OffboardingControllerName tr]
  by (auto simp: markOffboarded_def patch_of_def split: prod.splits option.splits)

lemma CleanupResourceProvider_calls:
  "extends_by (\<lambda>c. \<exists>p. c = Placement p) tr (snd (CleanupResourceProvider P rp tr))"
proof -
  have loop: "extends_by (\<lambda>c. \<exists>p. c = Placement p) tr0 t \<Longrightarrow>
      extends_by (\<lambda>c. \<exists>p. c = Placement p) tr0 (snd (cleanup_consumers P cs t))" for tr0 t cs
    by (induction cs arbitrary: t) (auto simp: ask_def extends_by_append split: sum.splits option.splits)
  show ?thesis
  proof (cases rp)
    case None
    then show ?thesis by (simp add: CleanupResourceProvider_def)
  next
    case (Some u)
    have g: "extends_by (\<lambda>c. \<exists>p. c = Placement p) tr (tr @ [Placement (ProvidersGetAllocations u)])" by blast
    have step: "extends_by (\<lambda>c. \<exists>p. c = Placement p) tr t"
      if "cleanup_consumers P cs (tr @ [Placement (ProvidersGetAllocations u)]) = (e, t)" for cs e t
      using loop [OF g, of cs] that by simp
    show ?thesis
      using g by (auto simp: Some CleanupResourceProvider_def ask_def split: sum.splits option.splits prod.splits
          dest!: step intro: extends_by_append)
  qed
qed

lemma GetHypervisorByName_trace: "snd (GetHypervisorByName L N n w tr) = tr @ [Compute (HypervisorsList n w)]"
  by (auto simp: GetHypervisorByName_def ask_def split: sum.splits list.splits)

text \<open>The cleanup: the deletion of the service comes first, a report of success only at the very end.\<close>

lemma offboard_cleanup_cases:
  assumes "offboard_cleanup L K N P hv h tr = (res, tr')"
  obtains (failed) m cs where "setOffboardingCondition L K hv m (tr @ Compute (ServicesDelete (nh_ServiceID h)) # cs) = (res, tr')"
      "list_all (\<lambda>c. \<exists>p. c = Placement p) cs"
  | (done_) rp t where "case n_services_Delete N (nh_ServiceID h) tr of Some e \<Rightarrow> ResponseCodeIs L e 404 | None \<Rightarrow> True"
      "p_providers_Get P (nh_ID h) (tr @ [Compute (ServicesDelete (nh_ServiceID h))]) = rp"
      "case snd rp of Some e \<Rightarrow> ResponseCodeIs L e 404 | None \<Rightarrow> True"
      "CleanupResourceProvider P (fst rp) (tr @ [Compute (ServicesDelete (nh_ServiceID h)), Placement (ProvidersGet (nh_ID h))]) = (None, t)"
      "markOffboarded L K hv t = (snd res, tr')"
proof -
  let ?d = "Compute (ServicesDelete (nh_ServiceID h))" and ?g = "Placement (ProvidersGet (nh_ID h))"
  let ?bad = "\<lambda>err. case err of Some e \<Rightarrow> \<not> ResponseCodeIs L e 404 | None \<Rightarrow> False"
  obtain rp e where rp: "p_providers_Get P (nh_ID h) (tr @ [?d]) = (rp, e)" by fastforce
  obtain r t where cl: "CleanupResourceProvider P rp (tr @ [?d, ?g]) = (r, t)" by fastforce
  note eq = assms [unfolded offboard_cleanup_def ask_def prod.case]
  consider (a) "?bad (n_services_Delete N (nh_ServiceID h) tr)" | (b) "\<not> ?bad (n_services_Delete N (nh_ServiceID h) tr)" "?bad e"
    | (c) e' where "\<not> ?bad (n_services_Delete N (nh_ServiceID h) tr)" "\<not> ?bad e" "r = Some e'"
    | (d) "\<not> ?bad (n_services_Delete N (nh_ServiceID h) tr)" "\<not> ?bad e" "r = None" by (cases r) auto
  then show ?thesis
  proof cases
    case a
    with eq show ?thesis by (intro failed [of _ "[]"]) (auto split: option.splits)
  next
    case b
    with eq rp show ?thesis by (intro failed [of _ "[?g]"]) (auto split: option.splits)
  next
    case c
    have "extends_by (\<lambda>c. \<exists>p. c = Placement p) (tr @ [?d, ?g]) t"
      using CleanupResourceProvider_calls [of "tr @ [?d, ?g]" P rp] cl by simp
    then obtain cs where "t = tr @ [?d, ?g] @ cs" "list_all (\<lambda>c. \<exists>p. c = Placement p) cs" by (auto simp: extends_by_def)
    with c eq rp cl show ?thesis by (intro failed [of _ "?g # cs"]) (auto split: option.splits)
  next
    case d
    then show ?thesis
      using eq rp cl by (intro done_ [of "(rp, e)" t]) (auto split: option.splits prod.splits)
  qed
qed

lemma setOffboarding_extends:
  "retry_laws L \<Longrightarrow> setOffboardingCondition L K hv m t = (res, tr') \<Longrightarrow>
   (\<And>c. patch_of (hv_set_condition L (offboarding_condition m)) c \<Longrightarrow> Q c) \<Longrightarrow> extends_by Q t tr'"
  using setOffboardingCondition_calls [of L m t K hv] by (auto elim!: extends_by_mono)

lemma markOffboarded_extends:
  "retry_laws L \<Longrightarrow> markOffboarded L K hv t = (res, tr') \<Longrightarrow>
   (\<And>c. patch_of (hv_set_condition L offboarded_condition) c \<Longrightarrow> Q c) \<Longrightarrow> extends_by Q t tr'"
  using markOffboarded_calls [of L t K hv] by (auto elim!: extends_by_mono)

lemma Cleanup_extends:
  "CleanupResourceProvider P rp t = (res, tr') \<Longrightarrow> (\<And>p. Q (Placement p)) \<Longrightarrow> extends_by Q t tr'"
  using CleanupResourceProvider_calls [of t P rp] by (auto elim!: extends_by_mono)

abbreviation keeps_service :: "call \<Rightarrow> bool" where
  "keeps_service c \<equiv> \<forall>s. c \<noteq> Compute (ServicesDelete s)"

lemma offboard_cleanup_rest:
  assumes "retry_laws L" "offboard_cleanup L K N P hv h tr = (res, tr')"
  shows "extends_by keeps_service (tr @ [Compute (ServicesDelete (nh_ServiceID h))]) tr'"
  using assms(2)
proof (cases rule: offboard_cleanup_cases)
  case (failed m cs)
  have "extends_by keeps_service (tr @ Compute (ServicesDelete (nh_ServiceID h)) # cs) tr'"
    by (rule setOffboarding_extends [OF assms(1) failed(1)]) (auto simp: patch_of_def)
  moreover have "extends_by keeps_service (tr @ [Compute (ServicesDelete (nh_ServiceID h))])
      (tr @ Compute (ServicesDelete (nh_ServiceID h)) # cs)"
    using failed(2) by (auto simp: extends_by_def list_all_iff)
  ultimately show ?thesis using extends_by_trans by blast
next
  case (done_ rp t)
  let ?d = "Compute (ServicesDelete (nh_ServiceID h))" and ?g = "Placement (ProvidersGet (nh_ID h))"
  have "extends_by keeps_service t tr'"
    by (rule markOffboarded_extends [OF assms(1) done_(5)]) (auto simp: patch_of_def)
  moreover have "extends_by keeps_service (tr @ [?d, ?g]) t"
    by (rule Cleanup_extends [OF done_(4)]) simp
  then have "extends_by keeps_service (tr @ [?d]) t"
    by (intro extends_by_Cons [of _ "tr @ [?d]" ?g]) simp_all
  ultimately show ?thesis using extends_by_trans by blast
qed

text \<open>
  One case per way a pass can go, as far as it matters to the outside: it wrote nothing, it set
  \<open>Offboarded\<close> to \<open>False\<close> without a destructive call, Nova knows no such hypervisor, or it went
  through the cleanup.
\<close>

lemma Offboarding_Reconcile_cases:
  assumes "Offboarding_Reconcile L K N P hostname tr = (res, tr')"
  obtains (idle) "tr' = tr @ [Kube (GetHypervisor hostname)]"
  | (waiting) hv m cs where "k_get_Hypervisor K hostname tr = Inr hv" "set cs \<subseteq> {Compute (HypervisorsList hostname True)}"
      "setOffboardingCondition L K hv m (tr @ [Kube (GetHypervisor hostname)] @ cs) = (res, tr')"
  | (absent) hv where "k_get_Hypervisor K hostname tr = Inr hv" "offboard_gate L hv"
      "fst (GetHypervisorByName L N hostname True (tr @ [Kube (GetHypervisor hostname)])) = Inl ErrNoHypervisor"
      "markOffboarded L K hv (tr @ [Kube (GetHypervisor hostname), Compute (HypervisorsList hostname True)]) = (snd res, tr')"
  | (cleanup) hv h where "k_get_Hypervisor K hostname tr = Inr hv" "offboard_gate L hv"
      "fst (GetHypervisorByName L N hostname True (tr @ [Kube (GetHypervisor hostname)])) = Inr h"
      "host_empty h" "Aggregates (hv_Status hv) = []"
      "offboard_cleanup L K N P hv h (tr @ [Kube (GetHypervisor hostname), Compute (HypervisorsList hostname True)]) = (res, tr')"
proof (cases "k_get_Hypervisor K hostname tr")
  case (Inl e)
  with assms idle show ?thesis by (simp add: Offboarding_Reconcile_def ask_def)
next
  case hv: (Inr hv)
  let ?tr1 = "tr @ [Kube (GetHypervisor hostname)]"
  note eq = assms [unfolded Offboarding_Reconcile_def ask_def hv prod.case sum.case]
  show ?thesis
  proof (cases "offboard_gate L hv")
    case False
    show ?thesis
    proof (cases "tr' = ?tr1")
      case True
      then show ?thesis by (rule idle)
    next
      case c: False
      with False eq obtain m where "setOffboardingCondition L K hv m ?tr1 = (res, tr')"
        by (fastforce simp: offboard_gate_def split: if_splits option.splits)
      then show ?thesis using waiting [OF hv, of "[]"] by simp
    qed
  next
    case g: True
    then have e2: "offboard_nova L K N P hostname hv ?tr1 = (res, tr')"
      using eq by (auto simp: offboard_gate_def)
    obtain r where r: "GetHypervisorByName L N hostname True ?tr1 = (r, ?tr1 @ [Compute (HypervisorsList hostname True)])"
      using GetHypervisorByName_trace [of L N hostname True ?tr1] by (metis surj_pair snd_conv)
    show ?thesis
    proof (cases r)
      case (Inl e)
      with e2 r show ?thesis
        using absent [OF hv g] waiting [OF hv, of "[Compute (HypervisorsList hostname True)]"]
        by (auto simp: offboard_nova_def split: if_splits prod.splits)
    next
      case (Inr h)
      show ?thesis
      proof (cases "host_empty h \<and> Aggregates (hv_Status hv) = []")
        case True
        with e2 r Inr show ?thesis
          using cleanup [OF hv g, of h] by (auto simp: offboard_nova_def host_empty_def)
      next
        case False
        with e2 r Inr obtain m where "setOffboardingCondition L K hv m (?tr1 @ [Compute (HypervisorsList hostname True)]) = (res, tr')"
          by (auto simp: offboard_nova_def host_empty_def split: if_splits option.splits)
        then show ?thesis using waiting [OF hv, of "[Compute (HypervisorsList hostname True)]"] by simp
      qed
    qed
  qed
qed

section \<open>Properties\<close>

text \<open>
  C21. The compute service of a host is deleted only for a hypervisor whose life cycle is managed
  and that is to be terminated, whose onboarding is not running, that is drained if Nova ever had a
  service for it, whose agent pods are gone and that is in no aggregate; and only when Nova, asked
  in this pass, reported no running and no assigned server on the hypervisor whose service it is.
\<close>

theorem service_deleted_when_drained:
  assumes "retry_laws L"
    and "Compute (ServicesDelete sid) \<in> set (new_calls tr (snd (Offboarding_Reconcile L K N P hostname tr)))"
  shows "\<exists>hv h. k_get_Hypervisor K hostname tr = Inr hv \<and> offboard_gate L hv \<and> Aggregates (hv_Status hv) = []
    \<and> fst (GetHypervisorByName L N hostname True (tr @ [Kube (GetHypervisor hostname)])) = Inr h
    \<and> host_empty h \<and> sid = nh_ServiceID h"
proof -
  obtain res tr' where eq: "Offboarding_Reconcile L K N P hostname tr = (res, tr')" by fastforce
  with assms have c: "Compute (ServicesDelete sid) \<in> set (new_calls tr tr')" by simp
  have no: "\<not> (extends_by (patch_of f) (tr @ cs) tr' \<and> (\<forall>s. Compute (ServicesDelete s) \<notin> set cs))" for f cs
    using c extends_by_new_calls [of "patch_of f" "tr @ cs" tr' "Compute (ServicesDelete sid)"]
    by (auto simp: extends_by_def patch_of_def list_all_iff)
  from eq show ?thesis
  proof (cases rule: Offboarding_Reconcile_cases)
    case idle
    with c show ?thesis by simp
  next
    case (waiting hv m cs)
    with no [of _ "Kube (GetHypervisor hostname) # cs"] setOffboardingCondition_calls [OF assms(1), of m "tr @ [Kube (GetHypervisor hostname)] @ cs" K hv]
    show ?thesis by auto
  next
    case (absent hv)
    with no [of _ "[Kube (GetHypervisor hostname), Compute (HypervisorsList hostname True)]"]
      markOffboarded_calls [OF assms(1), of "tr @ [Kube (GetHypervisor hostname), Compute (HypervisorsList hostname True)]" K hv]
    show ?thesis by auto
  next
    case (cleanup hv h)
    let ?t = "tr @ [Kube (GetHypervisor hostname), Compute (HypervisorsList hostname True), Compute (ServicesDelete (nh_ServiceID h))]"
    have "extends_by keeps_service ?t tr'"
      using cleanup(6) offboard_cleanup_rest [OF assms(1)] by fastforce
    with c have "sid = nh_ServiceID h"
      by (auto simp: extends_by_def list_all_iff)
    with cleanup show ?thesis by blast
  qed
qed

definition drained_hv :: Hypervisor where
  "drained_hv = \<lparr>Meta = empty_meta ''node1'',
     Spec = zero_spec\<lparr>LifecycleEnabled := True, Maintenance := MaintenanceTermination\<rparr>,
     hv_Status = zero_status\<lparr>HypervisorID := ''id'', ServiceID := ''svc'',
       Conditions := [offboarding_condition [], mk_condition ConditionTypeEvicting ConditionFalse ConditionReasonSucceeded [],
         mk_condition ConditionTypeAgentPodsEvicted ConditionTrue [] []]\<rparr>\<rparr>"

text \<open>Nova matches a hostname pattern anywhere in the names of its hypervisors.\<close>

definition listing_nova :: "string \<Rightarrow> nova" where
  "listing_nova host = sample_nova\<lparr>n_hypervisors_List := \<lambda>pat _ _. Inr (Inr (filter (\<lambda>h. strings_Contains (nh_HypervisorHostname h) pat)
     [\<lparr>nh_ID = ''id10'', nh_HypervisorHostname = host, nh_ServiceID = ''svc10'', nh_Servers = None, nh_MemoryMBUsed = 0, nh_RunningVMs = 0\<rparr>]))\<rparr>"

abbreviation terminated_kube :: kube where
  "terminated_kube \<equiv> sample_kube drained_hv (empty_eviction ''e'') (empty_node ''node1'')"

abbreviation offboard_pass :: "string \<Rightarrow> trace" where
  "offboard_pass host \<equiv> snd (Offboarding_Reconcile list_lib terminated_kube (listing_nova host) sample_placement ''node1'' [])"

lemmas offboard_pass_defs = drained_hv_def Offboarding_Reconcile_def ask_def sample_kube_def listing_nova_def sample_nova_def
  sample_placement_def zero_values Let_def list_lib_def list_find_def new_calls_def offboard_nova_def offboard_cleanup_def
  GetHypervisorByName_def CleanupResourceProvider_def markOffboarded_def offboarding_condition_def mk_condition_def
  PatchHypervisorStatusWithRetry_def numeral_eq_Suc patch_hypervisor_attempt_def hv_set_condition_def offboarded_condition_def
  strings_HasPrefix_def ErrNoHypervisor_def meta_view_def

lemma service_delete_sample: "Compute (ServicesDelete ''svc10'') \<in> set (new_calls [] (offboard_pass ''node1.example.org''))"
  by (simp add: offboard_pass_defs)

theorem service_deleted_when_drained_witness:
  "\<exists>h. fst (GetHypervisorByName list_lib (listing_nova ''node1.example.org'') ''node1'' True [Kube (GetHypervisor ''node1'')]) = Inr h
    \<and> host_empty h \<and> ''svc10'' = nh_ServiceID h"
  using service_deleted_when_drained [OF retry_laws_list_lib service_delete_sample] by auto

text \<open>
  C22. \<open>Offboarded\<close> becomes \<open>True\<close> only behind the same gates, and only if Nova, asked in this pass,
  knows no hypervisor of that name, or after its service was deleted (or was not found), its resource
  provider could be read (or was not found) and the cleanup of the provider ended without an error.
\<close>

theorem offboarded_evidence:
  assumes "retry_laws L" "meta_laws L"
    and "Kube (StatusPatchHypervisor fresh new ow) \<in> set (new_calls tr (snd (Offboarding_Reconcile L K N P hostname tr)))"
    and "FindStatusCondition L (hv_Conditions new) ConditionTypeOffboarded = Some c" "Status c = ConditionTrue"
  shows "\<exists>hv. k_get_Hypervisor K hostname tr = Inr hv \<and> offboard_gate L hv
    \<and> (let tr1 = tr @ [Kube (GetHypervisor hostname)] in
       case fst (GetHypervisorByName L N hostname True tr1) of
         Inl e \<Rightarrow> e = ErrNoHypervisor
       | Inr h \<Rightarrow>
           let tr2 = tr1 @ [Compute (HypervisorsList hostname True)];
               tr3 = tr2 @ [Compute (ServicesDelete (nh_ServiceID h))];
               rp = p_providers_Get P (nh_ID h) tr3 in
           (\<forall>e. n_services_Delete N (nh_ServiceID h) tr2 = Some e \<longrightarrow> ResponseCodeIs L e 404)
           \<and> (\<forall>e. snd rp = Some e \<longrightarrow> ResponseCodeIs L e 404)
           \<and> fst (CleanupResourceProvider P (fst rp) (tr3 @ [Placement (ProvidersGet (nh_ID h))])) = None)"
proof -
  obtain res tr' where eq: "Offboarding_Reconcile L K N P hostname tr = (res, tr')" by fastforce
  with assms have w: "Kube (StatusPatchHypervisor fresh new ow) \<in> set (new_calls tr tr')" by simp
  have no: False if "setOffboardingCondition L K hv m (tr @ cs) = (res, tr')"
    "list_all (\<lambda>c. \<forall>a b v. c \<noteq> Kube (StatusPatchHypervisor a b v)) cs" for hv m cs
  proof -
    let ?P = "\<lambda>c. \<forall>a b v. c = Kube (StatusPatchHypervisor a b v) \<longrightarrow> b = hv_set_condition L (offboarding_condition m) a"
    have "extends_by ?P (tr @ cs) tr'"
      by (rule setOffboarding_extends [OF assms(1) that(1)]) (auto simp: patch_of_def)
    moreover have "extends_by ?P tr (tr @ cs)" using that(2) by (auto simp: extends_by_def list_all_iff)
    ultimately have "new = hv_set_condition L (offboarding_condition m) fresh"
      using extends_by_new_calls [OF extends_by_trans w] by blast
    with assms(4,5) show False
      using meta_view_find_set [OF assms(2), of "offboarding_condition m" "hv_Conditions fresh" ConditionTypeOffboarded]
      by (simp add: offboarding_condition_def meta_view_def)
  qed
  from eq show ?thesis
  proof (cases rule: Offboarding_Reconcile_cases)
    case idle
    with w show ?thesis by simp
  next
    case (waiting hv m cs)
    with no [of hv m "Kube (GetHypervisor hostname) # cs"] show ?thesis by (auto simp: list_all_iff)
  next
    case (absent hv)
    then show ?thesis by (auto simp: Let_def)
  next
    case (cleanup hv h)
    from cleanup(6) show ?thesis
    proof (cases rule: offboard_cleanup_cases)
      case (failed m cs)
      with no [of hv m "[Kube (GetHypervisor hostname), Compute (HypervisorsList hostname True), Compute (ServicesDelete (nh_ServiceID h))] @ cs"]
      show ?thesis by (auto simp: list_all_iff)
    next
      case (done_ rp t)
      with cleanup show ?thesis by (auto simp: Let_def split: option.splits)
    qed
  qed
qed

lemma offboarded_sample:
  "\<exists>fresh new ow c. Kube (StatusPatchHypervisor fresh new ow) \<in> set (new_calls [] (offboard_pass ''node1.example.org''))
     \<and> FindStatusCondition list_lib (hv_Conditions new) ConditionTypeOffboarded = Some c \<and> Status c = ConditionTrue"
  by (simp add: offboard_pass_defs)

theorem offboarded_evidence_witness: "\<exists>fresh new ow c.
    Kube (StatusPatchHypervisor fresh new ow) \<in> set (new_calls [] (offboard_pass ''node1.example.org''))
    \<and> FindStatusCondition list_lib (hv_Conditions new) ConditionTypeOffboarded = Some c \<and> Status c = ConditionTrue
    \<and> offboard_gate list_lib drained_hv"
proof -
  obtain fresh new ow c where w: "Kube (StatusPatchHypervisor fresh new ow) \<in> set (new_calls [] (offboard_pass ''node1.example.org''))"
    "FindStatusCondition list_lib (hv_Conditions new) ConditionTypeOffboarded = Some c" "Status c = ConditionTrue"
    using offboarded_sample by blast
  from offboarded_evidence [OF retry_laws_list_lib meta_laws_list_lib w] have "offboard_gate list_lib drained_hv"
    by (auto simp: sample_kube_def)
  with w show ?thesis by blast
qed

text \<open>
  The lookup by name is a search for a pattern, and the hypervisor it returns is not compared
  with the host: behind the gates, for a host without recorded aggregates, the service of the one
  hypervisor Nova returned is deleted whatever the name of that hypervisor is.
\<close>

theorem drained_service_deleted:
  assumes "k_get_Hypervisor K hostname tr = Inr hv" "offboard_gate L hv" "Aggregates (hv_Status hv) = []"
    and "n_hypervisors_List N hostname True (tr @ [Kube (GetHypervisor hostname)]) = Inr (Inr [h])" "host_empty h"
    and "retry_laws L"
  shows "Compute (ServicesDelete (nh_ServiceID h)) \<in> set (new_calls tr (snd (Offboarding_Reconcile L K N P hostname tr)))"
proof -
  let ?t = "tr @ [Kube (GetHypervisor hostname), Compute (HypervisorsList hostname True)]"
  obtain res tr' where c: "offboard_cleanup L K N P hv h ?t = (res, tr')" by fastforce
  with assms have "Offboarding_Reconcile L K N P hostname tr = (res, tr')"
    by (auto simp: Offboarding_Reconcile_def ask_def offboard_gate_def offboard_nova_def GetHypervisorByName_def host_empty_def)
  moreover from offboard_cleanup_rest [OF assms(6) c] obtain cs where
    "tr' = ?t @ [Compute (ServicesDelete (nh_ServiceID h))] @ cs" by (auto simp: extends_by_def)
  ultimately show ?thesis by (simp add: new_calls_def)
qed

theorem drained_service_deleted_witness:
  "Compute (ServicesDelete ''svc10'') \<in> set (new_calls [] (offboard_pass ''node10.example.org''))"
proof -
  let ?h = "\<lparr>nh_ID = ''id10'', nh_HypervisorHostname = ''node10.example.org'', nh_ServiceID = ''svc10'', nh_Servers = None, nh_MemoryMBUsed = 0, nh_RunningVMs = 0\<rparr>"
  have "k_get_Hypervisor terminated_kube ''node1'' [] = Inr drained_hv" by (simp add: sample_kube_def)
  moreover have "offboard_gate list_lib drained_hv"
    by (simp add: offboard_gate_def drained_hv_def list_lib_def list_find_def offboarding_condition_def mk_condition_def)
  moreover have "Aggregates (hv_Status drained_hv) = []" by (simp add: drained_hv_def zero_status_def)
  moreover have "n_hypervisors_List (listing_nova ''node10.example.org'') ''node1'' True ([] @ [Kube (GetHypervisor ''node1'')]) = Inr (Inr [?h])"
    by (simp add: listing_nova_def strings_HasPrefix_def)
  moreover have "host_empty ?h" by (simp add: host_empty_def)
  ultimately show ?thesis using drained_service_deleted [OF _ _ _ _ _ retry_laws_list_lib] by fastforce
qed

end
