(* ===== verification/Onboarding_Tests.thy ===== *)
theory Onboarding_Tests
  imports Sample_World Utils
begin

text \<open>
  The resources of the onboarding test, from \<^verbatim>\<open>src/internal/controller/onboarding_controller.go\<close>:
  lookup of the host in Nova, the test server with its image and network, and the cleanup of test
  servers and of the boot volumes they leave behind. The clients of the test project are arguments
  of their own; listing all pages and extracting the entries are the two results of a listing, of
  which the caller looks at the second even after a listing that failed with 404.
\<close>

abbreviation defaultWaitTime :: int where "defaultWaitTime \<equiv> 60 * second_ns"
abbreviation smokeTestTimeout :: nat where "smokeTestTimeout \<equiv> 5 * 60"
abbreviation testImageName :: string where "testImageName \<equiv> ''cirros-kvm''"
abbreviation testPrefixName :: string where "testPrefixName \<equiv> ''ohooc-''"
abbreviation testVolumeType :: string where "testVolumeType \<equiv> ''premium''"
abbreviation OnboardingControllerName :: string where "OnboardingControllerName \<equiv> ''onboarding''"

definition errRequeue :: go_error where
  "errRequeue = ErrorNew ''requeue requested''"

record OnboardingController =
  TestFlavorID :: string
  Clock_Now :: go_time
  computeClient :: nova
  testComputeClient :: nova
  testClients :: test_resources
  requeueInterval :: int

definition getRequeueInterval :: "OnboardingController \<Rightarrow> int" where
  "getRequeueInterval r = (if requeueInterval r > 0 then requeueInterval r else defaultWaitTime)"

section \<open>Nova properties of the host\<close>

fun exact_match :: "string \<Rightarrow> nova_hypervisor list \<Rightarrow> (string \<times> string) option" where
  "exact_match shortHypervisorAddress [] = None"
| "exact_match shortHypervisorAddress (h # hs) =
     (if fst (strings_Cut (nh_HypervisorHostname h) (CHR ''.'')) = shortHypervisorAddress
      then Some (nh_ID h, nh_ServiceID h) else exact_match shortHypervisorAddress hs)"

definition lookupNovaProperties ::
    "lib \<Rightarrow> OnboardingController \<Rightarrow> Hypervisor \<Rightarrow> trace \<Rightarrow> (go_error + (string \<times> string)) \<times> trace" where
  "lookupNovaProperties L r hv tr =
     (let hypervisorAddress = map_get (Labels (Meta hv)) LabelHostname in
      if hypervisorAddress = [] then (Inl errRequeue, tr)
      else
        let shortHypervisorAddress = fst (strings_Cut hypervisorAddress (CHR ''.'')) in
        (case ask (n_hypervisors_List (computeClient r) shortHypervisorAddress False)
                (Compute (HypervisorsList shortHypervisorAddress False)) tr of
           (Inl err, tr1) \<Rightarrow> (Inl (if ResponseCodeIs L err 404 then errRequeue else err), tr1)
         | (Inr (Inl err), tr1) \<Rightarrow> (Inl err, tr1)
         | (Inr (Inr hs), tr1) \<Rightarrow>
             if length hs < 1 then (Inl errRequeue, tr1)
             else (case exact_match shortHypervisorAddress hs of
                     Some ids \<Rightarrow> (Inr ids, tr1)
                   | None \<Rightarrow> (Inl (ErrorNew (''could not find exact match for '' @ shortHypervisorAddress)), tr1))))"

section \<open>Cleanup\<close>

text \<open>Deleting a list of servers; what remains of the errors are those other than 404.\<close>

fun delete_servers ::
    "lib \<Rightarrow> nova \<Rightarrow> server list \<Rightarrow> go_error list \<Rightarrow> trace \<Rightarrow> go_error list \<times> trace" where
  "delete_servers L N [] errs tr = (errs, tr)"
| "delete_servers L N (server # ss) errs tr =
     (case ask (n_servers_Delete N (sv_ID server)) (Server (ServersDelete (sv_ID server))) tr of
        (Some err, tr1) \<Rightarrow>
          delete_servers L N ss (if \<not> ResponseCodeIs L err 404 then errs @ [err] else errs) tr1
      | (None, tr1) \<Rightarrow> delete_servers L N ss errs tr1)"

definition serverPrefix :: "string \<Rightarrow> string" where
  "serverPrefix host = testPrefixName @ ''-'' @ host"

definition deleteTestServers ::
    "lib \<Rightarrow> OnboardingController \<Rightarrow> string \<Rightarrow> trace \<Rightarrow> go_error option \<times> trace" where
  "deleteTestServers L r host tr =
     (case ask (n_servers_ListSimple (testComputeClient r) (serverPrefix host))
             (Server (ServersListSimple (serverPrefix host))) tr of
        ((err, extracted), tr1) \<Rightarrow>
          if (case err of Some e \<Rightarrow> \<not> ResponseCodeIs L e 404 | None \<Rightarrow> False) then (err, tr1)
          else
            (case extracted of
               Inl err \<Rightarrow> (Some err, tr1)
             | Inr serverList \<Rightarrow>
                 (case delete_servers L (testComputeClient r) serverList [] tr1 of
                    (errs, tr2) \<Rightarrow> (errors_Join (map Some errs), tr2))))"

definition orphaned :: "lib \<Rightarrow> server list \<Rightarrow> volume \<Rightarrow> bool" where
  "orphaned L serverList volume =
     (if vo_Status volume \<noteq> ''available'' then False
      else if \<not> uuid_Parse L (vo_Name volume) then False
      else if vo_Name volume \<in> sv_ID ` set serverList then False
      else True)"

fun delete_volumes ::
    "lib \<Rightarrow> test_resources \<Rightarrow> server list \<Rightarrow> volume list \<Rightarrow> go_error list \<Rightarrow> trace \<Rightarrow> go_error list \<times> trace" where
  "delete_volumes L R serverList [] errs tr = (errs, tr)"
| "delete_volumes L R serverList (volume # vs) errs tr =
     (if orphaned L serverList volume
      then (case ask (t_volumes_Delete R (vo_ID volume)) (TestProject (VolumesDelete (vo_ID volume))) tr of
              (Some err, tr1) \<Rightarrow>
                delete_volumes L R serverList vs (if \<not> ResponseCodeIs L err 404 then errs @ [err] else errs) tr1
            | (None, tr1) \<Rightarrow> delete_volumes L R serverList vs errs tr1)
      else delete_volumes L R serverList vs errs tr)"

definition deleteOrphanedTestVolumes ::
    "lib \<Rightarrow> OnboardingController \<Rightarrow> trace \<Rightarrow> go_error option \<times> trace" where
  "deleteOrphanedTestVolumes L r tr =
     (case ask (n_servers_ListSimple (testComputeClient r) []) (Server (ServersListSimple [])) tr of
        ((Some err, _), tr1) \<Rightarrow> (Some err, tr1)
      | ((None, Inl err), tr1) \<Rightarrow> (Some err, tr1)
      | ((None, Inr serverList), tr1) \<Rightarrow>
          (case ask (t_volumes_List (testClients r)) (TestProject VolumesList) tr1 of
             (Inl err, tr2) \<Rightarrow> (Some err, tr2)
           | (Inr (Inl err), tr2) \<Rightarrow> (Some err, tr2)
           | (Inr (Inr volumeList), tr2) \<Rightarrow>
               (case delete_volumes L (testClients r) serverList volumeList [] tr2 of
                  (errs, tr3) \<Rightarrow> (errors_Join (map Some errs), tr3))))"

section \<open>The test server\<close>

definition findTestNetwork :: "OnboardingController \<Rightarrow> trace \<Rightarrow> (go_error + string) \<times> trace" where
  "findTestNetwork r tr =
     (case ask (t_networks_List (testClients r)) (TestProject NetworksList) tr of
        (Inl err, tr1) \<Rightarrow> (Inl err, tr1)
      | (Inr (Inl err), tr1) \<Rightarrow> (Inl err, tr1)
      | (Inr (Inr []), tr1) \<Rightarrow> (Inl (ErrorNew ''couldn't find network''), tr1)
      | (Inr (Inr (network # _)), tr1) \<Rightarrow> (Inr network, tr1))"

definition findTestImage :: "OnboardingController \<Rightarrow> trace \<Rightarrow> (go_error + string) \<times> trace" where
  "findTestImage r tr =
     (case ask (t_images_List (testClients r) testImageName) (TestProject (ImagesList testImageName)) tr of
        (Inl err, tr1) \<Rightarrow> (Inl err, tr1)
      | (Inr (Inl err), tr1) \<Rightarrow> (Inl err, tr1)
      | (Inr (Inr imagesList), tr1) \<Rightarrow>
          (case List.find (\<lambda>img. im_Name img = testImageName) imagesList of
             Some img \<Rightarrow> (Inr (im_ID img), tr1)
           | None \<Rightarrow> (Inl (ErrorNew (''couldn't find image with name '' @ testImageName)), tr1)))"

text \<open>
  The loop over the listed servers: those with the prefix are deleted, except for the first one
  with the exact name. Errors of a deletion are logged only.
\<close>

fun pick_server ::
    "nova \<Rightarrow> string \<Rightarrow> string \<Rightarrow> server list \<Rightarrow> server option \<Rightarrow> trace \<Rightarrow> server option \<times> trace" where
  "pick_server N pre serverName [] foundServer tr = (foundServer, tr)"
| "pick_server N pre serverName (server # ss) foundServer tr =
     (if \<not> strings_HasPrefix (sv_Name server) pre then pick_server N pre serverName ss foundServer tr
      else if sv_Name server \<noteq> serverName \<or> foundServer \<noteq> None
      then (case ask (n_servers_Delete N (sv_ID server)) (Server (ServersDelete (sv_ID server))) tr of
              (_, tr1) \<Rightarrow> pick_server N pre serverName ss foundServer tr1)
      else pick_server N pre serverName ss (Some server) tr)"

definition create_opts :: "string \<Rightarrow> string \<Rightarrow> string \<Rightarrow> string \<Rightarrow> string \<Rightarrow> string \<Rightarrow> server_create_opts" where
  "create_opts serverName zone computeHost flavorRef imageRef networkRef =
     \<lparr>sc_Name = serverName, sc_AvailabilityZone = zone @ '':'' @ computeHost, sc_FlavorRef = flavorRef,
      sc_ImageUUID = imageRef, sc_BootIndex = 0, sc_SourceType = ''image'', sc_VolumeSize = 64,
      sc_DiskBus = ''virtio'', sc_DeleteOnTermination = True, sc_DestinationType = ''volume'',
      sc_VolumeType = testVolumeType, sc_NetworkUUID = networkRef\<rparr>"

definition createOrGetTestServer ::
    "lib \<Rightarrow> OnboardingController \<Rightarrow> string \<Rightarrow> string \<Rightarrow> string \<Rightarrow> trace \<Rightarrow> (go_error + server) \<times> trace" where
  "createOrGetTestServer L r zone computeHost nodeUid tr =
     (let serverName = serverPrefix computeHost @ ''-'' @ nodeUid in
      case ask (n_servers_List (testComputeClient r) (serverPrefix computeHost))
             (Server (ServersList (serverPrefix computeHost))) tr of
        ((err, extracted), tr1) \<Rightarrow>
          if (case err of Some e \<Rightarrow> \<not> ResponseCodeIs L e 404 | None \<Rightarrow> False) then (Inl (the err), tr1)
          else
            (case extracted of
               Inl err \<Rightarrow> (Inl err, tr1)
             | Inr serverList \<Rightarrow>
                 (case pick_server (testComputeClient r) (serverPrefix computeHost) serverName serverList None tr1 of
                    (Some foundServer, tr2) \<Rightarrow> (Inr foundServer, tr2)
                  | (None, tr2) \<Rightarrow>
                      (case deleteOrphanedTestVolumes L r tr2 of
                         (_, tr3) \<Rightarrow>
                           (case findTestImage r tr3 of
                              (Inl err, tr4) \<Rightarrow> (Inl (Errorf ''could not find test image: '' err), tr4)
                            | (Inr imageRef, tr4) \<Rightarrow>
                                (case findTestNetwork r tr4 of
                                   (Inl err, tr5) \<Rightarrow> (Inl (Errorf ''could not extract network due to '' err), tr5)
                                 | (Inr networkRef, tr5) \<Rightarrow>
                                     let opts = create_opts serverName zone computeHost (TestFlavorID r) imageRef networkRef in
                                     (case ask (n_servers_Create (testComputeClient r) opts) (Server (ServersCreate opts)) tr5 of
                                        (Inl err, tr6) \<Rightarrow> (Inl err, tr6)
                                      | (Inr None, tr6) \<Rightarrow> (Inl (ErrorNew ''server is nil''), tr6)
                                      | (Inr (Some server), tr6) \<Rightarrow> (Inr (server\<lparr>sv_Name := serverName\<rparr>), tr6))))))))"

section \<open>Lemmas\<close>

lemma exact_match_Some:
  "exact_match a hs = Some (i, s) \<Longrightarrow>
   \<exists>h \<in> set hs. fst (strings_Cut (nh_HypervisorHostname h) (CHR ''.'')) = a \<and> i = nh_ID h \<and> s = nh_ServiceID h"
  by (induction hs) (auto split: if_splits)

text \<open>All calls of this theory's operations but the lookup go to the test project.\<close>

definition test_project_call :: "call \<Rightarrow> bool" where
  "test_project_call c \<longleftrightarrow> (\<exists>s. c = Server s) \<or> (\<exists>t. c = TestProject t)"

lemma test_project_call_simps [simp]:
  "test_project_call (Server s)" "test_project_call (TestProject t)" "\<not> test_project_call (Kube k)" "\<not> test_project_call (Compute k')" "\<not> test_project_call (Placement p)"
  by (auto simp: test_project_call_def)

lemma delete_servers_trace:
  "snd (delete_servers L N ss errs tr) = tr @ map (\<lambda>s. Server (ServersDelete (sv_ID s))) ss"
  by (induction ss arbitrary: errs tr) (auto simp: ask_def split: option.split)

lemma delete_servers_ok:
  assumes "\<And>s e t. s \<in> set ss \<Longrightarrow> n_servers_Delete N (sv_ID s) t = Some e \<Longrightarrow> ResponseCodeIs L e 404"
  shows "fst (delete_servers L N ss errs tr) = errs"
  using assms by (induction ss arbitrary: tr) (auto simp: ask_def split: option.split)

lemma delete_volumes_trace:
  "snd (delete_volumes L R servers vs errs tr) =
     tr @ map (\<lambda>v. TestProject (VolumesDelete (vo_ID v))) (filter (orphaned L servers) vs)"
  by (induction vs arbitrary: errs tr) (auto simp: ask_def split: option.split)

lemma deleteTestServers_trace:
  "\<exists>ss :: server list. snd (deleteTestServers L r host tr) =
     tr @ Server (ServersListSimple (serverPrefix host)) # map (\<lambda>s. Server (ServersDelete (sv_ID s))) ss"
proof -
  obtain e x where l: "n_servers_ListSimple (testComputeClient r) (serverPrefix host) tr = (e, x)" by fastforce
  show ?thesis
  proof (cases "(case e of Some e \<Rightarrow> \<not> ResponseCodeIs L e 404 | None \<Rightarrow> False) \<or> isl x")
    case True
    then have "snd (deleteTestServers L r host tr) = tr @ [Server (ServersListSimple (serverPrefix host))]"
      by (cases x) (auto simp: deleteTestServers_def ask_def l)
    then show ?thesis by (intro exI [of _ "[]"]) simp
  next
    case False
    then obtain ss where "x = Inr ss" by (cases x) auto
    with False have "snd (deleteTestServers L r host tr) =
        snd (delete_servers L (testComputeClient r) ss [] (tr @ [Server (ServersListSimple (serverPrefix host))]))"
      by (simp add: deleteTestServers_def ask_def l case_prod_beta)
    then show ?thesis unfolding delete_servers_trace by (intro exI [of _ ss]) simp
  qed
qed

lemma deleteTestServers_extends: "extends_by test_project_call tr (snd (deleteTestServers L r host tr))"
  using deleteTestServers_trace [of L r host tr] by (auto simp: extends_by_def list_all_iff)

text \<open>
  The volumes a cleanup deletes, exactly: the orphans among the volumes it listed, judged by the
  servers it listed before; nothing when a listing fails.
\<close>

lemma deleteOrphanedTestVolumes_trace:
  "snd (deleteOrphanedTestVolumes L r tr) =
     (case n_servers_ListSimple (testComputeClient r) [] tr of
        (None, Inr servers) \<Rightarrow>
          tr @ [Server (ServersListSimple []), TestProject VolumesList]
          @ (case t_volumes_List (testClients r) (tr @ [Server (ServersListSimple [])]) of
               Inr (Inr vs) \<Rightarrow> map (\<lambda>v. TestProject (VolumesDelete (vo_ID v))) (filter (orphaned L servers) vs)
             | _ \<Rightarrow> [])
      | _ \<Rightarrow> tr @ [Server (ServersListSimple [])])"
  using delete_volumes_trace [of L "testClients r"]
  by (auto simp: deleteOrphanedTestVolumes_def ask_def case_prod_beta split: prod.split option.split sum.split)

lemma deleteOrphanedTestVolumes_extends: "extends_by test_project_call tr (snd (deleteOrphanedTestVolumes L r tr))"
  unfolding deleteOrphanedTestVolumes_trace
  by (auto simp: list_all_iff intro!: extends_by_append extends_by_snoc split: prod.split option.split sum.split)

lemma pick_server_found:
  "fst (pick_server N pre name ss found tr) =
     (case found of Some f \<Rightarrow> Some f
      | None \<Rightarrow> List.find (\<lambda>s. strings_HasPrefix (sv_Name s) pre \<and> sv_Name s = name) ss)"
  by (induction ss arbitrary: found tr) (auto simp: ask_def split: option.split)

text \<open>What it deletes: servers with the prefix only, and all of those that have another name.\<close>

lemma pick_server_extends_in:
  assumes "set ss \<subseteq> X"
  shows "extends_by (\<lambda>c. \<exists>s \<in> X. strings_HasPrefix (sv_Name s) pre \<and> c = Server (ServersDelete (sv_ID s)))
     tr (snd (pick_server N pre name ss found tr))"
  using assms
proof (induction ss arbitrary: found tr)
  case Nil
  then show ?case by simp
next
  case (Cons s ss)
  then have IH: "extends_by (\<lambda>c. \<exists>s \<in> X. strings_HasPrefix (sv_Name s) pre \<and> c = Server (ServersDelete (sv_ID s)))
      t (snd (pick_server N pre name ss f t))" for f t by simp
  show ?case using Cons.prems by (auto simp: ask_def IH intro!: extends_by_Cons [OF IH])
qed

lemmas pick_server_extends = pick_server_extends_in [OF subset_refl]

lemma pick_server_drops:
  "s \<in> set ss \<Longrightarrow> strings_HasPrefix (sv_Name s) pre \<Longrightarrow> sv_Name s \<noteq> name \<Longrightarrow>
   Server (ServersDelete (sv_ID s)) \<in> set (new_calls tr (snd (pick_server N pre name ss found tr)))"
proof (induction ss arbitrary: found tr)
  case Nil
  then show ?case by simp
next
  case (Cons x ss)
  have ext: "\<exists>cs. snd (pick_server N pre name ss f t) = t @ cs" for f t
    using extends_by_trivial [OF pick_server_extends] .
  have later: "Server (ServersDelete (sv_ID s)) \<in> set (new_calls tr (snd (pick_server N pre name ss f (tr @ cs))))"
    if "s \<in> set ss" for f cs
  proof -
    obtain ds where e: "snd (pick_server N pre name ss f (tr @ cs)) = (tr @ cs) @ ds" using ext by blast
    have "Server (ServersDelete (sv_ID s)) \<in> set ds"
      using Cons.IH [OF that Cons.prems(2,3), of "tr @ cs" f] by (simp add: e del: append_assoc)
    then show ?thesis by (simp add: e)
  qed
  from Cons.prems(1) consider "s = x" | "s \<in> set ss" by auto
  then show ?case
  proof cases
    case 1
    with Cons.prems ext [of found "tr @ [Server (ServersDelete (sv_ID s))]"] show ?thesis by (auto simp: ask_def)
  next
    case 2
    from later [OF 2, where cs = "[]"] later [OF 2, where cs = "[Server (ServersDelete (sv_ID x))]"]
    show ?thesis by (auto simp: ask_def)
  qed
qed

lemma findTestImage_trace [simp]: "snd (findTestImage r tr) = tr @ [TestProject (ImagesList testImageName)]"
  by (auto simp: findTestImage_def ask_def split: sum.split option.split)

lemma findTestNetwork_trace [simp]: "snd (findTestNetwork r tr) = tr @ [TestProject NetworksList]"
  by (auto simp: findTestNetwork_def ask_def split: sum.split list.split)

text \<open>A request for a test server: pinned to the host by its zone, named after host and node.\<close>

definition test_server_opts :: "OnboardingController \<Rightarrow> string \<Rightarrow> string \<Rightarrow> string \<Rightarrow> server_create_opts \<Rightarrow> bool" where
  "test_server_opts r zone host uid opts \<longleftrightarrow>
     (\<exists>img net. opts = create_opts (serverPrefix host @ ''-'' @ uid) zone host (TestFlavorID r) img net)"

lemma test_server_opts_create [simp]:
  "test_server_opts r zone host uid (create_opts (serverPrefix host @ CHR ''-'' # uid) zone host (TestFlavorID r) img net)"
  unfolding test_server_opts_def by auto

text \<open>The server a pass works with has the name of this host and node, found or created.\<close>

lemma createOrGetTestServer_cases:
  assumes "createOrGetTestServer L r zone host uid tr = (res, tr')"
  obtains (no_list) e where "res = Inl e" "tr' = tr @ [Server (ServersList (serverPrefix host))]"
      "fst (n_servers_List (testComputeClient r) (serverPrefix host) tr) \<noteq> None
       \<or> isl (snd (n_servers_List (testComputeClient r) (serverPrefix host) tr))"
  | (found) ss s e where "n_servers_List (testComputeClient r) (serverPrefix host) tr = (e, Inr ss)"
      "res = Inr s" "s \<in> set ss" "sv_Name s = serverPrefix host @ ''-'' @ uid"
      "tr' = snd (pick_server (testComputeClient r) (serverPrefix host) (serverPrefix host @ ''-'' @ uid) ss None
         (tr @ [Server (ServersList (serverPrefix host))]))"
  | (create) ss e tr2 cs where "n_servers_List (testComputeClient r) (serverPrefix host) tr = (e, Inr ss)"
      "\<forall>s \<in> set ss. sv_Name s \<noteq> serverPrefix host @ ''-'' @ uid"
      "tr2 = snd (pick_server (testComputeClient r) (serverPrefix host) (serverPrefix host @ ''-'' @ uid) ss None
         (tr @ [Server (ServersList (serverPrefix host))]))"
      "tr' = snd (deleteOrphanedTestVolumes L r tr2) @ cs"
      "\<And>c. c \<in> set cs \<Longrightarrow> (\<exists>t. c = TestProject t) \<or> (\<exists>opts. c = Server (ServersCreate opts) \<and> test_server_opts r zone host uid opts)"
      "\<And>s. res = Inr s \<Longrightarrow> sv_Name s = serverPrefix host @ ''-'' @ uid"
proof -
  let ?name = "serverPrefix host @ ''-'' @ uid" and ?tr1 = "tr @ [Server (ServersList (serverPrefix host))]"
  obtain e x where l: "n_servers_List (testComputeClient r) (serverPrefix host) tr = (e, x)" by fastforce
  show ?thesis
  proof (cases "(case e of Some e \<Rightarrow> \<not> ResponseCodeIs L e 404 | None \<Rightarrow> False) \<or> isl x")
    case True
    with assms show ?thesis
      by (cases x) (auto simp: createOrGetTestServer_def ask_def l Let_def split: if_splits option.splits intro!: no_list)
  next
    case False
    then obtain ss where x: "x = Inr ss" by (cases x) auto
    obtain f tr2 where p: "pick_server (testComputeClient r) (serverPrefix host) ?name ss None ?tr1 = (f, tr2)" by fastforce
    then have f: "f = List.find (\<lambda>s. strings_HasPrefix (sv_Name s) (serverPrefix host) \<and> sv_Name s = ?name) ss"
      using pick_server_found [of "testComputeClient r" "serverPrefix host" ?name ss None ?tr1] by simp
    show ?thesis
    proof (cases f)
      case (Some s)
      with f have "List.find (\<lambda>s. strings_HasPrefix (sv_Name s) (serverPrefix host) \<and> sv_Name s = ?name) ss = Some s" by simp
      then have "s \<in> set ss" "sv_Name s = ?name" by (auto simp: find_Some_iff)
      with assms l x False Some p show ?thesis
        by (intro found [of e ss s]) (auto simp: createOrGetTestServer_def ask_def Let_def)
    next
      case None
      have pre: "strings_HasPrefix ?name (serverPrefix host)" by (simp add: strings_HasPrefix_def)
      from f None have "List.find (\<lambda>s. strings_HasPrefix (sv_Name s) (serverPrefix host) \<and> sv_Name s = ?name) ss = None" by simp
      then have none: "\<forall>s \<in> set ss. sv_Name s \<noteq> ?name" using pre unfolding find_None_iff by metis
      obtain e3 tr3 where v: "deleteOrphanedTestVolumes L r tr2 = (e3, tr3)" by fastforce
      let ?tr4 = "tr3 @ [TestProject (ImagesList testImageName)]"
      let ?tr5 = "?tr4 @ [TestProject NetworksList]"
      obtain i n where i: "findTestImage r tr3 = (i, ?tr4)" and n: "findTestNetwork r ?tr4 = (n, ?tr5)"
        using findTestImage_trace findTestNetwork_trace by (metis prod.collapse)
      note eq = assms [unfolded createOrGetTestServer_def Let_def ask_def l prod.case x sum.case p None option.case v i]
      from False have nb: "\<not> (case e of Some e \<Rightarrow> \<not> ResponseCodeIs L e 404 | None \<Rightarrow> False)" by simp
      note eq' = eq [unfolded if_not_P [OF nb]]
      have "\<exists>cs. tr' = tr3 @ cs
          \<and> (\<forall>c \<in> set cs. (\<exists>t. c = TestProject t) \<or> (\<exists>opts. c = Server (ServersCreate opts) \<and> test_server_opts r zone host uid opts))
          \<and> (\<forall>s. res = Inr s \<longrightarrow> sv_Name s = ?name)"
        using eq' n by (cases i; cases n) (auto split: sum.splits option.splits)
      then obtain cs where cs: "tr' = tr3 @ cs"
        "\<forall>c \<in> set cs. (\<exists>t. c = TestProject t) \<or> (\<exists>opts. c = Server (ServersCreate opts) \<and> test_server_opts r zone host uid opts)"
        "\<forall>s. res = Inr s \<longrightarrow> sv_Name s = ?name" by blast
      show ?thesis
        by (rule create [OF _ none, where e = e and ?tr2.0 = tr2 and cs = cs]) (use l x p v cs in auto)
    qed
  qed
qed

lemma createOrGetTestServer_extends: "extends_by test_project_call tr (snd (createOrGetTestServer L r zone host uid tr))"
proof -
  obtain res tr' where eq: "createOrGetTestServer L r zone host uid tr = (res, tr')" by fastforce
  have list: "extends_by test_project_call tr (tr @ [Server (ServersList (serverPrefix host))])" by (rule extends_by_snoc) simp
  have pick: "extends_by test_project_call tr (snd (pick_server N pre name ss f (tr @ [Server (ServersList (serverPrefix host))])))" for N pre name ss f
    by (rule extends_by_trans [OF list extends_by_mono [OF pick_server_extends]]) auto
  from eq show ?thesis
  proof (cases rule: createOrGetTestServer_cases)
    case (create ss e tr2 cs)
    have "list_all test_project_call cs" unfolding list_all_iff using create(5) by (fastforce simp: test_project_call_def)
    with create(3,4) extends_by_trans [OF pick deleteOrphanedTestVolumes_extends] show ?thesis
      by (simp add: eq extends_by_append)
  qed (use eq list pick in auto)
qed

section \<open>Properties\<close>

text \<open>
  The cleanup of boot volumes deletes a volume of the test project only if it was listed as
  \<open>available\<close>, is named like an instance (its name parses as a UUID), and no server that the
  project had when the cleanup began has that ID.
\<close>

theorem orphan_volumes_only:
  assumes "TestProject (VolumesDelete i) \<in> set (new_calls tr (snd (deleteOrphanedTestVolumes L r tr)))"
  shows "\<exists>servers vs v. n_servers_ListSimple (testComputeClient r) [] tr = (None, Inr servers)
    \<and> t_volumes_List (testClients r) (tr @ [Server (ServersListSimple [])]) = Inr (Inr vs)
    \<and> v \<in> set vs \<and> i = vo_ID v \<and> vo_Status v = ''available'' \<and> uuid_Parse L (vo_Name v)
    \<and> (\<forall>s \<in> set servers. sv_ID s \<noteq> vo_Name v)"
proof -
  obtain servers vs where l: "n_servers_ListSimple (testComputeClient r) [] tr = (None, Inr servers)"
    "t_volumes_List (testClients r) (tr @ [Server (ServersListSimple [])]) = Inr (Inr vs)"
    using assms unfolding deleteOrphanedTestVolumes_trace
    by (auto split: prod.splits option.splits sum.splits dest: sym)
  with assms obtain v where "v \<in> set vs" "orphaned L servers v" "i = vo_ID v"
    unfolding deleteOrphanedTestVolumes_trace by auto
  with l show ?thesis
    by (intro exI [of _ servers] exI [of _ vs] exI [of _ v]) (auto simp: orphaned_def image_iff split: if_splits)
qed

definition sample_onboarding :: OnboardingController where
  "sample_onboarding = \<lparr>TestFlavorID = ''1'', Clock_Now = 1000, computeClient = sample_nova,
     testComputeClient = sample_nova, testClients = sample_tests, requeueInterval = 0\<rparr>"

definition leaked_volume :: volume where
  "leaked_volume = \<lparr>vo_ID = ''v1'', vo_Name = ''01234567-89ab-cdef-0123-456789abcdef'', vo_Status = ''available''\<rparr>"

abbreviation leaky :: OnboardingController where
  "leaky \<equiv> sample_onboarding\<lparr>testClients := sample_tests\<lparr>t_volumes_List := \<lambda>_. Inr (Inr [leaked_volume])\<rparr>\<rparr>"

lemma leaked_is_uuid: "uuid_pattern (vo_Name leaked_volume)"
  by (simp add: leaked_volume_def uuid_pattern_def is_hex_def Let_def of_char_def)

theorem orphan_volumes_only_witness:
  "\<exists>v :: volume. TestProject (VolumesDelete (vo_ID v)) \<in> set (new_calls [] (snd (deleteOrphanedTestVolumes list_lib leaky [])))
     \<and> uuid_Parse list_lib (vo_Name v)"
proof -
  have d: "TestProject (VolumesDelete ''v1'') \<in> set (new_calls [] (snd (deleteOrphanedTestVolumes list_lib leaky [])))"
    using leaked_is_uuid unfolding deleteOrphanedTestVolumes_trace
    by (simp add: sample_onboarding_def sample_nova_def sample_tests_def orphaned_def list_lib_def leaked_volume_def new_calls_def)
  from orphan_volumes_only [OF d] d show ?thesis by auto
qed

text \<open>
  Preparing the test of a host deletes the test servers of every host whose name begins with
  the name of that host: the prefix that is meant to select the host's own servers ends with its
  name, without a delimiter.
\<close>

theorem foreign_test_server_deleted:
  assumes "n_servers_List (testComputeClient r) (serverPrefix host) tr = (None, Inr ss)"
    and "s \<in> set ss" "sv_Name s = serverPrefix (host @ ext) @ ''-'' @ uid'" "ext @ ''-'' @ uid' \<noteq> ''-'' @ uid"
  shows "Server (ServersDelete (sv_ID s)) \<in> set (new_calls tr (snd (createOrGetTestServer L r zone host uid tr)))"
proof -
  let ?name = "serverPrefix host @ ''-'' @ uid" and ?tr1 = "tr @ [Server (ServersList (serverPrefix host))]"
  let ?tr2 = "snd (pick_server (testComputeClient r) (serverPrefix host) ?name ss None ?tr1)"
  have "strings_HasPrefix (sv_Name s) (serverPrefix host)" "sv_Name s \<noteq> ?name"
    using assms(3,4) by (auto simp: strings_HasPrefix_def serverPrefix_def)
  from pick_server_drops [OF assms(2) this, of ?tr1 "testComputeClient r" None]
  have d: "Server (ServersDelete (sv_ID s)) \<in> set (new_calls ?tr1 ?tr2)" .
  obtain res tr' where eq: "createOrGetTestServer L r zone host uid tr = (res, tr')" by fastforce
  from extends_by_trivial [OF pick_server_extends] obtain cs where cs: "?tr2 = ?tr1 @ cs" by blast
  with d have in_cs: "Server (ServersDelete (sv_ID s)) \<in> set cs" by (simp del: append_assoc)
  obtain ds where v: "snd (deleteOrphanedTestVolumes L r ?tr2) = ?tr2 @ ds"
    using extends_by_trivial [OF deleteOrphanedTestVolumes_extends] by blast
  from eq show ?thesis
  proof (cases rule: createOrGetTestServer_cases)
  qed (use eq assms(1) cs v in_cs in auto)
qed

definition node10_server :: server where
  "node10_server = (active_server ''node10'' ''s10'')\<lparr>sv_Name := ''ohooc--node10-u10''\<rparr>"

abbreviation shared_project :: OnboardingController where
  "shared_project \<equiv> sample_onboarding\<lparr>testComputeClient := sample_nova\<lparr>n_servers_List := \<lambda>_ _. (None, Inr [node10_server])\<rparr>\<rparr>"

theorem foreign_test_server_deleted_witness:
  "Server (ServersDelete ''s10'') \<in> set (new_calls [] (snd (createOrGetTestServer list_lib shared_project ''az1'' ''node1'' ''u1'' [])))"
proof -
  have "n_servers_List (testComputeClient shared_project) (serverPrefix ''node1'') [] = (None, Inr [node10_server])"
    by (simp add: sample_onboarding_def)
  moreover have "sv_Name node10_server = serverPrefix (''node1'' @ ''0'') @ ''-'' @ ''u10''"
    by (simp add: node10_server_def serverPrefix_def)
  ultimately show ?thesis
    using foreign_test_server_deleted [of shared_project "''node1''" "[]" "[node10_server]" node10_server "''0''" "''u10''" "''u1''" list_lib "''az1''"]
    by (simp add: node10_server_def active_server_def)
qed

end
