(* ===== verification/Onboarding_Ctrl.thy ===== *)
theory Onboarding_Ctrl
  imports Onboarding_Tests
begin

text \<open>
  The onboarding controller: \<^verbatim>\<open>src/internal/controller/onboarding_controller.go\<close>. It takes a new host
  through its phases (\<open>Initial\<close>, \<open>Testing\<close>, \<open>Handover\<close>, then \<open>Succeeded\<close>), each recorded as the
  reason of the condition \<open>Onboarding\<close>, and aborts when the host is not managed or is to be
  terminated. The closure \<open>apply\<close> of the source is \<open>apply_onboarding\<close>; the configuration it captures
  is passed along and returned to it by value.
\<close>

section \<open>The applied configuration\<close>

definition onboarding_cfg :: "lib \<Rightarrow> Hypervisor \<Rightarrow> HypervisorStatusApplyConfiguration" where
  "onboarding_cfg L hv = HypervisorStatus_cfg\<lparr>
     cfg_HypervisorID := Some (HypervisorID (hv_Status hv)), cfg_ServiceID := Some (ServiceID (hv_Status hv)),
     cfg_Conditions := (case FindStatusCondition L (hv_Conditions hv) ConditionTypeOnboarding of
                          Some c \<Rightarrow> [ConditionFromStatus c] | None \<Rightarrow> [])\<rparr>"

definition apply_onboarding ::
    "kube \<Rightarrow> Hypervisor \<Rightarrow> HypervisorStatusApplyConfiguration \<Rightarrow> trace \<Rightarrow> go_error option \<times> trace" where
  "apply_onboarding K hv statusCfg tr =
     ask (k_status_apply_Hypervisor K (hv_Name hv) statusCfg)
       (Kube (StatusApplyHypervisor (hv_Name hv) statusCfg OnboardingControllerName)) tr"

definition set_onboarding ::
    "go_time \<Rightarrow> ConditionStatus \<Rightarrow> string \<Rightarrow> string \<Rightarrow> HypervisorStatusApplyConfiguration \<Rightarrow> HypervisorStatusApplyConfiguration" where
  "set_onboarding now st reason msg cfg =
     cfg\<lparr>cfg_Conditions := set_apply_condition now (cfg_Conditions cfg)
            (ac_condition ConditionTypeOnboarding st reason msg)\<rparr>"

section \<open>The handlers of the phases\<close>

definition abortOnboarding ::
    "lib \<Rightarrow> kube \<Rightarrow> OnboardingController \<Rightarrow> go_time \<Rightarrow> Hypervisor \<Rightarrow> string \<Rightarrow> string \<Rightarrow> HypervisorStatusApplyConfiguration
     \<Rightarrow> trace \<Rightarrow> go_error option \<times> trace" where
  "abortOnboarding L K r now hv computeHost message statusCfg tr =
     (case FindStatusCondition L (hv_Conditions hv) ConditionTypeOnboarding of
        None \<Rightarrow> (None, tr)
      | Some status \<Rightarrow>
          if Reason status = ConditionReasonSucceeded then (None, tr)
          else if Status status = ConditionFalse \<and> Reason status = ConditionReasonAborted \<and> Message status = message
          then (None, tr)
          else
            (case deleteTestServers L r computeHost tr of
               (Some err, tr1) \<Rightarrow>
                 (case apply_onboarding K hv (set_onboarding now ConditionTrue ConditionReasonAborted (Error_text err) statusCfg) tr1 of
                    (err2, tr2) \<Rightarrow> (errors_Join [Some err, err2], tr2))
             | (None, tr1) \<Rightarrow>
                 apply_onboarding K hv (set_onboarding now ConditionFalse ConditionReasonAborted message statusCfg) tr1))"

definition enable_opts :: UpdateServiceOpts where
  "enable_opts = \<lparr>us_Status = ''enabled'', us_DisabledReason = [], us_ForcedDown = Some False\<rparr>"

definition initialOnboarding ::
    "kube \<Rightarrow> OnboardingController \<Rightarrow> go_time \<Rightarrow> Hypervisor \<Rightarrow> HypervisorStatusApplyConfiguration
     \<Rightarrow> trace \<Rightarrow> go_error option \<times> trace" where
  "initialOnboarding K r now hv statusCfg tr =
     (let zone = map_get (Labels (Meta hv)) LabelTopologyZone in
      if zone = []
      then (Some (ErrorNew (''cannot find availability-zone label '' @ LabelTopologyZone @ '' on node'')), tr)
      else if \<not> slicesEqualUnordered (map agg_Name (Aggregates (hv_Status hv))) [zone, testAggregateName]
      then (Some errRequeue, tr)
      else
        (case ask (n_services_Update (computeClient r) (ServiceID (hv_Status hv)) enable_opts)
                (Compute (ServicesUpdate (ServiceID (hv_Status hv)) enable_opts)) tr of
           (Some err, tr1) \<Rightarrow> (Some err, tr1)
         | (None, tr1) \<Rightarrow>
             apply_onboarding K hv (set_onboarding now ConditionTrue ConditionReasonTesting ''Running onboarding tests'' statusCfg) tr1))"

definition completeOnboarding ::
    "lib \<Rightarrow> kube \<Rightarrow> OnboardingController \<Rightarrow> go_time \<Rightarrow> string \<Rightarrow> Hypervisor \<Rightarrow> HypervisorStatusApplyConfiguration
     \<Rightarrow> trace \<Rightarrow> reconcile_result \<times> trace" where
  "completeOnboarding L K r now host hv statusCfg tr =
     (if (case FindStatusCondition L (hv_Conditions hv) ConditionTypeOnboarding of
            Some c \<Rightarrow> Reason c = ConditionReasonHandover | None \<Rightarrow> False)
      then
        (if \<not> IsStatusConditionTrue L (hv_Conditions hv) ConditionTypeAggregatesUpdated then (reconcile_ok, tr)
         else if \<not> IsStatusConditionTrue L (hv_Conditions hv) ConditionTypeTraitsUpdated
         then ((\<lparr>RequeueAfter = getRequeueInterval r\<rparr>, None), tr)
         else if HighAvailability (Spec hv) \<and> \<not> IsStatusConditionTrue L (hv_Conditions hv) ConditionTypeHaEnabled
         then (reconcile_ok, tr)
         else
           (case apply_onboarding K hv (set_onboarding now ConditionFalse ConditionReasonSucceeded ''Onboarding completed'' statusCfg) tr of
              (err, tr1) \<Rightarrow> ((no_requeue, err), tr1)))
      else
        (case deleteTestServers L r host tr of
           (Some err, tr1) \<Rightarrow>
             (case apply_onboarding K hv (set_onboarding now ConditionTrue ConditionReasonAborted (Error_text err) statusCfg) tr1 of
                (err2, tr2) \<Rightarrow> ((no_requeue, errors_Join [Some err, err2]), tr2))
         | (None, tr1) \<Rightarrow>
             (case apply_onboarding K hv (set_onboarding now ConditionTrue ConditionReasonHandover
                     ''Waiting for other controllers to take over'' statusCfg) tr1 of
                (err, tr2) \<Rightarrow> ((no_requeue, err), tr2))))"

definition setTestingCondition ::
    "kube \<Rightarrow> go_time \<Rightarrow> Hypervisor \<Rightarrow> HypervisorStatusApplyConfiguration \<Rightarrow> string \<Rightarrow> trace \<Rightarrow> go_error option \<times> trace" where
  "setTestingCondition K now hv statusCfg message tr =
     apply_onboarding K hv (set_onboarding now ConditionTrue ConditionReasonTesting message statusCfg) tr"

text \<open>The two branches of the smoke test, for a server in state \<open>ERROR\<close> and in state \<open>ACTIVE\<close>.\<close>

definition test_failed ::
    "lib \<Rightarrow> kube \<Rightarrow> OnboardingController \<Rightarrow> go_time \<Rightarrow> Hypervisor \<Rightarrow> HypervisorStatusApplyConfiguration \<Rightarrow> server
     \<Rightarrow> trace \<Rightarrow> reconcile_result \<times> trace" where
  "test_failed L K r now hv statusCfg server tr =
     (case ask (n_servers_Get (testComputeClient r) (sv_ID server)) (Server (ServersGet (sv_ID server))) tr of
        (Inl err, tr1) \<Rightarrow> ((\<lparr>RequeueAfter = getRequeueInterval r\<rparr>, None), tr1)
      | (Inr fetched, tr1) \<Rightarrow>
          (case setTestingCondition K now hv statusCfg (''Server ended up in error state: '' @ sv_FaultMessage fetched) tr1 of
             (Some err, tr2) \<Rightarrow> ((no_requeue, Some err), tr2)
           | (None, tr2) \<Rightarrow>
               (case ask (n_servers_Delete (testComputeClient r) (sv_ID server)) (Server (ServersDelete (sv_ID server))) tr2 of
                  (_, tr3) \<Rightarrow>
                    (case deleteOrphanedTestVolumes L r tr3 of
                       (_, tr4) \<Rightarrow> ((\<lparr>RequeueAfter = defaultWaitTime\<rparr>, None), tr4)))))"

definition test_active ::
    "lib \<Rightarrow> kube \<Rightarrow> OnboardingController \<Rightarrow> go_time \<Rightarrow> Hypervisor \<Rightarrow> string \<Rightarrow> HypervisorStatusApplyConfiguration \<Rightarrow> server
     \<Rightarrow> trace \<Rightarrow> reconcile_result \<times> trace" where
  "test_active L K r now hv host statusCfg server tr =
     (let requeue = (\<lparr>RequeueAfter = getRequeueInterval r\<rparr>, None) in
      case ask (n_servers_ShowConsoleOutput (testComputeClient r) (sv_ID server) 11)
             (Server (ServersShowConsoleOutput (sv_ID server) 11)) tr of
        (Inl err, tr1) \<Rightarrow>
          (case setTestingCondition K now hv statusCfg (''could not get console output '' @ Error_text err) tr1 of
             (Some err2, tr2) \<Rightarrow> ((no_requeue, Some err2), tr2)
           | (None, tr2) \<Rightarrow> (requeue, tr2))
      | (Inr consoleOutput, tr1) \<Rightarrow>
          if \<not> strings_Contains consoleOutput (sv_Name server) then
            (if \<not> IsZero (sv_LaunchedAt server) \<and> Clock_Now r > sv_LaunchedAt server + smokeTestTimeout then
               (case setTestingCondition K now hv statusCfg
                       (''timeout waiting for console output since '' @ Time_String_UTC (sv_LaunchedAt server)) tr1 of
                  (Some err2, tr2) \<Rightarrow> ((no_requeue, Some err2), tr2)
                | (None, tr2) \<Rightarrow>
                    (case ask (n_servers_Delete (testComputeClient r) (sv_ID server)) (Server (ServersDelete (sv_ID server))) tr2 of
                       (Some err, tr3) \<Rightarrow>
                         if \<not> ResponseCodeIs L err 404
                         then ((no_requeue, Some (Errorf (''failed to delete timed out test instance '' @ sv_ID server @ '': '') err)), tr3)
                         else (requeue, tr3)
                     | (None, tr3) \<Rightarrow> (requeue, tr3)))
             else (requeue, tr1))
          else
            (case ask (n_servers_Delete (testComputeClient r) (sv_ID server)) (Server (ServersDelete (sv_ID server))) tr1 of
               (Some err, tr2) \<Rightarrow>
                 (case setTestingCondition K now hv statusCfg (''failed to terminate instance '' @ Error_text err) tr2 of
                    (Some err2, tr3) \<Rightarrow> ((no_requeue, Some err2), tr3)
                  | (None, tr3) \<Rightarrow> (requeue, tr3))
             | (None, tr2) \<Rightarrow> completeOnboarding L K r now host hv statusCfg tr2))"

definition smokeTest ::
    "lib \<Rightarrow> kube \<Rightarrow> OnboardingController \<Rightarrow> go_time \<Rightarrow> Hypervisor \<Rightarrow> string \<Rightarrow> HypervisorStatusApplyConfiguration
     \<Rightarrow> trace \<Rightarrow> reconcile_result \<times> trace" where
  "smokeTest L K r now hv host statusCfg tr =
     (case createOrGetTestServer L r (map_get (Labels (Meta hv)) LabelTopologyZone) host (UID (Meta hv)) tr of
        (Inl err, tr1) \<Rightarrow> ((no_requeue, Some (Errorf ''failed to create or get test instance: '' err)), tr1)
      | (Inr server, tr1) \<Rightarrow>
          if sv_Status server = ''ERROR'' then test_failed L K r now hv statusCfg server tr1
          else if sv_Status server = ''ACTIVE'' then test_active L K r now hv host statusCfg server tr1
          else ((\<lparr>RequeueAfter = getRequeueInterval r\<rparr>, None), tr1))"

section \<open>Reconcile\<close>

text \<open>The part after the checks on \<open>lifecycleEnabled\<close> and \<open>maintenance\<close>.\<close>

definition onboarding_phase_pass ::
    "lib \<Rightarrow> kube \<Rightarrow> OnboardingController \<Rightarrow> go_time \<Rightarrow> Hypervisor \<Rightarrow> trace \<Rightarrow> reconcile_result \<times> trace" where
  "onboarding_phase_pass L K r now hv tr =
     (let computeHost = hv_Name hv; statusCfg = onboarding_cfg L hv;
          initial = set_onboarding now ConditionTrue ConditionReasonInitial ''Initial onboarding'' in
      if HypervisorID (hv_Status hv) = [] \<or> ServiceID (hv_Status hv) = [] then
        (case lookupNovaProperties L r hv tr of
           (Inl err, tr1) \<Rightarrow>
             if err = errRequeue then ((\<lparr>RequeueAfter = getRequeueInterval r\<rparr>, None), tr1)
             else ((no_requeue, Some err), tr1)
         | (Inr (hypervisorID, serviceID), tr1) \<Rightarrow>
             (case apply_onboarding K hv
                     (initial (statusCfg\<lparr>cfg_HypervisorID := Some hypervisorID, cfg_ServiceID := Some serviceID\<rparr>)) tr1 of
                (err, tr2) \<Rightarrow> ((no_requeue, err), tr2)))
      else
        (case FindStatusCondition L (hv_Conditions hv) ConditionTypeOnboarding of
           None \<Rightarrow> (case apply_onboarding K hv (initial statusCfg) tr of (err, tr1) \<Rightarrow> ((no_requeue, err), tr1))
         | Some status \<Rightarrow>
             if Reason status = ConditionReasonInitial
             then (case initialOnboarding K r now hv statusCfg tr of (err, tr1) \<Rightarrow> ((no_requeue, err), tr1))
             else if Reason status = ConditionReasonTesting
             then (if SkipTests (Spec hv) then completeOnboarding L K r now computeHost hv statusCfg tr
                   else smokeTest L K r now hv computeHost statusCfg tr)
             else if Reason status = ConditionReasonHandover then completeOnboarding L K r now computeHost hv statusCfg tr
             else (reconcile_ok, tr)))"

definition Onboarding_Reconcile ::
    "lib \<Rightarrow> kube \<Rightarrow> OnboardingController \<Rightarrow> go_time \<Rightarrow> string \<Rightarrow> trace \<Rightarrow> reconcile_result \<times> trace" where
  "Onboarding_Reconcile L K r now name tr =
     (case ask (k_get_Hypervisor K name) (Kube (GetHypervisor name)) tr of
        (Inl err, tr1) \<Rightarrow> ((no_requeue, IgnoreNotFound L err), tr1)
      | (Inr hv, tr1) \<Rightarrow>
          if \<not> LifecycleEnabled (Spec hv)
          then (case abortOnboarding L K r now hv (hv_Name hv) ''Aborted due to LifecycleEnabled being false''
                       (onboarding_cfg L hv) tr1 of
                  (err, tr2) \<Rightarrow> ((no_requeue, err), tr2))
          else if hv_Maintenance hv = MaintenanceTermination
          then (case abortOnboarding L K r now hv (hv_Name hv) ''Aborted due to MaintenanceTermination''
                       (onboarding_cfg L hv) tr1 of
                  (err, tr2) \<Rightarrow> ((no_requeue, err), tr2))
          else onboarding_phase_pass L K r now hv tr1)"

end
