(* ===== verification/Life_Cycle.thy ===== *)
theory Life_Cycle
  imports Main
begin

text \<open>
  The contract between a controller and the object it moves through a life cycle. A pass replaces the
  stored state by one it wrote; the contract says that every write keeps the state sound and is a
  move of an abstract machine, provided that the libraries keep what they document (\<open>lawful\<close>). Proved
  once here: the runs of passes are runs of the machine, a final phase is kept, and a set of phases is
  entered by a write that enters it.
\<close>

locale life_cycle =
  fixes writes :: "'s \<Rightarrow> 's \<Rightarrow> bool" and sound :: "'s \<Rightarrow> bool" and phase :: "'s \<Rightarrow> 'p"
    and moves :: "'p \<Rightarrow> 'p \<Rightarrow> bool" and lawful :: bool
  assumes write_sound: "lawful \<Longrightarrow> writes s s' \<Longrightarrow> sound s \<Longrightarrow> sound s'"
    and write_moves: "lawful \<Longrightarrow> writes s s' \<Longrightarrow> sound s \<Longrightarrow> moves (phase s) (phase s')"
begin

lemma run_sound: "writes\<^sup>*\<^sup>* s s' \<Longrightarrow> lawful \<Longrightarrow> sound s \<Longrightarrow> sound s'"
  by (induction rule: rtranclp_induct) (auto intro: write_sound)

lemma run_moves: "writes\<^sup>*\<^sup>* s s' \<Longrightarrow> lawful \<Longrightarrow> sound s \<Longrightarrow> moves\<^sup>*\<^sup>* (phase s) (phase s')"
proof (induction rule: rtranclp_induct)
  case (step s1 s2)
  have "moves (phase s1) (phase s2)" by (rule write_moves [OF step.prems(1) step.hyps(2) run_sound [OF step.hyps(1) step.prems]])
  with step show ?case by (blast intro: rtranclp.rtrancl_into_rtrancl)
qed simp

lemma run_invariant:
  assumes "writes\<^sup>*\<^sup>* s s'" "lawful" "sound s" "Q (phase s)" "\<And>p q. Q p \<Longrightarrow> moves p q \<Longrightarrow> Q q"
  shows "Q (phase s')"
  using run_moves [OF assms(1-3)] assms(4,5) by (induction rule: rtranclp_induct) auto

lemma run_final:
  assumes "writes\<^sup>*\<^sup>* s s'" "lawful" "sound s" "\<And>q. \<not> moves (phase s) q"
  shows "phase s' = phase s"
  by (rule run_invariant [where Q = "\<lambda>p. p = phase s", OF assms(1-3)]) (use assms(4) in auto)

text \<open>A run that ends in a set of phases it did not start in has a write that enters the set.\<close>

lemma run_enters:
  assumes "writes\<^sup>*\<^sup>* s s'" "phase s \<notin> B" "phase s' \<in> B"
  obtains s1 s2 where "writes\<^sup>*\<^sup>* s s1" "writes s1 s2" "writes\<^sup>*\<^sup>* s2 s'" "phase s1 \<notin> B" "phase s2 \<in> B"
proof -
  have "\<exists>s1 s2. writes\<^sup>*\<^sup>* s s1 \<and> writes s1 s2 \<and> writes\<^sup>*\<^sup>* s2 s' \<and> phase s1 \<notin> B \<and> phase s2 \<in> B"
    using assms
  proof (induction rule: converse_rtranclp_induct)
    case (step a b)
    show ?case
    proof (cases "phase b \<in> B")
      case True
      with step show ?thesis by blast
    next
      case False
      from step.IH [OF False step.prems(2)] step.hyps(1) show ?thesis
        by (blast intro: converse_rtranclp_into_rtranclp)
    qed
  qed simp
  with that show ?thesis by blast
qed

end

end
