(* ===== verification/Onboarding_Props.thy ===== *)
theory Onboarding_Props
  imports Onboarding_Ctrl Life_Cycle
begin

text \<open>
  Properties of the onboarding controller: the abstract machine of its phases, the evidence behind
  every status it writes, and the order of the phases.
\<close>

section \<open>Phases\<close>

datatype onboarding_phase = NotStarted | InInitial | InTesting | InHandover | Onboarded | Aborting | IsAborted | OtherPhase

definition onboarding_phase_of :: "ConditionStatus \<Rightarrow> string \<Rightarrow> onboarding_phase" where
  "onboarding_phase_of st reason =
     (if reason = ConditionReasonInitial then InInitial
      else if reason = ConditionReasonTesting then InTesting
      else if reason = ConditionReasonHandover then InHandover
      else if reason = ConditionReasonSucceeded then Onboarded
      else if reason = ConditionReasonAborted then (if st = ConditionFalse then IsAborted else Aborting)
      else OtherPhase)"

definition phase_in :: "lib \<Rightarrow> Hypervisor \<Rightarrow> onboarding_phase" where
  "phase_in L hv =
     (case FindStatusCondition L (hv_Conditions hv) ConditionTypeOnboarding of
        None \<Rightarrow> NotStarted | Some c \<Rightarrow> onboarding_phase_of (Status c) (Reason c))"

text \<open>The phases in the order in which a host passes them, the aborted ones last.\<close>

fun phase_rank :: "onboarding_phase \<Rightarrow> nat" where
  "phase_rank NotStarted = 0"
| "phase_rank InInitial = 1"
| "phase_rank InTesting = 2"
| "phase_rank InHandover = 3"
| "phase_rank Onboarded = 4"
| "phase_rank Aborting = 5"
| "phase_rank IsAborted = 6"
| "phase_rank OtherPhase = 7"

lemma phase_rank_inject [simp]: "phase_rank p = phase_rank q \<longleftrightarrow> p = q"
  by (cases p; cases q) simp_all

instantiation onboarding_phase :: linorder
begin

definition less_eq_onboarding_phase :: "onboarding_phase \<Rightarrow> onboarding_phase \<Rightarrow> bool" where
  "less_eq_onboarding_phase p q \<longleftrightarrow> phase_rank p \<le> phase_rank q"

definition less_onboarding_phase :: "onboarding_phase \<Rightarrow> onboarding_phase \<Rightarrow> bool" where
  "less_onboarding_phase p q \<longleftrightarrow> phase_rank p < phase_rank q"

instance
  by standard (auto simp: less_eq_onboarding_phase_def less_onboarding_phase_def)

end

section \<open>What a pass may write\<close>

definition managed :: "Hypervisor \<Rightarrow> bool" where
  "managed hv \<longleftrightarrow> LifecycleEnabled (Spec hv) \<and> hv_Maintenance hv \<noteq> MaintenanceTermination"

definition registered :: "Hypervisor \<Rightarrow> bool" where
  "registered hv \<longleftrightarrow> HypervisorID (hv_Status hv) \<noteq> [] \<and> ServiceID (hv_Status hv) \<noteq> []"

definition isolated :: "Hypervisor \<Rightarrow> bool" where
  "isolated hv \<longleftrightarrow> (let zone = map_get (Labels (Meta hv)) LabelTopologyZone in zone \<noteq> []
     \<and> mset (map agg_Name (Aggregates (hv_Status hv))) = {# zone, testAggregateName #})"

definition taken_over :: "lib \<Rightarrow> Hypervisor \<Rightarrow> bool" where
  "taken_over L hv \<longleftrightarrow> IsStatusConditionTrue L (hv_Conditions hv) ConditionTypeAggregatesUpdated
     \<and> IsStatusConditionTrue L (hv_Conditions hv) ConditionTypeTraitsUpdated
     \<and> (HighAvailability (Spec hv) \<longrightarrow> IsStatusConditionTrue L (hv_Conditions hv) ConditionTypeHaEnabled)"

text \<open>
  The test of a host was passed in a pass that began after history \<open>tr\<close>: tests are skipped, or the
  test server of this host and node was active, printed its name on its console and was deleted.
\<close>

definition tested :: "lib \<Rightarrow> OnboardingController \<Rightarrow> Hypervisor \<Rightarrow> trace \<Rightarrow> bool" where
  "tested L r hv tr \<longleftrightarrow> SkipTests (Spec hv) \<or>
     (\<exists>server tr1 out.
        createOrGetTestServer L r (map_get (Labels (Meta hv)) LabelTopologyZone) (hv_Name hv) (UID (Meta hv)) tr = (Inr server, tr1)
      \<and> sv_Name server = serverPrefix (hv_Name hv) @ ''-'' @ UID (Meta hv) \<and> sv_Status server = ''ACTIVE''
      \<and> n_servers_ShowConsoleOutput (testComputeClient r) (sv_ID server) 11 tr1 = Inr out
      \<and> strings_Contains out (sv_Name server)
      \<and> n_servers_Delete (testComputeClient r) (sv_ID server) (tr1 @ [Server (ServersShowConsoleOutput (sv_ID server) 11)]) = None)"

text \<open>The abstract machine: from a phase to the next, for a hypervisor with the given data.\<close>

inductive onboarding_step :: "lib \<Rightarrow> OnboardingController \<Rightarrow> trace \<Rightarrow> Hypervisor \<Rightarrow> onboarding_phase \<Rightarrow> onboarding_phase \<Rightarrow> bool"
  for L :: lib and r :: OnboardingController and tr :: trace and hv :: Hypervisor where
  register: "managed hv \<Longrightarrow> \<not> registered hv \<Longrightarrow> onboarding_step L r tr hv p InInitial"
| start: "managed hv \<Longrightarrow> registered hv \<Longrightarrow> onboarding_step L r tr hv NotStarted InInitial"
| test: "managed hv \<Longrightarrow> registered hv \<Longrightarrow> isolated hv \<Longrightarrow> onboarding_step L r tr hv InInitial InTesting"
| retest: "managed hv \<Longrightarrow> registered hv \<Longrightarrow> \<not> SkipTests (Spec hv) \<Longrightarrow> onboarding_step L r tr hv InTesting InTesting"
| handover: "managed hv \<Longrightarrow> registered hv \<Longrightarrow> tested L r hv tr \<Longrightarrow> onboarding_step L r tr hv InTesting InHandover"
| cleanup_failed: "managed hv \<Longrightarrow> registered hv \<Longrightarrow> tested L r hv tr \<Longrightarrow> onboarding_step L r tr hv InTesting Aborting"
| complete: "managed hv \<Longrightarrow> registered hv \<Longrightarrow> taken_over L hv \<Longrightarrow> onboarding_step L r tr hv InHandover Onboarded"
| abort: "\<not> managed hv \<Longrightarrow> p \<noteq> NotStarted \<Longrightarrow> p \<noteq> Onboarded \<Longrightarrow> onboarding_step L r tr hv p IsAborted"
| abort_failed: "\<not> managed hv \<Longrightarrow> p \<noteq> NotStarted \<Longrightarrow> p \<noteq> Onboarded \<Longrightarrow> onboarding_step L r tr hv p Aborting"

inductive_cases step_to_InHandoverE: "onboarding_step L r tr hv p InHandover"
inductive_cases step_to_OnboardedE: "onboarding_step L r tr hv p Onboarded"
inductive_simps step_from_Onboarded: "onboarding_step L r tr hv Onboarded q"

section \<open>The calls of a pass\<close>

text \<open>What each call of a pass for \<open>hv\<close> that began after history \<open>tr\<close> satisfies.\<close>

definition applied_phase :: "HypervisorStatusApplyConfiguration \<Rightarrow> onboarding_phase option" where
  "applied_phase cfg = (case find_apply (cfg_Conditions cfg) (Some ConditionTypeOnboarding) of
     Some c \<Rightarrow> Some (onboarding_phase_of (the (ac_Status c)) (the (ac_Reason c))) | None \<Rightarrow> None)"

fun onboarding_call :: "lib \<Rightarrow> OnboardingController \<Rightarrow> trace \<Rightarrow> Hypervisor \<Rightarrow> call \<Rightarrow> bool" where
  "onboarding_call L r tr hv (Kube (StatusApplyHypervisor n cfg ow)) \<longleftrightarrow>
     n = hv_Name hv \<and> (\<exists>q. applied_phase cfg = Some q \<and> onboarding_step L r tr hv (phase_in L hv) q)"
| "onboarding_call L r tr hv (Kube _) \<longleftrightarrow> False"
| "onboarding_call L r tr hv (Compute (ServicesUpdate sid opts)) \<longleftrightarrow>
     managed hv \<and> registered hv \<and> phase_in L hv = InInitial \<and> isolated hv
     \<and> sid = ServiceID (hv_Status hv) \<and> opts = enable_opts"
| "onboarding_call L r tr hv (Compute (HypervisorsList pat w)) \<longleftrightarrow> managed hv \<and> \<not> registered hv"
| "onboarding_call L r tr hv (Compute _) \<longleftrightarrow> False"
| "onboarding_call L r tr hv (Placement _) \<longleftrightarrow> False"
| "onboarding_call L r tr hv (Server _) \<longleftrightarrow> True"
| "onboarding_call L r tr hv (TestProject _) \<longleftrightarrow> True"

lemma test_call_onboarding: "test_project_call c \<Longrightarrow> onboarding_call L r tr hv c"
  by (auto simp: test_project_call_def)

lemma test_extends: "extends_by test_project_call t t' \<Longrightarrow> extends_by (onboarding_call L r tr hv) t t'"
  by (erule extends_by_mono) (rule test_call_onboarding)

lemma applied_phase_set [simp]: "applied_phase (set_onboarding now st reason msg cfg) = Some (onboarding_phase_of st reason)"
proof -
  have "map_option apply_view (find_apply (cfg_Conditions (set_onboarding now st reason msg cfg)) (Some ConditionTypeOnboarding))
      = Some (Some st, Some reason, Some msg, None)"
    using apply_store.find_put_same [of "ac_condition ConditionTypeOnboarding st reason msg" now "cfg_Conditions cfg"]
    by (simp add: set_onboarding_def apply_view_def del: map_option_eq_Some)
  then show ?thesis by (auto simp: applied_phase_def apply_view_def)
qed

text \<open>An application of a status: one call, allowed if the machine has the step.\<close>

lemma apply_onboarding_extends:
  assumes "extends_by (onboarding_call L r tr hv) t0 t"
    and "onboarding_step L r tr hv (phase_in L hv) (onboarding_phase_of st reason)"
  shows "extends_by (onboarding_call L r tr hv) t0 (snd (apply_onboarding K hv (set_onboarding now st reason msg cfg) t))"
  using assms by (auto simp: apply_onboarding_def intro!: extends_by_append)

lemma onboarding_phase_of_simps [simp]:
  "onboarding_phase_of st ConditionReasonInitial = InInitial" "onboarding_phase_of st ConditionReasonTesting = InTesting"
  "onboarding_phase_of st ConditionReasonHandover = InHandover" "onboarding_phase_of st ConditionReasonSucceeded = Onboarded"
  "onboarding_phase_of ConditionFalse ConditionReasonAborted = IsAborted" "onboarding_phase_of ConditionTrue ConditionReasonAborted = Aborting"
  by (simp_all add: onboarding_phase_of_def)

lemma onboarding_phase_of_iff:
  "onboarding_phase_of st reason = InTesting \<longleftrightarrow> reason = ConditionReasonTesting"
  "onboarding_phase_of st reason = InHandover \<longleftrightarrow> reason = ConditionReasonHandover"
  "onboarding_phase_of st reason = InInitial \<longleftrightarrow> reason = ConditionReasonInitial"
  "onboarding_phase_of st reason = Onboarded \<longleftrightarrow> reason = ConditionReasonSucceeded"
  "onboarding_phase_of st reason \<noteq> NotStarted"
  by (auto simp: onboarding_phase_of_def)

text \<open>The handlers of the phases, each for the phase it is called in.\<close>

abbreviation ok_calls :: "lib \<Rightarrow> OnboardingController \<Rightarrow> trace \<Rightarrow> Hypervisor \<Rightarrow> trace \<Rightarrow> trace \<Rightarrow> bool" where
  "ok_calls L r tr hv \<equiv> extends_by (onboarding_call L r tr hv)"

lemma deleteTestServers_ok: "ok_calls L r tr hv t (snd (deleteTestServers L r host t))"
  by (rule test_extends [OF deleteTestServers_extends])

lemma abortOnboarding_ok:
  assumes "\<not> managed hv"
  shows "ok_calls L r tr hv t (snd (abortOnboarding L K r now hv host msg cfg t))"
proof (cases "FindStatusCondition L (hv_Conditions hv) ConditionTypeOnboarding")
  case None
  then show ?thesis by (simp add: abortOnboarding_def)
next
  case (Some c)
  show ?thesis
  proof (cases "Reason c = ConditionReasonSucceeded")
    case True
    with Some show ?thesis by (simp add: abortOnboarding_def)
  next
    case False
    with Some have p: "phase_in L hv \<noteq> NotStarted" "phase_in L hv \<noteq> Onboarded"
      by (auto simp: phase_in_def onboarding_phase_of_iff)
    obtain e t1 where d: "deleteTestServers L r host t = (e, t1)" by fastforce
    then have t1: "ok_calls L r tr hv t t1" using deleteTestServers_ok [of L r tr hv t host] by simp
    note a = onboarding_step.abort [OF assms p] and b = onboarding_step.abort_failed [OF assms p]
    from apply_onboarding_extends [OF t1, of ConditionFalse ConditionReasonAborted K now msg cfg]
      apply_onboarding_extends [OF t1, of ConditionTrue ConditionReasonAborted K now _ cfg] a b False Some d
    show ?thesis by (auto simp: abortOnboarding_def case_prod_beta split: option.split)
  qed
qed

lemma initialOnboarding_ok:
  assumes "managed hv" "registered hv" "phase_in L hv = InInitial"
  shows "ok_calls L r tr hv t (snd (initialOnboarding K r now hv cfg t))"
proof (cases "isolated hv")
  case False
  then show ?thesis
    by (auto simp: initialOnboarding_def isolated_def Let_def slicesEqualUnordered_iff)
next
  case True
  let ?c = "Compute (ServicesUpdate (ServiceID (hv_Status hv)) enable_opts)"
  have t1: "ok_calls L r tr hv t (t @ [?c])"
    using assms True by (intro extends_by_snoc) simp
  have "onboarding_step L r tr hv (phase_in L hv) (onboarding_phase_of ConditionTrue ConditionReasonTesting)"
    using onboarding_step.test [OF assms(1,2) True] assms(3) by simp
  from apply_onboarding_extends [OF t1 this] t1 True show ?thesis
    by (auto simp: initialOnboarding_def isolated_def Let_def slicesEqualUnordered_iff ask_def split: option.split)
qed

lemma completeOnboarding_ok:
  assumes "managed hv" "registered hv" "ok_calls L r tr hv t0 t"
    and "phase_in L hv = InTesting \<and> tested L r hv tr \<or> phase_in L hv = InHandover"
  shows "ok_calls L r tr hv t0 (snd (completeOnboarding L K r now host hv cfg t))"
proof (cases "phase_in L hv = InHandover")
  case True
  then have h: "case FindStatusCondition L (hv_Conditions hv) ConditionTypeOnboarding of
      Some c \<Rightarrow> Reason c = ConditionReasonHandover | None \<Rightarrow> False"
    by (auto simp: phase_in_def onboarding_phase_of_iff split: option.splits)
  show ?thesis
  proof (cases "taken_over L hv")
    case False
    with h assms(3) show ?thesis by (auto simp: completeOnboarding_def taken_over_def)
  next
    case t: True
    have "onboarding_step L r tr hv (phase_in L hv) (onboarding_phase_of ConditionFalse ConditionReasonSucceeded)"
      using onboarding_step.complete [OF assms(1,2) t] True by simp
    from apply_onboarding_extends [OF assms(3) this] h t show ?thesis
      by (auto simp: completeOnboarding_def taken_over_def case_prod_beta)
  qed
next
  case False
  then have n: "\<not> (case FindStatusCondition L (hv_Conditions hv) ConditionTypeOnboarding of
      Some c \<Rightarrow> Reason c = ConditionReasonHandover | None \<Rightarrow> False)"
    by (auto simp: phase_in_def onboarding_phase_of_iff split: option.splits)
  from False assms(4) have p: "phase_in L hv = InTesting" and te: "tested L r hv tr" by auto
  obtain e t1 where d: "deleteTestServers L r host t = (e, t1)" by fastforce
  then have t1: "ok_calls L r tr hv t0 t1"
    using extends_by_trans [OF assms(3) deleteTestServers_ok [of L r tr hv t host]] by simp
  have "onboarding_step L r tr hv (phase_in L hv) (onboarding_phase_of ConditionTrue ConditionReasonHandover)"
    "onboarding_step L r tr hv (phase_in L hv) (onboarding_phase_of ConditionTrue ConditionReasonAborted)"
    using onboarding_step.handover [OF assms(1,2) te] onboarding_step.cleanup_failed [OF assms(1,2) te] p by simp_all
  then show ?thesis
    using apply_onboarding_extends [OF t1] n
    by (auto simp: completeOnboarding_def d case_prod_beta split: option.split)
qed

text \<open>A pass of the smoke test: the host is managed, registered, in the test phase, and tests are not skipped.\<close>

definition in_test :: "lib \<Rightarrow> Hypervisor \<Rightarrow> bool" where
  "in_test L hv \<longleftrightarrow> managed hv \<and> registered hv \<and> phase_in L hv = InTesting \<and> \<not> SkipTests (Spec hv)"

lemma setTesting_step:
  assumes "in_test L hv" "ok_calls L r tr hv t0 t" "setTestingCondition K now hv cfg msg t = (e, t')"
  shows "ok_calls L r tr hv t0 t'"
proof -
  have "onboarding_step L r tr hv (phase_in L hv) (onboarding_phase_of ConditionTrue ConditionReasonTesting)"
    using assms(1) by (simp add: in_test_def onboarding_step.retest)
  from apply_onboarding_extends [OF assms(2) this, of K now msg cfg] assms(3) show ?thesis
    by (simp add: setTestingCondition_def)
qed

lemma server_ok: "ok_calls L r tr hv t0 t \<Longrightarrow> ok_calls L r tr hv t0 (t @ [Server c])"
  by (erule extends_by_append) simp

lemma test_failed_ok:
  assumes i: "in_test L hv" and t: "ok_calls L r tr hv t0 t"
  shows "ok_calls L r tr hv t0 (snd (test_failed L K r now hv cfg server t))"
proof (cases "n_servers_Get (testComputeClient r) (sv_ID server) t")
  case (Inl e)
  with server_ok [OF t] show ?thesis by (simp add: test_failed_def ask_def)
next
  case (Inr f)
  let ?msg = "''Server ended up in error state: '' @ sv_FaultMessage f" and ?d = "Server (ServersDelete (sv_ID server))"
  obtain e t2 where s: "setTestingCondition K now hv cfg ?msg (t @ [Server (ServersGet (sv_ID server))]) = (e, t2)" by fastforce
  have t2: "ok_calls L r tr hv t0 t2" by (rule setTesting_step [OF i server_ok [OF t] s])
  have "ok_calls L r tr hv t0 (snd (deleteOrphanedTestVolumes L r (t2 @ [?d])))"
    by (rule extends_by_trans [OF server_ok [OF t2] test_extends [OF deleteOrphanedTestVolumes_extends]])
  with t2 Inr s show ?thesis by (simp add: test_failed_def ask_def case_prod_beta split: option.split)
qed

lemma test_active_ok:
  assumes i: "in_test L hv" and t: "ok_calls L r tr hv t0 t"
    and passed: "\<And>out. n_servers_ShowConsoleOutput (testComputeClient r) (sv_ID server) 11 t = Inr out \<Longrightarrow>
      strings_Contains out (sv_Name server) \<Longrightarrow>
      n_servers_Delete (testComputeClient r) (sv_ID server) (t @ [Server (ServersShowConsoleOutput (sv_ID server) 11)]) = None \<Longrightarrow>
      tested L r hv tr"
  shows "ok_calls L r tr hv t0 (snd (test_active L K r now hv host cfg server t))"
proof -
  let ?t1 = "t @ [Server (ServersShowConsoleOutput (sv_ID server) 11)]" and ?d = "Server (ServersDelete (sv_ID server))"
  note t1 = server_ok [OF t, of "ServersShowConsoleOutput (sv_ID server) 11"]
  have cond: "ok_calls L r tr hv t0 (snd (setTestingCondition K now hv cfg m t'))" if "ok_calls L r tr hv t0 t'" for m t'
    using setTesting_step [OF i that] by (metis prod.collapse)
  show ?thesis
  proof (cases "n_servers_ShowConsoleOutput (testComputeClient r) (sv_ID server) 11 t")
    case (Inl e)
    with cond [OF t1] show ?thesis
      by (simp add: test_active_def ask_def Let_def case_prod_beta split: option.split)
  next
    case (Inr out)
    show ?thesis
    proof (cases "strings_Contains out (sv_Name server)")
      case False
      with Inr t1 cond [OF t1] server_ok [OF cond [OF t1]] show ?thesis
        by (simp add: test_active_def ask_def Let_def case_prod_beta split: option.split)
    next
      case c: True
      show ?thesis
      proof (cases "n_servers_Delete (testComputeClient r) (sv_ID server) ?t1")
        case (Some e)
        with Inr c cond [OF server_ok [OF t1]] show ?thesis
          by (simp add: test_active_def ask_def Let_def case_prod_beta split: option.split)
      next
        case None
        have "ok_calls L r tr hv t0 (snd (completeOnboarding L K r now host hv cfg (?t1 @ [?d])))"
          by (rule completeOnboarding_ok) (use i passed [OF Inr c None] server_ok [OF t1] in \<open>auto simp: in_test_def\<close>)
        with Inr c None show ?thesis by (simp add: test_active_def ask_def Let_def)
      qed
    qed
  qed
qed

lemma createOrGetTestServer_name:
  "createOrGetTestServer L r zone host uid tr = (Inr s, tr') \<Longrightarrow> sv_Name s = serverPrefix host @ ''-'' @ uid"
  by (erule createOrGetTestServer_cases) auto

lemma smokeTest_ok:
  assumes i: "in_test L hv"
  shows "ok_calls L r tr hv tr (snd (smokeTest L K r now hv (hv_Name hv) cfg tr))"
proof -
  obtain res t where c: "createOrGetTestServer L r (map_get (Labels (Meta hv)) LabelTopologyZone) (hv_Name hv) (UID (Meta hv)) tr = (res, t)"
    by fastforce
  have t: "ok_calls L r tr hv tr t"
    using test_extends [OF createOrGetTestServer_extends [of tr L r "map_get (Labels (Meta hv)) LabelTopologyZone" "hv_Name hv" "UID (Meta hv)"]]
    by (simp add: c)
  show ?thesis
  proof (cases res)
    case (Inl e)
    with c t show ?thesis by (simp add: smokeTest_def)
  next
    case (Inr server)
    have "ok_calls L r tr hv tr (snd (test_active L K r now hv (hv_Name hv) cfg server t))" if "sv_Status server = ''ACTIVE''"
      by (rule test_active_ok [OF i t])
        (use c [unfolded Inr] createOrGetTestServer_name [OF c [unfolded Inr]] that in \<open>auto simp: tested_def\<close>)
    with Inr c t test_failed_ok [OF i t] show ?thesis by (simp add: smokeTest_def)
  qed
qed

lemma lookupNovaProperties_trace:
  "snd (lookupNovaProperties L r hv tr) \<in> {tr, tr @ [Compute (HypervisorsList (fst (strings_Cut (map_get (Labels (Meta hv)) LabelHostname) (CHR ''.''))) False)]}"
  by (auto simp: lookupNovaProperties_def ask_def Let_def split: sum.split option.split)

lemma onboarding_phase_pass_ok:
  assumes "managed hv"
  shows "ok_calls L r tr hv tr (snd (onboarding_phase_pass L K r now hv tr))"
proof (cases "registered hv")
  case False
  obtain res t where l: "lookupNovaProperties L r hv tr = (res, t)" by fastforce
  have t: "ok_calls L r tr hv tr t"
    using lookupNovaProperties_trace [of L r hv tr] assms False by (auto simp: l intro: extends_by_snoc)
  have "onboarding_step L r tr hv (phase_in L hv) (onboarding_phase_of ConditionTrue ConditionReasonInitial)"
    using onboarding_step.register [OF assms False] by simp
  from apply_onboarding_extends [OF t this] t False l show ?thesis
    by (auto simp: onboarding_phase_pass_def registered_def Let_def case_prod_beta split: sum.split)
next
  case True
  then have reg: "\<not> (HypervisorID (hv_Status hv) = [] \<or> ServiceID (hv_Status hv) = [])" by (simp add: registered_def)
  note eq = onboarding_phase_pass_def Let_def if_not_P [OF reg]
  show ?thesis
  proof (cases "FindStatusCondition L (hv_Conditions hv) ConditionTypeOnboarding")
    case None
    then have "onboarding_step L r tr hv (phase_in L hv) (onboarding_phase_of ConditionTrue ConditionReasonInitial)"
      using onboarding_step.start [OF assms True] by (simp add: phase_in_def)
    from apply_onboarding_extends [OF extends_by_refl this] None show ?thesis
      by (simp add: eq case_prod_beta)
  next
    case (Some c)
    then have p: "phase_in L hv = onboarding_phase_of (Status c) (Reason c)" by (simp add: phase_in_def)
    consider "Reason c = ConditionReasonInitial" | "Reason c = ConditionReasonTesting" | "Reason c = ConditionReasonHandover"
      | "Reason c \<notin> {ConditionReasonInitial, ConditionReasonTesting, ConditionReasonHandover}" by blast
    then show ?thesis
    proof cases
      case 1
      with Some p initialOnboarding_ok [OF assms True, of L] show ?thesis by (simp add: eq case_prod_beta)
    next
      case 2
      with p have "phase_in L hv = InTesting" by simp
      then have "in_test L hv" if "\<not> SkipTests (Spec hv)" using assms True that by (simp add: in_test_def)
      moreover have "ok_calls L r tr hv tr (snd (completeOnboarding L K r now (hv_Name hv) hv cfg tr))" if "SkipTests (Spec hv)" for cfg
        by (rule completeOnboarding_ok [OF assms True]) (use that \<open>phase_in L hv = InTesting\<close> in \<open>auto simp: tested_def\<close>)
      ultimately show ?thesis using Some 2 smokeTest_ok [of L hv r tr] by (simp add: eq)
    next
      case 3
      with p have "phase_in L hv = InHandover" by simp
      then have "ok_calls L r tr hv tr (snd (completeOnboarding L K r now (hv_Name hv) hv cfg tr))" for cfg
        using completeOnboarding_ok [OF assms True extends_by_refl] by blast
      with Some 3 show ?thesis by (simp add: eq)
    next
      case 4
      with Some show ?thesis by (simp add: eq)
    qed
  qed
qed

text \<open>Every call of a pass after the read of the hypervisor.\<close>

lemma Onboarding_Reconcile_calls:
  assumes "k_get_Hypervisor K name tr = Inr hv"
  shows "ok_calls L r (tr @ [Kube (GetHypervisor name)]) hv (tr @ [Kube (GetHypervisor name)])
    (snd (Onboarding_Reconcile L K r now name tr))"
proof (cases "managed hv")
  case True
  from onboarding_phase_pass_ok [OF True, of L r "tr @ [Kube (GetHypervisor name)]" K now] True assms show ?thesis
    by (auto simp: Onboarding_Reconcile_def ask_def managed_def)
next
  case False
  from abortOnboarding_ok [OF False, of L r "tr @ [Kube (GetHypervisor name)]" "tr @ [Kube (GetHypervisor name)]" K now "hv_Name hv" _ "onboarding_cfg L hv"]
    False assms show ?thesis
    by (auto simp: Onboarding_Reconcile_def ask_def managed_def case_prod_beta)
qed

lemma Onboarding_Reconcile_call:
  assumes "c \<in> set (new_calls tr (snd (Onboarding_Reconcile L K r now name tr)))" "c \<noteq> Kube (GetHypervisor name)"
  obtains hv where "k_get_Hypervisor K name tr = Inr hv" "onboarding_call L r (tr @ [Kube (GetHypervisor name)]) hv c"
proof (cases "k_get_Hypervisor K name tr")
  case (Inl e)
  with assms show ?thesis by (simp add: Onboarding_Reconcile_def ask_def)
next
  case (Inr hv)
  from Onboarding_Reconcile_calls [OF Inr, of L r now] assms that [OF Inr] show ?thesis
    by (auto simp: extends_by_def list_all_iff)
qed

section \<open>Properties\<close>

text \<open>
  C24. The controller implements the machine of the phases: every status it applies is for the
  hypervisor it read, carries the condition \<open>Onboarding\<close>, and the phase in it is reached by a step
  of the machine from the phase that was read. In particular the handover needs the passed test, the
  end of the onboarding needs aggregates, traits and (if asked for) high availability to be in
  place, and a completed onboarding is never aborted.
\<close>

theorem onboarding_refines:
  assumes "Kube (StatusApplyHypervisor n cfg ow) \<in> set (new_calls tr (snd (Onboarding_Reconcile L K r now name tr)))"
  shows "\<exists>hv q. k_get_Hypervisor K name tr = Inr hv \<and> n = hv_Name hv \<and> applied_phase cfg = Some q
    \<and> onboarding_step L r (tr @ [Kube (GetHypervisor name)]) hv (phase_in L hv) q"
  by (rule Onboarding_Reconcile_call [OF assms]) auto

text \<open>
  A pass that applied a status, and logs of such passes: each pass read the phase that the last one
  applied. Between two passes anything else of the host may change: the spec, the other
  conditions, the services.
\<close>

record logged_pass =
  lp_controller :: OnboardingController
  lp_name :: string
  lp_history :: trace
  lp_host :: Hypervisor
  lp_applied :: onboarding_phase

abbreviation lp_start :: "logged_pass \<Rightarrow> trace" where
  "lp_start x \<equiv> lp_history x @ [Kube (GetHypervisor (lp_name x))]"

definition pass_applies :: "lib \<Rightarrow> logged_pass \<Rightarrow> bool" where
  "pass_applies L x \<longleftrightarrow> (\<exists>K now n cfg ow. k_get_Hypervisor K (lp_name x) (lp_history x) = Inr (lp_host x)
     \<and> Kube (StatusApplyHypervisor n cfg ow) \<in> set (new_calls (lp_history x)
         (snd (Onboarding_Reconcile L K (lp_controller x) now (lp_name x) (lp_history x))))
     \<and> applied_phase cfg = Some (lp_applied x))"

definition log_phase :: "onboarding_phase \<Rightarrow> logged_pass list \<Rightarrow> onboarding_phase" where
  "log_phase p xs = (if xs = [] then p else lp_applied (last xs))"

definition logs :: "lib \<Rightarrow> onboarding_phase \<Rightarrow> logged_pass list \<Rightarrow> logged_pass list \<Rightarrow> bool" where
  "logs L p xs xs' \<longleftrightarrow> (\<exists>x. xs' = xs @ [x] \<and> phase_in L (lp_host x) = log_phase p xs \<and> pass_applies L x)"

definition onboarding_moves :: "lib \<Rightarrow> onboarding_phase \<Rightarrow> onboarding_phase \<Rightarrow> bool" where
  "onboarding_moves L p q \<longleftrightarrow> (\<exists>r tr hv. phase_in L hv = p \<and> onboarding_step L r tr hv p q)"

lemma log_phase_snoc [simp]: "log_phase p (xs @ [x]) = lp_applied x"
  by (simp add: log_phase_def)

lemma pass_applies_step:
  "pass_applies L x \<Longrightarrow> onboarding_step L (lp_controller x) (lp_start x) (lp_host x) (phase_in L (lp_host x)) (lp_applied x)"
  unfolding pass_applies_def by (elim exE conjE Onboarding_Reconcile_call) auto

interpretation onboarding_life: life_cycle "logs L p" "\<lambda>xs. True" "log_phase p" "onboarding_moves L" True for L p
proof unfold_locales
  fix xs xs'
  assume "logs L p xs xs'"
  then obtain x where x: "xs' = xs @ [x]" "phase_in L (lp_host x) = log_phase p xs" "pass_applies L x" by (auto simp: logs_def)
  from pass_applies_step [OF x(3)] show "onboarding_moves L (log_phase p xs) (log_phase p xs')"
    unfolding onboarding_moves_def x(1) log_phase_snoc using x(2) by metis
qed simp

lemma logs_extend: "(logs L p)\<^sup>*\<^sup>* xs xs' \<Longrightarrow> \<exists>zs. xs' = xs @ zs"
  by (induction rule: rtranclp_induct) (auto simp: logs_def)

text \<open>The pass of a log that enters a set of phases.\<close>

lemma log_enters:
  assumes "(logs L p)\<^sup>*\<^sup>* xs ps" "log_phase p xs \<notin> B" "log_phase p ps \<in> B"
  obtains ys x zs where "ps = xs @ ys @ x # zs" "(logs L p)\<^sup>*\<^sup>* (xs @ ys @ [x]) ps" "lp_applied x \<in> B" "phase_in L (lp_host x) \<notin> B"
    "onboarding_step L (lp_controller x) (lp_start x) (lp_host x) (phase_in L (lp_host x)) (lp_applied x)"
proof (rule onboarding_life.run_enters [OF assms])
  fix s1 s2
  assume r: "(logs L p)\<^sup>*\<^sup>* xs s1" "logs L p s1 s2" "(logs L p)\<^sup>*\<^sup>* s2 ps" and b: "log_phase p s1 \<notin> B" "log_phase p s2 \<in> B"
  from r(2) obtain x where x: "s2 = s1 @ [x]" "phase_in L (lp_host x) = log_phase p s1" "pass_applies L x" by (auto simp: logs_def)
  moreover have "lp_applied x \<in> B" using b(2) x(1) by simp
  moreover obtain ys zs where "s1 = xs @ ys" "ps = s2 @ zs" using logs_extend r(1,3) by blast
  ultimately show ?thesis using that [of ys x zs] r(3) b(1) pass_applies_step [OF x(3)] by simp
qed

text \<open>
  C25. No host is onboarded untested. Whatever the passes of the controller read and whatever changes
  between them: in a log of passes that leads to \<open>Succeeded\<close> from a phase before the handover, one
  pass read the host in \<open>Testing\<close>, managed and registered, and applied \<open>Handover\<close> with the tests
  skipped or, in this very pass, passed; and a later pass read it in \<open>Handover\<close>, managed, with aggregates,
  traits and (if asked for) high availability in place, and applied \<open>Succeeded\<close>.
\<close>

theorem onboarded_only_tested:
  assumes "(logs L p)\<^sup>*\<^sup>* [] ps" "log_phase p ps = Onboarded" "p \<notin> {InHandover, Onboarded}"
  shows "\<exists>xs x ys y zs. ps = xs @ x # ys @ y # zs
    \<and> phase_in L (lp_host x) = InTesting \<and> managed (lp_host x) \<and> registered (lp_host x)
    \<and> lp_applied x = InHandover \<and> tested L (lp_controller x) (lp_host x) (lp_start x)
    \<and> phase_in L (lp_host y) = InHandover \<and> managed (lp_host y) \<and> taken_over L (lp_host y) \<and> lp_applied y = Onboarded"
proof -
  have "log_phase p [] \<notin> {InHandover, Onboarded}" "log_phase p ps \<in> {InHandover, Onboarded}"
    using assms(2,3) by (simp_all add: log_phase_def [of p "[]"])
  from log_enters [OF assms(1) this] obtain xs x zs where x: "ps = xs @ x # zs" "(logs L p)\<^sup>*\<^sup>* (xs @ [x]) ps"
    "lp_applied x \<in> {InHandover, Onboarded}" "phase_in L (lp_host x) \<notin> {InHandover, Onboarded}"
    "onboarding_step L (lp_controller x) (lp_start x) (lp_host x) (phase_in L (lp_host x)) (lp_applied x)"
    by (metis append_Nil)
  from x(3-5) have h: "lp_applied x = InHandover" by (auto elim: step_to_OnboardedE)
  with x(5) have test: "phase_in L (lp_host x) = InTesting \<and> managed (lp_host x) \<and> registered (lp_host x)
      \<and> tested L (lp_controller x) (lp_host x) (lp_start x)" by (auto elim: step_to_InHandoverE)
  from h assms(2) have "log_phase p (xs @ [x]) \<notin> {Onboarded}" "log_phase p ps \<in> {Onboarded}" by simp_all
  from log_enters [OF x(2) this] obtain ys y vs where y: "ps = (xs @ [x]) @ ys @ y # vs" "lp_applied y \<in> {Onboarded}"
    "onboarding_step L (lp_controller y) (lp_start y) (lp_host y) (phase_in L (lp_host y)) (lp_applied y)"
    by metis
  then have "phase_in L (lp_host y) = InHandover \<and> managed (lp_host y) \<and> taken_over L (lp_host y)" by (auto elim: step_to_OnboardedE)
  with h test y(1,2) show ?thesis by (metis append.assoc append_Cons append_Nil singletonD)
qed

text \<open>
  A host is handed over only if it was tested: for a status with reason \<open>Handover\<close> the tests are
  skipped by the spec, or in this very pass the test server named after the host and its node was
  \<open>ACTIVE\<close>, its console output contained its name, and Nova accepted its deletion.
\<close>

theorem handover_tested:
  assumes "Kube (StatusApplyHypervisor n cfg ow) \<in> set (new_calls tr (snd (Onboarding_Reconcile L K r now name tr)))"
    and "applied_phase cfg = Some InHandover"
  shows "\<exists>hv. k_get_Hypervisor K name tr = Inr hv \<and> managed hv \<and> registered hv \<and> phase_in L hv = InTesting
    \<and> tested L r hv (tr @ [Kube (GetHypervisor name)])"
proof (rule Onboarding_Reconcile_call [OF assms(1)])
  fix hv
  assume hv: "k_get_Hypervisor K name tr = Inr hv"
    and c: "onboarding_call L r (tr @ [Kube (GetHypervisor name)]) hv (Kube (StatusApplyHypervisor n cfg ow))"
  from c assms(2) have "onboarding_step L r (tr @ [Kube (GetHypervisor name)]) hv (phase_in L hv) InHandover" by simp
  then show ?thesis by (rule step_to_InHandoverE) (use hv in auto)
qed simp

text \<open>
  The controller enables the compute service of a host (and takes back a forced-down) only in
  the initial phase of a managed host, and only while the aggregates recorded for it are exactly its
  zone and the test aggregate: no workload but the test can be placed on an untested host.
\<close>

theorem service_enabled_isolated:
  assumes "Compute (ServicesUpdate sid opts) \<in> set (new_calls tr (snd (Onboarding_Reconcile L K r now name tr)))"
  shows "\<exists>hv. k_get_Hypervisor K name tr = Inr hv \<and> managed hv \<and> phase_in L hv = InInitial \<and> isolated hv
    \<and> sid = ServiceID (hv_Status hv) \<and> us_Status opts = ''enabled'' \<and> us_ForcedDown opts = Some False"
  by (rule Onboarding_Reconcile_call [OF assms]) (auto simp: enable_opts_def)

text \<open>
  For a managed host that Nova knows the phases only go forward: the phase applied is never
  before the one read in the order of the phases.
\<close>

theorem onboarding_forward:
  assumes "Kube (StatusApplyHypervisor n cfg ow) \<in> set (new_calls tr (snd (Onboarding_Reconcile L K r now name tr)))"
    and "k_get_Hypervisor K name tr = Inr hv" "managed hv" "registered hv" "applied_phase cfg = Some q"
  shows "phase_in L hv \<le> q"
proof (rule Onboarding_Reconcile_call [OF assms(1)])
  fix h
  assume "k_get_Hypervisor K name tr = Inr h"
    and "onboarding_call L r (tr @ [Kube (GetHypervisor name)]) h (Kube (StatusApplyHypervisor n cfg ow))"
  with assms have "onboarding_step L r (tr @ [Kube (GetHypervisor name)]) hv (phase_in L hv) q" by simp
  then show ?thesis
    by (cases rule: onboarding_step.cases) (use assms in \<open>auto simp: less_eq_onboarding_phase_def\<close>)
qed simp

text \<open>
  Where a pass for \<open>hv\<close> cleans up its test servers: the history at which it does, for a pass that has
  read \<open>hv\<close> at history \<open>tr\<close>. It completes the test phase, with the tests skipped or just passed, or
  aborts the onboarding of a host that is not managed.
\<close>

definition abort_message :: "Hypervisor \<Rightarrow> string" where
  "abort_message hv = (if \<not> LifecycleEnabled (Spec hv) then ''Aborted due to LifecycleEnabled being false''
     else ''Aborted due to MaintenanceTermination'')"

inductive reaches_cleanup :: "lib \<Rightarrow> OnboardingController \<Rightarrow> Hypervisor \<Rightarrow> trace \<Rightarrow> trace \<Rightarrow> bool"
  for L :: lib and r :: OnboardingController and hv :: Hypervisor and tr :: trace where
  skipped: "managed hv \<Longrightarrow> registered hv \<Longrightarrow>
    FindStatusCondition L (hv_Conditions hv) ConditionTypeOnboarding = Some c \<Longrightarrow> Reason c = ConditionReasonTesting \<Longrightarrow>
    SkipTests (Spec hv) \<Longrightarrow> reaches_cleanup L r hv tr tr"
| passed: "managed hv \<Longrightarrow> registered hv \<Longrightarrow>
    FindStatusCondition L (hv_Conditions hv) ConditionTypeOnboarding = Some c \<Longrightarrow> Reason c = ConditionReasonTesting \<Longrightarrow>
    \<not> SkipTests (Spec hv) \<Longrightarrow>
    createOrGetTestServer L r (map_get (Labels (Meta hv)) LabelTopologyZone) (hv_Name hv) (UID (Meta hv)) tr = (Inr server, tr1) \<Longrightarrow>
    sv_Status server = ''ACTIVE'' \<Longrightarrow>
    n_servers_ShowConsoleOutput (testComputeClient r) (sv_ID server) 11 tr1 = Inr out \<Longrightarrow> strings_Contains out (sv_Name server) \<Longrightarrow>
    n_servers_Delete (testComputeClient r) (sv_ID server) (tr1 @ [Server (ServersShowConsoleOutput (sv_ID server) 11)]) = None \<Longrightarrow>
    reaches_cleanup L r hv tr
      (tr1 @ [Server (ServersShowConsoleOutput (sv_ID server) 11), Server (ServersDelete (sv_ID server))])"
| aborting: "\<not> managed hv \<Longrightarrow> FindStatusCondition L (hv_Conditions hv) ConditionTypeOnboarding = Some c \<Longrightarrow>
    Reason c \<noteq> ConditionReasonSucceeded \<Longrightarrow>
    (Status c, Reason c, Message c) \<noteq> (ConditionFalse, ConditionReasonAborted, abort_message hv) \<Longrightarrow>
    reaches_cleanup L r hv tr tr"

abbreviation aborted_cfg :: "lib \<Rightarrow> go_time \<Rightarrow> Hypervisor \<Rightarrow> go_error \<Rightarrow> HypervisorStatusApplyConfiguration" where
  "aborted_cfg L now hv err \<equiv>
     set_onboarding now ConditionTrue ConditionReasonAborted (Error_text err) (onboarding_cfg L hv)"

text \<open>Both cleanups that fail end in the same way.\<close>

lemma cleanup_failure:
  assumes "k_get_Hypervisor K name tr = Inr hv" "reaches_cleanup L r hv (tr @ [Kube (GetHypervisor name)]) t"
    and d: "deleteTestServers L r (hv_Name hv) t = (Some err, t1)"
  shows "\<exists>e. Onboarding_Reconcile L K r now name tr = ((no_requeue, Some e),
    t1 @ [Kube (StatusApplyHypervisor (hv_Name hv) (aborted_cfg L now hv err) OnboardingControllerName)])"
  using assms(2)
proof cases
  case (skipped c)
  with assms(1) d show ?thesis
    by (auto simp: Onboarding_Reconcile_def ask_def managed_def registered_def onboarding_phase_pass_def Let_def
        completeOnboarding_def apply_onboarding_def errors_Join_head)
next
  case (passed c server tr1 out)
  with assms(1) d show ?thesis
    by (auto simp: Onboarding_Reconcile_def ask_def managed_def registered_def onboarding_phase_pass_def Let_def
        smokeTest_def test_active_def completeOnboarding_def apply_onboarding_def errors_Join_head)
next
  case (aborting c)
  then have "abortOnboarding L K r now hv (hv_Name hv) (abort_message hv) (onboarding_cfg L hv) t =
      (case apply_onboarding K hv (aborted_cfg L now hv err) t1 of (err2, tr2) \<Rightarrow> (errors_Join [Some err, err2], tr2))"
    using d by (auto simp: abortOnboarding_def)
  with aborting(1,2) assms(1) show ?thesis
    by (auto simp: Onboarding_Reconcile_def ask_def managed_def abort_message_def apply_onboarding_def errors_Join_head split: if_splits)
qed

text \<open>
  C26. A failed cleanup of the test servers is final. If a pass that completes the test phase (tests
  skipped or just passed), or that aborts the onboarding of a host that is not managed, cannot delete
  the test servers, its last call applies \<open>Onboarding = True / Aborted\<close> with the text of the error, and
  it reports an error. And every later pass that reads a managed and registered hypervisor with the
  reason applied there makes only that read, reports no error and asks for no other pass: the cleanup is
  not retried.
\<close>

theorem aborted_onboarding_stuck:
  assumes "k_get_Hypervisor K name tr = Inr hv" "reaches_cleanup L r hv (tr @ [Kube (GetHypervisor name)]) t"
    and "deleteTestServers L r (hv_Name hv) t = (Some err, t1)"
  shows "\<exists>cfg ac. snd (Onboarding_Reconcile L K r now name tr) =
        t1 @ [Kube (StatusApplyHypervisor (hv_Name hv) cfg OnboardingControllerName)]
    \<and> snd (fst (Onboarding_Reconcile L K r now name tr)) \<noteq> None
    \<and> find_apply (cfg_Conditions cfg) (Some ConditionTypeOnboarding) = Some ac
    \<and> ac_Status ac = Some ConditionTrue \<and> ac_Reason ac = Some ConditionReasonAborted \<and> ac_Message ac = Some (Error_text err)
    \<and> (\<forall>K' r' now' name' tr' hv'. k_get_Hypervisor K' name' tr' = Inr hv' \<longrightarrow> managed hv' \<longrightarrow> registered hv' \<longrightarrow>
        map_option Reason (FindStatusCondition L (hv_Conditions hv') ConditionTypeOnboarding) = ac_Reason ac \<longrightarrow>
        Onboarding_Reconcile L K' r' now' name' tr' = (reconcile_ok, tr' @ [Kube (GetHypervisor name')]))"
proof -
  let ?cfg = "aborted_cfg L now hv err"
  have "map_option apply_view (find_apply (cfg_Conditions ?cfg) (Some ConditionTypeOnboarding))
      = Some (Some ConditionTrue, Some ConditionReasonAborted, Some (Error_text err), None)"
    using apply_store.find_put_same [of "ac_condition ConditionTypeOnboarding ConditionTrue ConditionReasonAborted (Error_text err)" now
        "cfg_Conditions (onboarding_cfg L hv)"]
    by (simp add: set_onboarding_def apply_view_def del: map_option_eq_Some)
  then obtain ac where ac: "find_apply (cfg_Conditions ?cfg) (Some ConditionTypeOnboarding) = Some ac"
    "ac_Status ac = Some ConditionTrue" "ac_Reason ac = Some ConditionReasonAborted" "ac_Message ac = Some (Error_text err)"
    by (auto simp: apply_view_def)
  have later: "Onboarding_Reconcile L K' r' now' name' tr' = (reconcile_ok, tr' @ [Kube (GetHypervisor name')])"
    if "k_get_Hypervisor K' name' tr' = Inr hv'" "managed hv'" "registered hv'"
      "map_option Reason (FindStatusCondition L (hv_Conditions hv') ConditionTypeOnboarding) = ac_Reason ac" for K' r' now' name' tr' hv'
    using that ac(3) by (auto simp: Onboarding_Reconcile_def ask_def managed_def registered_def onboarding_phase_pass_def Let_def)
  from cleanup_failure [OF assms, of now] ac later show ?thesis by (intro exI [of _ ?cfg] exI [of _ ac]) auto
qed

section \<open>Concrete passes\<close>

definition onboarding_hv :: "string \<Rightarrow> Hypervisor" where
  "onboarding_hv reason = \<lparr>Meta = (empty_meta ''h1'')\<lparr>Labels := [LabelTopologyZone \<mapsto> ''az1'']\<rparr>,
     Spec = zero_spec\<lparr>LifecycleEnabled := True, SkipTests := True\<rparr>,
     hv_Status = zero_status\<lparr>HypervisorID := ''id'', ServiceID := ''svc'',
       Aggregates := map (\<lambda>n. \<lparr>agg_Name = n, agg_UUID = [], agg_Metadata = Map.empty\<rparr>) [''az1'', testAggregateName],
       Conditions := [mk_condition ConditionTypeOnboarding ConditionTrue reason []]\<rparr>\<rparr>"

abbreviation onboarding_kube :: "string \<Rightarrow> kube" where
  "onboarding_kube reason \<equiv> sample_kube (onboarding_hv reason) (empty_eviction ''e'') (empty_node ''h1'')"

abbreviation onboarding_pass :: "string \<Rightarrow> trace" where
  "onboarding_pass reason \<equiv> snd (Onboarding_Reconcile list_lib (onboarding_kube reason) sample_onboarding 1 ''h1'' [])"

lemmas onboarding_pass_defs = onboarding_hv_def Onboarding_Reconcile_def ask_def sample_kube_def sample_onboarding_def sample_nova_def
  zero_values Let_def list_lib_def list_find_def new_calls_def onboarding_phase_pass_def initialOnboarding_def
  completeOnboarding_def deleteTestServers_def apply_onboarding_def slicesEqualUnordered_def map_get_def mk_condition_def
  errors_Join_def List.map_filter_simps

lemma handover_sample:
  "\<exists>cfg. Kube (StatusApplyHypervisor ''h1'' cfg OnboardingControllerName) \<in> set (new_calls [] (onboarding_pass ConditionReasonTesting))
     \<and> applied_phase cfg = Some InHandover"
proof -
  have "Kube (StatusApplyHypervisor ''h1'' (set_onboarding 1 ConditionTrue ConditionReasonHandover
      ''Waiting for other controllers to take over'' (onboarding_cfg list_lib (onboarding_hv ConditionReasonTesting))) OnboardingControllerName)
    \<in> set (new_calls [] (onboarding_pass ConditionReasonTesting))"
    by (simp add: onboarding_pass_defs)
  then show ?thesis by (metis applied_phase_set onboarding_phase_of_simps(3))
qed

lemma service_update_sample:
  "Compute (ServicesUpdate ''svc'' enable_opts) \<in> set (new_calls [] (onboarding_pass ConditionReasonInitial))"
  by (simp add: onboarding_pass_defs)

theorem onboarding_refines_witness:
  "\<exists>cfg q. Kube (StatusApplyHypervisor ''h1'' cfg OnboardingControllerName) \<in> set (new_calls [] (onboarding_pass ConditionReasonTesting))
     \<and> applied_phase cfg = Some q"
proof -
  obtain cfg where c: "Kube (StatusApplyHypervisor ''h1'' cfg OnboardingControllerName) \<in> set (new_calls [] (onboarding_pass ConditionReasonTesting))"
    using handover_sample by blast
  from onboarding_refines [OF c] c show ?thesis by blast
qed

text \<open>A log of two passes, over the host in \<open>Testing\<close> and then in \<open>Handover\<close> with everything in place.\<close>

definition taken_over_hv :: Hypervisor where
  "taken_over_hv = (onboarding_hv ConditionReasonHandover)\<lparr>hv_Status := (hv_Status (onboarding_hv ConditionReasonHandover))
     \<lparr>Conditions := [mk_condition ConditionTypeOnboarding ConditionTrue ConditionReasonHandover [],
        mk_condition ConditionTypeAggregatesUpdated ConditionTrue ConditionReasonSucceeded [],
        mk_condition ConditionTypeTraitsUpdated ConditionTrue ConditionReasonSucceeded []]\<rparr>\<rparr>"

abbreviation taken_over_kube :: kube where
  "taken_over_kube \<equiv> sample_kube taken_over_hv (empty_eviction ''e'') (empty_node ''h1'')"

abbreviation first_pass :: logged_pass where
  "first_pass \<equiv> \<lparr>lp_controller = sample_onboarding, lp_name = ''h1'', lp_history = [],
     lp_host = onboarding_hv ConditionReasonTesting, lp_applied = InHandover\<rparr>"

abbreviation second_pass :: logged_pass where
  "second_pass \<equiv> \<lparr>lp_controller = sample_onboarding, lp_name = ''h1'', lp_history = [],
     lp_host = taken_over_hv, lp_applied = Onboarded\<rparr>"

lemma first_pass_applies: "pass_applies list_lib first_pass"
proof -
  have "k_get_Hypervisor (onboarding_kube ConditionReasonTesting) ''h1'' [] = Inr (onboarding_hv ConditionReasonTesting)"
    by (simp add: sample_kube_def)
  with handover_sample show ?thesis by (fastforce simp: pass_applies_def)
qed

lemma second_pass_applies: "pass_applies list_lib second_pass"
proof -
  have "k_get_Hypervisor taken_over_kube ''h1'' [] = Inr taken_over_hv" by (simp add: sample_kube_def)
  moreover have "Kube (StatusApplyHypervisor ''h1'' (set_onboarding 1 ConditionFalse ConditionReasonSucceeded
      ''Onboarding completed'' (onboarding_cfg list_lib taken_over_hv)) OnboardingControllerName)
    \<in> set (new_calls [] (snd (Onboarding_Reconcile list_lib taken_over_kube sample_onboarding 1 ''h1'' [])))"
    by (simp add: onboarding_pass_defs taken_over_hv_def)
  moreover have "applied_phase (set_onboarding 1 ConditionFalse ConditionReasonSucceeded
      ''Onboarding completed'' (onboarding_cfg list_lib taken_over_hv)) = Some Onboarded" by simp
  ultimately show ?thesis unfolding pass_applies_def by (simp only: logged_pass.simps) blast
qed

theorem onboarded_only_tested_witness:
  "\<exists>x \<in> set [first_pass, second_pass]. tested list_lib (lp_controller x) (lp_host x) (lp_start x) \<and> lp_applied x = InHandover"
proof -
  have "phase_in list_lib (onboarding_hv ConditionReasonTesting) = InTesting" "phase_in list_lib taken_over_hv = InHandover"
    by (simp_all add: phase_in_def list_lib_def list_find_def onboarding_hv_def taken_over_hv_def)
  then have "logs list_lib InTesting [] [first_pass]" "logs list_lib InTesting [first_pass] [first_pass, second_pass]"
    using first_pass_applies second_pass_applies by (simp_all add: logs_def log_phase_def)
  then have run: "(logs list_lib InTesting)\<^sup>*\<^sup>* [] [first_pass, second_pass]" by (meson converse_rtranclp_into_rtranclp r_into_rtranclp)
  have "log_phase InTesting [first_pass, second_pass] = Onboarded" by (simp add: log_phase_def)
  from onboarded_only_tested [OF run this] obtain xs x ys y zs where "[first_pass, second_pass] = xs @ x # ys @ y # zs"
    "lp_applied x = InHandover" "tested list_lib (lp_controller x) (lp_host x) (lp_start x)" by auto
  moreover from this(1) have "x \<in> set [first_pass, second_pass]" by (metis in_set_conv_decomp)
  ultimately show ?thesis by blast
qed

theorem handover_tested_witness:
  "\<exists>cfg. Kube (StatusApplyHypervisor ''h1'' cfg OnboardingControllerName) \<in> set (new_calls [] (onboarding_pass ConditionReasonTesting))
     \<and> tested list_lib sample_onboarding (onboarding_hv ConditionReasonTesting) [Kube (GetHypervisor ''h1'')]"
proof -
  obtain cfg where c: "Kube (StatusApplyHypervisor ''h1'' cfg OnboardingControllerName) \<in> set (new_calls [] (onboarding_pass ConditionReasonTesting))"
    "applied_phase cfg = Some InHandover" using handover_sample by blast
  from handover_tested [OF c] c(1) show ?thesis by (auto simp: sample_kube_def)
qed

theorem service_enabled_isolated_witness: "isolated (onboarding_hv ConditionReasonInitial)"
  using service_enabled_isolated [OF service_update_sample] by (simp add: sample_kube_def)

theorem onboarding_forward_witness: "phase_in list_lib (onboarding_hv ConditionReasonTesting) \<le> InHandover"
proof -
  obtain cfg where c: "Kube (StatusApplyHypervisor ''h1'' cfg OnboardingControllerName) \<in> set (new_calls [] (onboarding_pass ConditionReasonTesting))"
    "applied_phase cfg = Some InHandover" using handover_sample by blast
  show ?thesis
    by (rule onboarding_forward [OF c(1) _ _ _ c(2)])
      (simp_all add: sample_kube_def managed_def registered_def onboarding_hv_def zero_values)
qed

definition undeletable :: OnboardingController where
  "undeletable = sample_onboarding\<lparr>testComputeClient := sample_nova\<lparr>n_servers_ListSimple := \<lambda>_ _. (None, Inl (ErrorNew ''bad page''))\<rparr>\<rparr>"

theorem aborted_onboarding_stuck_witness:
  "\<exists>cfg. snd (Onboarding_Reconcile list_lib (onboarding_kube ConditionReasonTesting) undeletable 1 ''h1'' [])
        = [Kube (GetHypervisor ''h1''), Server (ServersListSimple (serverPrefix ''h1'')),
           Kube (StatusApplyHypervisor ''h1'' cfg OnboardingControllerName)]
     \<and> onboarding_pass ConditionReasonAborted = [Kube (GetHypervisor ''h1'')]"
proof -
  let ?hv = "onboarding_hv ConditionReasonTesting"
  have get: "k_get_Hypervisor (onboarding_kube r) ''h1'' [] = Inr (onboarding_hv r)" for r by (simp add: sample_kube_def)
  have m: "managed (onboarding_hv r)" "registered (onboarding_hv r)" "SkipTests (Spec (onboarding_hv r))" "hv_Name (onboarding_hv r) = ''h1''"
    "map_option Reason (FindStatusCondition list_lib (hv_Conditions (onboarding_hv r)) ConditionTypeOnboarding) = Some r" for r
    by (simp_all add: managed_def registered_def onboarding_hv_def zero_values list_lib_def list_find_def mk_condition_def)
  from m(5) [of ConditionReasonTesting] have reach: "reaches_cleanup list_lib undeletable ?hv ([] @ [Kube (GetHypervisor ''h1'')]) [Kube (GetHypervisor ''h1'')]"
    by (auto intro!: skipped m)
  have d: "deleteTestServers list_lib undeletable (hv_Name ?hv) [Kube (GetHypervisor ''h1'')] =
      (Some (ErrorNew ''bad page''), [Kube (GetHypervisor ''h1''), Server (ServersListSimple (serverPrefix ''h1''))])"
    unfolding m(4) by (simp add: deleteTestServers_def ask_def undeletable_def)
  from aborted_onboarding_stuck [OF get reach d, of 1] get [of ConditionReasonAborted] m [of ConditionReasonAborted] m(4)
  show ?thesis by fastforce
qed

end
