(* ===== verification/Lifecycle_Ctrl.thy ===== *)
theory Lifecycle_Ctrl
  imports Sample_World Utils
begin

text \<open>
  The node lifecycle controller: \<^verbatim>\<open>src/internal/controller/gardener_node_lifecycle_controller.go\<close>. Gardener
  asks for a node with the condition \<open>Terminating\<close>; this controller holds the machine back with a pod
  disruption budget and a deployment it cannot evict from, until the host is offboarded, and taints
  the node once its servers are gone. The group, version and kind of a node in the scheme, which
  \<open>apiutil.GVKForObject\<close> looks up, are an argument.
\<close>

abbreviation labelCriticalComponent :: string where "labelCriticalComponent \<equiv> ''node.gardener.cloud/critical-component''"
abbreviation MaintenanceControllerName :: string where "MaintenanceControllerName \<equiv> ''maintenance''"

type_synonym gvk = "go_error + string \<times> string \<times> string"

section \<open>Names and labels\<close>

definition nameForNode :: "node \<Rightarrow> string" where
  "nameForNode nd = ''maint-'' @ Name (node_Meta nd)"

definition labelsForNode :: "node \<Rightarrow> label_map" where
  "labelsForNode nd = [MaintenanceLabelKey \<mapsto> nameForNode nd]"

fun isTerminating :: "node_condition list \<Rightarrow> bool" where
  "isTerminating [] = False"
| "isTerminating (c # cs) = (if nc_Type c = ''Terminating'' then True else isTerminating cs)"

section \<open>The objects it ensures\<close>

fun has_offboarding_taint :: "taint list \<Rightarrow> bool" where
  "has_offboarding_taint [] = False"
| "has_offboarding_taint (t # ts) =
     (if ta_Key t = taintKeyOffboarding \<and> ta_Effect t = TaintEffectNoExecute then True else has_offboarding_taint ts)"

definition ensureOffboardingTaint :: "kube \<Rightarrow> node \<Rightarrow> trace \<Rightarrow> (bool \<times> go_error option) \<times> trace" where
  "ensureOffboardingTaint K nd tr =
     (if has_offboarding_taint (node_Taints nd) then ((False, None), tr)
      else
        let nd' = nd\<lparr>node_Taints := node_Taints nd @ [\<lparr>ta_Key = taintKeyOffboarding, ta_Effect = TaintEffectNoExecute\<rparr>]\<rparr> in
        (case ask (k_patch_Node K nd nd') (Kube (PatchNode nd nd' MaintenanceControllerName)) tr of
           (err, tr1) \<Rightarrow> ((True, err), tr1)))"

definition blocking_pdb :: "node \<Rightarrow> int \<Rightarrow> OwnerRef \<Rightarrow> pod_disruption_budget" where
  "blocking_pdb nd minAvailable owner =
     \<lparr>pdb_Name = nameForNode nd, pdb_Namespace = MaintenanceNamespace, pdb_Labels = labelsForNode nd,
      pdb_OwnerReferences = [owner], pdb_MinAvailable = minAvailable, pdb_MatchLabels = labelsForNode nd\<rparr>"

definition ensureBlockingPodDisruptionBudget ::
    "kube \<Rightarrow> gvk \<Rightarrow> node \<Rightarrow> int \<Rightarrow> trace \<Rightarrow> go_error option \<times> trace" where
  "ensureBlockingPodDisruptionBudget K gvk nd minAvailable tr =
     (case gvk of
        Inl err \<Rightarrow> (Some err, tr)
      | Inr (grp, version, kind) \<Rightarrow>
          let pdb = blocking_pdb nd minAvailable (OwnerReference (node_Meta nd) grp version kind) in
          ask (k_apply_PodDisruptionBudget K pdb) (Kube (ApplyPodDisruptionBudget pdb MaintenanceControllerName)) tr)"

definition tolerate_all :: "string \<Rightarrow> toleration" where
  "tolerate_all effect =
     \<lparr>to_Key = [], to_Operator = ''Exists'', to_Value = [], to_Effect = effect, to_TolerationSeconds = None\<rparr>"

definition signalling_deployment :: "node \<Rightarrow> int \<Rightarrow> bool \<Rightarrow> OwnerRef \<Rightarrow> deployment" where
  "signalling_deployment nd scale ready owner =
     \<lparr>dep_Name = nameForNode nd, dep_Namespace = MaintenanceNamespace, dep_OwnerReferences = [owner],
      dep_Labels = labelsForNode nd, dep_Replicas = scale, dep_MatchLabels = labelsForNode nd,
      dep_MaxUnavailable = 0, dep_MaxSurge = 1,
      dep_PodLabels = (labelsForNode nd)(labelCriticalComponent \<mapsto> ''true''),
      dep_HostNetwork = True, dep_NodeSelector = [LabelHostname \<mapsto> map_get (Labels (node_Meta nd)) LabelHostname],
      dep_TerminationGracePeriodSeconds = 1,
      dep_Tolerations = [tolerate_all TaintEffectNoExecute, tolerate_all TaintEffectNoSchedule],
      dep_ContainerName = ''sleep'',
      dep_Image = ''keppel.global.cloud.sap/ccloud-dockerhub-mirror/library/busybox:latest'',
      dep_Command = [''sh'', ''-c'', ''trap '' @ [CHR 0x27] @ ''exit 0'' @ [CHR 0x27] @ '' TERM; sleep infinity & wait''],
      dep_StartupProbe = [if ready then ''/bin/true'' else ''/bin/false''],
      dep_ProbeInitialDelaySeconds = 0, dep_ProbePeriodSeconds = 1, dep_ProbeFailureThreshold = 1,
      dep_ProbeSuccessThreshold = 1\<rparr>"

definition ensureSignallingDeployment ::
    "kube \<Rightarrow> gvk \<Rightarrow> node \<Rightarrow> int \<Rightarrow> bool \<Rightarrow> trace \<Rightarrow> go_error option \<times> trace" where
  "ensureSignallingDeployment K gvk nd scale ready tr =
     (case gvk of
        Inl err \<Rightarrow> (Some err, tr)
      | Inr (grp, version, kind) \<Rightarrow>
          let dep = signalling_deployment nd scale ready (OwnerReference (node_Meta nd) grp version kind) in
          ask (k_apply_Deployment K dep) (Kube (ApplyDeployment dep MaintenanceControllerName)) tr)"

section \<open>Reconcile\<close>

definition ensure_blocking ::
    "lib \<Rightarrow> kube \<Rightarrow> gvk \<Rightarrow> node \<Rightarrow> Hypervisor \<Rightarrow> trace \<Rightarrow> reconcile_result \<times> trace" where
  "ensure_blocking L K gvk nd hv tr =
     (let onboardingCompleted = IsStatusConditionFalse L (hv_Conditions hv) ConditionTypeOnboarding;
          offboarded = IsStatusConditionTrue L (hv_Conditions hv) ConditionTypeOffboarded;
          minAvailable = (if offboarded then 0 else 1) in
      if offboarded \<and> onboardingCompleted \<and> isTerminating (node_Conditions nd)
         \<and> \<not> IsStatusConditionFalse L (hv_Conditions hv) ConditionTypeHaEnabled
      then (reconcile_ok, tr)
      else
        (case ensureBlockingPodDisruptionBudget K gvk nd minAvailable tr of
           (Some err, tr1) \<Rightarrow> ((no_requeue, Some err), tr1)
         | (None, tr1) \<Rightarrow>
             (case ensureSignallingDeployment K gvk nd minAvailable onboardingCompleted tr1 of
                (Some err, tr2) \<Rightarrow> ((no_requeue, Some err), tr2)
              | (None, tr2) \<Rightarrow> (reconcile_ok, tr2))))"

definition Lifecycle_Reconcile ::
    "lib \<Rightarrow> kube \<Rightarrow> gvk \<Rightarrow> string \<Rightarrow> trace \<Rightarrow> reconcile_result \<times> trace" where
  "Lifecycle_Reconcile L K gvk name tr =
     (case ask (k_get_Node K name) (Kube (GetNode name)) tr of
        (Inl err, tr1) \<Rightarrow> ((no_requeue, IgnoreNotFound L err), tr1)
      | (Inr nd, tr1) \<Rightarrow>
          (case ask (k_get_Hypervisor K name) (Kube (GetHypervisor name)) tr1 of
             (Inl err, tr2) \<Rightarrow>
               if IgnoreNotFound L err \<noteq> None then ((no_requeue, Some err), tr2) else (reconcile_ok, tr2)
           | (Inr hv, tr2) \<Rightarrow>
               if \<not> LifecycleEnabled (Spec hv) then (reconcile_ok, tr2)
               else if hv_Maintenance hv = MaintenanceTermination
                       \<and> IsStatusConditionFalse L (hv_Conditions hv) ConditionTypeEvicting
               then (case ensureOffboardingTaint K nd tr2 of
                       ((patched, Some err), tr3) \<Rightarrow>
                         ((no_requeue, Some (Errorf ''failed to ensure offboarding taint: '' err)), tr3)
                     | ((patched, None), tr3) \<Rightarrow>
                         if patched then (reconcile_ok, tr3) else ensure_blocking L K gvk nd hv tr3)
               else ensure_blocking L K gvk nd hv tr2))"

section \<open>The watch on hypervisors\<close>

text \<open>An event object that is nil or of another type is \<open>None\<close>.\<close>

definition evictingConditionChangedPredicate_Update :: "lib \<Rightarrow> Hypervisor option \<Rightarrow> Hypervisor option \<Rightarrow> bool" where
  "evictingConditionChangedPredicate_Update L ObjectOld ObjectNew =
     (case (ObjectOld, ObjectNew) of
        (Some oldHv, Some newHv) \<Rightarrow>
          (case (FindStatusCondition L (hv_Conditions oldHv) ConditionTypeEvicting,
                 FindStatusCondition L (hv_Conditions newHv) ConditionTypeEvicting) of
             (None, None) \<Rightarrow> False
           | (Some oldCond, Some newCond) \<Rightarrow> Status oldCond \<noteq> Status newCond
           | _ \<Rightarrow> True)
      | _ \<Rightarrow> False)"

section \<open>Lemmas\<close>

lemma has_offboarding_taint_iff:
  "has_offboarding_taint ts \<longleftrightarrow> (\<exists>t \<in> set ts. ta_Key t = taintKeyOffboarding \<and> ta_Effect t = TaintEffectNoExecute)"
  by (induction ts) auto

lemma isTerminating_iff: "isTerminating cs \<longleftrightarrow> (\<exists>c \<in> set cs. nc_Type c = ''Terminating'')"
  by (induction cs) auto

lemma predicate_iff:
  "evictingConditionChangedPredicate_Update L (Some old) (Some new) \<longleftrightarrow>
     map_option Status (FindStatusCondition L (hv_Conditions old) ConditionTypeEvicting)
     \<noteq> map_option Status (FindStatusCondition L (hv_Conditions new) ConditionTypeEvicting)"
  by (auto simp: evictingConditionChangedPredicate_Update_def split: option.split)

text \<open>The host may be released: it is offboarded, and high availability is off where it matters.\<close>

definition released :: "lib \<Rightarrow> node \<Rightarrow> Hypervisor \<Rightarrow> bool" where
  "released L nd hv \<longleftrightarrow> IsStatusConditionTrue L (hv_Conditions hv) ConditionTypeOffboarded
     \<and> (IsStatusConditionFalse L (hv_Conditions hv) ConditionTypeOnboarding \<and> isTerminating (node_Conditions nd)
        \<longrightarrow> IsStatusConditionFalse L (hv_Conditions hv) ConditionTypeHaEnabled)"

text \<open>What each call of a pass after its two reads satisfies.\<close>

fun lifecycle_call :: "lib \<Rightarrow> node \<Rightarrow> Hypervisor \<Rightarrow> call \<Rightarrow> bool" where
  "lifecycle_call L nd hv (Kube (ApplyPodDisruptionBudget pdb ow)) \<longleftrightarrow> LifecycleEnabled (Spec hv)
     \<and> pdb_Name pdb = nameForNode nd \<and> pdb_MinAvailable pdb \<in> {0, 1} \<and> (pdb_MinAvailable pdb = 0 \<longrightarrow> released L nd hv)"
| "lifecycle_call L nd hv (Kube (ApplyDeployment dep ow)) \<longleftrightarrow> LifecycleEnabled (Spec hv)
     \<and> dep_Name dep = nameForNode nd \<and> dep_Replicas dep \<in> {0, 1} \<and> (dep_Replicas dep = 0 \<longrightarrow> released L nd hv)
     \<and> (dep_StartupProbe dep = [''/bin/true''] \<longleftrightarrow> IsStatusConditionFalse L (hv_Conditions hv) ConditionTypeOnboarding)"
| "lifecycle_call L nd hv (Kube (PatchNode old new ow)) \<longleftrightarrow> LifecycleEnabled (Spec hv) \<and> old = nd
     \<and> hv_Maintenance hv = MaintenanceTermination \<and> IsStatusConditionFalse L (hv_Conditions hv) ConditionTypeEvicting
     \<and> \<not> has_offboarding_taint (node_Taints nd)
     \<and> new = nd\<lparr>node_Taints := node_Taints nd @ [\<lparr>ta_Key = taintKeyOffboarding, ta_Effect = TaintEffectNoExecute\<rparr>]\<rparr>"
| "lifecycle_call L nd hv _ \<longleftrightarrow> False"

lemma ensured_objects_sel [simp]:
  "pdb_Name (blocking_pdb nd n ow) = nameForNode nd" "pdb_MinAvailable (blocking_pdb nd n ow) = n"
  "dep_Name (signalling_deployment nd n ready ow) = nameForNode nd" "dep_Replicas (signalling_deployment nd n ready ow) = n"
  "dep_StartupProbe (signalling_deployment nd n ready ow) = [''/bin/true''] \<longleftrightarrow> ready"
  by (simp_all add: blocking_pdb_def signalling_deployment_def)

lemma ensure_blocking_calls:
  assumes "LifecycleEnabled (Spec hv)"
  shows "extends_by (lifecycle_call L nd hv) tr (snd (ensure_blocking L K gvk nd hv tr))"
proof (cases gvk)
  case (Inl e)
  then show ?thesis by (simp add: ensure_blocking_def Let_def ensureBlockingPodDisruptionBudget_def)
next
  case (Inr g)
  obtain grp version kind where g: "g = (grp, version, kind)" by (metis surj_pair)
  let ?ow = "OwnerReference (node_Meta nd) grp version kind"
  let ?n = "if IsStatusConditionTrue L (hv_Conditions hv) ConditionTypeOffboarded then 0 else 1 :: int"
  let ?on = "IsStatusConditionFalse L (hv_Conditions hv) ConditionTypeOnboarding"
  let ?p = "Kube (ApplyPodDisruptionBudget (blocking_pdb nd ?n ?ow) MaintenanceControllerName)"
  let ?d = "Kube (ApplyDeployment (signalling_deployment nd ?n ?on ?ow) MaintenanceControllerName)"
  have "snd (ensure_blocking L K gvk nd hv tr) \<in> {tr @ [?p], tr @ [?p] @ [?d]}" if "?n = 0 \<longrightarrow> released L nd hv"
    using that Inr g by (simp add: ensure_blocking_def Let_def ensureBlockingPodDisruptionBudget_def ensureSignallingDeployment_def
        ask_def released_def split: option.split)
  moreover have "lifecycle_call L nd hv ?p" "lifecycle_call L nd hv ?d" if "?n = 0 \<longrightarrow> released L nd hv"
    using that assms by simp_all
  moreover have "snd (ensure_blocking L K gvk nd hv tr) = tr" if "\<not> (?n = 0 \<longrightarrow> released L nd hv)"
    using that by (auto simp: ensure_blocking_def Let_def released_def split: if_splits)
  ultimately show ?thesis
    by (cases "?n = 0 \<longrightarrow> released L nd hv") (auto intro!: extends_by_append)
qed

lemma ensureOffboardingTaint_calls:
  assumes "LifecycleEnabled (Spec hv)" "hv_Maintenance hv = MaintenanceTermination"
    "IsStatusConditionFalse L (hv_Conditions hv) ConditionTypeEvicting"
  shows "extends_by (lifecycle_call L nd hv) tr (snd (ensureOffboardingTaint K nd tr))"
  using assms by (auto simp: ensureOffboardingTaint_def Let_def ask_def intro!: extends_by_snoc)

lemma Lifecycle_Reconcile_calls:
  assumes "c \<in> set (new_calls tr (snd (Lifecycle_Reconcile L K gvk name tr)))"
    "c \<noteq> Kube (GetNode name)" "c \<noteq> Kube (GetHypervisor name)"
  obtains nd hv where "k_get_Node K name tr = Inr nd" "k_get_Hypervisor K name (tr @ [Kube (GetNode name)]) = Inr hv"
    "lifecycle_call L nd hv c"
proof -
  let ?tr1 = "tr @ [Kube (GetNode name)]" and ?tr2 = "tr @ [Kube (GetNode name), Kube (GetHypervisor name)]"
  obtain nd where nd: "k_get_Node K name tr = Inr nd"
    using assms by (cases "k_get_Node K name tr") (auto simp: Lifecycle_Reconcile_def ask_def)
  obtain hv where hv: "k_get_Hypervisor K name ?tr1 = Inr hv"
    using assms nd by (cases "k_get_Hypervisor K name ?tr1") (auto simp: Lifecycle_Reconcile_def ask_def split: if_splits)
  have "extends_by (lifecycle_call L nd hv) ?tr2 (snd (Lifecycle_Reconcile L K gvk name tr))"
  proof (cases "LifecycleEnabled (Spec hv)")
    case False
    with nd hv show ?thesis by (simp add: Lifecycle_Reconcile_def ask_def)
  next
    case True
    show ?thesis
    proof (cases "hv_Maintenance hv = MaintenanceTermination \<and> IsStatusConditionFalse L (hv_Conditions hv) ConditionTypeEvicting")
      case False
      with nd hv True ensure_blocking_calls [OF True, of L nd ?tr2 K gvk] show ?thesis
        by (auto simp: Lifecycle_Reconcile_def ask_def)
    next
      case g: True
      obtain p e t where t: "ensureOffboardingTaint K nd ?tr2 = ((p, e), t)" by (metis surj_pair)
      have "extends_by (lifecycle_call L nd hv) ?tr2 t"
        using ensureOffboardingTaint_calls [OF True, of L nd ?tr2 K] g t by simp
      with extends_by_trans [OF this ensure_blocking_calls [OF True, of L nd t K gvk]] g nd hv True t show ?thesis
        by (auto simp: Lifecycle_Reconcile_def ask_def split: option.split)
    qed
  qed
  then have "lifecycle_call L nd hv c"
    using assms by (auto simp: extends_by_def list_all_iff)
  with nd hv that show ?thesis by blast
qed

lemma ensure_blocking_extends: "\<exists>cs. snd (ensure_blocking L K gvk nd hv t) = t @ cs"
  by (simp add: ensure_blocking_def Let_def ensureBlockingPodDisruptionBudget_def ensureSignallingDeployment_def ask_def
      split: sum.split option.split)

lemma Lifecycle_Reconcile_extends: "\<exists>cs. snd (Lifecycle_Reconcile L K gvk name tr) = tr @ cs"
proof -
  let ?t2 = "tr @ [Kube (GetNode name), Kube (GetHypervisor name)]"
  have taint: "\<exists>cs. snd (ensureOffboardingTaint K nd ?t2) = ?t2 @ cs" for nd
    by (simp add: ensureOffboardingTaint_def Let_def ask_def)
  have blocking: "\<exists>ds. snd (ensure_blocking L K gvk nd hv (tr @ cs)) = tr @ ds" for nd hv cs
    using ensure_blocking_extends [of L K gvk nd hv "tr @ cs"] by auto
  show ?thesis
  proof (cases "k_get_Node K name tr")
    case (Inl e)
    then show ?thesis by (simp add: Lifecycle_Reconcile_def ask_def)
  next
    case nd: (Inr nd)
    show ?thesis
    proof (cases "k_get_Hypervisor K name (tr @ [Kube (GetNode name)])")
      case (Inl e)
      with nd show ?thesis by (simp add: Lifecycle_Reconcile_def ask_def)
    next
      case (Inr hv)
      obtain p e t where t: "ensureOffboardingTaint K nd ?t2 = ((p, e), t)" by (metis surj_pair)
      with taint [of nd] obtain cs where "t = tr @ cs" by auto
      with nd Inr t blocking [of nd hv cs] blocking [of nd hv "[Kube (GetNode name), Kube (GetHypervisor name)]"] show ?thesis
        by (simp add: Lifecycle_Reconcile_def ask_def split: option.split)
    qed
  qed
qed

section \<open>Properties\<close>

text \<open>
  C29. The hold on a machine is given up only for a host that may go: a budget that requires no
  available pod is applied only for a managed host that is reported as offboarded and, if it was
  onboarded and its node is terminating, has high availability switched off. Until then the budget
  requires one pod.
\<close>

theorem machine_held_until_offboarded:
  assumes "Kube (ApplyPodDisruptionBudget pdb ow) \<in> set (new_calls tr (snd (Lifecycle_Reconcile L K gvk name tr)))"
  shows "\<exists>nd hv. k_get_Node K name tr = Inr nd \<and> k_get_Hypervisor K name (tr @ [Kube (GetNode name)]) = Inr hv
    \<and> LifecycleEnabled (Spec hv) \<and> (pdb_MinAvailable pdb = 1 \<or> pdb_MinAvailable pdb = 0 \<and> released L nd hv)"
  by (rule Lifecycle_Reconcile_calls [OF assms]) auto

text \<open>
  The controller taints a node only when the host is to be terminated and \<open>Evicting\<close> is
  \<open>False\<close>, so that no server runs on it any more, and the patch adds the one taint to those the node
  has; a node that has the taint is not patched.
\<close>

theorem taint_after_eviction:
  assumes "Kube (PatchNode old new ow) \<in> set (new_calls tr (snd (Lifecycle_Reconcile L K gvk name tr)))"
  shows "\<exists>hv. k_get_Node K name tr = Inr old \<and> k_get_Hypervisor K name (tr @ [Kube (GetNode name)]) = Inr hv
    \<and> LifecycleEnabled (Spec hv) \<and> hv_Maintenance hv = MaintenanceTermination
    \<and> IsStatusConditionFalse L (hv_Conditions hv) ConditionTypeEvicting \<and> \<not> has_offboarding_taint (node_Taints old)
    \<and> new = old\<lparr>node_Taints := node_Taints old @ [\<lparr>ta_Key = taintKeyOffboarding, ta_Effect = TaintEffectNoExecute\<rparr>]\<rparr>"
  by (rule Lifecycle_Reconcile_calls [OF assms]) auto

text \<open>
  A pass that waits for high availability to be switched off is not woken by that change: the watch
  on hypervisors looks at the generation and at the condition \<open>Evicting\<close> only.
\<close>

lemma ha_change_filtered:
  assumes "meta_laws L" "Type c = ConditionTypeHaEnabled"
  shows "\<not> evictingConditionChangedPredicate_Update L (Some hv) (Some (hv_set_condition L c hv))"
  using assms by (simp add: predicate_iff meta_find_set_other)

definition gone_hv :: Hypervisor where
  "gone_hv = \<lparr>Meta = empty_meta ''h1'', Spec = zero_spec\<lparr>LifecycleEnabled := True\<rparr>,
     hv_Status = zero_status\<lparr>Conditions := [mk_condition ConditionTypeOffboarded ConditionTrue [] []]\<rparr>\<rparr>"

definition evicted_hv :: Hypervisor where
  "evicted_hv = \<lparr>Meta = empty_meta ''h1'', Spec = zero_spec\<lparr>LifecycleEnabled := True, Maintenance := MaintenanceTermination\<rparr>,
     hv_Status = zero_status\<lparr>Conditions := [mk_condition ConditionTypeEvicting ConditionFalse [] []]\<rparr>\<rparr>"

abbreviation lifecycle_pass :: "Hypervisor \<Rightarrow> trace" where
  "lifecycle_pass hv \<equiv> snd (Lifecycle_Reconcile list_lib (sample_kube hv (empty_eviction ''e'') (empty_node ''h1''))
     (Inr ([], ''v1'', ''Node'')) ''h1'' [])"

theorem machine_held_until_offboarded_witness:
  "\<exists>pdb. Kube (ApplyPodDisruptionBudget pdb MaintenanceControllerName) \<in> set (new_calls [] (lifecycle_pass gone_hv))
     \<and> (pdb_MinAvailable pdb = 1 \<or> released list_lib (empty_node ''h1'') gone_hv)"
proof -
  obtain pdb where p: "Kube (ApplyPodDisruptionBudget pdb MaintenanceControllerName) \<in> set (new_calls [] (lifecycle_pass gone_hv))"
    by (simp add: Lifecycle_Reconcile_def ask_def sample_kube_def gone_hv_def zero_values ensure_blocking_def Let_def list_lib_def
        list_find_def mk_condition_def ensureBlockingPodDisruptionBudget_def ensureSignallingDeployment_def new_calls_def empty_node_def)
  from machine_held_until_offboarded [OF p] p show ?thesis by (auto simp: sample_kube_def)
qed

theorem taint_after_eviction_witness:
  "\<exists>new. Kube (PatchNode (empty_node ''h1'') new MaintenanceControllerName) \<in> set (new_calls [] (lifecycle_pass evicted_hv))
     \<and> length (node_Taints new) = 1"
proof -
  obtain new where p: "Kube (PatchNode (empty_node ''h1'') new MaintenanceControllerName) \<in> set (new_calls [] (lifecycle_pass evicted_hv))"
    by (simp add: Lifecycle_Reconcile_def ask_def sample_kube_def evicted_hv_def zero_values ensureOffboardingTaint_def Let_def list_lib_def
        list_find_def mk_condition_def new_calls_def empty_node_def)
  from taint_after_eviction [OF p] p show ?thesis by (auto simp: empty_node_def)
qed

end
