(* ===== verification/Traits_Ctrl.thy ===== *)
theory Traits_Ctrl
  imports Sample_World Utils
begin

text \<open>
  The traits controller: \<^verbatim>\<open>src/internal/controller/traits_controller.go\<close>. It brings the custom
  traits of the host's resource provider in Placement in line with \<open>spec.customTraits\<close>, once
  onboarding has reached its handover phase, and records what it applied.
\<close>

abbreviation customPrefix :: string where "customPrefix \<equiv> ''CUSTOM_''"
abbreviation TraitsControllerName :: string where "TraitsControllerName \<equiv> ''traits''"

section \<open>customTraitsOf, getTraitCondition and applyTraitsStatus\<close>

fun customTraitsOf :: "string list \<Rightarrow> string list" where
  "customTraitsOf [] = []"
| "customTraitsOf (trait # traits) =
     (if strings_HasPrefix trait customPrefix then trait # customTraitsOf traits else customTraitsOf traits)"

definition getTraitCondition :: "go_error option \<Rightarrow> string \<Rightarrow> condition" where
  "getTraitCondition err msg =
     (case err of
        None \<Rightarrow> mk_condition ConditionTypeTraitsUpdated ConditionTrue ConditionReasonSucceeded msg
      | Some e \<Rightarrow> mk_condition ConditionTypeTraitsUpdated ConditionFalse ConditionReasonFailed
                    (if msg \<noteq> [] then msg @ '': '' @ Error_text e else Error_text e))"

text \<open>\<open>WithTraits\<close> appends to the empty list of a new configuration, so a nil and an empty slice
  give the same payload.\<close>

definition applyTraitsStatus ::
    "lib \<Rightarrow> kube \<Rightarrow> go_time \<Rightarrow> Hypervisor \<Rightarrow> string list \<Rightarrow> condition \<Rightarrow> trace \<Rightarrow> go_error option \<times> trace" where
  "applyTraitsStatus L K now hv traits cond tr =
     (let retained = (case FindStatusCondition L (hv_Conditions hv) ConditionTypeTraitsUpdated of
                        Some c \<Rightarrow> [ConditionFromStatus c] | None \<Rightarrow> []);
          statusCfg = HypervisorStatus_cfg\<lparr>
            cfg_Conditions := set_apply_condition now retained
              (ac_condition (Type cond) (Status cond) (Reason cond) (Message cond)),
            cfg_Traits := traits\<rparr> in
      ask (k_status_apply_Hypervisor K (hv_Name hv) statusCfg)
        (Kube (StatusApplyHypervisor (hv_Name hv) statusCfg TraitsControllerName)) tr)"

section \<open>The target traits\<close>

fun add_missing :: "string list \<Rightarrow> string list \<Rightarrow> string list" where
  "add_missing targetTraits [] = targetTraits"
| "add_missing targetTraits (traitToAdd # toAdd) =
     (if \<not> slices_Contains targetTraits traitToAdd
      then add_missing (targetTraits @ [traitToAdd]) toAdd else add_missing targetTraits toAdd)"

definition target_traits :: "string list \<Rightarrow> string list \<Rightarrow> string list" where
  "target_traits specTraits currentTraits =
     (let appliedCustomTraits = customTraitsOf currentTraits;
          toAdd = Difference appliedCustomTraits specTraits;
          toRemove = Difference specTraits appliedCustomTraits;
          kept = filter (\<lambda>trait. \<not> slices_Contains toRemove trait) (slices_Sort currentTraits)
      in slices_Sort (add_missing kept toAdd))"

section \<open>Reconcile\<close>

definition Traits_Reconcile ::
    "lib \<Rightarrow> kube \<Rightarrow> placement \<Rightarrow> go_time \<Rightarrow> string \<Rightarrow> trace \<Rightarrow> reconcile_result \<times> trace" where
  "Traits_Reconcile L K P now name tr =
     (case ask (k_get_Hypervisor K name) (Kube (GetHypervisor name)) tr of
        (Inl err, tr1) \<Rightarrow> ((no_requeue, IgnoreNotFound L err), tr1)
      | (Inr hv, tr1) \<Rightarrow>
          if \<not> LifecycleEnabled (Spec hv) then (reconcile_ok, tr1)
          else if HypervisorID (hv_Status hv) = [] then ((\<lparr>RequeueAfter = DefaultPollTime\<rparr>, None), tr1)
          else if hv_Maintenance hv = MaintenanceTermination then (reconcile_ok, tr1)
          else
            (case FindStatusCondition L (hv_Conditions hv) ConditionTypeOnboarding of
               None \<Rightarrow> (reconcile_ok, tr1)
             | Some onboardingCondition \<Rightarrow>
                 if Status onboardingCondition = ConditionTrue \<and> Reason onboardingCondition \<noteq> ConditionReasonHandover
                 then (reconcile_ok, tr1)
                 else if slicesEqualUnordered (CustomTraits (Spec hv)) (customTraitsOf (Traits (hv_Status hv)))
                 then
                   (if IsStatusConditionTrue L (hv_Conditions hv) ConditionTypeTraitsUpdated then (reconcile_ok, tr1)
                    else (case applyTraitsStatus L K now hv (Traits (hv_Status hv)) (getTraitCondition None ''Traits in sync'') tr1 of
                            (err, tr2) \<Rightarrow> ((no_requeue, err), tr2)))
                 else
                   (case ask (p_providers_GetTraits P (HypervisorID (hv_Status hv)))
                           (Placement (ProvidersGetTraits (HypervisorID (hv_Status hv)))) tr1 of
                      (Inl err, tr2) \<Rightarrow>
                        (case applyTraitsStatus L K now hv (Traits (hv_Status hv))
                                (getTraitCondition (Some err) ''Failed to get current traits from placement'') tr2 of
                           (err2, tr3) \<Rightarrow> ((no_requeue, errors_Join [Some err, err2]), tr3))
                    | (Inr (currentTraits, generation), tr2) \<Rightarrow>
                        let targetTraits = target_traits (CustomTraits (Spec hv)) currentTraits;
                            opts = \<lparr>ut_Traits = targetTraits, ut_ResourceProviderGeneration = generation\<rparr> in
                        (case (if slices_Sort currentTraits \<noteq> targetTraits
                               then ask (p_providers_UpdateTraits P (HypervisorID (hv_Status hv)) opts)
                                      (Placement (ProvidersUpdateTraits (HypervisorID (hv_Status hv)) opts)) tr2
                               else (None, tr2)) of
                           (Some err, tr3) \<Rightarrow>
                             (case applyTraitsStatus L K now hv (Traits (hv_Status hv))
                                     (getTraitCondition (Some err) ''Failed to update traits in placement'') tr3 of
                                (err2, tr4) \<Rightarrow> ((no_requeue, errors_Join [Some err, err2]), tr4))
                         | (None, tr3) \<Rightarrow>
                             (case applyTraitsStatus L K now hv targetTraits
                                     (getTraitCondition None ''Traits successfully updated'') tr3 of
                                (err, tr4) \<Rightarrow> ((no_requeue, err), tr4))))))"

section \<open>Lemmas\<close>

lemma customTraitsOf_eq: "customTraitsOf ts = filter (\<lambda>t. strings_HasPrefix t customPrefix) ts"
  by (induction ts) auto

lemma set_add_missing: "set (add_missing ts us) = set ts \<union> set us"
  by (induction us arbitrary: ts) auto

lemma distinct_add_missing: "distinct ts \<Longrightarrow> distinct (add_missing ts us)"
  by (induction us arbitrary: ts) auto

lemma set_target_traits:
  "set (target_traits spec cur) = {t \<in> set cur. \<not> strings_HasPrefix t customPrefix} \<union> set spec"
  by (auto simp: target_traits_def Let_def set_add_missing customTraitsOf_eq)

lemma sorted_target_traits: "sorted (target_traits spec cur)"
  by (simp add: target_traits_def Let_def)

lemma distinct_target_traits: "distinct cur \<Longrightarrow> distinct (target_traits spec cur)"
  by (simp add: target_traits_def Let_def distinct_add_missing)

text \<open>The calls of a pass, one case per way it can go.\<close>

definition traits_gate :: "lib \<Rightarrow> Hypervisor \<Rightarrow> bool" where
  "traits_gate L hv \<longleftrightarrow> LifecycleEnabled (Spec hv) \<and> HypervisorID (hv_Status hv) \<noteq> []
     \<and> hv_Maintenance hv \<noteq> MaintenanceTermination
     \<and> (\<exists>c. FindStatusCondition L (hv_Conditions hv) ConditionTypeOnboarding = Some c
          \<and> (Status c = ConditionTrue \<longrightarrow> Reason c = ConditionReasonHandover))"

definition in_sync :: "Hypervisor \<Rightarrow> bool" where
  "in_sync hv \<longleftrightarrow> mset (CustomTraits (Spec hv)) = mset (customTraitsOf (Traits (hv_Status hv)))"

lemma applyTraitsStatus_trace:
  obtains cfg where "applyTraitsStatus L K now hv traits cond tr =
      (k_status_apply_Hypervisor K (hv_Name hv) cfg tr, tr @ [Kube (StatusApplyHypervisor (hv_Name hv) cfg TraitsControllerName)])"
    "cfg_Traits cfg = traits"
    "map_option apply_view (find_apply (cfg_Conditions cfg) (Some (Type cond))) =
       (if Type cond = [] then map_option apply_view (find_apply (cfg_Conditions cfg) (Some []))
        else Some (Some (Status cond), Some (Reason cond), Some (Message cond), None))"
proof -
  let ?ret = "case FindStatusCondition L (hv_Conditions hv) ConditionTypeTraitsUpdated of
      Some c \<Rightarrow> [ConditionFromStatus c] | None \<Rightarrow> []"
  let ?cond = "ac_condition (Type cond) (Status cond) (Reason cond) (Message cond)"
  let ?cfg = "HypervisorStatus_cfg\<lparr>cfg_Conditions := set_apply_condition now ?ret ?cond, cfg_Traits := traits\<rparr>"
  have "Type cond \<noteq> [] \<Longrightarrow> map_option apply_view (find_apply (cfg_Conditions ?cfg) (Some (Type cond))) =
      Some (Some (Status cond), Some (Reason cond), Some (Message cond), None)"
    using apply_store.find_put_same [of ?cond now ?ret] by (simp add: apply_view_def del: map_option_eq_Some)
  then show ?thesis
    by (intro that [of ?cfg]) (simp_all add: applyTraitsStatus_def Let_def ask_def del: map_option_eq_Some)
qed

lemma Traits_Reconcile_cases:
  assumes "Traits_Reconcile L K P now name tr = (res, tr')"
  obtains (no_hv) e where "k_get_Hypervisor K name tr = Inl e" "tr' = tr @ [Kube (GetHypervisor name)]"
  | (gated) hv where "k_get_Hypervisor K name tr = Inr hv" "\<not> traits_gate L hv" "tr' = tr @ [Kube (GetHypervisor name)]"
  | (synced) hv where "k_get_Hypervisor K name tr = Inr hv" "traits_gate L hv" "in_sync hv"
      "IsStatusConditionTrue L (hv_Conditions hv) ConditionTypeTraitsUpdated" "tr' = tr @ [Kube (GetHypervisor name)]"
  | (mark) hv where "k_get_Hypervisor K name tr = Inr hv" "traits_gate L hv" "in_sync hv"
      "tr' = snd (applyTraitsStatus L K now hv (Traits (hv_Status hv)) (getTraitCondition None ''Traits in sync'')
         (tr @ [Kube (GetHypervisor name)]))"
  | (get_err) hv e m where "k_get_Hypervisor K name tr = Inr hv" "traits_gate L hv" "\<not> in_sync hv"
      "tr' = snd (applyTraitsStatus L K now hv (Traits (hv_Status hv)) (getTraitCondition (Some e) m)
         (tr @ [Kube (GetHypervisor name), Placement (ProvidersGetTraits (HypervisorID (hv_Status hv)))]))"
  | (upd_err) hv cur gen opts e m where "k_get_Hypervisor K name tr = Inr hv" "traits_gate L hv" "\<not> in_sync hv"
      "p_providers_GetTraits P (HypervisorID (hv_Status hv)) (tr @ [Kube (GetHypervisor name)]) = Inr (cur, gen)"
      "opts = \<lparr>ut_Traits = target_traits (CustomTraits (Spec hv)) cur, ut_ResourceProviderGeneration = gen\<rparr>"
      "tr' = snd (applyTraitsStatus L K now hv (Traits (hv_Status hv)) (getTraitCondition (Some e) m)
         (tr @ [Kube (GetHypervisor name), Placement (ProvidersGetTraits (HypervisorID (hv_Status hv))),
                Placement (ProvidersUpdateTraits (HypervisorID (hv_Status hv)) opts)]))"
  | (updated) hv cur gen opts cs where "k_get_Hypervisor K name tr = Inr hv" "traits_gate L hv" "\<not> in_sync hv"
      "p_providers_GetTraits P (HypervisorID (hv_Status hv)) (tr @ [Kube (GetHypervisor name)]) = Inr (cur, gen)"
      "opts = \<lparr>ut_Traits = target_traits (CustomTraits (Spec hv)) cur, ut_ResourceProviderGeneration = gen\<rparr>"
      "cs = (if slices_Sort cur \<noteq> target_traits (CustomTraits (Spec hv)) cur
             then [Placement (ProvidersUpdateTraits (HypervisorID (hv_Status hv)) opts)] else [])"
      "cs \<noteq> [] \<longrightarrow> p_providers_UpdateTraits P (HypervisorID (hv_Status hv)) opts
         (tr @ [Kube (GetHypervisor name), Placement (ProvidersGetTraits (HypervisorID (hv_Status hv)))]) = None"
      "tr' = snd (applyTraitsStatus L K now hv (ut_Traits opts) (getTraitCondition None ''Traits successfully updated'')
         (tr @ [Kube (GetHypervisor name), Placement (ProvidersGetTraits (HypervisorID (hv_Status hv)))] @ cs))"
proof (cases "k_get_Hypervisor K name tr")
  case (Inl e)
  with assms no_hv show ?thesis by (simp add: Traits_Reconcile_def ask_def)
next
  case hv: (Inr hv)
  show ?thesis
  proof (cases "traits_gate L hv")
    case False
    with assms hv show ?thesis
      by (intro gated [OF hv False])
        (auto simp: Traits_Reconcile_def ask_def traits_gate_def split: if_splits option.splits)
  next
    case g: True
    then obtain c where c: "FindStatusCondition L (hv_Conditions hv) ConditionTypeOnboarding = Some c"
      "\<not> (Status c = ConditionTrue \<and> Reason c \<noteq> ConditionReasonHandover)"
      by (auto simp: traits_gate_def)
    note eq = assms [unfolded Traits_Reconcile_def ask_def hv prod.case sum.case slicesEqualUnordered_iff in_sync_def [symmetric]]
    have g': "LifecycleEnabled (Spec hv)" "HypervisorID (hv_Status hv) \<noteq> []" "hv_Maintenance hv \<noteq> MaintenanceTermination"
      using g by (auto simp: traits_gate_def)
    note eq' = eq [simplified g' c option.case if_not_P [OF c(2)] not_False_eq_True if_False if_True not_True_eq_False]
    show ?thesis
    proof (cases "in_sync hv")
      case s: True
      then show ?thesis using eq' synced [OF hv g s] mark [OF hv g s]
        by (auto split: if_splits prod.splits)
    next
      case s: False
      show ?thesis
      proof (cases "p_providers_GetTraits P (HypervisorID (hv_Status hv)) (tr @ [Kube (GetHypervisor name)])")
        case (Inl e)
        with eq' s show ?thesis
          by (intro get_err [OF hv g s, where e = e and m = "''Failed to get current traits from placement''"])
            (auto split: prod.splits)
      next
        case (Inr r)
        obtain cur gen where r: "r = (cur, gen)" by fastforce
        let ?opts = "\<lparr>ut_Traits = target_traits (CustomTraits (Spec hv)) cur, ut_ResourceProviderGeneration = gen\<rparr>"
        let ?tr2 = "tr @ [Kube (GetHypervisor name), Placement (ProvidersGetTraits (HypervisorID (hv_Status hv)))]"
        show ?thesis
        proof (cases "slices_Sort cur \<noteq> target_traits (CustomTraits (Spec hv)) cur
            \<and> p_providers_UpdateTraits P (HypervisorID (hv_Status hv)) ?opts ?tr2 \<noteq> None")
          case True
          then obtain e where "p_providers_UpdateTraits P (HypervisorID (hv_Status hv)) ?opts ?tr2 = Some e" by blast
          with True eq' s Inr r show ?thesis
            by (intro upd_err [OF hv g s Inr [unfolded r] refl, where e = e and m = "''Failed to update traits in placement''"])
              (auto simp: Let_def split: prod.splits)
        next
          case False
          with eq' s Inr r show ?thesis
            by (intro updated [OF hv g s Inr [unfolded r] refl refl])
              (auto simp: Let_def split: prod.splits if_splits)
        qed
      qed
    qed
  qed
qed

section \<open>Properties\<close>

lemma customTraitsOf_target:
  "set (customTraitsOf (target_traits spec cur)) = {t \<in> set spec. strings_HasPrefix t customPrefix}"
  by (auto simp: customTraitsOf_eq set_target_traits)

lemma add_missing_subset: "set us \<subseteq> set ts \<Longrightarrow> add_missing ts us = ts"
  by (induction us) auto

lemma target_traits_idem: "target_traits spec (target_traits spec cur) = target_traits spec cur"
proof -
  let ?t = "target_traits spec cur"
  have "filter (\<lambda>t. t \<notin> set (Difference spec (customTraitsOf ?t))) ?t = ?t"
    by (rule filter_True) (simp add: customTraitsOf_target)
  moreover have "set (Difference (customTraitsOf ?t) spec) \<subseteq> set ?t"
    by (auto simp: set_target_traits)
  ultimately show ?thesis
    using sorted_target_traits [of spec cur]
    by (simp add: target_traits_def [of spec ?t] Let_def add_missing_subset sorted_sort_id del: set_Difference)
qed

text \<open>The last call of every pass that gets that far is the application of a status.\<close>

lemma applyTraitsStatus_placement [simp]:
  "Placement x \<in> set (new_calls tr (snd (applyTraitsStatus L K now hv ts c (tr @ cs)))) \<longleftrightarrow> Placement x \<in> set cs"
  by (simp add: applyTraitsStatus_def Let_def)

lemma applied_failure:
  assumes "tr' = snd (applyTraitsStatus L K now hv ts (getTraitCondition (Some e) m) (tr @ cs))"
    and "\<And>n cfg ow. Kube (StatusApplyHypervisor n cfg ow) \<notin> set cs"
    and "Kube (StatusApplyHypervisor n cfg ow) \<in> set (new_calls tr tr')"
    and "find_apply (cfg_Conditions cfg) (Some ConditionTypeTraitsUpdated) = Some c"
  shows "ac_Status c = Some ConditionFalse"
proof -
  obtain cfg' where "applyTraitsStatus L K now hv ts (getTraitCondition (Some e) m) (tr @ cs) =
      (k_status_apply_Hypervisor K (hv_Name hv) cfg' (tr @ cs), (tr @ cs) @ [Kube (StatusApplyHypervisor (hv_Name hv) cfg' TraitsControllerName)])"
    and v: "map_option apply_view (find_apply (cfg_Conditions cfg') (Some ConditionTypeTraitsUpdated)) =
      Some (Some ConditionFalse, Some ConditionReasonFailed, Some (Message (getTraitCondition (Some e) m)), None)"
    by (rule applyTraitsStatus_trace [of L K now hv ts "getTraitCondition (Some e) m" "tr @ cs"])
      (simp add: getTraitCondition_def)
  with assms have "cfg = cfg'" by auto
  with v assms(4) show ?thesis by (simp add: apply_view_def)
qed

text \<open>
  C17. A write of the traits of a resource provider is only made for a hypervisor whose life cycle
  is managed, that Nova knows, that is not being terminated, and whose \<open>Onboarding\<close> condition is
  present and, outside the handover phase, not \<open>True\<close> (it is not required that the onboarding
  succeeded: an aborted one passes). It replaces the traits that Placement reported, under the generation Placement
  reported with them, by exactly the reported traits without the prefix \<open>CUSTOM_\<close> and the traits of
  the spec, in sorted order.
\<close>

theorem traits_update_targets:
  assumes "Placement (ProvidersUpdateTraits provider opts) \<in> set (new_calls tr (snd (Traits_Reconcile L K P now name tr)))"
  shows "\<exists>hv currentTraits generation.
      k_get_Hypervisor K name tr = Inr hv \<and> LifecycleEnabled (Spec hv) \<and> hv_Maintenance hv \<noteq> MaintenanceTermination
    \<and> (\<exists>c. FindStatusCondition L (hv_Conditions hv) ConditionTypeOnboarding = Some c
         \<and> (Status c \<noteq> ConditionTrue \<or> Reason c = ConditionReasonHandover))
    \<and> provider = HypervisorID (hv_Status hv) \<and> provider \<noteq> []
    \<and> p_providers_GetTraits P provider (tr @ [Kube (GetHypervisor name)]) = Inr (currentTraits, generation)
    \<and> ut_ResourceProviderGeneration opts = generation \<and> sorted (ut_Traits opts)
    \<and> set (ut_Traits opts) = {t \<in> set currentTraits. \<not> strings_HasPrefix t customPrefix} \<union> set (CustomTraits (Spec hv))"
proof -
  obtain res tr' where eq: "Traits_Reconcile L K P now name tr = (res, tr')" by fastforce
  with assms have c: "Placement (ProvidersUpdateTraits provider opts) \<in> set (new_calls tr tr')" by simp
  from eq show ?thesis
  proof (cases rule: Traits_Reconcile_cases)
    case (upd_err hv cur gen opts' e m)
    with c have "provider = HypervisorID (hv_Status hv)" "opts = opts'" by auto
    with upd_err show ?thesis by (auto simp: traits_gate_def sorted_target_traits set_target_traits)
  next
    case (updated hv cur gen opts' cs)
    with c have "provider = HypervisorID (hv_Status hv)" "opts = opts'" by (auto split: if_splits)
    with updated show ?thesis by (auto simp: traits_gate_def sorted_target_traits set_target_traits)
  qed (use c in auto)
qed

definition trait_hv :: Hypervisor where
  "trait_hv = \<lparr>Meta = empty_meta ''h1'', Spec = zero_spec\<lparr>LifecycleEnabled := True, CustomTraits := [''CUSTOM_A'']\<rparr>,
     hv_Status = zero_status\<lparr>HypervisorID := ''id'',
       Conditions := [mk_condition ConditionTypeOnboarding ConditionFalse ConditionReasonSucceeded []]\<rparr>\<rparr>"

abbreviation trait_pass :: trace where
  "trait_pass \<equiv> snd (Traits_Reconcile list_lib (sample_kube trait_hv (empty_eviction ''e'') (empty_node ''h1''))
     sample_placement 1 ''h1'' [])"

text \<open>The concrete pass: the hypervisor is read, the traits are read and updated, the status is applied.\<close>

lemma trait_pass_calls:
  obtains opts cfg c where
    "Placement (ProvidersUpdateTraits ''id'' opts) \<in> set (new_calls [] trait_pass)"
    "Kube (StatusApplyHypervisor ''h1'' cfg TraitsControllerName) \<in> set (new_calls [] trait_pass)"
    "find_apply (cfg_Conditions cfg) (Some ConditionTypeTraitsUpdated) = Some c" "ac_Status c = Some ConditionTrue"
  by (simp add: trait_hv_def Traits_Reconcile_def ask_def sample_kube_def sample_placement_def zero_values Let_def
      list_lib_def list_find_def slicesEqualUnordered_def target_traits_def new_calls_def applyTraitsStatus_def
      getTraitCondition_def set_apply_condition_def find_apply_def HypervisorStatus_cfg_def ac_condition_def no_time_def)

theorem traits_update_targets_witness:
  "\<exists>opts. Placement (ProvidersUpdateTraits ''id'' opts) \<in> set (new_calls [] trait_pass)
     \<and> set (ut_Traits opts) = {''CUSTOM_A''}"
proof (rule trait_pass_calls)
  fix opts
  assume u: "Placement (ProvidersUpdateTraits ''id'' opts) \<in> set (new_calls [] trait_pass)"
  from traits_update_targets [OF u] u show ?thesis
    by (auto simp: sample_kube_def sample_placement_def trait_hv_def)
qed

text \<open>
  The traits controller converges. Applying its target once more changes nothing, so a pass
  that reads back what it wrote sends no update; and for a spec that lists each trait once, all of
  them custom ones, the status a successful pass records is in sync with the spec, so the next pass
  does not even ask Placement.
\<close>

theorem traits_converge:
  assumes "distinct spec" "\<And>t. t \<in> set spec \<Longrightarrow> strings_HasPrefix t customPrefix" "distinct cur"
  shows "target_traits spec (target_traits spec cur) = target_traits spec cur
    \<and> slicesEqualUnordered spec (customTraitsOf (target_traits spec cur))"
proof -
  have "distinct (customTraitsOf (target_traits spec cur))"
    by (simp add: customTraitsOf_eq distinct_target_traits assms(3))
  moreover have "set (customTraitsOf (target_traits spec cur)) = set spec"
    using assms(2) by (auto simp: customTraitsOf_target)
  ultimately show ?thesis
    by (simp add: target_traits_idem slicesEqualUnordered_iff set_eq_iff_mset_eq_distinct [symmetric] assms(1))
qed

theorem traits_converge_witness:
  "slicesEqualUnordered [''CUSTOM_B'', ''CUSTOM_A'']
     (customTraitsOf (target_traits [''CUSTOM_B'', ''CUSTOM_A''] [''HW_CPU_X86_VMX'', ''CUSTOM_OLD'']))"
proof -
  have "strings_HasPrefix t customPrefix" if "t \<in> set [''CUSTOM_B'', ''CUSTOM_A'']" for t
    using that by (auto simp: strings_HasPrefix_def)
  from traits_converge [of "[''CUSTOM_B'', ''CUSTOM_A'']" "[''HW_CPU_X86_VMX'', ''CUSTOM_OLD'']", OF _ this] show ?thesis
    by simp
qed

text \<open>
  \<open>TraitsUpdated\<close> is reported as \<open>True\<close> only with evidence: either the custom traits recorded
  in the status already are those of the spec and the recorded traits stay as they are, or Placement
  was read in this pass, the recorded traits are its non-custom traits and those of the spec, and
  Placement had just these traits or accepted the update to them.
\<close>

theorem traits_updated_evidence:
  assumes "Kube (StatusApplyHypervisor n cfg ow) \<in> set (new_calls tr (snd (Traits_Reconcile L K P now name tr)))"
    and "find_apply (cfg_Conditions cfg) (Some ConditionTypeTraitsUpdated) = Some c"
    and "ac_Status c = Some ConditionTrue"
  shows "\<exists>hv :: Hypervisor. k_get_Hypervisor K name tr = Inr hv \<and> traits_gate L hv \<and>
    (if in_sync hv then cfg_Traits cfg = Traits (hv_Status hv)
     else \<exists>cur gen. p_providers_GetTraits P (HypervisorID (hv_Status hv)) (tr @ [Kube (GetHypervisor name)]) = Inr (cur, gen)
       \<and> cfg_Traits cfg = target_traits (CustomTraits (Spec hv)) cur
       \<and> (cfg_Traits cfg = sort cur
          \<or> p_providers_UpdateTraits P (HypervisorID (hv_Status hv))
               \<lparr>ut_Traits = cfg_Traits cfg, ut_ResourceProviderGeneration = gen\<rparr>
               (tr @ [Kube (GetHypervisor name), Placement (ProvidersGetTraits (HypervisorID (hv_Status hv)))]) = None))"
proof -
  obtain res tr' where eq: "Traits_Reconcile L K P now name tr = (res, tr')" by fastforce
  with assms have a: "Kube (StatusApplyHypervisor n cfg ow) \<in> set (new_calls tr tr')" by simp
  from eq show ?thesis
  proof (cases rule: Traits_Reconcile_cases)
    case (mark hv)
    with a have "cfg_Traits cfg = Traits (hv_Status hv)"
      by (auto simp: applyTraitsStatus_def Let_def)
    with mark show ?thesis by auto
  next
    case (get_err hv e m)
    with a have "tr' = snd (applyTraitsStatus L K now hv (Traits (hv_Status hv)) (getTraitCondition (Some e) m)
         (tr @ [Kube (GetHypervisor name), Placement (ProvidersGetTraits (HypervisorID (hv_Status hv)))]))" by simp
    from applied_failure [OF this _ a assms(2)] assms(3) show ?thesis by simp
  next
    case (upd_err hv cur gen opts' e m)
    from applied_failure [OF upd_err(6) _ a assms(2)] assms(3) show ?thesis by simp
  next
    case (updated hv cur gen opts' cs)
    with a have "cfg_Traits cfg = ut_Traits opts'"
      by (auto simp: applyTraitsStatus_def Let_def split: if_splits)
    with updated show ?thesis by (auto split: if_splits)
  qed (use a in auto)
qed

theorem traits_updated_evidence_witness:
  "\<exists>cfg. Kube (StatusApplyHypervisor ''h1'' cfg TraitsControllerName) \<in> set (new_calls [] trait_pass)
     \<and> cfg_Traits cfg = target_traits [''CUSTOM_A''] []"
proof (rule trait_pass_calls)
  fix cfg c
  assume a: "Kube (StatusApplyHypervisor ''h1'' cfg TraitsControllerName) \<in> set (new_calls [] trait_pass)"
    "find_apply (cfg_Conditions cfg) (Some ConditionTypeTraitsUpdated) = Some c" "ac_Status c = Some ConditionTrue"
  from traits_updated_evidence [OF a] a(1) show ?thesis
    by (auto simp: sample_kube_def sample_placement_def trait_hv_def in_sync_def zero_values)
qed

end
