(* ===== verification/Config.thy ===== *)
theory Config
  imports Utils
begin

text \<open>
  Process-wide configuration: the variables and \<open>ResolveConcurrency\<close> of
  \<^verbatim>\<open>src/internal/global/global.go\<close>, and the flag validation of \<open>main\<close> in
  \<^verbatim>\<open>src/cmd/main.go\<close> that fills them. The package variables are a record; an \<open>os.Exit(1)\<close>
  is the error it logs.
\<close>

record global_vars =
  AgentNamespaces :: "string list"
  EvictionConcurrency :: int
  EvictionTraitConcurrency :: "string \<rightharpoonup> int"

section \<open>ResolveConcurrency\<close>

fun resolve_traits :: "(string \<rightharpoonup> int) \<Rightarrow> int \<Rightarrow> string list \<Rightarrow> int" where
  "resolve_traits tc limit [] = limit"
| "resolve_traits tc limit (t # traits) =
     (case tc t of
        Some traitLimit \<Rightarrow> resolve_traits tc (if traitLimit < limit then traitLimit else limit) traits
      | None \<Rightarrow> resolve_traits tc limit traits)"

definition ResolveConcurrency :: "global_vars \<Rightarrow> string list \<Rightarrow> int" where
  "ResolveConcurrency g traits =
     (let limit = resolve_traits (EvictionTraitConcurrency g) (EvictionConcurrency g) traits
      in if limit < 1 then 1 else limit)"

text \<open>The limits that apply to a host: the default and that of every configured trait it carries.\<close>

definition applicable_limits :: "global_vars \<Rightarrow> string list \<Rightarrow> int set" where
  "applicable_limits g traits =
     insert (EvictionConcurrency g) {n. \<exists>t \<in> set traits. EvictionTraitConcurrency g t = Some n}"

lemma finite_trait_limits: "finite {n. \<exists>t \<in> set traits. tc t = Some n}"
proof -
  have "{n. \<exists>t \<in> set traits. tc t = Some n} \<subseteq> the ` tc ` set traits" by force
  then show ?thesis by (rule finite_subset) simp
qed

lemma resolve_traits_Min:
  "resolve_traits tc limit traits = Min (insert limit {n. \<exists>t \<in> set traits. tc t = Some n})"
proof (induction traits arbitrary: limit)
  case Nil
  then show ?case by simp
next
  case (Cons t traits)
  let ?S = "{n. \<exists>u \<in> set traits. tc u = Some n}"
  show ?case
  proof (cases "tc t")
    case None
    then have "{n. \<exists>u \<in> set (t # traits). tc u = Some n} = ?S" by auto
    with None Cons show ?thesis by simp
  next
    case (Some l)
    then have "{n. \<exists>u \<in> set (t # traits). tc u = Some n} = insert l ?S" by auto
    moreover have "Min (insert limit (insert l ?S)) = Min (insert (min l limit) ?S)"
      using finite_trait_limits [of traits tc]
      by (cases "?S = {}") (simp_all add: min.commute min.left_commute min.assoc)
    moreover have "(if l < limit then l else limit) = min l limit"
      by simp
    ultimately show ?thesis using Some by (simp add: Cons)
  qed
qed

section \<open>strconv.Atoi\<close>

definition is_digit :: "char \<Rightarrow> bool" where
  "is_digit c = (let n = of_char c :: nat in 48 \<le> n \<and> n \<le> 57)"

fun digits_value :: "nat \<Rightarrow> string \<Rightarrow> nat" where
  "digits_value acc [] = acc"
| "digits_value acc (c # cs) = digits_value (10 * acc + (of_char c - 48)) cs"

definition parse_digits :: "string \<Rightarrow> int option" where
  "parse_digits s = (if s \<noteq> [] \<and> list_all is_digit s then Some (int (digits_value 0 s)) else None)"

text \<open>An optional sign, at least one decimal digit, and a value that fits 64 bits.\<close>

definition strconv_Atoi :: "string \<Rightarrow> int option" where
  "strconv_Atoi s =
     (let v = (case s of
                 [] \<Rightarrow> None
               | c # cs \<Rightarrow> if c = CHR ''-'' then map_option uminus (parse_digits cs)
                           else if c = CHR ''+'' then parse_digits cs else parse_digits s)
      in case v of None \<Rightarrow> None
         | Some n \<Rightarrow> if - (2 ^ 63) \<le> n \<and> n < 2 ^ 63 then Some n else None)"

section \<open>Flags\<close>

record flags =
  agentNamespacesFlag :: string
  evictionConcurrencyFlag :: int
  evictionTraitConcurrencyFlag :: string
  certificateIssuerName :: string
  certificateNamespace :: string

text \<open>The loop over the comma-separated namespaces, with the set of those already seen.\<close>

fun collect_namespaces :: "string set \<Rightarrow> string list \<Rightarrow> string list" where
  "collect_namespaces seen [] = []"
| "collect_namespaces seen (raw # rest) =
     (let ns = strings_TrimSpace raw in
      if ns = [] then collect_namespaces seen rest
      else if ns \<in> seen then collect_namespaces seen rest
      else ns # collect_namespaces (insert ns seen) rest)"

definition parse_agent_namespaces :: "string \<Rightarrow> string list" where
  "parse_agent_namespaces flag =
     (if flag \<noteq> [] then collect_namespaces {} (strings_Split flag (CHR '','')) else [])"

fun parse_trait_entries :: "(string \<rightharpoonup> int) \<Rightarrow> string list \<Rightarrow> go_error + (string \<rightharpoonup> int)" where
  "parse_trait_entries m [] = Inr m"
| "parse_trait_entries m (raw # rest) =
     (let entry = strings_TrimSpace raw in
      if entry = [] then parse_trait_entries m rest
      else
        (case strings_Cut entry (CHR ''='') of
           (trait0, value, ok) \<Rightarrow>
             let trait = strings_TrimSpace trait0 in
             case strconv_Atoi (strings_TrimSpace value) of
               None \<Rightarrow> Inl (ErrorNew (''invalid --eviction-trait-concurrency entry: '' @ entry))
             | Some n \<Rightarrow>
                 if \<not> ok \<or> trait = [] \<or> n < 1
                 then Inl (ErrorNew (''invalid --eviction-trait-concurrency entry: '' @ entry))
                 else parse_trait_entries (m(trait \<mapsto> n)) rest))"

definition parse_flags :: "flags \<Rightarrow> go_error + global_vars" where
  "parse_flags f =
     (let namespaces = parse_agent_namespaces (agentNamespacesFlag f) in
      if namespaces = [] then Inl (ErrorNew ''--agent-namespaces is required'')
      else if evictionConcurrencyFlag f < 1 then Inl (ErrorNew ''--eviction-concurrency must be >= 1'')
      else
        (case parse_trait_entries Map.empty (strings_Split (evictionTraitConcurrencyFlag f) (CHR '','')) of
           Inl err \<Rightarrow> Inl err
         | Inr tc \<Rightarrow>
             if certificateIssuerName f = [] then Inl (ErrorNew ''certificate-issuer-name cannot be empty'')
             else if certificateNamespace f = [] then Inl (ErrorNew ''certificate-namespace cannot be empty'')
             else Inr \<lparr>AgentNamespaces = namespaces, EvictionConcurrency = evictionConcurrencyFlag f,
                       EvictionTraitConcurrency = tc\<rparr>))"

section \<open>Lemmas\<close>

lemma collect_namespaces_props:
  "distinct (collect_namespaces seen xs) \<and> set (collect_namespaces seen xs) \<inter> seen = {} \<and>
   set (collect_namespaces seen xs) = strings_TrimSpace ` set xs - {[]} - seen"
  by (induction seen xs rule: collect_namespaces.induct) (auto simp: Let_def split: if_splits)

lemma parse_trait_entries_ge1:
  "parse_trait_entries m xs = Inr tc \<Longrightarrow> \<forall>n \<in> ran m. 1 \<le> n \<Longrightarrow> \<forall>n \<in> ran tc. 1 \<le> n"
proof (induction xs arbitrary: m)
  case Nil
  then show ?case by simp
next
  case (Cons raw rest)
  have upd: "\<forall>k \<in> ran (m(t \<mapsto> n)). 1 \<le> k" if "1 \<le> n" for t n
    using Cons.prems(2) that by (auto simp: ran_def)
  show ?case
  proof (cases "strings_TrimSpace raw = []")
    case True
    with Cons show ?thesis by simp
  next
    case False
    with Cons.prems(1) obtain t n where "1 \<le> n" and "parse_trait_entries (m(t \<mapsto> n)) rest = Inr tc"
      by (auto simp: Let_def not_less simp del: fun_upd_apply split: if_splits option.splits prod.splits)
    then show ?thesis using Cons.IH upd by blast
  qed
qed

lemma parse_flags_InrD:
  assumes "parse_flags f = Inr g"
  shows "AgentNamespaces g = collect_namespaces {} (strings_Split (agentNamespacesFlag f) (CHR '',''))"
    and "AgentNamespaces g \<noteq> []" and "1 \<le> EvictionConcurrency g"
    and "parse_trait_entries Map.empty (strings_Split (evictionTraitConcurrencyFlag f) (CHR '','')) =
         Inr (EvictionTraitConcurrency g)"
  using assms
  by (auto simp: parse_flags_def parse_agent_namespaces_def Let_def split: if_splits sum.splits)

end
