(* ===== verification/Eviction_Ctrl.thy ===== *)
theory Eviction_Ctrl
  imports Sample_World Config
begin

text \<open>
  The eviction controller: \<^verbatim>\<open>src/internal/controller/eviction/controller.go\<close>. One reconcile pass
  over an \<open>Eviction\<close>: the preflight check that lists the servers of the host, the scan of the
  outstanding servers, the start of new migrations within the concurrency limit, and the
  persisted status. The in-memory \<open>Eviction\<close> that the Go code mutates is threaded through.
\<close>

abbreviation EvictionControllerName :: string where "EvictionControllerName \<equiv> ''eviction''"

record candidate =
  cand_id :: string
  cand_live :: bool

section \<open>The queue of outstanding instances\<close>

text \<open>The first occurrence is cut out of a fresh copy of the slice.\<close>

fun removeInstance :: "string list \<Rightarrow> string \<Rightarrow> string list" where
  "removeInstance [] uuid = []"
| "removeInstance (u # instances) uuid =
     (if u = uuid then instances else u # removeInstance instances uuid)"

text \<open>\<open>idx\<close> of the source: the first index of the UUID.\<close>

fun first_index :: "string list \<Rightarrow> string \<Rightarrow> nat option" where
  "first_index [] uuid = None"
| "first_index (u # us) uuid = (if u = uuid then Some 0 else map_option Suc (first_index us uuid))"

definition deprioritize :: "string list \<Rightarrow> string \<Rightarrow> string list" where
  "deprioritize instances uuid =
     (case first_index instances uuid of
        None \<Rightarrow> instances
      | Some idx \<Rightarrow>
          if idx = 0 then instances
          else uuid # take idx instances @ drop (idx + 1) instances)"

definition isMigrationTaskState :: "string \<Rightarrow> bool" where
  "isMigrationTaskState taskState =
     (strings_Contains taskState ''migrat'' \<or> strings_Contains taskState ''resize'')"

section \<open>Updates of the in-memory Eviction\<close>

definition ev_set_condition :: "lib \<Rightarrow> condition \<Rightarrow> Eviction \<Rightarrow> Eviction" where
  "ev_set_condition L c ev =
     ev\<lparr>ev_Status := (ev_Status ev)\<lparr>ev_Conditions := setCondition L (ev_Conditions (ev_Status ev)) c\<rparr>\<rparr>"

definition ev_outstanding :: "Eviction \<Rightarrow> string list" where
  "ev_outstanding ev = OutstandingInstances (ev_Status ev)"

definition ev_set_outstanding :: "string list \<Rightarrow> Eviction \<Rightarrow> Eviction" where
  "ev_set_outstanding us ev = ev\<lparr>ev_Status := (ev_Status ev)\<lparr>OutstandingInstances := us\<rparr>\<rparr>"

definition ev_set_ram :: "int \<Rightarrow> Eviction \<Rightarrow> Eviction" where
  "ev_set_ram ram ev = ev\<lparr>ev_Status := (ev_Status ev)\<lparr>OutstandingRamMb := ram\<rparr>\<rparr>"

definition ev_set_service :: "string \<Rightarrow> Eviction \<Rightarrow> Eviction" where
  "ev_set_service sid ev = ev\<lparr>ev_Status := (ev_Status ev)\<lparr>HypervisorServiceId := sid\<rparr>\<rparr>"

lemmas ev_defs = ev_set_condition_def ev_outstanding_def ev_set_outstanding_def ev_set_ram_def
  ev_set_service_def

definition setMigrationSucceeded :: "lib \<Rightarrow> Eviction \<Rightarrow> string \<Rightarrow> Eviction" where
  "setMigrationSucceeded L ev msg =
     (let prior = FindStatusCondition L (ev_Conditions (ev_Status ev)) ConditionTypeMigration;
          stickyFailure =
            (case prior of
               None \<Rightarrow> False
             | Some p \<Rightarrow> length (ev_outstanding ev) > 0 \<and> Status p = ConditionFalse
                         \<and> Reason p = ConditionReasonFailed)
      in if stickyFailure then ev
         else ev_set_condition L (mk_condition ConditionTypeMigration ConditionFalse ConditionReasonSucceeded msg) ev)"

definition removeGone :: "lib \<Rightarrow> Eviction \<Rightarrow> string \<Rightarrow> go_error \<Rightarrow> Eviction \<times> bool" where
  "removeGone L ev uuid err =
     (if \<not> ResponseCodeIs L err 404 then (ev, False)
      else (setMigrationSucceeded L (ev_set_outstanding (removeInstance (ev_outstanding ev) uuid) ev)
              (''Instance '' @ uuid @ '' is gone''), True))"

section \<open>updateStatus\<close>

definition merge_status :: "lib \<Rightarrow> EvictionStatus \<Rightarrow> EvictionStatus \<Rightarrow> EvictionStatus" where
  "merge_status L desired fresh =
     fresh\<lparr>ev_Conditions := foldl (setCondition L) (ev_Conditions fresh) (ev_Conditions desired),
           OutstandingInstances := OutstandingInstances desired,
           OutstandingRamMb := OutstandingRamMb desired,
           HypervisorServiceId := HypervisorServiceId desired\<rparr>"

definition update_attempt :: "lib \<Rightarrow> kube \<Rightarrow> string \<Rightarrow> EvictionStatus \<Rightarrow> attempt" where
  "update_attempt L K name desired tr =
     (case ask (k_get_Eviction K name) (Kube (GetEviction name)) tr of
        (Inl err, tr1) \<Rightarrow> (Some err, tr1)
      | (Inr fresh, tr1) \<Rightarrow>
          let merged = fresh\<lparr>ev_Status := merge_status L desired (ev_Status fresh)\<rparr> in
          ask (k_status_patch_Eviction K fresh merged)
            (Kube (StatusPatchEviction fresh merged EvictionControllerName)) tr1)"

definition updateStatus :: "lib \<Rightarrow> kube \<Rightarrow> Eviction \<Rightarrow> trace \<Rightarrow> go_error option \<times> trace" where
  "updateStatus L K ev tr = RetryOnConflict L (update_attempt L K (Name (ev_Meta ev)) (ev_Status ev)) tr"

section \<open>Starting a migration\<close>

definition liveMigrate :: "lib \<Rightarrow> nova \<Rightarrow> string \<Rightarrow> Eviction \<Rightarrow> trace \<Rightarrow> (Eviction \<times> go_error option) \<times> trace" where
  "liveMigrate L N uuid ev tr =
     (case ask (n_servers_LiveMigrate N uuid False) (Server (ServersLiveMigrate uuid False)) tr of
        (None, tr1) \<Rightarrow> ((ev, None), tr1)
      | (Some resErr, tr1) \<Rightarrow>
          let err = Errorf (''failed to evict VM '' @ uuid @ '' due to '') resErr in
          ((ev_set_condition L (mk_condition ConditionTypeMigration ConditionFalse ConditionReasonFailed
              (Error_text err)) ev, Some err), tr1))"

definition coldMigrate :: "lib \<Rightarrow> nova \<Rightarrow> string \<Rightarrow> Eviction \<Rightarrow> trace \<Rightarrow> (Eviction \<times> go_error option) \<times> trace" where
  "coldMigrate L N uuid ev tr =
     (case ask (n_servers_Migrate N uuid) (Server (ServersMigrate uuid)) tr of
        (None, tr1) \<Rightarrow> ((ev, None), tr1)
      | (Some resErr, tr1) \<Rightarrow>
          let err = Errorf (''failed to evict stopped server '' @ uuid @ '' due to '') resErr in
          ((ev_set_condition L (mk_condition ConditionTypeMigration ConditionFalse ConditionReasonFailed
              (Error_text err)) ev, Some err), tr1))"

section \<open>evictNext\<close>

text \<open>The variables of \<open>evictNext\<close> that its two loops change.\<close>

record evict_state =
  es_eviction :: Eviction
  inFlight :: int
  started :: int
  candidates :: "candidate list"
  errs :: "go_error list"

text \<open>
  The body of the first loop for one server. The two switch arms, the task-state test, the
  test of the host, the terminating server and the candidate stand in the order of the source.
\<close>

definition evict_visit :: "lib \<Rightarrow> nova \<Rightarrow> string \<Rightarrow> evict_state \<Rightarrow> trace \<Rightarrow> evict_state \<times> trace" where
  "evict_visit L N uuid s tr =
     (case ask (n_servers_Get N uuid) (Server (ServersGet uuid)) tr of
        (Inl err, tr1) \<Rightarrow>
          (case removeGone L (es_eviction s) uuid err of
             (ev, True) \<Rightarrow> (s\<lparr>es_eviction := ev\<rparr>, tr1)
           | (ev, False) \<Rightarrow> (s\<lparr>errs := errs s @ [err]\<rparr>, tr1))
      | (Inr vm, tr1) \<Rightarrow>
          if sv_Status vm = ''MIGRATING'' \<or> sv_Status vm = ''RESIZE''
          then (s\<lparr>inFlight := inFlight s + 1\<rparr>, tr1)
          else if sv_Status vm = ''ERROR''
          then (s\<lparr>es_eviction := ev_set_condition L
                      (mk_condition ConditionTypeMigration ConditionFalse ConditionReasonFailed
                         (''Migration of instance '' @ sv_ID vm @ '' failed: '' @ sv_FaultMessage vm))
                      (ev_set_outstanding (deprioritize (ev_outstanding (es_eviction s)) uuid) (es_eviction s)),
                  errs := errs s @ [ErrorNew (''error migrating instance '' @ uuid)]\<rparr>, tr1)
          else if isMigrationTaskState (sv_TaskState vm)
          then (s\<lparr>inFlight := inFlight s + 1\<rparr>, tr1)
          else if fst (strings_Cut (sv_HypervisorHostname vm) (CHR ''.'')) \<noteq> es_Hypervisor (ev_Spec (es_eviction s))
          then (if sv_Status vm = ''VERIFY_RESIZE''
                then (case ask (n_servers_ConfirmResize N (sv_ID vm)) (Server (ServersConfirmResize (sv_ID vm))) tr1 of
                        (None, tr2) \<Rightarrow> (s\<lparr>inFlight := inFlight s + 1\<rparr>, tr2)
                      | (Some err, tr2) \<Rightarrow>
                          (case removeGone L (es_eviction s) uuid err of
                             (ev, True) \<Rightarrow> (s\<lparr>es_eviction := ev, inFlight := inFlight s + 1\<rparr>, tr2)
                           | (ev, False) \<Rightarrow> (s\<lparr>errs := errs s @ [err], inFlight := inFlight s + 1\<rparr>, tr2)))
                else (s\<lparr>es_eviction := setMigrationSucceeded L
                          (ev_set_outstanding (removeInstance (ev_outstanding (es_eviction s)) uuid) (es_eviction s))
                          (''Migration of instance '' @ sv_ID vm @ '' finished'')\<rparr>, tr1))
          else if sv_TaskState vm = ''deleting''
          then (s\<lparr>es_eviction := ev_set_condition L
                      (mk_condition ConditionTypeMigration ConditionFalse ConditionReasonFailed
                         (''Live migration of terminating instance '' @ sv_ID vm @ '' skipped''))
                      (ev_set_outstanding (deprioritize (ev_outstanding (es_eviction s)) uuid) (es_eviction s)),
                  inFlight := inFlight s + 1\<rparr>, tr1)
          else (s\<lparr>candidates := candidates s @
                    [\<lparr>cand_id = sv_ID vm, cand_live = (sv_Status vm = ''ACTIVE'' \<or> sv_PowerState vm = 1)\<rparr>]\<rparr>, tr1))"

fun evict_scan :: "lib \<Rightarrow> nova \<Rightarrow> int \<Rightarrow> string list \<Rightarrow> evict_state \<Rightarrow> trace \<Rightarrow> evict_state \<times> trace" where
  "evict_scan L N limit [] s tr = (s, tr)"
| "evict_scan L N limit (uuid # outstanding) s tr =
     (if inFlight s \<ge> limit then (s, tr)
      else (case evict_visit L N uuid s tr of (s1, tr1) \<Rightarrow> evict_scan L N limit outstanding s1 tr1))"

definition evict_trigger :: "lib \<Rightarrow> nova \<Rightarrow> candidate \<Rightarrow> evict_state \<Rightarrow> trace \<Rightarrow> evict_state \<times> trace" where
  "evict_trigger L N c s tr =
     (case (if cand_live c then liveMigrate L N (cand_id c) (es_eviction s) tr
            else coldMigrate L N (cand_id c) (es_eviction s) tr) of
        ((ev, None), tr1) \<Rightarrow> (s\<lparr>es_eviction := ev, started := started s + 1\<rparr>, tr1)
      | ((ev, Some migErr), tr1) \<Rightarrow>
          (case removeGone L ev (cand_id c) migErr of
             (ev', True) \<Rightarrow> (s\<lparr>es_eviction := ev'\<rparr>, tr1)
           | (ev', False) \<Rightarrow> (s\<lparr>es_eviction := ev, errs := errs s @ [migErr]\<rparr>, tr1)))"

fun evict_start :: "lib \<Rightarrow> nova \<Rightarrow> int \<Rightarrow> candidate list \<Rightarrow> evict_state \<Rightarrow> trace \<Rightarrow> evict_state \<times> trace" where
  "evict_start L N limit [] s tr = (s, tr)"
| "evict_start L N limit (c # cs) s tr =
     (if inFlight s + started s \<ge> limit then (s, tr)
      else (case evict_trigger L N c s tr of (s1, tr1) \<Rightarrow> evict_start L N limit cs s1 tr1))"

text \<open>Both loops, up to the status update.\<close>

definition evict_pass :: "lib \<Rightarrow> nova \<Rightarrow> Eviction \<Rightarrow> int \<Rightarrow> trace \<Rightarrow> evict_state \<times> trace" where
  "evict_pass L N ev limit0 tr =
     (let limit = (if limit0 < 1 then 1 else limit0) in
      case evict_scan L N limit (ev_outstanding ev)
             \<lparr>es_eviction = ev, inFlight = 0, started = 0, candidates = [], errs = []\<rparr> tr of
        (s, tr1) \<Rightarrow> evict_start L N limit (candidates s) s tr1)"

definition evictNext :: "lib \<Rightarrow> kube \<Rightarrow> nova \<Rightarrow> Eviction \<Rightarrow> int \<Rightarrow> trace \<Rightarrow> reconcile_result \<times> trace" where
  "evictNext L K N ev limit tr =
     (case evict_pass L N ev limit tr of
        (s, tr1) \<Rightarrow>
          (case updateStatus L K (es_eviction s) tr1 of
             (Some err, tr2) \<Rightarrow> ((no_requeue, Some err), tr2)
           | (None, tr2) \<Rightarrow>
               ((\<lparr>RequeueAfter =
                   (if inFlight s + started s = 0 \<and> length (ev_outstanding (es_eviction s)) > 0
                    then ShortRetryTime else DefaultPollTime)\<rparr>, None), tr2)))"

section \<open>handlePreflight, handleRunning and Reconcile\<close>

definition handlePreflight :: "lib \<Rightarrow> kube \<Rightarrow> nova \<Rightarrow> Eviction \<Rightarrow> Hypervisor \<Rightarrow> trace \<Rightarrow> reconcile_result \<times> trace" where
  "handlePreflight L K N ev hv tr =
     (let expectHypervisor = (HypervisorID (hv_Status hv) \<noteq> [] \<and> ServiceID (hv_Status hv) \<noteq> []) in
      if expectHypervisor \<and> \<not> IsStatusConditionTrue L (hv_Conditions hv) ConditionTypeHypervisorDisabled
      then
        (let c = mk_condition ConditionTypePreflight ConditionFalse ConditionReasonFailed ''hypervisor not disabled'' in
         if snd (SetStatusCondition L (ev_Conditions (ev_Status ev)) c)
         then (case updateStatus L K (ev_set_condition L c ev) tr of (err, tr1) \<Rightarrow> ((no_requeue, err), tr1))
         else ((\<lparr>RequeueAfter = DefaultPollTime\<rparr>, None), tr))
      else
        (case ask (n_hypervisors_GetExt N (HypervisorID (hv_Status hv)))
                (Compute (HypervisorsGetExt (HypervisorID (hv_Status hv)))) tr of
           (Inl err, tr1) \<Rightarrow>
             if \<not> ResponseCodeIs L err 404 then ((no_requeue, Some err), tr1)
             else if expectHypervisor
             then (case updateStatus L K (ev_set_condition L
                     (mk_condition ConditionTypeEvicting ConditionFalse ConditionReasonFailed
                        (''failed to get hypervisor '' @ Error_text err)) ev) tr1 of
                     (e, tr2) \<Rightarrow> ((no_requeue, e), tr2))
             else (case updateStatus L K (ev_set_ram 0 (ev_set_condition L
                     (mk_condition ConditionTypeEvicting ConditionFalse ConditionReasonSucceeded
                        ''eviction completed successfully due to expected case of no hypervisor'') ev)) tr1 of
                     (e, tr2) \<Rightarrow> ((no_requeue, e), tr2))
         | (Inr hypervisor, tr1) \<Rightarrow>
             let ev1 = (case nh_Servers hypervisor of
                          Some uuids \<Rightarrow> ev_set_outstanding uuids ev
                        | None \<Rightarrow> ev);
                 ev2 = ev_set_condition L
                         (mk_condition ConditionTypePreflight ConditionTrue ConditionReasonSucceeded
                            ''Preflight checks passed, hypervisor is disabled and ready for eviction'')
                         (ev_set_ram (nh_MemoryMBUsed hypervisor) (ev_set_service (nh_ID hypervisor) ev1))
             in (case updateStatus L K ev2 tr1 of (e, tr2) \<Rightarrow> ((no_requeue, e), tr2))))"

definition eviction_completed :: condition where
  "eviction_completed =
     mk_condition ConditionTypeEvicting ConditionFalse ConditionReasonSucceeded ''eviction completed successfully''"

definition handleRunning ::
    "lib \<Rightarrow> kube \<Rightarrow> nova \<Rightarrow> global_vars \<Rightarrow> Eviction \<Rightarrow> Hypervisor \<Rightarrow> trace \<Rightarrow> reconcile_result \<times> trace" where
  "handleRunning L K N g ev hypervisor tr =
     (if \<not> IsStatusConditionTrue L (ev_Conditions (ev_Status ev)) ConditionTypePreflight
      then handlePreflight L K N ev hypervisor tr
      else if length (ev_outstanding ev) > 0
      then evictNext L K N ev (ResolveConcurrency g (Traits (hv_Status hypervisor))) tr
      else (case updateStatus L K (ev_set_ram 0 (ev_set_condition L eviction_completed ev)) tr of
              (err, tr1) \<Rightarrow> ((no_requeue, err), tr1)))"

definition Eviction_Reconcile ::
    "lib \<Rightarrow> kube \<Rightarrow> nova \<Rightarrow> global_vars \<Rightarrow> string \<Rightarrow> trace \<Rightarrow> reconcile_result \<times> trace" where
  "Eviction_Reconcile L K N g name tr =
     (case ask (k_get_Eviction K name) (Kube (GetEviction name)) tr of
        (Inl err, tr1) \<Rightarrow> ((no_requeue, IgnoreNotFound L err), tr1)
      | (Inr ev, tr1) \<Rightarrow>
          (case ask (k_get_Hypervisor K (es_Hypervisor (ev_Spec ev)))
                  (Kube (GetHypervisor (es_Hypervisor (ev_Spec ev)))) tr1 of
             (Inl err, tr2) \<Rightarrow> ((no_requeue, IgnoreNotFound L err), tr2)
           | (Inr hv, tr2) \<Rightarrow>
               if DeletionTimestamp (ev_Meta ev) \<noteq> 0 then (reconcile_ok, tr2)
               else
                 (case FindStatusCondition L (ev_Conditions (ev_Status ev)) ConditionTypeEvicting of
                    None \<Rightarrow>
                      (case updateStatus L K (ev_set_condition L
                              (mk_condition ConditionTypeEvicting ConditionTrue ConditionReasonRunning ''Running'') ev) tr2 of
                         (err, tr3) \<Rightarrow> ((no_requeue, err), tr3))
                  | Some statusCondition \<Rightarrow>
                      (case Status statusCondition of
                         ConditionTrue \<Rightarrow> handleRunning L K N g ev hv tr2
                       | ConditionFalse \<Rightarrow> (reconcile_ok, tr2)
                       | ConditionUnknown \<Rightarrow> (reconcile_ok, tr2)))))"

section \<open>Lemmas on the queue\<close>

lemma removeInstance_remove1: "removeInstance us x = remove1 x us"
  by (induction us) auto

lemma first_index_Some: "first_index us x = Some i \<Longrightarrow> i < length us \<and> us ! i = x \<and> x \<notin> set (take i us)"
  by (induction us arbitrary: i) (auto split: if_splits)

lemma first_index_None: "first_index us x = None \<longleftrightarrow> x \<notin> set us"
  by (induction us) auto

lemma mset_deprioritize: "mset (deprioritize us x) = mset us"
proof (cases "first_index us x")
  case None
  then show ?thesis by (simp add: deprioritize_def)
next
  case (Some i)
  then have "us = take i us @ x # drop (i + 1) us"
    by (metis Suc_eq_plus1 first_index_Some id_take_nth_drop)
  then have "mset us = mset (take i us @ x # drop (i + 1) us)" by (rule arg_cong)
  with Some show ?thesis by (simp add: deprioritize_def)
qed

lemma deprioritize_hd: "x \<in> set us \<Longrightarrow> hd (deprioritize us x) = x"
proof -
  assume "x \<in> set us"
  then obtain i where "first_index us x = Some i" by (metis first_index_None option.exhaust)
  then show ?thesis
    using first_index_Some [of us x i] by (auto simp: deprioritize_def hd_conv_nth)
qed

section \<open>Lemmas on the in-memory Eviction\<close>

lemma ev_set_sel [simp]:
  "ev_Spec (ev_set_condition L c ev) = ev_Spec ev"
  "ev_Meta (ev_set_condition L c ev) = ev_Meta ev"
  "ev_outstanding (ev_set_condition L c ev) = ev_outstanding ev"
  "ev_Spec (ev_set_outstanding us ev) = ev_Spec ev"
  "ev_Meta (ev_set_outstanding us ev) = ev_Meta ev"
  "ev_outstanding (ev_set_outstanding us ev) = us"
  "ev_outstanding (ev_set_ram n ev) = ev_outstanding ev"
  "ev_Spec (ev_set_ram n ev) = ev_Spec ev"
  "ev_Meta (ev_set_ram n ev) = ev_Meta ev"
  "ev_outstanding (ev_set_service n' ev) = ev_outstanding ev"
  "ev_Meta (ev_set_service n' ev) = ev_Meta ev"
  "ev_Conditions (ev_Status (ev_set_condition L c ev)) = setCondition L (ev_Conditions (ev_Status ev)) c"
  "ev_Conditions (ev_Status (ev_set_outstanding us ev)) = ev_Conditions (ev_Status ev)"
  "ev_Conditions (ev_Status (ev_set_ram n ev)) = ev_Conditions (ev_Status ev)"
  "ev_Conditions (ev_Status (ev_set_service n' ev)) = ev_Conditions (ev_Status ev)"
  by (simp_all add: ev_defs)

lemma setMigrationSucceeded_sel [simp]:
  "ev_Spec (setMigrationSucceeded L ev msg) = ev_Spec ev"
  "ev_Meta (setMigrationSucceeded L ev msg) = ev_Meta ev"
  "ev_outstanding (setMigrationSucceeded L ev msg) = ev_outstanding ev"
  by (auto simp: setMigrationSucceeded_def Let_def split: option.splits)

lemma removeGone_cases:
  obtains (kept) "\<not> ResponseCodeIs L err 404" and "removeGone L ev u err = (ev, False)"
  | (gone) ev' where "ResponseCodeIs L err 404" and "removeGone L ev u err = (ev', True)"
      and "ev_Spec ev' = ev_Spec ev" and "ev_Meta ev' = ev_Meta ev"
      and "ev_outstanding ev' = remove1 u (ev_outstanding ev)"
  by (cases "ResponseCodeIs L err 404") (auto simp: removeGone_def removeInstance_remove1)

section \<open>Events of a pass\<close>

text \<open>
  What Nova's answers mean to the drain of a host, read off the answers alone. A server is busy
  when it is in transit, waits for the confirmation of a resize away from the host, or is being
  deleted on the host; it has left when Nova reports it settled on another host.
\<close>

definition vm_host :: "server \<Rightarrow> string" where
  "vm_host vm = takeWhile (\<lambda>c. c \<noteq> CHR ''.'') (sv_HypervisorHostname vm)"

definition vm_busy :: "string \<Rightarrow> server \<Rightarrow> bool" where
  "vm_busy host vm \<longleftrightarrow>
     sv_Status vm \<in> {''MIGRATING'', ''RESIZE''}
     \<or> sv_Status vm \<noteq> ''ERROR'' \<and>
       (isMigrationTaskState (sv_TaskState vm)
        \<or> (if vm_host vm \<noteq> host then sv_Status vm = ''VERIFY_RESIZE'' else sv_TaskState vm = ''deleting''))"

definition vm_left :: "string \<Rightarrow> server \<Rightarrow> bool" where
  "vm_left host vm \<longleftrightarrow>
     vm_host vm \<noteq> host \<and> \<not> isMigrationTaskState (sv_TaskState vm)
     \<and> sv_Status vm \<notin> {''MIGRATING'', ''RESIZE'', ''ERROR'', ''VERIFY_RESIZE''}"

definition vm_movable :: "string \<Rightarrow> server \<Rightarrow> bool" where
  "vm_movable host vm \<longleftrightarrow>
     vm_host vm = host \<and> sv_Status vm \<notin> {''MIGRATING'', ''RESIZE'', ''ERROR''}
     \<and> \<not> isMigrationTaskState (sv_TaskState vm) \<and> sv_TaskState vm \<noteq> ''deleting''"

definition busy_reply :: "nova \<Rightarrow> string \<Rightarrow> trace \<Rightarrow> call \<Rightarrow> bool" where
  "busy_reply N host tr c =
     (case c of Server (ServersGet u) \<Rightarrow>
        (case n_servers_Get N u tr of Inr vm \<Rightarrow> vm_busy host vm | Inl _ \<Rightarrow> False)
      | _ \<Rightarrow> False)"

definition trigger_ok :: "nova \<Rightarrow> trace \<Rightarrow> call \<Rightarrow> bool" where
  "trigger_ok N tr c =
     (case c of
        Server (ServersLiveMigrate u b) \<Rightarrow> n_servers_LiveMigrate N u b tr = None
      | Server (ServersMigrate u) \<Rightarrow> n_servers_Migrate N u tr = None
      | _ \<Rightarrow> False)"

definition not_found :: "lib \<Rightarrow> go_error option \<Rightarrow> bool" where
  "not_found L r \<longleftrightarrow> (\<exists>e. r = Some e \<and> ResponseCodeIs L e 404)"

definition gone_reply :: "lib \<Rightarrow> nova \<Rightarrow> string \<Rightarrow> string \<Rightarrow> trace \<Rightarrow> call \<Rightarrow> bool" where
  "gone_reply L N host x tr c =
     (case c of
        Server (ServersGet u) \<Rightarrow> u = x \<and>
          (case n_servers_Get N u tr of Inl e \<Rightarrow> ResponseCodeIs L e 404 | Inr vm \<Rightarrow> vm_left host vm)
      | Server (ServersConfirmResize u) \<Rightarrow> u = x \<and> not_found L (n_servers_ConfirmResize N u tr)
      | Server (ServersLiveMigrate u b) \<Rightarrow> u = x \<and> not_found L (n_servers_LiveMigrate N u b tr)
      | Server (ServersMigrate u) \<Rightarrow> u = x \<and> not_found L (n_servers_Migrate N u tr)
      | _ \<Rightarrow> False)"

text \<open>
  Documented behaviour the accounting relies on: Nova returns the server it was asked for, and
  \<open>gophercloud.ResponseCodeIs\<close> looks through errors wrapped with \<open>%w\<close>.
\<close>

definition server_laws :: "nova \<Rightarrow> bool" where
  "server_laws N \<longleftrightarrow> (\<forall>u tr vm. n_servers_Get N u tr = Inr vm \<longrightarrow> sv_ID vm = u)"

definition wrap_laws :: "lib \<Rightarrow> bool" where
  "wrap_laws L \<longleftrightarrow> (\<forall>p e n. ResponseCodeIs L (Errorf p e) n = ResponseCodeIs L e n)"

lemma wrap_laws_list_lib [simp]: "wrap_laws list_lib"
  by (simp add: wrap_laws_def list_lib_def)

lemma vm_host_Cut: "fst (strings_Cut (sv_HypervisorHostname vm) (CHR ''.'')) = vm_host vm"
  by (simp add: fst_strings_Cut vm_host_def)

section \<open>One visit of the scan\<close>

lemma count_remove1_less:
  "count (mset (remove1 u us)) x < count (mset us) x \<Longrightarrow> x = u"
  by (auto split: if_splits)

text \<open>
  The effect of a visit, one case per branch of the loop body, stated by the events: nothing
  but the answers of Nova decides it.
\<close>

lemma evict_visit_cases:
  assumes "evict_visit L N u s tr = (s', tr')"
  obtains (transient) e where "n_servers_Get N u tr = Inl e" "\<not> ResponseCodeIs L e 404"
      "s' = s\<lparr>errs := errs s @ [e]\<rparr>" "tr' = tr @ [Server (ServersGet u)]"
  | (gone) e ev where "n_servers_Get N u tr = Inl e" "ResponseCodeIs L e 404"
      "removeGone L (es_eviction s) u e = (ev, True)"
      "s' = s\<lparr>es_eviction := ev\<rparr>" "tr' = tr @ [Server (ServersGet u)]"
  | (busy) vm ev where "n_servers_Get N u tr = Inr vm" "vm_busy (es_Hypervisor (ev_Spec (es_eviction s))) vm"
      "ev_Spec ev = ev_Spec (es_eviction s)" "ev_Meta ev = ev_Meta (es_eviction s)"
      "mset (ev_outstanding ev) = mset (ev_outstanding (es_eviction s))"
      "s' = s\<lparr>es_eviction := ev, inFlight := inFlight s + 1\<rparr>" "tr' = tr @ [Server (ServersGet u)]"
  | (confirm) vm ev es where "n_servers_Get N u tr = Inr vm" "vm_busy (es_Hypervisor (ev_Spec (es_eviction s))) vm"
      "s' = s\<lparr>es_eviction := ev, inFlight := inFlight s + 1, errs := es\<rparr>"
      "tr' = tr @ [Server (ServersGet u), Server (ServersConfirmResize (sv_ID vm))]"
      "ev = es_eviction s \<or> (\<exists>e. n_servers_ConfirmResize N (sv_ID vm) (tr @ [Server (ServersGet u)]) = Some e
         \<and> ResponseCodeIs L e 404 \<and> removeGone L (es_eviction s) u e = (ev, True))"
  | (failed) vm ev es where "n_servers_Get N u tr = Inr vm" "sv_Status vm = ''ERROR''"
      "ev_Spec ev = ev_Spec (es_eviction s)" "ev_Meta ev = ev_Meta (es_eviction s)"
      "mset (ev_outstanding ev) = mset (ev_outstanding (es_eviction s))"
      "s' = s\<lparr>es_eviction := ev, errs := es\<rparr>" "tr' = tr @ [Server (ServersGet u)]"
  | (left) vm ev where "n_servers_Get N u tr = Inr vm" "vm_left (es_Hypervisor (ev_Spec (es_eviction s))) vm"
      "ev_Spec ev = ev_Spec (es_eviction s)" "ev_Meta ev = ev_Meta (es_eviction s)"
      "ev_outstanding ev = remove1 u (ev_outstanding (es_eviction s))"
      "s' = s\<lparr>es_eviction := ev\<rparr>" "tr' = tr @ [Server (ServersGet u)]"
  | (movable) vm where "n_servers_Get N u tr = Inr vm" "vm_movable (es_Hypervisor (ev_Spec (es_eviction s))) vm"
      "s' = s\<lparr>candidates := candidates s @
         [\<lparr>cand_id = sv_ID vm, cand_live = (sv_Status vm = ''ACTIVE'' \<or> sv_PowerState vm = 1)\<rparr>]\<rparr>"
      "tr' = tr @ [Server (ServersGet u)]"
proof (cases "n_servers_Get N u tr")
  case (Inl e)
  show ?thesis
  proof (rule removeGone_cases [of L e "es_eviction s" u])
    assume "\<not> ResponseCodeIs L e 404" "removeGone L (es_eviction s) u e = (es_eviction s, False)"
    with Inl assms show ?thesis by (intro transient) (auto simp: evict_visit_def ask_def)
  next
    fix ev assume "ResponseCodeIs L e 404" "removeGone L (es_eviction s) u e = (ev, True)"
    with Inl assms show ?thesis by (intro gone) (auto simp: evict_visit_def ask_def)
  qed
next
  case (Inr vm)
  let ?host = "es_Hypervisor (ev_Spec (es_eviction s))"
  consider (transit) "sv_Status vm = ''MIGRATING'' \<or> sv_Status vm = ''RESIZE''"
    | (err) "sv_Status vm = ''ERROR''"
    | (task) "sv_Status vm \<notin> {''MIGRATING'', ''RESIZE'', ''ERROR''}" "isMigrationTaskState (sv_TaskState vm)"
    | (here) "sv_Status vm \<notin> {''MIGRATING'', ''RESIZE'', ''ERROR''}" "\<not> isMigrationTaskState (sv_TaskState vm)"
        "vm_host vm = ?host"
    | (away) "sv_Status vm \<notin> {''MIGRATING'', ''RESIZE'', ''ERROR''}" "\<not> isMigrationTaskState (sv_TaskState vm)"
        "vm_host vm \<noteq> ?host"
    by blast
  then show ?thesis
  proof cases
    case transit
    with Inr assms show ?thesis
      by (intro busy [of vm "es_eviction s"]) (auto simp: evict_visit_def ask_def vm_busy_def)
  next
    case err
    with Inr assms show ?thesis
      by (intro failed [OF Inr err, of "es_eviction s'" "errs s'"])
        (auto simp: evict_visit_def ask_def mset_deprioritize)
  next
    case task
    with Inr assms show ?thesis
      by (intro busy [of vm "es_eviction s"]) (auto simp: evict_visit_def ask_def vm_busy_def)
  next
    case here
    show ?thesis
    proof (cases "sv_TaskState vm = ''deleting''")
      case True
      with here Inr assms show ?thesis
        by (intro busy [OF Inr, of "es_eviction s'"])
          (auto simp: evict_visit_def ask_def vm_busy_def vm_host_Cut mset_deprioritize)
    next
      case False
      with here Inr assms show ?thesis
        by (intro movable [OF Inr])
          (auto simp: evict_visit_def ask_def vm_movable_def vm_host_Cut)
    qed
  next
    case away
    show ?thesis
    proof (cases "sv_Status vm = ''VERIFY_RESIZE''")
      case verify: True
      let ?r = "n_servers_ConfirmResize N (sv_ID vm) (tr @ [Server (ServersGet u)])"
      have b: "vm_busy ?host vm" using away verify by (simp add: vm_busy_def)
      show ?thesis
      proof (cases ?r)
        case None
        with away verify Inr assms show ?thesis
          by (intro confirm [OF Inr b, where ev = "es_eviction s" and es = "errs s"])
            (auto simp: evict_visit_def ask_def vm_host_Cut)
      next
        case (Some e)
        show ?thesis
        proof (rule removeGone_cases [of L e "es_eviction s" u])
          assume "removeGone L (es_eviction s) u e = (es_eviction s, False)"
          with Some away verify Inr assms show ?thesis
            by (intro confirm [OF Inr b, where ev = "es_eviction s" and es = "errs s @ [e]"])
              (auto simp: evict_visit_def ask_def vm_host_Cut)
        next
          fix ev assume "ResponseCodeIs L e 404" "removeGone L (es_eviction s) u e = (ev, True)"
          with Some away verify Inr assms show ?thesis
            by (intro confirm [OF Inr b, where ev = ev and es = "errs s"])
              (auto simp: evict_visit_def ask_def vm_host_Cut)
        qed
      qed
    next
      case False
      with away Inr assms show ?thesis
        by (intro left [OF Inr, of "es_eviction s'"])
          (auto simp: evict_visit_def ask_def vm_left_def vm_host_Cut removeInstance_remove1)
    qed
  qed
qed

text \<open>
  \<open>drains L N host tr cs us us'\<close>: over the calls \<open>cs\<close> made after \<open>tr\<close>, the queue went from \<open>us\<close> to
  \<open>us'\<close> by losing only entries that Nova reported gone or settled elsewhere.
\<close>

definition drains :: "lib \<Rightarrow> nova \<Rightarrow> string \<Rightarrow> trace \<Rightarrow> call list \<Rightarrow> string list \<Rightarrow> string list \<Rightarrow> bool" where
  "drains L N host tr cs us us' \<longleftrightarrow>
     mset us' \<subseteq># mset us \<and>
     (\<forall>x. count (mset us') x < count (mset us) x \<longrightarrow> occurs (gone_reply L N host x) tr cs)"

lemma drains_same: "mset us' = mset us \<Longrightarrow> drains L N host tr cs us us'"
  by (simp add: drains_def)

lemma drains_remove1:
  "occurs (gone_reply L N host u) tr cs \<Longrightarrow> drains L N host tr cs us (remove1 u us)"
  by (auto simp: drains_def diff_subset_eq_self split: if_splits)

lemma drains_trans:
  assumes "drains L N host tr cs us us1" and "drains L N host (tr @ cs) ds us1 us2"
  shows "drains L N host tr (cs @ ds) us us2"
proof -
  have "occurs (gone_reply L N host x) tr (cs @ ds)" if "count (mset us2) x < count (mset us) x" for x
  proof (cases "count (mset us2) x < count (mset us1) x")
    case True
    with assms(2) show ?thesis by (simp add: drains_def)
  next
    case False
    with that have "count (mset us1) x < count (mset us) x" by linarith
    with assms(1) show ?thesis by (simp add: drains_def)
  qed
  moreover have "mset us2 \<subseteq># mset us" using assms unfolding drains_def by (meson subset_mset.order_trans)
  ultimately show ?thesis by (simp add: drains_def)
qed

text \<open>What the loops keep: the identity of the Eviction, and the accounts of slots and of the queue.\<close>

definition accounts ::
    "lib \<Rightarrow> nova \<Rightarrow> trace \<Rightarrow> evict_state \<Rightarrow> call list \<Rightarrow> evict_state \<Rightarrow> bool" where
  "accounts L N tr s cs s' \<longleftrightarrow>
     ev_Spec (es_eviction s') = ev_Spec (es_eviction s)
     \<and> ev_Meta (es_eviction s') = ev_Meta (es_eviction s)
     \<and> inFlight s' = inFlight s + int (count_calls (busy_reply N (es_Hypervisor (ev_Spec (es_eviction s)))) tr cs)
     \<and> started s' = started s + int (count_calls (trigger_ok N) tr cs)
     \<and> drains L N (es_Hypervisor (ev_Spec (es_eviction s))) tr cs
          (ev_outstanding (es_eviction s)) (ev_outstanding (es_eviction s'))"

lemma accounts_refl: "accounts L N tr s [] s"
  by (simp add: accounts_def drains_same)

lemma accounts_trans:
  "accounts L N tr s cs s1 \<Longrightarrow> accounts L N (tr @ cs) s1 ds s2 \<Longrightarrow> accounts L N tr s (cs @ ds) s2"
  by (auto simp: accounts_def intro: drains_trans)

lemma evict_visit_accounts:
  assumes "evict_visit L N u s tr = (s', tr')" and "server_laws N"
  obtains cs where "tr' = tr @ cs" and "accounts L N tr s cs s'"
  using assms(1)
proof (cases rule: evict_visit_cases)
  case (gone e ev)
  let ?h = "es_Hypervisor (ev_Spec (es_eviction s))"
  have ev: "ev_Spec ev = ev_Spec (es_eviction s)" "ev_Meta ev = ev_Meta (es_eviction s)"
    "ev_outstanding ev = remove1 u (ev_outstanding (es_eviction s))"
    using gone(2,3) by (auto simp: removeGone_def removeInstance_remove1)
  moreover have "drains L N ?h tr [Server (ServersGet u)] (ev_outstanding (es_eviction s)) (ev_outstanding ev)"
    unfolding ev by (rule drains_remove1) (simp add: gone_reply_def gone)
  ultimately show ?thesis using gone
    by (intro that [of "[Server (ServersGet u)]"]) (simp_all add: accounts_def busy_reply_def trigger_ok_def)
next
  case (left vm ev)
  let ?h = "es_Hypervisor (ev_Spec (es_eviction s))"
  have "drains L N ?h tr [Server (ServersGet u)] (ev_outstanding (es_eviction s)) (ev_outstanding ev)"
    unfolding left(5) by (rule drains_remove1) (simp add: gone_reply_def left)
  moreover have "\<not> vm_busy ?h vm" using left(2) by (auto simp: vm_left_def vm_busy_def)
  ultimately show ?thesis using left
    by (intro that [of "[Server (ServersGet u)]"]) (simp_all add: accounts_def busy_reply_def trigger_ok_def)
next
  case (confirm vm ev es)
  let ?h = "es_Hypervisor (ev_Spec (es_eviction s))"
  let ?cs = "[Server (ServersGet u), Server (ServersConfirmResize (sv_ID vm))]"
  have id: "sv_ID vm = u" using assms(2) confirm(1) by (simp add: server_laws_def)
  have "drains L N ?h tr ?cs (ev_outstanding (es_eviction s)) (ev_outstanding ev)
      \<and> ev_Spec ev = ev_Spec (es_eviction s) \<and> ev_Meta ev = ev_Meta (es_eviction s)"
    using confirm(5)
  proof
    assume "ev = es_eviction s"
    then show ?thesis by (simp add: drains_same)
  next
    assume "\<exists>e. n_servers_ConfirmResize N (sv_ID vm) (tr @ [Server (ServersGet u)]) = Some e
         \<and> ResponseCodeIs L e 404 \<and> removeGone L (es_eviction s) u e = (ev, True)"
    then obtain e where e: "n_servers_ConfirmResize N u (tr @ [Server (ServersGet u)]) = Some e"
      "ResponseCodeIs L e 404" and ev: "ev_Spec ev = ev_Spec (es_eviction s)"
      "ev_Meta ev = ev_Meta (es_eviction s)" "ev_outstanding ev = remove1 u (ev_outstanding (es_eviction s))"
      unfolding id by (auto simp: removeGone_def removeInstance_remove1)
    have "drains L N ?h tr ?cs (ev_outstanding (es_eviction s)) (ev_outstanding ev)"
      unfolding ev by (rule drains_remove1) (simp add: gone_reply_def not_found_def id e)
    with ev show ?thesis by simp
  qed
  with confirm show ?thesis
    by (intro that [of ?cs]) (simp_all add: accounts_def busy_reply_def trigger_ok_def)
next
  case (movable vm)
  then show ?thesis
    by (intro that [of "[Server (ServersGet u)]"])
      (auto simp: accounts_def busy_reply_def trigger_ok_def vm_movable_def vm_busy_def intro: drains_same)
qed (rule that [of "[Server (ServersGet u)]"];
    force simp: accounts_def busy_reply_def trigger_ok_def vm_busy_def intro: drains_same)+

section \<open>The two loops\<close>

lemma evict_visit_inFlight_le: "evict_visit L N u s tr = (s', tr') \<Longrightarrow> inFlight s' \<le> inFlight s + 1"
  by (erule evict_visit_cases) auto

lemma evict_scan_accounts:
  "evict_scan L N limit us s tr = (s', tr') \<Longrightarrow> server_laws N \<Longrightarrow> inFlight s \<le> limit \<Longrightarrow>
   \<exists>cs. tr' = tr @ cs \<and> accounts L N tr s cs s' \<and> inFlight s' \<le> limit"
proof (induction us arbitrary: s tr)
  case Nil
  then show ?case by (intro exI [of _ "[]"]) (auto simp: accounts_refl)
next
  case (Cons u us)
  show ?case
  proof (cases "inFlight s \<ge> limit")
    case True
    with Cons.prems show ?thesis by (intro exI [of _ "[]"]) (auto simp: accounts_refl)
  next
    case False
    obtain s1 tr1 where v: "evict_visit L N u s tr = (s1, tr1)" by fastforce
    then obtain cs where cs: "tr1 = tr @ cs" "accounts L N tr s cs s1"
      using evict_visit_accounts Cons.prems(2) by blast
    have "inFlight s1 \<le> limit" using evict_visit_inFlight_le [OF v] False by linarith
    with Cons.IH [of s1 tr1] v False Cons.prems obtain ds where
      "tr' = tr1 @ ds" "accounts L N tr1 s1 ds s'" "inFlight s' \<le> limit" by auto
    with cs accounts_trans show ?thesis by (intro exI [of _ "cs @ ds"]) auto
  qed
qed

text \<open>Starting a candidate, with the two migration modes side by side.\<close>

definition trigger_call :: "candidate \<Rightarrow> call" where
  "trigger_call c = Server (if cand_live c then ServersLiveMigrate (cand_id c) False else ServersMigrate (cand_id c))"

definition trigger_reply :: "nova \<Rightarrow> candidate \<Rightarrow> trace \<Rightarrow> go_error option" where
  "trigger_reply N c tr =
     (if cand_live c then n_servers_LiveMigrate N (cand_id c) False tr else n_servers_Migrate N (cand_id c) tr)"

definition trigger_error :: "candidate \<Rightarrow> go_error \<Rightarrow> go_error" where
  "trigger_error c e =
     (if cand_live c then Errorf (''failed to evict VM '' @ cand_id c @ '' due to '') e
      else Errorf (''failed to evict stopped server '' @ cand_id c @ '' due to '') e)"

definition trigger_failed :: "lib \<Rightarrow> candidate \<Rightarrow> go_error \<Rightarrow> Eviction \<Rightarrow> Eviction" where
  "trigger_failed L c e ev = ev_set_condition L (mk_condition ConditionTypeMigration ConditionFalse
     ConditionReasonFailed (Error_text (trigger_error c e))) ev"

lemma evict_trigger_eq:
  "evict_trigger L N c s tr =
     (case trigger_reply N c tr of
        None \<Rightarrow> (s\<lparr>started := started s + 1\<rparr>, tr @ [trigger_call c])
      | Some e \<Rightarrow>
          if ResponseCodeIs L (trigger_error c e) 404
          then (s\<lparr>es_eviction := fst (removeGone L (trigger_failed L c e (es_eviction s)) (cand_id c) (trigger_error c e))\<rparr>,
                tr @ [trigger_call c])
          else (s\<lparr>es_eviction := trigger_failed L c e (es_eviction s), errs := errs s @ [trigger_error c e]\<rparr>,
                tr @ [trigger_call c]))"
  by (cases "cand_live c")
    (auto simp: evict_trigger_def liveMigrate_def coldMigrate_def ask_def Let_def trigger_reply_def
      trigger_call_def removeGone_def trigger_failed_def trigger_error_def
      simp del: append.simps Error_text.simps split: option.splits)

lemma trigger_events:
  "trigger_ok N tr (trigger_call c) \<longleftrightarrow> trigger_reply N c tr = None"
  "\<not> busy_reply N host tr (trigger_call c)"
  "gone_reply L N host (cand_id c) tr (trigger_call c) \<longleftrightarrow> not_found L (trigger_reply N c tr)"
  by (auto simp: trigger_ok_def busy_reply_def gone_reply_def trigger_call_def trigger_reply_def)

lemma trigger_error_code [simp]:
  "wrap_laws L \<Longrightarrow> ResponseCodeIs L (trigger_error c e) n = ResponseCodeIs L e n"
  by (simp add: wrap_laws_def trigger_error_def)

lemma evict_trigger_accounts:
  assumes t: "evict_trigger L N c s tr = (s', tr')" and wrap: "wrap_laws L"
  shows "tr' = tr @ [trigger_call c] \<and> accounts L N tr s [trigger_call c] s'
    \<and> inFlight s' = inFlight s \<and> started s' \<le> started s + 1"
proof (cases "trigger_reply N c tr")
  case None
  with t show ?thesis by (auto simp: evict_trigger_eq accounts_def trigger_events drains_same)
next
  case (Some e)
  show ?thesis
  proof (cases "ResponseCodeIs L e 404")
    case True
    with Some have "not_found L (trigger_reply N c tr)" by (simp add: not_found_def)
    with Some t wrap True show ?thesis
      by (auto simp: evict_trigger_eq accounts_def trigger_events removeGone_def trigger_failed_def
          removeInstance_remove1 intro!: drains_remove1)
  next
    case False
    with Some t wrap show ?thesis
      by (auto simp: evict_trigger_eq accounts_def trigger_events trigger_failed_def intro!: drains_same)
  qed
qed

lemma evict_start_accounts:
  "evict_start L N limit cs s tr = (s', tr') \<Longrightarrow> wrap_laws L \<Longrightarrow> inFlight s + started s \<le> limit \<Longrightarrow>
   \<exists>ds. tr' = tr @ ds \<and> accounts L N tr s ds s' \<and> inFlight s' + started s' \<le> limit"
proof (induction cs arbitrary: s tr)
  case Nil
  then show ?case by (intro exI [of _ "[]"]) (auto simp: accounts_refl)
next
  case (Cons c cs)
  show ?case
  proof (cases "inFlight s + started s \<ge> limit")
    case True
    with Cons.prems show ?thesis by (intro exI [of _ "[]"]) (auto simp: accounts_refl)
  next
    case False
    obtain s1 tr1 where v: "evict_trigger L N c s tr = (s1, tr1)" by fastforce
    define ds where "ds = [trigger_call c]"
    from evict_trigger_accounts [OF v Cons.prems(2)] False have ds: "tr1 = tr @ ds"
      "accounts L N tr s ds s1" "inFlight s1 + started s1 \<le> limit" by (auto simp: ds_def)
    with Cons.IH [of s1 tr1] v False Cons.prems obtain es where
      "tr' = tr1 @ es" "accounts L N tr1 s1 es s'" "inFlight s' + started s' \<le> limit" by auto
    with ds accounts_trans show ?thesis by (intro exI [of _ "ds @ es"]) auto
  qed
qed

lemma evict_scan_started: "evict_scan L N limit us s tr = (s', tr') \<Longrightarrow> started s' = started s"
proof (induction us arbitrary: s tr)
  case (Cons u us)
  obtain s1 tr1 where v: "evict_visit L N u s tr = (s1, tr1)" by fastforce
  then have "started s1 = started s" by (rule evict_visit_cases) auto
  with Cons v show ?case by (auto split: if_splits)
qed simp

text \<open>The loops only talk to Nova about servers.\<close>

definition server_only :: "call \<Rightarrow> bool" where
  "server_only c \<longleftrightarrow> (\<exists>x. c = Server x)"

lemma evict_scan_server_only:
  "evict_scan L N limit us s tr = (s', tr') \<Longrightarrow> extends_by server_only tr tr'"
proof (induction us arbitrary: s tr)
  case (Cons u us)
  obtain s1 tr1 where v: "evict_visit L N u s tr = (s1, tr1)" by fastforce
  then have "extends_by server_only tr tr1"
    by (rule evict_visit_cases) (auto intro!: extends_by_append simp: server_only_def)
  with Cons v show ?case by (auto split: if_splits intro: extends_by_trans)
qed auto

lemma evict_start_server_only:
  "evict_start L N limit cs s tr = (s', tr') \<Longrightarrow> extends_by server_only tr tr'"
proof (induction cs arbitrary: s tr)
  case (Cons c cs)
  obtain s1 tr1 where v: "evict_trigger L N c s tr = (s1, tr1)" by fastforce
  then have "tr1 = tr @ [trigger_call c]" by (auto simp: evict_trigger_eq split: option.splits if_splits)
  then have "extends_by server_only tr tr1"
    by (auto intro!: extends_by_append simp: server_only_def trigger_call_def)
  with Cons v show ?case by (auto split: if_splits intro: extends_by_trans)
qed auto

lemma evict_pass_extends:
  assumes "evict_pass L N ev limit tr = (s, tr')"
  shows "extends_by server_only tr tr'"
proof -
  let ?l = "if limit < 1 then 1 else limit"
  obtain s1 tr1 where scan: "evict_scan L N ?l (ev_outstanding ev)
      \<lparr>es_eviction = ev, inFlight = 0, started = 0, candidates = [], errs = []\<rparr> tr = (s1, tr1)" by fastforce
  then have "evict_start L N ?l (candidates s1) s1 tr1 = (s, tr')"
    using assms by (simp add: evict_pass_def Let_def)
  with scan show ?thesis
    by (blast intro: extends_by_trans evict_scan_server_only evict_start_server_only)
qed

lemma evict_pass_server_calls:
  "evict_pass L N ev limit tr = (s, tr @ cs) \<Longrightarrow> list_all server_only cs"
  by (drule evict_pass_extends) (simp add: extends_by_def)

text \<open>The only condition the loops touch is \<open>MigratingInstance\<close>.\<close>

definition migration_updates :: "lib \<Rightarrow> Eviction \<Rightarrow> Eviction \<Rightarrow> bool" where
  "migration_updates L ev ev' \<longleftrightarrow> (\<exists>ds. (\<forall>d \<in> set ds. Type d = ConditionTypeMigration) \<and>
     ev_Conditions (ev_Status ev') = foldl (setCondition L) (ev_Conditions (ev_Status ev)) ds)"

lemma migration_updates_trans:
  assumes "migration_updates L e1 e2" "migration_updates L e2 e3"
  shows "migration_updates L e1 e3"
proof -
  from assms obtain ds es where "\<forall>d \<in> set ds. Type d = ConditionTypeMigration"
    "\<forall>d \<in> set es. Type d = ConditionTypeMigration"
    "ev_Conditions (ev_Status e3) = foldl (setCondition L) (ev_Conditions (ev_Status e1)) (ds @ es)"
    by (auto simp: migration_updates_def)
  then show ?thesis unfolding migration_updates_def by (intro exI [of _ "ds @ es"]) auto
qed

lemma migration_updates_same:
  "ev_Conditions (ev_Status ev') = ev_Conditions (ev_Status ev) \<Longrightarrow> migration_updates L ev ev'"
  unfolding migration_updates_def by (intro exI [of _ "[]"]) simp

lemma migration_updates_set:
  "ev_Conditions (ev_Status ev') = setCondition L (ev_Conditions (ev_Status ev)) c \<Longrightarrow>
   Type c = ConditionTypeMigration \<Longrightarrow> migration_updates L ev ev'"
  unfolding migration_updates_def by (intro exI [of _ "[c]"]) simp

lemma migration_updates_succeeded: "migration_updates L ev (setMigrationSucceeded L (ev_set_outstanding us ev) msg)"
  by (auto simp: setMigrationSucceeded_def Let_def split: option.splits
      intro: migration_updates_same migration_updates_set)

lemma migration_updates_mark:
  "migration_updates L ev (ev_set_condition L (mk_condition ConditionTypeMigration st r m) (ev_set_outstanding us ev))"
  by (rule migration_updates_set [where c = "mk_condition ConditionTypeMigration st r m"]) simp_all

lemma migration_updates_gone: "migration_updates L ev (fst (removeGone L ev u err))"
  by (auto simp: removeGone_def intro: migration_updates_same migration_updates_succeeded)

lemma migration_updates_trigger:
  "migration_updates L (es_eviction s) (es_eviction (fst (evict_trigger L N c s tr)))"
  by (auto simp: evict_trigger_eq trigger_failed_def split: option.split
      intro: migration_updates_same migration_updates_set
        migration_updates_trans [OF migration_updates_set migration_updates_gone])

lemma case_removeGone:
  "(case removeGone L ev u err of (a, True) \<Rightarrow> f a | (a, False) \<Rightarrow> h a) =
     (if ResponseCodeIs L err 404 then f (fst (removeGone L ev u err)) else h ev)"
  by (simp add: removeGone_def)

lemma migration_updates_visit:
  "migration_updates L (es_eviction s) (es_eviction (fst (evict_visit L N u s tr)))"
  unfolding evict_visit_def ask_def case_removeGone
  by (simp add: migration_updates_gone migration_updates_succeeded migration_updates_mark
      migration_updates_same split: sum.split option.split del: append.simps)

lemma migration_updates_scan:
  "migration_updates L (es_eviction s) (es_eviction (fst (evict_scan L N limit us s tr)))"
proof (induction us arbitrary: s tr)
  case (Cons u us)
  obtain s1 tr1 where v: "evict_visit L N u s tr = (s1, tr1)" by fastforce
  with migration_updates_visit [of L s N u tr] Cons [of s1 tr1] show ?case
    by (auto intro: migration_updates_same migration_updates_trans)
qed (simp add: migration_updates_same)

lemma migration_updates_start:
  "migration_updates L (es_eviction s) (es_eviction (fst (evict_start L N limit cs s tr)))"
proof (induction cs arbitrary: s tr)
  case (Cons c cs)
  obtain s1 tr1 where v: "evict_trigger L N c s tr = (s1, tr1)" by fastforce
  with migration_updates_trigger [of L s N c tr] Cons [of s1 tr1] show ?case
    by (auto intro: migration_updates_same migration_updates_trans)
qed (simp add: migration_updates_same)

lemma migration_updates_pass:
  assumes "evict_pass L N ev limit tr = (s, tr')"
  shows "migration_updates L ev (es_eviction s)"
proof -
  let ?l = "if limit < 1 then 1 else limit"
  let ?s0 = "\<lparr>es_eviction = ev, inFlight = 0, started = 0, candidates = [], errs = []\<rparr>"
  obtain s1 tr1 where scan: "evict_scan L N ?l (ev_outstanding ev) ?s0 tr = (s1, tr1)" by fastforce
  then have "evict_start L N ?l (candidates s1) s1 tr1 = (s, tr')"
    using assms by (simp add: evict_pass_def Let_def)
  with scan migration_updates_scan [of L ?s0 N ?l "ev_outstanding ev" tr]
    migration_updates_start [of L s1 N ?l "candidates s1" tr1]
  show ?thesis by (auto intro: migration_updates_trans)
qed

lemma evict_pass_accounts:
  assumes "evict_pass L N ev limit tr = (s, tr')" "server_laws N" "wrap_laws L"
  obtains cs where "tr' = tr @ cs"
    "accounts L N tr \<lparr>es_eviction = ev, inFlight = 0, started = 0, candidates = [], errs = []\<rparr> cs s"
    "inFlight s + started s \<le> max 1 limit"
proof -
  let ?l = "if limit < 1 then 1 else limit"
  let ?s0 = "\<lparr>es_eviction = ev, inFlight = 0, started = 0, candidates = [], errs = []\<rparr>"
  obtain s1 tr1 where scan: "evict_scan L N ?l (ev_outstanding ev) ?s0 tr = (s1, tr1)" by fastforce
  then obtain cs where cs: "tr1 = tr @ cs" "accounts L N tr ?s0 cs s1" "inFlight s1 \<le> ?l"
    using evict_scan_accounts [OF scan assms(2)] by (auto split: if_splits)
  have "started s1 = 0" using evict_scan_started [OF scan] by simp
  with cs have "inFlight s1 + started s1 \<le> ?l" by simp
  moreover have "evict_start L N ?l (candidates s1) s1 tr1 = (s, tr')"
    using assms(1) scan by (simp add: evict_pass_def Let_def)
  ultimately obtain ds where "tr' = tr1 @ ds" "accounts L N tr1 s1 ds s" "inFlight s + started s \<le> ?l"
    using evict_start_accounts assms(3) by blast
  with cs show ?thesis
    by (intro that [of "cs @ ds"]) (auto intro: accounts_trans split: if_splits)
qed

section \<open>The status update\<close>

definition update_call :: "lib \<Rightarrow> kube \<Rightarrow> string \<Rightarrow> EvictionStatus \<Rightarrow> call \<Rightarrow> bool" where
  "update_call L K name desired c \<longleftrightarrow> c = Kube (GetEviction name) \<or>
     (\<exists>fresh t. k_get_Eviction K name t = Inr fresh \<and>
        c = Kube (StatusPatchEviction fresh (fresh\<lparr>ev_Status := merge_status L desired (ev_Status fresh)\<rparr>)
          EvictionControllerName))"

lemma update_attempt_extends:
  "extends_by (update_call L K name d) tr t \<Longrightarrow>
   extends_by (update_call L K name d) tr (snd (update_attempt L K name d t))"
  by (auto simp: update_attempt_def ask_def update_call_def Let_def split: sum.splits
      intro!: extends_by_append)

lemma updateStatus_extends:
  "retry_laws L \<Longrightarrow>
   extends_by (update_call L K (Name (ev_Meta ev)) (ev_Status ev)) tr (snd (updateStatus L K ev tr))"
  unfolding updateStatus_def by (rule retry_keeps) (auto intro: update_attempt_extends)

lemma updateStatus_calls:
  assumes "retry_laws L" and "updateStatus L K ev tr = (r, tr')"
  obtains cs where "tr' = tr @ cs" and "list_all (update_call L K (Name (ev_Meta ev)) (ev_Status ev)) cs"
  using updateStatus_extends [OF assms(1), of K ev tr] assms(2) by (auto simp: extends_by_def)

lemma update_call_no_event:
  "update_call L K n d c \<Longrightarrow> \<not> busy_reply N host tr c \<and> \<not> trigger_ok N tr c \<and> \<not> gone_reply L N host x tr c"
  by (auto simp: update_call_def busy_reply_def trigger_ok_def gone_reply_def)

lemma merge_outstanding [simp]:
  "OutstandingInstances (merge_status L d f) = OutstandingInstances d"
  "OutstandingRamMb (merge_status L d f) = OutstandingRamMb d"
  "HypervisorServiceId (merge_status L d f) = HypervisorServiceId d"
  "ev_Conditions (merge_status L d f) = foldl (setCondition L) (ev_Conditions f) (ev_Conditions d)"
  by (simp_all add: merge_status_def)

text \<open>The calls of \<open>evictNext\<close>: those of the pass, then those of the status update.\<close>

lemma evictNext_split:
  assumes "evictNext L K N ev limit tr = (r, tr')" "retry_laws L"
  obtains s tr1 us where "evict_pass L N ev limit tr = (s, tr1)" and "tr' = tr1 @ us"
    and "list_all (update_call L K (Name (ev_Meta (es_eviction s))) (ev_Status (es_eviction s))) us"
proof -
  obtain s tr1 where p: "evict_pass L N ev limit tr = (s, tr1)" by fastforce
  obtain u tr2 where u: "updateStatus L K (es_eviction s) tr1 = (u, tr2)" by fastforce
  then have "tr' = tr2" using assms(1) p by (auto simp: evictNext_def split: option.splits)
  with u updateStatus_calls [OF assms(2) u] that p show ?thesis by blast
qed

lemma no_event_count:
  "list_all (update_call L K n d) us \<Longrightarrow> count_calls (busy_reply N host) tr us = 0"
  "list_all (update_call L K n d) us \<Longrightarrow> count_calls (trigger_ok N) tr us = 0"
  by (rule count_calls_none; auto simp: list_all_iff dest: update_call_no_event)+

end
