(* ===== verification/Eviction_Props.thy ===== *)
theory Eviction_Props
  imports Eviction_Ctrl Life_Cycle
begin

text \<open>
  Properties of the eviction controller (model in \<open>Eviction_Ctrl\<close>): the concurrency limit, the
  account of the queue, the gates of a migration, completion, progress, and the refinement of the
  life cycle of an eviction.
\<close>

section \<open>Properties\<close>

lemma evictNext_extends:
  assumes "retry_laws L"
  shows "\<exists>cs. snd (evictNext L K N ev limit tr) = tr @ cs"
proof -
  obtain r tr' where e: "evictNext L K N ev limit tr = (r, tr')" by fastforce
  then obtain s tr1 us where "evict_pass L N ev limit tr = (s, tr1)" "tr' = tr1 @ us"
    using assms by (rule evictNext_split)
  with e extends_by_trivial [OF evict_pass_extends] show ?thesis by fastforce
qed

lemma evictNext_bound:
  assumes "server_laws N" "wrap_laws L" "retry_laws L"
  shows "int (count_calls (busy_reply N (es_Hypervisor (ev_Spec ev))) tr
            (new_calls tr (snd (evictNext L K N ev limit tr))))
     + int (count_calls (trigger_ok N) tr (new_calls tr (snd (evictNext L K N ev limit tr)))) \<le> max 1 limit"
proof -
  obtain r tr' where e: "evictNext L K N ev limit tr = (r, tr')" by fastforce
  with assms obtain s tr1 us where p: "evict_pass L N ev limit tr = (s, tr1)" and tr': "tr' = tr1 @ us"
    and us: "list_all (update_call L K (Name (ev_Meta (es_eviction s))) (ev_Status (es_eviction s))) us"
    by (auto elim: evictNext_split)
  from evict_pass_accounts [OF p assms(1,2)] obtain cs where "tr1 = tr @ cs"
    "accounts L N tr \<lparr>es_eviction = ev, inFlight = 0, started = 0, candidates = [], errs = []\<rparr> cs s"
    "inFlight s + started s \<le> max 1 limit" .
  with e tr' no_event_count [OF us] show ?thesis by (simp add: accounts_def)
qed

text \<open>
  C1. The concurrency limit holds on every pass: the servers that Nova reported as busy plus the
  migrations that Nova accepted during the pass never exceed the limit (a limit below 1 counts
  as 1), whatever Nova answers.
\<close>

theorem evictNext_concurrency:
  assumes "server_laws N" "wrap_laws L" "retry_laws L"
  shows "int (count_calls (busy_reply N (es_Hypervisor (ev_Spec ev))) tr
            (new_calls tr (snd (evictNext L K N ev limit tr))))
     + int (count_calls (trigger_ok N) tr (new_calls tr (snd (evictNext L K N ev limit tr)))) \<le> max 1 limit"
  by (rule evictNext_bound [OF assms])

text \<open>Three running servers on host h1, and a limit of two.\<close>

definition three_servers :: nova where
  "three_servers = sample_nova\<lparr>n_servers_Get := (\<lambda>u _. Inr (active_server ''h1'' u))\<rparr>"

definition three_eviction :: Eviction where
  "three_eviction = (empty_eviction ''e1'')\<lparr>ev_Spec := \<lparr>es_Hypervisor = ''h1'', es_Reason = ''test''\<rparr>,
     ev_Status := \<lparr>HypervisorServiceId = [], OutstandingRamMb = 0,
       OutstandingInstances = [''a'', ''b'', ''c''],
       ev_Conditions = [mk_condition ConditionTypeEvicting ConditionTrue ConditionReasonRunning ''Running'',
         mk_condition ConditionTypePreflight ConditionTrue ConditionReasonSucceeded ''ok'']\<rparr>\<rparr>"

abbreviation three_kube :: kube where
  "three_kube \<equiv> sample_kube (empty_hypervisor ''h1'') three_eviction (empty_node ''h1'')"

lemma server_laws_three [simp]: "server_laws three_servers"
  by (simp add: server_laws_def three_servers_def active_server_def)

theorem evictNext_concurrency_witness:
  "server_laws three_servers \<and> wrap_laws list_lib \<and> retry_laws list_lib \<and>
   int (count_calls (busy_reply three_servers (es_Hypervisor (ev_Spec three_eviction))) []
      (new_calls [] (snd (evictNext list_lib three_kube three_servers three_eviction 2 []))))
   + int (count_calls (trigger_ok three_servers) []
      (new_calls [] (snd (evictNext list_lib three_kube three_servers three_eviction 2 [])))) \<le> max 1 2"
  using evictNext_concurrency [of three_servers list_lib three_eviction "[]" three_kube 2] by simp

text \<open>
  C2. The queue of outstanding servers is never cut short: whatever status a pass of
  \<open>evictNext\<close> writes, its queue holds no new entry, and an entry that it lost was, during that
  pass, reported by Nova as unknown (404) or as settled on another host.
\<close>

theorem evictNext_queue_accounting:
  assumes "server_laws N" "wrap_laws L" "retry_laws L"
    and patch: "Kube (StatusPatchEviction fresh new ow) \<in> set (new_calls tr (snd (evictNext L K N ev limit tr)))"
  shows "mset (ev_outstanding new) \<subseteq># mset (ev_outstanding ev) \<and>
    (\<forall>x. count (mset (ev_outstanding new)) x < count (mset (ev_outstanding ev)) x \<longrightarrow>
       occurs (gone_reply L N (es_Hypervisor (ev_Spec ev)) x) tr
         (new_calls tr (snd (evictNext L K N ev limit tr))))"
proof -
  obtain r tr' where e: "evictNext L K N ev limit tr = (r, tr')" by fastforce
  with assms obtain s tr1 us where p: "evict_pass L N ev limit tr = (s, tr1)" and tr': "tr' = tr1 @ us"
    and us: "list_all (update_call L K (Name (ev_Meta (es_eviction s))) (ev_Status (es_eviction s))) us"
    by (auto elim: evictNext_split)
  from evict_pass_accounts [OF p assms(1,2)] obtain cs where cs: "tr1 = tr @ cs"
    and acc: "accounts L N tr \<lparr>es_eviction = ev, inFlight = 0, started = 0, candidates = [], errs = []\<rparr> cs s" .
  have "list_all server_only cs" by (rule evict_pass_server_calls) (use p cs in simp)
  then have "\<not> (\<exists>f n w. c = Kube (StatusPatchEviction f n w))" if "c \<in> set cs" for c
    using that by (auto simp: list_all_iff server_only_def)
  with patch e tr' cs have "Kube (StatusPatchEviction fresh new ow) \<in> set us" by auto
  with us have "ev_outstanding new = ev_outstanding (es_eviction s)"
    by (auto simp: list_all_iff update_call_def ev_outstanding_def)
  with acc e tr' cs show ?thesis by (auto simp: accounts_def drains_def)
qed

text \<open>A last server that Nova no longer knows.\<close>

definition lone_eviction :: Eviction where
  "lone_eviction = (empty_eviction ''e1'')\<lparr>ev_Spec := \<lparr>es_Hypervisor = ''h1'', es_Reason = ''test''\<rparr>,
     ev_Status := \<lparr>HypervisorServiceId = [], OutstandingRamMb = 0, OutstandingInstances = [''a''], ev_Conditions = []\<rparr>\<rparr>"

abbreviation lone_kube :: kube where
  "lone_kube \<equiv> sample_kube (empty_hypervisor ''h1'') lone_eviction (empty_node ''h1'')"

abbreviation lone_calls :: "call list" where
  "lone_calls \<equiv> new_calls [] (snd (evictNext list_lib lone_kube sample_nova lone_eviction 1 []))"

lemma lone_patch:
  "\<exists>fresh new ow. Kube (StatusPatchEviction fresh new ow) \<in> set lone_calls \<and> ev_outstanding new = []"
  by (simp add: evictNext_def evict_pass_def lone_eviction_def ev_outstanding_def
      evict_visit_def ask_def sample_nova_def removeGone_def list_lib_def http_404_def
      ev_set_outstanding_def setMigrationSucceeded_def updateStatus_def numeral_eq_Suc
      update_attempt_def sample_kube_def Let_def new_calls_def ev_set_condition_def merge_status_def
      split: option.splits)

theorem evictNext_queue_accounting_witness:
  "\<exists>fresh new ow. Kube (StatusPatchEviction fresh new ow) \<in> set lone_calls \<and> ev_outstanding new = [] \<and>
     (\<forall>x. count (mset (ev_outstanding new)) x < count (mset (ev_outstanding lone_eviction)) x \<longrightarrow>
       occurs (gone_reply list_lib sample_nova ''h1'' x) [] lone_calls)"
proof -
  have "server_laws sample_nova" by (simp add: server_laws_def sample_nova_def)
  moreover have "es_Hypervisor (ev_Spec lone_eviction) = ''h1''" by (simp add: lone_eviction_def)
  moreover obtain fresh new ow where "Kube (StatusPatchEviction fresh new ow) \<in> set lone_calls"
    "ev_outstanding new = []" using lone_patch by blast
  ultimately show ?thesis
    using evictNext_queue_accounting [of sample_nova list_lib fresh new ow "[]" lone_kube lone_eviction 1]
    by (intro exI [of _ fresh] exI [of _ new] exI [of _ ow]) simp
qed

section \<open>What a reconcile pass writes\<close>

text \<open>
  The in-memory Eviction that a pass hands to \<open>updateStatus\<close>, given the two objects it read: one
  rule per place in the code.
\<close>

inductive eviction_update :: "lib \<Rightarrow> nova \<Rightarrow> global_vars \<Rightarrow> Eviction \<Rightarrow> Hypervisor \<Rightarrow> trace \<Rightarrow> Eviction \<Rightarrow> bool"
  for L :: lib and N :: nova and g :: global_vars and ev :: Eviction and hv :: Hypervisor and tr :: trace where
  begin_eviction:
    "FindStatusCondition L (ev_Conditions (ev_Status ev)) ConditionTypeEvicting = None \<Longrightarrow>
     eviction_update L N g ev hv tr (ev_set_condition L
       (mk_condition ConditionTypeEvicting ConditionTrue ConditionReasonRunning ''Running'') ev)"
| not_disabled:
    "\<not> IsStatusConditionTrue L (ev_Conditions (ev_Status ev)) ConditionTypePreflight \<Longrightarrow>
     \<not> IsStatusConditionTrue L (hv_Conditions hv) ConditionTypeHypervisorDisabled \<Longrightarrow>
     eviction_update L N g ev hv tr (ev_set_condition L
       (mk_condition ConditionTypePreflight ConditionFalse ConditionReasonFailed ''hypervisor not disabled'') ev)"
| abort:
    "\<not> IsStatusConditionTrue L (ev_Conditions (ev_Status ev)) ConditionTypePreflight \<Longrightarrow>
     HypervisorID (hv_Status hv) \<noteq> [] \<Longrightarrow> ServiceID (hv_Status hv) \<noteq> [] \<Longrightarrow>
     n_hypervisors_GetExt N (HypervisorID (hv_Status hv)) tr = Inl err \<Longrightarrow> ResponseCodeIs L err 404 \<Longrightarrow>
     eviction_update L N g ev hv tr (ev_set_condition L
       (mk_condition ConditionTypeEvicting ConditionFalse ConditionReasonFailed
          (''failed to get hypervisor '' @ Error_text err)) ev)"
| never_registered:
    "\<not> IsStatusConditionTrue L (ev_Conditions (ev_Status ev)) ConditionTypePreflight \<Longrightarrow>
     HypervisorID (hv_Status hv) = [] \<or> ServiceID (hv_Status hv) = [] \<Longrightarrow>
     n_hypervisors_GetExt N (HypervisorID (hv_Status hv)) tr = Inl err \<Longrightarrow> ResponseCodeIs L err 404 \<Longrightarrow>
     eviction_update L N g ev hv tr (ev_set_ram 0 (ev_set_condition L
       (mk_condition ConditionTypeEvicting ConditionFalse ConditionReasonSucceeded
          ''eviction completed successfully due to expected case of no hypervisor'') ev))"
| preflight:
    "\<not> IsStatusConditionTrue L (ev_Conditions (ev_Status ev)) ConditionTypePreflight \<Longrightarrow>
     HypervisorID (hv_Status hv) \<noteq> [] \<and> ServiceID (hv_Status hv) \<noteq> [] \<longrightarrow>
       IsStatusConditionTrue L (hv_Conditions hv) ConditionTypeHypervisorDisabled \<Longrightarrow>
     n_hypervisors_GetExt N (HypervisorID (hv_Status hv)) tr = Inr h \<Longrightarrow>
     ev1 = (case nh_Servers h of Some uuids \<Rightarrow> ev_set_outstanding uuids ev | None \<Rightarrow> ev) \<Longrightarrow>
     eviction_update L N g ev hv tr (ev_set_condition L
       (mk_condition ConditionTypePreflight ConditionTrue ConditionReasonSucceeded
          ''Preflight checks passed, hypervisor is disabled and ready for eviction'')
       (ev_set_ram (nh_MemoryMBUsed h) (ev_set_service (nh_ID h) ev1)))"
| drain:
    "IsStatusConditionTrue L (ev_Conditions (ev_Status ev)) ConditionTypePreflight \<Longrightarrow>
     ev_outstanding ev \<noteq> [] \<Longrightarrow>
     evict_pass L N ev (ResolveConcurrency g (Traits (hv_Status hv))) tr = (s, tr1) \<Longrightarrow>
     eviction_update L N g ev hv tr (es_eviction s)"
| finish:
    "IsStatusConditionTrue L (ev_Conditions (ev_Status ev)) ConditionTypePreflight \<Longrightarrow>
     ev_outstanding ev = [] \<Longrightarrow>
     eviction_update L N g ev hv tr (ev_set_ram 0 (ev_set_condition L eviction_completed ev))"

inductive_cases eviction_updateE: "eviction_update L N g ev hv tr ev'"

text \<open>
  A call that, if it patches an Eviction, writes a status merged from one that satisfies \<open>U\<close>; and
  the same for a whole stretch of calls.
\<close>

definition writes_from :: "lib \<Rightarrow> kube \<Rightarrow> (Eviction \<Rightarrow> bool) \<Rightarrow> call \<Rightarrow> bool" where
  "writes_from L K U c \<longleftrightarrow> (\<forall>fresh new ow. c = Kube (StatusPatchEviction fresh new ow) \<longrightarrow>
     (\<exists>ev' t. U ev' \<and> k_get_Eviction K (Name (ev_Meta ev')) t = Inr fresh
        \<and> new = fresh\<lparr>ev_Status := merge_status L (ev_Status ev') (ev_Status fresh)\<rparr>))"

lemma writes_from_trivial [simp]:
  "writes_from L K U (Kube (GetEviction n))" "writes_from L K U (Kube (GetHypervisor n))"
  "writes_from L K U (Server x)" "writes_from L K U (Compute y)"
  by (simp_all add: writes_from_def)

lemma writes_fromE:
  assumes "writes_from L K U (Kube (StatusPatchEviction fresh new ow))"
  obtains ev' t where "U ev'" and "new = fresh\<lparr>ev_Status := merge_status L (ev_Status ev') (ev_Status fresh)\<rparr>"
    and "k_get_Eviction K (Name (ev_Meta ev')) t = Inr fresh"
  using assms unfolding writes_from_def by blast

lemma updateStatus_writes:
  assumes "retry_laws L" "U ev'"
  shows "extends_by (writes_from L K U) tr (snd (updateStatus L K ev' tr))"
  by (rule extends_by_mono [OF updateStatus_extends [OF assms(1)]])
    (use assms(2) in \<open>auto simp: update_call_def writes_from_def\<close>)

lemma evictNext_writes:
  assumes "retry_laws L" "evict_pass L N ev limit tr = (s, tr1)" "U (es_eviction s)"
  shows "extends_by (writes_from L K U) tr (snd (evictNext L K N ev limit tr))"
proof -
  have "snd (evictNext L K N ev limit tr) = snd (updateStatus L K (es_eviction s) tr1)"
    using assms(2) by (simp add: evictNext_def split: prod.splits option.splits)
  moreover have "extends_by (writes_from L K U) tr tr1"
    by (rule extends_by_mono [OF evict_pass_extends [OF assms(2)]]) (auto simp: server_only_def)
  ultimately show ?thesis
    using updateStatus_writes [of L U, OF assms(1,3)] by (metis extends_by_trans)
qed

lemma result_of_update: "(case x of (e, t) \<Rightarrow> ((q, e), t)) = ((q, fst x), snd x)"
  by (simp split: prod.split)

lemma handlePreflight_writes:
  assumes L: "retry_laws L" and pre: "\<not> IsStatusConditionTrue L (ev_Conditions (ev_Status ev)) ConditionTypePreflight"
  shows "extends_by (writes_from L K (eviction_update L N g ev hv tr)) tr (snd (handlePreflight L K N ev hv tr))"
proof -
  let ?E = "HypervisorID (hv_Status hv) \<noteq> [] \<and> ServiceID (hv_Status hv) \<noteq> []"
  let ?D = "IsStatusConditionTrue L (hv_Conditions hv) ConditionTypeHypervisorDisabled"
  let ?U = "eviction_update L N g ev hv tr"
  let ?get = "Compute (HypervisorsGetExt (HypervisorID (hv_Status hv)))"
  have upd: "extends_by (writes_from L K ?U) tr (snd (updateStatus L K ev' tr))" if "?U ev'" for ev'
    by (rule updateStatus_writes [of L ?U, OF L that])
  have upd1: "extends_by (writes_from L K ?U) tr (snd (updateStatus L K ev' (tr @ [?get])))" if "?U ev'" for ev'
    using updateStatus_writes [of L ?U, OF L that, of K "tr @ [?get]"] by (auto intro: extends_by_Cons)
  show ?thesis
  proof (cases "?E \<and> \<not> ?D")
    case True
    with upd [OF not_disabled [OF pre]] show ?thesis
      by (auto simp: handlePreflight_def Let_def result_of_update)
  next
    case False
    show ?thesis
    proof (cases "n_hypervisors_GetExt N (HypervisorID (hv_Status hv)) tr")
      case (Inl err)
      show ?thesis
      proof (cases "ResponseCodeIs L err 404")
        case c404: True
        show ?thesis
        proof (cases ?E)
          case True
          with False Inl c404 upd1 [OF abort [OF pre _ _ Inl c404]] show ?thesis
            by (auto simp: handlePreflight_def Let_def result_of_update ask_def)
        next
          case e: False
          with Inl c404 upd1 [OF never_registered [OF pre _ Inl c404]] show ?thesis
            by (auto simp: handlePreflight_def Let_def result_of_update ask_def)
        qed
      next
        case c404: False
        with Inl False show ?thesis
          by (auto simp: handlePreflight_def Let_def result_of_update ask_def intro!: extends_by_snoc)
      qed
    next
      case (Inr h)
      have "?E \<longrightarrow> ?D" using False by blast
      from upd1 [OF preflight [OF pre this Inr refl]] False Inr show ?thesis
        by (auto simp: handlePreflight_def Let_def result_of_update ask_def)
    qed
  qed
qed

text \<open>The objects a pass read, and what it may write from them.\<close>

definition reconcile_update :: "lib \<Rightarrow> kube \<Rightarrow> nova \<Rightarrow> global_vars \<Rightarrow> string \<Rightarrow> trace \<Rightarrow> Eviction \<Rightarrow> bool" where
  "reconcile_update L K N g name tr ev' \<longleftrightarrow>
     (\<exists>ev hv tr2. k_get_Eviction K name tr = Inr ev \<and> DeletionTimestamp (ev_Meta ev) = 0
        \<and> tr2 = tr @ [Kube (GetEviction name), Kube (GetHypervisor (es_Hypervisor (ev_Spec ev)))]
        \<and> k_get_Hypervisor K (es_Hypervisor (ev_Spec ev)) (tr @ [Kube (GetEviction name)]) = Inr hv
        \<and> map_option Status (FindStatusCondition L (ev_Conditions (ev_Status ev)) ConditionTypeEvicting)
            \<in> {None, Some ConditionTrue}
        \<and> eviction_update L N g ev hv tr2 ev'
        \<and> (FindStatusCondition L (ev_Conditions (ev_Status ev)) ConditionTypeEvicting = None \<longrightarrow>
             ev' = ev_set_condition L (mk_condition ConditionTypeEvicting ConditionTrue
               ConditionReasonRunning ''Running'') ev))"

lemma reconcile_updateE:
  assumes "reconcile_update L K N g name tr ev'"
  obtains ev hv where "k_get_Eviction K name tr = Inr ev" "DeletionTimestamp (ev_Meta ev) = 0"
    "k_get_Hypervisor K (es_Hypervisor (ev_Spec ev)) (tr @ [Kube (GetEviction name)]) = Inr hv"
    "map_option Status (FindStatusCondition L (ev_Conditions (ev_Status ev)) ConditionTypeEvicting)
       \<in> {None, Some ConditionTrue}"
    "eviction_update L N g ev hv
       (tr @ [Kube (GetEviction name), Kube (GetHypervisor (es_Hypervisor (ev_Spec ev)))]) ev'"
    "FindStatusCondition L (ev_Conditions (ev_Status ev)) ConditionTypeEvicting = None \<longrightarrow>
       ev' = ev_set_condition L (mk_condition ConditionTypeEvicting ConditionTrue
         ConditionReasonRunning ''Running'') ev"
  using assms unfolding reconcile_update_def by (elim exE conjE) (rule that; simp)

lemma handleRunning_writes:
  assumes "retry_laws L"
  shows "extends_by (writes_from L K (eviction_update L N g ev hv tr)) tr (snd (handleRunning L K N g ev hv tr))"
proof -
  let ?pre = "IsStatusConditionTrue L (ev_Conditions (ev_Status ev)) ConditionTypePreflight"
  consider "\<not> ?pre" | "?pre" "ev_outstanding ev = []" | "?pre" "ev_outstanding ev \<noteq> []" by blast
  then show ?thesis
  proof cases
    case 1
    then show ?thesis by (simp add: handleRunning_def handlePreflight_writes [OF assms])
  next
    case 2
    then show ?thesis
      by (simp add: handleRunning_def result_of_update updateStatus_writes [OF assms] finish)
  next
    case 3
    obtain s tr1 where "evict_pass L N ev (ResolveConcurrency g (Traits (hv_Status hv))) tr = (s, tr1)"
      by fastforce
    with 3 show ?thesis
      by (auto simp: handleRunning_def intro: evictNext_writes [OF assms] drain)
  qed
qed

lemma Eviction_Reconcile_writes:
  assumes L: "retry_laws L"
  shows "extends_by (writes_from L K (reconcile_update L K N g name tr)) tr
    (snd (Eviction_Reconcile L K N g name tr))"
proof (cases "k_get_Eviction K name tr")
  case (Inl e)
  then show ?thesis by (simp add: Eviction_Reconcile_def ask_def extends_by_snoc)
next
  case ev: (Inr ev)
  let ?h = "es_Hypervisor (ev_Spec ev)"
  let ?tr1 = "tr @ [Kube (GetEviction name)]" and ?tr2 = "tr @ [Kube (GetEviction name), Kube (GetHypervisor ?h)]"
  let ?U = "reconcile_update L K N g name tr"
  have two: "extends_by (writes_from L K ?U) tr ?tr2" by (simp add: extends_by_def)
  show ?thesis
  proof (cases "k_get_Hypervisor K ?h ?tr1")
    case (Inl e)
    with ev two show ?thesis by (simp add: Eviction_Reconcile_def ask_def)
  next
    case hv: (Inr hv)
    let ?find = "FindStatusCondition L (ev_Conditions (ev_Status ev)) ConditionTypeEvicting"
    consider (stop) "DeletionTimestamp (ev_Meta ev) \<noteq> 0 \<or> (\<exists>c. ?find = Some c \<and> Status c \<noteq> ConditionTrue)"
      | (fresh) "DeletionTimestamp (ev_Meta ev) = 0" "?find = None"
      | (run) c where "DeletionTimestamp (ev_Meta ev) = 0" "?find = Some c" "Status c = ConditionTrue"
      by force
    then show ?thesis
    proof cases
      case stop
      with ev hv two show ?thesis
        by (auto simp: Eviction_Reconcile_def ask_def split: option.splits ConditionStatus.splits)
    next
      case fresh
      let ?ev' = "ev_set_condition L
        (mk_condition ConditionTypeEvicting ConditionTrue ConditionReasonRunning ''Running'') ev"
      have "?U ?ev'"
        unfolding reconcile_update_def using ev hv fresh begin_eviction [OF fresh(2)] by simp
      from extends_by_trans [OF two updateStatus_writes [of L ?U, OF L this]] ev hv fresh
      show ?thesis by (simp add: Eviction_Reconcile_def ask_def result_of_update)
    next
      case run
      have "extends_by (writes_from L K ?U) ?tr2 (snd (handleRunning L K N g ev hv ?tr2))"
        by (rule extends_by_mono [OF handleRunning_writes [OF L]])
          (use ev hv run in \<open>fastforce simp: writes_from_def reconcile_update_def\<close>)
      from extends_by_trans [OF two this] ev hv run
      show ?thesis by (simp add: Eviction_Reconcile_def ask_def)
    qed
  qed
qed

section \<open>Completion\<close>

text \<open>What the API server guarantees of a list keyed by type: distinct and non-empty types.\<close>

definition conds_ok :: "condition list \<Rightarrow> bool" where
  "conds_ok cs \<longleftrightarrow> distinct (map Type cs) \<and> [] \<notin> set (map Type cs)"

definition served_ok :: "kube \<Rightarrow> bool" where
  "served_ok K \<longleftrightarrow> (\<forall>n tr ev. k_get_Eviction K n tr = Inr ev \<longrightarrow>
     conds_ok (ev_Conditions (ev_Status ev)))"

lemma conds_ok_set:
  assumes "meta_list_laws L" "conds_ok cs" "Type c \<noteq> []"
  shows "conds_ok (setCondition L cs c)"
proof -
  have "map Type (setCondition L cs c) = (if Type c \<in> set (map Type cs) then map Type cs else map Type cs @ [Type c])"
    using assms(1) unfolding meta_list_laws_def by blast
  with assms(2,3) show ?thesis by (simp add: conds_ok_def)
qed

lemma conds_ok_sets:
  "meta_list_laws L \<Longrightarrow> conds_ok cs \<Longrightarrow> \<forall>d \<in> set ds. Type d \<noteq> [] \<Longrightarrow> conds_ok (foldl (setCondition L) cs ds)"
  by (induction ds arbitrary: cs) (auto simp: conds_ok_set)

lemma Types_sets:
  "meta_list_laws L \<Longrightarrow> \<forall>d \<in> set ds. Type d \<noteq> [] \<Longrightarrow>
   set (map Type (foldl (setCondition L) cs ds)) = set (map Type cs) \<union> Type ` set ds"
  by (rule keyed_condition_store.set_keys_puts [OF meta_keyed_store])

text \<open>A status merged onto a fresh read shows, for every type it holds, what the pass decided.\<close>

lemma merged_view:
  assumes "meta_list_laws L" "conds_ok ds" "FindStatusCondition L ds t = Some d"
  shows "map_option meta_view (FindStatusCondition L (foldl (setCondition L) cs ds) t) = Some (meta_view d)"
proof -
  have "distinct (map Type ds)" "\<forall>e \<in> set ds. Type e \<noteq> []"
    using assms(2) by (force simp: conds_ok_def)+
  from meta_view_merge [OF assms(1) this, of cs t] assms(3) show ?thesis by simp
qed

lemma migration_updates_find:
  assumes "meta_laws L" "migration_updates L ev ev'" "t \<noteq> ConditionTypeMigration"
  shows "FindStatusCondition L (ev_Conditions (ev_Status ev')) t = FindStatusCondition L (ev_Conditions (ev_Status ev)) t"
proof -
  from assms(2) obtain ds where "\<forall>d \<in> set ds. Type d = ConditionTypeMigration"
    and ev': "ev_Conditions (ev_Status ev') = foldl (setCondition L) (ev_Conditions (ev_Status ev)) ds"
    by (auto simp: migration_updates_def)
  with assms(3) show ?thesis unfolding ev'
    by (intro condition_store.find_puts_other [OF meta_store [OF assms(1)]]) auto
qed

lemma eviction_update_conds_ok:
  assumes "meta_list_laws L" "eviction_update L N g ev hv tr ev'" "conds_ok (ev_Conditions (ev_Status ev))"
  shows "conds_ok (ev_Conditions (ev_Status ev'))"
  using assms(2)
proof cases
  case (drain s tr1)
  from migration_updates_pass [OF drain(4)] obtain ds where "\<forall>d \<in> set ds. Type d = ConditionTypeMigration"
    and "ev_Conditions (ev_Status ev') = foldl (setCondition L) (ev_Conditions (ev_Status ev)) ds"
    by (auto simp: migration_updates_def drain(1))
  with conds_ok_sets [OF assms(1,3)] show ?thesis by simp
qed (use assms in \<open>auto simp: eviction_completed_def intro!: conds_ok_set split: option.splits\<close>)

text \<open>The \<open>Evicting\<close> condition after each kind of update.\<close>

lemma eviction_update_evicting:
  assumes L: "meta_laws L" and u: "eviction_update L N g ev hv tr ev'"
    and find: "FindStatusCondition L (ev_Conditions (ev_Status ev')) ConditionTypeEvicting = Some c"
    and c: "Status c = ConditionFalse" "Reason c = ConditionReasonSucceeded"
    and run: "map_option Status (FindStatusCondition L (ev_Conditions (ev_Status ev)) ConditionTypeEvicting)
       \<in> {None, Some ConditionTrue}"
  shows "IsStatusConditionTrue L (ev_Conditions (ev_Status ev)) ConditionTypePreflight \<and> ev_outstanding ev = []
    \<or> (HypervisorID (hv_Status hv) = [] \<or> ServiceID (hv_Status hv) = []) \<and>
      (\<exists>err. n_hypervisors_GetExt N (HypervisorID (hv_Status hv)) tr = Inl err \<and> ResponseCodeIs L err 404)"
  using u
proof cases
  case begin_eviction
  with meta_Status_set [OF L, of "mk_condition ConditionTypeEvicting ConditionTrue ConditionReasonRunning ''Running''"
      "ev_Conditions (ev_Status ev)" ConditionTypeEvicting] find c show ?thesis by simp
next
  case not_disabled
  with meta_find_set_other [OF L, of "mk_condition ConditionTypePreflight ConditionFalse ConditionReasonFailed
      ''hypervisor not disabled''" ConditionTypeEvicting] find c run
  show ?thesis by simp
next
  case (abort err)
  with meta_Reason_set [OF L, of "mk_condition ConditionTypeEvicting ConditionFalse ConditionReasonFailed
      (''failed to get hypervisor '' @ Error_text err)" "ev_Conditions (ev_Status ev)" ConditionTypeEvicting] find c
  show ?thesis by simp
next
  case (never_registered err)
  then show ?thesis by blast
next
  case (preflight h ev1)
  have "ev_Conditions (ev_Status ev1) = ev_Conditions (ev_Status ev)"
    using preflight by (auto split: option.splits)
  with preflight meta_find_set_other [OF L, of "mk_condition ConditionTypePreflight ConditionTrue
      ConditionReasonSucceeded ''Preflight checks passed, hypervisor is disabled and ready for eviction''"
      ConditionTypeEvicting] find c run
  show ?thesis by simp
next
  case (drain s tr1)
  with migration_updates_find [OF L migration_updates_pass [OF drain(4)], of ConditionTypeEvicting] find c run
  show ?thesis by simp
qed simp

lemma find_None_Types:
  "meta_list_laws L \<Longrightarrow> FindStatusCondition L cs t = None \<longleftrightarrow> t \<notin> set (map Type cs)"
  by (auto simp: meta_list_laws_def find_None_iff)

lemma Types_set: "meta_list_laws L \<Longrightarrow> set (map Type cs) \<subseteq> set (map Type (setCondition L cs c))"
  unfolding meta_list_laws_def by auto

lemma eviction_update_Types:
  assumes L: "meta_list_laws L" and u: "eviction_update L N g ev hv tr ev'"
  shows "set (map Type (ev_Conditions (ev_Status ev))) \<subseteq> set (map Type (ev_Conditions (ev_Status ev')))"
  using u
proof cases
  case (drain s tr1)
  from migration_updates_pass [OF drain(4)] obtain ds where "\<forall>d \<in> set ds. Type d = ConditionTypeMigration"
    and ev': "ev_Conditions (ev_Status ev') = foldl (setCondition L) (ev_Conditions (ev_Status ev)) ds"
    by (auto simp: migration_updates_def drain(1))
  then show ?thesis unfolding ev' using Types_sets [OF L, of ds] by simp
next
  case (preflight h ev1)
  then have "ev_Conditions (ev_Status ev1) = ev_Conditions (ev_Status ev)" by (auto split: option.splits)
  with preflight(1) Types_set [OF L] show ?thesis by simp
qed (use Types_set [OF L] in simp_all)

text \<open>The \<open>Evicting\<close> condition a pass writes is the one it decided on, whatever the fresh read held.\<close>

lemma reconcile_update_evicting:
  assumes L: "meta_list_laws L" and K: "served_ok K" and u: "reconcile_update L K N g name tr ev'"
  obtains d where "FindStatusCondition L (ev_Conditions (ev_Status ev')) ConditionTypeEvicting = Some d"
    and "\<And>cs. map_option meta_view (FindStatusCondition L
           (foldl (setCondition L) cs (ev_Conditions (ev_Status ev'))) ConditionTypeEvicting) = Some (meta_view d)"
proof -
  let ?run = "mk_condition ConditionTypeEvicting ConditionTrue ConditionReasonRunning ''Running''"
  from u obtain ev hv tr2 where ev: "k_get_Eviction K name tr = Inr ev"
    and eu: "eviction_update L N g ev hv tr2 ev'"
    and fresh: "FindStatusCondition L (ev_Conditions (ev_Status ev)) ConditionTypeEvicting = None \<longrightarrow>
             ev' = ev_set_condition L ?run ev"
    by (rule reconcile_updateE)
  have ok: "conds_ok (ev_Conditions (ev_Status ev'))"
    using eviction_update_conds_ok [OF L eu] K ev unfolding served_ok_def by blast
  have "FindStatusCondition L (ev_Conditions (ev_Status ev')) ConditionTypeEvicting \<noteq> None"
  proof (cases "FindStatusCondition L (ev_Conditions (ev_Status ev)) ConditionTypeEvicting")
    case None
    with fresh have ev': "ev' = ev_set_condition L ?run ev" by blast
    from meta_find_set_same [OF meta_list_meta [OF L], of ?run "ev_Conditions (ev_Status ev)"]
    show ?thesis unfolding ev' by (metis ev_set_sel(12) mk_condition_sel(1) not_Cons_self option.distinct(1) list.distinct(1))
  next
    case (Some c)
    then have "ConditionTypeEvicting \<in> set (map Type (ev_Conditions (ev_Status ev)))"
      using find_None_Types [OF L] by (metis option.distinct(1))
    then show ?thesis using eviction_update_Types [OF L eu] find_None_Types [OF L] by blast
  qed
  then obtain d where "FindStatusCondition L (ev_Conditions (ev_Status ev')) ConditionTypeEvicting = Some d"
    by blast
  then show ?thesis using merged_view [OF L ok] that by blast
qed

text \<open>
  C4. An eviction is declared successful only on evidence: if a pass writes \<open>Evicting = False\<close>
  with reason \<open>Succeeded\<close>, then either the Eviction it had read had passed its preflight check
  and had no outstanding server left, or the host was never registered and Nova did not know it.
\<close>

theorem eviction_success_evidence:
  assumes "retry_laws L" "meta_list_laws L" "served_ok K"
    and patch: "Kube (StatusPatchEviction fresh new ow) \<in> set (new_calls tr (snd (Eviction_Reconcile L K N g name tr)))"
    and c: "FindStatusCondition L (ev_Conditions (ev_Status new)) ConditionTypeEvicting = Some c"
      "Status c = ConditionFalse" "Reason c = ConditionReasonSucceeded"
  shows "\<exists>ev hv. k_get_Eviction K name tr = Inr ev
    \<and> k_get_Hypervisor K (es_Hypervisor (ev_Spec ev)) (tr @ [Kube (GetEviction name)]) = Inr hv
    \<and> (IsStatusConditionTrue L (ev_Conditions (ev_Status ev)) ConditionTypePreflight \<and> ev_outstanding ev = []
       \<or> (HypervisorID (hv_Status hv) = [] \<or> ServiceID (hv_Status hv) = []) \<and>
         (\<exists>err. n_hypervisors_GetExt N (HypervisorID (hv_Status hv))
              (tr @ [Kube (GetEviction name), Kube (GetHypervisor (es_Hypervisor (ev_Spec ev)))]) = Inl err
            \<and> ResponseCodeIs L err 404))"
proof -
  have "writes_from L K (reconcile_update L K N g name tr) (Kube (StatusPatchEviction fresh new ow))"
    by (rule extends_by_new_calls [OF Eviction_Reconcile_writes [OF assms(1)] patch])
  then obtain ev' where u: "reconcile_update L K N g name tr ev'"
    and "new = fresh\<lparr>ev_Status := merge_status L (ev_Status ev') (ev_Status fresh)\<rparr>"
    by (rule writes_fromE)
  then have new: "ev_Conditions (ev_Status new) =
      foldl (setCondition L) (ev_Conditions (ev_Status fresh)) (ev_Conditions (ev_Status ev'))" by simp
  obtain d where d: "FindStatusCondition L (ev_Conditions (ev_Status ev')) ConditionTypeEvicting = Some d"
    and v: "map_option meta_view (FindStatusCondition L (ev_Conditions (ev_Status new)) ConditionTypeEvicting) = Some (meta_view d)"
    by (rule reconcile_update_evicting [OF assms(2,3) u]) (simp only: new)
  from v c have "Status d = ConditionFalse" "Reason d = ConditionReasonSucceeded" by (auto simp: meta_view_def)
  from u obtain ev hv where r: "k_get_Eviction K name tr = Inr ev"
    "k_get_Hypervisor K (es_Hypervisor (ev_Spec ev)) (tr @ [Kube (GetEviction name)]) = Inr hv"
    and run: "map_option Status (FindStatusCondition L (ev_Conditions (ev_Status ev)) ConditionTypeEvicting)
       \<in> {None, Some ConditionTrue}"
    and eu: "eviction_update L N g ev hv
       (tr @ [Kube (GetEviction name), Kube (GetHypervisor (es_Hypervisor (ev_Spec ev)))]) ev'"
    by (rule reconcile_updateE)
  with eviction_update_evicting [OF meta_list_meta [OF assms(2)] eu d \<open>Status d = _\<close> \<open>Reason d = _\<close> run]
  show ?thesis by (intro exI [of _ ev] exI [of _ hv]) simp
qed

text \<open>A drained eviction: both conditions hold and the queue is empty.\<close>

definition drained_eviction :: Eviction where
  "drained_eviction = lone_eviction\<lparr>ev_Status := \<lparr>HypervisorServiceId = [], OutstandingRamMb = 0,
     OutstandingInstances = [],
     ev_Conditions = [mk_condition ConditionTypeEvicting ConditionTrue ConditionReasonRunning ''Running'',
       mk_condition ConditionTypePreflight ConditionTrue ConditionReasonSucceeded ''ok'']\<rparr>\<rparr>"

abbreviation drained_kube :: kube where
  "drained_kube \<equiv> sample_kube (empty_hypervisor ''h1'') drained_eviction (empty_node ''h1'')"

definition sample_globals :: global_vars where
  "sample_globals = \<lparr>AgentNamespaces = [''kvm''], EvictionConcurrency = 1, EvictionTraitConcurrency = Map.empty\<rparr>"

abbreviation drained_calls :: "call list" where
  "drained_calls \<equiv> new_calls [] (snd (Eviction_Reconcile list_lib drained_kube sample_nova sample_globals ''e1'' []))"

lemma served_ok_sample: "conds_ok (ev_Conditions (ev_Status ev)) \<Longrightarrow> served_ok (sample_kube hv ev nd)"
  by (simp add: served_ok_def sample_kube_def)

lemma drained_conds_ok: "conds_ok (ev_Conditions (ev_Status drained_eviction))"
  by (simp add: conds_ok_def drained_eviction_def)

lemma drained_patch:
  "\<exists>fresh new ow c. Kube (StatusPatchEviction fresh new ow) \<in> set drained_calls
    \<and> FindStatusCondition list_lib (ev_Conditions (ev_Status new)) ConditionTypeEvicting = Some c
    \<and> Status c = ConditionFalse \<and> Reason c = ConditionReasonSucceeded"
  by (simp add: Eviction_Reconcile_def handleRunning_def drained_eviction_def ask_def
      list_lib_def list_find_def updateStatus_def numeral_eq_Suc ev_outstanding_def ev_set_ram_def
      update_attempt_def sample_kube_def Let_def new_calls_def ev_set_condition_def merge_status_def
      eviction_completed_def mk_condition_def meta_view_def lone_eviction_def zero_values)

theorem eviction_success_evidence_witness:
  "\<exists>fresh new ow c. Kube (StatusPatchEviction fresh new ow) \<in> set drained_calls
    \<and> FindStatusCondition list_lib (ev_Conditions (ev_Status new)) ConditionTypeEvicting = Some c
    \<and> Status c = ConditionFalse \<and> Reason c = ConditionReasonSucceeded
    \<and> (\<exists>ev. k_get_Eviction drained_kube ''e1'' [] = Inr ev)"
proof -
  obtain fresh new ow c where p: "Kube (StatusPatchEviction fresh new ow) \<in> set drained_calls"
    and c: "FindStatusCondition list_lib (ev_Conditions (ev_Status new)) ConditionTypeEvicting = Some c"
      "Status c = ConditionFalse" "Reason c = ConditionReasonSucceeded"
    using drained_patch by blast
  from eviction_success_evidence [OF retry_laws_list_lib meta_list_laws_list_lib
      served_ok_sample [OF drained_conds_ok] p c] p c
  show ?thesis by blast
qed

section \<open>The life cycle of an eviction\<close>

text \<open>
  The abstract machine behind the conditions of an Eviction: its phase and its queue. A reconcile
  pass that is the only writer of the object takes a step of this machine with every status it
  writes.
\<close>

datatype eviction_phase = Fresh | Checking | Draining | Completed | Aborted | Stalled

definition cond_status :: "lib \<Rightarrow> condition list \<Rightarrow> string \<Rightarrow> ConditionStatus option" where
  "cond_status L cs t = map_option Status (FindStatusCondition L cs t)"

definition cond_reason :: "lib \<Rightarrow> condition list \<Rightarrow> string \<Rightarrow> string option" where
  "cond_reason L cs t = map_option Reason (FindStatusCondition L cs t)"

definition phase_of :: "lib \<Rightarrow> condition list \<Rightarrow> eviction_phase" where
  "phase_of L cs =
     (case cond_status L cs ConditionTypeEvicting of
        None \<Rightarrow> Fresh
      | Some ConditionTrue \<Rightarrow> if cond_status L cs ConditionTypePreflight = Some ConditionTrue then Draining else Checking
      | Some ConditionFalse \<Rightarrow>
          if cond_reason L cs ConditionTypeEvicting = Some ConditionReasonSucceeded then Completed else Aborted
      | Some ConditionUnknown \<Rightarrow> Stalled)"

definition abs_eviction :: "lib \<Rightarrow> Eviction \<Rightarrow> eviction_phase \<times> string list" where
  "abs_eviction L ev = (phase_of L (ev_Conditions (ev_Status ev)), ev_outstanding ev)"

inductive phase_step :: "eviction_phase \<times> string list \<Rightarrow> eviction_phase \<times> string list \<Rightarrow> bool" where
  step_start: "p \<in> {Checking, Draining} \<Longrightarrow> phase_step (Fresh, us) (p, us)"
| step_hold: "phase_step (Checking, us) (Checking, us)"
| step_admit: "phase_step (Checking, us) (Draining, us')"
| step_abort: "phase_step (Checking, us) (Aborted, us)"
| step_vacuous: "phase_step (Checking, us) (Completed, us)"
| step_drain: "us \<noteq> [] \<Longrightarrow> mset us' \<subseteq># mset us \<Longrightarrow> phase_step (Draining, us) (Draining, us')"
| step_finish: "phase_step (Draining, []) (Completed, [])"

inductive_cases phase_stepE: "phase_step (p, us) (q, vs)"

lemma phase_of_cong:
  assumes "\<And>t. map_option meta_view (FindStatusCondition L cs t) = map_option meta_view (FindStatusCondition L ds t)"
  shows "phase_of L cs = phase_of L ds"
proof -
  have "cond_status L cs t = cond_status L ds t" "cond_reason L cs t = cond_reason L ds t" for t
  proof -
    have "map_option fst (map_option meta_view (FindStatusCondition L cs t)) =
        map_option fst (map_option meta_view (FindStatusCondition L ds t))"
      "map_option (fst \<circ> snd) (map_option meta_view (FindStatusCondition L cs t)) =
        map_option (fst \<circ> snd) (map_option meta_view (FindStatusCondition L ds t))"
      by (simp_all only: assms)
    then show "cond_status L cs t = cond_status L ds t" "cond_reason L cs t = cond_reason L ds t"
      by (simp_all add: cond_status_def cond_reason_def option.map_comp meta_view_def comp_def)
  qed
  then show ?thesis by (simp add: phase_of_def)
qed

lemma phase_of_merge:
  assumes L: "meta_list_laws L" and "conds_ok ds" and "set (map Type cs) \<subseteq> set (map Type ds)"
  shows "phase_of L (foldl (setCondition L) cs ds) = phase_of L ds"
proof (rule phase_of_cong)
  fix t
  have d: "distinct (map Type ds)" "\<forall>e \<in> set ds. Type e \<noteq> []"
    using assms(2) by (force simp: conds_ok_def)+
  show "map_option meta_view (FindStatusCondition L (foldl (setCondition L) cs ds) t) =
      map_option meta_view (FindStatusCondition L ds t)"
    unfolding meta_view_merge [OF L d]
    using assms(3) find_None_Types [OF L, of cs t] find_None_Types [OF L, of ds t]
    by (auto split: option.split)
qed

lemma phase_set_other:
  assumes "meta_laws L" "Type c \<noteq> []" "Type c \<noteq> t"
  shows "cond_status L (setCondition L cs c) t = cond_status L cs t"
    and "cond_reason L (setCondition L cs c) t = cond_reason L cs t"
  using meta_find_set_other [OF assms(1,2), of t cs] assms(3) by (auto simp: cond_status_def cond_reason_def)

lemma phase_set_same:
  assumes "meta_laws L" "Type c \<noteq> []"
  shows "cond_status L (setCondition L cs c) (Type c) = Some (Status c)"
    and "cond_reason L (setCondition L cs c) (Type c) = Some (Reason c)"
  using meta_Status_set [OF assms] meta_Reason_set [OF assms] by (auto simp: cond_status_def cond_reason_def)

lemma phase_set_mk:
  assumes "meta_laws L" "ty \<noteq> []"
  shows "cond_status L (setCondition L cs (mk_condition ty st r m)) t =
      (if t = ty then Some st else cond_status L cs t)"
    and "cond_reason L (setCondition L cs (mk_condition ty st r m)) t =
      (if t = ty then Some r else cond_reason L cs t)"
  using phase_set_same [OF assms(1), of "mk_condition ty st r m"]
    phase_set_other [OF assms(1), of "mk_condition ty st r m"] assms(2) by auto

lemma True_iff_status:
  "meta_laws L \<Longrightarrow> IsStatusConditionTrue L cs t \<longleftrightarrow> cond_status L cs t = Some ConditionTrue"
  by (simp only: meta_True_iff cond_status_def)

lemma eviction_update_step:
  assumes L: "meta_list_laws L" and "server_laws N" "wrap_laws L"
    and u: "eviction_update L N g ev hv tr ev'"
    and run: "map_option Status (FindStatusCondition L (ev_Conditions (ev_Status ev)) ConditionTypeEvicting)
       \<in> {None, Some ConditionTrue}"
    and fresh: "FindStatusCondition L (ev_Conditions (ev_Status ev)) ConditionTypeEvicting = None \<longrightarrow>
       ev' = ev_set_condition L (mk_condition ConditionTypeEvicting ConditionTrue
         ConditionReasonRunning ''Running'') ev"
  shows "phase_step (abs_eviction L ev) (abs_eviction L ev')"
proof (cases "FindStatusCondition L (ev_Conditions (ev_Status ev)) ConditionTypeEvicting")
  case None
  with fresh have ev': "ev' = ev_set_condition L (mk_condition ConditionTypeEvicting ConditionTrue
         ConditionReasonRunning ''Running'') ev" by blast
  have "cond_status L (ev_Conditions (ev_Status ev)) ConditionTypeEvicting = None"
    by (simp add: cond_status_def None)
  then show ?thesis unfolding ev'
    by (auto simp: abs_eviction_def phase_of_def phase_set_mk [OF meta_list_meta [OF L]] intro!: step_start)
next
  case (Some c)
  note simps = abs_eviction_def phase_of_def phase_set_mk [OF meta_list_meta [OF L]]
    True_iff_status [OF meta_list_meta [OF L]] eviction_completed_def
  from Some run have now: "cond_status L (ev_Conditions (ev_Status ev)) ConditionTypeEvicting = Some ConditionTrue"
    by (simp add: cond_status_def)
  show ?thesis using u
  proof cases
    case begin_eviction
    with Some show ?thesis by simp
  next
    case not_disabled
    with now show ?thesis by (simp add: simps step_hold)
  next
    case (abort err)
    with now show ?thesis by (simp add: simps step_abort)
  next
    case (never_registered err)
    with now show ?thesis by (simp add: simps step_vacuous)
  next
    case (preflight h ev1)
    then have "ev_Conditions (ev_Status ev1) = ev_Conditions (ev_Status ev)" by (auto split: option.splits)
    with preflight now show ?thesis by (simp add: simps step_admit)
  next
    case (drain s tr1)
    have same: "cond_status L (ev_Conditions (ev_Status ev')) t = cond_status L (ev_Conditions (ev_Status ev)) t"
      if "t \<noteq> ConditionTypeMigration" for t
      using migration_updates_find [OF meta_list_meta [OF L] migration_updates_pass [OF drain(4)] that]
      by (simp add: drain(1) cond_status_def)
    have "mset (ev_outstanding ev') \<subseteq># mset (ev_outstanding ev)"
      using evict_pass_accounts [OF drain(4) assms(2,3)] by (auto simp: drain(1) accounts_def drains_def)
    with drain(2,3) now same show ?thesis by (simp add: simps step_drain)
  next
    case finish
    with now show ?thesis by (simp add: simps step_finish)
  qed
qed

lemma eviction_update_Meta:
  assumes "eviction_update L N g ev hv tr ev'" "server_laws N" "wrap_laws L"
  shows "ev_Meta ev' = ev_Meta ev"
  using assms(1)
proof cases
  case (drain s tr1)
  then show ?thesis using evict_pass_accounts [OF drain(4) assms(2,3)] by (auto simp: accounts_def)
qed (auto split: option.splits)

text \<open>A write to a stored Eviction: a pass that nobody else interferes with sends it to the API server.\<close>

definition eviction_writes :: "lib \<Rightarrow> Eviction \<Rightarrow> Eviction \<Rightarrow> bool" where
  "eviction_writes L ev new \<longleftrightarrow> (\<exists>K N g tr fresh ow. server_laws N
     \<and> (\<forall>t. k_get_Eviction K (Name (ev_Meta ev)) t = Inr ev)
     \<and> Kube (StatusPatchEviction fresh new ow) \<in> set (new_calls tr (snd (Eviction_Reconcile L K N g (Name (ev_Meta ev)) tr))))"

lemma eviction_write_update:
  assumes "retry_laws L" "wrap_laws L" "eviction_writes L ev new"
  obtains N g hv tr ev' where "server_laws N" "eviction_update L N g ev hv tr ev'"
    "new = ev\<lparr>ev_Status := merge_status L (ev_Status ev') (ev_Status ev)\<rparr>"
    "map_option Status (FindStatusCondition L (ev_Conditions (ev_Status ev)) ConditionTypeEvicting) \<in> {None, Some ConditionTrue}"
    "FindStatusCondition L (ev_Conditions (ev_Status ev)) ConditionTypeEvicting = None \<longrightarrow>
       ev' = ev_set_condition L (mk_condition ConditionTypeEvicting ConditionTrue ConditionReasonRunning ''Running'') ev"
proof -
  let ?name = "Name (ev_Meta ev)"
  from assms(3) obtain K N g tr fresh ow where N: "server_laws N" and stable: "\<forall>t. k_get_Eviction K ?name t = Inr ev"
    and patch: "Kube (StatusPatchEviction fresh new ow) \<in> set (new_calls tr (snd (Eviction_Reconcile L K N g ?name tr)))"
    unfolding eviction_writes_def by blast
  have "writes_from L K (reconcile_update L K N g ?name tr) (Kube (StatusPatchEviction fresh new ow))"
    by (rule extends_by_new_calls [OF Eviction_Reconcile_writes [OF assms(1)] patch])
  then obtain ev' t where u: "reconcile_update L K N g ?name tr ev'"
    and new: "new = fresh\<lparr>ev_Status := merge_status L (ev_Status ev') (ev_Status fresh)\<rparr>"
    and fr: "k_get_Eviction K (Name (ev_Meta ev')) t = Inr fresh" by (rule writes_fromE)
  from u obtain ev0 hv where read: "k_get_Eviction K ?name tr = Inr ev0"
    and run: "map_option Status (FindStatusCondition L (ev_Conditions (ev_Status ev0)) ConditionTypeEvicting)
       \<in> {None, Some ConditionTrue}"
    and eu: "eviction_update L N g ev0 hv
       (tr @ [Kube (GetEviction ?name), Kube (GetHypervisor (es_Hypervisor (ev_Spec ev0)))]) ev'"
    and begun: "FindStatusCondition L (ev_Conditions (ev_Status ev0)) ConditionTypeEvicting = None \<longrightarrow>
       ev' = ev_set_condition L (mk_condition ConditionTypeEvicting ConditionTrue
         ConditionReasonRunning ''Running'') ev0"
    by (rule reconcile_updateE)
  from read stable have ev0: "ev0 = ev" by simp
  have "Name (ev_Meta ev') = ?name" using eviction_update_Meta [OF eu N assms(2)] ev0 by simp
  with fr stable have "fresh = ev" by simp
  show ?thesis
    by (rule that [OF N eu [unfolded ev0] new [unfolded \<open>fresh = ev\<close>] run [unfolded ev0] begun [unfolded ev0]])
qed

lemma eviction_write_step:
  assumes "retry_laws L" "meta_list_laws L" "wrap_laws L" "conds_ok (ev_Conditions (ev_Status ev))" "eviction_writes L ev new"
  shows "phase_step (abs_eviction L ev) (abs_eviction L new)" "conds_ok (ev_Conditions (ev_Status new))"
proof -
  from eviction_write_update [OF assms(1,3,5)] obtain N g hv tr ev' where N: "server_laws N"
    and eu: "eviction_update L N g ev hv tr ev'"
    and new: "new = ev\<lparr>ev_Status := merge_status L (ev_Status ev') (ev_Status ev)\<rparr>"
    and run: "map_option Status (FindStatusCondition L (ev_Conditions (ev_Status ev)) ConditionTypeEvicting) \<in> {None, Some ConditionTrue}"
      "FindStatusCondition L (ev_Conditions (ev_Status ev)) ConditionTypeEvicting = None \<longrightarrow>
       ev' = ev_set_condition L (mk_condition ConditionTypeEvicting ConditionTrue ConditionReasonRunning ''Running'') ev" .
  have ok: "conds_ok (ev_Conditions (ev_Status ev'))" by (rule eviction_update_conds_ok [OF assms(2) eu assms(4)])
  then have "\<forall>d \<in> set (ev_Conditions (ev_Status ev')). Type d \<noteq> []" by (force simp: conds_ok_def)
  with conds_ok_sets [OF assms(2,4)] show "conds_ok (ev_Conditions (ev_Status new))" by (simp add: new)
  show "phase_step (abs_eviction L ev) (abs_eviction L new)"
    using eviction_update_step [OF assms(2) N assms(3) eu run] phase_of_merge [OF assms(2) ok eviction_update_Types [OF assms(2) eu]]
    by (simp add: abs_eviction_def new ev_outstanding_def)
qed

interpretation eviction_life: life_cycle "eviction_writes L" "\<lambda>ev. conds_ok (ev_Conditions (ev_Status ev))" "abs_eviction L"
    phase_step "retry_laws L \<and> meta_list_laws L \<and> wrap_laws L" for L
  by unfold_locales (blast intro: eviction_write_step)+

text \<open>
  C3. Refinement: when nobody else writes the Eviction during a pass, every status a pass writes
  is a step of the abstract life cycle from the status it read, and a sequence of such passes, under
  any answers of Nova, is a run of it. Hence an eviction that was ever \<open>Completed\<close> or \<open>Aborted\<close> is not
  written again, \<open>Completed\<close> is reached from \<open>Draining\<close> only with an empty queue, and the queue only
  shrinks while it drains.
\<close>

theorem Eviction_Reconcile_refines:
  assumes "retry_laws L" "meta_list_laws L" "wrap_laws L" "conds_ok (ev_Conditions (ev_Status ev))"
    and "(eviction_writes L)\<^sup>*\<^sup>* ev ev1" "eviction_writes L ev1 ev2"
  shows "phase_step\<^sup>*\<^sup>* (abs_eviction L ev) (abs_eviction L ev1) \<and> phase_step (abs_eviction L ev1) (abs_eviction L ev2)
    \<and> fst (abs_eviction L ev) \<notin> {Completed, Aborted}"
proof -
  have laws: "retry_laws L \<and> meta_list_laws L \<and> wrap_laws L" using assms(1-3) by simp
  note one = eviction_life.write_moves [OF laws assms(6) eviction_life.run_sound [OF assms(5) laws assms(4)]]
  have "fst (abs_eviction L ev) \<notin> {Completed, Aborted}"
  proof
    assume "fst (abs_eviction L ev) \<in> {Completed, Aborted}"
    then have final: "\<not> phase_step (abs_eviction L ev) q" for q by (auto elim: phase_step.cases)
    with eviction_life.run_final [OF assms(5) laws assms(4)] one show False by simp
  qed
  with one eviction_life.run_moves [OF assms(5) laws assms(4)] show ?thesis by blast
qed

theorem Eviction_Reconcile_refines_witness:
  "\<exists>new. eviction_writes list_lib drained_eviction new
     \<and> phase_step (abs_eviction list_lib drained_eviction) (abs_eviction list_lib new)"
proof -
  obtain fresh new ow where p: "Kube (StatusPatchEviction fresh new ow) \<in> set drained_calls"
    using drained_patch by blast
  have "server_laws sample_nova" by (simp add: server_laws_def sample_nova_def)
  moreover have "\<forall>t. k_get_Eviction drained_kube ''e1'' t = Inr drained_eviction"
    by (simp add: sample_kube_def)
  moreover have "Name (ev_Meta drained_eviction) = ''e1''"
    by (simp add: drained_eviction_def lone_eviction_def empty_eviction_def empty_meta_def)
  ultimately have w: "eviction_writes list_lib drained_eviction new" unfolding eviction_writes_def using p by metis
  from Eviction_Reconcile_refines [OF retry_laws_list_lib meta_list_laws_list_lib wrap_laws_list_lib drained_conds_ok
      rtranclp.rtrancl_refl w] w
  show ?thesis by blast
qed

section \<open>The gate of a migration\<close>

definition migrate_request :: "call \<Rightarrow> bool" where
  "migrate_request c \<longleftrightarrow> (\<exists>u b. c = Server (ServersLiveMigrate u b)) \<or> (\<exists>u. c = Server (ServersMigrate u))"

text \<open>Apart from a drain, a pass asks for no migration; a drain is a run of \<open>evictNext\<close>.\<close>

lemma updateStatus_extends_mono:
  "retry_laws L \<Longrightarrow> (\<And>n d c. update_call L K n d c \<Longrightarrow> P c) \<Longrightarrow> extends_by P tr (snd (updateStatus L K ev tr))"
  by (rule extends_by_mono [OF updateStatus_extends]) auto

lemma handlePreflight_extends_mono:
  assumes "retry_laws L" "\<And>n d c. update_call L K n d c \<Longrightarrow> P c" "\<And>h. P (Compute (HypervisorsGetExt h))"
  shows "extends_by P tr (snd (handlePreflight L K N ev hv tr))"
proof -
  have get: "extends_by P tr (tr @ [Compute (HypervisorsGetExt h)])" for h
    by (rule extends_by_snoc) (rule assms(3))
  note upd = get extends_by_trans [OF get updateStatus_extends_mono [where P = P, OF assms(1,2)]]
    updateStatus_extends_mono [where P = P, OF assms(1,2)]
  show ?thesis
    by (simp add: handlePreflight_def Let_def ask_def result_of_update upd split: sum.split option.split)
qed

lemma evictNext_extends_mono:
  assumes "retry_laws L" "\<And>n d c. update_call L K n d c \<Longrightarrow> P c" "\<And>c. server_only c \<Longrightarrow> P c"
  shows "extends_by P tr (snd (evictNext L K N ev limit tr))"
proof -
  obtain r tr' where e: "evictNext L K N ev limit tr = (r, tr')" by fastforce
  from e assms(1) obtain s tr1 us where p: "evict_pass L N ev limit tr = (s, tr1)" and t: "tr' = tr1 @ us"
    and us: "list_all (update_call L K (Name (ev_Meta (es_eviction s))) (ev_Status (es_eviction s))) us"
    by (rule evictNext_split)
  have "extends_by P tr tr1" by (rule extends_by_mono [OF evict_pass_extends [OF p] assms(3)])
  moreover from us have "list_all P us" by (auto simp: list_all_iff assms(2))
  ultimately show ?thesis by (simp add: e t extends_by_append)
qed

lemma Eviction_Reconcile_extends_mono:
  assumes "retry_laws L" "\<And>n d c. update_call L K n d c \<Longrightarrow> P c" "\<And>c. server_only c \<Longrightarrow> P c"
    and "\<And>h. P (Compute (HypervisorsGetExt h))" "\<And>n. P (Kube (GetEviction n))" "\<And>n. P (Kube (GetHypervisor n))"
  shows "extends_by P tr (snd (Eviction_Reconcile L K N g name tr))"
proof -
  have get: "extends_by P tr (tr @ [Kube (GetEviction name)])"
    "extends_by P tr (tr @ [Kube (GetEviction name), Kube (GetHypervisor h)])" for h
    by (simp_all add: extends_by_def assms)
  note upd = extends_by_trans [OF get(2) updateStatus_extends_mono [where P = P, OF assms(1,2)]]
    extends_by_trans [OF get(2) handlePreflight_extends_mono [where P = P, OF assms(1,2,4)]]
    extends_by_trans [OF get(2) evictNext_extends_mono [where P = P, OF assms(1-3)]]
  show ?thesis
    by (simp add: Eviction_Reconcile_def ask_def handleRunning_def result_of_update get upd
        split: sum.split option.split ConditionStatus.split)
qed

lemma updateStatus_quiet:
  "retry_laws L \<Longrightarrow> extends_by (\<lambda>c. \<not> migrate_request c) tr (snd (updateStatus L K ev tr))"
  by (rule updateStatus_extends_mono) (auto simp: update_call_def migrate_request_def)

lemma handlePreflight_quiet:
  "retry_laws L \<Longrightarrow> extends_by (\<lambda>c. \<not> migrate_request c) tr (snd (handlePreflight L K N ev hv tr))"
  by (rule handlePreflight_extends_mono) (auto simp: update_call_def migrate_request_def)

lemma Eviction_Reconcile_drains_or_quiet:
  assumes "retry_laws L"
  obtains (quiet) "extends_by (\<lambda>c. \<not> migrate_request c) tr (snd (Eviction_Reconcile L K N g name tr))"
  | (drain) ev hv where "k_get_Eviction K name tr = Inr ev" "DeletionTimestamp (ev_Meta ev) = 0"
      "k_get_Hypervisor K (es_Hypervisor (ev_Spec ev)) (tr @ [Kube (GetEviction name)]) = Inr hv"
      "map_option Status (FindStatusCondition L (ev_Conditions (ev_Status ev)) ConditionTypeEvicting) = Some ConditionTrue"
      "IsStatusConditionTrue L (ev_Conditions (ev_Status ev)) ConditionTypePreflight" "ev_outstanding ev \<noteq> []"
      "snd (Eviction_Reconcile L K N g name tr) = snd (evictNext L K N ev (ResolveConcurrency g (Traits (hv_Status hv)))
         (tr @ [Kube (GetEviction name), Kube (GetHypervisor (es_Hypervisor (ev_Spec ev)))]))"
proof (cases "\<exists>ev hv c. k_get_Eviction K name tr = Inr ev \<and> DeletionTimestamp (ev_Meta ev) = 0
    \<and> k_get_Hypervisor K (es_Hypervisor (ev_Spec ev)) (tr @ [Kube (GetEviction name)]) = Inr hv
    \<and> FindStatusCondition L (ev_Conditions (ev_Status ev)) ConditionTypeEvicting = Some c \<and> Status c = ConditionTrue
    \<and> IsStatusConditionTrue L (ev_Conditions (ev_Status ev)) ConditionTypePreflight \<and> ev_outstanding ev \<noteq> []")
  case True
  then show ?thesis
    by (elim exE conjE) (rule drain; simp add: Eviction_Reconcile_def ask_def handleRunning_def)
next
  case False
  let ?P = "\<lambda>c. \<not> migrate_request c"
  have get: "extends_by ?P tr (tr @ [Kube (GetEviction name)])"
    "extends_by ?P tr (tr @ [Kube (GetEviction name), Kube (GetHypervisor h)])" for h
    by (simp_all add: extends_by_def migrate_request_def)
  note upd = extends_by_trans [OF get(2) updateStatus_quiet [OF assms]]
    extends_by_trans [OF get(2) handlePreflight_quiet [OF assms]]
  show ?thesis
    by (rule quiet) (use False in \<open>auto simp: Eviction_Reconcile_def ask_def handleRunning_def result_of_update get upd
        split: sum.split option.split ConditionStatus.split\<close>)
qed

text \<open>
  C5. Migrations are gated: a pass asks Nova to migrate a server only if the Eviction it read is
  not being deleted, is running and has passed its preflight check; and the migrations that Nova
  accepts in one pass stay within the limit that the traits of the host resolve to.
\<close>

theorem Eviction_Reconcile_gate:
  assumes "retry_laws L" "server_laws N" "wrap_laws L"
    and "c \<in> set (new_calls tr (snd (Eviction_Reconcile L K N g name tr)))" "migrate_request c"
  shows "\<exists>ev hv. k_get_Eviction K name tr = Inr ev \<and> DeletionTimestamp (ev_Meta ev) = 0
    \<and> map_option Status (FindStatusCondition L (ev_Conditions (ev_Status ev)) ConditionTypeEvicting) = Some ConditionTrue
    \<and> IsStatusConditionTrue L (ev_Conditions (ev_Status ev)) ConditionTypePreflight
    \<and> k_get_Hypervisor K (es_Hypervisor (ev_Spec ev)) (tr @ [Kube (GetEviction name)]) = Inr hv
    \<and> int (count_calls (trigger_ok N) tr (new_calls tr (snd (Eviction_Reconcile L K N g name tr))))
        \<le> ResolveConcurrency g (Traits (hv_Status hv))"
  using assms(1)
proof (cases rule: Eviction_Reconcile_drains_or_quiet [of L tr K N g name])
  case quiet
  with assms(4,5) show ?thesis by (blast dest: extends_by_new_calls)
next
  case (drain ev hv)
  define gets where "gets = [Kube (GetEviction name), Kube (GetHypervisor (es_Hypervisor (ev_Spec ev)))]"
  let ?limit = "ResolveConcurrency g (Traits (hv_Status hv))"
  have none: "count_calls (trigger_ok N) tr gets = 0" by (simp add: trigger_ok_def gets_def)
  obtain cs where cs: "snd (evictNext L K N ev ?limit (tr @ gets)) = (tr @ gets) @ cs"
    using evictNext_extends [OF assms(1)] by blast
  have "1 \<le> ?limit" by (simp add: ResolveConcurrency_def Let_def)
  with evictNext_bound [OF assms(2,3,1), of ev "tr @ gets" K ?limit]
  have "int (count_calls (trigger_ok N) (tr @ gets) cs) \<le> ?limit"
    unfolding cs new_calls_append by simp
  moreover have "snd (Eviction_Reconcile L K N g name tr) = tr @ (gets @ cs)"
    using drain(7) cs by (simp add: gets_def)
  ultimately have "int (count_calls (trigger_ok N) tr (new_calls tr (snd (Eviction_Reconcile L K N g name tr)))) \<le> ?limit"
    by (simp only: new_calls_append count_calls_append none)
  with drain show ?thesis by blast
qed

text \<open>
  A failure sticks: while servers are still outstanding, recording the success of one server
  leaves a \<open>MigratingInstance\<close> condition with reason \<open>Failed\<close> as it is; with an empty queue, or
  without such a failure, the condition becomes the given success.
\<close>

theorem setMigrationSucceeded_sticky:
  assumes "meta_laws L"
  defines "prior \<equiv> \<lambda>ev. FindStatusCondition L (ev_Conditions (ev_Status ev)) ConditionTypeMigration"
  shows "if ev_outstanding ev \<noteq> [] \<and> (\<exists>p. prior ev = Some p \<and> Status p = ConditionFalse \<and> Reason p = ConditionReasonFailed)
    then prior (setMigrationSucceeded L ev msg) = prior ev
    else map_option meta_view (prior (setMigrationSucceeded L ev msg)) =
           Some (ConditionFalse, ConditionReasonSucceeded, msg, 0)"
  using meta_view_find_set [OF assms(1), of "mk_condition ConditionTypeMigration ConditionFalse
      ConditionReasonSucceeded msg" "ev_Conditions (ev_Status ev)" ConditionTypeMigration]
  by (auto simp: prior_def setMigrationSucceeded_def Let_def meta_view_def split: option.split
      simp del: map_option_eq_Some)

text \<open>
  Errors of single servers never fail a pass: when the status can be written, \<open>evictNext\<close>
  returns no error and asks to be run again, after one second if nothing is in motion although
  servers are outstanding, and after ten seconds otherwise.
\<close>

theorem evictNext_requeues:
  assumes "evict_pass L N ev limit tr = (s, tr1)" and "fst (updateStatus L K (es_eviction s) tr1) = None"
  shows "fst (evictNext L K N ev limit tr) =
    (\<lparr>RequeueAfter = (if inFlight s + started s = 0 \<and> ev_outstanding (es_eviction s) \<noteq> []
       then 1 * second_ns else 10 * second_ns)\<rparr>, None)"
  using assms by (auto simp: evictNext_def split: prod.splits)

theorem evictNext_requeues_witness:
  "fst (evictNext list_lib lone_kube sample_nova lone_eviction 1 []) = (\<lparr>RequeueAfter = 10 * second_ns\<rparr>, None)"
proof -
  let ?p = "evict_pass list_lib sample_nova lone_eviction 1 []"
  have p: "inFlight (fst ?p) + started (fst ?p) = 0" "ev_outstanding (es_eviction (fst ?p)) = []"
    by (simp_all add: evict_pass_def lone_eviction_def ev_outstanding_def
      evict_visit_def ask_def sample_nova_def removeGone_def list_lib_def http_404_def
      ev_set_outstanding_def setMigrationSucceeded_def Let_def ev_set_condition_def split: option.splits)
  have "fst (updateStatus list_lib lone_kube (es_eviction (fst ?p)) (snd ?p)) = None"
    by (simp add: updateStatus_def update_attempt_def list_lib_def numeral_eq_Suc ask_def sample_kube_def Let_def)
  from evictNext_requeues [OF prod.collapse [symmetric] this] p show ?thesis by simp
qed

theorem setMigrationSucceeded_sticky_witness:
  "let prior = (\<lambda>ev. FindStatusCondition list_lib (ev_Conditions (ev_Status ev)) ConditionTypeMigration);
       ev = ev_set_condition list_lib (mk_condition ConditionTypeMigration ConditionFalse ConditionReasonFailed ''x'') lone_eviction
   in prior ev \<noteq> None \<and> prior (setMigrationSucceeded list_lib ev ''done'') = prior ev"
proof -
  let ?ev = "ev_set_condition list_lib (mk_condition ConditionTypeMigration ConditionFalse ConditionReasonFailed ''x'') lone_eviction"
  have "ev_outstanding ?ev \<noteq> []" "FindStatusCondition list_lib (ev_Conditions (ev_Status ?ev)) ConditionTypeMigration =
      Some (mk_condition ConditionTypeMigration ConditionFalse ConditionReasonFailed ''x'')"
    by (simp_all add: lone_eviction_def ev_outstanding_def ev_set_condition_def list_lib_def list_find_def mk_condition_def)
  with setMigrationSucceeded_sticky [OF meta_laws_list_lib, of ?ev "''done''"] show ?thesis by simp
qed

text \<open>One running server on host h1, still to be moved.\<close>

definition one_eviction :: Eviction where
  "one_eviction = drained_eviction\<lparr>ev_Status := (ev_Status drained_eviction)\<lparr>OutstandingInstances := [''a'']\<rparr>\<rparr>"

abbreviation one_kube :: kube where
  "one_kube \<equiv> sample_kube (empty_hypervisor ''h1'') one_eviction (empty_node ''h1'')"

abbreviation one_calls :: "call list" where
  "one_calls \<equiv> new_calls [] (snd (Eviction_Reconcile list_lib one_kube three_servers sample_globals ''e1'' []))"

lemma one_migrates: "Server (ServersLiveMigrate ''a'' False) \<in> set one_calls"
  by (simp add: Eviction_Reconcile_def handleRunning_def evictNext_def evict_pass_def evict_visit_def evict_trigger_eq
      trigger_reply_def trigger_call_def three_servers_def one_eviction_def drained_eviction_def ask_def
      list_lib_def list_find_def updateStatus_def numeral_eq_Suc ev_outstanding_def active_server_def
      update_attempt_def sample_kube_def Let_def new_calls_def sample_nova_def sample_globals_def
      ResolveConcurrency_def zero_values lone_eviction_def strings_Cut_def isMigrationTaskState_def
      strings_HasPrefix_def)

theorem Eviction_Reconcile_gate_witness:
  "Server (ServersLiveMigrate ''a'' False) \<in> set one_calls \<and>
   (\<exists>hv :: Hypervisor. int (count_calls (trigger_ok three_servers) [] one_calls) \<le> ResolveConcurrency sample_globals (Traits (hv_Status hv)))"
proof -
  have "migrate_request (Server (ServersLiveMigrate ''a'' False))" unfolding migrate_request_def by blast
  from Eviction_Reconcile_gate [OF retry_laws_list_lib server_laws_three wrap_laws_list_lib one_migrates this] one_migrates
  show ?thesis by blast
qed

section \<open>Progress\<close>

text \<open>When every server is movable and Nova accepts every request, the scan collects all servers.\<close>

lemma evict_scan_all_movable:
  "\<forall>u \<in> set us. \<forall>t. \<exists>vm. n_servers_Get N u t = Inr vm \<and> vm_movable (es_Hypervisor (ev_Spec (es_eviction s))) vm \<Longrightarrow>
   inFlight s < limit \<Longrightarrow> evict_scan L N limit us s tr = (s', tr') \<Longrightarrow>
   inFlight s' = inFlight s \<and> started s' = started s \<and> length (candidates s') = length (candidates s) + length us"
proof (induction us arbitrary: s tr)
  case (Cons u us)
  obtain vm where vm: "n_servers_Get N u tr = Inr vm" "vm_movable (es_Hypervisor (ev_Spec (es_eviction s))) vm"
    using Cons.prems(1) by (meson list.set_intros(1))
  obtain s1 tr1 where v: "evict_visit L N u s tr = (s1, tr1)" by fastforce
  then have s1: "s1 = s\<lparr>candidates := candidates s @
      [\<lparr>cand_id = sv_ID vm, cand_live = (sv_Status vm = ''ACTIVE'' \<or> sv_PowerState vm = 1)\<rparr>]\<rparr>"
    using vm by (auto elim!: evict_visit_cases simp: vm_movable_def vm_busy_def vm_left_def)
  show ?case using Cons.IH [of s1 tr1] Cons.prems v by (simp add: s1)
qed simp

lemma evict_start_all_accepted:
  "\<forall>c t. trigger_reply N c t = None \<Longrightarrow> inFlight s + started s \<le> limit \<Longrightarrow>
   evict_start L N limit cs s tr = (s', tr') \<Longrightarrow>
   started s' = started s + min (limit - inFlight s - started s) (int (length cs))"
proof (induction cs arbitrary: s tr)
  case (Cons c cs)
  show ?case
  proof (cases "inFlight s + started s \<ge> limit")
    case True
    with Cons.prems show ?thesis by auto
  next
    case False
    with Cons.prems have "evict_start L N limit cs (s\<lparr>started := started s + 1\<rparr>) (tr @ [trigger_call c]) = (s', tr')"
      by (simp add: evict_trigger_eq)
    with Cons.IH [of "s\<lparr>started := started s + 1\<rparr>"] Cons.prems False show ?thesis by (simp add: min_def)
  qed
qed (simp add: min_def)

text \<open>
  C6. Progress: when Nova reports every outstanding server as movable and accepts every request, a
  pass starts exactly as many migrations as the limit and the queue allow.
\<close>

theorem evict_pass_saturates:
  assumes "\<forall>u \<in> set (ev_outstanding ev). \<forall>t. \<exists>vm. n_servers_Get N u t = Inr vm
      \<and> vm_movable (es_Hypervisor (ev_Spec ev)) vm"
    and "\<forall>u b t. n_servers_LiveMigrate N u b t = None" "\<forall>u t. n_servers_Migrate N u t = None"
  shows "started (fst (evict_pass L N ev limit tr)) = min (max 1 limit) (int (length (ev_outstanding ev)))"
proof -
  let ?l = "if limit < 1 then 1 else limit"
  let ?s0 = "\<lparr>es_eviction = ev, inFlight = 0, started = 0, candidates = [], errs = []\<rparr>"
  obtain s1 tr1 where scan: "evict_scan L N ?l (ev_outstanding ev) ?s0 tr = (s1, tr1)" by fastforce
  then have s1: "inFlight s1 = 0" "started s1 = 0" "length (candidates s1) = length (ev_outstanding ev)"
    using evict_scan_all_movable [of "ev_outstanding ev" N ?s0 ?l L tr s1 tr1] assms(1) by auto
  obtain s tr' where st: "evict_start L N ?l (candidates s1) s1 tr1 = (s, tr')" by fastforce
  have "\<forall>c t. trigger_reply N c t = None" using assms(2,3) by (simp add: trigger_reply_def)
  from evict_start_all_accepted [OF this _ st] s1
  have "started s = min ?l (int (length (ev_outstanding ev)))" by simp
  moreover have "fst (evict_pass L N ev limit tr) = s" using scan st by (simp add: evict_pass_def Let_def)
  moreover have "?l = max 1 limit" by simp
  ultimately show ?thesis by simp
qed

theorem evict_pass_saturates_witness:
  "started (fst (evict_pass list_lib three_servers three_eviction 2 [])) = 2"
proof -
  have "\<forall>u \<in> set (ev_outstanding three_eviction). \<forall>t. \<exists>vm. n_servers_Get three_servers u t = Inr vm
      \<and> vm_movable (es_Hypervisor (ev_Spec three_eviction)) vm"
    by (simp add: three_servers_def three_eviction_def active_server_def vm_movable_def vm_host_def
        isMigrationTaskState_def strings_HasPrefix_def)
  moreover have "\<forall>u b t. n_servers_LiveMigrate three_servers u b t = None" "\<forall>u t. n_servers_Migrate three_servers u t = None"
    by (simp_all add: three_servers_def sample_nova_def)
  ultimately have "started (fst (evict_pass list_lib three_servers three_eviction 2 [])) =
      min (max 1 2) (int (length (ev_outstanding three_eviction)))"
    by (rule evict_pass_saturates)
  then show ?thesis by (simp add: three_eviction_def ev_outstanding_def)
qed

text \<open>
  Once Nova reports every outstanding server as unknown or as settled on another host, one pass
  empties the queue, so that the next one completes the eviction.
\<close>

definition all_left :: "lib \<Rightarrow> nova \<Rightarrow> string \<Rightarrow> string list \<Rightarrow> trace \<Rightarrow> bool" where
  "all_left L N host us tr \<longleftrightarrow> (\<forall>u \<in> set us. \<forall>cs.
      (\<exists>e. n_servers_Get N u (tr @ cs) = Inl e \<and> ResponseCodeIs L e 404) \<or>
      (\<exists>vm. n_servers_Get N u (tr @ cs) = Inr vm \<and> vm_left host vm))"

lemma all_left_later: "all_left L N host us tr \<Longrightarrow> set vs \<subseteq> set us \<Longrightarrow> all_left L N host vs (tr @ cs)"
  by (simp add: all_left_def) blast

theorem evict_pass_empties:
  assumes left: "all_left L N (es_Hypervisor (ev_Spec ev)) (ev_outstanding ev) tr"
  shows "ev_outstanding (es_eviction (fst (evict_pass L N ev limit tr))) = []"
proof -
  have scan: "ev_outstanding (es_eviction s') = [] \<and> candidates s' = []"
    if "evict_scan L N l us s t = (s', t')" "inFlight s < l" "ev_outstanding (es_eviction s) = us" "candidates s = []"
      "es_Hypervisor (ev_Spec (es_eviction s)) = es_Hypervisor (ev_Spec ev)"
      "all_left L N (es_Hypervisor (ev_Spec ev)) us t"
    for l us s t s' t'
    using that
  proof (induction us arbitrary: s t)
    case (Cons u us)
    obtain s1 t1 where v: "evict_visit L N u s t = (s1, t1)" by fastforce
    have u: "(\<exists>e. n_servers_Get N u t = Inl e \<and> ResponseCodeIs L e 404) \<or>
      (\<exists>vm. n_servers_Get N u t = Inr vm \<and> vm_left (es_Hypervisor (ev_Spec ev)) vm)"
      using Cons.prems(6) unfolding all_left_def by (metis append_Nil2 list.set_intros(1))
    obtain cs where "t1 = t @ cs" using v by (cases rule: evict_visit_cases) auto
    then have later: "all_left L N (es_Hypervisor (ev_Spec ev)) us t1"
      using all_left_later [OF Cons.prems(6), of us cs] by auto
    have "inFlight s1 = inFlight s \<and> candidates s1 = [] \<and> ev_outstanding (es_eviction s1) = us
        \<and> ev_Spec (es_eviction s1) = ev_Spec (es_eviction s)"
      using v
    proof (cases rule: evict_visit_cases)
      case (gone e ev1)
      then show ?thesis using Cons.prems(3,4) by (auto simp: removeGone_def removeInstance_remove1)
    next
      case (left vm ev1)
      then show ?thesis using Cons.prems(3,4) by auto
    qed (use u Cons.prems(5) in \<open>auto simp: vm_left_def vm_busy_def vm_movable_def\<close>)
    with Cons v later show ?case by auto
  qed simp
  let ?l = "if limit < 1 then 1 else limit"
  let ?s0 = "\<lparr>es_eviction = ev, inFlight = 0, started = 0, candidates = [], errs = []\<rparr>"
  obtain s1 t1 where s: "evict_scan L N ?l (ev_outstanding ev) ?s0 tr = (s1, t1)" by fastforce
  from scan [OF s] left have "ev_outstanding (es_eviction s1) = []" "candidates s1 = []" by auto
  with s show ?thesis by (simp add: evict_pass_def Let_def)
qed

theorem evict_pass_empties_witness:
  "ev_outstanding (es_eviction (fst (evict_pass list_lib sample_nova lone_eviction 1 []))) = []"
  by (rule evict_pass_empties)
    (simp add: all_left_def lone_eviction_def ev_outstanding_def sample_nova_def http_404_def list_lib_def)

text \<open>
  A server that is being deleted at the head of the queue takes the only slot of a host with
  limit 1 and keeps its place: the pass looks at no other server, starts nothing, and leaves the
  order of the queue unchanged, so that the next pass meets the same server first.
\<close>

theorem terminating_head_blocks:
  assumes "ev_outstanding ev = u # us" "limit \<le> 1" "n_servers_Get N u tr = Inr vm"
    and "sv_TaskState vm = ''deleting''" "vm_host vm = es_Hypervisor (ev_Spec ev)"
    and "sv_Status vm \<notin> {''MIGRATING'', ''RESIZE'', ''ERROR''}"
  shows "snd (evict_pass L N ev limit tr) = tr @ [Server (ServersGet u)]
    \<and> ev_outstanding (es_eviction (fst (evict_pass L N ev limit tr))) = ev_outstanding ev
    \<and> started (fst (evict_pass L N ev limit tr)) = 0"
proof -
  let ?l = "if limit < 1 then 1 else limit"
  let ?s0 = "\<lparr>es_eviction = ev, inFlight = 0, started = 0, candidates = [], errs = []\<rparr>"
  have "\<not> isMigrationTaskState ''deleting''" by (simp add: isMigrationTaskState_def strings_HasPrefix_def)
  with assms(3-6) have v: "snd (evict_visit L N u ?s0 tr) = tr @ [Server (ServersGet u)]"
    "ev_outstanding (es_eviction (fst (evict_visit L N u ?s0 tr))) = deprioritize (ev_outstanding ev) u"
    "inFlight (fst (evict_visit L N u ?s0 tr)) = 1" "started (fst (evict_visit L N u ?s0 tr)) = 0"
    "candidates (fst (evict_visit L N u ?s0 tr)) = []"
    by (simp_all add: evict_visit_def ask_def vm_host_Cut del: append.simps)
  obtain s1 t1 where s1: "evict_visit L N u ?s0 tr = (s1, t1)" by fastforce
  have "evict_scan L N ?l (u # us) ?s0 tr = (s1, t1)"
    using assms(2) s1 v(3) by (cases us) auto
  with s1 v assms(1) show ?thesis
    by (simp add: evict_pass_def Let_def deprioritize_def)
qed

definition deleting_nova :: nova where
  "deleting_nova = sample_nova\<lparr>n_servers_Get := (\<lambda>u _. Inr ((active_server ''h1'' u)\<lparr>sv_TaskState := ''deleting''\<rparr>))\<rparr>"

theorem terminating_head_blocks_witness:
  "snd (evict_pass list_lib deleting_nova three_eviction 1 []) = [Server (ServersGet ''a'')]"
proof -
  let ?vm = "(active_server ''h1'' ''a'')\<lparr>sv_TaskState := ''deleting''\<rparr>"
  have "ev_outstanding three_eviction = ''a'' # [''b'', ''c'']" "n_servers_Get deleting_nova ''a'' [] = Inr ?vm"
    "sv_TaskState ?vm = ''deleting''" "vm_host ?vm = es_Hypervisor (ev_Spec three_eviction)"
    "sv_Status ?vm \<notin> {''MIGRATING'', ''RESIZE'', ''ERROR''}"
    by (simp_all add: deleting_nova_def three_eviction_def active_server_def vm_host_def ev_outstanding_def)
  from terminating_head_blocks [OF this(1) order_refl this(2-5)] show ?thesis by simp
qed

end
