(* ===== verification/Migrations.thy ===== *)
theory Migrations
  imports Utils
begin

text \<open>
  Incoming migrations of a host that is being drained: \<^verbatim>\<open>src/internal/openstack/migrations.go\<close>.
  The two HTTP requests (\<open>GET /os-migrations\<close> and \<open>DELETE .../migrations/id\<close>) are the calls
  \<open>n_migrations_List\<close> and \<open>n_migrations_Delete\<close>; the clock is an argument. The lookback window of six hours is subtracted from the clock as in the source.
\<close>

definition IncomingMigrationsLookbackWindow :: nat where
  "IncomingMigrationsLookbackWindow = 6 * 3600"

definition terminalStatuses :: "string list" where
  "terminalStatuses =
     [''confirmed'', ''reverted'', ''error'', ''failed'', ''completed'', ''cancelled'', ''done'']"

definition abortableStatuses :: "string list" where
  "abortableStatuses = [''queued'', ''preparing'', ''running'']"

text \<open>The clock of the pass.\<close>

record clock =
  clk_Now :: go_time

definition listMigrationsForHost ::
    "nova \<Rightarrow> string \<Rightarrow> string \<Rightarrow> trace \<Rightarrow> (go_error + MigrationInfo list) \<times> trace" where
  "listMigrationsForHost N host changesSince tr =
     ask (n_migrations_List N host changesSince) (Compute (MigrationsList host changesSince)) tr"

fun filter_active :: "string \<Rightarrow> MigrationInfo list \<Rightarrow> MigrationInfo list" where
  "filter_active host [] = []"
| "filter_active host (m # ms) =
     (if mi_DestCompute m \<noteq> host then filter_active host ms
      else if mi_Status m \<in> set terminalStatuses then filter_active host ms
      else m # filter_active host ms)"

definition ListActiveIncomingMigrations ::
    "clock \<Rightarrow> nova \<Rightarrow> string \<Rightarrow> trace \<Rightarrow> (go_error + MigrationInfo list) \<times> trace" where
  "ListActiveIncomingMigrations C N host tr =
     (case listMigrationsForHost N host (RFC3339_UTC (clk_Now C - IncomingMigrationsLookbackWindow)) tr of
        (Inl err, tr1) \<Rightarrow> (Inl (Errorf (''listing migrations for host '' @ host @ '': '') err), tr1)
      | (Inr migrations, tr1) \<Rightarrow> (Inr (filter_active host migrations), tr1))"

definition AbortMigration :: "lib \<Rightarrow> nova \<Rightarrow> string \<Rightarrow> int \<Rightarrow> trace \<Rightarrow> go_error option \<times> trace" where
  "AbortMigration L N instanceUUID migrationID tr =
     (case ask (n_migrations_Delete N instanceUUID migrationID)
             (Compute (MigrationsDelete instanceUUID migrationID)) tr of
        (None, tr1) \<Rightarrow> (None, tr1)
      | (Some err, tr1) \<Rightarrow>
          if ResponseCodeIs L err 404 \<or> ResponseCodeIs L err 409 then (None, tr1)
          else (Some (Errorf (''aborting migration '' @ fmt_d migrationID @ '' for instance ''
                              @ instanceUUID @ '': '') err), tr1))"

definition abortable :: "MigrationInfo \<Rightarrow> bool" where
  "abortable m = (mi_Status m \<in> set abortableStatuses \<and> mi_MigrationType m = ''live-migration'')"

fun settle_loop ::
    "lib \<Rightarrow> nova \<Rightarrow> MigrationInfo list \<Rightarrow> MigrationInfo list \<Rightarrow> MigrationInfo list \<Rightarrow> trace
     \<Rightarrow> (MigrationInfo list \<times> MigrationInfo list \<times> go_error option) \<times> trace" where
  "settle_loop L N [] aborted waiting tr = ((aborted, waiting, None), tr)"
| "settle_loop L N (m # ms) aborted waiting tr =
     (if abortable m
      then (case AbortMigration L N (mi_InstanceUUID m) (mi_ID m) tr of
              (Some abortErr, tr1) \<Rightarrow> ((aborted, waiting, Some abortErr), tr1)
            | (None, tr1) \<Rightarrow> settle_loop L N ms (aborted @ [m]) waiting tr1)
      else settle_loop L N ms aborted (waiting @ [m]) tr)"

definition SettleIncomingMigrations ::
    "lib \<Rightarrow> clock \<Rightarrow> nova \<Rightarrow> string \<Rightarrow> trace
     \<Rightarrow> (MigrationInfo list \<times> MigrationInfo list \<times> go_error option) \<times> trace" where
  "SettleIncomingMigrations L C N host tr =
     (case ListActiveIncomingMigrations C N host tr of
        (Inl err, tr1) \<Rightarrow> (([], [], Some err), tr1)
      | (Inr active, tr1) \<Rightarrow> settle_loop L N active [] [] tr1)"

section \<open>Lemmas\<close>

lemma filter_active_eq:
  "filter_active host ms = filter (\<lambda>m. mi_DestCompute m = host \<and> mi_Status m \<notin> set terminalStatuses) ms"
  by (induction ms) auto

definition abort_call :: "MigrationInfo \<Rightarrow> call" where
  "abort_call m = Compute (MigrationsDelete (mi_InstanceUUID m) (mi_ID m))"

lemma snd_AbortMigration [simp]:
  "snd (AbortMigration L N i k tr) = tr @ [Compute (MigrationsDelete i k)]"
  by (auto simp: AbortMigration_def ask_def split: option.splits)

text \<open>Without an error the loop sorts its input: what was aborted and what has to be waited for.\<close>

lemma settle_loop_ok:
  "settle_loop L N ms ab wa tr = ((ab', wa', None), tr') \<Longrightarrow>
   ab' = ab @ filter abortable ms \<and> wa' = wa @ filter (\<lambda>m. \<not> abortable m) ms \<and>
   tr' = tr @ map abort_call (filter abortable ms)"
proof (induction ms arbitrary: ab wa tr)
  case Nil
  then show ?case by simp
next
  case (Cons m ms)
  show ?case
  proof (cases "abortable m")
    case True
    obtain r tr1 where a: "AbortMigration L N (mi_InstanceUUID m) (mi_ID m) tr = (r, tr1)" by fastforce
    then have tr1: "tr1 = tr @ [abort_call m]"
      by (metis abort_call_def snd_AbortMigration snd_conv)
    from Cons.prems True a have "r = None" by (auto split: option.splits)
    with Cons.prems True a have "settle_loop L N ms (ab @ [m]) wa tr1 = ((ab', wa', None), tr')" by simp
    from Cons.IH [OF this] True show ?thesis by (simp add: tr1)
  next
    case False
    with Cons.prems have "settle_loop L N ms ab (wa @ [m]) tr = ((ab', wa', None), tr')" by simp
    from Cons.IH [OF this] False show ?thesis by simp
  qed
qed

text \<open>In every case, error included, only migrations of the input are aborted, in order, each once.\<close>

lemma settle_loop_calls:
  "\<exists>k. snd (settle_loop L N ms ab wa tr) = tr @ map abort_call (take k (filter abortable ms))"
proof (induction ms arbitrary: ab wa tr)
  case Nil
  then show ?case by simp
next
  case (Cons m ms)
  show ?case
  proof (cases "abortable m")
    case True
    obtain r tr1 where a: "AbortMigration L N (mi_InstanceUUID m) (mi_ID m) tr = (r, tr1)" by fastforce
    then have tr1: "tr1 = tr @ [abort_call m]"
      by (metis abort_call_def snd_AbortMigration snd_conv)
    show ?thesis
    proof (cases r)
      case None
      obtain k where "snd (settle_loop L N ms (ab @ [m]) wa tr1) =
          tr1 @ map abort_call (take k (filter abortable ms))"
        using Cons.IH by blast
      with True a None show ?thesis by (intro exI [of _ "Suc k"]) (simp add: tr1)
    next
      case (Some e)
      with True a show ?thesis by (intro exI [of _ "Suc 0"]) (simp add: tr1)
    qed
  next
    case False
    with Cons.IH show ?thesis by simp
  qed
qed

end
