(* ===== verification/Maintenance_Ctrl.thy ===== *)
theory Maintenance_Ctrl
  imports Sample_World Migrations
begin

text \<open>
  The maintenance controller: \<^verbatim>\<open>src/internal/controller/hypervisor_maintenance_controller.go\<close>. It
  enables or disables the compute service of a host as \<open>spec.maintenance\<close> asks, settles the
  incoming migrations, and creates, watches or deletes the host's \<open>Eviction\<close>. What it wants of the
  status is an apply configuration, built up through the pass and applied at its end; fields it
  leaves out are pruned by the API server.
\<close>

abbreviation HypervisorMaintenanceControllerName :: string where
  "HypervisorMaintenanceControllerName \<equiv> ''HypervisorMaintenance''"

definition settleRequeueInterval :: int where
  "settleRequeueInterval = 10 * second_ns"

abbreviation ServiceEnabled :: string where "ServiceEnabled \<equiv> ''enabled''"
abbreviation ServiceDisabled :: string where "ServiceDisabled \<equiv> ''disabled''"
abbreviation GroupVersion :: string where "GroupVersion \<equiv> ''kvm.cloud.sap/v1''"

abbreviation draining_modes :: "string list" where
  "draining_modes \<equiv> [MaintenanceManual, MaintenanceAuto, MaintenanceTermination]"

section \<open>Building the status configuration\<close>

definition cfg_set :: "go_time \<Rightarrow> ConditionApplyConfiguration \<Rightarrow> HypervisorStatusApplyConfiguration
    \<Rightarrow> HypervisorStatusApplyConfiguration" where
  "cfg_set now c cfg = cfg\<lparr>cfg_Conditions := set_apply_condition now (cfg_Conditions cfg) c\<rparr>"

definition WithEvicted :: "bool \<Rightarrow> HypervisorStatusApplyConfiguration \<Rightarrow> HypervisorStatusApplyConfiguration" where
  "WithEvicted b cfg = cfg\<lparr>cfg_Evicted := Some b\<rparr>"

definition retainStatusCondition ::
    "lib \<Rightarrow> go_time \<Rightarrow> condition list \<Rightarrow> string \<Rightarrow> HypervisorStatusApplyConfiguration
     \<Rightarrow> HypervisorStatusApplyConfiguration" where
  "retainStatusCondition L now conditions conditionType cfg =
     (case FindStatusCondition L conditions conditionType of
        None \<Rightarrow> cfg
      | Some condition \<Rightarrow> cfg_set now (ConditionFromStatus condition) cfg)"

section \<open>reconcileComputeService\<close>

definition reconcileComputeService ::
    "lib \<Rightarrow> nova \<Rightarrow> go_time \<Rightarrow> Hypervisor \<Rightarrow> HypervisorStatusApplyConfiguration \<Rightarrow> trace
     \<Rightarrow> (go_error option \<times> HypervisorStatusApplyConfiguration) \<times> trace" where
  "reconcileComputeService L N now hv cfg tr =
     (let serviceId = ServiceID (hv_Status hv);
          existing = FindStatusCondition L (hv_Conditions hv) ConditionTypeHypervisorDisabled in
      if serviceId = [] then ((None, cfg), tr)
      else if hv_Maintenance hv = MaintenanceUnset
      then
        (let enabled = cfg_set now (ac_condition ConditionTypeHypervisorDisabled ConditionFalse
                         ConditionReasonSucceeded ''Hypervisor is enabled'') cfg in
         if existing = None \<or> Status (the existing) \<noteq> ConditionFalse
         then
           (let enableService = \<lparr>us_Status = ServiceEnabled, us_DisabledReason = [], us_ForcedDown = Some False\<rparr> in
            case ask (n_services_Update N serviceId enableService)
                   (Compute (ServicesUpdate serviceId enableService)) tr of
              (Some e, tr1) \<Rightarrow>
                let err = Errorf ''failed to enable hypervisor due to '' e in
                ((Some err, cfg_set now (ac_condition ConditionTypeHypervisorDisabled ConditionUnknown
                    ConditionReasonFailed (Error_text err)) cfg), tr1)
            | (None, tr1) \<Rightarrow> ((None, enabled), tr1))
         else ((None, enabled), tr))
      else if hv_Maintenance hv \<in> set draining_modes
      then
        (let disabled = cfg_set now (ac_condition ConditionTypeHypervisorDisabled ConditionTrue
                          ConditionReasonSucceeded ''Hypervisor is disabled'') cfg in
         if existing = None \<or> Status (the existing) \<noteq> ConditionTrue
         then
           (let disableService = \<lparr>us_Status = ServiceDisabled,
                  us_DisabledReason = ''Hypervisor CRD: spec.maintenance='' @ hv_Maintenance hv, us_ForcedDown = None\<rparr> in
            case ask (n_services_Update N serviceId disableService)
                   (Compute (ServicesUpdate serviceId disableService)) tr of
              (Some e, tr1) \<Rightarrow>
                let err = Errorf ''failed to disable hypervisor due to '' e in
                ((Some err, cfg_set now (ac_condition ConditionTypeHypervisorDisabled ConditionUnknown
                    ConditionReasonFailed (Error_text err)) cfg), tr1)
            | (None, tr1) \<Rightarrow> ((None, disabled), tr1))
         else ((None, disabled), tr))
      else ((None, cfg), tr))"

section \<open>settleIncomingMigrations and ensureEviction\<close>

definition settleIncomingMigrations ::
    "lib \<Rightarrow> clock \<Rightarrow> nova \<Rightarrow> Hypervisor \<Rightarrow> HypervisorStatusApplyConfiguration \<Rightarrow> trace
     \<Rightarrow> ((go_error + bool) \<times> HypervisorStatusApplyConfiguration) \<times> trace" where
  "settleIncomingMigrations L C N hv cfg tr =
     (let now = clk_Now C; ty = ConditionTypeIncomingMigrationsSettled in
      case SettleIncomingMigrations L C N (hv_Name hv) tr of
        ((aborted, waiting, Some e), tr1) \<Rightarrow>
          let err = Errorf (''settling incoming migrations for '' @ hv_Name hv @ '': '') e in
          ((Inl err, cfg_set now (ac_condition ty ConditionUnknown ConditionReasonFailed (Error_text err)) cfg), tr1)
      | ((aborted, waiting, None), tr1) \<Rightarrow>
          if length waiting > 0
          then ((Inr False, cfg_set now (ac_condition ty ConditionFalse ConditionReasonWaiting
                 (''Waiting for '' @ fmt_d (int (length waiting)) @ '' non-abortable incoming migration(s) to complete'')) cfg), tr1)
          else if length aborted > 0
          then ((Inr False, cfg_set now (ac_condition ty ConditionFalse ConditionReasonAborting
                 (''Aborted '' @ fmt_d (int (length aborted)) @ '' incoming migration(s); verifying on next reconcile'')) cfg), tr1)
          else ((Inr True, cfg_set now (ac_condition ty ConditionTrue ConditionReasonSettled
                 ''No incoming migrations targeting this host'') cfg), tr1))"

text \<open>The labels to carry over: those of \<open>transferLabels\<close> that the hypervisor has.\<close>

fun transfer_labels :: "string list \<Rightarrow> label_map \<Rightarrow> label_map \<Rightarrow> label_map" where
  "transfer_labels [] hvLabels evictionLabels = evictionLabels"
| "transfer_labels (label # transferLabels) hvLabels evictionLabels =
     transfer_labels transferLabels hvLabels
       (case hvLabels label of Some v \<Rightarrow> evictionLabels(label \<mapsto> v) | None \<Rightarrow> evictionLabels)"

definition ensureEviction ::
    "lib \<Rightarrow> kube \<Rightarrow> string list \<Rightarrow> Hypervisor \<Rightarrow> trace \<Rightarrow> (go_error + ConditionStatus) \<times> trace" where
  "ensureEviction L K transferLabels hv tr =
     (let ownerRef = \<lparr>or_APIVersion = GroupVersion, or_Kind = ''Hypervisor'', or_Name = hv_Name hv,
            or_UID = UID (Meta hv), or_Controller = Some True, or_BlockOwnerDeletion = Some True\<rparr>;
          evictionApplyCfg = \<lparr>ea_Name = hv_Name hv,
            ea_Labels = transfer_labels transferLabels (Labels (Meta hv)) Map.empty,
            ea_OwnerReferences = [ownerRef],
            ea_Spec = \<lparr>es_Hypervisor = hv_Name hv, es_Reason = ''openstack-hypervisor-operator maintenance''\<rparr>\<rparr> in
      case ask (k_apply_Eviction K evictionApplyCfg)
             (Kube (ApplyEviction evictionApplyCfg HypervisorMaintenanceControllerName)) tr of
        (Some err, tr1) \<Rightarrow> (Inl (Errorf ''failed to apply eviction due to '' err), tr1)
      | (None, tr1) \<Rightarrow>
          (case ask (k_get_Eviction K (hv_Name hv)) (Kube (GetEviction (hv_Name hv))) tr1 of
             (Inl err, tr2) \<Rightarrow> (Inl (Errorf ''failed to get eviction status due to '' err), tr2)
           | (Inr eviction, tr2) \<Rightarrow>
               if IsStatusConditionFalse L (ev_Conditions (ev_Status eviction)) ConditionTypeEvicting
               then (Inr ConditionFalse, tr2) else (Inr ConditionTrue, tr2)))"

definition delete_eviction :: "lib \<Rightarrow> kube \<Rightarrow> string \<Rightarrow> trace \<Rightarrow> go_error option \<times> trace" where
  "delete_eviction L K name tr =
     (case ask (k_delete_Eviction K name) (Kube (DeleteEviction name)) tr of
        (None, tr1) \<Rightarrow> (None, tr1)
      | (Some e, tr1) \<Rightarrow> (IgnoreNotFound L e, tr1))"

section \<open>reconcileEviction\<close>

definition reconcileEviction ::
    "lib \<Rightarrow> kube \<Rightarrow> clock \<Rightarrow> nova \<Rightarrow> string list \<Rightarrow> Hypervisor \<Rightarrow> HypervisorStatusApplyConfiguration \<Rightarrow> trace
     \<Rightarrow> ((bool \<times> go_error option) \<times> HypervisorStatusApplyConfiguration) \<times> trace" where
  "reconcileEviction L K C N transferLabels hv cfg tr =
     (let now = clk_Now C; conds = hv_Conditions hv in
      if hv_Maintenance hv = MaintenanceUnset
      then
        (if \<not> Evicted (hv_Status hv)
            \<and> FindStatusCondition L conds ConditionTypeEvicting = None
            \<and> FindStatusCondition L conds ConditionTypeIncomingMigrationsSettled = None
         then (((False, None), cfg), tr)
         else
           (case delete_eviction L K (hv_Name hv) tr of
              (Some err, tr1) \<Rightarrow> (((False, Some err), cfg), tr1)
            | (None, tr1) \<Rightarrow> (((False, None), WithEvicted False cfg), tr1)))
      else if hv_Maintenance hv \<in> set draining_modes
      then
        (let evictingCondition = FindStatusCondition L conds ConditionTypeEvicting;
             migrationsCondition = FindStatusCondition L conds ConditionTypeIncomingMigrationsSettled;
             succeeded = (case evictingCondition of None \<Rightarrow> False
                | Some c \<Rightarrow> Status c = ConditionFalse \<and> Reason c = ConditionReasonSucceeded) in
         if succeeded \<and> NumInstances (hv_Status hv) > 0
         then
           (case delete_eviction L K (hv_Name hv) tr of
              (Some delErr, tr1) \<Rightarrow> (((False, Some delErr), cfg), tr1)
            | (None, tr1) \<Rightarrow>
                (((False, None),
                  retainStatusCondition L now conds ConditionTypeIncomingMigrationsSettled
                    (cfg_set now (ac_condition ConditionTypeEvicting ConditionTrue ConditionReasonRunning
                       (''Re-entering drain: '' @ fmt_d (NumInstances (hv_Status hv)) @ '' instance(s) still on host''))
                      (WithEvicted False cfg))), tr1))
         else if succeeded \<and> Evicted (hv_Status hv)
                 \<and> (case migrationsCondition of None \<Rightarrow> False
                    | Some c \<Rightarrow> Status c = ConditionTrue \<and> Reason c = ConditionReasonSettled)
         then (((False, None),
                retainStatusCondition L now conds ConditionTypeIncomingMigrationsSettled
                  (retainStatusCondition L now conds ConditionTypeEvicting cfg)), tr)
         else
           (case settleIncomingMigrations L C N hv cfg tr of
              ((Inl err, cfg1), tr1) \<Rightarrow>
                (((False, Some err), retainStatusCondition L now conds ConditionTypeEvicting (WithEvicted False cfg1)), tr1)
            | ((Inr False, cfg1), tr1) \<Rightarrow>
                (((True, None), retainStatusCondition L now conds ConditionTypeEvicting (WithEvicted False cfg1)), tr1)
            | ((Inr True, cfg1), tr1) \<Rightarrow>
                if (case evictingCondition of None \<Rightarrow> False | Some c \<Rightarrow> Reason c = ConditionReasonSucceeded)
                then (((False, None), retainStatusCondition L now conds ConditionTypeEvicting cfg1), tr1)
                else
                  (case ensureEviction L K transferLabels hv tr1 of
                     (Inl err, tr2) \<Rightarrow> (((False, Some err), cfg1), tr2)
                   | (Inr status, tr2) \<Rightarrow>
                       if status = ConditionFalse
                       then
                         (if NumInstances (hv_Status hv) > 0
                          then
                            (case delete_eviction L K (hv_Name hv) tr2 of
                               (Some delErr, tr3) \<Rightarrow> (((False, Some delErr), cfg1), tr3)
                             | (None, tr3) \<Rightarrow>
                                 (((False, None),
                                   cfg_set now (ac_condition ConditionTypeEvicting ConditionTrue ConditionReasonRunning
                                     (''Restarting drain: '' @ fmt_d (NumInstances (hv_Status hv)) @ '' instance(s) still on host''))
                                     (WithEvicted False cfg1)), tr3))
                          else (((False, None), cfg_set now (ac_condition ConditionTypeEvicting status
                                  ConditionReasonSucceeded ''Evicted'') (WithEvicted True cfg1)), tr2))
                       else (((False, None), cfg_set now (ac_condition ConditionTypeEvicting status
                               ConditionReasonRunning ''Evicting'') (WithEvicted False cfg1)), tr2))))
      else (((False, None), cfg), tr))"

section \<open>Reconcile\<close>

definition initial_cfg :: "lib \<Rightarrow> go_time \<Rightarrow> Hypervisor \<Rightarrow> HypervisorStatusApplyConfiguration" where
  "initial_cfg L now hv =
     retainStatusCondition L now (hv_Conditions hv) ConditionTypeHypervisorDisabled
       (WithEvicted (Evicted (hv_Status hv)) HypervisorStatus_cfg)"

text \<open>The pass up to its final apply: whether to requeue, the error, and the configuration to apply.\<close>

definition maintenance_pass ::
    "lib \<Rightarrow> kube \<Rightarrow> clock \<Rightarrow> nova \<Rightarrow> string list \<Rightarrow> Hypervisor \<Rightarrow> trace
     \<Rightarrow> ((bool \<times> go_error option) \<times> HypervisorStatusApplyConfiguration) \<times> trace" where
  "maintenance_pass L K C N transferLabels hv tr =
     (let now = clk_Now C in
      case reconcileComputeService L N now hv (initial_cfg L now hv) tr of
        ((Some err, cfg), tr1) \<Rightarrow>
          (((False, Some err),
            retainStatusCondition L now (hv_Conditions hv) ConditionTypeIncomingMigrationsSettled
              (retainStatusCondition L now (hv_Conditions hv) ConditionTypeEvicting cfg)), tr1)
      | ((None, cfg), tr1) \<Rightarrow> reconcileEviction L K C N transferLabels hv cfg tr1)"

definition Maintenance_Reconcile ::
    "lib \<Rightarrow> kube \<Rightarrow> clock \<Rightarrow> nova \<Rightarrow> string list \<Rightarrow> string \<Rightarrow> trace \<Rightarrow> reconcile_result \<times> trace" where
  "Maintenance_Reconcile L K C N transferLabels name tr =
     (case ask (k_get_Hypervisor K name) (Kube (GetHypervisor name)) tr of
        (Inl err, tr1) \<Rightarrow> ((no_requeue, IgnoreNotFound L err), tr1)
      | (Inr hv, tr1) \<Rightarrow>
          if IsStatusConditionTrue L (hv_Conditions hv) ConditionTypeOnboarding then (reconcile_ok, tr1)
          else
            (case maintenance_pass L K C N transferLabels hv tr1 of
               (((requeue, err), cfg), tr2) \<Rightarrow>
                 (case ask (k_status_apply_Hypervisor K (hv_Name hv) cfg)
                         (Kube (StatusApplyHypervisor (hv_Name hv) cfg HypervisorMaintenanceControllerName)) tr2 of
                    (applyErr, tr3) \<Rightarrow>
                      if err \<noteq> None \<or> applyErr \<noteq> None then ((no_requeue, errors_Join [err, applyErr]), tr3)
                      else if requeue then ((\<lparr>RequeueAfter = settleRequeueInterval\<rparr>, None), tr3)
                      else (reconcile_ok, tr3))))"

section \<open>Lemmas on the configuration\<close>

lemma cfg_Evicted_sel [simp]:
  "cfg_Evicted (cfg_set now c cfg) = cfg_Evicted cfg"
  "cfg_Evicted (WithEvicted b cfg) = Some b"
  "cfg_Evicted (retainStatusCondition L now cs t cfg) = cfg_Evicted cfg"
  "cfg_Evicted (initial_cfg L now hv) = Some (Evicted (hv_Status hv))"
  by (auto simp: cfg_set_def WithEvicted_def retainStatusCondition_def initial_cfg_def split: option.split)

lemma cfg_Conditions_sel [simp]:
  "cfg_Conditions (cfg_set now c cfg) = set_apply_condition now (cfg_Conditions cfg) c"
  "cfg_Conditions (WithEvicted b cfg) = cfg_Conditions cfg"
  by (simp_all add: cfg_set_def WithEvicted_def)

text \<open>What the configuration says of a condition type, \<open>None\<close> when it is absent and will be pruned.\<close>

definition cfg_cond :: "HypervisorStatusApplyConfiguration \<Rightarrow> string
    \<Rightarrow> (ConditionStatus option \<times> string option \<times> string option \<times> int option) option" where
  "cfg_cond cfg t = map_option apply_view (find_apply (cfg_Conditions cfg) (Some t))"

definition seen_cond :: "lib \<Rightarrow> condition list \<Rightarrow> string
    \<Rightarrow> (ConditionStatus option \<times> string option \<times> string option \<times> int option) option" where
  "seen_cond L cs t = map_option (\<lambda>c. (Some (Status c), Some (Reason c), Some (Message c), Some (ObservedGeneration c)))
     (FindStatusCondition L cs t)"

lemma cfg_cond_set [simp]:
  "ty \<noteq> [] \<Longrightarrow> cfg_cond (cfg_set now (ac_condition ty st r m) cfg) t =
     (if t = ty then Some (Some st, Some r, Some m, None) else cfg_cond cfg t)"
  using apply_store.view_find_put [of "ac_condition ty st r m" now "cfg_Conditions cfg" "Some t"]
  by (auto simp: cfg_cond_def apply_view_def simp del: map_option_eq_Some)

lemma cfg_cond_Evicted [simp]: "cfg_cond (WithEvicted b cfg) t = cfg_cond cfg t"
  by (simp add: cfg_cond_def)

lemma cfg_cond_retain [simp]:
  assumes "meta_laws L" "ty \<noteq> []"
  shows "cfg_cond (retainStatusCondition L now cs ty cfg) t =
     (if t = ty \<and> FindStatusCondition L cs ty \<noteq> None then seen_cond L cs ty else cfg_cond cfg t)"
proof (cases "FindStatusCondition L cs ty")
  case None
  then show ?thesis by (simp add: retainStatusCondition_def)
next
  case (Some c)
  then have "Type c = ty" using assms(1) meta_find_Type by blast
  with Some assms(2) apply_store.view_find_put [of "ConditionFromStatus c" now "cfg_Conditions cfg" "Some t"]
  show ?thesis by (auto simp: retainStatusCondition_def cfg_cond_def seen_cond_def apply_view_def
        simp del: map_option_eq_Some)
qed

lemma cfg_cond_empty: "cfg_cond HypervisorStatus_cfg t = None"
  by (simp add: cfg_cond_def HypervisorStatus_cfg_def)

lemma cfg_cond_initial [simp]:
  "meta_laws L \<Longrightarrow> cfg_cond (initial_cfg L now hv) t =
     (if t = ConditionTypeHypervisorDisabled then seen_cond L (hv_Conditions hv) ConditionTypeHypervisorDisabled else None)"
  by (auto simp: initial_cfg_def seen_cond_def cfg_cond_empty)

section \<open>Lemmas on the steps\<close>

lemma settle_True:
  assumes "settleIncomingMigrations L C N hv cfg tr = ((Inr True, cfg1), tr1)"
  shows "\<exists>since ms. n_migrations_List N (hv_Name hv) since tr = Inr ms \<and> filter_active (hv_Name hv) ms = []
    \<and> tr1 = tr @ [Compute (MigrationsList (hv_Name hv) since)]
    \<and> cfg1 = cfg_set (clk_Now C) (ac_condition ConditionTypeIncomingMigrationsSettled ConditionTrue
        ConditionReasonSettled ''No incoming migrations targeting this host'') cfg"
proof -
  let ?since = "RFC3339_UTC (clk_Now C - IncomingMigrationsLookbackWindow)"
  let ?tr1 = "tr @ [Compute (MigrationsList (hv_Name hv) ?since)]"
  obtain ab wa e t where s: "SettleIncomingMigrations L C N (hv_Name hv) tr = ((ab, wa, e), t)"
    by (metis prod_cases3 surj_pair)
  with assms have ab: "e = None" "wa = []" "ab = []" "t = tr1"
    and cfg1: "cfg1 = cfg_set (clk_Now C) (ac_condition ConditionTypeIncomingMigrationsSettled ConditionTrue
        ConditionReasonSettled ''No incoming migrations targeting this host'') cfg"
    by (auto simp: settleIncomingMigrations_def Let_def split: option.splits if_splits)
  with s obtain ms where ms: "n_migrations_List N (hv_Name hv) ?since tr = Inr ms"
    and loop: "settle_loop L N (filter_active (hv_Name hv) ms) [] [] ?tr1 = (([], [], None), tr1)"
    by (auto simp: SettleIncomingMigrations_def ListActiveIncomingMigrations_def listMigrationsForHost_def ask_def
        split: sum.splits)
  from settle_loop_ok [OF loop] have "filter_active (hv_Name hv) ms = [] \<and> tr1 = ?tr1"
    by (auto simp: filter_empty_conv) (metis filter_empty_conv filter_True)
  with ms cfg1 show ?thesis by blast
qed

lemma settle_cfg_other:
  assumes "settleIncomingMigrations L C N hv cfg tr = ((r, cfg1), tr1)"
  shows "cfg_Evicted cfg1 = cfg_Evicted cfg"
    and "t \<noteq> ConditionTypeIncomingMigrationsSettled \<Longrightarrow> cfg_cond cfg1 t = cfg_cond cfg t"
  using assms by (auto simp: settleIncomingMigrations_def Let_def split: prod.splits option.splits if_splits)

text \<open>The compute service: its calls, and what the configuration says of the host afterwards.\<close>

definition service_opts :: "Hypervisor \<Rightarrow> UpdateServiceOpts" where
  "service_opts hv =
     (if hv_Maintenance hv = MaintenanceUnset
      then \<lparr>us_Status = ServiceEnabled, us_DisabledReason = [], us_ForcedDown = Some False\<rparr>
      else \<lparr>us_Status = ServiceDisabled,
             us_DisabledReason = ''Hypervisor CRD: spec.maintenance='' @ hv_Maintenance hv, us_ForcedDown = None\<rparr>)"

definition wanted_disabled :: "Hypervisor \<Rightarrow> ConditionStatus option" where
  "wanted_disabled hv =
     (if ServiceID (hv_Status hv) = [] then None
      else if hv_Maintenance hv = MaintenanceUnset then Some ConditionFalse
      else if hv_Maintenance hv \<in> set draining_modes then Some ConditionTrue else None)"

lemma reconcileComputeService_cases:
  assumes "reconcileComputeService L N now hv cfg tr = ((r, cfg'), tr')"
  obtains (unmanaged) "wanted_disabled hv = None" "r = None" "cfg' = cfg" "tr' = tr"
  | (kept) st m where "wanted_disabled hv = Some st" "r = None" "tr' = tr"
      "map_option Status (FindStatusCondition L (hv_Conditions hv) ConditionTypeHypervisorDisabled) = Some st"
      "cfg' = cfg_set now (ac_condition ConditionTypeHypervisorDisabled st ConditionReasonSucceeded m) cfg"
  | (updated) st m where "wanted_disabled hv = Some st" "r = None"
      "n_services_Update N (ServiceID (hv_Status hv)) (service_opts hv) tr = None"
      "tr' = tr @ [Compute (ServicesUpdate (ServiceID (hv_Status hv)) (service_opts hv))]"
      "cfg' = cfg_set now (ac_condition ConditionTypeHypervisorDisabled st ConditionReasonSucceeded m) cfg"
  | (failed) st m e where "wanted_disabled hv = Some st" "r = Some e"
      "tr' = tr @ [Compute (ServicesUpdate (ServiceID (hv_Status hv)) (service_opts hv))]"
      "cfg' = cfg_set now (ac_condition ConditionTypeHypervisorDisabled ConditionUnknown ConditionReasonFailed m) cfg"
proof -
  let ?find = "FindStatusCondition L (hv_Conditions hv) ConditionTypeHypervisorDisabled"
  consider (none) "wanted_disabled hv = None"
    | (have_it) st where "wanted_disabled hv = Some st" "map_option Status ?find = Some st"
    | (change) st where "wanted_disabled hv = Some st" "map_option Status ?find \<noteq> Some st"
    by (cases "wanted_disabled hv") auto
  then show ?thesis
  proof cases
    case none
    with assms have "r = None \<and> cfg' = cfg \<and> tr' = tr"
      by (auto simp: reconcileComputeService_def wanted_disabled_def Let_def split: if_splits)
    with none show ?thesis using unmanaged by simp
  next
    case (have_it st)
    with assms show ?thesis
      by (intro kept [OF have_it(1) _ _ have_it(2), of "if st = ConditionFalse then ''Hypervisor is enabled'' else ''Hypervisor is disabled''"])
        (auto simp: reconcileComputeService_def wanted_disabled_def Let_def split: if_splits)
  next
    case (change st)
    then have old: "?find = None \<or> Status (the ?find) \<noteq> st" by (cases ?find) auto
    show ?thesis
    proof (cases "n_services_Update N (ServiceID (hv_Status hv)) (service_opts hv) tr")
      case None
      with assms change(1) old show ?thesis
        by (intro updated [OF change(1) _ None, of "if st = ConditionFalse then ''Hypervisor is enabled'' else ''Hypervisor is disabled''"])
          (auto simp: reconcileComputeService_def wanted_disabled_def service_opts_def Let_def ask_def split: if_splits)
    next
      case (Some e)
      have "\<exists>p. r = Some (Errorf p e) \<and> tr' = tr @ [Compute (ServicesUpdate (ServiceID (hv_Status hv)) (service_opts hv))]
        \<and> cfg' = cfg_set now (ac_condition ConditionTypeHypervisorDisabled ConditionUnknown ConditionReasonFailed
            (Error_text (Errorf p e))) cfg"
        using assms change(1) old Some
        by (auto simp: reconcileComputeService_def wanted_disabled_def service_opts_def Let_def ask_def
            simp del: Error_text.simps split: if_splits)
      with failed [OF change(1)] show ?thesis by blast
    qed
  qed
qed

text \<open>The part that handles the Eviction, when the host is to be drained.\<close>

definition succeeded_cond :: "lib \<Rightarrow> Hypervisor \<Rightarrow> bool" where
  "succeeded_cond L hv \<longleftrightarrow> (\<exists>c. FindStatusCondition L (hv_Conditions hv) ConditionTypeEvicting = Some c
     \<and> Status c = ConditionFalse \<and> Reason c = ConditionReasonSucceeded)"

lemma delete_eviction_calls [simp]: "snd (delete_eviction L K n tr) = tr @ [Kube (DeleteEviction n)]"
  by (simp add: delete_eviction_def ask_def split: option.split)

lemma ensureEviction_False:
  assumes "ensureEviction L K labels hv tr = (Inr st, tr')"
  shows "\<exists>t ev. k_get_Eviction K (hv_Name hv) t = Inr ev \<and>
    (st = ConditionFalse \<longleftrightarrow> IsStatusConditionFalse L (ev_Conditions (ev_Status ev)) ConditionTypeEvicting)"
  using assms by (fastforce simp: ensureEviction_def ask_def Let_def split: option.splits sum.splits if_splits)

definition settled_cond :: "lib \<Rightarrow> Hypervisor \<Rightarrow> bool" where
  "settled_cond L hv \<longleftrightarrow> (\<exists>c. FindStatusCondition L (hv_Conditions hv) ConditionTypeIncomingMigrationsSettled = Some c
     \<and> Status c = ConditionTrue \<and> Reason c = ConditionReasonSettled)"

definition done_reason :: "lib \<Rightarrow> Hypervisor \<Rightarrow> bool" where
  "done_reason L hv \<longleftrightarrow> (\<exists>c. FindStatusCondition L (hv_Conditions hv) ConditionTypeEvicting = Some c
     \<and> Reason c = ConditionReasonSucceeded)"

definition nothing_to_delete :: "lib \<Rightarrow> Hypervisor \<Rightarrow> bool" where
  "nothing_to_delete L hv \<longleftrightarrow> \<not> Evicted (hv_Status hv)
     \<and> FindStatusCondition L (hv_Conditions hv) ConditionTypeEvicting = None
     \<and> FindStatusCondition L (hv_Conditions hv) ConditionTypeIncomingMigrationsSettled = None"

lemma case_conds:
  "(case FindStatusCondition L (hv_Conditions hv) ConditionTypeEvicting of None \<Rightarrow> False
      | Some c \<Rightarrow> Status c = ConditionFalse \<and> Reason c = ConditionReasonSucceeded) \<longleftrightarrow> succeeded_cond L hv"
  "(case FindStatusCondition L (hv_Conditions hv) ConditionTypeIncomingMigrationsSettled of None \<Rightarrow> False
      | Some c \<Rightarrow> Status c = ConditionTrue \<and> Reason c = ConditionReasonSettled) \<longleftrightarrow> settled_cond L hv"
  "(case FindStatusCondition L (hv_Conditions hv) ConditionTypeEvicting of None \<Rightarrow> False
      | Some c \<Rightarrow> Reason c = ConditionReasonSucceeded) \<longleftrightarrow> done_reason L hv"
  by (auto simp: succeeded_cond_def settled_cond_def done_reason_def split: option.splits)

lemma reconcileEviction_cases:
  assumes "reconcileEviction L K C N labels hv cfg tr = (((rq, err), cfg'), tr')"
  obtains (idle) "hv_Maintenance hv = MaintenanceUnset" "nothing_to_delete L hv"
      "rq = False" "err = None" "cfg' = cfg" "tr' = tr"
  | (delete_err) e where "hv_Maintenance hv = MaintenanceUnset" "delete_eviction L K (hv_Name hv) tr = (Some e, tr')"
      "rq = False" "err = Some e" "cfg' = cfg"
  | (deleted) "hv_Maintenance hv = MaintenanceUnset" "delete_eviction L K (hv_Name hv) tr = (None, tr')"
      "rq = False" "err = None" "cfg' = WithEvicted False cfg"
  | (other) "hv_Maintenance hv \<noteq> MaintenanceUnset" "hv_Maintenance hv \<notin> set draining_modes"
      "rq = False" "err = None" "cfg' = cfg" "tr' = tr"
  | (reenter_err) e where "hv_Maintenance hv \<in> set draining_modes" "NumInstances (hv_Status hv) > 0"
      "succeeded_cond L hv" "delete_eviction L K (hv_Name hv) tr = (Some e, tr')"
      "rq = False" "err = Some e" "cfg' = cfg"
  | (reenter) msg where "hv_Maintenance hv \<in> set draining_modes" "NumInstances (hv_Status hv) > 0"
      "succeeded_cond L hv" "delete_eviction L K (hv_Name hv) tr = (None, tr')" "rq = False" "err = None"
      "cfg' = retainStatusCondition L (clk_Now C) (hv_Conditions hv) ConditionTypeIncomingMigrationsSettled
         (cfg_set (clk_Now C) (ac_condition ConditionTypeEvicting ConditionTrue ConditionReasonRunning msg)
            (WithEvicted False cfg))"
  | (kept) "hv_Maintenance hv \<in> set draining_modes" "NumInstances (hv_Status hv) \<le> 0"
      "succeeded_cond L hv" "Evicted (hv_Status hv)" "settled_cond L hv" "rq = False" "err = None" "tr' = tr"
      "cfg' = retainStatusCondition L (clk_Now C) (hv_Conditions hv) ConditionTypeIncomingMigrationsSettled
         (retainStatusCondition L (clk_Now C) (hv_Conditions hv) ConditionTypeEvicting cfg)"
  | (settle_err) e cfg1 where "hv_Maintenance hv \<in> set draining_modes"
      "settleIncomingMigrations L C N hv cfg tr = ((Inl e, cfg1), tr')" "rq = False" "err = Some e"
      "cfg' = retainStatusCondition L (clk_Now C) (hv_Conditions hv) ConditionTypeEvicting (WithEvicted False cfg1)"
  | (unsettled) cfg1 where "hv_Maintenance hv \<in> set draining_modes"
      "settleIncomingMigrations L C N hv cfg tr = ((Inr False, cfg1), tr')" "rq = True" "err = None"
      "cfg' = retainStatusCondition L (clk_Now C) (hv_Conditions hv) ConditionTypeEvicting (WithEvicted False cfg1)"
  | (done_before) cfg1 where "hv_Maintenance hv \<in> set draining_modes" "done_reason L hv"
      "settleIncomingMigrations L C N hv cfg tr = ((Inr True, cfg1), tr')" "rq = False" "err = None"
      "cfg' = retainStatusCondition L (clk_Now C) (hv_Conditions hv) ConditionTypeEvicting cfg1"
  | (ensure_err) e cfg1 tr1 where "hv_Maintenance hv \<in> set draining_modes" "\<not> done_reason L hv"
      "settleIncomingMigrations L C N hv cfg tr = ((Inr True, cfg1), tr1)"
      "ensureEviction L K labels hv tr1 = (Inl e, tr')" "rq = False" "err = Some e" "cfg' = cfg1"
  | (restart_err) e cfg1 tr1 tr2 where "hv_Maintenance hv \<in> set draining_modes" "NumInstances (hv_Status hv) > 0"
      "settleIncomingMigrations L C N hv cfg tr = ((Inr True, cfg1), tr1)"
      "ensureEviction L K labels hv tr1 = (Inr ConditionFalse, tr2)"
      "delete_eviction L K (hv_Name hv) tr2 = (Some e, tr')" "rq = False" "err = Some e" "cfg' = cfg1"
  | (restart) cfg1 tr1 tr2 msg where "hv_Maintenance hv \<in> set draining_modes" "NumInstances (hv_Status hv) > 0"
      "settleIncomingMigrations L C N hv cfg tr = ((Inr True, cfg1), tr1)"
      "ensureEviction L K labels hv tr1 = (Inr ConditionFalse, tr2)"
      "delete_eviction L K (hv_Name hv) tr2 = (None, tr')" "rq = False" "err = None"
      "cfg' = cfg_set (clk_Now C) (ac_condition ConditionTypeEvicting ConditionTrue ConditionReasonRunning msg)
         (WithEvicted False cfg1)"
  | (evicted) cfg1 tr1 where "hv_Maintenance hv \<in> set draining_modes" "NumInstances (hv_Status hv) \<le> 0"
      "settleIncomingMigrations L C N hv cfg tr = ((Inr True, cfg1), tr1)"
      "ensureEviction L K labels hv tr1 = (Inr ConditionFalse, tr')" "rq = False" "err = None"
      "cfg' = cfg_set (clk_Now C) (ac_condition ConditionTypeEvicting ConditionFalse ConditionReasonSucceeded ''Evicted'')
         (WithEvicted True cfg1)" "\<not> done_reason L hv"
  | (evicting) cfg1 tr1 st where "hv_Maintenance hv \<in> set draining_modes" "st \<noteq> ConditionFalse" "\<not> done_reason L hv"
      "settleIncomingMigrations L C N hv cfg tr = ((Inr True, cfg1), tr1)"
      "ensureEviction L K labels hv tr1 = (Inr st, tr')" "rq = False" "err = None"
      "cfg' = cfg_set (clk_Now C) (ac_condition ConditionTypeEvicting st ConditionReasonRunning ''Evicting'')
         (WithEvicted False cfg1)"
proof -
  note eq = assms [unfolded reconcileEviction_def Let_def case_conds nothing_to_delete_def [symmetric]]
  consider (unset) "hv_Maintenance hv = MaintenanceUnset"
    | (unk) "hv_Maintenance hv \<noteq> MaintenanceUnset" "hv_Maintenance hv \<notin> set draining_modes"
    | (again) "hv_Maintenance hv \<in> set draining_modes" "hv_Maintenance hv \<noteq> MaintenanceUnset"
        "succeeded_cond L hv" "NumInstances (hv_Status hv) > 0"
    | (keep) "hv_Maintenance hv \<in> set draining_modes" "hv_Maintenance hv \<noteq> MaintenanceUnset"
        "succeeded_cond L hv" "\<not> NumInstances (hv_Status hv) > 0" "Evicted (hv_Status hv)" "settled_cond L hv"
    | (go) "hv_Maintenance hv \<in> set draining_modes" "hv_Maintenance hv \<noteq> MaintenanceUnset"
        "\<not> (succeeded_cond L hv \<and> NumInstances (hv_Status hv) > 0)"
        "\<not> (succeeded_cond L hv \<and> Evicted (hv_Status hv) \<and> settled_cond L hv)"
    by auto
  then show ?thesis
  proof cases
    case unset
    obtain r t where d: "delete_eviction L K (hv_Name hv) tr = (r, t)" by fastforce
    show ?thesis
    proof (cases "nothing_to_delete L hv")
      case True
      with eq unset show ?thesis by (intro idle) (simp_all add: nothing_to_delete_def)
    next
      case False
      then show ?thesis using eq unset d delete_err deleted
        by (cases r) (auto simp: nothing_to_delete_def split: if_splits)
    qed
  next
    case unk
    with eq show ?thesis by (intro other) auto
  next
    case again
    obtain r t where d: "delete_eviction L K (hv_Name hv) tr = (r, t)" by fastforce
    show ?thesis
    proof (cases r)
      case None
      with eq again d show ?thesis by (intro reenter [OF again(1,4,3)]) auto
    next
      case (Some e)
      with eq again d show ?thesis by (intro reenter_err [OF again(1,4,3)]) auto
    qed
  next
    case keep
    with eq show ?thesis by (intro kept [OF keep(1) _ keep(3,5,6)]) auto
  next
    case go
    obtain r cfg1 tr1 where st: "settleIncomingMigrations L C N hv cfg tr = ((r, cfg1), tr1)"
      by (metis surj_pair)
    note eq1 = eq [simplified go(2) if_False go(1) if_True if_not_P [OF go(3)] if_not_P [OF go(4)] st prod.case]
    show ?thesis
    proof (cases r)
      case (Inl e)
      with eq1 st show ?thesis by (intro settle_err [OF go(1)]) auto
    next
      case (Inr b)
      show ?thesis
      proof (cases "b \<and> \<not> done_reason L hv")
        case True
        obtain x tr2 where en: "ensureEviction L K labels hv tr1 = (x, tr2)" by fastforce
        show ?thesis
        proof (cases x)
          case (Inl e)
          with eq1 st en Inr True show ?thesis by (intro ensure_err [OF go(1)]) auto
        next
          case x: (Inr status)
          obtain y tr3 where d: "delete_eviction L K (hv_Name hv) tr2 = (y, tr3)" by fastforce
          consider "status \<noteq> ConditionFalse" | "status = ConditionFalse" "NumInstances (hv_Status hv) \<le> 0"
            | "status = ConditionFalse" "NumInstances (hv_Status hv) > 0" "y = None"
            | e where "status = ConditionFalse" "NumInstances (hv_Status hv) > 0" "y = Some e"
            by (cases y) force+
          then show ?thesis
          proof cases
            case 1
            with eq1 st en x Inr True show ?thesis by (intro evicting [OF go(1) 1]) auto
          next
            case 2
            with eq1 st en x Inr True show ?thesis by (intro evicted [OF go(1) 2(2)]) auto
          next
            case 3
            with eq1 st en x Inr True d show ?thesis by (intro restart [OF go(1) 3(2)]) auto
          next
            case 4
            with eq1 st en x Inr True d show ?thesis by (intro restart_err [OF go(1) 4(2)]) auto
          qed
        qed
      next
        case False
        show ?thesis
        proof (cases b)
          case True
          with False have "done_reason L hv" by simp
          with True eq1 st Inr show ?thesis by (intro done_before [OF go(1)]) auto
        next
          case nb: False
          with eq1 st Inr show ?thesis by (intro unsettled [OF go(1)]) auto
        qed
      qed
    qed
  qed
qed

end
