(* ===== verification/Maintenance_Props.thy ===== *)
theory Maintenance_Props
  imports Maintenance_Ctrl
begin

text \<open>
  Properties of the maintenance controller (model in \<open>Maintenance_Ctrl\<close>): what has to be known
  before a host is reported evicted and before an Eviction is created, the agreement of the
  compute service with the spec, the shape of the applied configuration, and two situations that
  the controller does not leave.
\<close>

section \<open>The calls of a pass\<close>

text \<open>The calls a pass makes before it applies the status.\<close>

fun maintenance_call :: "call \<Rightarrow> bool" where
  "maintenance_call (Compute (ServicesUpdate sid opts)) \<longleftrightarrow> True"
| "maintenance_call (Compute (MigrationsList host since)) \<longleftrightarrow> True"
| "maintenance_call (Compute (MigrationsDelete inst i)) \<longleftrightarrow> True"
| "maintenance_call (Kube (GetHypervisor n)) \<longleftrightarrow> True"
| "maintenance_call (Kube (DeleteEviction n)) \<longleftrightarrow> True"
| "maintenance_call (Kube (ApplyEviction e ow)) \<longleftrightarrow> True"
| "maintenance_call (Kube (GetEviction n)) \<longleftrightarrow> True"
| "maintenance_call _ \<longleftrightarrow> False"

lemma settle_calls:
  assumes "settleIncomingMigrations L C N hv cfg tr = (r, tr')"
  obtains cs since where "tr' = tr @ Compute (MigrationsList (hv_Name hv) since) # cs" "list_all maintenance_call cs"
    "list_all (\<lambda>c. \<exists>i k. c = Compute (MigrationsDelete i k)) cs"
proof -
  let ?since = "RFC3339_UTC (clk_Now C - IncomingMigrationsLookbackWindow)"
  have tr': "tr' = snd (SettleIncomingMigrations L C N (hv_Name hv) tr)"
    using assms by (auto simp: settleIncomingMigrations_def Let_def split: prod.splits option.splits if_splits)
  show ?thesis
  proof (cases "n_migrations_List N (hv_Name hv) ?since tr")
    case (Inl e)
    with tr' that [of ?since "[]"] show ?thesis
      by (simp add: SettleIncomingMigrations_def ListActiveIncomingMigrations_def listMigrationsForHost_def ask_def)
  next
    case (Inr ms)
    then have "snd (SettleIncomingMigrations L C N (hv_Name hv) tr) =
        snd (settle_loop L N (filter_active (hv_Name hv) ms) [] [] (tr @ [Compute (MigrationsList (hv_Name hv) ?since)]))"
      by (simp add: SettleIncomingMigrations_def ListActiveIncomingMigrations_def listMigrationsForHost_def ask_def)
    moreover obtain k where "snd (settle_loop L N (filter_active (hv_Name hv) ms) [] []
        (tr @ [Compute (MigrationsList (hv_Name hv) ?since)])) =
        (tr @ [Compute (MigrationsList (hv_Name hv) ?since)]) @ map abort_call (take k (filter abortable (filter_active (hv_Name hv) ms)))"
      using settle_loop_calls by blast
    ultimately show ?thesis
      using tr' that [of ?since "map abort_call (take k (filter abortable (filter_active (hv_Name hv) ms)))"]
      by (simp add: list_all_iff abort_call_def)
  qed
qed

lemma ensureEviction_calls:
  assumes "ensureEviction L K labels hv tr = (r, tr')"
  obtains e cs where "tr' = tr @ Kube (ApplyEviction e HypervisorMaintenanceControllerName) # cs"
    "cs = [] \<and> (\<exists>x. r = Inl x) \<or> cs = [Kube (GetEviction (hv_Name hv))]"
  using assms by (fastforce simp: ensureEviction_def ask_def Let_def split: option.splits sum.splits if_splits)

lemma delete_eviction_trace:
  "delete_eviction L K n tr = (r, tr') \<Longrightarrow> tr' = tr @ [Kube (DeleteEviction n)]"
  by (metis delete_eviction_calls snd_conv)

lemma settle_extends:
  "settleIncomingMigrations L C N hv cfg tr = (r, tr') \<Longrightarrow> extends_by maintenance_call tr tr'"
  by (erule settle_calls) (auto simp: extends_by_def)

lemma ensureEviction_extends:
  "ensureEviction L K labels hv tr = (r, tr') \<Longrightarrow> extends_by maintenance_call tr tr'"
  by (erule ensureEviction_calls) (auto simp: extends_by_def)

lemma delete_eviction_extends:
  "delete_eviction L K n tr = (r, tr') \<Longrightarrow> extends_by maintenance_call tr tr'"
  by (auto dest!: delete_eviction_trace simp: extends_by_def)

lemma reconcileEviction_extends:
  assumes "reconcileEviction L K C N labels hv cfg tr = (((rq, err), cfg'), tr')"
  shows "extends_by maintenance_call tr tr'"
  using assms
  by (cases rule: reconcileEviction_cases)
    (auto simp del: list.set dest!: settle_extends ensureEviction_extends delete_eviction_extends
      intro: extends_by_trans [OF _ extends_by_trans] extends_by_trans)

lemma compute_extends:
  assumes "reconcileComputeService L N now hv cfg tr = ((r, cfg'), tr')"
  shows "extends_by maintenance_call tr tr'"
  using assms by (cases rule: reconcileComputeService_cases) (auto simp: extends_by_def)

lemma maintenance_pass_extends:
  assumes "maintenance_pass L K C N labels hv tr = (((rq, err), cfg), tr')"
  shows "extends_by maintenance_call tr tr'"
proof -
  obtain r cfg1 tr1 where c: "reconcileComputeService L N (clk_Now C) hv (initial_cfg L (clk_Now C) hv) tr = ((r, cfg1), tr1)"
    by (metis surj_pair)
  show ?thesis
  proof (cases r)
    case None
    with assms c have "reconcileEviction L K C N labels hv cfg1 tr1 = (((rq, err), cfg), tr')"
      by (simp add: maintenance_pass_def Let_def)
    with compute_extends [OF c] reconcileEviction_extends show ?thesis by (blast intro: extends_by_trans)
  next
    case (Some e)
    with assms c compute_extends [OF c] show ?thesis by (simp add: maintenance_pass_def Let_def)
  qed
qed

text \<open>The one status apply of a reconcile pass carries the configuration that the pass built.\<close>

lemma Maintenance_Reconcile_apply:
  assumes "Kube (StatusApplyHypervisor n cfg ow) \<in> set (new_calls tr (snd (Maintenance_Reconcile L K C N labels name tr)))"
  obtains hv rq err tr2 where "k_get_Hypervisor K name tr = Inr hv"
    "\<not> IsStatusConditionTrue L (hv_Conditions hv) ConditionTypeOnboarding" "n = hv_Name hv"
    "maintenance_pass L K C N labels hv (tr @ [Kube (GetHypervisor name)]) = (((rq, err), cfg), tr2)"
    "snd (Maintenance_Reconcile L K C N labels name tr) = tr2 @ [Kube (StatusApplyHypervisor n cfg ow)]"
proof (cases "k_get_Hypervisor K name tr")
  case (Inl e)
  with assms show ?thesis by (simp add: Maintenance_Reconcile_def ask_def)
next
  case (Inr hv)
  show ?thesis
  proof (cases "IsStatusConditionTrue L (hv_Conditions hv) ConditionTypeOnboarding")
    case True
    with Inr assms show ?thesis by (simp add: Maintenance_Reconcile_def ask_def)
  next
    case False
    obtain rq err cfg0 tr2 where p: "maintenance_pass L K C N labels hv (tr @ [Kube (GetHypervisor name)]) = (((rq, err), cfg0), tr2)"
      by (metis surj_pair)
    let ?c = "Kube (StatusApplyHypervisor (hv_Name hv) cfg0 HypervisorMaintenanceControllerName)"
    have snd: "snd (Maintenance_Reconcile L K C N labels name tr) = tr2 @ [?c]"
      using Inr False p by (simp add: Maintenance_Reconcile_def ask_def)
    obtain cs where cs: "tr2 = tr @ Kube (GetHypervisor name) # cs" "list_all maintenance_call cs"
      using maintenance_pass_extends [OF p] by (auto simp: extends_by_def)
    from assms have "Kube (StatusApplyHypervisor n cfg ow) \<in> set (Kube (GetHypervisor name) # cs @ [?c])"
      unfolding snd cs(1) by simp
    with cs(2) have "n = hv_Name hv" "cfg = cfg0" "ow = HypervisorMaintenanceControllerName"
      by (auto simp: list_all_iff)
    with that [OF Inr False _ _] p snd show ?thesis by blast
  qed
qed

lemma Maintenance_Reconcile_extends:
  "extends_by (\<lambda>c. maintenance_call c \<or> (\<exists>n cfg ow. c = Kube (StatusApplyHypervisor n cfg ow))) tr
     (snd (Maintenance_Reconcile L K C N labels name tr))" (is "extends_by ?P tr _")
proof -
  have get: "extends_by ?P tr (tr @ [Kube (GetHypervisor name)])" by (rule extends_by_snoc) simp
  show ?thesis
  proof (cases "k_get_Hypervisor K name tr")
    case (Inl e)
    with get show ?thesis by (simp add: Maintenance_Reconcile_def ask_def)
  next
    case (Inr hv)
    obtain rq err cfg tr2 where p: "maintenance_pass L K C N labels hv (tr @ [Kube (GetHypervisor name)]) = (((rq, err), cfg), tr2)"
      by (metis surj_pair)
    have "extends_by ?P (tr @ [Kube (GetHypervisor name)]) tr2"
      by (rule extends_by_mono [OF maintenance_pass_extends [OF p]]) simp
    from extends_by_append [OF extends_by_trans [OF get this]] Inr get p show ?thesis
      by (simp add: Maintenance_Reconcile_def ask_def)
  qed
qed

section \<open>Evidence\<close>

text \<open>
  Nova lists no active migration to the host; the Eviction of the host is read as finished; the
  compute service of the host was disabled.
\<close>

definition no_incoming :: "nova \<Rightarrow> string \<Rightarrow> trace \<Rightarrow> call \<Rightarrow> bool" where
  "no_incoming N host tr c \<longleftrightarrow> (\<exists>since ms. c = Compute (MigrationsList host since)
     \<and> n_migrations_List N host since tr = Inr ms
     \<and> (\<forall>m \<in> set ms. mi_DestCompute m = host \<longrightarrow> mi_Status m \<in> set terminalStatuses))"

definition eviction_done :: "lib \<Rightarrow> kube \<Rightarrow> string \<Rightarrow> trace \<Rightarrow> call \<Rightarrow> bool" where
  "eviction_done L K host tr c \<longleftrightarrow> (\<exists>ev. c = Kube (GetEviction host) \<and> k_get_Eviction K host tr = Inr ev
     \<and> IsStatusConditionFalse L (ev_Conditions (ev_Status ev)) ConditionTypeEvicting)"

definition service_disabled :: "nova \<Rightarrow> string \<Rightarrow> trace \<Rightarrow> call \<Rightarrow> bool" where
  "service_disabled N serviceId tr c \<longleftrightarrow> (\<exists>opts. c = Compute (ServicesUpdate serviceId opts)
     \<and> us_Status opts = ServiceDisabled \<and> n_services_Update N serviceId opts tr = None)"

lemma settle_evidence:
  assumes "settleIncomingMigrations L C N hv cfg tr = ((Inr True, cfg1), tr1)"
  obtains since where "tr1 = tr @ [Compute (MigrationsList (hv_Name hv) since)]"
    "no_incoming N (hv_Name hv) tr (Compute (MigrationsList (hv_Name hv) since))"
  using settle_True [OF assms] by (auto simp: no_incoming_def filter_active_eq filter_empty_conv)

lemma ensure_evidence:
  assumes "ensureEviction L K labels hv tr = (Inr ConditionFalse, tr')"
  obtains e where "tr' = tr @ [Kube (ApplyEviction e HypervisorMaintenanceControllerName), Kube (GetEviction (hv_Name hv))]"
    "eviction_done L K (hv_Name hv) (tr @ [Kube (ApplyEviction e HypervisorMaintenanceControllerName)])
       (Kube (GetEviction (hv_Name hv)))"
  using assms by (auto simp: ensureEviction_def ask_def Let_def eviction_done_def split: option.splits sum.splits if_splits)

lemma evicted_window:
  assumes "settleIncomingMigrations L C N hv cfg (tr @ cs) = ((Inr True, cfg1), tr1)"
    and "ensureEviction L K labels hv tr1 = (Inr ConditionFalse, tr2)"
  shows "\<exists>xs ys. new_calls tr (tr2 @ [c]) = xs @ ys
    \<and> occurs (no_incoming N (hv_Name hv)) tr xs \<and> occurs (eviction_done L K (hv_Name hv)) (tr @ xs) ys"
proof -
  from settle_evidence [OF assms(1)] obtain since where s: "tr1 = (tr @ cs) @ [Compute (MigrationsList (hv_Name hv) since)]"
    "no_incoming N (hv_Name hv) (tr @ cs) (Compute (MigrationsList (hv_Name hv) since))" .
  from ensure_evidence [OF assms(2)] obtain e where e: "tr2 = tr1 @ [Kube (ApplyEviction e HypervisorMaintenanceControllerName), Kube (GetEviction (hv_Name hv))]"
    "eviction_done L K (hv_Name hv) (tr1 @ [Kube (ApplyEviction e HypervisorMaintenanceControllerName)]) (Kube (GetEviction (hv_Name hv)))" .
  define xs where "xs = cs @ [Compute (MigrationsList (hv_Name hv) since)]"
  define ys where "ys = [Kube (ApplyEviction e HypervisorMaintenanceControllerName), Kube (GetEviction (hv_Name hv)), c]"
  have tr1: "tr1 = tr @ xs" by (simp add: s xs_def)
  have "occurs (no_incoming N (hv_Name hv)) tr xs" using s(2) by (simp add: xs_def)
  moreover have "occurs (eviction_done L K (hv_Name hv)) (tr @ xs) ys" using e(2) by (simp add: tr1 ys_def)
  moreover have "new_calls tr (tr2 @ [c]) = xs @ ys" by (simp add: e(1) tr1 ys_def new_calls_def)
  ultimately show ?thesis by blast
qed

text \<open>
  C7. A host becomes \<open>Evicted\<close> only on evidence: if a pass applies \<open>evicted: true\<close>, then the status
  it read already said so, or the host is in a draining mode, its agent reports no instance, Nova
  listed no active migration to the host during the pass, and after that the Eviction was read as
  finished.
\<close>

theorem maintenance_evicted_evidence:
  assumes "Kube (StatusApplyHypervisor n cfg ow) \<in> set (new_calls tr (snd (Maintenance_Reconcile L K C N labels name tr)))"
    and "cfg_Evicted cfg = Some True"
  shows "\<exists>hv. k_get_Hypervisor K name tr = Inr hv \<and>
    (Evicted (hv_Status hv) \<or>
     hv_Maintenance hv \<in> set draining_modes \<and> NumInstances (hv_Status hv) \<le> 0 \<and>
     (\<exists>xs ys. new_calls tr (snd (Maintenance_Reconcile L K C N labels name tr)) = xs @ ys
        \<and> occurs (no_incoming N (hv_Name hv)) tr xs \<and> occurs (eviction_done L K (hv_Name hv)) (tr @ xs) ys))"
  using assms(1)
proof (rule Maintenance_Reconcile_apply)
  fix hv rq err tr2
  assume hv: "k_get_Hypervisor K name tr = Inr hv"
    and p: "maintenance_pass L K C N labels hv (tr @ [Kube (GetHypervisor name)]) = (((rq, err), cfg), tr2)"
    and snd: "snd (Maintenance_Reconcile L K C N labels name tr) = tr2 @ [Kube (StatusApplyHypervisor n cfg ow)]"
  let ?tr1 = "tr @ [Kube (GetHypervisor name)]"
  obtain r cfg1 trc where c: "reconcileComputeService L N (clk_Now C) hv (initial_cfg L (clk_Now C) hv) ?tr1 = ((r, cfg1), trc)"
    by (metis surj_pair)
  have ev1: "cfg_Evicted cfg1 = Some (Evicted (hv_Status hv))"
    using c by (cases rule: reconcileComputeService_cases) simp_all
  obtain cs where trc: "trc = ?tr1 @ cs" using compute_extends [OF c] extends_by_trivial by blast
  have "Evicted (hv_Status hv) \<or>
     hv_Maintenance hv \<in> set draining_modes \<and> NumInstances (hv_Status hv) \<le> 0 \<and>
     (\<exists>xs ys. new_calls tr (tr2 @ [Kube (StatusApplyHypervisor n cfg ow)]) = xs @ ys
        \<and> occurs (no_incoming N (hv_Name hv)) tr xs \<and> occurs (eviction_done L K (hv_Name hv)) (tr @ xs) ys)"
  proof (cases r)
    case (Some e)
    with p c ev1 assms(2) show ?thesis by (auto simp: maintenance_pass_def Let_def)
  next
    case None
    with p c have "reconcileEviction L K C N labels hv cfg1 trc = (((rq, err), cfg), tr2)"
      by (simp add: maintenance_pass_def Let_def)
    then show ?thesis
    proof (cases rule: reconcileEviction_cases)
      case (evicted cfg2 tr3)
      have "trc = tr @ Kube (GetHypervisor name) # cs" using trc by simp
      from evicted_window [OF evicted(3) [unfolded this] evicted(4), of "Kube (StatusApplyHypervisor n cfg ow)"] evicted(1,2)
      show ?thesis by blast
    qed (use assms(2) ev1 settle_cfg_other(1) in auto)
  qed
  with hv snd show ?thesis by auto
qed

definition no_creation :: "call \<Rightarrow> bool" where
  "no_creation c \<longleftrightarrow> (\<forall>e ow. c \<noteq> Kube (ApplyEviction e ow))"

lemma no_creation_simps [simp]:
  "no_creation (Compute x)" "no_creation (Kube (DeleteEviction n))" "no_creation (Kube (GetEviction n))"
  "no_creation (Kube (GetHypervisor n))" "no_creation (Kube (StatusApplyHypervisor n cfg ow))"
  by (simp_all add: no_creation_def)

text \<open>Either no Eviction is created, or it is, right after Nova listed no incoming migration.\<close>

lemma reconcileEviction_creation:
  assumes "reconcileEviction L K C N labels hv cfg tr = (((rq, err), cfg'), tr')"
  obtains (none) "extends_by no_creation tr tr'"
  | (created) since e zs where "hv_Maintenance hv \<in> set draining_modes"
      "tr' = tr @ [Compute (MigrationsList (hv_Name hv) since), Kube (ApplyEviction e HypervisorMaintenanceControllerName)] @ zs"
      "list_all no_creation zs" "no_incoming N (hv_Name hv) tr (Compute (MigrationsList (hv_Name hv) since))"
proof -
  have quiet: "extends_by no_creation tr t" if "settleIncomingMigrations L C N hv cfg tr = (r, t)" for r t
    by (rule settle_calls [OF that]) (fastforce simp: extends_by_def list_all_iff)
  have make: thesis
    if s: "settleIncomingMigrations L C N hv cfg tr = ((Inr True, cfg1), tr1)"
      and e: "ensureEviction L K labels hv tr1 = (x, tr2)" and d: "tr' = tr2 @ ws" "list_all no_creation ws"
      and m: "hv_Maintenance hv \<in> set draining_modes" for cfg1 tr1 x tr2 ws
  proof -
    from settle_evidence [OF s] obtain since where s': "tr1 = tr @ [Compute (MigrationsList (hv_Name hv) since)]"
      "no_incoming N (hv_Name hv) tr (Compute (MigrationsList (hv_Name hv) since))" .
    obtain ea cs where "tr2 = tr1 @ Kube (ApplyEviction ea HypervisorMaintenanceControllerName) # cs"
      "list_all no_creation cs"
      by (rule ensureEviction_calls [OF e]) fastforce
    with created [OF m, where since = since and e = ea and zs = "cs @ ws"] s' d show thesis by simp
  qed
  show thesis
    using assms
  proof (cases rule: reconcileEviction_cases)
    case (ensure_err e cfg1 tr1)
    show ?thesis by (rule make [OF ensure_err(3,4), of "[]"]) (use ensure_err in simp_all)
  next
    case (restart_err e cfg1 tr1 tr2)
    show ?thesis by (rule make [OF restart_err(3,4), of "[Kube (DeleteEviction (hv_Name hv))]"])
        (use restart_err in \<open>simp_all add: delete_eviction_trace\<close>)
  next
    case (restart cfg1 tr1 tr2 msg)
    show ?thesis by (rule make [OF restart(3,4), of "[Kube (DeleteEviction (hv_Name hv))]"])
        (use restart in \<open>simp_all add: delete_eviction_trace\<close>)
  next
    case (evicted cfg1 tr1)
    show ?thesis by (rule make [OF evicted(3,4), of "[]"]) (use evicted in simp_all)
  next
    case (evicting cfg1 tr1 st)
    show ?thesis by (rule make [OF evicting(4,5), of "[]"]) (use evicting in simp_all)
  qed (rule none, fastforce dest: quiet delete_eviction_trace simp: extends_by_snoc)+
qed

text \<open>A pass that creates an Eviction gets past the compute service and into the eviction.\<close>

lemma creating_pass:
  assumes "Kube (ApplyEviction e ow) \<in> set (new_calls tr (snd (Maintenance_Reconcile L K C N labels name tr)))"
  obtains hv rq err cfg cfg1 trc tr2 cs where "k_get_Hypervisor K name tr = Inr hv"
    "\<not> IsStatusConditionTrue L (hv_Conditions hv) ConditionTypeOnboarding"
    "reconcileComputeService L N (clk_Now C) hv (initial_cfg L (clk_Now C) hv) (tr @ [Kube (GetHypervisor name)]) = ((None, cfg1), trc)"
    "trc = tr @ Kube (GetHypervisor name) # cs" "list_all no_creation cs"
    "reconcileEviction L K C N labels hv cfg1 trc = (((rq, err), cfg), tr2)" "\<not> extends_by no_creation trc tr2"
    "snd (Maintenance_Reconcile L K C N labels name tr)
      = tr2 @ [Kube (StatusApplyHypervisor (hv_Name hv) cfg HypervisorMaintenanceControllerName)]"
proof -
  from assms obtain hv where hv: "k_get_Hypervisor K name tr = Inr hv"
    by (cases "k_get_Hypervisor K name tr") (auto simp: Maintenance_Reconcile_def ask_def)
  have on: "\<not> IsStatusConditionTrue L (hv_Conditions hv) ConditionTypeOnboarding"
    using assms hv by (auto simp: Maintenance_Reconcile_def ask_def)
  let ?tr1 = "tr @ [Kube (GetHypervisor name)]"
  obtain rq err cfg tr2 where p: "maintenance_pass L K C N labels hv ?tr1 = (((rq, err), cfg), tr2)" by (metis surj_pair)
  have snd: "snd (Maintenance_Reconcile L K C N labels name tr)
      = tr2 @ [Kube (StatusApplyHypervisor (hv_Name hv) cfg HypervisorMaintenanceControllerName)]"
    using hv on p by (simp add: Maintenance_Reconcile_def ask_def)
  obtain r cfg1 trc where c: "reconcileComputeService L N (clk_Now C) hv (initial_cfg L (clk_Now C) hv) ?tr1 = ((r, cfg1), trc)"
    by (metis surj_pair)
  obtain cs where trc: "trc = ?tr1 @ cs" "list_all no_creation cs"
    using c by (cases rule: reconcileComputeService_cases) auto
  have new: "\<not> extends_by no_creation trc tr2"
  proof
    assume "extends_by no_creation trc tr2"
    then obtain ds where "tr2 = trc @ ds" "list_all no_creation ds" by (auto simp: extends_by_def)
    with assms trc show False unfolding snd by (auto simp: list_all_iff no_creation_def new_calls_def)
  qed
  then have "trc \<noteq> tr2" by auto
  with p c have "r = None" by (cases r) (auto simp: maintenance_pass_def Let_def)
  moreover from this p c have "reconcileEviction L K C N labels hv cfg1 trc = (((rq, err), cfg), tr2)"
    by (simp add: maintenance_pass_def Let_def)
  ultimately show ?thesis using that [OF hv on _ _ trc(2) _ new snd] c trc by simp
qed

text \<open>Where the host is to be drained, that part leaves the compute service disabled.\<close>

lemma compute_service_disabled:
  assumes L: "meta_laws L" and d: "hv_Maintenance hv \<in> set draining_modes"
    and c: "reconcileComputeService L N now hv cfg (tr @ [Kube (GetHypervisor name)]) = ((None, cfg1), tr @ Kube (GetHypervisor name) # cs)"
  shows "ServiceID (hv_Status hv) = [] \<or> IsStatusConditionTrue L (hv_Conditions hv) ConditionTypeHypervisorDisabled
    \<or> occurs (service_disabled N (ServiceID (hv_Status hv))) tr (Kube (GetHypervisor name) # cs @ ds)"
  using c
proof (cases rule: reconcileComputeService_cases)
  case unmanaged
  then show ?thesis using d by (auto simp: wanted_disabled_def split: if_splits)
next
  case (kept st m)
  then show ?thesis using d by (auto simp: wanted_disabled_def meta_True_iff [OF L] split: if_splits)
next
  case (updated st m)
  then have "us_Status (service_opts hv) = ServiceDisabled"
    using d by (auto simp: wanted_disabled_def service_opts_def split: if_splits)
  with updated(3,4) show ?thesis by (auto simp: service_disabled_def)
qed simp

text \<open>
  C8. An Eviction is created only for a host that is ready to be drained: the host is in a draining
  mode and not onboarding; before the creation, and in the same pass, Nova listed no active
  migration to it; and its compute service, if there is one, is known to be disabled or was
  disabled earlier in the pass.
\<close>

theorem eviction_created_when_settled:
  assumes L: "meta_laws L"
    and "Kube (ApplyEviction e ow) \<in> set (new_calls tr (snd (Maintenance_Reconcile L K C N labels name tr)))"
  shows "\<exists>hv xs ys. k_get_Hypervisor K name tr = Inr hv
    \<and> new_calls tr (snd (Maintenance_Reconcile L K C N labels name tr)) = xs @ Kube (ApplyEviction e ow) # ys
    \<and> \<not> IsStatusConditionTrue L (hv_Conditions hv) ConditionTypeOnboarding
    \<and> hv_Maintenance hv \<in> set draining_modes \<and> occurs (no_incoming N (hv_Name hv)) tr xs
    \<and> (ServiceID (hv_Status hv) = []
       \<or> IsStatusConditionTrue L (hv_Conditions hv) ConditionTypeHypervisorDisabled
       \<or> occurs (service_disabled N (ServiceID (hv_Status hv))) tr xs)"
  using assms(2)
proof (rule creating_pass)
  fix hv rq err cfg cfg1 trc tr2 cs
  assume hv: "k_get_Hypervisor K name tr = Inr hv" "\<not> IsStatusConditionTrue L (hv_Conditions hv) ConditionTypeOnboarding"
    and c: "reconcileComputeService L N (clk_Now C) hv (initial_cfg L (clk_Now C) hv) (tr @ [Kube (GetHypervisor name)]) = ((None, cfg1), trc)"
    and trc: "trc = tr @ Kube (GetHypervisor name) # cs" "list_all no_creation cs"
    and r: "reconcileEviction L K C N labels hv cfg1 trc = (((rq, err), cfg), tr2)" and new: "\<not> extends_by no_creation trc tr2"
    and snd: "snd (Maintenance_Reconcile L K C N labels name tr)
      = tr2 @ [Kube (StatusApplyHypervisor (hv_Name hv) cfg HypervisorMaintenanceControllerName)]"
  let ?calls = "new_calls tr (snd (Maintenance_Reconcile L K C N labels name tr))"
  from r show ?thesis
  proof (cases rule: reconcileEviction_creation)
    case none
    with new show ?thesis by blast
  next
    case (created since ea zs)
    define xs where "xs = Kube (GetHypervisor name) # cs @ [Compute (MigrationsList (hv_Name hv) since)]"
    define ys where "ys = zs @ [Kube (StatusApplyHypervisor (hv_Name hv) cfg HypervisorMaintenanceControllerName)]"
    have split: "?calls = xs @ Kube (ApplyEviction ea HypervisorMaintenanceControllerName) # ys"
      by (simp add: snd created(2) trc(1) xs_def ys_def new_calls_def)
    then have "e = ea" "ow = HypervisorMaintenanceControllerName"
      using assms(2) trc(2) created(3) by (auto simp: xs_def ys_def list_all_iff no_creation_def)
    moreover have "occurs (no_incoming N (hv_Name hv)) tr xs"
      unfolding occurs_iff by (rule exI [of _ "Kube (GetHypervisor name) # cs"]) (use created(4) trc in \<open>auto simp: xs_def\<close>)
    moreover have d: "hv_Maintenance hv \<in> set draining_modes" using created(1) by simp
    moreover from compute_service_disabled [OF L d c [unfolded trc(1)]] have "ServiceID (hv_Status hv) = []
       \<or> IsStatusConditionTrue L (hv_Conditions hv) ConditionTypeHypervisorDisabled
       \<or> occurs (service_disabled N (ServiceID (hv_Status hv))) tr xs" by (simp only: xs_def)
    ultimately show ?thesis using hv split by blast
  qed
qed

section \<open>The compute service and the shape of the configuration\<close>

lemma reconcileEviction_keeps_disabled:
  assumes "meta_laws L" "reconcileEviction L K C N labels hv cfg tr = (((rq, err), cfg'), tr')"
  shows "cfg_cond cfg' ConditionTypeHypervisorDisabled = cfg_cond cfg ConditionTypeHypervisorDisabled"
  using assms(2)
proof (cases rule: reconcileEviction_cases)
  case (restart cfg1 tr1 tr2 msg)
  then show ?thesis using settle_cfg_other(2) [OF restart(3)] assms(1) by simp
next
  case (evicted cfg1 tr1)
  then show ?thesis using settle_cfg_other(2) [OF evicted(3)] assms(1) by simp
next
  case (evicting cfg1 tr1 st)
  then show ?thesis using settle_cfg_other(2) [OF evicting(4)] assms(1) by simp
qed (use assms(1) settle_cfg_other(2) in simp_all)

lemma onboarding_only_reads:
  assumes "k_get_Hypervisor K name tr = Inr hv" "IsStatusConditionTrue L (hv_Conditions hv) ConditionTypeOnboarding"
  shows "new_calls tr (snd (Maintenance_Reconcile L K C N labels name tr)) = [Kube (GetHypervisor name)]"
  using assms by (simp add: Maintenance_Reconcile_def ask_def)

lemma compute_service_applied:
  assumes L: "meta_laws L" and get: "k_get_Hypervisor K name tr = Inr hv"
    and on: "\<not> IsStatusConditionTrue L (hv_Conditions hv) ConditionTypeOnboarding"
    and w: "wanted_disabled hv = Some st"
    and ok: "snd (fst (Maintenance_Reconcile L K C N labels name tr)) = None"
  shows "\<exists>cfg m. Kube (StatusApplyHypervisor (hv_Name hv) cfg HypervisorMaintenanceControllerName)
        \<in> set (new_calls tr (snd (Maintenance_Reconcile L K C N labels name tr)))
    \<and> cfg_cond cfg ConditionTypeHypervisorDisabled = Some (Some st, Some ConditionReasonSucceeded, Some m, None)
    \<and> (map_option Status (FindStatusCondition L (hv_Conditions hv) ConditionTypeHypervisorDisabled) = Some st
       \<or> occurs (\<lambda>t c. c = Compute (ServicesUpdate (ServiceID (hv_Status hv)) (service_opts hv))
            \<and> n_services_Update N (ServiceID (hv_Status hv)) (service_opts hv) t = None) tr
           (new_calls tr (snd (Maintenance_Reconcile L K C N labels name tr))))"
proof -
  let ?tr1 = "tr @ [Kube (GetHypervisor name)]"
  obtain rq err cfg tr2 where p: "maintenance_pass L K C N labels hv ?tr1 = (((rq, err), cfg), tr2)"
    by (metis surj_pair)
  let ?c = "Kube (StatusApplyHypervisor (hv_Name hv) cfg HypervisorMaintenanceControllerName)"
  have snd: "snd (Maintenance_Reconcile L K C N labels name tr) = tr2 @ [?c]" and err: "err = None"
    using get on p ok by (auto simp: Maintenance_Reconcile_def ask_def split: if_splits)
  obtain r cfg1 trc where c: "reconcileComputeService L N (clk_Now C) hv (initial_cfg L (clk_Now C) hv) ?tr1 = ((r, cfg1), trc)"
    by (metis surj_pair)
  have r: "r = None" using p c err by (auto simp: maintenance_pass_def Let_def split: option.splits)
  with p c have e: "reconcileEviction L K C N labels hv cfg1 trc = (((rq, err), cfg), tr2)"
    by (simp add: maintenance_pass_def Let_def)
  obtain ds where ds: "tr2 = trc @ ds" using reconcileEviction_extends [OF e] extends_by_trivial by blast
  obtain cs where cs: "trc = ?tr1 @ cs" using compute_extends [OF c] extends_by_trivial by blast
  have calls: "new_calls tr (snd (Maintenance_Reconcile L K C N labels name tr)) = Kube (GetHypervisor name) # cs @ ds @ [?c]"
    by (simp add: snd ds cs)
  from c have "(\<exists>m. cfg_cond cfg1 ConditionTypeHypervisorDisabled = Some (Some st, Some ConditionReasonSucceeded, Some m, None))
    \<and> (map_option Status (FindStatusCondition L (hv_Conditions hv) ConditionTypeHypervisorDisabled) = Some st
       \<or> cs = [Compute (ServicesUpdate (ServiceID (hv_Status hv)) (service_opts hv))]
         \<and> n_services_Update N (ServiceID (hv_Status hv)) (service_opts hv) ?tr1 = None)"
    using w r cs by (cases rule: reconcileComputeService_cases) (auto simp del: map_option_eq_Some)
  with reconcileEviction_keeps_disabled [OF L e] calls show ?thesis
    by (intro exI [of _ cfg]) (auto simp del: map_option_eq_Some)
qed

text \<open>
  C10. The compute service follows the spec. Take a host that has a service and a maintenance mode
  that asks for a state of it (unset: enabled; a draining mode: disabled), and a pass that ends
  without an error. While the \<open>Onboarding\<close> condition is \<open>True\<close> the pass only reads. Otherwise it
  applies a \<open>HypervisorDisabled\<close> condition that is \<open>False\<close> with maintenance unset and \<open>True\<close> in a
  draining mode; and that was so already when the status was read, or Nova accepted the
  corresponding update during the pass.
\<close>

theorem compute_service_follows_spec:
  assumes "meta_laws L" "k_get_Hypervisor K name tr = Inr hv" "wanted_disabled hv = Some st"
    and "snd (fst (Maintenance_Reconcile L K C N labels name tr)) = None"
  shows "if IsStatusConditionTrue L (hv_Conditions hv) ConditionTypeOnboarding
    then new_calls tr (snd (Maintenance_Reconcile L K C N labels name tr)) = [Kube (GetHypervisor name)]
    else \<exists>cfg m. Kube (StatusApplyHypervisor (hv_Name hv) cfg HypervisorMaintenanceControllerName)
        \<in> set (new_calls tr (snd (Maintenance_Reconcile L K C N labels name tr)))
    \<and> cfg_cond cfg ConditionTypeHypervisorDisabled = Some (Some st, Some ConditionReasonSucceeded, Some m, None)
    \<and> (map_option Status (FindStatusCondition L (hv_Conditions hv) ConditionTypeHypervisorDisabled) = Some st
       \<or> occurs (\<lambda>t c. c = Compute (ServicesUpdate (ServiceID (hv_Status hv)) (service_opts hv))
            \<and> n_services_Update N (ServiceID (hv_Status hv)) (service_opts hv) t = None) tr
           (new_calls tr (snd (Maintenance_Reconcile L K C N labels name tr))))"
  using onboarding_only_reads [OF assms(2)] compute_service_applied [OF assms(1,2) _ assms(3,4)]
  by (simp only: split: if_split) blast

definition owned_types :: "string list" where
  "owned_types = [ConditionTypeHypervisorDisabled, ConditionTypeEvicting, ConditionTypeIncomingMigrationsSettled]"

definition cfg_ok :: "HypervisorStatusApplyConfiguration \<Rightarrow> bool" where
  "cfg_ok cfg \<longleftrightarrow> distinct (map ac_Type (cfg_Conditions cfg)) \<and> set (map ac_Type (cfg_Conditions cfg)) \<subseteq> Some ` set owned_types
     \<and> cfg_Evicted cfg \<noteq> None"

lemma cfg_ok_put:
  "cfg_ok cfg \<Longrightarrow> ac_Type c \<in> Some ` set owned_types \<Longrightarrow> cfg_ok (cfg_set now c cfg)"
proof -
  assume ok: "cfg_ok cfg" and t: "ac_Type c \<in> Some ` set owned_types"
  then have "apply_ok c" by (auto simp: apply_ok_def owned_types_def)
  from apply_store.keys_put [OF this, of now "cfg_Conditions cfg"] ok t show ?thesis
    by (simp add: cfg_ok_def)
qed

lemma cfg_ok_set: "cfg_ok cfg \<Longrightarrow> ty \<in> set owned_types \<Longrightarrow> cfg_ok (cfg_set now (ac_condition ty st r m) cfg)"
  by (rule cfg_ok_put) auto

lemma cfg_ok_Evicted: "cfg_ok cfg \<Longrightarrow> cfg_ok (WithEvicted b cfg)"
  by (simp add: cfg_ok_def)

lemma cfg_ok_retain:
  "meta_laws L \<Longrightarrow> cfg_ok cfg \<Longrightarrow> ty \<in> set owned_types \<Longrightarrow> cfg_ok (retainStatusCondition L now cs ty cfg)"
  by (auto simp: retainStatusCondition_def dest: meta_find_Type intro!: cfg_ok_put split: option.split)

lemma owned [simp]: "ConditionTypeHypervisorDisabled \<in> set owned_types" "ConditionTypeEvicting \<in> set owned_types"
  "ConditionTypeIncomingMigrationsSettled \<in> set owned_types"
  by (simp_all add: owned_types_def)

lemmas cfg_ok_intros = cfg_ok_retain cfg_ok_set cfg_ok_Evicted owned

lemma settle_cfg_ok:
  "settleIncomingMigrations L C N hv cfg tr = ((r, cfg1), tr1) \<Longrightarrow> cfg_ok cfg \<Longrightarrow> cfg_ok cfg1"
  by (auto simp: settleIncomingMigrations_def Let_def split: prod.splits option.splits if_splits
      intro!: cfg_ok_intros)

lemma maintenance_pass_cfg_ok:
  assumes L: "meta_laws L" and p: "maintenance_pass L K C N labels hv tr = (((rq, err), cfg), tr')"
  shows "cfg_ok cfg"
proof -
  have "cfg_ok (WithEvicted b HypervisorStatus_cfg)" for b
    by (simp add: cfg_ok_def HypervisorStatus_cfg_def)
  then have 0: "cfg_ok (initial_cfg L (clk_Now C) hv)"
    unfolding initial_cfg_def by (intro cfg_ok_retain L owned)
  obtain r cfg1 tr1 where c: "reconcileComputeService L N (clk_Now C) hv (initial_cfg L (clk_Now C) hv) tr = ((r, cfg1), tr1)"
    by (metis surj_pair)
  then have 1: "cfg_ok cfg1"
    using 0 by (cases rule: reconcileComputeService_cases) (auto intro: cfg_ok_intros)
  show ?thesis
  proof (cases r)
    case (Some e)
    with p c 1 show ?thesis by (auto simp: maintenance_pass_def Let_def intro!: cfg_ok_intros L)
  next
    case None
    with p c have "reconcileEviction L K C N labels hv cfg1 tr1 = (((rq, err), cfg), tr')"
      by (simp add: maintenance_pass_def Let_def)
    then show ?thesis using 1
      by (cases rule: reconcileEviction_cases) (auto dest: settle_cfg_ok intro!: cfg_ok_intros L)
  qed
qed

text \<open>
  C11. The applied configuration is well-formed for a list keyed by type: it names each condition at
  most once, only the three condition types this controller owns, and always carries the
  \<open>evicted\<close> field, so that no apply can be refused for a duplicate key or drop that field.
\<close>

theorem maintenance_payload_ok:
  assumes "meta_laws L"
    and "Kube (StatusApplyHypervisor n cfg ow) \<in> set (new_calls tr (snd (Maintenance_Reconcile L K C N labels name tr)))"
  shows "distinct (map ac_Type (cfg_Conditions cfg))
    \<and> set (map ac_Type (cfg_Conditions cfg)) \<subseteq> {Some ''HypervisorDisabled'', Some ''Evicting'', Some ''IncomingMigrationsSettled''}
    \<and> cfg_Evicted cfg \<noteq> None"
  using assms(2)
proof (rule Maintenance_Reconcile_apply)
  fix hv rq err tr2
  assume "maintenance_pass L K C N labels hv (tr @ [Kube (GetHypervisor name)]) = (((rq, err), cfg), tr2)"
  from maintenance_pass_cfg_ok [OF assms(1) this] show ?thesis by (auto simp: cfg_ok_def owned_types_def)
qed

section \<open>Two traps\<close>

text \<open>
  A completed drain whose \<open>evicted\<close> flag was cleared stays without it: from a status with
  \<open>Evicting = False / Succeeded\<close>, \<open>evicted: false\<close> and no instance, in a draining mode, a pass
  never applies \<open>evicted: true\<close> and keeps the \<open>Evicting\<close> condition as it is, whatever Nova and
  Kubernetes answer, so that every later pass starts from the same situation.
\<close>

theorem evicted_flag_not_restored:
  assumes L: "meta_laws L" and "k_get_Hypervisor K name tr = Inr hv" and succ: "succeeded_cond L hv"
    and flag: "\<not> Evicted (hv_Status hv)" and none: "NumInstances (hv_Status hv) \<le> 0"
    and mode: "hv_Maintenance hv \<in> set draining_modes"
    and a: "Kube (StatusApplyHypervisor n cfg ow) \<in> set (new_calls tr (snd (Maintenance_Reconcile L K C N labels name tr)))"
  shows "cfg_Evicted cfg = Some False
    \<and> cfg_cond cfg ConditionTypeEvicting = seen_cond L (hv_Conditions hv) ConditionTypeEvicting"
  using a
proof (rule Maintenance_Reconcile_apply)
  fix hv' rq err tr2
  let ?tr1 = "tr @ [Kube (GetHypervisor name)]"
  assume "k_get_Hypervisor K name tr = Inr hv'" and p': "maintenance_pass L K C N labels hv' ?tr1 = (((rq, err), cfg), tr2)"
  with assms(2) have p: "maintenance_pass L K C N labels hv ?tr1 = (((rq, err), cfg), tr2)" by simp
  have found: "FindStatusCondition L (hv_Conditions hv) ConditionTypeEvicting \<noteq> None" and d: "done_reason L hv"
    using succ by (auto simp: succeeded_cond_def done_reason_def)
  obtain r cfg1 trc where c: "reconcileComputeService L N (clk_Now C) hv (initial_cfg L (clk_Now C) hv) ?tr1 = ((r, cfg1), trc)"
    by (metis surj_pair)
  then have 1: "cfg_Evicted cfg1 = Some False" using flag
    by (cases rule: reconcileComputeService_cases) simp_all
  show ?thesis
  proof (cases r)
    case (Some e)
    with p c 1 found L show ?thesis by (auto simp: maintenance_pass_def Let_def)
  next
    case None
    with p c have "reconcileEviction L K C N labels hv cfg1 trc = (((rq, err), cfg), tr2)"
      by (simp add: maintenance_pass_def Let_def)
    then show ?thesis
      using 1 found L d mode none flag
      by (cases rule: reconcileEviction_cases) (auto dest: settle_cfg_other(1))
  qed
qed

text \<open>The passes with maintenance unset, outside onboarding, one case per way they can go.\<close>

lemma unset_pass_cases:
  assumes L: "meta_laws L" and hv: "k_get_Hypervisor K name tr = Inr hv" and un: "hv_Maintenance hv = MaintenanceUnset"
    and on: "\<not> IsStatusConditionTrue L (hv_Conditions hv) ConditionTypeOnboarding"
  obtains (service_error) cs cfg where "cs = [] \<or> (\<exists>i u. cs = [Compute (ServicesUpdate i u)])"
      "new_calls tr (snd (Maintenance_Reconcile L K C N labels name tr)) =
         Kube (GetHypervisor name) # cs @ [Kube (StatusApplyHypervisor (hv_Name hv) cfg HypervisorMaintenanceControllerName)]"
      "snd (fst (Maintenance_Reconcile L K C N labels name tr)) \<noteq> None"
  | (idle) cs cfg where "cs = [] \<or> (\<exists>i u. cs = [Compute (ServicesUpdate i u)])" "nothing_to_delete L hv"
      "new_calls tr (snd (Maintenance_Reconcile L K C N labels name tr)) =
         Kube (GetHypervisor name) # cs @ [Kube (StatusApplyHypervisor (hv_Name hv) cfg HypervisorMaintenanceControllerName)]"
  | (deletion) cs cfg where "cs = [] \<or> (\<exists>i u. cs = [Compute (ServicesUpdate i u)])" "\<not> nothing_to_delete L hv"
      "new_calls tr (snd (Maintenance_Reconcile L K C N labels name tr)) = Kube (GetHypervisor name) # cs @
         [Kube (DeleteEviction (hv_Name hv)), Kube (StatusApplyHypervisor (hv_Name hv) cfg HypervisorMaintenanceControllerName)]"
      "fst (delete_eviction L K (hv_Name hv) (tr @ Kube (GetHypervisor name) # cs)) = None \<or>
         cfg_cond cfg ConditionTypeEvicting = None \<and> cfg_cond cfg ConditionTypeIncomingMigrationsSettled = None
         \<and> cfg_Evicted cfg = Some (Evicted (hv_Status hv))"
proof -
  let ?tr1 = "tr @ [Kube (GetHypervisor name)]"
  obtain rq err cfg tr2 where p: "maintenance_pass L K C N labels hv ?tr1 = (((rq, err), cfg), tr2)"
    by (metis surj_pair)
  have snd: "snd (Maintenance_Reconcile L K C N labels name tr) =
      tr2 @ [Kube (StatusApplyHypervisor (hv_Name hv) cfg HypervisorMaintenanceControllerName)]"
    and err: "err \<noteq> None \<Longrightarrow> snd (fst (Maintenance_Reconcile L K C N labels name tr)) \<noteq> None"
    using hv on p by (auto simp: Maintenance_Reconcile_def ask_def errors_Join_head split: option.split)
  obtain r cfg1 trc where c: "reconcileComputeService L N (clk_Now C) hv (initial_cfg L (clk_Now C) hv) ?tr1 = ((r, cfg1), trc)"
    by (metis surj_pair)
  obtain cs where cs: "trc = ?tr1 @ cs" "cs = [] \<or> (\<exists>i u. cs = [Compute (ServicesUpdate i u)])"
    using c by (cases rule: reconcileComputeService_cases) auto
  have 1: "cfg_cond cfg1 ConditionTypeEvicting = None" "cfg_cond cfg1 ConditionTypeIncomingMigrationsSettled = None"
    "cfg_Evicted cfg1 = Some (Evicted (hv_Status hv))"
    using c L by (cases rule: reconcileComputeService_cases; simp)+
  show ?thesis
  proof (cases r)
    case (Some e)
    with p c have "err \<noteq> None" "tr2 = trc" by (auto simp: maintenance_pass_def Let_def)
    with service_error [OF cs(2), of cfg] snd cs(1) err show ?thesis by simp
  next
    case None
    with p c have e: "reconcileEviction L K C N labels hv cfg1 trc = (((rq, err), cfg), tr2)"
      by (simp add: maintenance_pass_def Let_def)
    show ?thesis
    proof (cases "nothing_to_delete L hv")
      case True
      with e un have "tr2 = trc" by (simp add: reconcileEviction_def nothing_to_delete_def)
      with idle [OF cs(2) True, of cfg] snd cs(1) show ?thesis by simp
    next
      case False
      obtain d t where d: "delete_eviction L K (hv_Name hv) trc = (d, t)" by fastforce
      have "tr2 = t" "d = None \<or> cfg = cfg1"
        using e un False d by (auto simp: reconcileEviction_def nothing_to_delete_def split: option.splits)
      with deletion [OF cs(2) False, of cfg] snd d delete_eviction_trace [OF d] 1 cs(1) show ?thesis by auto
    qed
  qed
qed

lemma failed_delete_prunes:
  assumes L: "meta_laws L" and hv: "k_get_Hypervisor K name tr = Inr hv" and un: "hv_Maintenance hv = MaintenanceUnset"
    and fail: "occurs (\<lambda>t c. c = Kube (DeleteEviction (hv_Name hv)) \<and> fst (delete_eviction L K (hv_Name hv) t) \<noteq> None) tr
      (new_calls tr (snd (Maintenance_Reconcile L K C N labels name tr)))"
  shows "\<exists>cfg. Kube (StatusApplyHypervisor (hv_Name hv) cfg HypervisorMaintenanceControllerName)
              \<in> set (new_calls tr (snd (Maintenance_Reconcile L K C N labels name tr)))
        \<and> cfg_cond cfg ConditionTypeEvicting = None \<and> cfg_cond cfg ConditionTypeIncomingMigrationsSettled = None
        \<and> cfg_Evicted cfg = Some (Evicted (hv_Status hv))"
proof -
  have "\<not> IsStatusConditionTrue L (hv_Conditions hv) ConditionTypeOnboarding"
    using fail onboarding_only_reads [OF hv] by auto
  from L hv un this show ?thesis
  proof (cases rule: unset_pass_cases [where C = C and N = N and labels = labels])
    case (deletion cs cfg)
    with fail show ?thesis by (intro exI [of _ cfg]) auto
  qed (use fail in auto)
qed

lemma pruned_never_deletes:
  assumes L: "meta_laws L" and hv: "k_get_Hypervisor K name tr = Inr hv" and un: "hv_Maintenance hv = MaintenanceUnset"
    and lacks: "nothing_to_delete L hv"
  shows "Kube (DeleteEviction n) \<notin> set (new_calls tr (snd (Maintenance_Reconcile L K C N labels name tr)))"
proof (cases "IsStatusConditionTrue L (hv_Conditions hv) ConditionTypeOnboarding")
  case True
  with onboarding_only_reads [OF hv] show ?thesis by simp
next
  case False
  with L hv un show ?thesis
    by (cases rule: unset_pass_cases [where C = C and N = N and labels = labels]) (use lacks in auto)
qed

lemma unset_deletes:
  assumes L: "meta_laws L" and hv: "k_get_Hypervisor K name tr = Inr hv" and un: "hv_Maintenance hv = MaintenanceUnset"
    and on: "\<not> IsStatusConditionTrue L (hv_Conditions hv) ConditionTypeOnboarding" and some: "\<not> nothing_to_delete L hv"
    and ok: "snd (fst (Maintenance_Reconcile L K C N labels name tr)) = None"
  shows "Kube (DeleteEviction (hv_Name hv)) \<in> set (new_calls tr (snd (Maintenance_Reconcile L K C N labels name tr)))"
  using L hv un on
  by (cases rule: unset_pass_cases [where C = C and N = N and labels = labels]) (use some ok in auto)

text \<open>What is left of a status after such an apply: neither condition, and the flag as it was.\<close>

definition pruned_status :: "lib \<Rightarrow> bool \<Rightarrow> Hypervisor \<Rightarrow> bool" where
  "pruned_status L evicted hv \<longleftrightarrow> Evicted (hv_Status hv) = evicted
     \<and> FindStatusCondition L (hv_Conditions hv) ConditionTypeEvicting = None
     \<and> FindStatusCondition L (hv_Conditions hv) ConditionTypeIncomingMigrationsSettled = None"

lemma pruned_nothing: "pruned_status L evicted hv \<Longrightarrow> nothing_to_delete L hv \<longleftrightarrow> \<not> evicted"
  by (auto simp: pruned_status_def nothing_to_delete_def)

text \<open>
  C12. What a failed deletion of the Eviction leaves behind. If a pass with maintenance unset asks for
  the deletion and is refused (with anything but not-found), it applies a configuration without the
  \<open>Evicting\<close> and \<open>IncomingMigrationsSettled\<close> conditions and with the \<open>evicted\<close> flag as read, so that
  the API server prunes both conditions. On a status pruned in this way the deletion is forgotten if
  the drain was still under way (\<open>evicted: false\<close>): no later pass with maintenance unset deletes the
  Eviction. If the host was evicted already (\<open>evicted: true\<close>) it is retried: every later pass with
  maintenance unset, outside onboarding, that ends without an error has asked for the deletion.
\<close>

theorem failed_delete_forgotten:
  assumes "meta_laws L" "k_get_Hypervisor K name tr = Inr hv" "hv_Maintenance hv = MaintenanceUnset"
    and "occurs (\<lambda>t c. c = Kube (DeleteEviction (hv_Name hv)) \<and> fst (delete_eviction L K (hv_Name hv) t) \<noteq> None) tr
      (new_calls tr (snd (Maintenance_Reconcile L K C N labels name tr)))"
  shows "(\<exists>cfg. Kube (StatusApplyHypervisor (hv_Name hv) cfg HypervisorMaintenanceControllerName)
              \<in> set (new_calls tr (snd (Maintenance_Reconcile L K C N labels name tr)))
        \<and> cfg_cond cfg ConditionTypeEvicting = None \<and> cfg_cond cfg ConditionTypeIncomingMigrationsSettled = None
        \<and> cfg_Evicted cfg = Some (Evicted (hv_Status hv)))
    \<and> (\<forall>K' N' C' labels' tr' hv'. k_get_Hypervisor K' name tr' = Inr hv' \<longrightarrow> hv_Maintenance hv' = MaintenanceUnset \<longrightarrow>
        pruned_status L (Evicted (hv_Status hv)) hv' \<longrightarrow>
        (if Evicted (hv_Status hv)
         then \<not> IsStatusConditionTrue L (hv_Conditions hv') ConditionTypeOnboarding \<longrightarrow>
           snd (fst (Maintenance_Reconcile L K' C' N' labels' name tr')) = None \<longrightarrow>
           Kube (DeleteEviction (hv_Name hv')) \<in> set (new_calls tr' (snd (Maintenance_Reconcile L K' C' N' labels' name tr')))
         else \<forall>n. Kube (DeleteEviction n) \<notin> set (new_calls tr' (snd (Maintenance_Reconcile L K' C' N' labels' name tr')))))"
  using failed_delete_prunes [OF assms] pruned_never_deletes [OF assms(1)] unset_deletes [OF assms(1)] pruned_nothing
  by (simp only: split: if_split) blast

section \<open>Witnesses\<close>

definition sample_clock :: clock where
  "sample_clock = \<lparr>clk_Now = 100000\<rparr>"

definition draining_hv :: Hypervisor where
  "draining_hv = (empty_hypervisor ''h1'')\<lparr>Spec := zero_spec\<lparr>Maintenance := MaintenanceAuto\<rparr>,
     hv_Status := zero_status\<lparr>ServiceID := ''s1''\<rparr>\<rparr>"

definition finished_eviction :: Eviction where
  "finished_eviction = (empty_eviction ''h1'')\<lparr>ev_Status := \<lparr>HypervisorServiceId = [], OutstandingRamMb = 0,
     OutstandingInstances = [],
     ev_Conditions = [mk_condition ConditionTypeEvicting ConditionFalse ConditionReasonSucceeded ''ok'']\<rparr>\<rparr>"

abbreviation draining_kube :: kube where
  "draining_kube \<equiv> sample_kube draining_hv finished_eviction (empty_node ''h1'')"

abbreviation draining_calls :: "call list" where
  "draining_calls \<equiv> new_calls [] (snd (Maintenance_Reconcile list_lib draining_kube sample_clock sample_nova [] ''h1'' []))"

lemmas draining_eval = Maintenance_Reconcile_def maintenance_pass_def ask_def Let_def reconcileComputeService_def
  reconcileEviction_def settleIncomingMigrations_def SettleIncomingMigrations_def ListActiveIncomingMigrations_def
  listMigrationsForHost_def ensureEviction_def draining_hv_def sample_kube_def sample_nova_def list_lib_def list_find_def
  zero_values finished_eviction_def new_calls_def

lemma draining_result:
  "(\<exists>n cfg ow. Kube (StatusApplyHypervisor n cfg ow) \<in> set draining_calls \<and> cfg_Evicted cfg = Some True)
    \<and> (\<exists>e ow. Kube (ApplyEviction e ow) \<in> set draining_calls)
    \<and> snd (fst (Maintenance_Reconcile list_lib draining_kube sample_clock sample_nova [] ''h1'' [])) = None"
  by (simp add: draining_eval)

theorem maintenance_evicted_evidence_witness:
  "\<exists>n cfg ow. Kube (StatusApplyHypervisor n cfg ow) \<in> set draining_calls \<and> cfg_Evicted cfg = Some True
    \<and> (\<exists>hv. k_get_Hypervisor draining_kube ''h1'' [] = Inr hv)"
proof -
  obtain n cfg ow where c: "Kube (StatusApplyHypervisor n cfg ow) \<in> set draining_calls" "cfg_Evicted cfg = Some True"
    using draining_result by blast
  from maintenance_evicted_evidence [OF c] c show ?thesis by blast
qed

theorem eviction_created_when_settled_witness:
  "\<exists>e ow xs ys. draining_calls = xs @ Kube (ApplyEviction e ow) # ys \<and> occurs (no_incoming sample_nova ''h1'') [] xs"
proof -
  obtain e ow where c: "Kube (ApplyEviction e ow) \<in> set draining_calls" using draining_result by blast
  have "k_get_Hypervisor draining_kube ''h1'' [] = Inr draining_hv" "hv_Name draining_hv = ''h1''"
    by (simp_all add: sample_kube_def draining_hv_def zero_values)
  with eviction_created_when_settled [OF meta_laws_list_lib c] show ?thesis by auto
qed

theorem compute_service_follows_spec_witness:
  "\<exists>cfg m. Kube (StatusApplyHypervisor ''h1'' cfg HypervisorMaintenanceControllerName) \<in> set draining_calls
    \<and> cfg_cond cfg ConditionTypeHypervisorDisabled = Some (Some ConditionTrue, Some ConditionReasonSucceeded, Some m, None)"
proof -
  have "k_get_Hypervisor draining_kube ''h1'' [] = Inr draining_hv"
    "wanted_disabled draining_hv = Some ConditionTrue"
    "\<not> IsStatusConditionTrue list_lib (hv_Conditions draining_hv) ConditionTypeOnboarding" "hv_Name draining_hv = ''h1''"
    by (simp_all add: sample_kube_def draining_hv_def zero_values wanted_disabled_def list_lib_def list_find_def)
  with compute_service_follows_spec [OF meta_laws_list_lib this(1,2)] draining_result show ?thesis by metis
qed

theorem maintenance_payload_ok_witness:
  "\<exists>n cfg ow. Kube (StatusApplyHypervisor n cfg ow) \<in> set draining_calls
    \<and> distinct (map ac_Type (cfg_Conditions cfg)) \<and> cfg_Evicted cfg \<noteq> None"
proof -
  obtain n cfg ow where c: "Kube (StatusApplyHypervisor n cfg ow) \<in> set draining_calls" using draining_result by blast
  from maintenance_payload_ok [OF meta_laws_list_lib c] c show ?thesis by blast
qed

text \<open>A completed drain whose flag was cleared.\<close>

definition trapped_hv :: Hypervisor where
  "trapped_hv = draining_hv\<lparr>hv_Status := zero_status\<lparr>Conditions :=
     [mk_condition ConditionTypeEvicting ConditionFalse ConditionReasonSucceeded ''Evicted'']\<rparr>\<rparr>"

abbreviation trapped_kube :: kube where
  "trapped_kube \<equiv> sample_kube trapped_hv finished_eviction (empty_node ''h1'')"

abbreviation trapped_calls :: "call list" where
  "trapped_calls \<equiv> new_calls [] (snd (Maintenance_Reconcile list_lib trapped_kube sample_clock sample_nova [] ''h1'' []))"

theorem evicted_flag_not_restored_witness:
  "\<exists>n cfg ow. Kube (StatusApplyHypervisor n cfg ow) \<in> set trapped_calls \<and> cfg_Evicted cfg = Some False"
proof -
  have "\<exists>n cfg ow. Kube (StatusApplyHypervisor n cfg ow) \<in> set trapped_calls"
    by (simp add: draining_eval trapped_hv_def mk_condition_def)
  then obtain n cfg ow where c: "Kube (StatusApplyHypervisor n cfg ow) \<in> set trapped_calls" by blast
  have "k_get_Hypervisor trapped_kube ''h1'' [] = Inr trapped_hv" "succeeded_cond list_lib trapped_hv"
    "\<not> Evicted (hv_Status trapped_hv)" "NumInstances (hv_Status trapped_hv) \<le> 0"
    "hv_Maintenance trapped_hv \<in> set draining_modes"
    by (simp_all add: sample_kube_def trapped_hv_def draining_hv_def zero_values succeeded_cond_def list_lib_def list_find_def)
  from evicted_flag_not_restored [OF meta_laws_list_lib this c] c show ?thesis by blast
qed

text \<open>A drain under way on a host whose maintenance was just unset, and a failing API server.\<close>

definition unset_hv :: Hypervisor where
  "unset_hv = (empty_hypervisor ''h1'')\<lparr>hv_Status := zero_status\<lparr>Conditions :=
     [mk_condition ConditionTypeEvicting ConditionTrue ConditionReasonRunning ''Evicting'']\<rparr>\<rparr>"

definition failing_kube :: kube where
  "failing_kube = (sample_kube unset_hv finished_eviction (empty_node ''h1''))\<lparr>
     k_delete_Eviction := (\<lambda>_ _. Some (KubeError ReasonOther ''timeout''))\<rparr>"

theorem failed_delete_forgotten_witness:
  "\<exists>cfg. Kube (StatusApplyHypervisor ''h1'' cfg HypervisorMaintenanceControllerName)
      \<in> set (new_calls [] (snd (Maintenance_Reconcile list_lib failing_kube sample_clock sample_nova [] ''h1'' [])))
    \<and> cfg_cond cfg ConditionTypeEvicting = None \<and> cfg_Evicted cfg = Some False"
proof -
  have "k_get_Hypervisor failing_kube ''h1'' [] = Inr unset_hv" "hv_Maintenance unset_hv = MaintenanceUnset"
    "hv_Name unset_hv = ''h1''" "\<not> Evicted (hv_Status unset_hv)"
    by (simp_all add: failing_kube_def sample_kube_def unset_hv_def zero_values)
  moreover have "occurs (\<lambda>t c. c = Kube (DeleteEviction (hv_Name unset_hv))
        \<and> fst (delete_eviction list_lib failing_kube (hv_Name unset_hv) t) \<noteq> None) []
      (new_calls [] (snd (Maintenance_Reconcile list_lib failing_kube sample_clock sample_nova [] ''h1'' [])))"
    by (simp add: draining_eval failing_kube_def unset_hv_def delete_eviction_def is_not_found_def)
  ultimately show ?thesis
    using failed_delete_forgotten [OF meta_laws_list_lib, of failing_kube "''h1''" "[]" unset_hv sample_clock sample_nova "[]"]
    by auto
qed

end
