(* ===== verification/Ready_Ctrl.thy ===== *)
theory Ready_Ctrl
  imports Sample_World
begin

text \<open>
  The ready controller: \<^verbatim>\<open>src/internal/controller/ready/controller.go\<close>. It folds the other
  conditions of a hypervisor into the one \<open>Ready\<close> condition, and is woken by the predicate on
  status changes.
\<close>

abbreviation ReadyControllerName :: string where "ReadyControllerName \<equiv> ''ready''"

section \<open>StatusChangedPredicate\<close>

text \<open>The objects of an update event: absent, of another kind, or hypervisors.\<close>

datatype event_object = NilObject | OtherObject | HypervisorObject Hypervisor

fun StatusChangedPredicate_Update :: "lib \<Rightarrow> event_object \<Rightarrow> event_object \<Rightarrow> bool" where
  "StatusChangedPredicate_Update L (HypervisorObject oldHv) (HypervisorObject newHv) =
     (if \<not> DeepEqual_Status L (hv_Status oldHv) (hv_Status newHv) then True
      else if hv_Maintenance oldHv \<noteq> hv_Maintenance newHv then True
      else False)"
| "StatusChangedPredicate_Update L _ _ = False"

definition StatusChangedPredicate_Create :: bool where "StatusChangedPredicate_Create = True"
definition StatusChangedPredicate_Delete :: bool where "StatusChangedPredicate_Delete = False"
definition StatusChangedPredicate_Generic :: bool where "StatusChangedPredicate_Generic = True"

section \<open>ComputeReadyCondition\<close>

definition ready_condition :: "ConditionStatus \<Rightarrow> string \<Rightarrow> string \<Rightarrow> condition" where
  "ready_condition st reason msg = mk_condition ConditionTypeReady st reason msg"

definition ComputeReadyCondition :: "lib \<Rightarrow> Hypervisor \<Rightarrow> condition" where
  "ComputeReadyCondition L hv =
     (let conds = hv_Conditions hv; onboardingCondition = FindStatusCondition L conds ConditionTypeOnboarding in
      if IsStatusConditionTrue L conds ConditionTypeOffboarded
      then ready_condition ConditionFalse ''Offboarded'' ''Hypervisor has been offboarded''
      else if IsStatusConditionTrue L conds ConditionTypeTerminating
      then ready_condition ConditionFalse ConditionReasonTerminating ''Hypervisor is terminating''
      else if (case onboardingCondition of None \<Rightarrow> False | Some c \<Rightarrow> Status c = ConditionTrue)
      then ready_condition ConditionFalse ConditionReasonOnboarding
             (''Onboarding in progress: '' @ Message (the onboardingCondition))
      else if hv_Maintenance hv \<noteq> MaintenanceUnset
      then (case FindStatusCondition L conds ConditionTypeEvicting of
              Some evictingCondition \<Rightarrow>
                if Status evictingCondition = ConditionTrue
                then ready_condition ConditionFalse ConditionReasonReadyEvicting ''Hypervisor is disabled and evicting''
                else if Status evictingCondition = ConditionFalse
                then ready_condition ConditionFalse ConditionReasonReadyEvicted ''Hypervisor is disabled and evicted''
                else ready_condition ConditionFalse ConditionReasonReadyMaintenance ''Hypervisor is in maintenance mode''
            | None \<Rightarrow> ready_condition ConditionFalse ConditionReasonReadyMaintenance ''Hypervisor is in maintenance mode'')
      else
        (case onboardingCondition of
           None \<Rightarrow>
             ready_condition ConditionFalse ConditionReasonOnboarding
               (if \<not> LifecycleEnabled (Spec hv) then ''Onboarding not started: lifecycle management is disabled''
                else if HypervisorID (hv_Status hv) = [] \<or> ServiceID (hv_Status hv) = []
                then ''Onboarding not started: waiting for nova-compute to register the hypervisor in Nova (HypervisorID/ServiceID not yet available)''
                else ''Onboarding not started'')
         | Some c \<Rightarrow>
             if Reason c = ConditionReasonAborted
             then ready_condition ConditionFalse ConditionReasonOnboarding ''Onboarding was aborted''
             else if Reason c \<noteq> ConditionReasonSucceeded
             then ready_condition ConditionFalse ConditionReasonOnboarding ''Onboarding not yet completed''
             else ready_condition ConditionTrue ConditionReasonReadyReady ''Hypervisor is ready''))"

section \<open>Reconcile\<close>

definition Ready_Reconcile :: "lib \<Rightarrow> kube \<Rightarrow> string \<Rightarrow> trace \<Rightarrow> reconcile_result \<times> trace" where
  "Ready_Reconcile L K name tr =
     (case ask (k_get_Hypervisor K name) (Kube (GetHypervisor name)) tr of
        (Inl err, tr1) \<Rightarrow> ((no_requeue, IgnoreNotFound L err), tr1)
      | (Inr base, tr1) \<Rightarrow>
          let readyCondition = ComputeReadyCondition L base;
              hv = hv_set_condition L readyCondition base in
          if DeepEqual_Status L (hv_Status hv) (hv_Status base) then (reconcile_ok, tr1)
          else (case PatchHypervisorStatusWithRetry L K name ReadyControllerName
                       (hv_set_condition L readyCondition) tr1 of
                  (err, tr2) \<Rightarrow> ((no_requeue, err), tr2)))"

section \<open>Lemmas\<close>

lemma ready_Type [simp]: "Type (ComputeReadyCondition L hv) = ConditionTypeReady"
  by (simp add: ComputeReadyCondition_def ready_condition_def Let_def split: option.split)

text \<open>What makes a hypervisor ready, independent of the order of the checks.\<close>

definition ready_for_use :: "lib \<Rightarrow> Hypervisor \<Rightarrow> bool" where
  "ready_for_use L hv \<longleftrightarrow>
     \<not> IsStatusConditionTrue L (hv_Conditions hv) ConditionTypeOffboarded
     \<and> \<not> IsStatusConditionTrue L (hv_Conditions hv) ConditionTypeTerminating
     \<and> hv_Maintenance hv = MaintenanceUnset
     \<and> (\<exists>c. FindStatusCondition L (hv_Conditions hv) ConditionTypeOnboarding = Some c
          \<and> Status c \<noteq> ConditionTrue \<and> Reason c = ConditionReasonSucceeded)"

lemma ComputeReady_True_iff: "Status (ComputeReadyCondition L hv) = ConditionTrue \<longleftrightarrow> ready_for_use L hv"
  by (auto simp: ComputeReadyCondition_def ready_condition_def ready_for_use_def Let_def split: option.split)

lemma ComputeReady_not_Unknown: "Status (ComputeReadyCondition L hv) \<noteq> ConditionUnknown"
  by (simp add: ComputeReadyCondition_def ready_condition_def Let_def split: option.split)

text \<open>The inputs of the other reasons.\<close>

definition staying :: "lib \<Rightarrow> Hypervisor \<Rightarrow> bool" where
  "staying L hv \<longleftrightarrow> \<not> IsStatusConditionTrue L (hv_Conditions hv) ConditionTypeOffboarded
     \<and> \<not> IsStatusConditionTrue L (hv_Conditions hv) ConditionTypeTerminating"

definition onboarding_status :: "lib \<Rightarrow> Hypervisor \<Rightarrow> ConditionStatus option" where
  "onboarding_status L hv = map_option Status (FindStatusCondition L (hv_Conditions hv) ConditionTypeOnboarding)"

definition onboarding_reason :: "lib \<Rightarrow> Hypervisor \<Rightarrow> string option" where
  "onboarding_reason L hv = map_option Reason (FindStatusCondition L (hv_Conditions hv) ConditionTypeOnboarding)"

definition evicting_status :: "lib \<Rightarrow> Hypervisor \<Rightarrow> ConditionStatus option" where
  "evicting_status L hv = map_option Status (FindStatusCondition L (hv_Conditions hv) ConditionTypeEvicting)"

lemmas ready_inputs = ComputeReadyCondition_def ready_condition_def staying_def onboarding_status_def
  onboarding_reason_def evicting_status_def

lemma ready_reason_leaving:
  "Reason (ComputeReadyCondition L hv) = ''Offboarded'' \<longleftrightarrow>
     IsStatusConditionTrue L (hv_Conditions hv) ConditionTypeOffboarded"
  "Reason (ComputeReadyCondition L hv) = ConditionReasonTerminating \<longleftrightarrow>
     IsStatusConditionTrue L (hv_Conditions hv) ConditionTypeTerminating
     \<and> \<not> IsStatusConditionTrue L (hv_Conditions hv) ConditionTypeOffboarded"
  by (auto simp: ready_inputs Let_def split: option.split)

lemma ready_reason_onboarding:
  "Reason (ComputeReadyCondition L hv) = ConditionReasonOnboarding \<longleftrightarrow>
     staying L hv \<and> (onboarding_status L hv = Some ConditionTrue
       \<or> hv_Maintenance hv = MaintenanceUnset \<and> onboarding_reason L hv \<noteq> Some ConditionReasonSucceeded)"
  by (auto simp: ready_inputs Let_def split: option.split)

lemma ready_reason_maintenance:
  "Reason (ComputeReadyCondition L hv) = ConditionReasonReadyEvicting \<longleftrightarrow>
     staying L hv \<and> onboarding_status L hv \<noteq> Some ConditionTrue \<and> hv_Maintenance hv \<noteq> MaintenanceUnset
     \<and> evicting_status L hv = Some ConditionTrue"
  "Reason (ComputeReadyCondition L hv) = ConditionReasonReadyEvicted \<longleftrightarrow>
     staying L hv \<and> onboarding_status L hv \<noteq> Some ConditionTrue \<and> hv_Maintenance hv \<noteq> MaintenanceUnset
     \<and> evicting_status L hv = Some ConditionFalse"
  "Reason (ComputeReadyCondition L hv) = ConditionReasonReadyMaintenance \<longleftrightarrow>
     staying L hv \<and> onboarding_status L hv \<noteq> Some ConditionTrue \<and> hv_Maintenance hv \<noteq> MaintenanceUnset
     \<and> evicting_status L hv \<in> {None, Some ConditionUnknown}"
  by (cases "FindStatusCondition L (hv_Conditions hv) ConditionTypeEvicting";
      auto simp: ready_inputs Let_def split: option.split; metis ConditionStatus.exhaust)+

section \<open>Properties\<close>

text \<open>
  C15. The \<open>Ready\<close> condition: it is \<open>True\<close>, with reason \<open>Ready\<close>, exactly for a hypervisor that is
  neither offboarded nor terminating nor under maintenance and whose onboarding ended with the reason
  \<open>Succeeded\<close> (so not for an aborted onboarding), and \<open>False\<close>, never \<open>Unknown\<close>, otherwise. Each
  reason of a \<open>False\<close> has its exact condition, in this order of precedence: \<open>Offboarded\<close>;
  \<open>Terminating\<close>; \<open>Onboarding\<close> (in progress, or, with maintenance unset, not ended with
  \<open>Succeeded\<close>); and with maintenance set \<open>Evicting\<close>, \<open>Evicted\<close> or \<open>Maintenance\<close> as the
  \<open>Evicting\<close> condition is \<open>True\<close>, \<open>False\<close>, or unknown or absent.
\<close>

theorem ready_characterised:
  "(Status (ComputeReadyCondition L hv) = ConditionTrue \<longleftrightarrow> ready_for_use L hv)
   \<and> (Status (ComputeReadyCondition L hv) = ConditionFalse \<longleftrightarrow> \<not> ready_for_use L hv)
   \<and> (Reason (ComputeReadyCondition L hv) = ConditionReasonReadyReady \<longleftrightarrow> ready_for_use L hv)
   \<and> (Reason (ComputeReadyCondition L hv) = ''Offboarded'' \<longleftrightarrow>
        IsStatusConditionTrue L (hv_Conditions hv) ConditionTypeOffboarded)
   \<and> (Reason (ComputeReadyCondition L hv) = ConditionReasonTerminating \<longleftrightarrow>
        IsStatusConditionTrue L (hv_Conditions hv) ConditionTypeTerminating
        \<and> \<not> IsStatusConditionTrue L (hv_Conditions hv) ConditionTypeOffboarded)
   \<and> (Reason (ComputeReadyCondition L hv) = ConditionReasonOnboarding \<longleftrightarrow>
        staying L hv \<and> (onboarding_status L hv = Some ConditionTrue
          \<or> hv_Maintenance hv = MaintenanceUnset \<and> onboarding_reason L hv \<noteq> Some ConditionReasonSucceeded))
   \<and> (Reason (ComputeReadyCondition L hv) = ConditionReasonReadyEvicting \<longleftrightarrow>
        staying L hv \<and> onboarding_status L hv \<noteq> Some ConditionTrue \<and> hv_Maintenance hv \<noteq> MaintenanceUnset
        \<and> evicting_status L hv = Some ConditionTrue)
   \<and> (Reason (ComputeReadyCondition L hv) = ConditionReasonReadyEvicted \<longleftrightarrow>
        staying L hv \<and> onboarding_status L hv \<noteq> Some ConditionTrue \<and> hv_Maintenance hv \<noteq> MaintenanceUnset
        \<and> evicting_status L hv = Some ConditionFalse)
   \<and> (Reason (ComputeReadyCondition L hv) = ConditionReasonReadyMaintenance \<longleftrightarrow>
        staying L hv \<and> onboarding_status L hv \<noteq> Some ConditionTrue \<and> hv_Maintenance hv \<noteq> MaintenanceUnset
        \<and> evicting_status L hv \<in> {None, Some ConditionUnknown})
   \<and> Type (ComputeReadyCondition L hv) = ConditionTypeReady"
proof -
  have "Reason (ComputeReadyCondition L hv) = ConditionReasonReadyReady \<longleftrightarrow> ready_for_use L hv"
    by (auto simp: ComputeReadyCondition_def ready_condition_def ready_for_use_def Let_def split: option.split)
  then show ?thesis
    using ComputeReady_True_iff [of L hv] ComputeReady_not_Unknown [of L hv]
    by (cases "Status (ComputeReadyCondition L hv)")
      (simp_all only: ready_reason_leaving ready_reason_onboarding ready_reason_maintenance ready_Type, auto)
qed

text \<open>
  C16. The predicate wakes the controller whenever it matters: if an update leaves status (as the
  library compares it, by value) and maintenance mode alone, so that the predicate filters it out,
  the status and the reason of the computed \<open>Ready\<close> condition are unchanged.
\<close>

theorem predicate_sufficient:
  assumes "\<forall>a b. DeepEqual_Status L a b \<longrightarrow> a = b"
    and "\<not> StatusChangedPredicate_Update L (HypervisorObject oldHv) (HypervisorObject newHv)"
  shows "Status (ComputeReadyCondition L newHv) = Status (ComputeReadyCondition L oldHv)
    \<and> Reason (ComputeReadyCondition L newHv) = Reason (ComputeReadyCondition L oldHv)"
proof -
  from assms(2) have "DeepEqual_Status L (hv_Status oldHv) (hv_Status newHv)"
    and "hv_Maintenance newHv = hv_Maintenance oldHv" by (auto split: if_splits)
  moreover from this(1) assms(1) have "hv_Status newHv = hv_Status oldHv" by metis
  ultimately have "hv_Status newHv = hv_Status oldHv" "hv_Maintenance newHv = hv_Maintenance oldHv" by simp_all
  then show ?thesis
    by (simp add: ComputeReadyCondition_def ready_condition_def Let_def split: option.split)
qed

text \<open>
  A pass that succeeds leaves the \<open>Ready\<close> condition computed from what it read: either that is
  what the status held already and nothing is written, or the last call patches a fresh read of
  the same object in which only \<open>Ready\<close> changed, to the computed value.
\<close>

theorem Ready_Reconcile_writes:
  assumes "retry_laws L" "meta_laws L" "k_get_Hypervisor K name tr = Inr hv"
    and "snd (fst (Ready_Reconcile L K name tr)) = None"
  shows "DeepEqual_Status L (hv_Status (hv_set_condition L (ComputeReadyCondition L hv) hv)) (hv_Status hv)
      \<and> new_calls tr (snd (Ready_Reconcile L K name tr)) = [Kube (GetHypervisor name)]
    \<or> (\<exists>t fresh new. snd (Ready_Reconcile L K name tr) = t @ [Kube (StatusPatchHypervisor fresh new ReadyControllerName)]
        \<and> (\<exists>t'. k_get_Hypervisor K name t' = Inr fresh)
        \<and> map_option meta_view (FindStatusCondition L (hv_Conditions new) ConditionTypeReady)
            = Some (meta_view (ComputeReadyCondition L hv))
        \<and> (\<forall>ty. ty \<noteq> ConditionTypeReady \<longrightarrow>
             FindStatusCondition L (hv_Conditions new) ty = FindStatusCondition L (hv_Conditions fresh) ty))"
proof (cases "DeepEqual_Status L (hv_Status (hv_set_condition L (ComputeReadyCondition L hv) hv)) (hv_Status hv)")
  case True
  with assms(3) show ?thesis by (simp add: Ready_Reconcile_def ask_def Let_def)
next
  case False
  let ?c = "ComputeReadyCondition L hv"
  obtain tr' where p: "PatchHypervisorStatusWithRetry L K name ReadyControllerName (hv_set_condition L ?c)
      (tr @ [Kube (GetHypervisor name)]) = (None, tr')" and tr': "snd (Ready_Reconcile L K name tr) = tr'"
    using assms(3,4) False by (auto simp: Ready_Reconcile_def ask_def Let_def split: prod.splits)
  from patch_success [OF assms(1) p] obtain fresh t where f: "k_get_Hypervisor K name t = Inr fresh"
    "tr' = t @ [Kube (GetHypervisor name), Kube (StatusPatchHypervisor fresh (hv_set_condition L ?c fresh) ReadyControllerName)]"
    by metis
  have "map_option meta_view (FindStatusCondition L (hv_Conditions (hv_set_condition L ?c fresh)) ConditionTypeReady) = Some (meta_view ?c)"
    using meta_view_find_set [OF assms(2), of ?c "hv_Conditions fresh" ConditionTypeReady] by simp
  moreover have "FindStatusCondition L (hv_Conditions (hv_set_condition L ?c fresh)) ty = FindStatusCondition L (hv_Conditions fresh) ty"
    if "ty \<noteq> ConditionTypeReady" for ty
    using meta_find_set_other [OF assms(2), of ?c ty] that by simp
  ultimately show ?thesis using f tr'
    by (intro disjI2 exI [of _ "t @ [Kube (GetHypervisor name)]"] exI [of _ fresh] exI [of _ "hv_set_condition L ?c fresh"]) auto
qed

section \<open>Witnesses\<close>

definition onboarded_hv :: Hypervisor where
  "onboarded_hv = (empty_hypervisor ''h1'')\<lparr>hv_Status := zero_status\<lparr>Conditions :=
     [mk_condition ConditionTypeOnboarding ConditionFalse ConditionReasonSucceeded ''done'']\<rparr>\<rparr>"

abbreviation onboarded_kube :: kube where
  "onboarded_kube \<equiv> sample_kube onboarded_hv (empty_eviction ''e'') (empty_node ''h1'')"

theorem predicate_sufficient_witness:
  "\<not> StatusChangedPredicate_Update list_lib (HypervisorObject onboarded_hv)
      (HypervisorObject (onboarded_hv\<lparr>Spec := zero_spec\<lparr>LifecycleEnabled := True\<rparr>\<rparr>))
   \<and> Status (ComputeReadyCondition list_lib (onboarded_hv\<lparr>Spec := zero_spec\<lparr>LifecycleEnabled := True\<rparr>\<rparr>))
      = Status (ComputeReadyCondition list_lib onboarded_hv)"
proof -
  let ?new = "onboarded_hv\<lparr>Spec := zero_spec\<lparr>LifecycleEnabled := True\<rparr>\<rparr>"
  have 1: "\<forall>a b. DeepEqual_Status list_lib a b \<longrightarrow> a = b" by (simp add: list_lib_def)
  have 2: "\<not> StatusChangedPredicate_Update list_lib (HypervisorObject onboarded_hv) (HypervisorObject ?new)"
    by (simp add: list_lib_def onboarded_hv_def empty_hypervisor_def zero_spec_def)
  from predicate_sufficient [OF 1 2] 2 show ?thesis by simp
qed

theorem Ready_Reconcile_writes_witness:
  "\<exists>t fresh new. snd (Ready_Reconcile list_lib onboarded_kube ''h1'' []) = t @ [Kube (StatusPatchHypervisor fresh new ''ready'')]"
proof -
  have get: "k_get_Hypervisor onboarded_kube ''h1'' [] = Inr onboarded_hv" by (simp add: sample_kube_def)
  have new: "\<not> DeepEqual_Status list_lib
      (hv_Status (hv_set_condition list_lib (ComputeReadyCondition list_lib onboarded_hv) onboarded_hv)) (hv_Status onboarded_hv)"
    by (simp add: list_lib_def hv_set_condition_def onboarded_hv_def zero_status_def list_find_def meta_view_def)
  moreover have "snd (fst (Ready_Reconcile list_lib onboarded_kube ''h1'' [])) = None"
    using new by (simp add: Ready_Reconcile_def ask_def get Let_def PatchHypervisorStatusWithRetry_def)
      (simp add: list_lib_def numeral_eq_Suc patch_hypervisor_attempt_def ask_def sample_kube_def split: prod.split)
  ultimately show ?thesis
    using Ready_Reconcile_writes [OF retry_laws_list_lib meta_laws_list_lib get] by blast
qed

end
