(* ===== verification/Taint_Ctrl.thy ===== *)
theory Taint_Ctrl
  imports Sample_World Utils
begin

text \<open>
  The taint controller: \<^verbatim>\<open>src/internal/controller/hypervisor_taint_controller.go\<close>. It marks a
  hypervisor that somebody edited by hand, as seen from the managers of its fields.
\<close>

abbreviation HypervisorTaintControllerName :: string where
  "HypervisorTaintControllerName \<equiv> ''HypervisorTaint''"

text \<open>The two messages, as the bytes of their UTF-8 encodings: a warning sign and a green circle.\<close>

definition warning_sign :: string where
  "warning_sign = [CHR 0xE2, CHR 0x9A, CHR 0xA0, CHR 0xEF, CHR 0xB8, CHR 0x8F]"

definition green_circle :: string where
  "green_circle = [CHR 0xF0, CHR 0x9F, CHR 0x9F, CHR 0xA2]"

definition tainted_condition :: "Hypervisor \<Rightarrow> condition" where
  "tainted_condition hv =
     (if HasKubectlManagedFields (Meta hv)
      then (mk_condition ConditionTypeTainted ConditionTrue ''Kubectl'' warning_sign)
             \<lparr>ObservedGeneration := Generation (Meta hv)\<rparr>
      else (mk_condition ConditionTypeTainted ConditionFalse ''NoKubectl'' green_circle)
             \<lparr>ObservedGeneration := Generation (Meta hv)\<rparr>)"

definition Taint_Reconcile :: "lib \<Rightarrow> kube \<Rightarrow> string \<Rightarrow> trace \<Rightarrow> reconcile_result \<times> trace" where
  "Taint_Reconcile L K name tr =
     (case ask (k_get_Hypervisor K name) (Kube (GetHypervisor name)) tr of
        (Inl err, tr1) \<Rightarrow> ((no_requeue, IgnoreNotFound L err), tr1)
      | (Inr before, tr1) \<Rightarrow>
          let hypervisor = hv_set_condition L (tainted_condition before) before in
          if DeepEqual_Hypervisor L hypervisor before then (reconcile_ok, tr1)
          else
            (let taintedCondition = FindStatusCondition L (hv_Conditions hypervisor) ConditionTypeTainted in
             case PatchHypervisorStatusWithRetry L K (hv_Name hypervisor) HypervisorTaintControllerName
                    (\<lambda>h. case taintedCondition of None \<Rightarrow> h | Some c \<Rightarrow> hv_set_condition L c h) tr1 of
               (err, tr2) \<Rightarrow> ((no_requeue, err), tr2)))"

section \<open>Lemmas\<close>

lemma any_kubectl_iff: "any_kubectl ms \<longleftrightarrow> (\<exists>m \<in> set ms. strings_HasPrefix m ''kubectl'')"
  by (induction ms) auto

lemma tainted_Type [simp]: "Type (tainted_condition hv) = ConditionTypeTainted"
  by (simp add: tainted_condition_def)

lemma tainted_status:
  "Status (tainted_condition hv) = (if \<exists>m \<in> set (ManagedFields (Meta hv)). strings_HasPrefix m ''kubectl''
     then ConditionTrue else ConditionFalse)"
  by (simp add: tainted_condition_def HasKubectlManagedFields_def any_kubectl_iff)

section \<open>Properties\<close>

text \<open>
  Whatever status the controller writes says the truth about the object it read: \<open>Tainted\<close> is
  \<open>True\<close> if some manager of the fields of that object has a name that begins with \<open>kubectl\<close> and
  \<open>False\<close> otherwise, it names the generation that was read, and no other condition of the fresh
  object changes.
\<close>

theorem Taint_Reconcile_writes:
  assumes "retry_laws L" "meta_laws L" "k_get_Hypervisor K name tr = Inr hv"
    and "Kube (StatusPatchHypervisor fresh new ow) \<in> set (new_calls tr (snd (Taint_Reconcile L K name tr)))"
  shows "(\<exists>c. FindStatusCondition L (hv_Conditions new) ConditionTypeTainted = Some c
      \<and> Status c = (if \<exists>m \<in> set (ManagedFields (Meta hv)). strings_HasPrefix m ''kubectl''
           then ConditionTrue else ConditionFalse)
      \<and> ObservedGeneration c = Generation (Meta hv))
    \<and> (\<forall>ty. ty \<noteq> ConditionTypeTainted \<longrightarrow>
         FindStatusCondition L (hv_Conditions new) ty = FindStatusCondition L (hv_Conditions fresh) ty)"
proof -
  let ?hv = "hv_set_condition L (tainted_condition hv) hv"
  obtain c where c: "FindStatusCondition L (hv_Conditions ?hv) ConditionTypeTainted = Some c"
    and v: "meta_view c = meta_view (tainted_condition hv)"
    using meta_view_find_set [OF assms(2), of "tainted_condition hv" "hv_Conditions hv" ConditionTypeTainted] by auto
  have ty: "Type c = ConditionTypeTainted" by (rule meta_find_Type [OF assms(2) c])
  let ?P = "\<lambda>x. \<forall>f n w. x = Kube (StatusPatchHypervisor f n w) \<longrightarrow> n = hv_set_condition L c f"
  have "extends_by ?P (tr @ [Kube (GetHypervisor name)])
      (snd (PatchHypervisorStatusWithRetry L K (hv_Name ?hv) HypervisorTaintControllerName (hv_set_condition L c)
        (tr @ [Kube (GetHypervisor name)])))"
    by (rule patch_extends_mono [OF assms(1)]) auto
  then have "extends_by ?P tr (snd (Taint_Reconcile L K name tr))"
    using assms(3) c
    by (auto simp: Taint_Reconcile_def ask_def Let_def split: prod.split intro: extends_by_Cons)
  from extends_by_new_calls [OF this assms(4)] have new: "new = hv_set_condition L c fresh" by blast
  have "map_option meta_view (FindStatusCondition L (hv_Conditions new) ConditionTypeTainted) = Some (meta_view (tainted_condition hv))"
    using meta_view_find_set [OF assms(2), of c "hv_Conditions fresh" ConditionTypeTainted] ty v by (simp add: new)
  moreover have "FindStatusCondition L (hv_Conditions new) t = FindStatusCondition L (hv_Conditions fresh) t"
    if "t \<noteq> ConditionTypeTainted" for t
    using meta_find_set_other [OF assms(2), of c t] ty that by (simp add: new)
  ultimately show ?thesis
    by (auto simp: meta_view_def tainted_status) (simp_all add: tainted_condition_def split: if_splits)
qed

definition edited_hv :: Hypervisor where
  "edited_hv = (empty_hypervisor ''h1'')\<lparr>Meta := (empty_meta ''h1'')\<lparr>ManagedFields := [''kubectl-edit'']\<rparr>\<rparr>"

abbreviation edited_kube :: kube where
  "edited_kube \<equiv> sample_kube edited_hv (empty_eviction ''e'') (empty_node ''h1'')"

theorem Taint_Reconcile_writes_witness:
  "\<exists>fresh new ow c. Kube (StatusPatchHypervisor fresh new ow) \<in> set (new_calls [] (snd (Taint_Reconcile list_lib edited_kube ''h1'' [])))
    \<and> FindStatusCondition list_lib (hv_Conditions new) ConditionTypeTainted = Some c \<and> Status c = ConditionTrue"
proof -
  have get: "k_get_Hypervisor edited_kube ''h1'' [] = Inr edited_hv" by (simp add: sample_kube_def)
  have "\<exists>fresh new ow. Kube (StatusPatchHypervisor fresh new ow) \<in> set (new_calls [] (snd (Taint_Reconcile list_lib edited_kube ''h1'' [])))"
    by (simp add: Taint_Reconcile_def ask_def sample_kube_def Let_def list_lib_def hv_set_condition_def edited_hv_def
        zero_values list_find_def meta_view_def PatchHypervisorStatusWithRetry_def numeral_eq_Suc patch_hypervisor_attempt_def new_calls_def)
  then obtain fresh new ow where p: "Kube (StatusPatchHypervisor fresh new ow) \<in> set (new_calls [] (snd (Taint_Reconcile list_lib edited_kube ''h1'' [])))"
    by blast
  have "\<exists>m \<in> set (ManagedFields (Meta edited_hv)). strings_HasPrefix m ''kubectl''"
    by (simp add: edited_hv_def strings_HasPrefix_def)
  with Taint_Reconcile_writes [OF retry_laws_list_lib meta_laws_list_lib get p] p show ?thesis by auto
qed

end
