(* ===== verification/Node_Ctrl.thy ===== *)
theory Node_Ctrl
  imports Sample_World Config
begin

text \<open>
  The hypervisor controller: \<^verbatim>\<open>src/internal/controller/hypervisor_controller.go\<close>. It creates the
  Hypervisor of a node, carries labels and annotations of the node over to it, and derives from the
  node the internal address, the condition \<open>Terminating\<close> and, during an offboarding, whether agent
  pods still run. The paged listing of pods may not end if the API server never ends it, so it and
  its callers are partial: \<open>None\<close> is a pass that does not return.
\<close>

abbreviation labelLifecycleMode :: string where
  "labelLifecycleMode \<equiv> ''cobaltcore.cloud.sap/node-hypervisor-lifecycle''"
abbreviation annotationAggregates :: string where "annotationAggregates \<equiv> ''nova.openstack.cloud.sap/aggregates''"
abbreviation annotationCustomTraits :: string where "annotationCustomTraits \<equiv> ''nova.openstack.cloud.sap/custom-traits''"
abbreviation HypervisorControllerName :: string where "HypervisorControllerName \<equiv> ''hypervisor''"
abbreviation NodeInternalIP :: string where "NodeInternalIP \<equiv> ''InternalIP''"

definition defaultTransferLabels :: "string list" where
  "defaultTransferLabels =
     [LabelHostname, ''kubernetes.metal.cloud.sap/bb'', ''kubernetes.metal.cloud.sap/cluster'',
      ''kubernetes.metal.cloud.sap/name'', ''kubernetes.metal.cloud.sap/type'',
      ''worker.garden.sapcloud.io/group'', ''worker.gardener.cloud/pool'', LabelTopologyRegion, LabelTopologyZone]"

section \<open>The labels to transfer\<close>

text \<open>\<open>labels.ParseToRequirements\<close> is a parameter: the keys of the parsed requirements, or an error.\<close>

fun add_keys :: "string list \<Rightarrow> string list \<Rightarrow> string list" where
  "add_keys transferLabels [] = transferLabels"
| "add_keys transferLabels (key # keys) =
     (if \<not> slices_Contains transferLabels key then add_keys (transferLabels @ [key]) keys
      else add_keys transferLabels keys)"

definition setup_transferLabels ::
    "(string \<Rightarrow> go_error + string list) \<Rightarrow> string \<Rightarrow> string list \<Rightarrow> go_error + string list" where
  "setup_transferLabels ParseToRequirements LabelSelector transferLabels =
     (if LabelSelector \<noteq> [] then
        (case ParseToRequirements LabelSelector of
           Inl err \<Rightarrow> Inl (Errorf ''failed to parse global label selector: '' err)
         | Inr keys \<Rightarrow> Inr (add_keys defaultTransferLabels keys))
      else Inr transferLabels)"

fun transportLabels :: "string list \<Rightarrow> label_map \<Rightarrow> label_map \<Rightarrow> label_map" where
  "transportLabels [] source destination = destination"
| "transportLabels (transferLabel # ls) source destination =
     transportLabels ls source
       (case source transferLabel of Some label \<Rightarrow> destination(transferLabel \<mapsto> label) | None \<Rightarrow> destination)"

section \<open>Annotations\<close>

fun collect_trimmed :: "string list \<Rightarrow> string list" where
  "collect_trimmed [] = []"
| "collect_trimmed (x # xs) =
     (if strings_TrimSpace x \<noteq> [] then strings_TrimSpace x # collect_trimmed xs else collect_trimmed xs)"

definition transportAggregatesAndTraits :: "ObjectMeta \<Rightarrow> Hypervisor \<Rightarrow> Hypervisor" where
  "transportAggregatesAndTraits node hv =
     (let hv1 = (case Annotations node annotationAggregates of
                   Some aggregates \<Rightarrow>
                     let aggs = collect_trimmed (strings_Split aggregates (CHR '','')) in
                     hv\<lparr>Spec := (Spec hv)\<lparr>spec_Aggregates :=
                       (case Labels node LabelTopologyZone of Some zone \<Rightarrow> aggs @ [zone] | None \<Rightarrow> aggs)\<rparr>\<rparr>
                 | None \<Rightarrow> hv)
      in (case Annotations node annotationCustomTraits of
            Some customTraits \<Rightarrow>
              hv1\<lparr>Spec := (Spec hv1)\<lparr>CustomTraits := collect_trimmed (strings_Split customTraits (CHR '',''))\<rparr>\<rparr>
          | None \<Rightarrow> hv1))"

definition syncLabelsAndAnnotations :: "string list \<Rightarrow> Hypervisor \<Rightarrow> node \<Rightarrow> Hypervisor" where
  "syncLabelsAndAnnotations transferLabels hv nd =
     (let hv1 = (case Labels (node_Meta nd) labelLifecycleMode of
                   Some v \<Rightarrow> hv\<lparr>Spec := (Spec hv)\<lparr>LifecycleEnabled := True, SkipTests := (v = ''skip-tests'')\<rparr>\<rparr>
                 | None \<Rightarrow> hv);
          hv2 = hv1\<lparr>Meta := (Meta hv1)\<lparr>Labels := transportLabels transferLabels (Labels (node_Meta nd)) (Labels (Meta hv1))\<rparr>\<rparr>
      in transportAggregatesAndTraits (node_Meta nd) hv2)"

section \<open>Agent pods\<close>

fun nodeHasOffboardingTaint :: "taint list \<Rightarrow> bool" where
  "nodeHasOffboardingTaint [] = False"
| "nodeHasOffboardingTaint (t # ts) =
     (if ta_Key t = taintKeyOffboarding \<and> ta_Effect t = TaintEffectNoExecute then True else nodeHasOffboardingTaint ts)"

definition offboardingTaint :: taint where
  "offboardingTaint = \<lparr>ta_Key = taintKeyOffboarding, ta_Effect = TaintEffectNoExecute\<rparr>"

fun podToleratesTaint :: "lib \<Rightarrow> toleration list \<Rightarrow> taint \<Rightarrow> bool" where
  "podToleratesTaint L [] ta = False"
| "podToleratesTaint L (t # ts) ta =
     (if to_TolerationSeconds t \<noteq> None then podToleratesTaint L ts ta
      else if ToleratesTaint L t ta then True else podToleratesTaint L ts ta)"

fun collect_pods :: "lib \<Rightarrow> pod list \<Rightarrow> string list \<Rightarrow> string list" where
  "collect_pods L [] agentPods = agentPods"
| "collect_pods L (pod # pods) agentPods =
     (if pod_Phase pod = ''Succeeded'' \<or> pod_Phase pod = ''Failed'' then collect_pods L pods agentPods
      else if podToleratesTaint L (pod_Tolerations pod) offboardingTaint then collect_pods L pods agentPods
      else collect_pods L pods (agentPods @ [pod_Namespace pod @ ''/'' @ pod_Name pod]))"

text \<open>The inner loop over the pages of one namespace; \<open>%q\<close> of a namespace name only adds the quotes.\<close>

partial_function (option) list_pages ::
    "lib \<Rightarrow> kube \<Rightarrow> string \<Rightarrow> string \<Rightarrow> string \<Rightarrow> string list \<Rightarrow> trace \<Rightarrow> ((go_error + string list) \<times> trace) option" where
  "list_pages L K ns nodeName continueToken agentPods tr =
     (case k_list_Pods K ns nodeName continueToken tr of
        Inl err \<Rightarrow>
          Some (Inl (Errorf (''failed to list pods on node '' @ nodeName @ '' in namespace '' @ [CHR 0x22] @ ns @ [CHR 0x22] @ '': '') err),
                tr @ [Kube (ListPods ns nodeName continueToken)])
      | Inr page \<Rightarrow>
          (let agentPods' = collect_pods L (fst page) agentPods;
               tr1 = tr @ [Kube (ListPods ns nodeName continueToken)] in
           if snd page = [] then Some (Inr agentPods', tr1)
           else list_pages L K ns nodeName (snd page) agentPods' tr1))"

fun list_namespaces ::
    "lib \<Rightarrow> kube \<Rightarrow> string list \<Rightarrow> string \<Rightarrow> string list \<Rightarrow> trace \<Rightarrow> ((go_error + string list) \<times> trace) option" where
  "list_namespaces L K [] nodeName agentPods tr = Some (Inr agentPods, tr)"
| "list_namespaces L K (ns # nss) nodeName agentPods tr =
     (case list_pages L K ns nodeName [] agentPods tr of
        None \<Rightarrow> None
      | Some (Inl err, tr1) \<Rightarrow> Some (Inl err, tr1)
      | Some (Inr agentPods', tr1) \<Rightarrow> list_namespaces L K nss nodeName agentPods' tr1)"

definition agent_pods_condition :: "string list \<Rightarrow> condition" where
  "agent_pods_condition agentPods =
     (if length agentPods = 0
      then mk_condition ConditionTypeAgentPodsEvicted ConditionTrue ''NoAgentPods'' ''No agent pods are running on this node''
      else mk_condition ConditionTypeAgentPodsEvicted ConditionFalse ''AgentPodsRunning''
             (fmt_d (int (length agentPods)) @ '' agent pod(s) still running on node: '' @ join_with '', '' (slices_Sort agentPods)))"

definition computeAgentPodsEvictedCondition ::
    "lib \<Rightarrow> kube \<Rightarrow> string list \<Rightarrow> string \<Rightarrow> trace \<Rightarrow> ((go_error + condition) \<times> trace) option" where
  "computeAgentPodsEvictedCondition L K namespaces nodeName tr =
     (case list_namespaces L K namespaces nodeName [] tr of
        None \<Rightarrow> None
      | Some (Inl err, tr1) \<Rightarrow> Some (Inl err, tr1)
      | Some (Inr agentPods, tr1) \<Rightarrow> Some (Inr (agent_pods_condition agentPods), tr1))"

section \<open>Reconcile\<close>

fun transfer_ip :: "node_address list \<Rightarrow> string \<Rightarrow> string" where
  "transfer_ip [] ip = ip"
| "transfer_ip (address # as) ip =
     (if na_Type address = NodeInternalIP \<and> ip \<noteq> na_Address address then na_Address address else transfer_ip as ip)"

definition node_terminating :: "node \<Rightarrow> bool" where
  "node_terminating nd =
     ((case FindNodeStatusCondition (node_Conditions nd) ''Terminating'' of
         Some c \<Rightarrow> nc_Status c = ''True'' | None \<Rightarrow> False)
      \<or> DeletionTimestamp (node_Meta nd) \<noteq> 0)"

text \<open>The status part of a pass: the address and the two conditions, then one patch of the fields it owns.\<close>

definition node_status ::
    "lib \<Rightarrow> node \<Rightarrow> Hypervisor \<Rightarrow> Hypervisor" where
  "node_status L nd hv =
     (let hv1 = hv\<lparr>hv_Status := (hv_Status hv)\<lparr>InternalIP := transfer_ip (node_Addresses nd) (InternalIP (hv_Status hv))\<rparr>\<rparr> in
      if node_terminating nd
      then hv_set_condition L (mk_condition ConditionTypeTerminating ConditionTrue ConditionReasonTerminating ''Node is terminating'') hv1
      else hv1)"

definition set_if :: "lib \<Rightarrow> condition option \<Rightarrow> Hypervisor \<Rightarrow> Hypervisor" where
  "set_if L c h = (case c of Some c \<Rightarrow> hv_set_condition L c h | None \<Rightarrow> h)"

definition owned_status :: "lib \<Rightarrow> Hypervisor \<Rightarrow> Hypervisor \<Rightarrow> Hypervisor" where
  "owned_status L hv h =
     set_if L (FindStatusCondition L (hv_Conditions hv) ConditionTypeAgentPodsEvicted)
       (set_if L (FindStatusCondition L (hv_Conditions hv) ConditionTypeTerminating)
          (h\<lparr>hv_Status := (hv_Status h)\<lparr>InternalIP := InternalIP (hv_Status hv)\<rparr>\<rparr>))"

definition patch_node_status ::
    "lib \<Rightarrow> kube \<Rightarrow> Hypervisor \<Rightarrow> Hypervisor \<Rightarrow> int \<Rightarrow> trace \<Rightarrow> reconcile_result \<times> trace" where
  "patch_node_status L K statusBase hv statusRequeueAfter tr =
     (if \<not> DeepEqual_Hypervisor L hv statusBase
      then (case PatchHypervisorStatusWithRetry L K (hv_Name hv) HypervisorControllerName (owned_status L hv) tr of
              (Some err, tr1) \<Rightarrow> ((no_requeue, Some err), tr1)
            | (None, tr1) \<Rightarrow> ((\<lparr>RequeueAfter = statusRequeueAfter\<rparr>, None), tr1))
      else ((\<lparr>RequeueAfter = statusRequeueAfter\<rparr>, None), tr))"

definition update_node_status ::
    "lib \<Rightarrow> kube \<Rightarrow> string list \<Rightarrow> node \<Rightarrow> Hypervisor \<Rightarrow> trace \<Rightarrow> (reconcile_result \<times> trace) option" where
  "update_node_status L K namespaces nd statusBase tr =
     (let hv = node_status L nd statusBase in
      if hv_Maintenance hv = MaintenanceTermination
         \<and> IsStatusConditionFalse L (hv_Conditions hv) ConditionTypeEvicting
         \<and> nodeHasOffboardingTaint (node_Taints nd)
      then (case computeAgentPodsEvictedCondition L K namespaces (Name (node_Meta nd)) tr of
              None \<Rightarrow> None
            | Some (Inl err, tr1) \<Rightarrow>
                Some ((no_requeue, Some (Errorf (''failed to compute '' @ ConditionTypeAgentPodsEvicted @ '' condition: '') err)), tr1)
            | Some (Inr cond, tr1) \<Rightarrow>
                Some (patch_node_status L K statusBase (hv_set_condition L cond hv)
                        (if Status cond = ConditionFalse then DefaultPollTime else 0) tr1))
      else Some (patch_node_status L K statusBase hv 0 tr))"

definition new_hypervisor :: "string \<Rightarrow> Hypervisor" where
  "new_hypervisor name = (empty_hypervisor name)\<lparr>Spec := zero_spec\<lparr>HighAvailability := True, InstallCertificate := True\<rparr>\<rparr>"

definition create_hypervisor ::
    "lib \<Rightarrow> kube \<Rightarrow> string list \<Rightarrow> node \<Rightarrow> trace \<Rightarrow> reconcile_result \<times> trace" where
  "create_hypervisor L K transferLabels nd tr =
     (let hv = syncLabelsAndAnnotations transferLabels (new_hypervisor (Name (node_Meta nd))) nd in
      case SetOwnerReference L (node_Meta nd) (Meta hv) of
        Inl err \<Rightarrow> ((no_requeue, Some (Errorf ''failed setting controller reference: '' err)), tr)
      | Inr m \<Rightarrow>
          let hv1 = hv\<lparr>Meta := m\<rparr>;
              hv2 = (if IsNodeConditionPresentAndEqual (node_Conditions nd) ''Terminating'' ''True''
                        \<or> DeletionTimestamp (node_Meta nd) \<noteq> 0
                     then hv1\<lparr>Spec := (Spec hv1)\<lparr>Maintenance := MaintenanceTermination\<rparr>\<rparr> else hv1) in
          (case ask (k_create_Hypervisor K hv2) (Kube (CreateHypervisor hv2)) tr of
             (Some err, tr1) \<Rightarrow> ((no_requeue, Some err), tr1)
           | (None, tr1) \<Rightarrow> (reconcile_ok, tr1)))"

definition Node_Reconcile ::
    "lib \<Rightarrow> kube \<Rightarrow> string list \<Rightarrow> string list \<Rightarrow> string \<Rightarrow> trace \<Rightarrow> (reconcile_result \<times> trace) option" where
  "Node_Reconcile L K transferLabels namespaces name tr =
     (case ask (k_get_Node K name) (Kube (GetNode name)) tr of
        (Inl err, tr1) \<Rightarrow> Some ((no_requeue, IgnoreNotFound L err), tr1)
      | (Inr nd, tr1) \<Rightarrow>
          (case ask (k_get_Hypervisor K (Name (node_Meta nd))) (Kube (GetHypervisor (Name (node_Meta nd)))) tr1 of
             (Inl err, tr2) \<Rightarrow>
               if \<not> IsNotFound L err then Some ((no_requeue, Some (Errorf ''failed to get hypervisor: '' err)), tr2)
               else Some (create_hypervisor L K transferLabels nd tr2)
           | (Inr specBase, tr2) \<Rightarrow>
               let hv = syncLabelsAndAnnotations transferLabels specBase nd in
               if \<not> DeepEqual_Hypervisor L hv specBase
               then (case ask (k_patch_Hypervisor K specBase hv) (Kube (PatchHypervisor specBase hv HypervisorControllerName)) tr2 of
                       (Inl err, tr3) \<Rightarrow> Some ((no_requeue, Some err), tr3)
                     | (Inr patched, tr3) \<Rightarrow> update_node_status L K namespaces nd patched tr3)
               else update_node_status L K namespaces nd hv tr2))"

section \<open>Lemmas\<close>

subsection \<open>Annotations\<close>

lemma collect_trimmed_eq: "collect_trimmed xs = filter (\<lambda>x. x \<noteq> []) (map strings_TrimSpace xs)"
  by (induction xs) auto

lemma strings_Split_no_sep: "sep \<notin> set s \<Longrightarrow> strings_Split s sep = [s]"
  by (induction s) auto

lemma strings_Split_append: "sep \<notin> set s \<Longrightarrow> strings_Split (s @ sep # rest) sep = s # strings_Split rest sep"
  by (induction s) auto

lemma strings_Split_join_with:
  "xs \<noteq> [] \<Longrightarrow> \<forall>x \<in> set xs. sep \<notin> set x \<Longrightarrow> strings_Split (join_with [sep] xs) sep = xs"
proof (induction xs rule: induct_list012)
  case (3 x y zs)
  then show ?case by (simp add: strings_Split_append)
qed (auto simp: strings_Split_no_sep)

lemma trim_left_fixed: "space_len ps s = 0 \<Longrightarrow> trim_left ps s = s"
  by (simp add: trim_left.simps [of ps s])

lemma strings_TrimSpace_fixed:
  "space_len unicode_spaces s = 0 \<Longrightarrow> space_len (map rev unicode_spaces) (rev s) = 0 \<Longrightarrow> strings_TrimSpace s = s"
  by (simp add: strings_TrimSpace_def trim_left_fixed)

lemma strings_TrimSpace_Nil [simp]: "strings_TrimSpace [] = []"
  by (simp add: strings_TrimSpace_def)

subsection \<open>Pods\<close>

definition running_agent :: "lib \<Rightarrow> pod \<Rightarrow> bool" where
  "running_agent L p \<longleftrightarrow> pod_Phase p \<noteq> ''Succeeded'' \<and> pod_Phase p \<noteq> ''Failed''
     \<and> (\<forall>t \<in> set (pod_Tolerations p). to_TolerationSeconds t = None \<longrightarrow> \<not> ToleratesTaint L t offboardingTaint)"

lemma podToleratesTaint_iff:
  "podToleratesTaint L ts ta \<longleftrightarrow> (\<exists>t \<in> set ts. to_TolerationSeconds t = None \<and> ToleratesTaint L t ta)"
  by (induction ts) auto

lemma collect_pods_eq:
  "collect_pods L pods acc = acc @ map (\<lambda>p. pod_Namespace p @ ''/'' @ pod_Name p) (filter (running_agent L) pods)"
  by (induction pods arbitrary: acc) (auto simp: running_agent_def podToleratesTaint_iff)

text \<open>A complete listing of one namespace: the pages until the first without a continuation.\<close>

inductive pages_run :: "kube \<Rightarrow> string \<Rightarrow> string \<Rightarrow> string \<Rightarrow> trace \<Rightarrow> pod list \<Rightarrow> trace \<Rightarrow> bool"
  for K :: kube and ns :: string and nodeName :: string where
  last: "k_list_Pods K ns nodeName token tr = Inr (items, []) \<Longrightarrow>
    pages_run K ns nodeName token tr items (tr @ [Kube (ListPods ns nodeName token)])"
| more: "k_list_Pods K ns nodeName token tr = Inr (items, cont) \<Longrightarrow> cont \<noteq> [] \<Longrightarrow>
    pages_run K ns nodeName cont (tr @ [Kube (ListPods ns nodeName token)]) rest tr' \<Longrightarrow>
    pages_run K ns nodeName token tr (items @ rest) tr'"

lemmas list_pages_induct = list_pages.raw_induct [rotated, consumes 1]

lemma list_pages_run:
  assumes "list_pages L K ns nodeName token acc tr = Some res"
  shows "case res of (Inl _, tr') \<Rightarrow> True
    | (Inr acc', tr') \<Rightarrow> \<exists>pods. pages_run K ns nodeName token tr pods tr' \<and> acc' = collect_pods L pods acc"
  using assms
proof (induction rule: list_pages_induct)
  case (1 f L K ns nodeName token acc tr res)
  show ?case
  proof (cases "k_list_Pods K ns nodeName token tr")
    case (Inl e)
    with 1(2) show ?thesis by auto
  next
    case (Inr page)
    obtain items cont where p: "page = (items, cont)" by fastforce
    show ?thesis
    proof (cases "cont = []")
      case True
      with 1(2) Inr p have "res = (Inr (collect_pods L items acc), tr @ [Kube (ListPods ns nodeName token)])"
        by (simp add: Let_def)
      with True Inr p pages_run.last [of K ns nodeName token tr items] show ?thesis by auto
    next
      case False
      with 1(2) Inr p have "f L K ns nodeName cont (collect_pods L items acc) (tr @ [Kube (ListPods ns nodeName token)]) = Some res"
        by (simp add: Let_def)
      from 1(1) [OF this] Inr p False show ?thesis
        by (auto simp: collect_pods_eq split: prod.splits sum.splits intro!: pages_run.more)
    qed
  qed
qed

text \<open>The calls of a listing, and the listing of all namespaces in turn.\<close>

abbreviation list_call :: "call \<Rightarrow> bool" where
  "list_call c \<equiv> \<exists>a b t. c = Kube (ListPods a b t)"

lemma list_pages_extends:
  assumes "list_pages L K ns nodeName token acc tr = Some res"
  shows "extends_by list_call tr (snd res)"
  using assms
proof (induction rule: list_pages_induct)
  case (1 f L K ns nodeName token acc tr res)
  let ?t = "tr @ [Kube (ListPods ns nodeName token)]"
  have c: "extends_by list_call tr ?t" by (rule extends_by_snoc) simp
  show ?case
  proof (cases "snd res = ?t")
    case True
    with c show ?thesis by simp
  next
    case False
    with 1(2) obtain page where "f L K ns nodeName (snd page) (collect_pods L (fst page) acc) ?t = Some res"
      by (auto simp: Let_def split: sum.splits if_splits)
    from extends_by_trans [OF c 1(1) [OF this]] show ?thesis .
  qed
qed

inductive namespaces_run :: "kube \<Rightarrow> string \<Rightarrow> string list \<Rightarrow> trace \<Rightarrow> pod list \<Rightarrow> trace \<Rightarrow> bool"
  for K :: kube and nodeName :: string where
  none: "namespaces_run K nodeName [] tr [] tr"
| one: "pages_run K ns nodeName [] tr pods tr1 \<Longrightarrow> namespaces_run K nodeName nss tr1 rest tr' \<Longrightarrow>
    namespaces_run K nodeName (ns # nss) tr (pods @ rest) tr'"

lemma list_namespaces_run:
  "list_namespaces L K nss nodeName acc tr = Some (Inr acc', tr') \<Longrightarrow>
   \<exists>pods. namespaces_run K nodeName nss tr pods tr' \<and> acc' = collect_pods L pods acc"
proof (induction nss arbitrary: acc tr)
  case Nil
  then show ?case by (auto intro: namespaces_run.none)
next
  case (Cons ns nss)
  then obtain acc1 tr1 where p: "list_pages L K ns nodeName [] acc tr = Some (Inr acc1, tr1)"
    and r: "list_namespaces L K nss nodeName acc1 tr1 = Some (Inr acc', tr')"
    by (auto split: option.splits sum.splits)
  from list_pages_run [OF p] obtain pods where "pages_run K ns nodeName [] tr pods tr1" "acc1 = collect_pods L pods acc" by auto
  with Cons.IH [OF r] show ?case by (auto simp: collect_pods_eq intro!: namespaces_run.one)
qed

lemma list_namespaces_extends:
  "list_namespaces L K nss nodeName acc tr = Some res \<Longrightarrow> extends_by list_call tr (snd res)"
proof (induction nss arbitrary: acc tr)
  case Nil
  then show ?case by auto
next
  case (Cons ns nss)
  obtain r1 where p: "list_pages L K ns nodeName [] acc tr = Some r1"
    using Cons.prems by (auto split: option.splits)
  note e = list_pages_extends [OF p]
  show ?case
  proof (cases "fst r1")
    case (Inl err)
    with Cons.prems p e show ?thesis by (cases r1) auto
  next
    case (Inr acc1)
    with Cons.prems p have "list_namespaces L K nss nodeName acc1 (snd r1) = Some res" by (cases r1) auto
    from extends_by_trans [OF e Cons.IH [OF this]] show ?thesis .
  qed
qed

lemma agent_pods_True_iff: "Status (agent_pods_condition pods) = ConditionTrue \<longleftrightarrow> pods = []"
  by (simp add: agent_pods_condition_def)

lemma agent_pods_Type [simp]: "Type (agent_pods_condition pods) = ConditionTypeAgentPodsEvicted"
  by (simp add: agent_pods_condition_def)

lemma compute_InrE:
  assumes "computeAgentPodsEvictedCondition L K nss nodeName tr = Some (Inr cond, tr')"
  obtains pods where "namespaces_run K nodeName nss tr pods tr'"
    "cond = agent_pods_condition (map (\<lambda>p. pod_Namespace p @ ''/'' @ pod_Name p) (filter (running_agent L) pods))"
  using assms list_namespaces_run [of L K nss nodeName "[]" tr]
  by (auto simp: computeAgentPodsEvictedCondition_def collect_pods_eq split: option.splits sum.splits)

lemma owned_status_agents:
  assumes "meta_laws L"
  shows "map_option Status (FindStatusCondition L (hv_Conditions (owned_status L hv h)) ConditionTypeAgentPodsEvicted) =
    (case FindStatusCondition L (hv_Conditions hv) ConditionTypeAgentPodsEvicted of
       Some c \<Rightarrow> Some (Status c)
     | None \<Rightarrow> map_option Status (FindStatusCondition L (hv_Conditions h) ConditionTypeAgentPodsEvicted))"
proof -
  let ?h = "set_if L (FindStatusCondition L (hv_Conditions hv) ConditionTypeTerminating)
      (h\<lparr>hv_Status := (hv_Status h)\<lparr>InternalIP := InternalIP (hv_Status hv)\<rparr>\<rparr>)"
  have h: "FindStatusCondition L (hv_Conditions ?h) ConditionTypeAgentPodsEvicted =
      FindStatusCondition L (hv_Conditions h) ConditionTypeAgentPodsEvicted"
    by (auto simp: set_if_def meta_find_Type [OF assms] meta_find_set_other [OF assms] split: option.split)
  show ?thesis
  proof (cases "FindStatusCondition L (hv_Conditions hv) ConditionTypeAgentPodsEvicted")
    case None
    with h show ?thesis by (simp add: owned_status_def set_if_def)
  next
    case (Some c)
    then have "Type c = ConditionTypeAgentPodsEvicted" by (rule meta_find_Type [OF assms])
    with Some meta_view_find_set [OF assms, of c "hv_Conditions ?h" ConditionTypeAgentPodsEvicted] show ?thesis
      by (auto simp: owned_status_def set_if_def meta_view_def)
  qed
qed

lemma node_status_sel [simp]:
  "Spec (node_status L nd hv) = Spec hv" "Meta (node_status L nd hv) = Meta hv"
  by (simp_all add: node_status_def Let_def)

lemma node_status_find:
  "meta_laws L \<Longrightarrow> ty \<noteq> ConditionTypeTerminating \<Longrightarrow>
   FindStatusCondition L (hv_Conditions (node_status L nd hv)) ty = FindStatusCondition L (hv_Conditions hv) ty"
  by (simp add: node_status_def Let_def meta_find_set_other)

section \<open>Properties\<close>

text \<open>
  A write that has \<open>AgentPodsEvicted\<close> as \<open>True\<close> carries it from the status the pass computed, or,
  when that has no such condition, leaves it as it is in the object patched.
\<close>

lemma agents_written:
  assumes "retry_laws L" "meta_laws L"
    and w: "patch_node_status L K base hv req t = (res, tr')" and l: "extends_by list_call tr t"
    and wr: "Kube (StatusPatchHypervisor fresh new ow) \<in> set (new_calls tr tr')"
    and agents: "IsStatusConditionTrue L (hv_Conditions new) ConditionTypeAgentPodsEvicted"
  shows "case FindStatusCondition L (hv_Conditions hv) ConditionTypeAgentPodsEvicted of
      Some c \<Rightarrow> Status c = ConditionTrue
    | None \<Rightarrow> IsStatusConditionTrue L (hv_Conditions fresh) ConditionTypeAgentPodsEvicted"
proof -
  have e: "extends_by (\<lambda>c. \<forall>a b v. c \<noteq> Kube (StatusPatchHypervisor a b v)) tr t"
    using l by (rule extends_by_mono) auto
  have d: "\<not> DeepEqual_Hypervisor L hv base"
  proof
    assume "DeepEqual_Hypervisor L hv base"
    with w have "tr' = t" by (simp add: patch_node_status_def)
    with extends_by_new_calls [OF e] wr show False by blast
  qed
  obtain er where "PatchHypervisorStatusWithRetry L K (hv_Name hv) HypervisorControllerName (owned_status L hv) t = (er, tr')"
    using w d
    by (cases "PatchHypervisorStatusWithRetry L K (hv_Name hv) HypervisorControllerName (owned_status L hv) t")
      (auto simp: patch_node_status_def split: option.splits)
  from patched_writes [OF assms(1) this e wr] have "new = owned_status L hv fresh" .
  with owned_status_agents [OF assms(2), of hv fresh] agents show ?thesis
    by (auto simp: meta_True_iff [OF assms(2)] split: option.splits)
qed

text \<open>
  C27. \<open>AgentPodsEvicted = True\<close> has evidence. When the status part of a pass writes it as \<open>True\<close> for
  a host that is being terminated, is drained and whose node carries the offboarding taint, then a
  complete listing of the pods of the node in every agent namespace (all pages of it), made in this
  pass, showed only pods that have ended or that tolerate the taint for ever: the pass never relies on
  what the status said before. For any other host it is only carried over: the hypervisor the pass
  works on has it as \<open>True\<close> already, or has no such condition and the object patched has it as \<open>True\<close>.
\<close>

theorem agents_gone_evidence:
  assumes "retry_laws L" "meta_laws L"
    and "update_node_status L K namespaces nd base tr = Some (res, tr')"
    and "Kube (StatusPatchHypervisor fresh new ow) \<in> set (new_calls tr tr')"
    and "IsStatusConditionTrue L (hv_Conditions new) ConditionTypeAgentPodsEvicted"
  shows "if hv_Maintenance base = MaintenanceTermination
       \<and> IsStatusConditionFalse L (hv_Conditions base) ConditionTypeEvicting \<and> nodeHasOffboardingTaint (node_Taints nd)
     then \<exists>pods tr1. namespaces_run K (Name (node_Meta nd)) namespaces tr pods tr1 \<and> (\<forall>p \<in> set pods. \<not> running_agent L p)
     else case FindStatusCondition L (hv_Conditions base) ConditionTypeAgentPodsEvicted of
         Some c \<Rightarrow> Status c = ConditionTrue
       | None \<Rightarrow> IsStatusConditionTrue L (hv_Conditions fresh) ConditionTypeAgentPodsEvicted"
    (is "if ?gate then ?listed else ?kept")
proof -
  let ?hv = "node_status L nd base"
  note written = agents_written [OF assms(1,2) _ _ assms(4,5)]
  have evicting: "IsStatusConditionFalse L (hv_Conditions ?hv) ConditionTypeEvicting = IsStatusConditionFalse L (hv_Conditions base) ConditionTypeEvicting"
    using node_status_find [OF assms(2)] by (simp add: meta_False_iff [OF assms(2)])
  have ?listed if gate: ?gate
  proof -
    from assms(3) gate obtain cond tr1 where
      c: "computeAgentPodsEvictedCondition L K namespaces (Name (node_Meta nd)) tr = Some (cond, tr1)"
      by (auto simp: update_node_status_def Let_def evicting split: option.splits)
    have ext: "extends_by list_call tr tr1"
      using c list_namespaces_extends by (fastforce simp: computeAgentPodsEvictedCondition_def split: option.splits sum.splits)
    show ?listed
    proof (cases cond)
      case (Inl e)
      with c gate assms(3) have "tr' = tr1" by (auto simp: update_node_status_def Let_def evicting)
      with extends_by_new_calls [OF ext] assms(4) show ?thesis by blast
    next
      case (Inr d)
      with c gate assms(3) have p: "patch_node_status L K base (hv_set_condition L d ?hv) (if Status d = ConditionFalse then DefaultPollTime else 0) tr1 = (res, tr')"
        by (auto simp: update_node_status_def Let_def evicting)
      from c Inr obtain pods where run: "namespaces_run K (Name (node_Meta nd)) namespaces tr pods tr1"
        and d: "d = agent_pods_condition (map (\<lambda>p. pod_Namespace p @ ''/'' @ pod_Name p) (filter (running_agent L) pods))"
        by (auto elim: compute_InrE)
      have "Status d = ConditionTrue"
        using written [OF p ext] meta_view_find_set [OF assms(2), of d "hv_Conditions ?hv" ConditionTypeAgentPodsEvicted]
        by (auto simp: d meta_view_def)
      then have "filter (running_agent L) pods = []" by (simp add: d agent_pods_True_iff)
      with run show ?thesis by (auto simp: filter_empty_conv)
    qed
  qed
  moreover have ?kept if "\<not> ?gate"
  proof -
    have "patch_node_status L K base ?hv 0 tr = (res, tr')"
      using assms(3) that by (auto simp: update_node_status_def Let_def evicting split: if_splits)
    from written [OF this] node_status_find [OF assms(2)] show ?kept by simp
  qed
  ultimately show ?thesis by simp
qed

definition leaving_hv :: Hypervisor where
  "leaving_hv = \<lparr>Meta = empty_meta ''h1'', Spec = zero_spec\<lparr>LifecycleEnabled := True, Maintenance := MaintenanceTermination\<rparr>,
     hv_Status = zero_status\<lparr>Conditions := [mk_condition ConditionTypeEvicting ConditionFalse ConditionReasonSucceeded []]\<rparr>\<rparr>"

definition leaving_node :: node where
  "leaving_node = (empty_node ''h1'')\<lparr>node_Taints := [offboardingTaint]\<rparr>"

definition finished_pod :: pod where
  "finished_pod = \<lparr>pod_Namespace = ''monsoon3'', pod_Name = ''nova'', pod_Phase = ''Succeeded'', pod_Tolerations = []\<rparr>"

abbreviation leaving_kube :: kube where
  "leaving_kube \<equiv> (sample_kube leaving_hv (empty_eviction ''e'') leaving_node)\<lparr>k_list_Pods := \<lambda>_ _ _ _. Inr ([finished_pod], [])\<rparr>"

lemmas leaving_defs = leaving_hv_def leaving_node_def finished_pod_def sample_kube_def empty_node_def zero_values
  update_node_status_def node_status_def Let_def node_terminating_def list_lib_def list_find_def mk_condition_def
  computeAgentPodsEvictedCondition_def list_pages.simps agent_pods_condition_def patch_node_status_def
  PatchHypervisorStatusWithRetry_def numeral_eq_Suc patch_hypervisor_attempt_def ask_def hv_set_condition_def
  offboardingTaint_def meta_view_def owned_status_def set_if_def new_calls_def

theorem agents_gone_evidence_witness:
  "\<exists>pods tr1. namespaces_run leaving_kube ''h1'' [''monsoon3''] [] pods tr1 \<and> (\<forall>p \<in> set pods. \<not> running_agent list_lib p)"
proof -
  have "\<exists>res tr' fresh new ow. update_node_status list_lib leaving_kube [''monsoon3''] leaving_node leaving_hv [] = Some (res, tr')
      \<and> Kube (StatusPatchHypervisor fresh new ow) \<in> set (new_calls [] tr')
      \<and> IsStatusConditionTrue list_lib (hv_Conditions new) ConditionTypeAgentPodsEvicted"
    by (simp add: leaving_defs)
  then obtain res tr' fresh new ow where w: "update_node_status list_lib leaving_kube [''monsoon3''] leaving_node leaving_hv [] = Some (res, tr')"
    "Kube (StatusPatchHypervisor fresh new ow) \<in> set (new_calls [] tr')"
    "IsStatusConditionTrue list_lib (hv_Conditions new) ConditionTypeAgentPodsEvicted" by blast
  have gate: "hv_Maintenance leaving_hv = MaintenanceTermination
      \<and> IsStatusConditionFalse list_lib (hv_Conditions leaving_hv) ConditionTypeEvicting
      \<and> nodeHasOffboardingTaint (node_Taints leaving_node)" and name: "Name (node_Meta leaving_node) = ''h1''"
    by (simp_all add: leaving_hv_def leaving_node_def offboardingTaint_def list_lib_def list_find_def zero_values empty_node_def)
  from agents_gone_evidence [OF retry_laws_list_lib meta_laws_list_lib w, unfolded if_P [OF gate] name] show ?thesis .
qed

text \<open>A pass talks to the Kubernetes API only, and never patches the node.\<close>

definition node_pass_call :: "call \<Rightarrow> bool" where
  "node_pass_call c \<longleftrightarrow> (\<exists>k. c = Kube k \<and> (\<forall>old new ow. k \<noteq> PatchNode old new ow))"

lemma patch_node_status_extends:
  "retry_laws L \<Longrightarrow> extends_by node_pass_call tr (snd (patch_node_status L K base hv req tr))"
  by (simp add: patch_node_status_def case_prod_beta patch_extends_mono node_pass_call_def split: option.split)

lemma update_node_status_extends:
  assumes "retry_laws L" "update_node_status L K nss nd base tr = Some (res, tr')"
  shows "extends_by node_pass_call tr tr'"
proof -
  have l: "extends_by node_pass_call tr tr1" if "list_namespaces L K nss n [] tr = Some (r, tr1)" for n r tr1
    using list_namespaces_extends [OF that] by (auto elim!: extends_by_mono simp: node_pass_call_def)
  have p: "extends_by node_pass_call tr t'" if "extends_by node_pass_call tr t" "patch_node_status L K b h q t = (r, t')" for b h q t r t'
    using extends_by_trans [OF that(1) patch_node_status_extends [OF assms(1), of t K b h q]] that(2) by simp
  from assms(2) show ?thesis
    by (auto simp: update_node_status_def Let_def computeAgentPodsEvictedCondition_def
        split: if_splits option.splits sum.splits prod.splits intro: l p)
qed

lemma Node_Reconcile_extends:
  assumes "retry_laws L" "Node_Reconcile L K labels nss name tr = Some (res, tr')"
  shows "extends_by node_pass_call tr tr'"
proof -
  have k: "extends_by node_pass_call t (t @ cs)" if "list_all node_pass_call cs" for t cs
    using that by (auto simp: extends_by_def)
  have u: "extends_by node_pass_call t t'" if "update_node_status L K nss nd b (t @ cs) = Some (r, t')" "list_all node_pass_call cs"
    for nd b t cs r t'
    using extends_by_trans [OF k [OF that(2)] update_node_status_extends [OF assms(1) that(1)]] .
  from assms(2) show ?thesis
    by (auto simp: Node_Reconcile_def ask_def Let_def create_hypervisor_def node_pass_call_def
        split: if_splits sum.splits option.splits intro!: k u)
qed

text \<open>
  What the API server promises of a paged listing: it ends, because every page with a continuation
  leaves less to list.
\<close>

definition pages_end :: "kube \<Rightarrow> string \<Rightarrow> (string \<Rightarrow> string \<Rightarrow> trace \<Rightarrow> nat) \<Rightarrow> bool" where
  "pages_end K nodeName left \<longleftrightarrow> (\<forall>ns token tr items cont.
     k_list_Pods K ns nodeName token tr = Inr (items, cont) \<and> cont \<noteq> [] \<longrightarrow>
     left ns cont (tr @ [Kube (ListPods ns nodeName token)]) < left ns token tr)"

lemma list_pages_returns:
  assumes "pages_end K nodeName left"
  shows "\<exists>res. list_pages L K ns nodeName token acc tr = Some res"
proof (induction "left ns token tr" arbitrary: token acc tr rule: less_induct)
  case less
  show ?case
  proof (cases "k_list_Pods K ns nodeName token tr")
    case (Inl e)
    then show ?thesis by (simp add: list_pages.simps [of L K ns nodeName token])
  next
    case (Inr page)
    show ?thesis
    proof (cases "snd page = []")
      case True
      with Inr show ?thesis by (simp add: list_pages.simps [of L K ns nodeName token] Let_def)
    next
      case False
      with assms Inr have "left ns (snd page) (tr @ [Kube (ListPods ns nodeName token)]) < left ns token tr"
        unfolding pages_end_def by (metis prod.collapse)
      from less [OF this] Inr False show ?thesis by (simp add: list_pages.simps [of L K ns nodeName token] Let_def)
    qed
  qed
qed

lemma list_namespaces_returns:
  assumes "pages_end K nodeName left"
  shows "\<exists>res. list_namespaces L K nss nodeName acc tr = Some res"
proof (induction nss arbitrary: acc tr)
  case (Cons ns nss)
  obtain r t where "list_pages L K ns nodeName [] acc tr = Some (r, t)" using list_pages_returns [OF assms] by (metis surj_pair)
  with Cons show ?case by (cases r) auto
qed simp

text \<open>
  C28. A pass of the hypervisor controller returns whenever the API server's paged listing of the
  pods of the node ends (every page that announces another one leaves less to list); the number of
  pages is not bounded.
\<close>

theorem Node_Reconcile_returns:
  assumes "\<And>nd. k_get_Node K name tr = Inr nd \<Longrightarrow> pages_end K (Name (node_Meta nd)) left"
  shows "\<exists>result. Node_Reconcile L K transferLabels namespaces name tr = Some result"
proof (cases "k_get_Node K name tr")
  case (Inl e)
  then show ?thesis by (simp add: Node_Reconcile_def ask_def)
next
  case (Inr nd)
  have c: "\<exists>r t'. computeAgentPodsEvictedCondition L K namespaces (Name (node_Meta nd)) t = Some (r, t')" for t
  proof -
    obtain r t' where "list_namespaces L K namespaces (Name (node_Meta nd)) [] t = Some (r, t')"
      using list_namespaces_returns [OF assms [OF Inr]] by (metis surj_pair)
    then show ?thesis by (cases r) (auto simp: computeAgentPodsEvictedCondition_def)
  qed
  have u: "\<exists>result. update_node_status L K namespaces nd base t = Some result" for base t
  proof -
    obtain r t' where "computeAgentPodsEvictedCondition L K namespaces (Name (node_Meta nd)) t = Some (r, t')" using c by blast
    then show ?thesis by (cases r) (simp_all add: update_node_status_def Let_def del: split_paired_Ex)
  qed
  with Inr show ?thesis by (simp add: Node_Reconcile_def ask_def Let_def del: split_paired_Ex split: sum.split)
qed

theorem Node_Reconcile_returns_witness:
  "\<exists>result. Node_Reconcile list_lib leaving_kube defaultTransferLabels [''monsoon3''] ''h1'' [] = Some result"
  by (rule Node_Reconcile_returns [where left = "\<lambda>_ _ _. 0"]) (simp add: pages_end_def)

text \<open>
  The comma-separated annotations are read back as written: a list of names that are not empty,
  contain no comma and have no white space around them is what parsing their comma-separated
  rendering gives.
\<close>

theorem annotation_roundtrip:
  assumes "\<And>x. x \<in> set xs \<Longrightarrow> x \<noteq> [] \<and> CHR '','' \<notin> set x \<and> strings_TrimSpace x = x"
  shows "collect_trimmed (strings_Split (join_with '','' xs) (CHR '','')) = xs"
proof (cases "xs = []")
  case True
  then show ?thesis by simp
next
  case False
  then have "strings_Split (join_with '','' xs) (CHR '','') = xs"
    using strings_Split_join_with [of xs "CHR '',''"] assms by blast
  moreover have "map strings_TrimSpace xs = xs" using assms by (simp add: map_idI)
  moreover have "filter (\<lambda>x. x \<noteq> []) xs = xs" using assms by (simp add: filter_True)
  ultimately show ?thesis by (simp add: collect_trimmed_eq)
qed

theorem annotation_roundtrip_witness: "collect_trimmed (strings_Split (join_with '','' [''az1'', ''ssd'']) (CHR '','')) = [''az1'', ''ssd'']"
proof (rule annotation_roundtrip)
  fix x
  assume "x \<in> set [''az1'', ''ssd'']"
  then show "x \<noteq> [] \<and> CHR '','' \<notin> set x \<and> strings_TrimSpace x = x"
    by (auto intro!: strings_TrimSpace_fixed simp: unicode_spaces_def strings_HasPrefix_def)
qed

text \<open>
  On a node with two internal addresses every pass changes the recorded address: from either of
  them the transfer goes to the other one.
\<close>

theorem internal_ip_alternates:
  assumes "na_Type a = NodeInternalIP" "na_Type b = NodeInternalIP" "na_Address a \<noteq> na_Address b"
    and "node_Addresses nd = [a, b]" "InternalIP (hv_Status hv) \<in> {na_Address a, na_Address b}"
  shows "InternalIP (hv_Status (node_status L nd hv)) \<in> {na_Address a, na_Address b} - {InternalIP (hv_Status hv)}"
  using assms by (auto simp: node_status_def Let_def hv_set_condition_def)

theorem internal_ip_alternates_witness:
  "InternalIP (hv_Status (node_status list_lib
     ((empty_node ''h1'')\<lparr>node_Addresses := [\<lparr>na_Type = NodeInternalIP, na_Address = ''10.0.0.1''\<rparr>, \<lparr>na_Type = NodeInternalIP, na_Address = ''fd00::1''\<rparr>]\<rparr>)
     ((empty_hypervisor ''h1'')\<lparr>hv_Status := zero_status\<lparr>InternalIP := ''10.0.0.1''\<rparr>\<rparr>))) = ''fd00::1''"
  using internal_ip_alternates [of "\<lparr>na_Type = NodeInternalIP, na_Address = ''10.0.0.1''\<rparr>" "\<lparr>na_Type = NodeInternalIP, na_Address = ''fd00::1''\<rparr>"
      "(empty_node ''h1'')\<lparr>node_Addresses := [\<lparr>na_Type = NodeInternalIP, na_Address = ''10.0.0.1''\<rparr>, \<lparr>na_Type = NodeInternalIP, na_Address = ''fd00::1''\<rparr>]\<rparr>"
      "(empty_hypervisor ''h1'')\<lparr>hv_Status := zero_status\<lparr>InternalIP := ''10.0.0.1''\<rparr>\<rparr>" list_lib]
  by simp

end
