(* ===== verification/Go_Netip.thy ===== *)
theory Go_Netip
  imports Prelude "HOL-Library.Word"
begin

text \<open>
  The part of Go's package \<open>net/netip\<close> that the certificate controller uses: parsing of textual
  addresses, the classification as global unicast, and the canonical rendering. An IPv4 address is
  four bytes, an IPv6 address eight groups of 16 bits with a zone (empty for none).
\<close>

unbundle bit_operations_syntax

datatype Addr = Addr4 "8 word" "8 word" "8 word" "8 word" | Addr6 "16 word list" string

definition Zone :: "Addr \<Rightarrow> string" where
  "Zone ip = (case ip of Addr4 a b c d \<Rightarrow> [] | Addr6 gs zone \<Rightarrow> zone)"

section \<open>Parsing\<close>

definition ascii_digit :: "char \<Rightarrow> bool" where
  "ascii_digit c \<longleftrightarrow> CHR ''0'' \<le> c \<and> c \<le> CHR ''9''"

definition digit_val :: "char \<Rightarrow> nat" where
  "digit_val c = of_char c - 48"

definition hex_val :: "char \<Rightarrow> nat option" where
  "hex_val c =
     (if ascii_digit c then Some (digit_val c)
      else if CHR ''a'' \<le> c \<and> c \<le> CHR ''f'' then Some (of_char c - 97 + 10)
      else if CHR ''A'' \<le> c \<and> c \<le> CHR ''F'' then Some (of_char c - 65 + 10)
      else None)"

text \<open>
  \<open>val\<close> and \<open>digLen\<close> are the octet read so far and its number of digits, \<open>octets\<close> the octets before
  it. A dot needs a digit before it, and something after it.
\<close>

fun parseIPv4Fields :: "string \<Rightarrow> nat \<Rightarrow> nat \<Rightarrow> 8 word list \<Rightarrow> 8 word list option" where
  "parseIPv4Fields [] val digLen octets =
     (if length octets < 3 then None else Some (octets @ [word_of_nat val]))"
| "parseIPv4Fields (c # s) val digLen octets =
     (if ascii_digit c then
        (if digLen = 1 \<and> val = 0 then None
         else if val * 10 + digit_val c > 255 then None
         else parseIPv4Fields s (val * 10 + digit_val c) (digLen + 1) octets)
      else if c = CHR ''.'' then
        (if digLen = 0 \<or> s = [] then None
         else if length octets = 3 then None
         else parseIPv4Fields s 0 0 (octets @ [word_of_nat val]))
      else None)"

definition parseIPv4 :: "string \<Rightarrow> Addr option" where
  "parseIPv4 s =
     (case parseIPv4Fields s 0 0 [] of Some [a, b, c, d] \<Rightarrow> Some (Addr4 a b c d) | _ \<Rightarrow> None)"

text \<open>The hex digits at the head of the text: how many, their value, and what follows them.\<close>

fun hex_group :: "string \<Rightarrow> nat \<Rightarrow> nat \<Rightarrow> (nat \<times> nat \<times> string) option" where
  "hex_group [] off acc = Some (off, acc, [])"
| "hex_group (c # s) off acc =
     (case hex_val c of
        None \<Rightarrow> Some (off, acc, c # s)
      | Some d \<Rightarrow>
          if off > 3 then None
          else if acc * 16 + d > 65535 then None
          else hex_group s (off + 1) (acc * 16 + d))"

text \<open>
  The loop of \<open>parseIPv6\<close>: the groups read, the place of the ellipsis if there was one, and the text
  that is left.
\<close>

function parse_groups ::
    "string \<Rightarrow> 16 word list \<Rightarrow> nat option \<Rightarrow> (16 word list \<times> nat option \<times> string) option" where
  "parse_groups s gs ellipsis =
     (if length gs \<ge> 8 then Some (gs, ellipsis, s)
      else
        (case hex_group s 0 0 of
           None \<Rightarrow> None
         | Some (off, acc, rest) \<Rightarrow>
             if off = 0 then None
             else if take 1 rest = ''.'' then
               (if ellipsis = None \<and> length gs \<noteq> 6 then None
                else if length gs + 2 > 8 then None
                else
                  (case parseIPv4Fields s 0 0 [] of
                     Some [a, b, c, d] \<Rightarrow> Some (gs @ [word_cat a b, word_cat c d], ellipsis, [])
                   | _ \<Rightarrow> None))
             else if rest = [] then Some (gs @ [word_of_nat acc], ellipsis, [])
             else if take 1 rest \<noteq> '':'' \<or> length rest = 1 then None
             else if take 2 rest = ''::'' then
               (if ellipsis \<noteq> None then None
                else if length rest = 2 then Some (gs @ [word_of_nat acc], Some (length gs + 1), [])
                else parse_groups (drop 2 rest) (gs @ [word_of_nat acc]) (Some (length gs + 1)))
             else parse_groups (drop 1 rest) (gs @ [word_of_nat acc]) ellipsis))"
  by pat_completeness auto
termination
  by (relation "measure (\<lambda>(s, gs, ellipsis). 8 - length gs)") auto

declare parse_groups.simps [simp del]

definition parseIPv6 :: "string \<Rightarrow> Addr option" where
  "parseIPv6 text_in =
     (case strings_Cut text_in (CHR ''%'') of
        (s, zone, found) \<Rightarrow>
          if found \<and> zone = [] then None
          else
            (let leading = take 2 s = ''::'' in
             if leading \<and> length s = 2 then Some (Addr6 (replicate 8 0) zone)
             else
               (case parse_groups (if leading then drop 2 s else s) [] (if leading then Some 0 else None) of
                  None \<Rightarrow> None
                | Some (gs, ellipsis, rest) \<Rightarrow>
                    if rest \<noteq> [] then None
                    else if length gs < 8 then
                      (case ellipsis of
                         None \<Rightarrow> None
                       | Some e \<Rightarrow> Some (Addr6 (take e gs @ replicate (8 - length gs) 0 @ drop e gs) zone))
                    else if ellipsis \<noteq> None then None
                    else Some (Addr6 gs zone))))"

definition ParseAddr :: "string \<Rightarrow> Addr option" where
  "ParseAddr s =
     (case List.find (\<lambda>c. c \<in> {CHR ''.'', CHR '':'', CHR ''%''}) s of
        None \<Rightarrow> None
      | Some c \<Rightarrow> if c = CHR ''.'' then parseIPv4 s else if c = CHR '':'' then parseIPv6 s else None)"

section \<open>Classification\<close>

definition Is4In6 :: "Addr \<Rightarrow> bool" where
  "Is4In6 ip = (case ip of Addr4 a b c d \<Rightarrow> False | Addr6 gs zone \<Rightarrow> take 6 gs = [0, 0, 0, 0, 0, 0xFFFF])"

definition Unmap :: "Addr \<Rightarrow> Addr" where
  "Unmap ip =
     (case ip of
        Addr4 a b c d \<Rightarrow> ip
      | Addr6 gs zone \<Rightarrow>
          if Is4In6 ip then
            Addr4 (ucast (drop_bit 8 (gs ! 6))) (ucast (gs ! 6)) (ucast (drop_bit 8 (gs ! 7))) (ucast (gs ! 7))
          else ip)"

definition IsLoopback :: "Addr \<Rightarrow> bool" where
  "IsLoopback ip =
     (case Unmap ip of
        Addr4 a b c d \<Rightarrow> a = 127
      | Addr6 gs zone \<Rightarrow> gs = [0, 0, 0, 0, 0, 0, 0, 1])"

definition IsMulticast :: "Addr \<Rightarrow> bool" where
  "IsMulticast ip =
     (case Unmap ip of
        Addr4 a b c d \<Rightarrow> a AND 0xF0 = 0xE0
      | Addr6 gs zone \<Rightarrow> drop_bit 8 (gs ! 0) = 0xFF)"

definition IsLinkLocalUnicast :: "Addr \<Rightarrow> bool" where
  "IsLinkLocalUnicast ip =
     (case Unmap ip of
        Addr4 a b c d \<Rightarrow> a = 169 \<and> b = 254
      | Addr6 gs zone \<Rightarrow> gs ! 0 AND 0xFFC0 = 0xFE80)"

definition IsGlobalUnicast :: "Addr \<Rightarrow> bool" where
  "IsGlobalUnicast ip \<longleftrightarrow>
     ip \<noteq> Addr4 0 0 0 0 \<and> ip \<noteq> Addr4 255 255 255 255 \<and> ip \<noteq> Addr6 (replicate 8 0) []
     \<and> \<not> IsLoopback ip \<and> \<not> IsMulticast ip \<and> \<not> IsLinkLocalUnicast ip"

section \<open>Rendering\<close>

definition hex_char :: "nat \<Rightarrow> char" where
  "hex_char n = (if n < 10 then char_of (48 + n) else char_of (87 + n))"

text \<open>A group without leading zeros.\<close>

definition hex_digits :: "16 word \<Rightarrow> string" where
  "hex_digits w =
     (let n = unat w in
      (if n \<ge> 0x1000 then [hex_char (n div 0x1000)] else [])
      @ (if n \<ge> 0x100 then [hex_char (n div 0x100 mod 16)] else [])
      @ (if n \<ge> 0x10 then [hex_char (n div 0x10 mod 16)] else [])
      @ [hex_char (n mod 16)])"

text \<open>The first longest run of at least two zero groups: where it begins (255 for none) and its length.\<close>

definition zero_run_at :: "16 word list \<Rightarrow> nat \<Rightarrow> nat" where
  "zero_run_at gs i = length (takeWhile (\<lambda>g. g = 0) (drop i gs))"

definition longer_run :: "16 word list \<Rightarrow> nat \<times> nat \<Rightarrow> nat \<Rightarrow> nat \<times> nat" where
  "longer_run gs best i =
     (if zero_run_at gs i \<ge> 2 \<and> zero_run_at gs i > snd best then (i, zero_run_at gs i) else best)"

definition zero_run :: "16 word list \<Rightarrow> nat \<times> nat" where
  "zero_run gs = foldl (longer_run gs) (255, 0) [0..<8]"

definition Addr6_text :: "16 word list \<Rightarrow> string" where
  "Addr6_text gs =
     (case zero_run gs of
        (start, len) \<Rightarrow>
          if start < 8
          then join_with '':'' (map hex_digits (take start gs)) @ ''::''
               @ join_with '':'' (map hex_digits (drop (start + len) gs))
          else join_with '':'' (map hex_digits gs))"

text \<open>
  \<open>Addr.String\<close> of an address that is not an IPv4 address mapped into IPv6 (the controller unmaps
  before it renders).
\<close>

definition Addr_String :: "Addr \<Rightarrow> string" where
  "Addr_String ip =
     (case ip of
        Addr4 a b c d \<Rightarrow> join_with ''.'' (map (\<lambda>x. nat_digits (unat x)) [a, b, c, d])
      | Addr6 gs zone \<Rightarrow> Addr6_text gs @ (if zone = [] then [] else CHR ''%'' # zone))"

section \<open>What is rendered is read back\<close>

lemma parse_digit:
  "d < 10 \<Longrightarrow> \<not> (digLen = 1 \<and> v = 0) \<Longrightarrow> v * 10 + d \<le> 255 \<Longrightarrow>
   parseIPv4Fields (char_of (48 + d) # s) v digLen octets = parseIPv4Fields s (v * 10 + d) (digLen + 1) octets"
  by (auto simp: ascii_digit_def digit_val_def less_eq_char_def of_char_of)

lemma parse_octet:
  "n < 256 \<Longrightarrow>
   parseIPv4Fields (nat_digits n @ rest) 0 0 octets = parseIPv4Fields rest n (length (nat_digits n)) octets"
proof (induction n arbitrary: rest rule: nat_digits.induct)
  case (1 n)
  show ?case
  proof (cases "n < 10")
    case True
    then show ?thesis by (simp add: nat_digits.simps [of n] parse_digit del: parseIPv4Fields.simps)
  next
    case False
    then have d: "nat_digits n = nat_digits (n div 10) @ [char_of (48 + n mod 10)]" by (simp add: nat_digits.simps [of n])
    from False 1 have IH: "parseIPv4Fields (nat_digits (n div 10) @ rest') 0 0 octets
      = parseIPv4Fields rest' (n div 10) (length (nat_digits (n div 10))) octets" for rest' by simp
    from False have "n div 10 \<noteq> 0" by auto
    with 1 show ?thesis by (simp add: d IH parse_digit del: parseIPv4Fields.simps)
  qed
qed

lemma hex_step:
  "d < 16 \<Longrightarrow> off \<le> 3 \<Longrightarrow> acc * 16 + d \<le> 65535 \<Longrightarrow>
   hex_group (hex_char d # s) off acc = hex_group s (off + 1) (acc * 16 + d)"
  by (auto simp: hex_val_def hex_char_def ascii_digit_def digit_val_def less_eq_char_def of_char_of)

lemma hex_group_digits:
  assumes "rest = [] \<or> hex_val (hd rest) = None"
  shows "hex_group (hex_digits w @ rest) 0 0 = Some (length (hex_digits w), unat w, rest)"
proof -
  define a b c d where "a = unat w div 4096" "b = unat w div 256 mod 16" "c = unat w div 16 mod 16" "d = unat w mod 16"
  note abcd = this
  have "unat w < 65536" using unsigned_less [of w, where ?'a = nat] by simp
  then have l: "a < 16" "b < 16" "c < 16" "d < 16" by (simp_all add: abcd less_mult_imp_div_less)
  have q: "unat w div 16 div 16 = unat w div 256" "unat w div 256 div 16 = unat w div 4096"
    by (simp_all add: div_mult2_eq [symmetric])
  have n: "unat w = ((a * 16 + b) * 16 + c) * 16 + d"
    unfolding abcd by (simp only: div_mult_mod_eq [of "unat w" 16] div_mult_mod_eq [of "unat w div 16" 16, unfolded q]
        div_mult_mod_eq [of "unat w div 256" 16, unfolded q])
  have e: "hex_group rest off acc = Some (off, acc, rest)" for off acc
    using assms by (cases rest) auto
  have r: "hex_digits w = (if a \<noteq> 0 then [hex_char a] else []) @ (if a \<noteq> 0 \<or> b \<noteq> 0 then [hex_char b] else [])
     @ (if a \<noteq> 0 \<or> b \<noteq> 0 \<or> c \<noteq> 0 then [hex_char c] else []) @ [hex_char d]"
  proof -
    have "unat w \<ge> 0x1000 \<longleftrightarrow> a \<noteq> 0" "unat w \<ge> 0x100 \<longleftrightarrow> a \<noteq> 0 \<or> b \<noteq> 0" "unat w \<ge> 0x10 \<longleftrightarrow> a \<noteq> 0 \<or> b \<noteq> 0 \<or> c \<noteq> 0"
      using l unfolding n by auto
    then show ?thesis by (simp add: hex_digits_def Let_def abcd [symmetric])
  qed
  show ?thesis
    using l by (simp add: r e hex_step n del: hex_group.simps)
qed

lemma hex_digits_nonempty [simp]: "hex_digits w \<noteq> []"
  by (simp add: hex_digits_def Let_def)

lemma hex_val_colon [simp]: "hex_val (CHR '':'') = None"
  by (simp add: hex_val_def ascii_digit_def less_eq_char_def)

lemma hex_val_char: "d < 16 \<Longrightarrow> hex_val (hex_char d) = Some d"
  by (auto simp: hex_val_def hex_char_def ascii_digit_def digit_val_def less_eq_char_def of_char_of)

lemma hex_digits_hex: "c \<in> set (hex_digits w) \<Longrightarrow> hex_val c \<noteq> None"
proof -
  assume "c \<in> set (hex_digits w)"
  moreover have "unat w < 65536" using unsigned_less [of w, where ?'a = nat] by simp
  ultimately show ?thesis
    by (auto simp: hex_digits_def Let_def hex_val_char less_mult_imp_div_less split: if_splits)
qed

abbreviation groups_text :: "16 word list \<Rightarrow> string" where
  "groups_text gs \<equiv> join_with '':'' (map hex_digits gs)"

lemma groups_text_Cons: "gs \<noteq> [] \<Longrightarrow> groups_text (g # gs) = hex_digits g @ CHR '':'' # groups_text gs"
  by (cases gs) auto

lemma groups_text_head:
  assumes "gs \<noteq> []"
  obtains c t where "groups_text gs = c # t" "c \<noteq> CHR '':''"
proof -
  from assms obtain g gs' where gs: "gs = g # gs'" by (cases gs) auto
  obtain c t where "hex_digits g = c # t" by (cases "hex_digits g") auto
  moreover from this have "c \<noteq> CHR '':''" using hex_digits_hex [of c g] by auto
  ultimately show ?thesis using that gs by (cases gs') auto
qed

lemma groups_text_empty: "groups_text gs = [] \<Longrightarrow> gs = []"
  by (cases gs; cases "tl gs") auto

text \<open>One turn of the loop on a group and what follows it.\<close>

lemma parse_groups_last:
  "length acc < 8 \<Longrightarrow> parse_groups (hex_digits g) acc ellipsis = Some (acc @ [g], ellipsis, [])"
  using hex_group_digits [of "[]" g] by (simp add: parse_groups.simps)

lemma parse_groups_colon:
  "length acc < 8 \<Longrightarrow> c \<noteq> CHR '':'' \<Longrightarrow>
   parse_groups (hex_digits g @ CHR '':'' # c # t) acc ellipsis = parse_groups (c # t) (acc @ [g]) ellipsis"
  using hex_group_digits [of "CHR '':'' # c # t" g] by (simp add: parse_groups.simps [of "hex_digits g @ CHR '':'' # c # t"])

lemma parse_groups_double:
  "length acc < 8 \<Longrightarrow>
   parse_groups (hex_digits g @ CHR '':'' # CHR '':'' # t) acc None =
     (if t = [] then Some (acc @ [g], Some (length acc + 1), []) else parse_groups t (acc @ [g]) (Some (length acc + 1)))"
  using hex_group_digits [of "CHR '':'' # CHR '':'' # t" g]
  by (simp add: parse_groups.simps [of "hex_digits g @ CHR '':'' # CHR '':'' # t"])

text \<open>The text of some groups, at the end or in front of a double colon.\<close>

lemma parse_groups_end:
  "gs \<noteq> [] \<Longrightarrow> length acc + length gs \<le> 8 \<Longrightarrow> parse_groups (groups_text gs) acc ellipsis = Some (acc @ gs, ellipsis, [])"
proof (induction gs arbitrary: acc)
  case (Cons g gs)
  show ?case
  proof (cases "gs = []")
    case True
    with Cons.prems show ?thesis by (simp add: parse_groups_last)
  next
    case False
    then obtain c t where ct: "groups_text gs = c # t" "c \<noteq> CHR '':''" by (rule groups_text_head)
    with False Cons.prems Cons.IH [of "acc @ [g]"] show ?thesis by (simp add: groups_text_Cons parse_groups_colon del: list.map)
  qed
qed simp

lemma parse_groups_split:
  "gs \<noteq> [] \<Longrightarrow> length acc + length gs + length hs \<le> 8 \<Longrightarrow>
   parse_groups (groups_text gs @ CHR '':'' # CHR '':'' # groups_text hs) acc None
     = Some (acc @ gs @ hs, Some (length acc + length gs), [])"
proof (induction gs arbitrary: acc)
  case (Cons g gs)
  show ?case
  proof (cases "gs = []")
    case True
    have "groups_text hs = [] \<longleftrightarrow> hs = []" by (metis groups_text_head join_with.simps(1) list.distinct(1) list.simps(8))
    with True Cons.prems parse_groups_end [of hs "acc @ [g]"] show ?thesis by (simp add: parse_groups_double)
  next
    case False
    then obtain c t where ct: "groups_text gs = c # t" "c \<noteq> CHR '':''" by (rule groups_text_head)
    with False Cons.prems Cons.IH [of "acc @ [g]"] show ?thesis by (simp add: groups_text_Cons parse_groups_colon del: list.map)
  qed
qed simp

section \<open>The run of zeros\<close>

definition run_of_zeros :: "16 word list \<Rightarrow> nat \<times> nat \<Rightarrow> bool" where
  "run_of_zeros gs best \<longleftrightarrow> best = (255, 0) \<or> fst best < 8 \<and> snd best = zero_run_at gs (fst best) \<and> snd best \<ge> 2"

lemma longer_run_zeros: "run_of_zeros gs best \<Longrightarrow> i < 8 \<Longrightarrow> run_of_zeros gs (longer_run gs best i)"
  by (simp add: run_of_zeros_def longer_run_def)

lemma foldl_longer_run: "\<forall>i \<in> set is. i < 8 \<Longrightarrow> run_of_zeros gs best \<Longrightarrow> run_of_zeros gs (foldl (longer_run gs) best is)"
  by (induction "is" arbitrary: best) (simp_all add: longer_run_zeros)

lemma zero_run_cases:
  assumes "zero_run gs = (start, len)" "start < 8"
  shows "len = zero_run_at gs start" "len \<ge> 2"
proof -
  have "\<forall>i \<in> set [0..<8]. i < (8::nat)" "run_of_zeros gs (255, 0)" by (simp_all add: run_of_zeros_def)
  then have "run_of_zeros gs (zero_run gs)" unfolding zero_run_def by (rule foldl_longer_run)
  with assms show "len = zero_run_at gs start" "len \<ge> 2" by (simp_all add: run_of_zeros_def)
qed

lemma zeros_at:
  "take i gs @ replicate (zero_run_at gs i) 0 @ drop (i + zero_run_at gs i) gs = gs"
proof -
  let ?z = "takeWhile (\<lambda>g. g = 0) (drop i gs)"
  have "\<forall>x \<in> set ?z. x = 0" by (auto dest: set_takeWhileD)
  then have "?z = replicate (length ?z) 0" by (simp only: replicate_length_same)
  then have "replicate (zero_run_at gs i) 0 = ?z" by (simp only: zero_run_at_def)
  moreover have "drop (i + zero_run_at gs i) gs = dropWhile (\<lambda>g. g = 0) (drop i gs)"
    by (simp add: zero_run_at_def dropWhile_eq_drop add.commute)
  ultimately show ?thesis by (simp only: takeWhile_dropWhile_id append_take_drop_id)
qed

section \<open>Addresses\<close>

lemma find_separator:
  assumes "\<And>c. c \<in> set s \<Longrightarrow> \<not> P c" "P x"
  shows "List.find P (s @ x # t) = Some x"
  using assms(1)
proof (induction s)
  case Nil
  with assms(2) show ?case by simp
next
  case (Cons a s)
  from Cons.prems have "\<not> P a" by simp
  with Cons show ?case by simp
qed

lemma find_only:
  assumes "\<And>c. c \<in> set s \<Longrightarrow> P c \<Longrightarrow> c = x" "x \<in> set s" "P x"
  shows "List.find P s = Some x"
  using assms(1,2)
proof (induction s)
  case (Cons a s)
  show ?case
  proof (cases "P a")
    case True
    with Cons.prems(1) [of a] show ?thesis by simp
  next
    case False
    with Cons assms(3) show ?thesis by (metis List.find.simps(2) list.set_intros(2) set_ConsD)
  qed
qed simp

lemma nat_digits_digits: "c \<in> set (nat_digits n) \<Longrightarrow> ascii_digit c"
proof (induction n rule: nat_digits.induct)
  case (1 n)
  show ?case
  proof (cases "n < 10")
    case True
    with 1 show ?thesis by (simp add: nat_digits.simps [of n] ascii_digit_def less_eq_char_def of_char_of)
  next
    case False
    with 1 show ?thesis
      by (auto simp: nat_digits.simps [of n] ascii_digit_def less_eq_char_def of_char_of)
  qed
qed

lemma not_digits [simp]: "\<not> ascii_digit (CHR ''.'')" "\<not> ascii_digit (CHR '':'')" "\<not> ascii_digit (CHR ''%'')"
  by (simp_all add: ascii_digit_def less_eq_char_def)

lemma parse_octet_dot:
  "n < 256 \<Longrightarrow> length octets < 3 \<Longrightarrow> s \<noteq> [] \<Longrightarrow>
   parseIPv4Fields (nat_digits n @ CHR ''.'' # s) 0 0 octets = parseIPv4Fields s 0 0 (octets @ [word_of_nat n])"
  by (simp add: parse_octet)

theorem ParseAddr_IPv4: "ParseAddr (Addr_String (Addr4 a b c d)) = Some (Addr4 a b c d)"
proof -
  have n: "unat w < 256" for w :: "8 word" using unsigned_less [of w, where ?'a = nat] by simp
  have last: "parseIPv4Fields (nat_digits (unat d)) 0 0 [a, b, c] = Some [a, b, c, d]"
    using parse_octet [OF n, of d "[]" "[a, b, c]"] by simp
  have "parseIPv4Fields (Addr_String (Addr4 a b c d)) 0 0 [] = Some [a, b, c, d]"
    by (simp add: Addr_String_def parse_octet_dot [OF n] last)
  moreover have "List.find (\<lambda>c. c \<in> {CHR ''.'', CHR '':'', CHR ''%''}) (Addr_String (Addr4 a b c d)) = Some (CHR ''.'')"
  proof -
    have "c \<notin> {CHR ''.'', CHR '':'', CHR ''%''}" if "c \<in> set (nat_digits (unat a))" for c
      using nat_digits_digits [OF that] by auto
    from find_separator [of "nat_digits (unat a)" "\<lambda>c. c \<in> {CHR ''.'', CHR '':'', CHR ''%''}", OF this, of "CHR ''.''"]
    show ?thesis by (simp add: Addr_String_def)
  qed
  ultimately show ?thesis by (simp add: ParseAddr_def parseIPv4_def)
qed

lemma groups_text_chars: "c \<in> set (groups_text gs) \<Longrightarrow> hex_val c \<noteq> None \<or> c = CHR '':''"
proof (induction gs)
  case (Cons g gs)
  then show ?case by (cases gs) (auto dest: hex_digits_hex)
qed simp

lemma hex_val_others [simp]: "hex_val (CHR ''.'') = None" "hex_val (CHR ''%'') = None"
  by (simp_all add: hex_val_def ascii_digit_def less_eq_char_def)

lemma Addr6_text_chars: "c \<in> set (Addr6_text gs) \<Longrightarrow> c \<noteq> CHR ''.'' \<and> c \<noteq> CHR ''%''"
  by (auto simp: Addr6_text_def split: prod.splits if_splits dest!: groups_text_chars)

lemma Addr6_text_colon: "length gs = 8 \<Longrightarrow> CHR '':'' \<in> set (Addr6_text gs)"
proof (cases gs)
  case (Cons g gs')
  moreover assume "length gs = 8"
  ultimately show ?thesis by (cases gs'; cases "zero_run gs") (auto simp: Addr6_text_def)
qed simp

text \<open>The groups of an address around the ellipsis.\<close>

lemma parseIPv6_ellipsis:
  assumes "strings_Cut s (CHR ''%'') = (s, [], False)" "s \<noteq> ''::''"
    and "parse_groups (if take 2 s = ''::'' then drop 2 s else s) [] (if take 2 s = ''::'' then Some 0 else None) = Some (hs, Some e, [])"
    and "length hs < 8"
  shows "parseIPv6 s = Some (Addr6 (take e hs @ replicate (8 - length hs) 0 @ drop e hs) [])"
proof -
  have "\<not> (take 2 s = ''::'' \<and> length s = 2)" using assms(2) by auto
  with assms show ?thesis by (auto simp: parseIPv6_def Let_def split: if_splits)
qed

lemma parse_groups_around:
  assumes "length l + length r < 8" "s = groups_text l @ CHR '':'' # CHR '':'' # groups_text r" "s \<noteq> ''::''"
  shows "parse_groups (if take 2 s = ''::'' then drop 2 s else s) [] (if take 2 s = ''::'' then Some 0 else None)
    = Some (l @ r, Some (length l), [])"
proof (cases "l = []")
  case True
  with assms have "r \<noteq> []" by auto
  with True assms parse_groups_end [of r "[]" "Some 0"] show ?thesis by simp
next
  case False
  then obtain c t where "groups_text l = c # t" "c \<noteq> CHR '':''" by (rule groups_text_head)
  then have "take 2 s \<noteq> ''::''" by (cases t) (auto simp: assms(2))
  with parse_groups_split [OF False, of "[]" r] assms(1,2) show ?thesis by simp
qed

lemma parseIPv6_text:
  assumes "length gs = 8"
  shows "parseIPv6 (Addr6_text gs) = Some (Addr6 gs [])"
proof -
  have cut: "strings_Cut (Addr6_text gs) (CHR ''%'') = (Addr6_text gs, [], False)"
    using Addr6_text_chars [of "CHR ''%''" gs] by (auto simp: strings_Cut_def)
  obtain start len where z: "zero_run gs = (start, len)" by fastforce
  show ?thesis
  proof (cases "start < 8")
    case False
    with z have t: "Addr6_text gs = groups_text gs" by (simp add: Addr6_text_def)
    have "gs \<noteq> []" using assms by auto
    then obtain c s where "groups_text gs = c # s" "c \<noteq> CHR '':''" by (rule groups_text_head)
    then have "take 2 (groups_text gs) \<noteq> ''::''" by (cases s) auto
    with assms \<open>gs \<noteq> []\<close> parse_groups_end [of gs "[]" None] show ?thesis by (simp add: parseIPv6_def t cut [unfolded t] Let_def)
  next
    case True
    define l r where "l = take start gs" "r = drop (start + len) gs"
    have t: "Addr6_text gs = groups_text l @ CHR '':'' # CHR '':'' # groups_text r"
      using z True by (simp add: Addr6_text_def l_r_def)
    have gs: "l @ replicate len 0 @ r = gs" and len: "len \<ge> 2"
      using zero_run_cases [OF z True] zeros_at [of start gs] by (simp_all add: l_r_def)
    then have le: "length l + length r + len = 8" using assms by (metis add.commute add.left_commute length_append length_replicate)
    show ?thesis
    proof (cases "Addr6_text gs = ''::''")
      case dc: True
      then have "l = [] \<and> r = []" using t by (cases "groups_text l") (auto dest: groups_text_empty)
      with gs le have "gs = replicate 8 0" by auto
      moreover have "parseIPv6 ''::'' = Some (Addr6 (replicate 8 0) [])" by (simp add: parseIPv6_def strings_Cut_def)
      ultimately show ?thesis using dc by simp
    next
      case False
      have n: "8 - (length l + length r) = len" using le by simp
      from parseIPv6_ellipsis [OF cut False parse_groups_around [OF _ t False]] le len gs show ?thesis by (simp add: n)
    qed
  qed
qed

theorem ParseAddr_IPv6:
  assumes "length gs = 8"
  shows "ParseAddr (Addr_String (Addr6 gs [])) = Some (Addr6 gs [])"
proof -
  have "List.find (\<lambda>c. c \<in> {CHR ''.'', CHR '':'', CHR ''%''}) (Addr6_text gs) = Some (CHR '':'')"
    by (rule find_only) (use Addr6_text_chars Addr6_text_colon [OF assms] in auto)
  then show ?thesis using parseIPv6_text [OF assms] by (simp add: ParseAddr_def Addr_String_def)
qed

end
