(* ===== verification/Go_Json.thy ===== *)
theory Go_Json
  imports Prelude
begin

text \<open>
  The part of Go's package \<open>encoding/json\<close> that the certificate controller uses: \<open>Unmarshal\<close> of a
  text into a slice of structures with a string field and a field of strings. A text is bytes. It is
  split into tokens by a state machine over its bytes; a machine with a stack of open arrays and
  objects builds the value (as the scanner of the package does, with its limit of nesting); the
  value is then stored into the slice. The last section shows that what an encoder writes is read back.
\<close>

section \<open>Strings\<close>

definition hex_digit :: "char \<Rightarrow> nat option" where
  "hex_digit c =
     (if CHR ''0'' \<le> c \<and> c \<le> CHR ''9'' then Some (of_char c - 48)
      else if CHR ''a'' \<le> c \<and> c \<le> CHR ''f'' then Some (of_char c - 87)
      else if CHR ''A'' \<le> c \<and> c \<le> CHR ''F'' then Some (of_char c - 55)
      else None)"

text \<open>The code unit of four hex digits.\<close>

fun getu4 :: "string \<Rightarrow> nat option" where
  "getu4 (a # b # c # d # s) =
     (case (hex_digit a, hex_digit b, hex_digit c, hex_digit d) of
        (Some x, Some y, Some z, Some w) \<Rightarrow> Some (((x * 16 + y) * 16 + z) * 16 + w)
      | _ \<Rightarrow> None)"
| "getu4 _ = None"

text \<open>The UTF-8 encoding of a code point; a surrogate becomes U+FFFD.\<close>

definition utf8_encode :: "nat \<Rightarrow> string" where
  "utf8_encode r =
     (if r < 0x80 then [char_of r]
      else if r < 0x800 then [char_of (0xC0 + r div 64), char_of (0x80 + r mod 64)]
      else if 0xD800 \<le> r \<and> r < 0xE000 then [CHR 0xEF, CHR 0xBF, CHR 0xBD]
      else if r < 0x10000 then
        [char_of (0xE0 + r div 4096), char_of (0x80 + r div 64 mod 64), char_of (0x80 + r mod 64)]
      else
        [char_of (0xF0 + r div 262144), char_of (0x80 + r div 4096 mod 64), char_of (0x80 + r div 64 mod 64),
         char_of (0x80 + r mod 64)])"

definition between :: "char \<Rightarrow> char \<Rightarrow> char \<Rightarrow> bool" where
  "between lo hi c \<longleftrightarrow> lo \<le> c \<and> c \<le> hi"

abbreviation continuation :: "char \<Rightarrow> bool" where
  "continuation \<equiv> between (CHR 0x80) (CHR 0xBF)"

text \<open>How many bytes the well-formed multi-byte encoding at the head of the text has, \<open>0\<close> if it is none.\<close>

fun utf8_len :: "string \<Rightarrow> nat" where
  "utf8_len (a # b # s) =
     (if between (CHR 0xC2) (CHR 0xDF) a \<and> continuation b then 2
      else if (a = CHR 0xE0 \<and> between (CHR 0xA0) (CHR 0xBF) b
               \<or> (between (CHR 0xE1) (CHR 0xEC) a \<or> between (CHR 0xEE) (CHR 0xEF) a) \<and> continuation b
               \<or> a = CHR 0xED \<and> between (CHR 0x80) (CHR 0x9F) b)
              \<and> s \<noteq> [] \<and> continuation (s ! 0) then 3
      else if (a = CHR 0xF0 \<and> between (CHR 0x90) (CHR 0xBF) b
               \<or> between (CHR 0xF1) (CHR 0xF3) a \<and> continuation b
               \<or> a = CHR 0xF4 \<and> between (CHR 0x80) (CHR 0x8F) b)
              \<and> length s \<ge> 2 \<and> continuation (s ! 0) \<and> continuation (s ! 1) then 4
      else 0)"
| "utf8_len _ = 0"

definition escape_char :: "char \<Rightarrow> char option" where
  "escape_char c =
     map_of [(CHR 0x22, CHR 0x22), (CHR 0x5C, CHR 0x5C), (CHR ''/'', CHR ''/''), (CHR ''b'', CHR 0x08),
       (CHR ''f'', CHR 0x0C), (CHR ''n'', CHR 0x0A), (CHR ''r'', CHR 0x0D), (CHR ''t'', CHR 0x09)] c"

text \<open>The low surrogate of an escape \<open>\u\<close> at the head of the text, if there is one.\<close>

definition low_surrogate :: "string \<Rightarrow> nat option" where
  "low_surrogate s =
     (if take 2 s = [CHR 0x5C, CHR ''u''] then
        (case getu4 (drop 2 s) of Some r \<Rightarrow> if 0xDC00 \<le> r \<and> r < 0xE000 then Some r else None | None \<Rightarrow> None)
      else None)"

text \<open>
  The value of a string literal from the bytes between its quotes: escapes are replaced, a byte that
  starts no well-formed encoding becomes U+FFFD; a control character or an unknown escape is an error.
\<close>

function unquote :: "string \<Rightarrow> string option" where
  "unquote [] = Some []"
| "unquote (c # s) =
     (if c < CHR 0x20 then None
      else if c = CHR 0x5C then
        (if take 1 s = ''u'' then
           (case getu4 (drop 1 s) of
              None \<Rightarrow> None
            | Some r \<Rightarrow>
                (case (if 0xD800 \<le> r \<and> r < 0xDC00 then low_surrogate (drop 5 s) else None) of
                   Some r1 \<Rightarrow>
                     map_option ((@) (utf8_encode ((r - 0xD800) * 1024 + (r1 - 0xDC00) + 0x10000))) (unquote (drop 11 s))
                 | None \<Rightarrow> map_option ((@) (utf8_encode r)) (unquote (drop 5 s))))
         else
           (case s of
              [] \<Rightarrow> None
            | e # s' \<Rightarrow>
                (case escape_char e of None \<Rightarrow> None | Some x \<Rightarrow> map_option ((#) x) (unquote s'))))
      else if c < CHR 0x80 then map_option ((#) c) (unquote s)
      else if utf8_len (c # s) = 0 then map_option ((@) [CHR 0xEF, CHR 0xBF, CHR 0xBD]) (unquote s)
      else map_option ((@) (take (utf8_len (c # s)) (c # s))) (unquote (drop (utf8_len (c # s) - 1) s)))"
  by pat_completeness auto
termination
  by (relation "measure length") auto

section \<open>Numbers\<close>

text \<open>The syntax of a number, after the states of the scanner.\<close>

datatype num_state = NStart | NNeg | NZero | NInt | NDot | NFrac | NExp | NExpSign | NExpInt

definition digit :: "char \<Rightarrow> bool" where
  "digit = between (CHR ''0'') (CHR ''9'')"

definition num_zero :: "char \<Rightarrow> num_state option" where
  "num_zero c =
     (if c = CHR ''.'' then Some NDot else if c = CHR ''e'' \<or> c = CHR ''E'' then Some NExp else None)"

definition num_neg :: "char \<Rightarrow> num_state option" where
  "num_neg c = (if c = CHR ''0'' then Some NZero else if digit c then Some NInt else None)"

fun num_step :: "num_state \<Rightarrow> char \<Rightarrow> num_state option" where
  "num_step NStart c = (if c = CHR ''-'' then Some NNeg else num_neg c)"
| "num_step NNeg c = num_neg c"
| "num_step NZero c = num_zero c"
| "num_step NInt c = (if digit c then Some NInt else num_zero c)"
| "num_step NDot c = (if digit c then Some NFrac else None)"
| "num_step NFrac c =
     (if digit c then Some NFrac else if c = CHR ''e'' \<or> c = CHR ''E'' then Some NExp else None)"
| "num_step NExp c =
     (if c = CHR ''+'' \<or> c = CHR ''-'' then Some NExpSign else if digit c then Some NExpInt else None)"
| "num_step NExpSign c = (if digit c then Some NExpInt else None)"
| "num_step NExpInt c = (if digit c then Some NExpInt else None)"

fun num_run :: "num_state \<Rightarrow> string \<Rightarrow> bool" where
  "num_run st [] \<longleftrightarrow> st \<in> {NZero, NInt, NFrac, NExpInt}"
| "num_run st (c # s) \<longleftrightarrow> (case num_step st c of None \<Rightarrow> False | Some st' \<Rightarrow> num_run st' s)"

section \<open>Tokens\<close>

datatype json_token =
    OpenArray | CloseArray | OpenObject | CloseObject | Comma | Colon
  | TNull | TBool bool | TNumber string | TString string

text \<open>
  The state between two bytes: between tokens, in a number or a word (with what was read of it), or
  in a string (after a backslash or not).
\<close>

datatype lex_state = LIdle | LNumber string | LWord string | LString string bool

definition punctuation :: "char \<Rightarrow> json_token option" where
  "punctuation c =
     map_of [(CHR ''['', OpenArray), (CHR '']'', CloseArray), (CHR ''{'', OpenObject), (CHR ''}'', CloseObject),
       (CHR '','', Comma), (CHR '':'', Colon)] c"

definition word_token :: "string \<Rightarrow> json_token option" where
  "word_token s = map_of [(''null'', TNull), (''true'', TBool True), (''false'', TBool False)] s"

definition number_char :: "char \<Rightarrow> bool" where
  "number_char c \<longleftrightarrow> digit c \<or> c \<in> {CHR ''-'', CHR ''+'', CHR ''.'', CHR ''e'', CHR ''E''}"

definition word_char :: "char \<Rightarrow> bool" where
  "word_char c \<longleftrightarrow> between (CHR ''a'') (CHR ''z'') c"

definition json_space :: "char \<Rightarrow> bool" where
  "json_space c \<longleftrightarrow> c \<in> {CHR 0x20, CHR 0x09, CHR 0x0D, CHR 0x0A}"

text \<open>A byte between two tokens: the tokens it completes and the state after it.\<close>

definition start_char :: "char \<Rightarrow> (json_token list \<times> lex_state) option" where
  "start_char c =
     (if json_space c then Some ([], LIdle)
      else if c = CHR 0x22 then Some ([], LString [] False)
      else if c = CHR ''-'' \<or> digit c then Some ([], LNumber [c])
      else if word_char c then Some ([], LWord [c])
      else map_option (\<lambda>t. ([t], LIdle)) (punctuation c))"

text \<open>The token that ends where a token of another kind, or the text, ends.\<close>

fun flush :: "lex_state \<Rightarrow> json_token list option" where
  "flush LIdle = Some []"
| "flush (LNumber s) = (if num_run NStart s then Some [TNumber s] else None)"
| "flush (LWord s) = map_option (\<lambda>t. [t]) (word_token s)"
| "flush (LString s esc) = None"

definition flush_start :: "lex_state \<Rightarrow> char \<Rightarrow> (json_token list \<times> lex_state) option" where
  "flush_start st c =
     (case (flush st, start_char c) of
        (Some ts, Some (us, st')) \<Rightarrow> Some (ts @ us, st')
      | _ \<Rightarrow> None)"

fun lex_step :: "lex_state \<Rightarrow> char \<Rightarrow> (json_token list \<times> lex_state) option" where
  "lex_step LIdle c = start_char c"
| "lex_step (LNumber s) c =
     (if number_char c then Some ([], LNumber (s @ [c])) else flush_start (LNumber s) c)"
| "lex_step (LWord s) c =
     (if word_char c then Some ([], LWord (s @ [c])) else flush_start (LWord s) c)"
| "lex_step (LString s esc) c =
     (if \<not> esc \<and> c = CHR 0x22 then map_option (\<lambda>x. ([TString x], LIdle)) (unquote s)
      else Some ([], LString (s @ [c]) (\<not> esc \<and> c = CHR 0x5C)))"

fun lex :: "lex_state \<Rightarrow> string \<Rightarrow> json_token list option" where
  "lex st [] = flush st"
| "lex st (c # s) =
     (case lex_step st c of
        None \<Rightarrow> None
      | Some (ts, st') \<Rightarrow> map_option ((@) ts) (lex st' s))"

section \<open>Values\<close>

datatype json =
    JNull
  | JBool bool
  | JNumber string
  | JString string
  | JArray "json list"
  | JObject "(string \<times> json) list"

text \<open>An open array with the elements read, an open object with the members read and the key whose value comes.\<close>

datatype frame = FArray "json list" | FObject "(string \<times> json) list" string

text \<open>
  The state of the machine: a value is expected, the first value of an array (or its end), a key
  (the first one, or the end of the object, where the flag says so), the colon after a key, or what
  follows a value.
\<close>

datatype parse_state =
    PValue "frame list"
  | PFirst "frame list"
  | PKey "frame list" bool "(string \<times> json) list"
  | PColon "frame list" "(string \<times> json) list" string
  | PAfter "frame list" json

definition maxNestingDepth :: nat where
  "maxNestingDepth = 10000"

fun value_step :: "frame list \<Rightarrow> json_token \<Rightarrow> parse_state option" where
  "value_step fs TNull = Some (PAfter fs JNull)"
| "value_step fs (TBool b) = Some (PAfter fs (JBool b))"
| "value_step fs (TNumber s) = Some (PAfter fs (JNumber s))"
| "value_step fs (TString s) = Some (PAfter fs (JString s))"
| "value_step fs OpenArray = (if length fs < maxNestingDepth then Some (PFirst fs) else None)"
| "value_step fs OpenObject = (if length fs < maxNestingDepth then Some (PKey fs True []) else None)"
| "value_step fs _ = None"

fun after_step :: "frame list \<Rightarrow> json \<Rightarrow> json_token \<Rightarrow> parse_state option" where
  "after_step (FArray js # fs) j Comma = Some (PValue (FArray (js @ [j]) # fs))"
| "after_step (FArray js # fs) j CloseArray = Some (PAfter fs (JArray (js @ [j])))"
| "after_step (FObject ms k # fs) j Comma = Some (PKey fs False (ms @ [(k, j)]))"
| "after_step (FObject ms k # fs) j CloseObject = Some (PAfter fs (JObject (ms @ [(k, j)])))"
| "after_step _ j t = None"

fun parse_step :: "parse_state \<Rightarrow> json_token \<Rightarrow> parse_state option" where
  "parse_step (PValue fs) t = value_step fs t"
| "parse_step (PFirst fs) t = (if t = CloseArray then Some (PAfter fs (JArray [])) else value_step (FArray [] # fs) t)"
| "parse_step (PKey fs first ms) t =
     (case t of
        TString k \<Rightarrow> Some (PColon fs ms k)
      | CloseObject \<Rightarrow> if first then Some (PAfter fs (JObject ms)) else None
      | _ \<Rightarrow> None)"
| "parse_step (PColon fs ms k) t = (if t = Colon then Some (PValue (FObject ms k # fs)) else None)"
| "parse_step (PAfter fs j) t = after_step fs j t"

fun parse_run :: "parse_state \<Rightarrow> json_token list \<Rightarrow> parse_state option" where
  "parse_run st [] = Some st"
| "parse_run st (t # ts) = (case parse_step st t of None \<Rightarrow> None | Some st' \<Rightarrow> parse_run st' ts)"

definition json_parse :: "string \<Rightarrow> json option" where
  "json_parse s =
     (case lex LIdle s of
        None \<Rightarrow> None
      | Some ts \<Rightarrow> (case parse_run (PValue []) ts of Some (PAfter [] j) \<Rightarrow> Some j | _ \<Rightarrow> None))"

section \<open>Unmarshal into a slice of structures\<close>

text \<open>
  Keys are compared without regard to case, in the folding of Unicode: besides the ASCII letters,
  U+017F is an s. (U+212A, the other letter that folds to ASCII, is a k.)
\<close>

fun fold_key :: "string \<Rightarrow> string" where
  "fold_key (a # b # s) =
     (if a = CHR 0xC5 \<and> b = CHR 0xBF then CHR ''s'' # fold_key s
      else (if between (CHR ''A'') (CHR ''Z'') a then char_of (of_char a + 32 :: nat) else a) # fold_key (b # s))"
| "fold_key [a] = [if between (CHR ''A'') (CHR ''Z'') a then char_of (of_char a + 32 :: nat) else a]"
| "fold_key [] = []"

text \<open>\<open>null\<close> leaves a string as it is, a value of another kind is an error.\<close>

definition store_string :: "string \<Rightarrow> json \<Rightarrow> string option" where
  "store_string old j = (case j of JNull \<Rightarrow> Some old | JString s \<Rightarrow> Some s | _ \<Rightarrow> None)"

text \<open>
  A slice of strings with the array it is a window of: a key that comes twice stores into the same
  array, so that \<open>null\<close> in the second value leaves what the first one stored.
\<close>

record string_slice =
  backing :: "string list"
  window :: nat

definition nil_slice :: string_slice where
  "nil_slice = \<lparr>backing = [], window = 0\<rparr>"

definition slice_elems :: "string_slice \<Rightarrow> string list" where
  "slice_elems sl = take (window sl) (backing sl)"

fun store_elems :: "string list \<Rightarrow> json list \<Rightarrow> string list option" where
  "store_elems old [] = Some old"
| "store_elems old (j # js) =
     (case store_string (case old of [] \<Rightarrow> [] | x # xs \<Rightarrow> x) j of
        None \<Rightarrow> None
      | Some s \<Rightarrow> map_option ((#) s) (store_elems (drop 1 old) js))"

definition store_slice :: "string_slice \<Rightarrow> json \<Rightarrow> string_slice option" where
  "store_slice sl j =
     (case j of
        JNull \<Rightarrow> Some nil_slice
      | JArray [] \<Rightarrow> Some nil_slice
      | JArray js \<Rightarrow> map_option (\<lambda>b. \<lparr>backing = b, window = length js\<rparr>) (store_elems (backing sl) js)
      | _ \<Rightarrow> None)"

text \<open>The members of an object, into the string field \<open>key1\<close> and the field of strings \<open>key2\<close>.\<close>

fun store_members ::
    "string \<Rightarrow> string \<Rightarrow> string \<times> string_slice \<Rightarrow> (string \<times> json) list \<Rightarrow> (string \<times> string_slice) option" where
  "store_members key1 key2 (s, sl) [] = Some (s, sl)"
| "store_members key1 key2 (s, sl) ((k, j) # ms) =
     (if fold_key k = key1 then
        (case store_string s j of None \<Rightarrow> None | Some s' \<Rightarrow> store_members key1 key2 (s', sl) ms)
      else if fold_key k = key2 then
        (case store_slice sl j of None \<Rightarrow> None | Some sl' \<Rightarrow> store_members key1 key2 (s, sl') ms)
      else store_members key1 key2 (s, sl) ms)"

definition store_struct :: "string \<Rightarrow> string \<Rightarrow> json \<Rightarrow> (string \<times> string list) option" where
  "store_struct key1 key2 j =
     (case j of
        JNull \<Rightarrow> Some ([], [])
      | JObject ms \<Rightarrow> map_option (\<lambda>(s, sl). (s, slice_elems sl)) (store_members key1 key2 ([], nil_slice) ms)
      | _ \<Rightarrow> None)"

fun store_all :: "('a \<Rightarrow> 'b option) \<Rightarrow> 'a list \<Rightarrow> 'b list option" where
  "store_all f [] = Some []"
| "store_all f (x # xs) =
     (case f x of None \<Rightarrow> None | Some y \<Rightarrow> map_option ((#) y) (store_all f xs))"

text \<open>
  \<open>json.Unmarshal\<close>: the structures as pairs of their two fields, or \<open>None\<close> when it returns an error
  (the text is no JSON, or some value has the wrong kind).
\<close>

definition Unmarshal :: "string \<Rightarrow> string \<Rightarrow> string \<Rightarrow> (string \<times> string list) list option" where
  "Unmarshal key1 key2 text_in =
     (case json_parse text_in of
        Some JNull \<Rightarrow> Some []
      | Some (JArray js) \<Rightarrow> store_all (store_struct key1 key2) js
      | _ \<Rightarrow> None)"

section \<open>What an encoder writes is read back\<close>

text \<open>
  The compact text and the tokens of a value, for values whose strings need no escapes and whose
  numbers are numbers.
\<close>

fun json_render :: "json \<Rightarrow> string"
  and render_elems :: "json list \<Rightarrow> string"
  and render_members :: "(string \<times> json) list \<Rightarrow> string" where
  "json_render JNull = ''null''"
| "json_render (JBool b) = (if b then ''true'' else ''false'')"
| "json_render (JNumber s) = s"
| "json_render (JString s) = CHR 0x22 # s @ [CHR 0x22]"
| "json_render (JArray js) = CHR ''['' # (case js of [] \<Rightarrow> '']'' | j # js' \<Rightarrow> json_render j @ render_elems js')"
| "json_render (JObject ms) =
     CHR ''{'' # (case ms of [] \<Rightarrow> ''}''
       | (k, j) # ms' \<Rightarrow> CHR 0x22 # k @ CHR 0x22 # CHR '':'' # json_render j @ render_members ms')"
| "render_elems [] = '']''"
| "render_elems (j # js) = CHR '','' # json_render j @ render_elems js"
| "render_members [] = ''}''"
| "render_members ((k, j) # ms) = CHR '','' # CHR 0x22 # k @ CHR 0x22 # CHR '':'' # json_render j @ render_members ms"

fun json_tokens :: "json \<Rightarrow> json_token list"
  and elem_tokens :: "json list \<Rightarrow> json_token list"
  and member_tokens :: "(string \<times> json) list \<Rightarrow> json_token list" where
  "json_tokens JNull = [TNull]"
| "json_tokens (JBool b) = [TBool b]"
| "json_tokens (JNumber s) = [TNumber s]"
| "json_tokens (JString s) = [TString s]"
| "json_tokens (JArray js) = OpenArray # (case js of [] \<Rightarrow> [CloseArray] | j # js' \<Rightarrow> json_tokens j @ elem_tokens js')"
| "json_tokens (JObject ms) =
     OpenObject # (case ms of [] \<Rightarrow> [CloseObject]
       | (k, j) # ms' \<Rightarrow> TString k # Colon # json_tokens j @ member_tokens ms')"
| "elem_tokens [] = [CloseArray]"
| "elem_tokens (j # js) = Comma # json_tokens j @ elem_tokens js"
| "member_tokens [] = [CloseObject]"
| "member_tokens ((k, j) # ms) = Comma # TString k # Colon # json_tokens j @ member_tokens ms"

definition plain_char :: "char \<Rightarrow> bool" where
  "plain_char c \<longleftrightarrow> CHR 0x20 \<le> c \<and> c < CHR 0x80 \<and> c \<noteq> CHR 0x22 \<and> c \<noteq> CHR 0x5C"

fun plain_json :: "json \<Rightarrow> bool" where
  "plain_json JNull = True"
| "plain_json (JBool b) = True"
| "plain_json (JNumber s) = num_run NStart s"
| "plain_json (JString s) = list_all plain_char s"
| "plain_json (JArray js) = list_all plain_json js"
| "plain_json (JObject ms) = list_all (\<lambda>(k, j). list_all plain_char k \<and> plain_json j) ms"

fun json_depth :: "json \<Rightarrow> nat" where
  "json_depth (JArray js) = Suc (foldr max (map json_depth js) 0)"
| "json_depth (JObject ms) = Suc (foldr max (map (\<lambda>(k, j). json_depth j) ms) 0)"
| "json_depth _ = 0"

text \<open>Strings.\<close>

lemma map_option_append_Nil [simp]: "map_option ((@) []) m = m"
  by (cases m) simp_all

lemma map_option_append_single [simp]: "map_option ((@) [t]) m = map_option ((#) t) m"
  by (cases m) simp_all

lemma unquote_plain: "list_all plain_char s \<Longrightarrow> unquote s = Some s"
  by (induction s) (auto simp: plain_char_def)

lemma lex_string:
  "list_all plain_char s \<Longrightarrow>
   lex (LString acc False) (s @ CHR 0x22 # rest) =
     (case unquote (acc @ s) of None \<Rightarrow> None | Some x \<Rightarrow> map_option ((#) (TString x)) (lex LIdle rest))"
proof (induction s arbitrary: acc)
  case Nil
  then show ?case by (cases "unquote acc") (auto simp: fun_eq_iff intro: option.map_cong)
next
  case (Cons c s)
  then show ?case by (auto simp: plain_char_def split: option.split)
qed

lemma lex_quoted:
  "list_all plain_char s \<Longrightarrow>
   lex LIdle (CHR 0x22 # s @ CHR 0x22 # rest) = map_option ((#) (TString s)) (lex LIdle rest)"
  by (auto simp: start_char_def json_space_def lex_string unquote_plain split: option.split)

text \<open>Numbers and words end where something else begins.\<close>

lemma num_step_char: "num_step st c = Some st' \<Longrightarrow> number_char c"
  by (cases st) (auto simp: num_zero_def num_neg_def number_char_def digit_def between_def less_eq_char_def split: if_splits)

lemma num_run_chars: "num_run st s \<Longrightarrow> list_all number_char s"
  by (induction st s rule: num_run.induct) (auto split: option.splits dest: num_step_char)

definition ends_token :: "string \<Rightarrow> bool" where
  "ends_token s \<longleftrightarrow> s = [] \<or> hd s \<in> {CHR '','', CHR '']'', CHR ''}''}"

lemma lex_flush:
  assumes "flush st = Some ts" "ends_token s" "\<And>x. st \<noteq> LString x False" "\<And>x. st \<noteq> LString x True" "st \<noteq> LIdle"
  shows "lex st s = map_option ((@) ts) (lex LIdle s)"
proof (cases s)
  case Nil
  with assms(1) show ?thesis by simp
next
  case (Cons c s')
  with assms(2) have c: "c \<in> {CHR '','', CHR '']'', CHR ''}''}" by (simp add: ends_token_def)
  then have n: "\<not> number_char c" "\<not> word_char c"
    by (auto simp: number_char_def word_char_def digit_def between_def less_eq_char_def)
  have "lex_step st c = flush_start st c"
    using assms(3-5) n by (cases st) auto
  with Cons assms(1) show ?thesis
    by (cases "start_char c"; cases "lex (snd (the (start_char c))) s'") (auto simp: flush_start_def)
qed

lemma lex_number_chars:
  "list_all number_char s \<Longrightarrow> lex (LNumber acc) (s @ rest) = lex (LNumber (acc @ s)) rest"
  by (induction s arbitrary: acc) (auto simp:)

lemma lex_word_chars:
  "list_all word_char s \<Longrightarrow> lex (LWord acc) (s @ rest) = lex (LWord (acc @ s)) rest"
  by (induction s arbitrary: acc) (auto simp:)

lemma start_number:
  assumes "num_run NStart s"
  obtains c s' where "s = c # s'" "c = CHR ''-'' \<or> digit c"
proof -
  from assms obtain c s' where s: "s = c # s'" by (cases s) auto
  with assms have "num_step NStart c \<noteq> None" by (auto split: option.splits)
  then have "c = CHR ''-'' \<or> digit c"
    by (auto simp: num_neg_def digit_def between_def less_eq_char_def split: if_splits)
  with s that show ?thesis by blast
qed

lemma digit_no_space: "digit c \<Longrightarrow> \<not> json_space c \<and> c \<noteq> CHR 0x22"
  by (auto simp: json_space_def digit_def between_def less_eq_char_def)

lemma lex_number:
  assumes "num_run NStart s" "ends_token rest"
  shows "lex LIdle (s @ rest) = map_option ((#) (TNumber s)) (lex LIdle rest)"
proof -
  obtain c s' where s: "s = c # s'" "c = CHR ''-'' \<or> digit c" using assms(1) by (rule start_number)
  then have "start_char c = Some ([], LNumber [c])"
    using digit_no_space [of c] by (auto simp: start_char_def json_space_def)
  moreover have "list_all number_char s'" using num_run_chars [OF assms(1)] s by simp
  ultimately have "lex LIdle (s @ rest) = lex (LNumber s) rest"
    using s by (simp add: lex_number_chars)
  also have "\<dots> = map_option ((@) [TNumber s]) (lex LIdle rest)"
    by (rule lex_flush) (use assms in auto)
  finally show ?thesis by (simp add: fun_eq_iff)
qed

lemma lex_word:
  assumes "word_token (c # w) = Some t" "list_all word_char (c # w)" "ends_token rest"
  shows "lex LIdle (c # w @ rest) = map_option ((#) t) (lex LIdle rest)"
proof -
  have "start_char c = Some ([], LWord [c])"
    using assms(2) by (auto simp: start_char_def json_space_def word_char_def digit_def between_def less_eq_char_def)
  then have "lex LIdle (c # w @ rest) = lex (LWord (c # w)) rest"
    using assms(2) by (simp add: lex_word_chars)
  also have "\<dots> = map_option ((@) [t]) (lex LIdle rest)"
    by (rule lex_flush) (use assms in auto)
  finally show ?thesis by (simp add: fun_eq_iff)
qed

lemma lex_punctuation:
  "punctuation c = Some t \<Longrightarrow> lex LIdle (c # rest) = map_option ((#) t) (lex LIdle rest)"
  by (auto simp: punctuation_def start_char_def json_space_def word_char_def digit_def between_def less_eq_char_def
      split: option.splits if_splits)

text \<open>The text of a value gives its tokens.\<close>

lemma ends_token_elems [simp]: "ends_token (render_elems js @ s)"
  by (cases js) (auto simp: ends_token_def)

lemma ends_token_members [simp]: "ends_token (render_members ms @ s)"
  by (cases ms rule: list.exhaust) (auto simp: ends_token_def)

lemmas lex_punctuations =
  lex_punctuation [of "CHR ''[''" OpenArray] lex_punctuation [of "CHR '']''" CloseArray]
  lex_punctuation [of "CHR ''{''" OpenObject] lex_punctuation [of "CHR ''}''" CloseObject]
  lex_punctuation [of "CHR '',''" Comma] lex_punctuation [of "CHR '':''" Colon]

lemma lex_words:
  "ends_token s \<Longrightarrow> lex LIdle (CHR ''n'' # CHR ''u'' # CHR ''l'' # CHR ''l'' # s) =
     map_option ((#) TNull) (lex LIdle s)"
  "ends_token s \<Longrightarrow> lex LIdle (CHR ''t'' # CHR ''r'' # CHR ''u'' # CHR ''e'' # s) =
     map_option ((#) (TBool True)) (lex LIdle s)"
  "ends_token s \<Longrightarrow> lex LIdle (CHR ''f'' # CHR ''a'' # CHR ''l'' # CHR ''s'' # CHR ''e'' # s) =
     map_option ((#) (TBool False)) (lex LIdle s)"
  using lex_word [of "CHR ''n''" "''ull''" TNull s] lex_word [of "CHR ''t''" "''rue''" "TBool True" s]
    lex_word [of "CHR ''f''" "''alse''" "TBool False" s]
  by (simp_all add: word_token_def word_char_def between_def less_eq_char_def del: lex.simps)

lemma lex_render:
  "plain_json j \<Longrightarrow> ends_token s \<Longrightarrow> lex LIdle s = Some ts \<Longrightarrow>
   lex LIdle (json_render j @ s) = Some (json_tokens j @ ts)"
  "list_all plain_json js \<Longrightarrow> lex LIdle s = Some ts \<Longrightarrow>
   lex LIdle (render_elems js @ s) = Some (elem_tokens js @ ts)"
  "list_all (\<lambda>(k, j). list_all plain_char k \<and> plain_json j) ms \<Longrightarrow> lex LIdle s = Some ts \<Longrightarrow>
   lex LIdle (render_members ms @ s) = Some (member_tokens ms @ ts)"
proof (induction j and js and ms arbitrary: s ts and s ts and s ts rule: json_render_render_elems_render_members.induct)
  case (5 js)
  then show ?case by (cases js) (simp_all add: lex_punctuations punctuation_def del: lex.simps)
next
  case (6 ms)
  then show ?case
    by (cases ms) (auto simp add: lex_punctuations lex_quoted punctuation_def simp del: lex.simps split: prod.splits)
qed (simp_all add: lex_punctuations lex_quoted lex_number lex_words punctuation_def del: lex.simps)

text \<open>The tokens of a value give the value, within the limit of nesting.\<close>

lemma parse_run_append:
  "parse_run st (ts @ us) = (case parse_run st ts of None \<Rightarrow> None | Some st' \<Rightarrow> parse_run st' us)"
  by (induction ts arbitrary: st) (auto split: option.split)

abbreviation depth_of :: "json list \<Rightarrow> nat" where
  "depth_of js \<equiv> foldr max (map json_depth js) 0"

lemma parse_first:
  "parse_step (PFirst fs) t = (if t = CloseArray then parse_step (PFirst fs) t else parse_step (PValue (FArray [] # fs)) t)"
  by simp

lemma json_tokens_head: "\<exists>t ts. json_tokens j = t # ts \<and> t \<noteq> CloseArray"
  by (cases j) (auto split: list.split)

lemma parse_run_first:
  "parse_run (PFirst fs) (json_tokens j @ ts) = parse_run (PValue (FArray [] # fs)) (json_tokens j @ ts)"
  using json_tokens_head [of j] by auto

lemma parse_tokens:
  "length fs + json_depth j \<le> maxNestingDepth \<Longrightarrow>
   parse_run (PValue fs) (json_tokens j @ ts) = parse_run (PAfter fs j) ts"
  "length fs + depth_of js < maxNestingDepth \<Longrightarrow>
   parse_run (PAfter (FArray ks # fs) j0) (elem_tokens js @ ts) = parse_run (PAfter fs (JArray (ks @ j0 # js))) ts"
  "length fs + depth_of (map snd ms) < maxNestingDepth \<Longrightarrow>
   parse_run (PAfter (FObject ns k0 # fs) j0) (member_tokens ms @ ts)
     = parse_run (PAfter fs (JObject (ns @ (k0, j0) # ms))) ts"
proof (induction j and js and ms arbitrary: fs ts and fs ts ks j0 and fs ts ns k0 j0
    rule: json_tokens_elem_tokens_member_tokens.induct)
  case (5 js)
  then show ?case by (cases js) (simp_all add: parse_run_first)
next
  case (6 ms)
  then show ?case by (cases ms) (auto simp: case_prod_unfold comp_def split: prod.splits)
qed (simp_all)

theorem json_parse_render:
  assumes "plain_json j" "json_depth j \<le> maxNestingDepth"
  shows "json_parse (json_render j) = Some j"
  using lex_render(1) [OF assms(1), of "[]" "[]"] parse_tokens(1) [of "[]" j "[]"] assms(2)
  by (simp add: json_parse_def ends_token_def)

text \<open>A slice of structures as an encoder writes it.\<close>

definition struct_json :: "string \<Rightarrow> string \<Rightarrow> string \<times> string list \<Rightarrow> json" where
  "struct_json key1 key2 x = JObject [(key1, JString (fst x)), (key2, JArray (map JString (snd x)))]"

lemma store_elems_strings: "length old \<le> length xs \<Longrightarrow> store_elems old (map JString xs) = Some xs"
  by (induction xs arbitrary: old) (auto simp: store_string_def Suc_le_eq split: list.split)

lemma store_slice_strings:
  "\<exists>sl. store_slice nil_slice (JArray (map JString xs)) = Some sl \<and> slice_elems sl = xs"
proof (cases xs)
  case Nil
  then show ?thesis by (simp add: store_slice_def slice_elems_def nil_slice_def)
next
  case (Cons x ys)
  with store_elems_strings [of "[]" xs] show ?thesis
    by (auto simp: store_slice_def slice_elems_def nil_slice_def simp del: store_elems.simps)
qed

lemma store_all_map: "(\<And>x. x \<in> set xs \<Longrightarrow> f (g x) = Some x) \<Longrightarrow> store_all f (map g xs) = Some xs"
  by (induction xs) auto

lemma foldr_max_zero [simp]: "foldr max (map (\<lambda>x. 0) xs) (0::nat) = 0"
  by (induction xs) auto

lemma depth_of_strings [simp]: "depth_of (map JString xs) = 0"
  by (induction xs) auto

lemma depth_of_structs: "depth_of (map (struct_json key1 key2) xs) \<le> 2"
  by (induction xs) (auto simp: struct_json_def comp_def)

definition plain_struct :: "string \<times> string list \<Rightarrow> bool" where
  "plain_struct x \<longleftrightarrow> list_all plain_char (fst x) \<and> list_all (list_all plain_char) (snd x)"

lemma Unmarshal_render:
  assumes keys: "fold_key key1 = key1" "fold_key key2 = key2" "key1 \<noteq> key2"
    "list_all plain_char key1" "list_all plain_char key2"
    and plain: "list_all plain_struct xs"
  shows "Unmarshal key1 key2 (json_render (JArray (map (struct_json key1 key2) xs))) = Some xs"
proof -
  have "plain_json (JArray (map (struct_json key1 key2) xs))"
    using keys plain by (auto simp: struct_json_def list_all_iff plain_struct_def)
  moreover have "json_depth (JArray (map (struct_json key1 key2) xs)) \<le> maxNestingDepth"
    using depth_of_structs [of key1 key2 xs] by (simp add: maxNestingDepth_def comp_def)
  ultimately have parse: "json_parse (json_render (JArray (map (struct_json key1 key2) xs)))
      = Some (JArray (map (struct_json key1 key2) xs))"
    by (rule json_parse_render)
  have "store_struct key1 key2 (struct_json key1 key2 x) = Some x" for x
    using store_slice_strings [of "snd x"] keys
    by (auto simp: store_struct_def struct_json_def store_string_def)
  then have "store_all (store_struct key1 key2) (map (struct_json key1 key2) xs) = Some xs"
    by (intro store_all_map)
  with parse show ?thesis by (simp add: Unmarshal_def)
qed

end
