(* ===== verification/Certificate_Ctrl.thy ===== *)
theory Certificate_Ctrl
  imports Sample_World Utils Go_Netip Go_Json
begin

text \<open>
  The node certificate controller: \<^verbatim>\<open>src/internal/controller/node_certificate_controller.go\<close>. For every
  node it applies a cert-manager Certificate that names the host and its routable addresses, those
  of the status of the node and those of the interfaces in its Calico annotation. A Go map that is
  used as a set is a list without duplicates (its iteration order does not matter, the code sorts).
  A compiled regular expression is the predicate of the texts it matches; the compiler is an argument.
\<close>

abbreviation NodeCertificateControllerName :: string where "NodeCertificateControllerName \<equiv> ''certificate''"
abbreviation annotationCalicoInterfaces :: string where "annotationCalicoInterfaces \<equiv> ''projectcalico.org/Interfaces''"

record calicoNodeInterface =
  ci_Name :: string
  ci_Addresses :: "string list"

record NodeCertificateController =
  cc_namespace :: string
  cc_issuerName :: string
  cc_includeInterfaceNames :: "(string \<Rightarrow> bool) option"
  cc_excludeInterfaceNames :: "(string \<Rightarrow> bool) option"

section \<open>Addresses\<close>

text \<open>The address (\<open>None\<close> for the zero one) and whether it is to be used.\<close>

definition parseRoutableIP :: "string \<Rightarrow> Addr option \<times> bool" where
  "parseRoutableIP address =
     (case ParseAddr address of
        None \<Rightarrow> (None, False)
      | Some ip \<Rightarrow>
          if Zone ip \<noteq> [] then (None, False)
          else let ip' = Unmap ip in (Some ip', IsGlobalUnicast ip'))"

definition add_address :: "string \<Rightarrow> string list \<Rightarrow> string list" where
  "add_address address ips =
     (case parseRoutableIP address of
        (Some ip, True) \<Rightarrow> List.insert (Addr_String ip) ips
      | _ \<Rightarrow> ips)"

text \<open>\<open>json.Unmarshal\<close> of the annotation.\<close>

definition unmarshal_interfaces :: "string \<Rightarrow> calicoNodeInterface list option" where
  "unmarshal_interfaces raw =
     map_option (map (\<lambda>(n, as). \<lparr>ci_Name = n, ci_Addresses = as\<rparr>)) (Unmarshal ''name'' ''addresses'' raw)"

text \<open>Whether the loop goes on to the addresses of an interface.\<close>

definition admits :: "NodeCertificateController \<Rightarrow> string \<Rightarrow> bool" where
  "admits r n =
     (if (case cc_includeInterfaceNames r of None \<Rightarrow> False | Some m \<Rightarrow> \<not> m n) then False
      else if (case cc_excludeInterfaceNames r of None \<Rightarrow> False | Some m \<Rightarrow> m n) then False
      else True)"

fun add_interfaces :: "NodeCertificateController \<Rightarrow> calicoNodeInterface list \<Rightarrow> string list \<Rightarrow> string list" where
  "add_interfaces r [] ips = ips"
| "add_interfaces r (iface # rest) ips =
     (if admits r (ci_Name iface) then add_interfaces r rest (fold add_address (ci_Addresses iface) ips)
      else add_interfaces r rest ips)"

definition addInterfaceAddresses :: "NodeCertificateController \<Rightarrow> node \<Rightarrow> string list \<Rightarrow> string list" where
  "addInterfaceAddresses r nd ips =
     (let rawAnnotation = map_get (Annotations (node_Meta nd)) annotationCalicoInterfaces in
      if rawAnnotation = [] then ips
      else
        (case unmarshal_interfaces rawAnnotation of
           None \<Rightarrow> ips
         | Some interfaces \<Rightarrow> add_interfaces r interfaces ips))"

section \<open>The certificate\<close>

definition getSecretAndCertName :: "string \<Rightarrow> string \<times> string" where
  "getSecretAndCertName name = (let certName = ''libvirt-'' @ name in (''tls-'' @ certName, certName))"

text \<open>The loop over the addresses in the status: the addresses and the names collected.\<close>

fun collect_addresses :: "node_address list \<Rightarrow> string list \<Rightarrow> string list \<Rightarrow> string list \<times> string list" where
  "collect_addresses [] ips dns = (ips, dns)"
| "collect_addresses (addr # rest) ips dns =
     (if na_Address addr = [] then collect_addresses rest ips dns
      else if na_Type addr \<in> {''Hostname'', ''InternalDNS'', ''ExternalDNS''} then
        collect_addresses rest ips (List.insert (na_Address addr) dns)
      else if na_Type addr \<in> {''InternalIP'', ''ExternalIP''} then
        collect_addresses rest (add_address (na_Address addr) ips) dns
      else collect_addresses rest ips dns)"

abbreviation day_ns :: int where "day_ns \<equiv> 24 * 3600 * second_ns"

definition node_certificate ::
    "NodeCertificateController \<Rightarrow> node \<Rightarrow> string \<Rightarrow> string list \<Rightarrow> string list \<Rightarrow> certificate" where
  "node_certificate r nd computeHost ipAddresses dnsNames =
     (case getSecretAndCertName (Name (node_Meta nd)) of
        (secretName, certName) \<Rightarrow>
          \<lparr>crt_Name = certName, crt_Namespace = cc_namespace r,
           crt_OwnerReferences =
             [\<lparr>or_APIVersion = ''v1'', or_Kind = ''Node'', or_Name = Name (node_Meta nd), or_UID = UID (node_Meta nd),
               or_Controller = None, or_BlockOwnerDeletion = None\<rparr>],
           crt_SecretName = secretName, crt_KeyAlgorithm = ''RSA'', crt_KeyEncoding = ''PKCS1'', crt_KeySize = 4096,
           crt_Duration = 47 * day_ns, crt_RenewBefore = 37 * day_ns, crt_IsCA = False,
           crt_Usages = [''server auth'', ''client auth'', ''cert sign'', ''digital signature'', ''key encipherment''],
           crt_Organizations = [''nova''], crt_CommonName = computeHost, crt_DNSNames = dnsNames,
           crt_IPAddresses = ipAddresses, crt_IssuerName = cc_issuerName r, crt_IssuerKind = ''Issuer'',
           crt_IssuerGroup = ''cert-manager.io''\<rparr>)"

definition ensureCertificate ::
    "kube \<Rightarrow> NodeCertificateController \<Rightarrow> node \<Rightarrow> string \<Rightarrow> trace \<Rightarrow> go_error option \<times> trace" where
  "ensureCertificate K r nd computeHost tr =
     (case collect_addresses (node_Addresses nd) [] [computeHost] of
        (ipAddressSet, dnsNameSet) \<Rightarrow>
          let ipAddresses = slices_Sort (addInterfaceAddresses r nd ipAddressSet);
              dnsNames = slices_Sort dnsNameSet;
              crt = node_certificate r nd computeHost ipAddresses dnsNames in
          ask (k_apply_Certificate K crt) (Kube (ApplyCertificate crt NodeCertificateControllerName)) tr)"

section \<open>Reconcile\<close>

definition Certificate_Reconcile ::
    "lib \<Rightarrow> kube \<Rightarrow> NodeCertificateController \<Rightarrow> string \<Rightarrow> trace \<Rightarrow> reconcile_result \<times> trace" where
  "Certificate_Reconcile L K r name tr =
     (case ask (k_get_Node K name) (Kube (GetNode name)) tr of
        (Inl err, tr1) \<Rightarrow> ((no_requeue, IgnoreNotFound L err), tr1)
      | (Inr nd, tr1) \<Rightarrow>
          (case ensureCertificate K r nd (Name (node_Meta nd)) tr1 of
             (Some err, tr2) \<Rightarrow> ((no_requeue, Some (Errorf ''could not apply certificate: '' err)), tr2)
           | (None, tr2) \<Rightarrow> (reconcile_ok, tr2)))"

section \<open>Set-up\<close>

text \<open>
  The part of \<open>SetupWithManager\<close> before the registration: the patterns are compiled and stored with
  the namespace and the issuer. \<open>compile\<close> is \<open>regexp.Compile\<close>, \<open>quote\<close> the verb \<open>%q\<close>.
\<close>

definition Certificate_Setup ::
    "(string \<Rightarrow> go_error + (string \<Rightarrow> bool)) \<Rightarrow> (string \<Rightarrow> string) \<Rightarrow> NodeCertificateController \<Rightarrow> string \<Rightarrow> string
     \<Rightarrow> string \<Rightarrow> string \<Rightarrow> go_error option \<times> NodeCertificateController" where
  "Certificate_Setup compile quote r namespace issuerName includeRegex excludeRegex =
     (case (if includeRegex = [] then Inr r
            else (case compile includeRegex of
                    Inl err \<Rightarrow> Inl (Errorf (''invalid interface include regex '' @ quote includeRegex @ '': '') err)
                  | Inr m \<Rightarrow> Inr (r\<lparr>cc_includeInterfaceNames := Some m\<rparr>))) of
        Inl err \<Rightarrow> (Some err, r)
      | Inr r1 \<Rightarrow>
          (case (if excludeRegex = [] then Inr r1
                 else (case compile excludeRegex of
                         Inl err \<Rightarrow> Inl (Errorf (''invalid interface exclude regex '' @ quote excludeRegex @ '': '') err)
                       | Inr m \<Rightarrow> Inr (r1\<lparr>cc_excludeInterfaceNames := Some m\<rparr>))) of
             Inl err \<Rightarrow> (Some err, r1)
           | Inr r2 \<Rightarrow> (None, r2\<lparr>cc_namespace := namespace, cc_issuerName := issuerName\<rparr>)))"

section \<open>What is parsed has the right shape\<close>

text \<open>
  In \<open>parse_groups\<close> there are never more than eight groups, and the ellipsis is among them: a turn
  ends with one or two groups more, or goes on with one more.
\<close>

lemma parse_groups_turn:
  assumes "parse_groups s gs e = Some r" "length gs < 8"
  obtains (ends) xs e' where "r = (gs @ xs, e', [])" "length xs \<le> 8 - length gs" "xs \<noteq> []" "e' \<in> {e, Some (length gs + 1)}"
  | (goes) s' g e' where "parse_groups s' (gs @ [g]) e' = Some r" "e' \<in> {e, Some (length gs + 1)}"
proof -
  from assms obtain off acc t where h: "hex_group s 0 0 = Some (off, acc, t)"
    by (auto simp: parse_groups.simps [of s] split: option.splits)
  from assms(1) [unfolded parse_groups.simps [of s]] h assms(2) show ?thesis
    by (auto split: option.splits if_splits list.splits intro: ends goes)
qed

definition groups_shape :: "16 word list \<Rightarrow> nat option \<Rightarrow> bool" where
  "groups_shape gs e \<longleftrightarrow> length gs \<le> 8 \<and> (\<forall>x. e = Some x \<longrightarrow> x \<le> length gs)"

lemma parse_groups_shape:
  "parse_groups s gs e = Some (gs', e', rest) \<Longrightarrow> groups_shape gs e \<Longrightarrow> groups_shape gs' e'"
proof (induction "8 - length gs" arbitrary: s gs e)
  case 0
  then show ?case by (auto simp: parse_groups.simps [of s])
next
  case (Suc n)
  then have "length gs < 8" by simp
  with Suc.prems(1) show ?case
  proof (cases rule: parse_groups_turn)
    case (ends xs f)
    with Suc.prems(2) show ?thesis by (cases xs) (auto simp: groups_shape_def)
  next
    case (goes s' g f)
    with Suc.prems(2) \<open>length gs < 8\<close> have "groups_shape (gs @ [g]) f" by (auto simp: groups_shape_def)
    from Suc.hyps(1) [OF _ goes(1) this] Suc.hyps(2) show ?thesis by simp
  qed
qed

lemma ParseAddr_shape: "ParseAddr s = Some (Addr6 gs zone) \<Longrightarrow> length gs = 8"
proof -
  assume "ParseAddr s = Some (Addr6 gs zone)"
  then have p: "parseIPv6 s = Some (Addr6 gs zone)"
    by (auto simp: ParseAddr_def parseIPv4_def split: option.splits if_splits list.splits)
  obtain t z found where cut: "strings_Cut s (CHR ''%'') = (t, z, found)" by (metis surj_pair)
  define u e where "u = (if take 2 t = ''::'' then drop 2 t else t)" "e = (if take 2 t = ''::'' then Some (0::nat) else None)"
  show ?thesis
  proof (cases "take 2 t = ''::'' \<and> length t = 2")
    case True
    with p cut show ?thesis by (auto simp: parseIPv6_def split: if_splits)
  next
    case False
    with p cut obtain hs e' rest where g: "parse_groups u [] e = Some (hs, e', rest)"
      by (auto simp: parseIPv6_def u_e_def Let_def split: if_splits option.splits)
    have "groups_shape hs e'"
      by (rule parse_groups_shape [OF g]) (simp add: u_e_def groups_shape_def)
    with p cut False g show ?thesis
      by (auto simp: parseIPv6_def u_e_def groups_shape_def Let_def split: if_splits option.splits)
  qed
qed

section \<open>Addresses in the certificate\<close>

lemma routable_canonical:
  assumes "parseRoutableIP s = (Some ip, True)"
  shows "ParseAddr (Addr_String ip) = Some ip" "Zone ip = []" "\<not> Is4In6 ip" "IsGlobalUnicast ip" "Unmap ip = ip"
proof -
  from assms obtain ip0 where ip0: "ParseAddr s = Some ip0" "Zone ip0 = []" "ip = Unmap ip0" and "IsGlobalUnicast ip"
    by (auto simp: parseRoutableIP_def Let_def split: option.splits if_splits)
  moreover have "ParseAddr (Addr_String ip) = Some ip \<and> Zone ip = [] \<and> \<not> Is4In6 ip \<and> Unmap ip = ip"
  proof (cases ip0)
    case (Addr4 a b c d)
    with ip0 ParseAddr_IPv4 show ?thesis by (simp add: Unmap_def Zone_def Is4In6_def)
  next
    case (Addr6 gs zone)
    with ip0 have "length gs = 8" "zone = []" by (auto dest: ParseAddr_shape simp: Zone_def)
    with ip0 Addr6 ParseAddr_IPv6 [of gs] show ?thesis
      by (cases "Is4In6 ip0") (simp_all add: Unmap_def Zone_def ParseAddr_IPv4 Is4In6_def)
  qed
  ultimately show "ParseAddr (Addr_String ip) = Some ip" "Zone ip = []" "\<not> Is4In6 ip" "IsGlobalUnicast ip" "Unmap ip = ip"
    by simp_all
qed

text \<open>The texts of the routable addresses among some texts.\<close>

definition routable_texts :: "string set \<Rightarrow> string set" where
  "routable_texts A = {Addr_String ip |ip. \<exists>s \<in> A. parseRoutableIP s = (Some ip, True)}"

lemma routable_texts_empty [simp]: "routable_texts {} = {}"
  by (simp add: routable_texts_def)

lemma routable_texts_Un: "routable_texts (A \<union> B) = routable_texts A \<union> routable_texts B"
  by (auto simp: routable_texts_def)

definition routable_text :: "string \<Rightarrow> string set" where
  "routable_text s = (case parseRoutableIP s of (Some ip, True) \<Rightarrow> {Addr_String ip} | _ \<Rightarrow> {})"

lemma routable_texts_insert [simp]: "routable_texts (insert s A) = routable_text s \<union> routable_texts A"
  by (auto simp: routable_texts_def routable_text_def split: option.splits bool.splits prod.splits)

lemma set_add_address: "set (add_address s ips) = set ips \<union> routable_text s"
  by (auto simp: add_address_def routable_text_def split: option.splits bool.splits prod.splits)

lemma distinct_add_address: "distinct ips \<Longrightarrow> distinct (add_address s ips)"
  by (auto simp: add_address_def split: option.splits bool.splits prod.splits)

lemma set_fold_add_address: "set (fold add_address ss ips) = set ips \<union> routable_texts (set ss)"
  by (induction ss arbitrary: ips) (auto simp: set_add_address)

lemma distinct_fold_add_address: "distinct ips \<Longrightarrow> distinct (fold add_address ss ips)"
  by (induction ss arbitrary: ips) (auto simp: distinct_add_address)

definition interface_texts :: "NodeCertificateController \<Rightarrow> calicoNodeInterface list \<Rightarrow> string set" where
  "interface_texts r ifs = {s. \<exists>i \<in> set ifs. admits r (ci_Name i) \<and> s \<in> set (ci_Addresses i)}"

lemma interface_texts_Cons:
  "interface_texts r (i # ifs) = (if admits r (ci_Name i) then set (ci_Addresses i) else {}) \<union> interface_texts r ifs"
  by (auto simp: interface_texts_def)

lemma interface_texts_Nil [simp]: "interface_texts r [] = {}"
  by (simp add: interface_texts_def)

lemma add_interfaces_result:
  "set (add_interfaces r ifs ips) = set ips \<union> routable_texts (interface_texts r ifs)"
  "distinct ips \<Longrightarrow> distinct (add_interfaces r ifs ips)"
  by (induction r ifs ips rule: add_interfaces.induct)
    (auto simp: set_fold_add_address distinct_fold_add_address interface_texts_Cons routable_texts_Un)

text \<open>The interfaces the annotation of a node lists: none if it is absent or cannot be read.\<close>

definition annotated_interfaces :: "node \<Rightarrow> calicoNodeInterface list" where
  "annotated_interfaces nd =
     (case unmarshal_interfaces (map_get (Annotations (node_Meta nd)) annotationCalicoInterfaces) of
        None \<Rightarrow> [] | Some ifs \<Rightarrow> ifs)"

lemma unmarshal_empty [simp]: "unmarshal_interfaces [] = None"
  by (simp add: unmarshal_interfaces_def Unmarshal_def json_parse_def)

lemma addInterfaceAddresses_eq: "addInterfaceAddresses r nd ips = add_interfaces r (annotated_interfaces nd) ips"
  by (auto simp: addInterfaceAddresses_def annotated_interfaces_def Let_def split: option.split)

definition status_texts :: "string set \<Rightarrow> node_address list \<Rightarrow> string set" where
  "status_texts types as = {na_Address a |a. a \<in> set as \<and> na_Type a \<in> types \<and> na_Address a \<noteq> []}"

lemma status_texts_Cons:
  "status_texts T (a # as) = (if na_Type a \<in> T \<and> na_Address a \<noteq> [] then {na_Address a} else {}) \<union> status_texts T as"
  by (auto simp: status_texts_def)

lemma status_texts_Nil [simp]: "status_texts T [] = {}"
  by (simp add: status_texts_def)

abbreviation ip_types :: "string set" where "ip_types \<equiv> {''InternalIP'', ''ExternalIP''}"
abbreviation dns_types :: "string set" where "dns_types \<equiv> {''Hostname'', ''InternalDNS'', ''ExternalDNS''}"

lemma collect_addresses_result:
  "collect_addresses as ips dns = (ips', dns') \<Longrightarrow> distinct ips \<Longrightarrow> distinct dns \<Longrightarrow>
   set ips' = set ips \<union> routable_texts (status_texts ip_types as) \<and> set dns' = set dns \<union> status_texts dns_types as
   \<and> distinct ips' \<and> distinct dns'"
  by (induction as ips dns rule: collect_addresses.induct)
    (auto simp: set_add_address distinct_add_address status_texts_Cons routable_texts_Un split: if_splits)

section \<open>What Reconcile does\<close>

text \<open>The addresses of a node that the certificate is to cover, as they stand in the node.\<close>

definition address_texts :: "NodeCertificateController \<Rightarrow> node \<Rightarrow> string set" where
  "address_texts r nd = status_texts ip_types (node_Addresses nd) \<union> interface_texts r (annotated_interfaces nd)"

text \<open>The certificate of a node: the one \<open>ensureCertificate\<close> applies.\<close>

definition desired_certificate :: "NodeCertificateController \<Rightarrow> node \<Rightarrow> certificate" where
  "desired_certificate r nd =
     (case collect_addresses (node_Addresses nd) [] [Name (node_Meta nd)] of
        (ips, dns) \<Rightarrow>
          node_certificate r nd (Name (node_Meta nd)) (sort (add_interfaces r (annotated_interfaces nd) ips)) (sort dns))"

lemma Certificate_Reconcile_eq:
  "Certificate_Reconcile L K r name tr =
     (case k_get_Node K name tr of
        Inl err \<Rightarrow> ((no_requeue, IgnoreNotFound L err), tr @ [Kube (GetNode name)])
      | Inr nd \<Rightarrow>
          ((no_requeue, map_option (Errorf ''could not apply certificate: '')
              (k_apply_Certificate K (desired_certificate r nd) (tr @ [Kube (GetNode name)]))),
           tr @ [Kube (GetNode name), Kube (ApplyCertificate (desired_certificate r nd) NodeCertificateControllerName)]))"
  by (auto simp: Certificate_Reconcile_def ensureCertificate_def desired_certificate_def addInterfaceAddresses_eq ask_def
      Let_def split: sum.split option.split prod.split)

lemma desired_certificate_names:
  "crt_Name (desired_certificate r nd) = ''libvirt-'' @ Name (node_Meta nd)"
  "crt_SecretName (desired_certificate r nd) = ''tls-libvirt-'' @ Name (node_Meta nd)"
  "crt_Namespace (desired_certificate r nd) = cc_namespace r"
  "crt_IssuerName (desired_certificate r nd) = cc_issuerName r"
  "crt_CommonName (desired_certificate r nd) = Name (node_Meta nd)"
  by (simp_all add: desired_certificate_def node_certificate_def getSecretAndCertName_def Let_def split: prod.split)

lemma desired_certificate_sets:
  "set (crt_DNSNames (desired_certificate r nd)) = insert (Name (node_Meta nd)) (status_texts dns_types (node_Addresses nd))"
  "set (crt_IPAddresses (desired_certificate r nd)) = routable_texts (address_texts r nd)"
  and desired_certificate_sorted:
  "sorted (crt_DNSNames (desired_certificate r nd)) \<and> distinct (crt_DNSNames (desired_certificate r nd))"
  "sorted (crt_IPAddresses (desired_certificate r nd)) \<and> distinct (crt_IPAddresses (desired_certificate r nd))"
  using collect_addresses_result [of "node_Addresses nd" "[]" "[Name (node_Meta nd)]"]
  by (simp_all add: desired_certificate_def node_certificate_def getSecretAndCertName_def address_texts_def
      routable_texts_Un add_interfaces_result split: prod.splits)

section \<open>A sample node\<close>

text \<open>
  A node with an address and a name in its status and four addresses of an interface in its
  annotation, of which one is routable; the other interface is not selected.
\<close>

definition sample_interfaces :: "(string \<times> string list) list" where
  "sample_interfaces =
     [(''vlan_100'', [''not-an-ip'', ''fe80::1'', ''127.0.0.1'', ''::ffff:a0a:5'']), (''enp1s0'', [''10.0.0.9''])]"

definition sample_cert_node :: node where
  "sample_cert_node =
     \<lparr>node_Meta = (empty_meta ''node1'')\<lparr>Annotations := [annotationCalicoInterfaces \<mapsto>
        json_render (JArray (map (struct_json ''name'' ''addresses'') sample_interfaces))]\<rparr>,
      node_Taints = [], node_Conditions = [],
      node_Addresses = [\<lparr>na_Type = ''Hostname'', na_Address = ''host1''\<rparr>, \<lparr>na_Type = ''InternalIP'', na_Address = ''10.0.0.1''\<rparr>]\<rparr>"

definition sample_cert_controller :: NodeCertificateController where
  "sample_cert_controller =
     \<lparr>cc_namespace = ''monsoon3'', cc_issuerName = ''nova'',
      cc_includeInterfaceNames = Some (\<lambda>s. strings_HasPrefix s ''vlan_''), cc_excludeInterfaceNames = None\<rparr>"

lemma sample_annotation:
  "annotated_interfaces sample_cert_node = map (\<lambda>(n, as). \<lparr>ci_Name = n, ci_Addresses = as\<rparr>) sample_interfaces"
  using Unmarshal_render [of "''name''" "''addresses''" sample_interfaces]
  by (simp add: annotated_interfaces_def sample_cert_node_def unmarshal_interfaces_def sample_interfaces_def
      between_def less_eq_char_def plain_char_def plain_struct_def less_char_def map_get_def
      del: json_render.simps list.map)


lemmas netip_defs = parseRoutableIP_def ParseAddr_def parseIPv4_def parseIPv6_def ascii_digit_def digit_val_def hex_val_def
  less_eq_char_def Unmap_def Zone_def Is4In6_def IsGlobalUnicast_def IsLoopback_def IsMulticast_def IsLinkLocalUnicast_def
  parse_groups.simps strings_Cut_def

lemma sample_replicate: "replicate 5 (0 :: 16 word) = [0, 0, 0, 0, 0]" "replicate 6 (0 :: 16 word) = [0, 0, 0, 0, 0, 0]"
  by (simp_all add: numeral_eq_Suc)

lemma sample_octet: "(2570 :: 8 word) = 10"
  by simp

lemma sample_routable:
  "routable_text ''10.0.0.1'' = {Addr_String (Addr4 10 0 0 1)}"
  "routable_text ''not-an-ip'' = {}" "routable_text ''fe80::1'' = {}" "routable_text ''127.0.0.1'' = {}"
  "routable_text ''::ffff:a0a:5'' = {Addr_String (Addr4 10 10 0 5)}"
  by (simp_all add: routable_text_def netip_defs sample_replicate sample_octet)

lemma sample_texts: "Addr_String (Addr4 10 0 0 1) = ''10.0.0.1''" "Addr_String (Addr4 10 10 0 5) = ''10.10.0.5''"
  by code_simp+

lemma sample_certificate:
  "crt_IPAddresses (desired_certificate sample_cert_controller sample_cert_node) = [''10.0.0.1'', ''10.10.0.5'']"
proof -
  have "address_texts sample_cert_controller sample_cert_node
      = {''10.0.0.1'', ''not-an-ip'', ''fe80::1'', ''127.0.0.1'', ''::ffff:a0a:5''}"
    unfolding address_texts_def sample_annotation
    by (simp add: sample_cert_node_def sample_cert_controller_def sample_interfaces_def status_texts_Cons
        interface_texts_Cons admits_def strings_HasPrefix_def insert_commute)
  then have "set (crt_IPAddresses (desired_certificate sample_cert_controller sample_cert_node)) = {''10.0.0.1'', ''10.10.0.5''}"
    by (simp add: desired_certificate_sets sample_routable sample_texts insert_commute)
  moreover have "sorted [''10.0.0.1'', ''10.10.0.5'']" by (simp add: less_eq_char_def list_le_def list_less_def)
  ultimately show ?thesis
    using desired_certificate_sorted(2) [of sample_cert_controller sample_cert_node]
    by (intro sorted_distinct_set_unique) simp_all
qed

section \<open>Properties\<close>

lemma map_get_removed [simp]: "map_get (m(k := None)) k = []"
  by (simp add: map_get_def)

text \<open>
  C31. A pass for a node that exists applies one certificate, named after the node, for the host. Its
  DNS names are the name of the node and the names in its status, its IP addresses the canonical
  texts of the routable addresses in the status and on the selected interfaces of the annotation;
  both lists are sorted and without duplicates. The pass fails exactly if the write fails.
\<close>

theorem certificate_contents:
  assumes "k_get_Node K name tr = Inr nd"
  shows "\<exists>c. Certificate_Reconcile L K r name tr =
      ((no_requeue, map_option (Errorf ''could not apply certificate: '') (k_apply_Certificate K c (tr @ [Kube (GetNode name)]))),
       tr @ [Kube (GetNode name), Kube (ApplyCertificate c NodeCertificateControllerName)])
    \<and> crt_Name c = ''libvirt-'' @ Name (node_Meta nd) \<and> crt_SecretName c = ''tls-libvirt-'' @ Name (node_Meta nd)
    \<and> crt_CommonName c = Name (node_Meta nd)
    \<and> set (crt_DNSNames c) = insert (Name (node_Meta nd)) (status_texts dns_types (node_Addresses nd))
    \<and> set (crt_IPAddresses c)
        = routable_texts (status_texts ip_types (node_Addresses nd) \<union> interface_texts r (annotated_interfaces nd))
    \<and> sorted (crt_DNSNames c) \<and> distinct (crt_DNSNames c) \<and> sorted (crt_IPAddresses c) \<and> distinct (crt_IPAddresses c)"
  by (intro exI [of _ "desired_certificate r nd"])
    (simp add: Certificate_Reconcile_eq assms desired_certificate_names desired_certificate_sets desired_certificate_sorted
      address_texts_def)

abbreviation sample_cert_kube :: kube where
  "sample_cert_kube \<equiv> sample_kube (empty_hypervisor ''node1'') (empty_eviction ''e1'') sample_cert_node"

lemma sample_cert_pass:
  "snd (Certificate_Reconcile list_lib sample_cert_kube sample_cert_controller ''node1'' [])
     = [Kube (GetNode ''node1''),
        Kube (ApplyCertificate (desired_certificate sample_cert_controller sample_cert_node) NodeCertificateControllerName)]"
  by (simp add: Certificate_Reconcile_eq sample_kube_def)

theorem certificate_contents_witness:
  "\<exists>c. snd (Certificate_Reconcile list_lib sample_cert_kube sample_cert_controller ''node1'' [])
        = [Kube (GetNode ''node1''), Kube (ApplyCertificate c NodeCertificateControllerName)]
      \<and> sorted (crt_IPAddresses c) \<and> crt_IPAddresses c = [''10.0.0.1'', ''10.10.0.5'']"
proof -
  have "k_get_Node sample_cert_kube ''node1'' [] = Inr sample_cert_node" by (simp add: sample_kube_def)
  from certificate_contents [OF this, of list_lib sample_cert_controller] show ?thesis
    by (auto simp: sample_cert_pass sample_certificate)
qed

text \<open>
  Every IP address in a certificate a pass applies is in canonical form (it is what the parser and the
  printer agree on), has no zone, is not an IPv4 address in IPv6 form, and is global unicast: not
  unspecified, a loopback, a multicast or a link-local address. So different entries are different addresses.
\<close>

theorem certificate_ips_routable:
  assumes "Kube (ApplyCertificate c w) \<in> set (new_calls tr (snd (Certificate_Reconcile L K r name tr)))"
    and "s \<in> set (crt_IPAddresses c)"
  shows "\<exists>ip. ParseAddr s = Some ip \<and> Addr_String ip = s \<and> parseRoutableIP s = (Some ip, True) \<and> Zone ip = []
    \<and> \<not> Is4In6 ip \<and> \<not> IsLoopback ip \<and> \<not> IsMulticast ip \<and> \<not> IsLinkLocalUnicast ip"
proof -
  from assms(1) obtain nd where "c = desired_certificate r nd"
    by (auto simp: Certificate_Reconcile_eq new_calls_def split: sum.splits)
  with assms(2) obtain ip t where ip: "s = Addr_String ip" "parseRoutableIP t = (Some ip, True)"
    by (auto simp: desired_certificate_sets routable_texts_def)
  with routable_canonical [OF ip(2)] show ?thesis
    by (intro exI [of _ ip]) (simp add: parseRoutableIP_def Let_def IsGlobalUnicast_def)
qed

theorem certificate_ips_routable_witness:
  "\<exists>ip. ParseAddr ''10.10.0.5'' = Some ip \<and> Addr_String ip = ''10.10.0.5''
    \<and> parseRoutableIP ''10.10.0.5'' = (Some ip, True) \<and> Zone ip = []
    \<and> \<not> Is4In6 ip \<and> \<not> IsLoopback ip \<and> \<not> IsMulticast ip \<and> \<not> IsLinkLocalUnicast ip"
  by (rule certificate_ips_routable [of "desired_certificate sample_cert_controller sample_cert_node"
        NodeCertificateControllerName "[]" list_lib sample_cert_kube sample_cert_controller "''node1''"])
    (simp_all add: sample_cert_pass sample_certificate new_calls_def)

abbreviation without_annotation :: "node \<Rightarrow> node" where
  "without_annotation nd \<equiv>
     nd\<lparr>node_Meta := (node_Meta nd)\<lparr>Annotations := (Annotations (node_Meta nd))(annotationCalicoInterfaces := None)\<rparr>\<rparr>"

text \<open>
  An annotation that is no JSON, or not a list of interfaces, never stands in the way of the
  certificate: the pass does what it would do if the node had no such annotation.
\<close>

theorem malformed_annotation_ignored:
  assumes "unmarshal_interfaces (map_get (Annotations (node_Meta nd)) annotationCalicoInterfaces) = None"
  shows "ensureCertificate K r nd computeHost tr = ensureCertificate K r (without_annotation nd) computeHost tr"
proof -
  have "addInterfaceAddresses r nd = addInterfaceAddresses r (without_annotation nd)"
    by (rule ext) (simp add: addInterfaceAddresses_def assms Let_def)
  moreover have "node_certificate r nd = node_certificate r (without_annotation nd)"
    by (intro ext) (simp add: node_certificate_def)
  ultimately show ?thesis by (simp add: ensureCertificate_def)
qed

lemma not_json: "unmarshal_interfaces ''this-is-not-json'' = None"
  by (simp add: unmarshal_interfaces_def Unmarshal_def json_parse_def start_char_def json_space_def word_char_def digit_def
      between_def less_eq_char_def flush_start_def word_token_def)

theorem malformed_annotation_ignored_witness:
  "ensureCertificate sample_cert_kube sample_cert_controller
     (empty_node ''n''\<lparr>node_Meta := (empty_meta ''n'')\<lparr>Annotations := [annotationCalicoInterfaces \<mapsto> ''this-is-not-json'']\<rparr>\<rparr>)
     ''n'' []
   = ensureCertificate sample_cert_kube sample_cert_controller
     (without_annotation (empty_node ''n''\<lparr>node_Meta := (empty_meta ''n'')\<lparr>Annotations := [annotationCalicoInterfaces \<mapsto> ''this-is-not-json'']\<rparr>\<rparr>))
     ''n'' []"
  by (rule malformed_annotation_ignored) (simp add: map_get_def not_json)

definition selected :: "NodeCertificateController \<Rightarrow> string \<Rightarrow> bool" where
  "selected r n \<longleftrightarrow> (\<forall>m. cc_includeInterfaceNames r = Some m \<longrightarrow> m n) \<and> (\<forall>m. cc_excludeInterfaceNames r = Some m \<longrightarrow> \<not> m n)"

lemma admits_selected: "admits r n \<longleftrightarrow> selected r n"
  by (auto simp: admits_def selected_def split: option.split)

text \<open>
  C32. The annotation is read as it was written: for interfaces with plain names and addresses, encoded as
  a JSON list, the addresses added are the routable ones of the interfaces that the include pattern
  admits and the exclude pattern does not match, whatever the include pattern says of these.
\<close>

theorem annotation_read_back:
  assumes "list_all plain_struct ifs"
    and "map_get (Annotations (node_Meta nd)) annotationCalicoInterfaces
      = json_render (JArray (map (struct_json ''name'' ''addresses'') ifs))"
  shows "set (addInterfaceAddresses r nd ips)
    = set ips \<union> routable_texts {s. \<exists>(n, as) \<in> set ifs. selected r n \<and> s \<in> set as}"
proof -
  have "Unmarshal ''name'' ''addresses'' (json_render (JArray (map (struct_json ''name'' ''addresses'') ifs))) = Some ifs"
    by (rule Unmarshal_render) (use assms(1) in \<open>auto simp: between_def less_eq_char_def plain_char_def less_char_def\<close>)
  then have "annotated_interfaces nd = map (\<lambda>(n, as). \<lparr>ci_Name = n, ci_Addresses = as\<rparr>) ifs"
    by (simp add: annotated_interfaces_def assms(2) unmarshal_interfaces_def del: json_render.simps)
  moreover have "interface_texts r (map (\<lambda>(n, as). \<lparr>ci_Name = n, ci_Addresses = as\<rparr>) ifs)
      = {s. \<exists>(n, as) \<in> set ifs. selected r n \<and> s \<in> set as}"
    by (induction ifs) (auto simp: interface_texts_Cons admits_selected)
  ultimately show ?thesis by (simp add: addInterfaceAddresses_eq add_interfaces_result)
qed

theorem annotation_read_back_witness:
  "set (addInterfaceAddresses sample_cert_controller sample_cert_node []) = {''10.10.0.5''}"
proof -
  have "{s. \<exists>(n, as) \<in> set sample_interfaces. selected sample_cert_controller n \<and> s \<in> set as}
      = {''not-an-ip'', ''fe80::1'', ''127.0.0.1'', ''::ffff:a0a:5''}"
    by (auto simp: sample_interfaces_def selected_def sample_cert_controller_def strings_HasPrefix_def)
  moreover have "list_all plain_struct sample_interfaces"
    by (simp add: sample_interfaces_def plain_struct_def plain_char_def less_eq_char_def less_char_def)
  moreover have "map_get (Annotations (node_Meta sample_cert_node)) annotationCalicoInterfaces
      = json_render (JArray (map (struct_json ''name'' ''addresses'') sample_interfaces))"
    by (simp add: sample_cert_node_def map_get_def del: json_render.simps list.map)
  ultimately show ?thesis
    using annotation_read_back [of sample_interfaces sample_cert_node sample_cert_controller "[]"]
    by (simp add: sample_routable sample_texts)
qed

end
