(* ===== verification/Schedule.thy ===== *)
theory Schedule
  imports Environment
begin

text \<open>
  Interleaved passes. The controllers of the operator share nothing but the remote services, so a run
  of the operator is a sequence of passes, each starting from the history the one before it left. The
  contract of a pass is a guard: what holds of each of its calls, relative to the history at its
  start, provided that the libraries keep what they document (\<open>lawful\<close>). A run then only makes
  guarded calls.
\<close>

lemma extends_by_iff:
  "extends_by P tr tr' \<longleftrightarrow> (\<exists>cs. tr' = tr @ cs) \<and> (\<forall>c \<in> set (new_calls tr tr'). P c)"
  by (auto simp: extends_by_def list_all_iff)

fun run_all :: "('p \<Rightarrow> trace \<Rightarrow> trace) \<Rightarrow> 'p list \<Rightarrow> trace \<Rightarrow> trace" where
  "run_all step [] tr = tr"
| "run_all step (p # ps) tr = run_all step ps (step p tr)"

locale guarded_pass =
  fixes step :: "'p \<Rightarrow> trace \<Rightarrow> trace" and ok :: "'p \<Rightarrow> trace \<Rightarrow> call \<Rightarrow> bool" and lawful :: bool
  assumes step_guarded: "lawful \<Longrightarrow> extends_by (ok p tr) tr (step p tr)"
begin

lemma step_extends: "lawful \<Longrightarrow> \<exists>cs. step p tr = tr @ cs"
  using extends_by_trivial [OF step_guarded] .

lemma run_extends: "lawful \<Longrightarrow> \<exists>cs. run_all step ps tr = tr @ cs"
proof (induction ps arbitrary: tr)
  case (Cons p ps)
  obtain cs where "step p tr = tr @ cs" using step_extends Cons.prems by blast
  moreover obtain ds where "run_all step ps (tr @ cs) = (tr @ cs) @ ds" using Cons.IH Cons.prems by blast
  ultimately show ?case by simp
qed simp

lemma run_append: "run_all step (xs @ ys) tr = run_all step ys (run_all step xs tr)"
  by (induction xs arbitrary: tr) auto

text \<open>
  Every call of a run was made by one of its passes: the run splits into the passes before it, that
  pass and those after it, and the guard held of the call and the history at the start of the pass.
\<close>

lemma run_guarded:
  "lawful \<Longrightarrow> c \<in> set (new_calls tr (run_all step ps tr)) \<Longrightarrow>
   \<exists>xs p ys. ps = xs @ p # ys \<and> c \<in> set (new_calls (run_all step xs tr) (step p (run_all step xs tr)))
     \<and> ok p (run_all step xs tr) c"
proof (induction ps arbitrary: tr)
  case (Cons p ps)
  obtain cs where s: "step p tr = tr @ cs" using step_extends Cons.prems by blast
  obtain ds where r: "run_all step ps (tr @ cs) = (tr @ cs) @ ds" using run_extends Cons.prems by blast
  from Cons.prems(2) have "c \<in> set cs \<or> c \<in> set ds" by (simp add: s r)
  then show ?case
  proof
    assume c: "c \<in> set cs"
    then have "ok p tr c" using extends_by_new_calls [OF step_guarded [OF Cons.prems(1), of p tr]] by (simp add: s)
    with c show ?thesis by (intro exI [of _ "[]"]) (simp add: s)
  next
    assume "c \<in> set ds"
    then have "c \<in> set (new_calls (tr @ cs) (run_all step ps (tr @ cs)))"
      unfolding r by (simp only: new_calls_append)
    from Cons.IH [OF Cons.prems(1) this] obtain xs q ys where "ps = xs @ q # ys"
      "c \<in> set (new_calls (run_all step xs (step p tr)) (step q (run_all step xs (step p tr))))"
      "ok q (run_all step xs (step p tr)) c" by (auto simp: s)
    then show ?thesis by (intro exI [of _ "p # xs"]) auto
  qed
qed simp

end

end
