(* ===== verification/Operator.thy ===== *)
theory Operator
  imports Aggregates_Ctrl Offboarding_Ctrl Onboarding_Props Lifecycle_Ctrl Traits_Ctrl Eviction_Props
    Maintenance_Props Ready_Ctrl Taint_Ctrl Node_Ctrl
    Certificate_Ctrl Schedule
begin

text \<open>
  The operator as a whole: arbitrary sequences of the passes of its controllers for one host against one
  shared history, and what such a run may do to take the host apart. A pass of the hypervisor
  controller that never returns (an API server that never ends a listing) contributes nothing.
\<close>

record operator_env =
  oe_lib :: lib
  oe_kube :: kube
  oe_nova :: nova
  oe_placement :: placement
  oe_onboarding :: OnboardingController
  oe_gvk :: gvk
  oe_clock :: clock
  oe_globals :: global_vars
  oe_labels :: "string list"
  oe_certificate :: NodeCertificateController

datatype operator_pass =
    AggregatesPass string
  | OffboardingPass string
  | OnboardingPass string go_time
  | LifecyclePass string
  | TraitsPass string go_time
  | EvictionPass string
  | MaintenancePass string
  | ReadyPass string
  | TaintPass string
  | NodePass string
  | CertificatePass string

fun pass_host :: "operator_pass \<Rightarrow> string" where
  "pass_host (AggregatesPass n) = n"
| "pass_host (OffboardingPass n) = n"
| "pass_host (OnboardingPass n now) = n"
| "pass_host (LifecyclePass n) = n"
| "pass_host (TraitsPass n now) = n"
| "pass_host (EvictionPass n) = n"
| "pass_host (MaintenancePass n) = n"
| "pass_host (ReadyPass n) = n"
| "pass_host (TaintPass n) = n"
| "pass_host (NodePass n) = n"
| "pass_host (CertificatePass n) = n"

fun run_pass :: "operator_env \<Rightarrow> operator_pass \<Rightarrow> trace \<Rightarrow> trace" where
  "run_pass env (AggregatesPass n) tr = snd (Aggregates_Reconcile (oe_lib env) (oe_kube env) (oe_nova env) n tr)"
| "run_pass env (OffboardingPass n) tr =
     snd (Offboarding_Reconcile (oe_lib env) (oe_kube env) (oe_nova env) (oe_placement env) n tr)"
| "run_pass env (OnboardingPass n now) tr = snd (Onboarding_Reconcile (oe_lib env) (oe_kube env) (oe_onboarding env) now n tr)"
| "run_pass env (LifecyclePass n) tr = snd (Lifecycle_Reconcile (oe_lib env) (oe_kube env) (oe_gvk env) n tr)"
| "run_pass env (TraitsPass n now) tr = snd (Traits_Reconcile (oe_lib env) (oe_kube env) (oe_placement env) now n tr)"
| "run_pass env (EvictionPass n) tr = snd (Eviction_Reconcile (oe_lib env) (oe_kube env) (oe_nova env) (oe_globals env) n tr)"
| "run_pass env (MaintenancePass n) tr =
     snd (Maintenance_Reconcile (oe_lib env) (oe_kube env) (oe_clock env) (oe_nova env) (oe_labels env) n tr)"
| "run_pass env (ReadyPass n) tr = snd (Ready_Reconcile (oe_lib env) (oe_kube env) n tr)"
| "run_pass env (TaintPass n) tr = snd (Taint_Reconcile (oe_lib env) (oe_kube env) n tr)"
| "run_pass env (NodePass n) tr =
     (case Node_Reconcile (oe_lib env) (oe_kube env) (oe_labels env) (AgentNamespaces (oe_globals env)) n tr of
        None \<Rightarrow> tr | Some (res, tr') \<Rightarrow> tr')"
| "run_pass env (CertificatePass n) tr = snd (Certificate_Reconcile (oe_lib env) (oe_kube env) (oe_certificate env) n tr)"

text \<open>What a pass has read before it reads the Hypervisor of its host.\<close>

fun read_before :: "operator_pass \<Rightarrow> call list" where
  "read_before (LifecyclePass n) = [Kube (GetNode n)]"
| "read_before _ = []"

section \<open>Dismantling a host\<close>

text \<open>The calls that take a host apart: its aggregates, its service and provider, the taint of its node.\<close>

definition dismantling :: "call \<Rightarrow> bool" where
  "dismantling c \<longleftrightarrow> (\<exists>i h. c = Compute (AggregatesRemoveHost i h)) \<or> (\<exists>s. c = Compute (ServicesDelete s))
     \<or> (\<exists>u. c = Placement (ProvidersDelete u)) \<or> (\<exists>a b w. c = Kube (PatchNode a b w))"

lemma dismantling_simps [simp]:
  "dismantling (Compute (AggregatesRemoveHost i h))" "dismantling (Compute (ServicesDelete s))"
  "dismantling (Placement (ProvidersDelete u))" "dismantling (Kube (PatchNode a b w))"
  "\<not> dismantling (Kube (GetHypervisor n))" "\<not> dismantling (Kube (GetNode n))"
  "\<not> dismantling (Kube (StatusPatchHypervisor h1 h2 w))" "\<not> dismantling (Kube (StatusApplyHypervisor n cfg w))"
  "\<not> dismantling (Compute (HypervisorsList n ws))"
  "\<not> dismantling (Placement (ProvidersGetTraits n))" "\<not> dismantling (Placement (ProvidersUpdateTraits n o'))"
  by (simp_all add: dismantling_def)

definition drained_if_terminating :: "lib \<Rightarrow> Hypervisor \<Rightarrow> bool" where
  "drained_if_terminating L hv \<longleftrightarrow> (hv_Maintenance hv = MaintenanceTermination \<and> ServiceID (hv_Status hv) \<noteq> []
     \<longrightarrow> IsStatusConditionFalse L (hv_Conditions hv) ConditionTypeEvicting)"

text \<open>The guard of a pass: it dismantles a host only after reading, in this pass, that it is drained.\<close>

definition pass_ok :: "operator_env \<Rightarrow> operator_pass \<Rightarrow> trace \<Rightarrow> call \<Rightarrow> bool" where
  "pass_ok env p tr c \<longleftrightarrow> (dismantling c \<longrightarrow>
     (\<exists>hv. k_get_Hypervisor (oe_kube env) (pass_host p) (tr @ read_before p) = Inr hv \<and> drained_if_terminating (oe_lib env) hv))"

section \<open>Each controller keeps the guard\<close>

lemma aggregates_dismantling:
  assumes "retry_laws L"
  shows "extends_by (\<lambda>c. dismantling c \<longrightarrow> (\<exists>i h. c = Compute (AggregatesRemoveHost i h))) tr
    (snd (Aggregates_Reconcile L K N name tr))"
proof -
  let ?P = "\<lambda>c. dismantling c \<longrightarrow> (\<exists>i h. c = Compute (AggregatesRemoveHost i h))"
  have patch: "extends_by ?P t (snd (PatchHypervisorStatusWithRetry L K n w f t))" for n w f t
    by (rule patch_extends_mono [OF assms(1)]) auto
  have get: "extends_by ?P tr (tr @ [Kube (GetHypervisor name)])" by (rule extends_by_snoc) simp
  have applied: "extends_by ?P tr t"
    if "ApplyAggregates N h d (tr @ [Kube (GetHypervisor name)]) = (r, t)" for h d r t
  proof -
    have "extends_by ?P (tr @ [Kube (GetHypervisor name)]) t"
      using ApplyAggregates_extends [of h d "tr @ [Kube (GetHypervisor name)]" N] that
      by (auto elim!: extends_by_mono simp: dismantling_def)
    then show ?thesis using extends_by_trans [OF get] by blast
  qed
  obtain res tr' where eq: "Aggregates_Reconcile L K N name tr = (res, tr')" by fastforce
  from eq have "extends_by ?P tr tr'"
  proof (cases rule: Aggregates_Reconcile_cases)
    case (failed hv e tr2 err2 d)
    have "tr' = snd (PatchHypervisorStatusWithRetry L K (hv_Name hv) AggregatesControllerName (hv_set_condition L d) tr2)"
      by (simp add: failed(6))
    with extends_by_trans [OF applied [OF failed(4)] patch] show ?thesis by simp
  next
    case (recorded hv naggs tr2 err)
    have "extends_by ?P tr tr2" using recorded(3) get applied by (auto split: if_splits)
    moreover have "tr' = snd (PatchHypervisorStatusWithRetry L K (hv_Name hv) AggregatesControllerName
        (set_aggregates L (snd (determineDesiredState L hv)) naggs) tr2)"
      by (simp add: recorded(4))
    ultimately show ?thesis using extends_by_trans [OF _ patch] by simp
  qed (use get in auto)
  with eq show ?thesis by simp
qed

lemma aggregates_guard:
  assumes "retry_laws L" "meta_laws L"
  shows "extends_by (\<lambda>c. dismantling c \<longrightarrow> (\<exists>hv. k_get_Hypervisor K name tr = Inr hv \<and> drained_if_terminating L hv)) tr
    (snd (Aggregates_Reconcile L K N name tr))"
  unfolding extends_by_iff
proof (intro conjI ballI impI)
  show "\<exists>cs. snd (Aggregates_Reconcile L K N name tr) = tr @ cs"
    by (rule extends_by_trivial [OF aggregates_dismantling [OF assms(1)]])
next
  fix c
  assume c: "c \<in> set (new_calls tr (snd (Aggregates_Reconcile L K N name tr)))" and "dismantling c"
  then obtain i h where "c = Compute (AggregatesAddHost i h) \<or> c = Compute (AggregatesRemoveHost i h)"
    using extends_by_new_calls [OF aggregates_dismantling [OF assms(1)]] by blast
  from membership_change_gate [OF assms(1) c this] show "\<exists>hv. k_get_Hypervisor K name tr = Inr hv \<and> drained_if_terminating L hv"
    by (auto simp: drained_if_terminating_def meta_False_iff [OF assms(2)])
qed

lemma offboarding_guard:
  assumes "retry_laws L"
  shows "extends_by (\<lambda>c. dismantling c \<longrightarrow> (\<exists>hv. k_get_Hypervisor K name tr = Inr hv \<and> drained_if_terminating L hv)) tr
    (snd (Offboarding_Reconcile L K N P name tr))" (is "extends_by ?P tr _")
proof -
  obtain res tr' where eq: "Offboarding_Reconcile L K N P name tr = (res, tr')" by fastforce
  have quiet: "extends_by ?P tr tr'" if "extends_by (\<lambda>c. \<not> dismantling c) (tr @ cs) tr'" "list_all (\<lambda>c. \<not> dismantling c) cs" for cs
  proof -
    from that have "extends_by (\<lambda>c. \<not> dismantling c) tr tr'" by (auto simp: extends_by_def)
    then show ?thesis by (rule extends_by_mono) simp
  qed
  from eq have "extends_by ?P tr tr'"
  proof (cases rule: Offboarding_Reconcile_cases)
    case idle
    then show ?thesis by (auto intro: extends_by_snoc)
  next
    case (waiting hv m cs)
    have "extends_by (\<lambda>c. \<not> dismantling c) (tr @ [Kube (GetHypervisor name)] @ cs) tr'"
      by (rule setOffboarding_extends [OF assms waiting(3)]) (auto simp: patch_of_def)
    moreover have "list_all (\<lambda>c. \<not> dismantling c) cs"
      unfolding list_all_iff using waiting(2) by (metis dismantling_simps(9) empty_iff insert_iff subset_iff)
    ultimately show ?thesis using quiet [of "[Kube (GetHypervisor name)] @ cs"] by simp
  next
    case (absent hv)
    have "extends_by (\<lambda>c. \<not> dismantling c) (tr @ [Kube (GetHypervisor name), Compute (HypervisorsList name True)]) tr'"
      by (rule markOffboarded_extends [OF assms absent(4)]) (auto simp: patch_of_def)
    then show ?thesis using quiet by simp
  next
    case (cleanup hv h)
    have "\<exists>hv. k_get_Hypervisor K name tr = Inr hv \<and> drained_if_terminating L hv"
      using cleanup by (auto simp: drained_if_terminating_def offboard_gate_def)
    moreover from offboard_cleanup_rest [OF assms cleanup(6)] have "\<exists>cs. tr' = tr @ cs" by (auto simp: extends_by_def)
    ultimately show ?thesis by (simp add: extends_by_iff)
  qed
  with eq show ?thesis by simp
qed

lemma onboarding_guard: "extends_by (\<lambda>c. \<not> dismantling c) tr (snd (Onboarding_Reconcile L K r now name tr))"
proof (cases "k_get_Hypervisor K name tr")
  case (Inl e)
  then show ?thesis by (auto simp: Onboarding_Reconcile_def ask_def intro: extends_by_snoc)
next
  case (Inr hv)
  have "\<not> dismantling c" if "onboarding_call L r (tr @ [Kube (GetHypervisor name)]) hv c" for c
    using that by (auto simp: dismantling_def)
  then have "extends_by (\<lambda>c. \<not> dismantling c) (tr @ [Kube (GetHypervisor name)]) (snd (Onboarding_Reconcile L K r now name tr))"
    by (rule extends_by_mono [OF Onboarding_Reconcile_calls [OF Inr, of L r now]])
  moreover have "\<not> dismantling (Kube (GetHypervisor name))" by simp
  ultimately show ?thesis by (rule extends_by_Cons)
qed

lemma lifecycle_guard:
  "extends_by (\<lambda>c. dismantling c \<longrightarrow> (\<exists>hv. k_get_Hypervisor K name (tr @ [Kube (GetNode name)]) = Inr hv \<and> drained_if_terminating L hv))
     tr (snd (Lifecycle_Reconcile L K gvk name tr))"
  unfolding extends_by_iff
proof (intro conjI ballI impI)
  show "\<exists>cs. snd (Lifecycle_Reconcile L K gvk name tr) = tr @ cs" by (rule Lifecycle_Reconcile_extends)
next
  fix c
  assume c: "c \<in> set (new_calls tr (snd (Lifecycle_Reconcile L K gvk name tr)))" and d: "dismantling c"
  from d have "c \<noteq> Kube (GetNode name)" "c \<noteq> Kube (GetHypervisor name)" by (auto simp: dismantling_def)
  then obtain nd hv where hv: "k_get_Hypervisor K name (tr @ [Kube (GetNode name)]) = Inr hv" and l: "lifecycle_call L nd hv c"
    by (rule Lifecycle_Reconcile_calls [OF c])
  from d l obtain a b w where "c = Kube (PatchNode a b w)" by (auto simp: dismantling_def)
  with l hv show "\<exists>hv. k_get_Hypervisor K name (tr @ [Kube (GetNode name)]) = Inr hv \<and> drained_if_terminating L hv"
    by (simp add: drained_if_terminating_def)
qed

lemma traits_guard: "extends_by (\<lambda>c. \<not> dismantling c) tr (snd (Traits_Reconcile L K P now name tr))"
proof -
  have a: "extends_by (\<lambda>c. \<not> dismantling c) tr (snd (applyTraitsStatus L K now hv ts cond (tr @ cs)))"
    if "list_all (\<lambda>c. \<not> dismantling c) cs" for hv ts cond cs
    using that by (auto simp: applyTraitsStatus_def Let_def extends_by_def)
  obtain res tr' where eq: "Traits_Reconcile L K P now name tr = (res, tr')" by fastforce
  from eq have "extends_by (\<lambda>c. \<not> dismantling c) tr tr'"
    by (cases rule: Traits_Reconcile_cases) (auto intro!: a extends_by_snoc)
  with eq show ?thesis by simp
qed

lemma eviction_guard: "retry_laws L \<Longrightarrow> extends_by (\<lambda>c. \<not> dismantling c) tr (snd (Eviction_Reconcile L K N g name tr))"
  by (rule Eviction_Reconcile_extends_mono) (auto simp: dismantling_def update_call_def server_only_def)

lemma maintenance_guard: "extends_by (\<lambda>c. \<not> dismantling c) tr (snd (Maintenance_Reconcile L K C N labels name tr))"
  by (rule extends_by_mono [OF Maintenance_Reconcile_extends]) (auto simp: dismantling_def)

lemma ready_guard: "retry_laws L \<Longrightarrow> extends_by (\<lambda>c. \<not> dismantling c) tr (snd (Ready_Reconcile L K name tr))"
  and taint_guard: "retry_laws L \<Longrightarrow> extends_by (\<lambda>c. \<not> dismantling c) tr (snd (Taint_Reconcile L K name tr))"
proof -
  assume L: "retry_laws L"
  have get: "extends_by (\<lambda>c. \<not> dismantling c) tr (tr @ [Kube (GetHypervisor name)])" by (rule extends_by_snoc) simp
  have patch: "extends_by (\<lambda>c. \<not> dismantling c) tr
      (snd (PatchHypervisorStatusWithRetry L K n w f (tr @ [Kube (GetHypervisor name)])))" for n w f
    by (rule extends_by_trans [OF get patch_extends_mono [OF L]]) auto
  show "extends_by (\<lambda>c. \<not> dismantling c) tr (snd (Ready_Reconcile L K name tr))"
    by (simp add: Ready_Reconcile_def ask_def Let_def get patch case_prod_beta split: sum.split)
  show "extends_by (\<lambda>c. \<not> dismantling c) tr (snd (Taint_Reconcile L K name tr))"
    by (simp add: Taint_Reconcile_def ask_def Let_def get patch case_prod_beta split: sum.split)
qed

lemma node_guard:
  "retry_laws L \<Longrightarrow> Node_Reconcile L K labels nss name tr = Some (res, tr') \<Longrightarrow> extends_by (\<lambda>c. \<not> dismantling c) tr tr'"
  by (erule extends_by_mono [OF Node_Reconcile_extends]) (auto simp: dismantling_def node_pass_call_def)

lemma certificate_guard: "extends_by (\<lambda>c. \<not> dismantling c) tr (snd (Certificate_Reconcile L K r name tr))"
  by (auto simp: Certificate_Reconcile_eq extends_by_def dismantling_def split: sum.split)

section \<open>The operator keeps it under every schedule\<close>

lemma pass_ok_quiet: "extends_by (\<lambda>c. \<not> dismantling c) tr tr' \<Longrightarrow> extends_by (pass_ok env p tr) tr tr'"
  by (erule extends_by_mono) (simp add: pass_ok_def)

lemma run_pass_guarded:
  assumes "retry_laws (oe_lib env) \<and> meta_laws (oe_lib env)"
  shows "extends_by (pass_ok env p tr) tr (run_pass env p tr)"
proof (cases p)
  case (AggregatesPass n)
  have "extends_by (pass_ok env p tr) tr (snd (Aggregates_Reconcile (oe_lib env) (oe_kube env) (oe_nova env) n tr))"
    by (rule extends_by_mono [OF aggregates_guard]) (use assms AggregatesPass in \<open>auto simp: pass_ok_def\<close>)
  with AggregatesPass show ?thesis by simp
next
  case (OffboardingPass n)
  have "extends_by (pass_ok env p tr) tr (snd (Offboarding_Reconcile (oe_lib env) (oe_kube env) (oe_nova env) (oe_placement env) n tr))"
    by (rule extends_by_mono [OF offboarding_guard]) (use assms OffboardingPass in \<open>auto simp: pass_ok_def\<close>)
  with OffboardingPass show ?thesis by simp
next
  case (OnboardingPass n now)
  have "extends_by (pass_ok env p tr) tr (snd (Onboarding_Reconcile (oe_lib env) (oe_kube env) (oe_onboarding env) now n tr))"
    by (rule pass_ok_quiet [OF onboarding_guard])
  with OnboardingPass show ?thesis by simp
next
  case (LifecyclePass n)
  have "extends_by (pass_ok env p tr) tr (snd (Lifecycle_Reconcile (oe_lib env) (oe_kube env) (oe_gvk env) n tr))"
    by (rule extends_by_mono [OF lifecycle_guard [where L = "oe_lib env"]])
      (use LifecyclePass in \<open>auto simp: pass_ok_def\<close>)
  with LifecyclePass show ?thesis by simp
next
  case (TraitsPass n now)
  have "extends_by (pass_ok env p tr) tr (snd (Traits_Reconcile (oe_lib env) (oe_kube env) (oe_placement env) now n tr))"
    by (rule pass_ok_quiet [OF traits_guard])
  with TraitsPass show ?thesis by simp
next
  case (EvictionPass n)
  with assms show ?thesis by (simp add: pass_ok_quiet [OF eviction_guard])
next
  case (MaintenancePass n)
  show ?thesis by (simp add: MaintenancePass pass_ok_quiet [OF maintenance_guard])
next
  case (ReadyPass n)
  with assms show ?thesis by (simp add: pass_ok_quiet [OF ready_guard])
next
  case (TaintPass n)
  with assms show ?thesis by (simp add: pass_ok_quiet [OF taint_guard])
next
  case (NodePass n)
  with assms show ?thesis by (auto intro!: pass_ok_quiet [OF node_guard] split: option.split)
next
  case (CertificatePass n)
  show ?thesis by (simp add: CertificatePass pass_ok_quiet [OF certificate_guard])
qed

interpretation operator: guarded_pass "run_pass env" "pass_ok env" "retry_laws (oe_lib env) \<and> meta_laws (oe_lib env)" for env
  by unfold_locales (rule run_pass_guarded)

end
