(* ===== verification/Drain.thy ===== *)
theory Drain
  imports Eviction_Props Maintenance_Props
begin

text \<open>
  The drain of a host across two controllers: the eviction controller works off the queue of the
  \<open>Eviction\<close> and marks it finished, the maintenance controller reads it and sets \<open>evicted\<close> on the
  \<open>Hypervisor\<close>, which is what the offboarding waits for. The API server between the two keeps the
  \<open>Eviction\<close> as the last accepted status patch left it.
\<close>

section \<open>The API server between the passes\<close>

text \<open>What the server answers while it stores this Eviction and this Hypervisor and accepts writes.\<close>

definition serving :: "Eviction \<Rightarrow> Hypervisor \<Rightarrow> kube \<Rightarrow> kube" where
  "serving ev hv K = K\<lparr>k_get_Eviction := (\<lambda>_ _. Inr ev), k_get_Hypervisor := (\<lambda>_ _. Inr hv),
     k_status_patch_Eviction := (\<lambda>_ _ _. None), k_apply_Eviction := (\<lambda>_ _. None)\<rparr>"

lemma serving_sel [simp]:
  "k_get_Eviction (serving ev hv K) n t = Inr ev" "k_get_Hypervisor (serving ev hv K) n t = Inr hv"
  "k_status_patch_Eviction (serving ev hv K) a b t = None" "k_apply_Eviction (serving ev hv K) e t = None"
  by (simp_all add: serving_def)

definition store_call :: "call \<Rightarrow> Eviction \<Rightarrow> Eviction" where
  "store_call c ev = (case c of Kube (StatusPatchEviction old new owner) \<Rightarrow> new | _ \<Rightarrow> ev)"

lemma store_call_simps [simp]:
  "store_call (Kube (StatusPatchEviction old new owner)) ev = new"
  "store_call (Kube (GetEviction n)) ev = ev" "store_call (Kube (GetHypervisor n)) ev = ev"
  "store_call (Server x) ev = ev"
  by (simp_all add: store_call_def)

text \<open>One pass of the eviction controller: the Eviction stored after it, and the history.\<close>

definition eviction_round ::
    "lib \<Rightarrow> kube \<Rightarrow> nova \<Rightarrow> global_vars \<Rightarrow> Hypervisor \<Rightarrow> string \<Rightarrow> Eviction \<times> trace \<Rightarrow> Eviction \<times> trace" where
  "eviction_round L K N g hv name st =
     (case st of (ev, tr) \<Rightarrow>
        let tr' = snd (Eviction_Reconcile L (serving ev hv K) N g name tr)
        in (fold store_call (new_calls tr tr') ev, tr'))"

section \<open>A status update that is accepted\<close>

lemma retry_accepted:
  assumes "retry_laws L" "f tr = (None, tr')"
  shows "RetryOnConflict L f tr = (None, tr')"
proof -
  obtain c where "retry_run c f tr (fst (RetryOnConflict L f tr)) (snd (RetryOnConflict L f tr))"
    using assms(1) unfolding retry_laws_def by blast
  then show ?thesis using assms(2) by (cases rule: retry_run.cases) (auto simp: prod_eq_iff)
qed

lemma updateStatus_accepted:
  assumes "retry_laws L"
  shows "updateStatus L (serving fresh hv K) ev tr = (None, tr @ [Kube (GetEviction (Name (ev_Meta ev))),
    Kube (StatusPatchEviction fresh (fresh\<lparr>ev_Status := merge_status L (ev_Status ev) (ev_Status fresh)\<rparr>) EvictionControllerName)])"
  unfolding updateStatus_def by (rule retry_accepted [OF assms]) (simp add: update_attempt_def ask_def)

lemma fold_store_server_only: "list_all server_only cs \<Longrightarrow> fold store_call cs ev = ev"
  by (induction cs) (auto simp: server_only_def)

section \<open>Passes over a draining Eviction\<close>

text \<open>What the passes keep of an Eviction that is past its preflight.\<close>

definition drain_inv :: "lib \<Rightarrow> Eviction \<Rightarrow> bool" where
  "drain_inv L ev \<longleftrightarrow> conds_ok (ev_Conditions (ev_Status ev)) \<and> DeletionTimestamp (ev_Meta ev) = 0"

lemma phase_Draining:
  assumes "meta_laws L" "phase_of L (ev_Conditions (ev_Status ev)) = Draining"
  obtains c where "FindStatusCondition L (ev_Conditions (ev_Status ev)) ConditionTypeEvicting = Some c" "Status c = ConditionTrue"
    and "IsStatusConditionTrue L (ev_Conditions (ev_Status ev)) ConditionTypePreflight"
proof -
  from assms(2) have "cond_status L (ev_Conditions (ev_Status ev)) ConditionTypeEvicting = Some ConditionTrue"
    "cond_status L (ev_Conditions (ev_Status ev)) ConditionTypePreflight = Some ConditionTrue"
    by (auto simp: phase_of_def split: option.splits ConditionStatus.splits if_splits)
  with that show ?thesis by (auto simp: cond_status_def True_iff_status [OF assms(1)])
qed

lemma phase_Completed:
  assumes "phase_of L (ev_Conditions (ev_Status ev)) = Completed"
  obtains c where "FindStatusCondition L (ev_Conditions (ev_Status ev)) ConditionTypeEvicting = Some c" "Status c = ConditionFalse"
proof -
  from assms have "cond_status L (ev_Conditions (ev_Status ev)) ConditionTypeEvicting = Some ConditionFalse"
    by (auto simp: phase_of_def split: option.splits ConditionStatus.splits if_splits)
  with that show ?thesis by (auto simp: cond_status_def)
qed

lemma phase_of_migration_updates:
  assumes "meta_laws L" "migration_updates L ev ev'"
  shows "phase_of L (ev_Conditions (ev_Status ev')) = phase_of L (ev_Conditions (ev_Status ev))"
proof -
  have "cond_status L (ev_Conditions (ev_Status ev')) t = cond_status L (ev_Conditions (ev_Status ev)) t"
    "cond_reason L (ev_Conditions (ev_Status ev')) t = cond_reason L (ev_Conditions (ev_Status ev)) t"
    if "t \<noteq> ConditionTypeMigration" for t
    by (simp_all add: cond_status_def cond_reason_def migration_updates_find [OF assms that])
  from this [of ConditionTypeEvicting] this [of ConditionTypePreflight] show ?thesis by (simp add: phase_of_def)
qed

text \<open>A written status keeps the invariant and has the phase and queue of the update it came from.\<close>

lemma stored_update:
  assumes L: "meta_list_laws L" and inv: "drain_inv L ev" and u: "eviction_update L N g ev hv tr ev'"
    and new: "new = ev\<lparr>ev_Status := merge_status L (ev_Status ev') (ev_Status ev)\<rparr>"
  shows "drain_inv L new \<and> abs_eviction L new = abs_eviction L ev' \<and> ev_Spec new = ev_Spec ev"
proof -
  have ok: "conds_ok (ev_Conditions (ev_Status ev'))"
    using eviction_update_conds_ok [OF L u] inv by (simp add: drain_inv_def)
  then have "\<forall>d \<in> set (ev_Conditions (ev_Status ev')). Type d \<noteq> []" by (force simp: conds_ok_def)
  then have "conds_ok (ev_Conditions (ev_Status new))"
    using conds_ok_sets [OF L] inv by (simp add: new drain_inv_def)
  with phase_of_merge [OF L ok eviction_update_Types [OF L u]] inv show ?thesis
    by (simp add: new drain_inv_def abs_eviction_def ev_outstanding_def)
qed

lemma round_of_update:
  assumes "retry_laws L"
    and "snd (Eviction_Reconcile L (serving ev hv K) N g name tr) = snd (updateStatus L (serving ev hv K) ev' (tr @ gets @ cs))"
    and "list_all server_only cs" "gets = [Kube (GetEviction name), Kube (GetHypervisor h)]"
  obtains ds where "eviction_round L K N g hv name (ev, tr)
    = (ev\<lparr>ev_Status := merge_status L (ev_Status ev') (ev_Status ev)\<rparr>, tr @ ds)"
proof -
  let ?new = "ev\<lparr>ev_Status := merge_status L (ev_Status ev') (ev_Status ev)\<rparr>"
  define ds where "ds = gets @ cs @ [Kube (GetEviction (Name (ev_Meta ev'))), Kube (StatusPatchEviction ev ?new EvictionControllerName)]"
  have "snd (Eviction_Reconcile L (serving ev hv K) N g name tr) = tr @ ds"
    unfolding assms(2) by (simp add: updateStatus_accepted [OF assms(1)] ds_def)
  moreover have "fold store_call ds ev = ?new"
    unfolding ds_def assms(4) by (simp add: fold_store_server_only [OF assms(3)])
  ultimately show ?thesis using that by (simp add: eviction_round_def)
qed

text \<open>A pass over a queue whose servers have all left empties it; a pass over an empty queue completes.\<close>

lemma round_empties:
  assumes "retry_laws L" "meta_list_laws L" "drain_inv L ev"
    and ph: "phase_of L (ev_Conditions (ev_Status ev)) = Draining" and q: "ev_outstanding ev \<noteq> []"
    and left: "all_left L N (es_Hypervisor (ev_Spec ev)) (ev_outstanding ev) tr"
  obtains ev' cs where "eviction_round L K N g hv name (ev, tr) = (ev', tr @ cs)" "drain_inv L ev'"
    "abs_eviction L ev' = (Draining, [])"
proof -
  let ?K = "serving ev hv K" and ?h = "es_Hypervisor (ev_Spec ev)"
  define gets where "gets = [Kube (GetEviction name), Kube (GetHypervisor ?h)]"
  from phase_Draining [OF meta_list_meta [OF assms(2)] ph] obtain c
    where c: "FindStatusCondition L (ev_Conditions (ev_Status ev)) ConditionTypeEvicting = Some c" "Status c = ConditionTrue"
      and pre: "IsStatusConditionTrue L (ev_Conditions (ev_Status ev)) ConditionTypePreflight" .
  obtain s tr1 where p: "evict_pass L N ev (ResolveConcurrency g (Traits (hv_Status hv))) (tr @ gets) = (s, tr1)" by fastforce
  from evict_pass_extends [OF p] obtain cs where cs: "tr1 = (tr @ gets) @ cs" "list_all server_only cs" by (auto simp: extends_by_def)
  have u: "eviction_update L N g ev hv (tr @ gets) (es_eviction s)" by (rule eviction_update.drain [OF pre q p])
  have "snd (Eviction_Reconcile L ?K N g name tr) = snd (updateStatus L ?K (es_eviction s) (tr @ gets @ cs))"
    using assms(3) c pre q p cs(1)
    by (simp add: Eviction_Reconcile_def ask_def handleRunning_def evictNext_def drain_inv_def gets_def case_prod_beta
        split: option.split)
  from round_of_update [OF assms(1) this cs(2) gets_def] obtain ds where "eviction_round L K N g hv name (ev, tr)
    = (ev\<lparr>ev_Status := merge_status L (ev_Status (es_eviction s)) (ev_Status ev)\<rparr>, tr @ ds)" .
  moreover have "all_left L N ?h (ev_outstanding ev) (tr @ gets)" by (rule all_left_later [OF left]) simp
  then have "ev_outstanding (es_eviction s) = []"
    using evict_pass_empties [of L N ev "tr @ gets" "ResolveConcurrency g (Traits (hv_Status hv))"] p by simp
  moreover have "phase_of L (ev_Conditions (ev_Status (es_eviction s))) = phase_of L (ev_Conditions (ev_Status ev))"
    by (rule phase_of_migration_updates [OF meta_list_meta [OF assms(2)] migration_updates_pass [OF p]])
  ultimately show ?thesis using stored_update [OF assms(2,3) u refl] that ph by (simp add: abs_eviction_def)
qed

lemma round_completes:
  assumes "retry_laws L" "meta_list_laws L" "drain_inv L ev" and abs: "abs_eviction L ev = (Draining, [])"
  obtains ev' cs where "eviction_round L K N g hv name (ev, tr) = (ev', tr @ cs)" "drain_inv L ev'"
    "abs_eviction L ev' = (Completed, [])"
proof -
  let ?K = "serving ev hv K" and ?h = "es_Hypervisor (ev_Spec ev)"
    and ?ev = "ev_set_ram 0 (ev_set_condition L eviction_completed ev)"
  define gets where "gets = [Kube (GetEviction name), Kube (GetHypervisor ?h)]"
  from abs have ph: "phase_of L (ev_Conditions (ev_Status ev)) = Draining" and q: "ev_outstanding ev = []"
    by (simp_all add: abs_eviction_def)
  from phase_Draining [OF meta_list_meta [OF assms(2)] ph] obtain c
    where c: "FindStatusCondition L (ev_Conditions (ev_Status ev)) ConditionTypeEvicting = Some c" "Status c = ConditionTrue"
      and pre: "IsStatusConditionTrue L (ev_Conditions (ev_Status ev)) ConditionTypePreflight" .
  have u: "eviction_update L N g ev hv (tr @ gets) ?ev" by (rule eviction_update.finish [OF pre q])
  have "snd (Eviction_Reconcile L ?K N g name tr) = snd (updateStatus L ?K ?ev (tr @ gets @ []))"
    using assms(3) c pre q
    by (simp add: Eviction_Reconcile_def ask_def handleRunning_def drain_inv_def gets_def case_prod_beta)
  from round_of_update [OF assms(1) this _ gets_def] obtain ds where "eviction_round L K N g hv name (ev, tr)
    = (ev\<lparr>ev_Status := merge_status L (ev_Status ?ev) (ev_Status ev)\<rparr>, tr @ ds)" by auto
  moreover have "abs_eviction L ?ev = (Completed, [])"
    using q by (simp add: abs_eviction_def phase_of_def eviction_completed_def phase_set_mk [OF meta_list_meta [OF assms(2)]])
  ultimately show ?thesis using stored_update [OF assms(2,3) u refl] that by simp
qed

text \<open>A completed Eviction is left alone.\<close>

lemma round_done:
  assumes "drain_inv L ev" "abs_eviction L ev = (Completed, [])"
  shows "\<exists>cs. eviction_round L K N g hv name (ev, tr) = (ev, tr @ cs)"
proof -
  obtain c where "FindStatusCondition L (ev_Conditions (ev_Status ev)) ConditionTypeEvicting = Some c" "Status c = ConditionFalse"
    using phase_Completed [of L ev] assms(2) by (auto simp: abs_eviction_def)
  with assms(1) have "snd (Eviction_Reconcile L (serving ev hv K) N g name tr)
      = tr @ [Kube (GetEviction name), Kube (GetHypervisor (es_Hypervisor (ev_Spec ev)))]"
    by (simp add: Eviction_Reconcile_def ask_def drain_inv_def)
  then show ?thesis by (simp add: eviction_round_def)
qed


section \<open>From the last server to the evicted host\<close>

lemma rounds_complete:
  assumes "retry_laws L" "meta_list_laws L" "drain_inv L ev"
    and "phase_of L (ev_Conditions (ev_Status ev)) = Draining"
    and "all_left L N (es_Hypervisor (ev_Spec ev)) (ev_outstanding ev) tr"
  shows "\<exists>ev' cs. (eviction_round L K N g hv name ^^ (2 + n)) (ev, tr) = (ev', tr @ cs) \<and> drain_inv L ev'
    \<and> abs_eviction L ev' = (Completed, [])"
proof (induction n)
  case 0
  let ?r = "eviction_round L K N g hv name"
  have two: "(?r ^^ (2 + 0)) (ev, tr) = ?r (?r (ev, tr))" by (simp add: numeral_2_eq_2)
  show ?case
  proof (cases "ev_outstanding ev = []")
    case True
    with assms(4) have "abs_eviction L ev = (Draining, [])" by (simp add: abs_eviction_def)
    from round_completes [OF assms(1-3) this] obtain ev' cs where 1: "?r (ev, tr) = (ev', tr @ cs)" "drain_inv L ev'"
      "abs_eviction L ev' = (Completed, [])" by blast
    from round_done [OF this(2,3), of K N g hv name "tr @ cs"] obtain ds where "?r (ev', tr @ cs) = (ev', (tr @ cs) @ ds)" by blast
    with 1 show ?thesis unfolding two by auto
  next
    case False
    from round_empties [OF assms(1-4) False assms(5)] obtain ev1 cs where 1: "?r (ev, tr) = (ev1, tr @ cs)" "drain_inv L ev1"
      "abs_eviction L ev1 = (Draining, [])" by blast
    from round_completes [OF assms(1,2) this(2,3)] obtain ev' ds where "?r (ev1, tr @ cs) = (ev', (tr @ cs) @ ds)"
      "drain_inv L ev'" "abs_eviction L ev' = (Completed, [])" by blast
    with 1 show ?thesis unfolding two by auto
  qed
next
  case (Suc n)
  let ?r = "eviction_round L K N g hv name"
  from Suc obtain ev' cs where n: "(?r ^^ (2 + n)) (ev, tr) = (ev', tr @ cs)" and i: "drain_inv L ev'" "abs_eviction L ev' = (Completed, [])"
    by blast
  from round_done [OF i, of K N g hv name "tr @ cs"] obtain ds where "?r (ev', tr @ cs) = (ev', (tr @ cs) @ ds)" by blast
  with n i show ?case by auto
qed

text \<open>From this history on Nova lists no active migration to the host.\<close>

definition none_incoming :: "nova \<Rightarrow> string \<Rightarrow> trace \<Rightarrow> bool" where
  "none_incoming N host tr \<longleftrightarrow> (\<forall>since cs. \<exists>ms. n_migrations_List N host since (tr @ cs) = Inr ms \<and> filter_active host ms = [])"

lemma none_incoming_later: "none_incoming N host tr \<Longrightarrow> none_incoming N host (tr @ cs)"
  by (simp add: none_incoming_def)

lemma settle_none:
  assumes "none_incoming N (hv_Name hv) tr"
  obtains since where "settleIncomingMigrations L C N hv cfg (tr @ cs) =
    ((Inr True, cfg_set (clk_Now C) (ac_condition ConditionTypeIncomingMigrationsSettled ConditionTrue
        ConditionReasonSettled ''No incoming migrations targeting this host'') cfg),
     tr @ cs @ [Compute (MigrationsList (hv_Name hv) since)])"
proof -
  let ?since = "RFC3339_UTC (clk_Now C - IncomingMigrationsLookbackWindow)"
  from assms obtain ms where "n_migrations_List N (hv_Name hv) ?since (tr @ cs) = Inr ms" "filter_active (hv_Name hv) ms = []"
    unfolding none_incoming_def by blast
  then show ?thesis
    by (intro that [of ?since]) (simp add: settleIncomingMigrations_def SettleIncomingMigrations_def
        ListActiveIncomingMigrations_def listMigrationsForHost_def ask_def Let_def)
qed

text \<open>A host that only waits for its Eviction: disabled, being drained, without instances.\<close>

definition awaiting_eviction :: "lib \<Rightarrow> Hypervisor \<Rightarrow> bool" where
  "awaiting_eviction L hv \<longleftrightarrow> hv_Maintenance hv \<in> set draining_modes \<and> NumInstances (hv_Status hv) \<le> 0
     \<and> IsStatusConditionTrue L (hv_Conditions hv) ConditionTypeHypervisorDisabled
     \<and> \<not> IsStatusConditionTrue L (hv_Conditions hv) ConditionTypeOnboarding \<and> \<not> done_reason L hv"

lemma compute_kept:
  assumes "meta_laws L" "awaiting_eviction L hv"
  obtains cfg' where "reconcileComputeService L N now hv cfg tr = ((None, cfg'), tr)"
proof (cases "ServiceID (hv_Status hv) = []")
  case True
  then show ?thesis by (intro that [of cfg]) (simp add: reconcileComputeService_def Let_def)
next
  case False
  from assms have "\<exists>c. FindStatusCondition L (hv_Conditions hv) ConditionTypeHypervisorDisabled = Some c \<and> Status c = ConditionTrue"
    "hv_Maintenance hv \<in> set draining_modes"
    by (simp_all add: awaiting_eviction_def meta_True_iff)
  with False show ?thesis
    by (intro that [of "cfg_set now (ac_condition ConditionTypeHypervisorDisabled ConditionTrue
        ConditionReasonSucceeded ''Hypervisor is disabled'') cfg"]) (auto simp: reconcileComputeService_def Let_def)
qed

lemma ensure_finished:
  assumes "meta_laws L" "abs_eviction L ev = (Completed, us)"
  obtains t where "ensureEviction L (serving ev hv K) labels hv tr = (Inr ConditionFalse, t)"
proof -
  from assms have "IsStatusConditionFalse L (ev_Conditions (ev_Status ev)) ConditionTypeEvicting"
    using phase_Completed [of L ev] by (auto simp: abs_eviction_def meta_False_iff)
  with that show ?thesis by (simp add: ensureEviction_def ask_def Let_def)
qed

lemma maintenance_recognises:
  assumes L: "meta_laws L" and wait: "awaiting_eviction L hv" and none: "none_incoming N (hv_Name hv) tr"
    and abs: "abs_eviction L ev = (Completed, us)"
  shows "\<exists>cfg. Kube (StatusApplyHypervisor (hv_Name hv) cfg HypervisorMaintenanceControllerName)
      \<in> set (new_calls tr (snd (Maintenance_Reconcile L (serving ev hv K) C N labels name tr)))
    \<and> cfg_Evicted cfg = Some True
    \<and> cfg_cond cfg ConditionTypeEvicting = Some (Some ConditionFalse, Some ConditionReasonSucceeded, Some ''Evicted'', None)"
proof -
  let ?K = "serving ev hv K" and ?tr1 = "tr @ [Kube (GetHypervisor name)]"
  from wait have g: "hv_Maintenance hv \<in> set draining_modes" "NumInstances (hv_Status hv) \<le> 0" "\<not> done_reason L hv"
    "\<not> IsStatusConditionTrue L (hv_Conditions hv) ConditionTypeOnboarding"
    by (simp_all add: awaiting_eviction_def)
  obtain cfg1 where c: "reconcileComputeService L N (clk_Now C) hv (initial_cfg L (clk_Now C) hv) ?tr1 = ((None, cfg1), ?tr1)"
    by (rule compute_kept [OF L wait])
  obtain cfg2 t where s: "settleIncomingMigrations L C N hv cfg1 ?tr1 = ((Inr True, cfg2), t)"
    using settle_none [OF none, where cs = "[Kube (GetHypervisor name)]"] by metis
  obtain t2 where e: "ensureEviction L ?K labels hv t = (Inr ConditionFalse, t2)"
    by (rule ensure_finished [OF L abs])
  let ?cfg = "cfg_set (clk_Now C) (ac_condition ConditionTypeEvicting ConditionFalse ConditionReasonSucceeded ''Evicted'')
     (WithEvicted True cfg2)"
  have "\<not> succeeded_cond L hv" using g(3) by (auto simp: succeeded_cond_def done_reason_def)
  with g(1-3) s e have "reconcileEviction L ?K C N labels hv cfg1 ?tr1 = (((False, None), ?cfg), t2)"
    unfolding reconcileEviction_def Let_def case_conds by auto
  with c have p: "maintenance_pass L ?K C N labels hv ?tr1 = (((False, None), ?cfg), t2)" by (simp add: maintenance_pass_def Let_def)
  obtain cs where "t2 = ?tr1 @ cs"
    using maintenance_pass_extends [OF p] extends_by_trivial by blast
  with p g(4) have "Kube (StatusApplyHypervisor (hv_Name hv) ?cfg HypervisorMaintenanceControllerName)
      \<in> set (new_calls tr (snd (Maintenance_Reconcile L ?K C N labels name tr)))"
    by (simp add: Maintenance_Reconcile_def ask_def new_calls_def split: prod.split)
  then show ?thesis by (intro exI [of _ ?cfg]) simp
qed

text \<open>
  C9. Hand-over of a drain. An Eviction is past its preflight and Nova reports, from now on, each of
  its outstanding servers as unknown or as settled on another host. Then two passes of the eviction
  controller complete it, whatever Nova answers otherwise, further passes leave it completed, and a
  pass of the maintenance controller that then reads it, for a disabled host in a draining mode without
  instances and without incoming migrations, applies \<open>evicted: true\<close> and \<open>Evicting = False / Succeeded\<close>
  to the Hypervisor, unless that condition already had this reason.
\<close>

theorem drain_handover:
  assumes "retry_laws L" "meta_list_laws L"
    and "conds_ok (ev_Conditions (ev_Status ev))" "DeletionTimestamp (ev_Meta ev) = 0"
    and "abs_eviction L ev = (Draining, us)" "all_left L N (es_Hypervisor (ev_Spec ev)) us tr"
    and "awaiting_eviction L hv" "none_incoming N (hv_Name hv) tr"
    and rounds: "(eviction_round L K N g hv name ^^ (2 + n)) (ev, tr) = (ev', tr')"
  shows "abs_eviction L ev' = (Completed, []) \<and>
    (\<exists>cfg. Kube (StatusApplyHypervisor (hv_Name hv) cfg HypervisorMaintenanceControllerName)
        \<in> set (new_calls tr' (snd (Maintenance_Reconcile L (serving ev' hv K) C N labels host tr')))
      \<and> cfg_Evicted cfg = Some True
      \<and> cfg_cond cfg ConditionTypeEvicting = Some (Some ConditionFalse, Some ConditionReasonSucceeded, Some ''Evicted'', None))"
proof -
  have inv: "drain_inv L ev" "phase_of L (ev_Conditions (ev_Status ev)) = Draining" "ev_outstanding ev = us"
    using assms(3-5) by (simp_all add: drain_inv_def abs_eviction_def)
  from rounds_complete [OF assms(1,2) inv(1,2), where N = N and tr = tr and K = K and g = g and hv = hv and name = name and n = n] assms(6) inv(3) rounds
  obtain cs where "tr' = tr @ cs" "abs_eviction L ev' = (Completed, [])" by auto
  with maintenance_recognises [OF meta_list_meta [OF assms(2)] assms(7) none_incoming_later [OF assms(8)]]
  show ?thesis by blast
qed

definition disabled_hv :: Hypervisor where
  "disabled_hv = draining_hv\<lparr>hv_Status := (hv_Status draining_hv)\<lparr>Conditions :=
     [mk_condition ConditionTypeHypervisorDisabled ConditionTrue ConditionReasonSucceeded ''off'',
      mk_condition ConditionTypeEvicting ConditionTrue ConditionReasonRunning ''Evicting'']\<rparr>\<rparr>"

theorem drain_handover_witness:
  "\<exists>ev' tr' cfg. (eviction_round list_lib draining_kube sample_nova sample_globals disabled_hv ''e1'' ^^ 2) (one_eviction, []) = (ev', tr')
    \<and> abs_eviction list_lib ev' = (Completed, [])
    \<and> Kube (StatusApplyHypervisor ''h1'' cfg HypervisorMaintenanceControllerName) \<in> set (new_calls tr'
        (snd (Maintenance_Reconcile list_lib (serving ev' disabled_hv draining_kube) sample_clock sample_nova [] ''h1'' tr')))
    \<and> cfg_Evicted cfg = Some True"
proof -
  obtain ev' tr' where r: "(eviction_round list_lib draining_kube sample_nova sample_globals disabled_hv ''e1'' ^^ (2 + 0)) (one_eviction, []) = (ev', tr')"
    by fastforce
  have ev: "conds_ok (ev_Conditions (ev_Status one_eviction))" "DeletionTimestamp (ev_Meta one_eviction) = 0"
    "abs_eviction list_lib one_eviction = (Draining, [''a''])"
    by (simp_all add: one_eviction_def drained_eviction_def lone_eviction_def zero_values conds_ok_def abs_eviction_def phase_of_def
        cond_status_def ev_outstanding_def list_lib_def list_find_def)
  have nova: "all_left list_lib sample_nova (es_Hypervisor (ev_Spec one_eviction)) [''a''] []" "none_incoming sample_nova (hv_Name disabled_hv) []"
    by (simp_all add: all_left_def none_incoming_def sample_nova_def http_404_def list_lib_def)
  have hv: "awaiting_eviction list_lib disabled_hv" "hv_Name disabled_hv = ''h1''"
    by (simp_all add: awaiting_eviction_def done_reason_def disabled_hv_def draining_hv_def zero_values list_lib_def list_find_def)
  from drain_handover [OF retry_laws_list_lib meta_list_laws_list_lib ev nova(1) hv(1) nova(2) r] r hv(2) show ?thesis
    by (metis add_0_right)
qed

end
