(* ===== verification/Service_Client.thy ===== *)
theory Service_Client
  imports Prelude
begin

text \<open>
  OpenStack service clients: \<^verbatim>\<open>src/internal/openstack/service_client.go\<close>. A provider (an
  authenticated Keystone session) is cached per authentication context; a missing one is
  authenticated inside a singleflight group, so that concurrent callers share one request.
  Sequential calls are functions on the cache. For concurrent callers the atomic parts of the
  function that runs inside the group are the steps of a relation; the group itself
  (golang.org/x/sync) is the parameter that says when it starts an execution for a key.
\<close>

section \<open>Contexts and their keys\<close>

text \<open>The fields of \<open>clientconfig.AuthInfo\<close> that the code reads or writes.\<close>

record AuthInfo =
  AuthURL :: string
  ProjectName :: string
  ProjectDomainName :: string
  Username :: string
  UserDomainName :: string
  Password :: string
  AllowReauth :: bool

definition empty_AuthInfo :: AuthInfo where
  "empty_AuthInfo = \<lparr>AuthURL = [], ProjectName = [], ProjectDomainName = [], Username = [],
     UserDomainName = [], Password = [], AllowReauth = False\<rparr>"

definition cacheKey :: "AuthInfo option \<Rightarrow> string" where
  "cacheKey authInfo =
     (case authInfo of
        None \<Rightarrow> []
      | Some a \<Rightarrow> join_with [CHR 0x00] [AuthURL a, ProjectName a, ProjectDomainName a, Username a, UserDomainName a])"

section \<open>Authentication\<close>

text \<open>
  The process environment, the external command and Keystone (through clientconfig). The answers
  depend on the contexts sent to Keystone before.
\<close>

record 'p auth_env =
  OS_PW_CMD :: string
  cmd_Output :: "string \<Rightarrow> AuthInfo list \<Rightarrow> go_error + string"
  AuthenticatedClient :: "AuthInfo \<Rightarrow> AuthInfo list \<Rightarrow> go_error + 'p"
  EndpointLocator :: "'p \<Rightarrow> string \<Rightarrow> go_error + string"

definition strings_TrimSuffix :: "string \<Rightarrow> string \<Rightarrow> string" where
  "strings_TrimSuffix s suf = (if suffix suf s then take (length s - length suf) s else s)"

text \<open>
  The context is a pointer that the function writes through: besides the provider the result has
  the context as the caller finds it afterwards. The history gains the context sent to Keystone.
\<close>

definition NewProviderClient ::
    "'p auth_env \<Rightarrow> AuthInfo option \<Rightarrow> AuthInfo list \<Rightarrow> ((go_error + 'p) \<times> AuthInfo) \<times> AuthInfo list" where
  "NewProviderClient env authInfo sent =
     (let a = (case authInfo of None \<Rightarrow> empty_AuthInfo | Some a \<Rightarrow> a)\<lparr>AllowReauth := True\<rparr> in
      if OS_PW_CMD env \<noteq> [] then
        (case cmd_Output env (OS_PW_CMD env) sent of
           Inl err \<Rightarrow> ((Inl err, a), sent)
         | Inr out \<Rightarrow>
             let a1 = a\<lparr>Password := strings_TrimSuffix out [CHR 0x0A]\<rparr> in
             ((AuthenticatedClient env a1 sent, a1), sent @ [a1]))
      else ((AuthenticatedClient env a sent, a), sent @ [a]))"

record 'p ServiceClient =
  ProviderClient :: 'p
  Endpoint :: string
  ServiceType :: string
  Microversion :: string
  ResourceBase :: string

definition ServiceClientFromProvider :: "'p auth_env \<Rightarrow> 'p \<Rightarrow> string \<Rightarrow> go_error + 'p ServiceClient" where
  "ServiceClientFromProvider env provider serviceType =
     (case EndpointLocator env provider serviceType of
        Inl err \<Rightarrow> Inl err
      | Inr url \<Rightarrow> Inr \<lparr>ProviderClient = provider, Endpoint = url, ServiceType = serviceType, Microversion = [], ResourceBase = []\<rparr>)"

section \<open>One caller at a time\<close>

text \<open>The function that runs inside the group: look again, authenticate, store.\<close>

definition authenticate_once ::
    "'p auth_env \<Rightarrow> string \<Rightarrow> AuthInfo option \<Rightarrow> (string \<rightharpoonup> 'p) \<Rightarrow> AuthInfo list
     \<Rightarrow> (go_error + 'p) \<times> (string \<rightharpoonup> 'p) \<times> AuthInfo list" where
  "authenticate_once env key authInfo cache sent =
     (case cache key of
        Some p \<Rightarrow> (Inr p, cache, sent)
      | None \<Rightarrow>
          (case NewProviderClient env authInfo sent of
             ((Inl err, a), sent1) \<Rightarrow> (Inl err, cache, sent1)
           | ((Inr p, a), sent1) \<Rightarrow> (Inr p, cache(key \<mapsto> p), sent1)))"

definition GetServiceClient ::
    "'p auth_env \<Rightarrow> string \<Rightarrow> AuthInfo option \<Rightarrow> (string \<rightharpoonup> 'p) \<Rightarrow> AuthInfo list
     \<Rightarrow> (go_error + 'p ServiceClient) \<times> (string \<rightharpoonup> 'p) \<times> AuthInfo list" where
  "GetServiceClient env serviceType authInfo cache sent =
     (let key = cacheKey authInfo in
      case cache key of
        Some provider \<Rightarrow> (ServiceClientFromProvider env provider serviceType, cache, sent)
      | None \<Rightarrow>
          (case authenticate_once env key authInfo cache sent of
             (Inl err, cache1, sent1) \<Rightarrow> (Inl err, cache1, sent1)
           | (Inr provider, cache1, sent1) \<Rightarrow> (ServiceClientFromProvider env provider serviceType, cache1, sent1)))"

section \<open>Concurrent callers\<close>

text \<open>Where an execution inside the group stands between its atomic parts.\<close>

datatype 'p exec_pc = Idle | Begun | Missed | Authenticated 'p | Finished "go_error + 'p"

text \<open>
  The shared cache, the contexts sent to Keystone, the executions (numbered as the group starts
  them) with the context of the caller that leads them, and the providers Keystone granted.
\<close>

record 'p auth_state =
  providerCache :: "string \<rightharpoonup> 'p"
  sent_contexts :: "AuthInfo list"
  exec_pc :: "nat \<Rightarrow> 'p exec_pc"
  exec_ctx :: "nat \<Rightarrow> AuthInfo option"
  granted :: "(AuthInfo option \<times> 'p) list"

definition in_progress :: "'p exec_pc \<Rightarrow> bool" where
  "in_progress c \<longleftrightarrow> (case c of Idle \<Rightarrow> False | Finished r \<Rightarrow> False | _ \<Rightarrow> True)"

abbreviation running :: "'p auth_state \<Rightarrow> nat \<Rightarrow> bool" where
  "running s e \<equiv> in_progress (exec_pc s e)"

lemma in_progress_simps [simp]:
  "\<not> in_progress Idle" "\<not> in_progress (Finished r)" "in_progress Begun" "in_progress Missed" "in_progress (Authenticated p)"
  by (simp_all add: in_progress_def)

definition initial_auth_state :: "'p auth_state" where
  "initial_auth_state = \<lparr>providerCache = Map.empty, sent_contexts = [], exec_pc = (\<lambda>_. Idle),
     exec_ctx = (\<lambda>_. None), granted = []\<rparr>"

definition set_pc :: "nat \<Rightarrow> 'p exec_pc \<Rightarrow> 'p auth_state \<Rightarrow> 'p auth_state" where
  "set_pc e c s = s\<lparr>exec_pc := (exec_pc s)(e := c)\<rparr>"

text \<open>
  The steps: the group starts an execution for a caller whose first look missed; the second look
  under the lock; the request to Keystone; the store under the lock. A first look is no step of
  its own, since it changes nothing: what a caller may be handed is \<open>may_get\<close> below.
\<close>

inductive auth_step :: "'p auth_env \<Rightarrow> ('p auth_state \<Rightarrow> string \<Rightarrow> bool) \<Rightarrow> 'p auth_state \<Rightarrow> 'p auth_state \<Rightarrow> bool"
  for env admits where
  begin_exec: "exec_pc s e = Idle \<Longrightarrow> admits s (cacheKey a)
    \<Longrightarrow> auth_step env admits s (set_pc e Begun (s\<lparr>exec_ctx := (exec_ctx s)(e := a)\<rparr>))"
| second_hit: "exec_pc s e = Begun \<Longrightarrow> providerCache s (cacheKey (exec_ctx s e)) = Some p
    \<Longrightarrow> auth_step env admits s (set_pc e (Finished (Inr p)) s)"
| second_miss: "exec_pc s e = Begun \<Longrightarrow> providerCache s (cacheKey (exec_ctx s e)) = None
    \<Longrightarrow> auth_step env admits s (set_pc e Missed s)"
| auth_fails: "exec_pc s e = Missed \<Longrightarrow> NewProviderClient env (exec_ctx s e) (sent_contexts s) = ((Inl err, a'), sent')
    \<Longrightarrow> auth_step env admits s (set_pc e (Finished (Inl err)) (s\<lparr>sent_contexts := sent'\<rparr>))"
| auth_succeeds: "exec_pc s e = Missed \<Longrightarrow> NewProviderClient env (exec_ctx s e) (sent_contexts s) = ((Inr p, a'), sent')
    \<Longrightarrow> auth_step env admits s (set_pc e (Authenticated p)
          (s\<lparr>sent_contexts := sent', granted := granted s @ [(exec_ctx s e, p)]\<rparr>))"
| store: "exec_pc s e = Authenticated p
    \<Longrightarrow> auth_step env admits s (set_pc e (Finished (Inr p))
          (s\<lparr>providerCache := (providerCache s)(cacheKey (exec_ctx s e) \<mapsto> p)\<rparr>))"

inductive auth_reachable :: "'p auth_env \<Rightarrow> ('p auth_state \<Rightarrow> string \<Rightarrow> bool) \<Rightarrow> 'p auth_state \<Rightarrow> bool"
  for env admits where
  start: "auth_reachable env admits initial_auth_state"
| step: "auth_reachable env admits s \<Longrightarrow> auth_step env admits s s' \<Longrightarrow> auth_reachable env admits s'"

text \<open>What singleflight documents: no execution starts for a key while another one is in flight.\<close>

definition singleflight_laws :: "('p auth_state \<Rightarrow> string \<Rightarrow> bool) \<Rightarrow> bool" where
  "singleflight_laws admits \<longleftrightarrow> (\<forall>s k e. admits s k \<longrightarrow> running s e \<longrightarrow> cacheKey (exec_ctx s e) \<noteq> k)"

text \<open>
  The provider a caller with a context may be handed: the one its first look found, or the result
  of an execution for its key, its own or one it waited for.
\<close>

definition may_get :: "'p auth_state \<Rightarrow> AuthInfo option \<Rightarrow> 'p \<Rightarrow> bool" where
  "may_get s a p \<longleftrightarrow> providerCache s (cacheKey a) = Some p
     \<or> (\<exists>e. exec_pc s e = Finished (Inr p) \<and> cacheKey (exec_ctx s e) = cacheKey a)"

section \<open>Keys\<close>

lemma join_NUL_inject:
  assumes "CHR 0x00 \<notin> set x" "CHR 0x00 \<notin> set x'"
  shows "x @ CHR 0x00 # s = x' @ CHR 0x00 # s' \<longleftrightarrow> x = x' \<and> s = s'"
  using assms
proof (induction x arbitrary: x')
  case Nil
  then show ?case by (cases x') auto
next
  case (Cons c x)
  then show ?case by (cases x') auto
qed

definition NUL_free :: "AuthInfo \<Rightarrow> bool" where
  "NUL_free a \<longleftrightarrow> CHR 0x00 \<notin> set (AuthURL a) \<union> set (ProjectName a) \<union> set (ProjectDomainName a)
     \<union> set (Username a) \<union> set (UserDomainName a)"

definition same_context :: "AuthInfo option \<Rightarrow> AuthInfo option \<Rightarrow> bool" where
  "same_context x y \<longleftrightarrow>
     (case (x, y) of
        (None, None) \<Rightarrow> True
      | (Some a, Some b) \<Rightarrow> AuthURL a = AuthURL b \<and> ProjectName a = ProjectName b \<and> ProjectDomainName a = ProjectDomainName b
          \<and> Username a = Username b \<and> UserDomainName a = UserDomainName b
      | _ \<Rightarrow> False)"

lemma cacheKey_eq_iff:
  assumes "\<And>a. x = Some a \<Longrightarrow> NUL_free a" "\<And>b. y = Some b \<Longrightarrow> NUL_free b"
  shows "cacheKey x = cacheKey y \<longleftrightarrow> same_context x y"
proof (cases x; cases y)
  fix a b assume xy: "x = Some a" "y = Some b"
  with assms have "NUL_free a" "NUL_free b" by blast+
  then show ?thesis unfolding xy NUL_free_def by (auto simp: cacheKey_def same_context_def join_NUL_inject)
qed (auto simp: cacheKey_def same_context_def)

section \<open>Invariants of the concurrent cache\<close>

text \<open>
  Executions for one key never overlap; an execution past its second look belongs to a key that is
  not cached yet, and nothing has been granted for it unless the execution itself holds the provider;
  every other grant is cached, and the cache and the results hold only what was granted for their key.
\<close>

definition one_in_flight :: "'p auth_state \<Rightarrow> bool" where
  "one_in_flight s \<longleftrightarrow>
     (\<forall>e e'. running s e \<longrightarrow> running s e' \<longrightarrow> cacheKey (exec_ctx s e) = cacheKey (exec_ctx s e') \<longrightarrow> e = e')"

definition miss_ungranted :: "'p auth_state \<Rightarrow> bool" where
  "miss_ungranted s \<longleftrightarrow> (\<forall>e a p. exec_pc s e = Missed \<longrightarrow> (a, p) \<in> set (granted s) \<longrightarrow> cacheKey a \<noteq> cacheKey (exec_ctx s e))"

definition held_granted :: "'p auth_state \<Rightarrow> bool" where
  "held_granted s \<longleftrightarrow> (\<forall>e p. exec_pc s e = Authenticated p \<longrightarrow> (exec_ctx s e, p) \<in> set (granted s))"

definition granted_kept :: "'p auth_state \<Rightarrow> bool" where
  "granted_kept s \<longleftrightarrow> (\<forall>a p. (a, p) \<in> set (granted s) \<longrightarrow> providerCache s (cacheKey a) = Some p
     \<or> (\<exists>e. exec_pc s e = Authenticated p \<and> cacheKey (exec_ctx s e) = cacheKey a))"

definition answers_granted :: "'p auth_state \<Rightarrow> bool" where
  "answers_granted s \<longleftrightarrow>
     (\<forall>k p. providerCache s k = Some p \<longrightarrow> (\<exists>a. (a, p) \<in> set (granted s) \<and> cacheKey a = k))
     \<and> (\<forall>e p. exec_pc s e = Finished (Inr p) \<longrightarrow> (\<exists>a. (a, p) \<in> set (granted s) \<and> cacheKey a = cacheKey (exec_ctx s e)))"

definition auth_inv :: "'p auth_state \<Rightarrow> bool" where
  "auth_inv s \<longleftrightarrow> one_in_flight s \<and> miss_ungranted s \<and> held_granted s \<and> granted_kept s \<and> answers_granted s
     \<and> distinct (map (\<lambda>g. cacheKey (fst g)) (granted s))"

lemmas auth_inv_defs = one_in_flight_def miss_ungranted_def held_granted_def granted_kept_def answers_granted_def

lemma set_pc_sel [simp]:
  "exec_pc (set_pc e c s) = (exec_pc s)(e := c)" "exec_ctx (set_pc e c s) = exec_ctx s"
  "providerCache (set_pc e c s) = providerCache s" "granted (set_pc e c s) = granted s"
  by (simp_all add: set_pc_def)

lemma one_in_flight_less:
  "one_in_flight s \<Longrightarrow> exec_ctx s' = exec_ctx s \<Longrightarrow> (\<And>e. running s' e \<Longrightarrow> running s e) \<Longrightarrow> one_in_flight s'"
  by (simp add: one_in_flight_def)

lemma one_in_flight_step:
  assumes "auth_step env admits s s'" "singleflight_laws admits" "one_in_flight s"
  shows "one_in_flight s'"
  using assms(1)
proof cases
  case (begin_exec e a)
  with assms(2) have "running s e' \<Longrightarrow> cacheKey (exec_ctx s e') \<noteq> cacheKey a" for e' by (auto simp: singleflight_laws_def)
  then have other: "running s e' \<Longrightarrow> cacheKey a \<noteq> cacheKey (exec_ctx s e')" for e' by metis
  with assms(3) show ?thesis
    unfolding one_in_flight_def begin_exec(1) by (simp add: other) (metis other)
qed (rule one_in_flight_less [OF assms(3)]; simp split: if_splits)+

lemma same_grant:
  "distinct (map (\<lambda>g. cacheKey (fst g)) gs) \<Longrightarrow> (a, p) \<in> set gs \<Longrightarrow> (b, q) \<in> set gs \<Longrightarrow> cacheKey a = cacheKey b
    \<Longrightarrow> p = q"
  unfolding distinct_map inj_on_def by (metis fst_conv snd_conv)

text \<open>A step that grants and stores nothing keeps the account if it moves no execution into an account.\<close>

lemma account_frame:
  assumes "miss_ungranted s" "held_granted s" "granted_kept s" "answers_granted s"
    and "granted s' = granted s" "providerCache s' = providerCache s"
    and "\<And>x. exec_pc s' x = Missed \<Longrightarrow> exec_pc s x = Missed \<and> exec_ctx s' x = exec_ctx s x"
    and "\<And>x p. exec_pc s' x = Authenticated p \<Longrightarrow> exec_pc s x = Authenticated p \<and> exec_ctx s' x = exec_ctx s x"
    and "\<And>x p. exec_pc s x = Authenticated p \<Longrightarrow> exec_pc s' x = Authenticated p \<and> exec_ctx s' x = exec_ctx s x"
    and "\<And>x p. exec_pc s' x = Finished (Inr p) \<Longrightarrow> exec_ctx s' x = exec_ctx s x
       \<and> (exec_pc s x = Finished (Inr p) \<or> providerCache s (cacheKey (exec_ctx s x)) = Some p)"
  shows "miss_ungranted s' \<and> held_granted s' \<and> granted_kept s' \<and> answers_granted s'"
proof (intro conjI)
  show "miss_ungranted s'" using assms(1,5,7) by (simp add: miss_ungranted_def)
  show "held_granted s'" using assms(2,5,8) by (simp add: held_granted_def)
  show "granted_kept s'" using assms(3,5,6,9) by (simp add: granted_kept_def) metis
  show "answers_granted s'" using assms(4,5,6,10) by (simp add: answers_granted_def) metis
qed

text \<open>The three steps that move an execution into, inside or out of the account.\<close>

lemma auth_inv_second_miss:
  assumes inv: "auth_inv s" and pc: "exec_pc s e = Begun" and miss: "providerCache s (cacheKey (exec_ctx s e)) = None"
    and s': "s' = set_pc e Missed s" and f: "one_in_flight s'"
  shows "auth_inv s'"
proof -
  from inv have I: "miss_ungranted s" "held_granted s" "granted_kept s" "answers_granted s"
    and d: "distinct (map (\<lambda>g. cacheKey (fst g)) (granted s))" and one: "one_in_flight s" by (simp_all add: auth_inv_def)
  have new: "cacheKey a \<noteq> cacheKey (exec_ctx s e)" if "(a, p) \<in> set (granted s)" for a p
  proof
    assume k: "cacheKey a = cacheKey (exec_ctx s e)"
    with that miss obtain e' where "exec_pc s e' = Authenticated p" "cacheKey (exec_ctx s e') = cacheKey a"
      using I(3) unfolding granted_kept_def by (metis option.distinct(1))
    with k one pc have "e' = e" by (auto simp: one_in_flight_def)
    with \<open>exec_pc s e' = Authenticated p\<close> pc show False by simp
  qed
  have "miss_ungranted s'" using I(1) new by (auto simp: miss_ungranted_def s' split: if_splits)
  moreover have "held_granted s'" using I(2) by (auto simp: held_granted_def s' split: if_splits)
  moreover have "granted_kept s'"
    unfolding granted_kept_def
  proof (intro allI impI)
    fix a p assume "(a, p) \<in> set (granted s')"
    with I(3) pc s' show "providerCache s' (cacheKey a) = Some p
        \<or> (\<exists>x. exec_pc s' x = Authenticated p \<and> cacheKey (exec_ctx s' x) = cacheKey a)"
      by (simp add: granted_kept_def) (metis exec_pc.distinct)
  qed
  moreover have "answers_granted s'" using I(4) by (auto simp: answers_granted_def s' split: if_splits)
  ultimately show ?thesis using f d by (simp add: auth_inv_def s')
qed

lemma auth_inv_auth_succeeds:
  assumes inv: "auth_inv s" and pc: "exec_pc s e = Missed"
    and s': "s' = set_pc e (Authenticated p) (s\<lparr>sent_contexts := sent', granted := granted s @ [(exec_ctx s e, p)]\<rparr>)" and f: "one_in_flight s'"
  shows "auth_inv s'"
proof -
  from inv have I: "miss_ungranted s" "held_granted s" "granted_kept s" "answers_granted s"
    and d: "distinct (map (\<lambda>g. cacheKey (fst g)) (granted s))" and one: "one_in_flight s" by (simp_all add: auth_inv_def)
  have new: "cacheKey a \<noteq> cacheKey (exec_ctx s e)" if "(a, q) \<in> set (granted s)" for a q
    using I(1) pc that by (auto simp: miss_ungranted_def)
  have "miss_ungranted s'"
    unfolding miss_ungranted_def
  proof (intro allI impI)
    fix x a q assume x: "exec_pc s' x = Missed" and a: "(a, q) \<in> set (granted s')"
    from x s' have xe: "x \<noteq> e" "exec_pc s x = Missed" by (auto split: if_splits)
    with one pc have "cacheKey (exec_ctx s x) \<noteq> cacheKey (exec_ctx s e)" by (auto simp: one_in_flight_def)
    with a xe I(1) s' show "cacheKey a \<noteq> cacheKey (exec_ctx s' x)" by (auto simp: miss_ungranted_def)
  qed
  moreover have "held_granted s'" using I(2) by (auto simp: held_granted_def s' split: if_splits)
  moreover have "granted_kept s'"
    unfolding granted_kept_def
  proof (intro allI impI)
    fix a q assume "(a, q) \<in> set (granted s')"
    then consider "(a, q) \<in> set (granted s)" | "a = exec_ctx s e" "q = p" by (auto simp: s')
    then show "providerCache s' (cacheKey a) = Some q
        \<or> (\<exists>x. exec_pc s' x = Authenticated q \<and> cacheKey (exec_ctx s' x) = cacheKey a)"
    proof cases
      case 1
      with I(3) new [OF 1] show ?thesis by (simp add: granted_kept_def s') metis
    next
      case 2
      then show ?thesis by (auto simp: s')
    qed
  qed
  moreover have "answers_granted s'" using I(4) by (simp add: answers_granted_def s') metis
  moreover have "cacheKey (exec_ctx s e) \<notin> (\<lambda>g. cacheKey (fst g)) ` set (granted s)" using new by fastforce
  then have "distinct (map (\<lambda>g. cacheKey (fst g)) (granted s'))" using d by (simp add: s')
  ultimately show ?thesis using f by (simp add: auth_inv_def)
qed

lemma auth_inv_store:
  assumes inv: "auth_inv s" and pc: "exec_pc s e = Authenticated p"
    and s': "s' = set_pc e (Finished (Inr p)) (s\<lparr>providerCache := (providerCache s)(cacheKey (exec_ctx s e) \<mapsto> p)\<rparr>)" and f: "one_in_flight s'"
  shows "auth_inv s'"
proof -
  from inv have I: "miss_ungranted s" "held_granted s" "granted_kept s" "answers_granted s"
    and d: "distinct (map (\<lambda>g. cacheKey (fst g)) (granted s))" and one: "one_in_flight s" by (simp_all add: auth_inv_def)
  have own: "(exec_ctx s e, p) \<in> set (granted s)" using I(2) pc by (simp add: held_granted_def)
  have "miss_ungranted s'" using I(1) by (auto simp: miss_ungranted_def s' split: if_splits)
  moreover have "held_granted s'" using I(2) by (auto simp: held_granted_def s' split: if_splits)
  moreover have "granted_kept s'"
    unfolding granted_kept_def
  proof (intro allI impI)
    fix a q assume "(a, q) \<in> set (granted s')"
    then have a: "(a, q) \<in> set (granted s)" by (simp add: s')
    show "providerCache s' (cacheKey a) = Some q
        \<or> (\<exists>x. exec_pc s' x = Authenticated q \<and> cacheKey (exec_ctx s' x) = cacheKey a)"
    proof (cases "cacheKey a = cacheKey (exec_ctx s e)")
      case True
      then have "q = p" by (rule same_grant [OF d a own])
      with True show ?thesis by (simp add: s')
    next
      case False
      with I(3) a show ?thesis by (simp add: granted_kept_def s') metis
    qed
  qed
  moreover have "answers_granted s'" using I(4) own by (auto simp: answers_granted_def s' split: if_splits)
  ultimately show ?thesis using f d by (simp add: auth_inv_def s')
qed

lemma auth_inv_step:
  assumes st: "auth_step env admits s s'" and sf: "singleflight_laws admits" and inv: "auth_inv s"
  shows "auth_inv s'"
proof -
  from inv have I: "miss_ungranted s" "held_granted s" "granted_kept s" "answers_granted s"
    and d: "distinct (map (\<lambda>g. cacheKey (fst g)) (granted s))" by (simp_all add: auth_inv_def)
  have f: "one_in_flight s'" by (rule one_in_flight_step [OF st sf]) (use inv in \<open>simp add: auth_inv_def\<close>)
  from st show ?thesis
  proof cases
    case (begin_exec e a)
    have "miss_ungranted s' \<and> held_granted s' \<and> granted_kept s' \<and> answers_granted s'"
      by (rule account_frame [OF I]) (use begin_exec in \<open>auto split: if_splits\<close>)
    with f d show ?thesis by (simp add: auth_inv_def begin_exec)
  next
    case (second_hit e p)
    have "miss_ungranted s' \<and> held_granted s' \<and> granted_kept s' \<and> answers_granted s'"
      by (rule account_frame [OF I]) (use second_hit in \<open>auto split: if_splits\<close>)
    with f d show ?thesis by (simp add: auth_inv_def second_hit)
  next
    case (auth_fails e err a' sent')
    have "miss_ungranted s' \<and> held_granted s' \<and> granted_kept s' \<and> answers_granted s'"
      by (rule account_frame [OF I]) (use auth_fails in \<open>auto split: if_splits\<close>)
    with f d show ?thesis by (simp add: auth_inv_def auth_fails)
  next
    case (second_miss e)
    show ?thesis by (rule auth_inv_second_miss [OF inv second_miss(2,3,1) f])
  next
    case (auth_succeeds e p a' sent')
    show ?thesis by (rule auth_inv_auth_succeeds [OF inv auth_succeeds(2,1) f])
  next
    case (store e p)
    show ?thesis by (rule auth_inv_store [OF inv store(2,1) f])
  qed
qed

lemma auth_inv_initial: "auth_inv initial_auth_state"
  by (simp add: auth_inv_def auth_inv_defs initial_auth_state_def)

lemma auth_inv_reachable: "auth_reachable env admits s \<Longrightarrow> singleflight_laws admits \<Longrightarrow> auth_inv s"
  by (induction rule: auth_reachable.induct) (auto simp: auth_inv_initial intro: auth_inv_step)

lemma may_get_granted:
  "answers_granted s \<Longrightarrow> may_get s a p \<Longrightarrow> \<exists>b. (b, p) \<in> set (granted s) \<and> cacheKey b = cacheKey a"
  by (auto simp: answers_granted_def may_get_def) metis+

text \<open>What Keystone granted, it granted for the context of some execution.\<close>

definition grants_from :: "'p auth_env \<Rightarrow> 'p auth_state \<Rightarrow> bool" where
  "grants_from env s \<longleftrightarrow> (\<forall>a p. (a, p) \<in> set (granted s) \<longrightarrow>
     (\<exists>e sent. exec_pc s e \<noteq> Idle \<and> exec_ctx s e = a \<and> fst (fst (NewProviderClient env a sent)) = Inr p))"

lemma grants_from_less:
  assumes "grants_from env s" "granted s' = granted s"
    and "\<And>e. exec_pc s e \<noteq> Idle \<Longrightarrow> exec_pc s' e \<noteq> Idle \<and> exec_ctx s' e = exec_ctx s e"
  shows "grants_from env s'"
  unfolding grants_from_def
proof (intro allI impI)
  fix a p assume "(a, p) \<in> set (granted s')"
  with assms(1,2) obtain e sent where "exec_pc s e \<noteq> Idle" "exec_ctx s e = a" "fst (fst (NewProviderClient env a sent)) = Inr p"
    unfolding grants_from_def by metis
  with assms(3) show "\<exists>e sent. exec_pc s' e \<noteq> Idle \<and> exec_ctx s' e = a \<and> fst (fst (NewProviderClient env a sent)) = Inr p"
    by metis
qed

lemma grants_from_step:
  assumes "auth_step env admits s s'" "grants_from env s"
  shows "grants_from env s'"
  using assms(1)
proof cases
  case (auth_succeeds e p a' sent')
  let ?s = "set_pc e (Authenticated p) s"
  have old: "grants_from env ?s" by (rule grants_from_less [OF assms(2)]) (auto split: if_splits)
  have "fst (fst (NewProviderClient env (exec_ctx s e) (sent_contexts s))) = Inr p" by (simp add: auth_succeeds)
  then show ?thesis
    using old unfolding grants_from_def auth_succeeds(1) by (auto split: if_splits)
qed (rule grants_from_less [OF assms(2)]; auto split: if_splits)+

lemma grants_from_reachable: "auth_reachable env admits s \<Longrightarrow> grants_from env s"
proof (induction rule: auth_reachable.induct)
  case start
  then show ?case by (simp add: grants_from_def initial_auth_state_def)
next
  case (step s s')
  from grants_from_step [OF step.hyps(2) step.IH] show ?case .
qed

section \<open>Properties\<close>

text \<open>
  C33. One session per context, under every interleaving: however callers race, and whatever the
  external command and Keystone answer, Keystone grants at most one session for each key, and two
  callers with the same key who get a provider get the same one.
\<close>

theorem one_session_per_context:
  assumes "singleflight_laws admits" "auth_reachable env admits s"
  shows "distinct (map (\<lambda>g. cacheKey (fst g)) (granted s))
    \<and> (\<forall>a b p q. cacheKey a = cacheKey b \<longrightarrow> may_get s a p \<longrightarrow> may_get s b q \<longrightarrow> p = q)"
proof -
  have I: "auth_inv s" by (rule auth_inv_reachable [OF assms(2,1)])
  then have d: "distinct (map (\<lambda>g. cacheKey (fst g)) (granted s))" by (simp add: auth_inv_def)
  have "p = q" if "cacheKey a = cacheKey b" "may_get s a p" "may_get s b q" for a b p q
    using that I by (metis auth_inv_def may_get_granted same_grant)
  with d show ?thesis by blast
qed

text \<open>
  C34. A caller is never handed a session of somebody else: the provider was granted by Keystone for a
  context with the same URL, project, project domain, user and user domain, or none at all if the
  caller has none. The five texts must not contain the NUL byte the key is joined with.
\<close>

theorem session_of_own_context:
  assumes "singleflight_laws admits" "auth_reachable env admits s" "may_get s a p"
    and "\<And>x. a = Some x \<Longrightarrow> NUL_free x" "\<And>e x. exec_ctx s e = Some x \<Longrightarrow> NUL_free x"
  shows "\<exists>b sent. same_context b a \<and> fst (fst (NewProviderClient env b sent)) = Inr p"
proof -
  have "auth_inv s" by (rule auth_inv_reachable [OF assms(2,1)])
  then obtain b where b: "(b, p) \<in> set (granted s)" "cacheKey b = cacheKey a"
    using may_get_granted assms(3) by (metis auth_inv_def)
  moreover obtain e sent where "exec_ctx s e = b" "fst (fst (NewProviderClient env b sent)) = Inr p"
    using grants_from_reachable [OF assms(2)] b(1) unfolding grants_from_def by metis
  moreover from this have "same_context b a" using cacheKey_eq_iff [of b a] b(2) assms(4,5) by blast
  ultimately show ?thesis by blast
qed

text \<open>
  A caller that nobody disturbs gets what the concurrent machine computes: the sequential function is
  a run of its steps.
\<close>

theorem GetServiceClient_runs:
  assumes "exec_pc s e = Idle" "admits s (cacheKey a)"
    and "GetServiceClient env serviceType a (providerCache s) (sent_contexts s) = (r, cache', sent')"
  shows "\<exists>s'. (auth_step env admits)\<^sup>*\<^sup>* s s' \<and> providerCache s' = cache' \<and> sent_contexts s' = sent'
    \<and> exec_ctx s' \<in> {exec_ctx s, (exec_ctx s)(e := a)} \<and> (\<forall>c. r = Inr c \<longrightarrow> may_get s' a (ProviderClient c))"
proof (cases "providerCache s (cacheKey a)")
  case (Some p)
  with assms(3) show ?thesis
    by (intro exI [of _ s]) (auto simp: GetServiceClient_def Let_def may_get_def ServiceClientFromProvider_def split: sum.splits)
next
  case None
  let ?s1 = "set_pc e Begun (s\<lparr>exec_ctx := (exec_ctx s)(e := a)\<rparr>)" and ?st = "auth_step env admits"
  let ?s2 = "set_pc e Missed ?s1"
  have 1: "?st s ?s1" by (rule begin_exec) (fact assms(1), fact assms(2))
  have 2: "?st ?s1 ?s2" by (rule second_miss) (simp_all add: None)
  obtain x a' sent1 where n: "NewProviderClient env a (sent_contexts s) = ((x, a'), sent1)" by (metis surj_pair)
  show ?thesis
  proof (cases x)
    case (Inl err)
    have "?st ?s2 (set_pc e (Finished (Inl err)) (?s2\<lparr>sent_contexts := sent1\<rparr>))"
      by (rule auth_fails) (use n Inl in \<open>simp_all add: set_pc_def\<close>)
    with 1 2 have "?st\<^sup>*\<^sup>* s (set_pc e (Finished (Inl err)) (?s2\<lparr>sent_contexts := sent1\<rparr>))" by (meson converse_rtranclp_into_rtranclp r_into_rtranclp)
    with assms(3) n Inl None show ?thesis
      by (intro exI [of _ "set_pc e (Finished (Inl err)) (?s2\<lparr>sent_contexts := sent1\<rparr>)"])
        (auto simp: GetServiceClient_def authenticate_once_def Let_def set_pc_def)
  next
    case (Inr p)
    let ?s3 = "set_pc e (Authenticated p) (?s2\<lparr>sent_contexts := sent1, granted := granted ?s2 @ [(exec_ctx ?s2 e, p)]\<rparr>)"
    let ?s4 = "set_pc e (Finished (Inr p)) (?s3\<lparr>providerCache := (providerCache ?s3)(cacheKey (exec_ctx ?s3 e) \<mapsto> p)\<rparr>)"
    have "?st ?s2 ?s3" by (rule auth_succeeds) (use n Inr in \<open>simp_all add: set_pc_def\<close>)
    moreover have "?st ?s3 ?s4" by (rule store) simp
    ultimately have "?st\<^sup>*\<^sup>* s ?s4" using 1 2 by (meson converse_rtranclp_into_rtranclp r_into_rtranclp)
    with assms(3) n Inr None show ?thesis
      by (intro exI [of _ ?s4]) (auto simp: GetServiceClient_def authenticate_once_def Let_def set_pc_def may_get_def
          ServiceClientFromProvider_def split: sum.splits)
  qed
qed

section \<open>Witnesses\<close>

text \<open>A Keystone that grants every context a session named after its project.\<close>

definition sample_auth :: "string auth_env" where
  "sample_auth = \<lparr>OS_PW_CMD = ''pass'', cmd_Output = (\<lambda>_ _. Inr (''secret'' @ [CHR 0x0A])),
     AuthenticatedClient = (\<lambda>a _. Inr (ProjectName a @ '':'' @ Password a)), EndpointLocator = (\<lambda>p t. Inr (''https://'' @ t))\<rparr>"

definition test_context :: AuthInfo where
  "test_context = empty_AuthInfo\<lparr>ProjectName := ''test'', ProjectDomainName := ''cc3test''\<rparr>"

abbreviation one_at_a_time :: "string auth_state \<Rightarrow> string \<Rightarrow> bool" where
  "one_at_a_time s k \<equiv> \<forall>e. running s e \<longrightarrow> cacheKey (exec_ctx s e) \<noteq> k"

lemma one_at_a_time_laws: "singleflight_laws one_at_a_time"
  by (simp add: singleflight_laws_def)

lemma reachable_steps: "(auth_step env admits)\<^sup>*\<^sup>* s s' \<Longrightarrow> auth_reachable env admits s \<Longrightarrow> auth_reachable env admits s'"
  by (induction rule: rtranclp_induct) (auto intro: auth_reachable.step)

lemma sample_session:
  obtains s where "auth_reachable sample_auth one_at_a_time s" "may_get s (Some test_context) ''test:secret''"
    "\<And>e x. exec_ctx s e = Some x \<Longrightarrow> x = test_context"
proof -
  let ?init = "initial_auth_state :: string auth_state"
  let ?c = "\<lparr>ProviderClient = ''test:secret'', Endpoint = ''https://image'', ServiceType = ''image'', Microversion = [], ResourceBase = []\<rparr>"
  have i: "exec_pc ?init 0 = Idle" "one_at_a_time ?init (cacheKey (Some test_context))" by (simp_all add: initial_auth_state_def)
  obtain cache' sent' where "GetServiceClient sample_auth ''image'' (Some test_context) (providerCache ?init) (sent_contexts ?init)
      = (Inr ?c, cache', sent')"
    by (simp add: GetServiceClient_def authenticate_once_def NewProviderClient_def ServiceClientFromProvider_def sample_auth_def
        test_context_def empty_AuthInfo_def initial_auth_state_def strings_TrimSuffix_def suffix_def Let_def)
  from GetServiceClient_runs [where admits = one_at_a_time, OF i this] obtain s where s: "(auth_step sample_auth one_at_a_time)\<^sup>*\<^sup>* ?init s"
    "exec_ctx s \<in> {exec_ctx ?init, (exec_ctx ?init)(0 := Some test_context)}" "may_get s (Some test_context) (ProviderClient ?c)"
    by blast
  show ?thesis
  proof (rule that)
    show "auth_reachable sample_auth one_at_a_time s" by (rule reachable_steps [OF s(1) auth_reachable.start])
    show "may_get s (Some test_context) ''test:secret''" using s(3) by simp
    show "x = test_context" if "exec_ctx s e = Some x" for e x
      using that s(2) by (auto simp: initial_auth_state_def split: if_splits)
  qed
qed

lemma test_context_NUL_free: "NUL_free test_context"
  by (simp add: NUL_free_def test_context_def empty_AuthInfo_def)

theorem one_session_per_context_witness:
  "\<exists>s. may_get s (Some test_context) ''test:secret'' \<and> (\<forall>q. may_get s (Some test_context) q \<longrightarrow> q = ''test:secret'')"
proof -
  obtain s where s: "auth_reachable sample_auth one_at_a_time s" "may_get s (Some test_context) ''test:secret''"
    by (rule sample_session)
  from one_session_per_context [OF one_at_a_time_laws s(1)] s(2) show ?thesis by blast
qed

theorem session_of_own_context_witness:
  "\<exists>b sent. same_context b (Some test_context) \<and> fst (fst (NewProviderClient sample_auth b sent)) = Inr ''test:secret''"
proof -
  obtain s where s: "auth_reachable sample_auth one_at_a_time s" "may_get s (Some test_context) ''test:secret''"
    and c: "\<And>e x. exec_ctx s e = Some x \<Longrightarrow> x = test_context" by (rule sample_session) blast
  show ?thesis
    by (rule session_of_own_context [OF one_at_a_time_laws s]) (use c test_context_NUL_free in auto)
qed

end
