(* ===== verification/Startup.thy ===== *)
theory Startup
  imports Service_Client Config Certificate_Ctrl Node_Ctrl Lifecycle_Ctrl Aggregates_Ctrl Offboarding_Ctrl
    Onboarding_Tests Traits_Ctrl Taint_Ctrl Ready_Ctrl Maintenance_Ctrl Eviction_Ctrl
begin

text \<open>
  The start of the process: \<open>main\<close> of \<^verbatim>\<open>src/cmd/main.go\<close> after the flags are parsed, and the
  \<open>SetupWithManager\<close> methods of the controllers it calls in turn. A set-up gets the OpenStack clients of
  its controller (they share the provider cache), pins their API versions and registers the controller
  with the manager. The manager (controller-runtime), the label parser of apimachinery, the compiler of
  regular expressions and the hash are parameters; the registrations and the options of the manager are
  data. An \<open>os.Exit(1)\<close> is the text and the error it logs.
\<close>

section \<open>Registrations and options\<close>

datatype kind = KNode | KHypervisor | KEviction | KDeployment | KPodDisruptionBudget | KPod

text \<open>The predicates a registration names: those of the repository and of controller-runtime.\<close>

datatype event_filter =
    AllEvents
  | HasLabel string
  | GenerationChanged
  | LifecycleEnabledOnly
  | ReadyInputsChanged
  | EvictingConditionChanged
  | AnyOf event_filter event_filter

record registration =
  rg_Named :: string
  rg_For :: kind
  rg_ForPredicates :: event_filter
  rg_EventFilter :: event_filter
  rg_Watches :: "(kind \<times> event_filter) list"
  rg_Owns :: "kind list"

definition registers :: "string \<Rightarrow> kind \<Rightarrow> registration" where
  "registers name k =
     \<lparr>rg_Named = name, rg_For = k, rg_ForPredicates = AllEvents, rg_EventFilter = AllEvents, rg_Watches = [], rg_Owns = []\<rparr>"

type_synonym selector = "label_map \<Rightarrow> bool"

text \<open>What the cache of the manager holds of a kind: only some namespaces, only what a selector matches.\<close>

record by_object =
  bo_Kind :: kind
  bo_Namespaces :: "string list option"
  bo_Label :: "selector"

text \<open>The protocols a server is restricted to, if it is, and whether the metrics need authentication.\<close>

record metrics_options =
  mt_BindAddress :: string
  mt_SecureServing :: bool
  mt_NextProtos :: "string list option"
  mt_FilterProvider :: bool

record manager_options =
  mo_Metrics :: metrics_options
  mo_WebhookNextProtos :: "string list option"
  mo_ProbeAddr :: string
  mo_LeaderElection :: bool
  mo_LeaderElectionID :: string
  mo_ByObject :: "by_object list"
  mo_Uncached :: "kind list"

record main_flags = flags +
  versionFlag :: bool
  metricsAddr :: string
  probeAddr :: string
  enableLeaderElection :: bool
  secureMetrics :: bool
  enableHTTP2 :: bool
  LabelSelector :: string
  certificateInterfaceIncludeRegex :: string
  certificateInterfaceExcludeRegex :: string

text \<open>The flags when none is given on the command line.\<close>

definition default_flags :: main_flags where
  "default_flags =
     \<lparr>agentNamespacesFlag = [], evictionConcurrencyFlag = 1, evictionTraitConcurrencyFlag = [],
      certificateIssuerName = ''nova-hypervisor-agents-ca-issuer'', certificateNamespace = ''monsoon3'',
      versionFlag = False, metricsAddr = ''0'', probeAddr = '':8081'', enableLeaderElection = False, secureMetrics = True,
      enableHTTP2 = False, LabelSelector = [], certificateInterfaceIncludeRegex = ''^vlan_[0-9]+$'',
      certificateInterfaceExcludeRegex = []\<rparr>"

section \<open>The state of the start-up\<close>

text \<open>
  The provider cache and what was sent to Keystone, the clients the controllers hold (by controller and
  field), the registrations, and what the set-ups store beside these.
\<close>

record 'p startup =
  su_cache :: "string \<rightharpoonup> 'p"
  su_sent :: "AuthInfo list"
  su_clients :: "((string \<times> string) \<times> 'p ServiceClient) list"
  su_registered :: "registration list"
  su_transferLabels :: "string list"
  su_TestFlavorID :: string
  su_certificate :: NodeCertificateController

definition initial_startup :: "'p startup" where
  "initial_startup =
     \<lparr>su_cache = Map.empty, su_sent = [], su_clients = [], su_registered = [], su_transferLabels = defaultTransferLabels,
      su_TestFlavorID = [],
      su_certificate = \<lparr>cc_namespace = [], cc_issuerName = [], cc_includeInterfaceNames = None, cc_excludeInterfaceNames = None\<rparr>\<rparr>"

record 'p main_env =
  me_auth :: "'p auth_env"
  me_GetConfig :: "go_error option"
  me_labels_Parse :: "string \<Rightarrow> go_error + selector"
  me_ParseToRequirements :: "string \<Rightarrow> go_error + string list"
  me_LabelSelectorPredicate :: "string \<Rightarrow> go_error option"
  me_Compile :: "string \<Rightarrow> go_error + (string \<Rightarrow> bool)"
  me_quote :: "string \<Rightarrow> string"
  me_sha256_hex :: "string \<Rightarrow> string"
  me_NewManager :: "manager_options \<Rightarrow> go_error option"
  me_Complete :: "registration \<Rightarrow> registration list \<Rightarrow> go_error option"
  me_AddCheck :: "string \<Rightarrow> go_error option"
  me_Start :: "registration list \<Rightarrow> go_error option"

type_synonym 'p set_up = "'p startup \<Rightarrow> go_error option \<times> 'p startup"

text \<open>The registration at the end of a set-up.\<close>

definition complete :: "'p main_env \<Rightarrow> registration \<Rightarrow> 'p set_up" where
  "complete env rg st =
     (case me_Complete env rg (su_registered st) of
        Some err \<Rightarrow> (Some err, st)
      | None \<Rightarrow> (None, st\<lparr>su_registered := su_registered st @ [rg]\<rparr>))"

text \<open>A client of a controller: got, adjusted, stored in a field; without it the set-up fails.\<close>

definition with_client ::
    "'p main_env \<Rightarrow> string \<times> string \<Rightarrow> string \<Rightarrow> AuthInfo option \<Rightarrow> ('p ServiceClient \<Rightarrow> 'p ServiceClient) \<Rightarrow> 'p set_up \<Rightarrow> 'p set_up" where
  "with_client env field serviceType authInfo adjust next_part st =
     (case GetServiceClient (me_auth env) serviceType authInfo (su_cache st) (su_sent st) of
        (Inl err, cache1, sent1) \<Rightarrow> (Some err, st\<lparr>su_cache := cache1, su_sent := sent1\<rparr>)
      | (Inr c, cache1, sent1) \<Rightarrow>
          next_part (st\<lparr>su_cache := cache1, su_sent := sent1, su_clients := su_clients st @ [(field, adjust c)]\<rparr>))"

section \<open>The set-ups\<close>

text \<open>
  Two assignments have no counterpart: the real clock that the onboarding controller gets when it has
  none (the time is an argument of its passes), and the namespace that the lifecycle controller stores
  and never reads.
\<close>

definition Aggregates_SetupWithManager :: "'p main_env \<Rightarrow> 'p set_up" where
  "Aggregates_SetupWithManager env =
     with_client env (AggregatesControllerName, ''computeClient'') ''compute'' None (\<lambda>c. c)
       (complete env ((registers AggregatesControllerName KHypervisor)\<lparr>rg_ForPredicates := LifecycleEnabledOnly\<rparr>))"

definition Maintenance_SetupWithManager :: "'p main_env \<Rightarrow> 'p set_up" where
  "Maintenance_SetupWithManager env =
     with_client env (HypervisorMaintenanceControllerName, ''computeClient'') ''compute'' None (\<lambda>c. c\<lparr>Microversion := ''2.90''\<rparr>)
       (complete env ((registers HypervisorMaintenanceControllerName KHypervisor)\<lparr>rg_Owns := [KEviction]\<rparr>))"

definition Eviction_SetupWithManager :: "'p main_env \<Rightarrow> 'p set_up" where
  "Eviction_SetupWithManager env =
     with_client env (EvictionControllerName, ''computeClient'') ''compute'' None (\<lambda>c. c\<lparr>Microversion := ''2.90''\<rparr>)
       (complete env (registers EvictionControllerName KEviction))"

definition Offboarding_SetupWithManager :: "'p main_env \<Rightarrow> 'p set_up" where
  "Offboarding_SetupWithManager env =
     with_client env (OffboardingControllerName, ''computeClient'') ''compute'' None (\<lambda>c. c\<lparr>Microversion := ''2.93''\<rparr>)
       (with_client env (OffboardingControllerName, ''placementClient'') ''placement'' None (\<lambda>c. c\<lparr>Microversion := ''1.39''\<rparr>)
         (complete env (registers OffboardingControllerName KHypervisor)))"

definition testAuth :: "AuthInfo option" where
  "testAuth = Some (empty_AuthInfo\<lparr>ProjectName := ''test'', ProjectDomainName := ''cc3test''\<rparr>)"

definition Onboarding_SetupWithManager :: "'p main_env \<Rightarrow> 'p set_up" where
  "Onboarding_SetupWithManager env st0 =
     (let st = (if su_TestFlavorID st0 = [] then st0\<lparr>su_TestFlavorID := ''1''\<rparr> else st0) in
      with_client env (OnboardingControllerName, ''computeClient'') ''compute'' None (\<lambda>c. c\<lparr>Microversion := ''2.95''\<rparr>)
       (with_client env (OnboardingControllerName, ''testComputeClient'') ''compute'' testAuth (\<lambda>c. c\<lparr>Microversion := ''2.95''\<rparr>)
         (with_client env (OnboardingControllerName, ''testImageClient'') ''image'' testAuth
            (\<lambda>c. c\<lparr>ResourceBase := Endpoint c @ ''v2/''\<rparr>)
           (with_client env (OnboardingControllerName, ''testNetworkClient'') ''network'' testAuth
              (\<lambda>c. c\<lparr>ResourceBase := Endpoint c @ ''v2.0/''\<rparr>)
             (with_client env (OnboardingControllerName, ''testVolumeClient'') ''volumev3'' testAuth (\<lambda>c. c)
               (complete env (registers OnboardingControllerName KHypervisor))))))
       st)"

definition Traits_SetupWithManager :: "'p main_env \<Rightarrow> 'p set_up" where
  "Traits_SetupWithManager env =
     with_client env (TraitsControllerName, ''serviceClient'') ''placement'' None (\<lambda>c. c\<lparr>Microversion := ''1.39''\<rparr>)
       (complete env (registers TraitsControllerName KHypervisor))"

definition Taint_SetupWithManager :: "'p main_env \<Rightarrow> 'p set_up" where
  "Taint_SetupWithManager env =
     complete env ((registers HypervisorTaintControllerName KHypervisor)\<lparr>rg_ForPredicates := GenerationChanged\<rparr>)"

definition Ready_SetupWithManager :: "'p main_env \<Rightarrow> 'p set_up" where
  "Ready_SetupWithManager env =
     complete env ((registers ReadyControllerName KHypervisor)\<lparr>rg_ForPredicates := ReadyInputsChanged\<rparr>)"

definition Hypervisor_SetupWithManager :: "'p main_env \<Rightarrow> string \<Rightarrow> 'p set_up" where
  "Hypervisor_SetupWithManager env selector st =
     (case me_LabelSelectorPredicate env labelHypervisor of
        Some err \<Rightarrow> (Some (Errorf ''failed to create label selector predicate: '' err), st)
      | None \<Rightarrow>
          (case setup_transferLabels (me_ParseToRequirements env) selector (su_transferLabels st) of
             Inl err \<Rightarrow> (Some err, st)
           | Inr ls \<Rightarrow>
               complete env ((registers HypervisorControllerName KNode)\<lparr>rg_EventFilter := HasLabel labelHypervisor\<rparr>)
                 (st\<lparr>su_transferLabels := ls\<rparr>)))"

definition Lifecycle_SetupWithManager :: "'p main_env \<Rightarrow> 'p set_up" where
  "Lifecycle_SetupWithManager env =
     complete env ((registers MaintenanceControllerName KNode)\<lparr>
       rg_Watches := [(KHypervisor, AnyOf GenerationChanged EvictingConditionChanged)],
       rg_Owns := [KDeployment, KPodDisruptionBudget]\<rparr>)"

definition Certificate_SetupWithManager :: "'p main_env \<Rightarrow> string \<Rightarrow> string \<Rightarrow> string \<Rightarrow> string \<Rightarrow> 'p set_up" where
  "Certificate_SetupWithManager env namespace issuerName includeRegex excludeRegex st =
     (case Certificate_Setup (me_Compile env) (me_quote env) (su_certificate st) namespace issuerName includeRegex excludeRegex of
        (Some err, r) \<Rightarrow> (Some err, st\<lparr>su_certificate := r\<rparr>)
      | (None, r) \<Rightarrow>
          (case me_LabelSelectorPredicate env labelHypervisor of
             Some err \<Rightarrow> (Some (Errorf ''failed to create label selector predicate: '' err), st\<lparr>su_certificate := r\<rparr>)
           | None \<Rightarrow>
               complete env ((registers NodeCertificateControllerName KNode)\<lparr>rg_EventFilter := HasLabel labelHypervisor\<rparr>)
                 (st\<lparr>su_certificate := r\<rparr>)))"

section \<open>main\<close>

datatype main_result =
    Version_printed
  | Misconfigured go_error
  | Exited string go_error
  | Stopped

fun run_setups :: "(string \<times> 'p set_up) list \<Rightarrow> 'p startup \<Rightarrow> main_result option \<times> 'p startup" where
  "run_setups [] st = (None, st)"
| "run_setups ((name, run_it) # rest) st =
     (case run_it st of
        (Some err, st1) \<Rightarrow> (Some (Exited (''unable to create controller '' @ name) err), st1)
      | (None, st1) \<Rightarrow> run_setups rest st1)"

definition controllers :: "'p main_env \<Rightarrow> main_flags \<Rightarrow> (string \<times> 'p set_up) list" where
  "controllers env f =
     [(''Hypervisor'', Hypervisor_SetupWithManager env (LabelSelector f)),
      (HypervisorMaintenanceControllerName, Maintenance_SetupWithManager env),
      (''Eviction'', Eviction_SetupWithManager env),
      (''HypervisorOffboarding'', Offboarding_SetupWithManager env),
      (''Onboarding'', Onboarding_SetupWithManager env),
      (''NodeCertificate'', Certificate_SetupWithManager env (certificateNamespace f) (certificateIssuerName f)
         (certificateInterfaceIncludeRegex f) (certificateInterfaceExcludeRegex f)),
      (''Maintenance'', Lifecycle_SetupWithManager env),
      (''Traits'', Traits_SetupWithManager env),
      (''Aggregates'', Aggregates_SetupWithManager env),
      (HypervisorTaintControllerName, Taint_SetupWithManager env),
      (ReadyControllerName, Ready_SetupWithManager env)]"

text \<open>The cache entries and the ID of the lease, which a label selector makes its own.\<close>

definition leaderElectionID :: "'p main_env \<Rightarrow> string \<Rightarrow> string" where
  "leaderElectionID env selector =
     (let base = ''4c28796a.cloud.sap'' in
      if selector \<noteq> [] then me_sha256_hex env (base @ selector) @ ''.cloud.sap'' else base)"

definition cache_by_object :: "selector \<Rightarrow> selector option \<Rightarrow> by_object list" where
  "cache_by_object maintenanceSelector sel =
     [\<lparr>bo_Kind = KDeployment, bo_Namespaces = Some [MaintenanceNamespace], bo_Label = maintenanceSelector\<rparr>,
      \<lparr>bo_Kind = KPodDisruptionBudget, bo_Namespaces = Some [MaintenanceNamespace], bo_Label = maintenanceSelector\<rparr>]
     @ (case sel of
          None \<Rightarrow> []
        | Some s \<Rightarrow> [\<lparr>bo_Kind = KNode, bo_Namespaces = None, bo_Label = s\<rparr>,
                      \<lparr>bo_Kind = KHypervisor, bo_Namespaces = None, bo_Label = s\<rparr>])"

definition tlsOpts :: "main_flags \<Rightarrow> string list option" where
  "tlsOpts f = (if \<not> enableHTTP2 f then Some [''http/1.1''] else None)"

definition metricsServerOptions :: "main_flags \<Rightarrow> metrics_options" where
  "metricsServerOptions f =
     (let mo = \<lparr>mt_BindAddress = metricsAddr f, mt_SecureServing = secureMetrics f, mt_NextProtos = tlsOpts f,
                mt_FilterProvider = False\<rparr> in
      if secureMetrics f then mo\<lparr>mt_FilterProvider := True\<rparr> else mo)"

definition main_manager_options :: "'p main_env \<Rightarrow> main_flags \<Rightarrow> selector \<Rightarrow> selector option \<Rightarrow> manager_options" where
  "main_manager_options env f maintenanceSelector sel =
     \<lparr>mo_Metrics = metricsServerOptions f, mo_WebhookNextProtos = tlsOpts f, mo_ProbeAddr = probeAddr f,
      mo_LeaderElection = enableLeaderElection f, mo_LeaderElectionID = leaderElectionID env (LabelSelector f),
      mo_ByObject = cache_by_object maintenanceSelector sel, mo_Uncached = [KPod]\<rparr>"

definition main_serve :: "'p main_env \<Rightarrow> main_flags \<Rightarrow> 'p startup \<Rightarrow> main_result \<times> 'p startup" where
  "main_serve env f st =
     (case run_setups (controllers env f) st of
        (Some r, st1) \<Rightarrow> (r, st1)
      | (None, st1) \<Rightarrow>
          (case me_AddCheck env ''healthz'' of
             Some err \<Rightarrow> (Exited ''unable to set up health check'' err, st1)
           | None \<Rightarrow>
               (case me_AddCheck env ''readyz'' of
                  Some err \<Rightarrow> (Exited ''unable to set up ready check'' err, st1)
                | None \<Rightarrow>
                    (case me_Start env (su_registered st1) of
                       Some err \<Rightarrow> (Exited ''problem running manager'' err, st1)
                     | None \<Rightarrow> (Stopped, st1)))))"

definition main_program :: "'p main_env \<Rightarrow> main_flags \<Rightarrow> main_result \<times> 'p startup" where
  "main_program env f =
     (let st = initial_startup in
      if versionFlag f then (Version_printed, st)
      else
        (case parse_flags (flags.truncate f) of
           Inl err \<Rightarrow> (Misconfigured err, st)
         | Inr g \<Rightarrow>
             (case me_GetConfig env of
                Some err \<Rightarrow> (Exited ''unable to get kubeconfig'' err, st)
              | None \<Rightarrow>
                  (case me_labels_Parse env MaintenanceLabelKey of
                     Inl err \<Rightarrow> (Exited ''unable to parse maintenance label selector'' err, st)
                   | Inr maintenanceSelector \<Rightarrow>
                       (case (if LabelSelector f \<noteq> [] then map_sum (\<lambda>e. e) Some (me_labels_Parse env (LabelSelector f))
                              else Inr None) of
                          Inl err \<Rightarrow> (Exited ''unable to parse label selector'' err, st)
                        | Inr sel \<Rightarrow>
                            (case me_NewManager env (main_manager_options env f maintenanceSelector sel) of
                               Some err \<Rightarrow> (Exited ''unable to start manager'' err, st)
                             | None \<Rightarrow> main_serve env f st))))))"

end
