(* ===== verification/Startup_Props.thy ===== *)
theory Startup_Props
  imports Startup
begin

text \<open>
  What the start of the process guarantees: what each set-up adds (compositionally over the list of
  set-ups), how often Keystone is asked for a session, which clients share one, and that the process
  serves only when everything is set up.
\<close>

section \<open>What a set-up adds\<close>

text \<open>
  A set-up that succeeds adds the given registrations and the clients of the given fields, in this order.
\<close>

definition adds :: "registration list \<Rightarrow> (string \<times> string) list \<Rightarrow> ('p startup \<Rightarrow> 'e option \<times> 'p startup) \<Rightarrow> bool" where
  "adds rgs fds su \<longleftrightarrow> (\<forall>st st'. su st = (None, st') \<longrightarrow>
     su_registered st' = su_registered st @ rgs \<and> map fst (su_clients st') = map fst (su_clients st) @ fds)"

lemma adds_complete: "adds [rg] [] (complete env rg)"
  by (auto simp: adds_def complete_def split: option.splits)

lemma adds_with_client:
  assumes "adds rgs fds su"
  shows "adds rgs (field # fds) (with_client env field serviceType authInfo adjust su)"
proof -
  have "su_registered st' = su_registered st @ rgs \<and> map fst (su_clients st') = map fst (su_clients st) @ field # fds"
    if "with_client env field serviceType authInfo adjust su st = (None, st')" for st st'
  proof -
    obtain r cache sent where g: "GetServiceClient (me_auth env) serviceType authInfo (su_cache st) (su_sent st) = (r, cache, sent)"
      by (metis surj_pair)
    with that obtain c where "r = Inr c" by (cases r) (auto simp: with_client_def)
    with g that assms show ?thesis by (auto simp: with_client_def adds_def)
  qed
  then show ?thesis by (simp add: adds_def)
qed

lemmas adds_intros = adds_complete adds_with_client

lemma adds_prefix:
  assumes "adds rgs fds su" "\<And>st. su_registered (g st) = su_registered st \<and> su_clients (g st) = su_clients st"
  shows "adds rgs fds (\<lambda>st. su (g st))"
  using assms by (simp add: adds_def)

text \<open>The registrations of the controllers in the order of \<open>main\<close>, and the fields that hold clients.\<close>

definition main_registrations :: "registration list" where
  "main_registrations =
     [(registers HypervisorControllerName KNode)\<lparr>rg_EventFilter := HasLabel labelHypervisor\<rparr>,
      (registers HypervisorMaintenanceControllerName KHypervisor)\<lparr>rg_Owns := [KEviction]\<rparr>,
      registers EvictionControllerName KEviction,
      registers OffboardingControllerName KHypervisor,
      registers OnboardingControllerName KHypervisor,
      (registers NodeCertificateControllerName KNode)\<lparr>rg_EventFilter := HasLabel labelHypervisor\<rparr>,
      (registers MaintenanceControllerName KNode)\<lparr>
        rg_Watches := [(KHypervisor, AnyOf GenerationChanged EvictingConditionChanged)],
        rg_Owns := [KDeployment, KPodDisruptionBudget]\<rparr>,
      registers TraitsControllerName KHypervisor,
      (registers AggregatesControllerName KHypervisor)\<lparr>rg_ForPredicates := LifecycleEnabledOnly\<rparr>,
      (registers HypervisorTaintControllerName KHypervisor)\<lparr>rg_ForPredicates := GenerationChanged\<rparr>,
      (registers ReadyControllerName KHypervisor)\<lparr>rg_ForPredicates := ReadyInputsChanged\<rparr>]"

definition main_fields :: "(string \<times> string) list" where
  "main_fields =
     [(HypervisorMaintenanceControllerName, ''computeClient''), (EvictionControllerName, ''computeClient''),
      (OffboardingControllerName, ''computeClient''), (OffboardingControllerName, ''placementClient''),
      (OnboardingControllerName, ''computeClient''), (OnboardingControllerName, ''testComputeClient''),
      (OnboardingControllerName, ''testImageClient''), (OnboardingControllerName, ''testNetworkClient''),
      (OnboardingControllerName, ''testVolumeClient''), (TraitsControllerName, ''serviceClient''),
      (AggregatesControllerName, ''computeClient'')]"

lemma adds_Onboarding:
  "adds [registers OnboardingControllerName KHypervisor]
     [(OnboardingControllerName, ''computeClient''), (OnboardingControllerName, ''testComputeClient''),
      (OnboardingControllerName, ''testImageClient''), (OnboardingControllerName, ''testNetworkClient''),
      (OnboardingControllerName, ''testVolumeClient'')] (Onboarding_SetupWithManager env)"
  unfolding Onboarding_SetupWithManager_def [abs_def] Let_def
  by (rule adds_prefix) (intro adds_intros, simp)

lemma adds_Hypervisor:
  "adds [(registers HypervisorControllerName KNode)\<lparr>rg_EventFilter := HasLabel labelHypervisor\<rparr>] []
     (Hypervisor_SetupWithManager env selector)"
  by (auto simp: adds_def Hypervisor_SetupWithManager_def complete_def split: option.splits sum.splits)

lemma adds_Certificate:
  "adds [(registers NodeCertificateControllerName KNode)\<lparr>rg_EventFilter := HasLabel labelHypervisor\<rparr>] []
     (Certificate_SetupWithManager env namespace issuerName i e)"
  by (auto simp: adds_def Certificate_SetupWithManager_def complete_def split: option.splits prod.splits)

fun adds_each :: "(registration list \<times> (string \<times> string) list) list \<Rightarrow> (string \<times> 'p set_up) list \<Rightarrow> bool" where
  "adds_each [] [] = True"
| "adds_each ((rgs, fds) # as) ((name, su) # sus) \<longleftrightarrow> adds rgs fds su \<and> adds_each as sus"
| "adds_each _ _ = False"

lemma run_setups_adds:
  "adds_each as sus \<Longrightarrow> adds (concat (map fst as)) (concat (map snd as)) (run_setups sus)"
proof (induction as sus rule: adds_each.induct)
  case 1
  then show ?case by (simp add: adds_def)
next
  case (2 rgs fds as name su sus)
  then have IH: "adds (concat (map fst as)) (concat (map snd as)) (run_setups sus)" and su: "adds rgs fds su" by simp_all
  show ?case
    unfolding adds_def
  proof (intro allI impI)
    fix st st'
    assume r: "run_setups ((name, su) # sus) st = (None, st')"
    obtain e st1 where s: "su st = (e, st1)" by fastforce
    with r have "e = None" by (cases e) auto
    with s r IH su show "su_registered st' = su_registered st @ concat (map fst ((rgs, fds) # as))
        \<and> map fst (su_clients st') = map fst (su_clients st) @ concat (map snd ((rgs, fds) # as))"
      by (auto simp: adds_def)
  qed
qed simp_all

lemma adds_controllers: "adds main_registrations main_fields (run_setups (controllers env f))"
proof -
  have "adds_each
     (zip (map (\<lambda>r. [r]) main_registrations)
       [[], [(HypervisorMaintenanceControllerName, ''computeClient'')], [(EvictionControllerName, ''computeClient'')],
        [(OffboardingControllerName, ''computeClient''), (OffboardingControllerName, ''placementClient'')],
        [(OnboardingControllerName, ''computeClient''), (OnboardingControllerName, ''testComputeClient''),
         (OnboardingControllerName, ''testImageClient''), (OnboardingControllerName, ''testNetworkClient''),
         (OnboardingControllerName, ''testVolumeClient'')],
        [], [], [(TraitsControllerName, ''serviceClient'')], [(AggregatesControllerName, ''computeClient'')], [], []])
     (controllers env f)"
    unfolding controllers_def main_registrations_def list.map zip_Cons_Cons zip_Nil adds_each.simps
    by (intro conjI adds_Hypervisor adds_Onboarding adds_Certificate TrueI)
      (unfold Aggregates_SetupWithManager_def Maintenance_SetupWithManager_def Eviction_SetupWithManager_def
        Offboarding_SetupWithManager_def Traits_SetupWithManager_def Taint_SetupWithManager_def Ready_SetupWithManager_def
        Lifecycle_SetupWithManager_def, (intro adds_intros)+)
  from run_setups_adds [OF this] show ?thesis
    by (simp add: main_registrations_def main_fields_def)
qed

section \<open>Relations that set-ups follow\<close>

text \<open>
  A relation between the state before a set-up and the one after it, for a success and for a failure.
  Where it composes and does not look at registrations, labels and flavours, the run of the
  set-ups follows it as soon as the making of a client does.
\<close>

text \<open>The credentials of a field, and the invariant that its client uses their cached session.\<close>

definition client_auth :: "string \<Rightarrow> AuthInfo option" where
  "client_auth fd =
     (if fd \<in> {''testComputeClient'', ''testImageClient'', ''testNetworkClient'', ''testVolumeClient''} then testAuth else None)"

definition follows :: "('p startup \<Rightarrow> bool \<Rightarrow> 'p startup \<Rightarrow> bool) \<Rightarrow> ('p startup \<Rightarrow> 'e option \<times> 'p startup) \<Rightarrow> bool" where
  "follows R su \<longleftrightarrow> (\<forall>st. R st (fst (su st) = None) (snd (su st)))"

locale set_up_relation =
  fixes R :: "'p startup \<Rightarrow> bool \<Rightarrow> 'p startup \<Rightarrow> bool"
  assumes trans: "R st True st1 \<Longrightarrow> R st1 ok st' \<Longrightarrow> R st ok st'"
    and failure: "R st True st' \<Longrightarrow> R st False st'"
    and local_fields: "R st True (st\<lparr>su_registered := rgs, su_transferLabels := ls, su_TestFlavorID := flavor\<rparr>)"
begin

lemma registered [simp]: "R st True (st\<lparr>su_registered := rgs\<rparr>)"
  using local_fields [where st = st and rgs = rgs and ls = "su_transferLabels st" and flavor = "su_TestFlavorID st"] by simp

lemma labels [simp]: "R st True (st\<lparr>su_transferLabels := ls\<rparr>)"
  using local_fields [where st = st and rgs = "su_registered st" and ls = ls and flavor = "su_TestFlavorID st"] by simp

lemma flavor [simp]: "R st True (st\<lparr>su_TestFlavorID := f\<rparr>)"
  using local_fields [where st = st and rgs = "su_registered st" and ls = "su_transferLabels st" and flavor = f] by simp

lemma same [simp]: "R st ok st"
  using registered [of st "su_registered st"] failure [of st st] by (cases ok) simp_all

lemma follows_complete: "follows R (complete env rg)"
  by (simp add: follows_def complete_def split: option.split)

lemma follows_prefix: "follows R su \<Longrightarrow> (\<And>st. R st True (g st)) \<Longrightarrow> follows R (\<lambda>st. su (g st))"
  unfolding follows_def using trans by blast

lemma follows_Hypervisor: "follows R (Hypervisor_SetupWithManager env selector)"
proof -
  have "R st (fst (complete env rg (st\<lparr>su_transferLabels := ls\<rparr>)) = None) (snd (complete env rg (st\<lparr>su_transferLabels := ls\<rparr>)))"
    for st env rg ls
    using trans [OF labels [of st ls]] follows_complete [of env rg] by (simp add: follows_def)
  then show ?thesis by (simp add: follows_def Hypervisor_SetupWithManager_def split: option.split sum.split)
qed

lemma follows_Onboarding:
  assumes "follows R (with_client env (OnboardingControllerName, ''computeClient'') ''compute'' None (\<lambda>c. c\<lparr>Microversion := ''2.95''\<rparr>)
      (with_client env (OnboardingControllerName, ''testComputeClient'') ''compute'' testAuth (\<lambda>c. c\<lparr>Microversion := ''2.95''\<rparr>)
        (with_client env (OnboardingControllerName, ''testImageClient'') ''image'' testAuth (\<lambda>c. c\<lparr>ResourceBase := Endpoint c @ ''v2/''\<rparr>)
          (with_client env (OnboardingControllerName, ''testNetworkClient'') ''network'' testAuth (\<lambda>c. c\<lparr>ResourceBase := Endpoint c @ ''v2.0/''\<rparr>)
            (with_client env (OnboardingControllerName, ''testVolumeClient'') ''volumev3'' testAuth (\<lambda>c. c)
              (complete env (registers OnboardingControllerName KHypervisor)))))))"
  shows "follows R (Onboarding_SetupWithManager env)"
  unfolding Onboarding_SetupWithManager_def [abs_def] Let_def
  by (rule follows_prefix [OF assms]) simp

lemma follows_run_setups: "list_all (\<lambda>(n, su). follows R su) sus \<Longrightarrow> follows R (run_setups sus)"
proof (induction sus)
  case Nil
  then show ?case by (simp add: follows_def)
next
  case (Cons x sus)
  obtain n su where x: "x = (n, su)" by fastforce
  from Cons x have su: "follows R su" and rest: "follows R (run_setups sus)" by simp_all
  have "R st (fst (run_setups (x # sus) st) = None) (snd (run_setups (x # sus) st))" for st
  proof (cases "su st")
    case (Pair e st1)
    with su have "R st (e = None) st1" unfolding follows_def by (metis fst_conv snd_conv)
    then show ?thesis using x Pair rest trans by (cases e) (auto simp: follows_def)
  qed
  then show ?case by (simp add: follows_def)
qed

text \<open>The controllers but for the certificate controller.\<close>

lemma follows_controllers:
  assumes client: "\<And>field serviceType a adjust su. a = client_auth (snd field) \<Longrightarrow> (\<And>c. ProviderClient (adjust c) = ProviderClient c) \<Longrightarrow>
      follows R su \<Longrightarrow> follows R (with_client env field serviceType a adjust su)"
  shows "list_all (\<lambda>(n, su). n \<noteq> ''NodeCertificate'' \<longrightarrow> follows R su) (controllers env f)"
  unfolding controllers_def
  by (simp add: follows_Hypervisor follows_Onboarding client follows_complete client_auth_def
      Aggregates_SetupWithManager_def Maintenance_SetupWithManager_def Eviction_SetupWithManager_def
      Offboarding_SetupWithManager_def Traits_SetupWithManager_def Taint_SetupWithManager_def Ready_SetupWithManager_def
      Lifecycle_SetupWithManager_def)

end

section \<open>Sessions\<close>

text \<open>
  How many of the two credentials of the operator have no session yet. A set-up never authenticates
  more often than this number goes down, but for the failure that ends it.
\<close>

definition sessions_missing :: "(string \<rightharpoonup> 'p) \<Rightarrow> nat" where
  "sessions_missing cache =
     (if cache (cacheKey None) = None then 1 else 0) + (if cache (cacheKey testAuth) = None then 1 else 0)"

definition spends :: "'p startup \<Rightarrow> bool \<Rightarrow> 'p startup \<Rightarrow> bool" where
  "spends st ok st' \<longleftrightarrow> length (su_sent st') + (if ok then sessions_missing (su_cache st') else 0)
     \<le> length (su_sent st) + sessions_missing (su_cache st)"

lemma testAuth_key: "cacheKey testAuth \<noteq> cacheKey None"
  by (simp add: cacheKey_def testAuth_def empty_AuthInfo_def)

lemma NewProviderClient_sent:
  "NewProviderClient env a sent = ((r, a'), sent') \<Longrightarrow> length sent' \<le> Suc (length sent)"
  by (auto simp: NewProviderClient_def Let_def split: if_splits sum.splits)

text \<open>One client: the session of its credentials is there afterwards, and was there or was granted now.\<close>

lemma GetServiceClient_sessions:
  assumes "GetServiceClient env serviceType a cache sent = (r, cache', sent')"
  shows "cache \<subseteq>\<^sub>m cache'"
    and "cache (cacheKey a) \<noteq> None \<Longrightarrow> cache' = cache \<and> sent' = sent"
    and "length sent' \<le> Suc (length sent)"
    and "r = Inr c \<Longrightarrow> cache' (cacheKey a) = Some (ProviderClient c)"
    and "k \<noteq> cacheKey a \<Longrightarrow> cache' k = cache k"
  using assms
  by (auto simp: GetServiceClient_def authenticate_once_def Let_def ServiceClientFromProvider_def map_le_def
      dest: NewProviderClient_sent split: option.splits sum.splits prod.splits)

lemma spends_with_client:
  fixes env :: "'p main_env"
  assumes a: "a \<in> {None, testAuth}" and su: "follows spends su"
  shows "follows spends (with_client env field serviceType a adjust su)"
  unfolding follows_def
proof
  fix st :: "'p startup"
  obtain r cache sent where g: "GetServiceClient (me_auth env) serviceType a (su_cache st) (su_sent st) = (r, cache, sent)"
    by (metis surj_pair)
  note G = GetServiceClient_sessions [OF g]
  show "spends st (fst (with_client env field serviceType a adjust su st) = None) (snd (with_client env field serviceType a adjust su st))"
  proof (cases r)
    case (Inl err)
    have "length sent \<le> length (su_sent st) + (if su_cache st (cacheKey a) = None then 1 else 0)"
      using G(2,3) by auto
    moreover have "(if su_cache st (cacheKey a) = None then 1 else 0) \<le> sessions_missing (su_cache st)"
      using a by (auto simp: sessions_missing_def)
    ultimately show ?thesis using Inl g by (simp add: with_client_def spends_def)
  next
    case (Inr c)
    let ?st1 = "st\<lparr>su_cache := cache, su_sent := sent, su_clients := su_clients st @ [(field, adjust c)]\<rparr>"
    have n: "length sent + (if cache (cacheKey a) = None then 1 else 0) \<le> length (su_sent st) + (if su_cache st (cacheKey a) = None then 1 else 0)"
      using G(2,3) G(4) [OF Inr] by (cases "su_cache st (cacheKey a)") auto
    have "length sent + sessions_missing cache \<le> length (su_sent st) + sessions_missing (su_cache st)"
      using a
    proof (elim insertE emptyE)
      assume "a = None"
      moreover from this have "cache (cacheKey testAuth) = su_cache st (cacheKey testAuth)"
        using G(5) [of "cacheKey testAuth"] testAuth_key by simp
      ultimately show ?thesis using n by (simp add: sessions_missing_def)
    next
      assume "a = testAuth"
      moreover from this have "cache (cacheKey None) = su_cache st (cacheKey None)"
        using G(5) [of "cacheKey None"] testAuth_key by simp
      ultimately show ?thesis using n by (simp add: sessions_missing_def)
    qed
    then have "spends st True ?st1" by (simp add: spends_def)
    moreover have "spends ?st1 (fst (su ?st1) = None) (snd (su ?st1))" using su by (simp add: follows_def)
    ultimately have "spends st (fst (su ?st1) = None) (snd (su ?st1))" by (simp add: spends_def split: if_splits)
    with Inr g show ?thesis by (simp add: with_client_def)
  qed
qed

interpretation spending: set_up_relation spends
  by unfold_locales (auto simp: spends_def split: if_splits)

text \<open>The invariant that the client of a field uses the cached session of its credentials.\<close>

definition shares :: "'p startup \<Rightarrow> bool" where
  "shares st \<longleftrightarrow> (\<forall>((n, fd), c) \<in> set (su_clients st). su_cache st (cacheKey (client_auth fd)) = Some (ProviderClient c))"

definition keeps_shares :: "'p startup \<Rightarrow> bool \<Rightarrow> 'p startup \<Rightarrow> bool" where
  "keeps_shares st ok st' \<longleftrightarrow> (shares st \<longrightarrow> shares st')"

lemma shares_same: "shares st \<Longrightarrow> su_clients st' = su_clients st \<Longrightarrow> su_cache st \<subseteq>\<^sub>m su_cache st' \<Longrightarrow> shares st'"
  by (fastforce simp: shares_def map_le_def dom_def)

lemma shares_with_client:
  fixes env :: "'p main_env"
  assumes su: "follows keeps_shares su" and a: "a = client_auth (snd field)" and adj: "\<And>c. ProviderClient (adjust c) = ProviderClient c"
  shows "follows keeps_shares (with_client env field serviceType a adjust su)"
  unfolding follows_def keeps_shares_def
proof (intro allI impI)
  fix st :: "'p startup"
  assume inv: "shares st"
  obtain r cache sent where g: "GetServiceClient (me_auth env) serviceType a (su_cache st) (su_sent st) = (r, cache, sent)"
    by (metis surj_pair)
  note G = GetServiceClient_sessions [OF g]
  show "shares (snd (with_client env field serviceType a adjust su st))"
  proof (cases r)
    case (Inl err)
    have "shares (st\<lparr>su_cache := cache, su_sent := sent\<rparr>)" by (rule shares_same [OF inv]) (use G(1) in simp_all)
    with Inl g show ?thesis by (simp add: with_client_def)
  next
    case (Inr c)
    have "shares (st\<lparr>su_cache := cache, su_sent := sent\<rparr>)" by (rule shares_same [OF inv]) (use G(1) in simp_all)
    with G(4) [OF Inr] a adj have "shares (st\<lparr>su_cache := cache, su_sent := sent, su_clients := su_clients st @ [(field, adjust c)]\<rparr>)"
      by (cases field) (simp add: shares_def)
    with su Inr g show ?thesis by (simp add: with_client_def follows_def keeps_shares_def)
  qed
qed

interpretation sharing: set_up_relation keeps_shares
  by unfold_locales (auto simp: keeps_shares_def shares_def)

text \<open>A set-up that makes no client leaves the cache, the requests and the clients alone.\<close>

definition set_up_local :: "'p set_up \<Rightarrow> bool" where
  "set_up_local su \<longleftrightarrow> (\<forall>st. su_cache (snd (su st)) = su_cache st \<and> su_sent (snd (su st)) = su_sent st
     \<and> su_clients (snd (su st)) = su_clients st)"

lemma certificate_local:
  "set_up_local (Certificate_SetupWithManager env namespace issuerName i e)"
  by (auto simp: set_up_local_def Certificate_SetupWithManager_def complete_def split: option.split prod.split)

lemma controllers_split:
  "list_all (\<lambda>(n, su). n \<noteq> ''NodeCertificate'' \<longrightarrow> P su) (controllers env f) \<Longrightarrow>
   (\<And>ns i inc exc. P (Certificate_SetupWithManager env ns i inc exc)) \<Longrightarrow> list_all (\<lambda>(n, su). P su) (controllers env f)"
  by (simp add: controllers_def)

lemma spends_controllers: "follows spends (run_setups (controllers env f))"
proof (rule spending.follows_run_setups, rule controllers_split)
  show "list_all (\<lambda>(n, su). n \<noteq> ''NodeCertificate'' \<longrightarrow> follows spends su) (controllers env f)"
    by (rule spending.follows_controllers) (rule spends_with_client; simp add: client_auth_def)
  show "follows spends (Certificate_SetupWithManager env ns i inc exc)" for ns i inc exc
    using certificate_local [of env ns i inc exc] by (simp add: follows_def set_up_local_def spends_def)
qed

lemma shares_controllers: "follows keeps_shares (run_setups (controllers env f))"
proof (rule sharing.follows_run_setups, rule controllers_split)
  show "list_all (\<lambda>(n, su). n \<noteq> ''NodeCertificate'' \<longrightarrow> follows keeps_shares su) (controllers env f)"
    by (rule sharing.follows_controllers) (rule shares_with_client; simp)
  show "follows keeps_shares (Certificate_SetupWithManager env ns i inc exc)" for ns i inc exc
    using certificate_local [of env ns i inc exc] by (simp add: follows_def set_up_local_def keeps_shares_def shares_def)
qed

section \<open>Properties of the start-up\<close>

lemma run_setups_exit: "run_setups sus st = (Some r, st') \<Longrightarrow> r \<noteq> Stopped"
  by (induction sus st rule: run_setups.induct) (auto split: prod.splits option.splits)

text \<open>The certificate controller keeps what its set-up stored.\<close>

definition configured :: "'p main_env \<Rightarrow> main_flags \<Rightarrow> NodeCertificateController \<Rightarrow> bool" where
  "configured env f r \<longleftrightarrow>
     cc_namespace r = certificateNamespace f \<and> cc_issuerName r = certificateIssuerName f
     \<and> (if certificateInterfaceIncludeRegex f = [] then cc_includeInterfaceNames r = None
        else \<exists>m. me_Compile env (certificateInterfaceIncludeRegex f) = Inr m \<and> cc_includeInterfaceNames r = Some m)
     \<and> (if certificateInterfaceExcludeRegex f = [] then cc_excludeInterfaceNames r = None
        else \<exists>m. me_Compile env (certificateInterfaceExcludeRegex f) = Inr m \<and> cc_excludeInterfaceNames r = Some m)"

lemma run_setups_append:
  "run_setups (xs @ ys) st = (case run_setups xs st of (Some r, st1) \<Rightarrow> (Some r, st1) | (None, st1) \<Rightarrow> run_setups ys st1)"
  by (induction xs arbitrary: st) (auto split: option.split prod.split)

definition keeps_certificate :: "'p startup \<Rightarrow> bool \<Rightarrow> 'p startup \<Rightarrow> bool" where
  "keeps_certificate st ok st' \<longleftrightarrow> su_certificate st' = su_certificate st"

interpretation keeping: set_up_relation keeps_certificate
  by unfold_locales (simp_all add: keeps_certificate_def)

lemma keeps_with_client:
  "follows keeps_certificate su \<Longrightarrow> follows keeps_certificate (with_client env field serviceType authInfo adjust su)"
  by (simp add: follows_def keeps_certificate_def with_client_def split: sum.split prod.split)

lemma Certificate_SetupWithManager_configured:
  assumes "Certificate_SetupWithManager env (certificateNamespace f) (certificateIssuerName f)
      (certificateInterfaceIncludeRegex f) (certificateInterfaceExcludeRegex f) st = (None, st')"
    and "cc_includeInterfaceNames (su_certificate st) = None" "cc_excludeInterfaceNames (su_certificate st) = None"
  shows "configured env f (su_certificate st')"
  using assms
  by (auto simp: Certificate_SetupWithManager_def Certificate_Setup_def complete_def configured_def
      split: option.splits prod.splits sum.splits if_splits)

lemma configured_controllers:
  assumes "run_setups (controllers env f) st = (None, st')"
    and "cc_includeInterfaceNames (su_certificate st) = None" "cc_excludeInterfaceNames (su_certificate st) = None"
  shows "configured env f (su_certificate st')"
proof -
  define before after where "before = take 5 (controllers env f)" "after = drop 6 (controllers env f)"
  note ba = this
  let ?cert = "Certificate_SetupWithManager env (certificateNamespace f) (certificateIssuerName f)
      (certificateInterfaceIncludeRegex f) (certificateInterfaceExcludeRegex f)"
  have cs: "controllers env f = before @ [(''NodeCertificate'', ?cert)] @ after" by (simp add: ba controllers_def)
  have "list_all (\<lambda>(n, su). n \<noteq> ''NodeCertificate'' \<longrightarrow> follows keeps_certificate su) (controllers env f)"
    by (rule keeping.follows_controllers) (rule keeps_with_client)
  then have keeps: "follows keeps_certificate (run_setups before)" "follows keeps_certificate (run_setups after)"
    by (auto intro!: keeping.follows_run_setups simp: ba controllers_def)
  obtain e1 st1 where 1: "run_setups before st = (e1, st1)" by fastforce
  with assms(1) cs have e1: "e1 = None" by (cases e1) (auto simp: run_setups_append)
  obtain e2 st2 where 2: "?cert st1 = (e2, st2)" by fastforce
  with assms(1) cs 1 e1 have e2: "e2 = None" by (cases e2) (auto simp: run_setups_append)
  from assms(1) cs 1 2 e1 e2 have 3: "run_setups after st2 = (None, st')" by (auto simp: run_setups_append)
  have "su_certificate st1 = su_certificate st" using keeps(1) 1 unfolding follows_def keeps_certificate_def by (metis snd_conv)
  with Certificate_SetupWithManager_configured 2 e2 assms(2,3) have "configured env f (su_certificate st2)" by metis
  moreover have "su_certificate st' = su_certificate st2" using keeps(2) 3 unfolding follows_def keeps_certificate_def by (metis snd_conv)
  ultimately show ?thesis by simp
qed

lemma main_program_state:
  "snd (main_program env f) \<in> {initial_startup, snd (run_setups (controllers env f) initial_startup)}"
  by (auto simp: main_program_def main_serve_def Let_def split: sum.split option.split prod.split)

lemma shares_session:
  "shares st \<Longrightarrow> ((n, fd), c) \<in> set (su_clients st) \<and> ((m, gd), d) \<in> set (su_clients st) \<and> client_auth fd = client_auth gd
   \<Longrightarrow> ProviderClient c = ProviderClient d"
proof -
  have cached: "su_cache st (cacheKey (client_auth fd)) = Some (ProviderClient c)"
    if "shares st" "((n, fd), c) \<in> set (su_clients st)" for n fd c
    using that by (auto simp: shares_def)
  show "shares st \<Longrightarrow> ((n, fd), c) \<in> set (su_clients st) \<and> ((m, gd), d) \<in> set (su_clients st) \<and> client_auth fd = client_auth gd
     \<Longrightarrow> ProviderClient c = ProviderClient d"
    using cached by (metis option.inject)
qed

lemma main_program_stopped:
  "main_program env f = (Stopped, st) \<Longrightarrow> run_setups (controllers env f) initial_startup = (None, st)"
  by (auto simp: main_program_def main_serve_def Let_def run_setups_exit split: sum.splits option.splits prod.splits if_splits)

text \<open>
  However the process ends, it has sent at most two requests for a session to Keystone, one for its own
  credentials and one for those of the test project, although eleven clients are made; clients with the
  same credentials share their session.
\<close>

theorem startup_sessions:
  "length (su_sent (snd (main_program env f))) \<le> 2
   \<and> (\<forall>n fd c m gd d. ((n, fd), c) \<in> set (su_clients (snd (main_program env f)))
        \<and> ((m, gd), d) \<in> set (su_clients (snd (main_program env f))) \<and> client_auth fd = client_auth gd
        \<longrightarrow> ProviderClient c = ProviderClient d)"
proof -
  let ?st = "snd (run_setups (controllers env f) initial_startup)"
  have "spends initial_startup (fst (run_setups (controllers env f) initial_startup) = None) ?st"
    using spends_controllers [of env f] by (simp add: follows_def)
  then have "length (su_sent ?st) \<le> 2" by (simp add: spends_def initial_startup_def sessions_missing_def)
  moreover have "shares ?st"
    using shares_controllers [of env f] by (simp add: follows_def keeps_shares_def shares_def initial_startup_def)
  ultimately have "length (su_sent (snd (main_program env f))) \<le> 2 \<and> shares (snd (main_program env f))"
    using main_program_state [of env f] by (auto simp: shares_def initial_startup_def)
  then show ?thesis using shares_session by blast
qed

text \<open>
  C35. The process serves only when its set-up is complete: the eleven controllers are registered, under
  eleven different names and each on its kind and events, the eleven client fields are filled, and
  the certificate controller has the namespace, the issuer and the compiled patterns of the flags.
\<close>

theorem startup_complete:
  assumes "main_program env f = (Stopped, st)"
  shows "su_registered st = main_registrations \<and> distinct (map rg_Named (su_registered st))
    \<and> map fst (su_clients st) = main_fields \<and> distinct main_fields
    \<and> cc_namespace (su_certificate st) = certificateNamespace f \<and> cc_issuerName (su_certificate st) = certificateIssuerName f
    \<and> (if certificateInterfaceIncludeRegex f = [] then cc_includeInterfaceNames (su_certificate st) = None
       else \<exists>m. me_Compile env (certificateInterfaceIncludeRegex f) = Inr m \<and> cc_includeInterfaceNames (su_certificate st) = Some m)
    \<and> (if certificateInterfaceExcludeRegex f = [] then cc_excludeInterfaceNames (su_certificate st) = None
       else \<exists>m. me_Compile env (certificateInterfaceExcludeRegex f) = Inr m \<and> cc_excludeInterfaceNames (su_certificate st) = Some m)"
proof -
  from assms have r: "run_setups (controllers env f) initial_startup = (None, st)" by (rule main_program_stopped)
  from configured_controllers [OF r] have "configured env f (su_certificate st)" by (simp add: initial_startup_def)
  moreover from adds_controllers [of env f] r have "su_registered st = main_registrations" "map fst (su_clients st) = main_fields"
    by (simp_all add: adds_def initial_startup_def)
  moreover have "distinct (map rg_Named main_registrations)" "distinct main_fields"
    by (simp_all add: main_registrations_def main_fields_def registers_def)
  ultimately show ?thesis by (simp add: configured_def)
qed

text \<open>A start with an accepting manager and the Keystone of the samples.\<close>

definition sample_main :: "string main_env" where
  "sample_main =
     \<lparr>me_auth = sample_auth, me_GetConfig = None, me_labels_Parse = (\<lambda>_. Inr (\<lambda>_. True)), me_ParseToRequirements = (\<lambda>_. Inr []),
      me_LabelSelectorPredicate = (\<lambda>_. None), me_Compile = (\<lambda>p. Inr (\<lambda>s. strings_HasPrefix s ''vlan_'')), me_quote = (\<lambda>s. s),
      me_sha256_hex = (\<lambda>s. s), me_NewManager = (\<lambda>_. None), me_Complete = (\<lambda>_ _. None), me_AddCheck = (\<lambda>_. None),
      me_Start = (\<lambda>_. None)\<rparr>"

definition sample_main_flags :: main_flags where
  "sample_main_flags = default_flags\<lparr>agentNamespacesFlag := ''monsoon3''\<rparr>"

lemma sample_main_stops: "fst (main_program sample_main sample_main_flags) = Stopped"
  by code_simp

theorem startup_complete_witness:
  "\<exists>st. main_program sample_main sample_main_flags = (Stopped, st) \<and> map fst (su_clients st) = main_fields
    \<and> cc_namespace (su_certificate st) = ''monsoon3''"
proof -
  obtain st where st: "main_program sample_main sample_main_flags = (Stopped, st)"
    using sample_main_stops by (metis prod.collapse)
  from startup_complete [OF st] st show ?thesis by (simp add: sample_main_flags_def default_flags_def)
qed

lemma sample_main_client:
  assumes "field \<in> set main_fields"
  obtains c where "(field, c) \<in> set (su_clients (snd (main_program sample_main sample_main_flags)))"
proof -
  obtain st where st: "main_program sample_main sample_main_flags = (Stopped, st)"
    using sample_main_stops by (metis prod.collapse)
  from main_program_stopped [OF this] adds_controllers [of sample_main sample_main_flags]
  have "map fst (su_clients st) = main_fields" by (simp add: adds_def initial_startup_def)
  with assms have "field \<in> fst ` set (su_clients st)" by (metis list.set_map)
  with st that show ?thesis by auto
qed

theorem startup_sessions_witness:
  "\<exists>c d. ((EvictionControllerName, ''computeClient''), c) \<in> set (su_clients (snd (main_program sample_main sample_main_flags)))
    \<and> ((OffboardingControllerName, ''placementClient''), d) \<in> set (su_clients (snd (main_program sample_main sample_main_flags)))
    \<and> ProviderClient c = ProviderClient d \<and> length (su_sent (snd (main_program sample_main sample_main_flags))) \<le> 2"
proof -
  have "(EvictionControllerName, ''computeClient'') \<in> set main_fields" "(OffboardingControllerName, ''placementClient'') \<in> set main_fields"
    by (simp_all add: main_fields_def)
  then obtain c d where "((EvictionControllerName, ''computeClient''), c) \<in> set (su_clients (snd (main_program sample_main sample_main_flags)))"
    "((OffboardingControllerName, ''placementClient''), d) \<in> set (su_clients (snd (main_program sample_main sample_main_flags)))"
    by (metis sample_main_client)
  moreover have "client_auth ''computeClient'' = client_auth ''placementClient''" by (simp add: client_auth_def)
  ultimately show ?thesis using startup_sessions [of sample_main sample_main_flags] by blast
qed

section \<open>The lease\<close>

text \<open>
  Two operators with different label selectors never contend for one lease, when the hash tells their
  selectors apart and never gives the default name.
\<close>

lemma leases_apart:
  assumes "\<And>x y. me_sha256_hex env x = me_sha256_hex env y \<Longrightarrow> x = y" "\<And>x. me_sha256_hex env x \<noteq> ''4c28796a''"
    and "s \<noteq> s'"
  shows "leaderElectionID env s \<noteq> leaderElectionID env s'"
proof -
  have base: "x @ ''.cloud.sap'' = ''4c28796a.cloud.sap'' \<longleftrightarrow> x = ''4c28796a''" for x
    using append_same_eq [of x "''.cloud.sap''" "''4c28796a''"] by simp
  show ?thesis using assms base unfolding leaderElectionID_def Let_def by (metis append_same_eq same_append_eq)
qed

end
