(* ===== verification/Placement_Http.thy ===== *)
theory Placement_Http
  imports Placement_Api Sample_World
begin

text \<open>
  The requests behind the operations of Placement that the repository writes itself: the rest of
  \<^verbatim>\<open>src/internal/openstack/placement.go\<close>, and the request body of \<^verbatim>\<open>src/internal/openstack/services.go\<close>. The
  HTTP client of gophercloud is a parameter: it is told the status codes that count as success and
  reports every other one as an error. \<open>placement_over\<close> makes the operations of the environment out of
  these functions, so that what is proved of \<open>CleanupResourceProvider\<close> can be read off the answers to
  its requests.
\<close>

section \<open>Request bodies\<close>

datatype body_value = BString string | BStrings "string list" | BInt int | BBool bool

text \<open>The members of a body as \<open>encoding/json\<close> writes the fields: an empty one is left out under \<open>omitempty\<close>.\<close>

type_synonym request_body = "(string \<times> body_value) list"

definition traits_body :: "UpdateTraitsOpts \<Rightarrow> request_body" where
  "traits_body opts = [(''traits'', BStrings (ut_Traits opts)), (''resource_provider_generation'', BInt (ut_ResourceProviderGeneration opts))]"

definition service_body :: "UpdateServiceOpts \<Rightarrow> request_body" where
  "service_body opts =
     (if us_Status opts = [] then [] else [(''status'', BString (us_Status opts))])
     @ (if us_DisabledReason opts = [] then [] else [(''disabled_reason'', BString (us_DisabledReason opts))])
     @ (case us_ForcedDown opts of None \<Rightarrow> [] | Some b \<Rightarrow> [(''forced_down'', BBool b)])"

section \<open>The client\<close>

datatype http_method = HttpGet | HttpPut | HttpDelete

record http_response =
  rs_Code :: nat
  rs_Body :: string

record ConsumerAllocations =
  ca_Allocations :: "string list"
  ca_ConsumerGeneration :: int
  ca_ProjectID :: string
  ca_UserID :: string
  ca_ConsumerType :: string

text \<open>
  \<open>pc_Request\<close> stands for \<open>client.Get\<close>, \<open>Put\<close> and \<open>Delete\<close> with their success codes, \<open>pc_Extract\<close> for the decoding
  of a body.
\<close>

record placement_client =
  pc_ServiceURL :: "string list \<Rightarrow> string"
  pc_BuildRequestBody :: "request_body \<Rightarrow> go_error + request_body"
  pc_Request :: "http_method \<Rightarrow> string \<Rightarrow> request_body option \<Rightarrow> nat list \<Rightarrow> trace \<Rightarrow> http_response option \<times> go_error option"
  pc_ParseResponse :: "http_response option \<times> go_error option \<Rightarrow> go_error option"
  pc_Extract :: "string \<Rightarrow> go_error + ConsumerAllocations"

text \<open>A result: the error, and the body that was decoded into it.\<close>

record gophercloud_result =
  r_Err :: "go_error option"
  r_Body :: string

definition body_of :: "http_response option \<Rightarrow> string" where
  "body_of resp = (case resp of None \<Rightarrow> [] | Some r \<Rightarrow> rs_Body r)"

section \<open>The functions\<close>

definition ToResourceProviderUpdateTraitsMap :: "placement_client \<Rightarrow> UpdateTraitsOpts \<Rightarrow> go_error + request_body" where
  "ToResourceProviderUpdateTraitsMap C opts =
     (case pc_BuildRequestBody C (traits_body opts) of Inl err \<Rightarrow> Inl err | Inr b \<Rightarrow> Inr b)"

definition ToServiceUpdateMap :: "placement_client \<Rightarrow> UpdateServiceOpts \<Rightarrow> go_error + request_body" where
  "ToServiceUpdateMap C opts = pc_BuildRequestBody C (service_body opts)"

definition getResourceProviderTraitsURL :: "placement_client \<Rightarrow> string \<Rightarrow> string" where
  "getResourceProviderTraitsURL C resourceProviderID = pc_ServiceURL C [''resource_providers'', resourceProviderID, ''traits'']"

definition UpdateTraits :: "placement_client \<Rightarrow> string \<Rightarrow> UpdateTraitsOpts \<Rightarrow> trace \<Rightarrow> gophercloud_result" where
  "UpdateTraits C resourceProviderID opts tr =
     (case ToResourceProviderUpdateTraitsMap C opts of
        Inl err \<Rightarrow> \<lparr>r_Err = Some err, r_Body = []\<rparr>
      | Inr b \<Rightarrow>
          (case pc_Request C HttpPut (getResourceProviderTraitsURL C resourceProviderID) (Some b) [200] tr of
             (resp, err) \<Rightarrow> \<lparr>r_Err = pc_ParseResponse C (resp, err), r_Body = body_of resp\<rparr>))"

definition getAllocationsURL :: "placement_client \<Rightarrow> string \<Rightarrow> string" where
  "getAllocationsURL C consumerID = pc_ServiceURL C [''allocations'', consumerID]"

definition listAllocations :: "placement_client \<Rightarrow> string \<Rightarrow> trace \<Rightarrow> gophercloud_result" where
  "listAllocations C consumerID tr =
     (case pc_Request C HttpGet (getAllocationsURL C consumerID) None [200] tr of
        (resp, Some err) \<Rightarrow> \<lparr>r_Err = Some err, r_Body = body_of resp\<rparr>
      | (resp, None) \<Rightarrow> \<lparr>r_Err = pc_ParseResponse C (resp, None), r_Body = body_of resp\<rparr>)"

text \<open>\<open>ExtractInto\<close> gives the error of the request before it decodes.\<close>

definition Allocations_Extract :: "placement_client \<Rightarrow> gophercloud_result \<Rightarrow> go_error + ConsumerAllocations" where
  "Allocations_Extract C r = (case r_Err r of Some err \<Rightarrow> Inl err | None \<Rightarrow> pc_Extract C (r_Body r))"

definition deleteConsumerAllocations :: "placement_client \<Rightarrow> string \<Rightarrow> trace \<Rightarrow> gophercloud_result" where
  "deleteConsumerAllocations C consumerID tr =
     (case pc_Request C HttpDelete (getAllocationsURL C consumerID) None [204, 404] tr of
        (resp, Some err) \<Rightarrow> \<lparr>r_Err = Some err, r_Body = body_of resp\<rparr>
      | (resp, None) \<Rightarrow> \<lparr>r_Err = pc_ParseResponse C (resp, None), r_Body = body_of resp\<rparr>)"

text \<open>The operations of the environment that these functions provide.\<close>

definition placement_over :: "placement_client \<Rightarrow> placement \<Rightarrow> placement" where
  "placement_over C P = P\<lparr>
     p_providers_UpdateTraits := (\<lambda>u opts tr. r_Err (UpdateTraits C u opts tr)),
     p_allocations_List := (\<lambda>c tr. map_sum (\<lambda>e. e) ca_Allocations (Allocations_Extract C (listAllocations C c tr))),
     p_allocations_Delete := (\<lambda>c tr. r_Err (deleteConsumerAllocations C c tr))\<rparr>"

section \<open>What the client promises\<close>

text \<open>
  gophercloud reports an error exactly when the request was not answered with one of the success
  codes, and \<open>ParseResponse\<close> passes it on.
\<close>

definition client_laws :: "placement_client \<Rightarrow> bool" where
  "client_laws C \<longleftrightarrow> (\<forall>resp err. pc_ParseResponse C (resp, err) = err)
     \<and> (\<forall>m url b codes tr resp. pc_Request C m url b codes tr = (resp, None) \<longrightarrow> (\<exists>r. resp = Some r \<and> rs_Code r \<in> set codes))"

lemma list_allocations_ok:
  assumes "client_laws C" "p_allocations_List (placement_over C P) c tr = Inr xs"
  obtains r a where "pc_Request C HttpGet (getAllocationsURL C c) None [200] tr = (Some r, None)" "rs_Code r = 200"
    "pc_Extract C (rs_Body r) = Inr a" "xs = ca_Allocations a"
proof -
  obtain resp err where q: "pc_Request C HttpGet (getAllocationsURL C c) None [200] tr = (resp, err)" by fastforce
  from assms(2) q have e: "err = None"
    by (cases err) (auto simp: placement_over_def listAllocations_def Allocations_Extract_def)
  with assms(1) q obtain r where r: "resp = Some r" "rs_Code r = 200" unfolding client_laws_def by (metis list.set(1) list.simps(15) singletonD)
  with assms q e have "\<exists>a. pc_Extract C (rs_Body r) = Inr a \<and> xs = ca_Allocations a"
    by (cases "pc_Extract C (rs_Body r)")
      (auto simp: placement_over_def listAllocations_def Allocations_Extract_def client_laws_def body_of_def)
  with q r e that show ?thesis by blast
qed

lemma delete_allocations_ok:
  assumes "client_laws C" "p_allocations_Delete (placement_over C P) c tr = None"
  obtains r where "pc_Request C HttpDelete (getAllocationsURL C c) None [204, 404] tr = (Some r, None)" "rs_Code r \<in> {204, 404}"
proof -
  obtain resp err where q: "pc_Request C HttpDelete (getAllocationsURL C c) None [204, 404] tr = (resp, err)" by fastforce
  from assms(2) q have "err = None" by (cases err) (auto simp: placement_over_def deleteConsumerAllocations_def)
  with assms(1) q obtain r where "resp = Some r" "rs_Code r \<in> set [204, 404]" unfolding client_laws_def by metis
  with q \<open>err = None\<close> that show ?thesis by simp
qed

lemma cleanup_consumers_dropped:
  "cleanup_consumers P cs tr = (None, tr') \<Longrightarrow> k < length cs \<Longrightarrow>
   p_allocations_Delete P (cs ! k) (tr @ concat (map consumer_calls (take k cs)) @ [Placement (AllocationsList (cs ! k))]) = None"
proof (induction cs arbitrary: tr k)
  case (Cons c cs)
  then have drop: "p_allocations_Delete P c (tr @ [Placement (AllocationsList c)]) = None"
    and rest: "cleanup_consumers P cs (tr @ consumer_calls c) = (None, tr')"
    by (auto simp: ask_def consumer_calls_def split: sum.splits if_splits option.splits)
  show ?case
  proof (cases k)
    case 0
    with drop show ?thesis by simp
  next
    case (Suc j)
    with Cons.IH [OF rest, of j] Cons.prems show ?thesis by simp
  qed
qed simp

lemma CleanupResourceProvider_ok:
  assumes "CleanupResourceProvider P (Some uuid) tr = (None, tr')"
  obtains consumers where "p_providers_GetAllocations P uuid tr = Inr consumers"
    "cleanup_consumers P consumers (tr @ [Placement (ProvidersGetAllocations uuid)])
       = (None, tr @ Placement (ProvidersGetAllocations uuid) # concat (map consumer_calls consumers))"
    "tr' = tr @ Placement (ProvidersGetAllocations uuid) # concat (map consumer_calls consumers) @ [Placement (ProvidersDelete uuid)]"
proof -
  from assms obtain consumers where c: "p_providers_GetAllocations P uuid tr = Inr consumers"
    by (auto simp: CleanupResourceProvider_def ask_def split: sum.splits)
  let ?tr1 = "tr @ [Placement (ProvidersGetAllocations uuid)]"
  obtain e tr2 where l: "cleanup_consumers P consumers ?tr1 = (e, tr2)" by fastforce
  with assms c have e: "e = None" by (cases e) (auto simp: CleanupResourceProvider_def ask_def)
  with l have tr2: "tr2 = ?tr1 @ concat (map consumer_calls consumers)" using cleanup_consumers_ok by blast
  from assms c l e have "tr' = tr2 @ [Placement (ProvidersDelete uuid)]"
    by (auto simp: CleanupResourceProvider_def ask_def split: option.splits)
  with that c l e tr2 show ?thesis by simp
qed

text \<open>
  The answers to the two requests for a consumer, the first one made after history \<open>tr\<close>: no allocations
  at all, and a deletion that succeeded or had nothing to delete.
\<close>

definition answered_empty :: "placement_client \<Rightarrow> string \<Rightarrow> trace \<Rightarrow> bool" where
  "answered_empty C consumerID tr \<longleftrightarrow>
     (\<exists>r a. pc_Request C HttpGet (getAllocationsURL C consumerID) None [200] tr = (Some r, None) \<and> rs_Code r = 200
        \<and> pc_Extract C (rs_Body r) = Inr a \<and> ca_Allocations a = [])
     \<and> (\<exists>r. pc_Request C HttpDelete (getAllocationsURL C consumerID) None [204, 404] (tr @ [Placement (AllocationsList consumerID)])
          = (Some r, None) \<and> rs_Code r \<in> {204, 404})"

lemma answered_emptyI:
  assumes C: "client_laws C" and l: "p_allocations_List (placement_over C P) c tr = Inr []"
    and d: "p_allocations_Delete (placement_over C P) c (tr @ [Placement (AllocationsList c)]) = None"
  shows "answered_empty C c tr"
proof -
  obtain r a where "pc_Request C HttpGet (getAllocationsURL C c) None [200] tr = (Some r, None)" "rs_Code r = 200"
    "pc_Extract C (rs_Body r) = Inr a" "[] = ca_Allocations a"
    using list_allocations_ok [OF C l] .
  moreover obtain q where "pc_Request C HttpDelete (getAllocationsURL C c) None [204, 404] (tr @ [Placement (AllocationsList c)])
      = (Some q, None)" "rs_Code q \<in> {204, 404}"
    using delete_allocations_ok [OF C d] .
  ultimately show ?thesis unfolding answered_empty_def by metis
qed

text \<open>
  C23. A resource provider is only cleaned up when nothing uses it: if \<open>CleanupResourceProvider\<close> returns no
  error, then for each of its consumers Placement answered 200 with no allocations at all and then
  204 or 404 to the deletion, and only after the last one the provider was deleted.
\<close>

theorem cleanup_answers:
  assumes "client_laws C" "CleanupResourceProvider (placement_over C P) (Some uuid) tr = (None, tr')"
  shows "\<exists>consumers. p_providers_GetAllocations P uuid tr = Inr consumers
    \<and> tr' = tr @ Placement (ProvidersGetAllocations uuid) # concat (map consumer_calls consumers) @ [Placement (ProvidersDelete uuid)]
    \<and> (\<forall>k < length consumers. answered_empty C (consumers ! k)
         (tr @ Placement (ProvidersGetAllocations uuid) # concat (map consumer_calls (take k consumers))))"
proof -
  let ?P = "placement_over C P"
  from assms(2) obtain consumers where c: "p_providers_GetAllocations ?P uuid tr = Inr consumers"
    and l: "cleanup_consumers ?P consumers (tr @ [Placement (ProvidersGetAllocations uuid)])
       = (None, tr @ Placement (ProvidersGetAllocations uuid) # concat (map consumer_calls consumers))"
    and tr': "tr' = tr @ Placement (ProvidersGetAllocations uuid) # concat (map consumer_calls consumers) @ [Placement (ProvidersDelete uuid)]"
    by (rule CleanupResourceProvider_ok)
  have "answered_empty C (consumers ! k) (tr @ Placement (ProvidersGetAllocations uuid) # concat (map consumer_calls (take k consumers)))"
    if k: "k < length consumers" for k
  proof (rule answered_emptyI [OF assms(1)])
    show "p_allocations_List ?P (consumers ! k) (tr @ Placement (ProvidersGetAllocations uuid) # concat (map consumer_calls (take k consumers)))
        = Inr []"
      using cleanup_consumers_empty [OF l k] by simp
    show "p_allocations_Delete ?P (consumers ! k) ((tr @ Placement (ProvidersGetAllocations uuid)
        # concat (map consumer_calls (take k consumers))) @ [Placement (AllocationsList (consumers ! k))]) = None"
      using cleanup_consumers_dropped [OF l k] by simp
  qed
  moreover have "p_providers_GetAllocations P uuid tr = Inr consumers" using c by (simp add: placement_over_def)
  ultimately show ?thesis using tr' by blast
qed

text \<open>A client that answers every deletion with 404 and every listing with an empty object.\<close>

definition sample_client :: placement_client where
  "sample_client =
     \<lparr>pc_ServiceURL = (\<lambda>ps. join_with ''/'' ps), pc_BuildRequestBody = Inr,
      pc_Request = (\<lambda>m url b codes tr. case m of
          HttpGet \<Rightarrow> if 200 \<in> set codes then (Some \<lparr>rs_Code = 200, rs_Body = ''{}''\<rparr>, None) else (None, Some (HttpError (Some 200) []))
        | _ \<Rightarrow> if 404 \<in> set codes then (Some \<lparr>rs_Code = 404, rs_Body = []\<rparr>, None) else (None, Some (HttpError (Some 404) []))),
      pc_ParseResponse = snd,
      pc_Extract = (\<lambda>_. Inr \<lparr>ca_Allocations = [], ca_ConsumerGeneration = 0, ca_ProjectID = [], ca_UserID = [], ca_ConsumerType = []\<rparr>)\<rparr>"

lemma sample_client_laws: "client_laws sample_client"
  by (auto simp: client_laws_def sample_client_def split: http_method.splits if_splits)

theorem cleanup_answers_witness:
  "\<exists>tr'. CleanupResourceProvider (placement_over sample_client
       (sample_placement\<lparr>p_providers_GetAllocations := (\<lambda>_ _. Inr [''c1''])\<rparr>)) (Some ''u'') [] = (None, tr')
     \<and> last tr' = Placement (ProvidersDelete ''u'') \<and> answered_empty sample_client ''c1'' [Placement (ProvidersGetAllocations ''u'')]"
proof -
  let ?P = "sample_placement\<lparr>p_providers_GetAllocations := (\<lambda>_ _. Inr [''c1''])\<rparr>"
  have "fst (CleanupResourceProvider (placement_over sample_client ?P) (Some ''u'') []) = None"
    by (simp add: CleanupResourceProvider_def ask_def placement_over_def sample_placement_def sample_client_def listAllocations_def
        Allocations_Extract_def deleteConsumerAllocations_def body_of_def)
  then obtain tr' where t: "CleanupResourceProvider (placement_over sample_client ?P) (Some ''u'') [] = (None, tr')"
    by (metis prod.collapse)
  from cleanup_answers [OF sample_client_laws t] t show ?thesis by auto
qed

end
