(* ===== verification/Logger.thy ===== *)
theory Logger
  imports Prelude
begin

text \<open>
  The log encoder of \<^verbatim>\<open>src/internal/logger/logger.go\<close>: it wraps the console encoder of zap, which is a
  parameter, and tones down the entries that report a failed reconcile pass.
\<close>

datatype log_level = DebugLevel | InfoLevel | WarnLevel | ErrorLevel | DPanicLevel | PanicLevel | FatalLevel

record log_entry =
  le_Level :: log_level
  le_Message :: string
  le_Stack :: string

text \<open>An encoder: what it makes of an entry and its fields, and the encoder a clone is.\<close>

record ('f, 'c) reconcile_encoder =
  en_Encode :: "log_entry \<Rightarrow> 'f list \<Rightarrow> go_error + string"
  en_cfg :: 'c

definition NewSanitizeReconcileErrorEncoder ::
    "('c \<Rightarrow> log_entry \<Rightarrow> 'f list \<Rightarrow> go_error + string) \<Rightarrow> 'c \<Rightarrow> ('f, 'c) reconcile_encoder" where
  "NewSanitizeReconcileErrorEncoder NewConsoleEncoder cfg = \<lparr>en_Encode = NewConsoleEncoder cfg, en_cfg = cfg\<rparr>"

definition EncodeEntry :: "('f, 'c) reconcile_encoder \<Rightarrow> log_entry \<Rightarrow> 'f list \<Rightarrow> go_error + string" where
  "EncodeEntry e entry fs =
     (if le_Message entry = ''Reconcile error''
      then en_Encode e (entry\<lparr>le_Level := WarnLevel, le_Stack := []\<rparr>) fs
      else en_Encode e entry fs)"

definition Clone ::
    "((log_entry \<Rightarrow> 'f list \<Rightarrow> go_error + string) \<Rightarrow> log_entry \<Rightarrow> 'f list \<Rightarrow> go_error + string)
     \<Rightarrow> ('f, 'c) reconcile_encoder \<Rightarrow> ('f, 'c) reconcile_encoder" where
  "Clone clone_Encoder e = \<lparr>en_Encode = clone_Encoder (en_Encode e), en_cfg = en_cfg e\<rparr>"

text \<open>
  What a clone encodes is what the original encodes, if the encoder inside clones faithfully; an entry
  of another message passes unchanged, and the stack of a failed pass is never written.
\<close>

lemma Clone_encodes:
  "clone_Encoder (en_Encode e) = en_Encode e \<Longrightarrow> EncodeEntry (Clone clone_Encoder e) entry fs = EncodeEntry e entry fs"
  by (simp add: EncodeEntry_def Clone_def)

lemma EncodeEntry_no_stack:
  "le_Message entry = ''Reconcile error'' \<Longrightarrow> EncodeEntry e (entry\<lparr>le_Stack := s, le_Level := l\<rparr>) fs = EncodeEntry e entry fs"
  by (simp add: EncodeEntry_def)

end
