(* ===== verification/Go_Memory.thy ===== *)
theory Go_Memory
  imports Main
begin

text \<open>
  Go's memory as far as aliasing goes: a heap of objects, slices as windows into arrays, maps and
  pointers as addresses, \<open>nil\<close> as \<open>None\<close>. A \<open>layout\<close> says how a value of a type lies in memory: when it is
  valid, what it stands for, and which addresses it reaches. The locale \<open>deep_copy\<close> is the contract of the
  \<open>DeepCopyInto\<close> functions: an equal value in new memory. The combinators build layouts and copies of
  slices, maps, pointers and structs, with one lemma each.
\<close>

section \<open>The heap\<close>

type_synonym addr = nat

record 'o heap =
  lim :: nat
  obj :: "addr \<Rightarrow> 'o"

definition alloc :: "'o \<Rightarrow> 'o heap \<Rightarrow> addr \<times> 'o heap" where
  "alloc v h = (lim h, h\<lparr>lim := lim h + 1, obj := (obj h)(lim h := v)\<rparr>)"

definition store :: "addr \<Rightarrow> 'o \<Rightarrow> 'o heap \<Rightarrow> 'o heap" where
  "store a v h = h\<lparr>obj := (obj h)(a := v)\<rparr>"

lemma store_sel [simp]: "lim (store a v h) = lim h" "obj (store a v h) = (obj h)(a := v)"
  by (simp_all add: store_def)

lemma alloc_sel [simp]: "fst (alloc v h) = lim h" "lim (snd (alloc v h)) = Suc (lim h)" "obj (snd (alloc v h)) = (obj h)(lim h := v)"
  by (simp_all add: alloc_def)

text \<open>The old part of the heap is unchanged; and outside of a set of addresses it is.\<close>

definition extends :: "'o heap \<Rightarrow> 'o heap \<Rightarrow> bool" where
  "extends h h' \<longleftrightarrow> lim h \<le> lim h' \<and> (\<forall>a < lim h. obj h' a = obj h a)"

definition changes_in :: "addr set \<Rightarrow> 'o heap \<Rightarrow> 'o heap \<Rightarrow> bool" where
  "changes_in A h h' \<longleftrightarrow> lim h \<le> lim h' \<and> (\<forall>a < lim h. a \<notin> A \<longrightarrow> obj h' a = obj h a)"

lemma extends_refl [simp]: "extends h h"
  by (simp add: extends_def)

lemma extends_trans: "extends h h1 \<Longrightarrow> extends h1 h2 \<Longrightarrow> extends h h2"
  by (auto simp: extends_def)

lemma extends_alloc: "alloc v h = (a, h') \<Longrightarrow> extends h h'"
  by (auto simp: extends_def alloc_def)

lemma extends_store: "extends h h' \<Longrightarrow> lim h \<le> a \<Longrightarrow> extends h (store a v h')"
  by (auto simp: extends_def)

lemma extends_changes: "extends h h' \<Longrightarrow> changes_in A h h'"
  by (simp add: extends_def changes_in_def)

lemma changes_in_trans: "changes_in A h h1 \<Longrightarrow> changes_in B h1 h2 \<Longrightarrow> B \<subseteq> A \<union> {lim h..} \<Longrightarrow> changes_in A h h2"
  unfolding changes_in_def subset_iff by (metis Un_iff atLeast_iff linorder_not_less order.trans order_less_le_trans)

section \<open>Layouts\<close>

record ('o, 'm, 'v) layout =
  valid :: "'o heap \<Rightarrow> 'm \<Rightarrow> bool"
  view :: "'o heap \<Rightarrow> 'm \<Rightarrow> 'v"
  foot :: "'o heap \<Rightarrow> 'm \<Rightarrow> addr set"

text \<open>A layout depends on nothing but the addresses it reaches, which are allocated.\<close>

definition layout_ok :: "('o, 'm, 'v) layout \<Rightarrow> bool" where
  "layout_ok T \<longleftrightarrow> (\<forall>h x. valid T h x \<longrightarrow> foot T h x \<subseteq> {..<lim h} \<and>
     (\<forall>h'. lim h \<le> lim h' \<longrightarrow> (\<forall>a \<in> foot T h x. obj h' a = obj h a) \<longrightarrow>
        valid T h' x \<and> view T h' x = view T h x \<and> foot T h' x = foot T h x))"

lemma layout_foot: "layout_ok T \<Longrightarrow> valid T h x \<Longrightarrow> foot T h x \<subseteq> {..<lim h}"
  unfolding layout_ok_def by blast

lemma layout_frame:
  assumes "layout_ok T" "valid T h x" "changes_in A h h'" "foot T h x \<inter> A = {}"
  shows "valid T h' x \<and> view T h' x = view T h x \<and> foot T h' x = foot T h x"
proof -
  have "obj h' a = obj h a" if "a \<in> foot T h x" for a
  proof -
    have "a < lim h" "a \<notin> A" using that layout_foot [OF assms(1,2)] assms(4) by auto
    with assms(3) show ?thesis by (simp add: changes_in_def)
  qed
  moreover have "lim h \<le> lim h'" using assms(3) by (simp add: changes_in_def)
  ultimately show ?thesis using assms(1,2) unfolding layout_ok_def by blast
qed

lemma layout_extends:
  "layout_ok T \<Longrightarrow> valid T h x \<Longrightarrow> extends h h' \<Longrightarrow> valid T h' x \<and> view T h' x = view T h x \<and> foot T h' x = foot T h x"
  by (rule layout_frame [of T h x "{}"]) (simp_all add: extends_changes)

section \<open>The contract of a deep copy\<close>

locale deep_copy =
  fixes T :: "('o, 'm, 'v) layout" and copy :: "'m \<Rightarrow> 'o heap \<Rightarrow> 'm \<times> 'o heap"
  assumes layout: "layout_ok T"
    and copies: "valid T h x \<Longrightarrow> copy x h = (y, h') \<Longrightarrow> extends h h' \<and> valid T h' y \<and> view T h' y = view T h x
      \<and> foot T h' y \<subseteq> {lim h..<lim h'}"
begin

lemma original_kept:
  "valid T h x \<Longrightarrow> copy x h = (y, h') \<Longrightarrow> valid T h' x \<and> view T h' x = view T h x \<and> foot T h' x = foot T h x"
  using layout_extends [OF layout] copies by blast

text \<open>The copy shares no memory with anything that was allocated before.\<close>

lemma separate:
  assumes "valid T h x" "copy x h = (y, h')" "A \<subseteq> {..<lim h}"
  shows "foot T h' y \<inter> A = {}"
  using copies [OF assms(1,2)] assms(3) by fastforce

text \<open>Whatever is written later outside of the copy, and in new memory, does not change it.\<close>

lemma copy_kept:
  assumes "valid T h x" "copy x h = (y, h')" "changes_in A h' h''" "A \<subseteq> {..<lim h} \<union> {lim h'..}"
  shows "valid T h'' y \<and> view T h'' y = view T h x"
proof -
  from copies [OF assms(1,2)] have c: "valid T h' y" "view T h' y = view T h x" "foot T h' y \<subseteq> {lim h..<lim h'}" by blast+
  from c(3) assms(4) have "foot T h' y \<inter> A = {}" by fastforce
  with layout_frame [OF layout c(1) assms(3)] c(2) show ?thesis by simp
qed

text \<open>And the other way round: what is written into the copy does not change what was there.\<close>

lemma others_kept:
  assumes "valid T h x" "copy x h = (y, h')" "changes_in (foot T h' y) h' h''" "layout_ok S" "valid S h z"
  shows "valid S h'' z \<and> view S h'' z = view S h z"
proof -
  from copies [OF assms(1,2)] have c: "extends h h'" "foot T h' y \<subseteq> {lim h..<lim h'}" by blast+
  have "changes_in {} h h''"
    by (rule changes_in_trans [OF extends_changes [OF c(1)] assms(3)]) (use c(2) in auto)
  with layout_frame [OF assms(4,5)] show ?thesis by blast
qed

end

text \<open>The first step of a sequence, and a step later in it.\<close>

lemma deep_copy_at:
  assumes "deep_copy T copy" "extends h0 h" "valid T h0 x" "copy x h = (y, h')"
  shows "extends h0 h' \<and> extends h h' \<and> valid T h' y \<and> view T h' y = view T h0 x \<and> foot T h' y \<subseteq> {lim h0..<lim h'}"
proof -
  have x: "valid T h x" "view T h x = view T h0 x" using layout_extends [OF deep_copy.layout [OF assms(1)] assms(3,2)] by blast+
  from deep_copy.copies [OF assms(1) x(1) assms(4)] have c: "extends h h'" "valid T h' y" "view T h' y = view T h x"
    "foot T h' y \<subseteq> {lim h..<lim h'}" by blast+
  moreover have "foot T h' y \<subseteq> {lim h0..<lim h'}" using c(4) assms(2) by (auto simp: extends_def dest!: subsetD)
  ultimately show ?thesis using x(2) extends_trans [OF assms(2) c(1)] by simp
qed

section \<open>Slices\<close>

text \<open>How objects of one kind sit in the heap: an injection into the objects and its inverse.\<close>

record ('o, 'e) kind =
  inj :: "'e \<Rightarrow> 'o"
  prj :: "'o \<Rightarrow> 'e"

definition kind_ok :: "('o, 'e) kind \<Rightarrow> bool" where
  "kind_ok k \<longleftrightarrow> (\<forall>x. prj k (inj k x) = x)"

lemma kind_prj: "kind_ok k \<Longrightarrow> prj k (inj k x) = x"
  by (simp add: kind_ok_def)

record slice =
  arr :: addr
  off :: nat
  len :: nat

definition elems :: "('o, 'e list) kind \<Rightarrow> 'o heap \<Rightarrow> slice option \<Rightarrow> 'e list" where
  "elems k h s = (case s of None \<Rightarrow> [] | Some s \<Rightarrow> take (len s) (drop (off s) (prj k (obj h (arr s)))))"

definition flat_layout :: "('o, 'm, 'm) layout" where
  "flat_layout = \<lparr>valid = (\<lambda>h x. True), view = (\<lambda>h x. x), foot = (\<lambda>h x. {})\<rparr>"

definition slice_layout :: "('o, 'm list) kind \<Rightarrow> ('o, 'm, 'v) layout \<Rightarrow> ('o, slice option, 'v list) layout" where
  "slice_layout k E = \<lparr>
     valid = (\<lambda>h s. (case s of None \<Rightarrow> True
        | Some w \<Rightarrow> arr w < lim h \<and> off w + len w \<le> length (prj k (obj h (arr w)))) \<and> list_all (valid E h) (elems k h s)),
     view = (\<lambda>h s. map (view E h) (elems k h s)),
     foot = (\<lambda>h s. (case s of None \<Rightarrow> {} | Some w \<Rightarrow> {arr w}) \<union> (\<Union>x \<in> set (elems k h s). foot E h x))\<rparr>"

text \<open>\<open>*out = make([]T, len(*in)); copy( *out, *in)\<close>, for a field that is not \<open>nil\<close>.\<close>

definition copy_slice :: "('o, 'e list) kind \<Rightarrow> 'e \<Rightarrow> slice option \<Rightarrow> 'o heap \<Rightarrow> slice option \<times> 'o heap" where
  "copy_slice k zero s h =
     (case s of None \<Rightarrow> (None, h)
      | Some w \<Rightarrow>
          (case alloc (inj k (replicate (len w) zero)) h of (a, h1) \<Rightarrow>
             (Some \<lparr>arr = a, off = 0, len = len w\<rparr>, store a (inj k (elems k h1 (Some w))) h1)))"

text \<open>The same with \<open>for i := range *in { (*in)[i].DeepCopyInto(&( *out)[i]) }\<close>.\<close>

fun copy_elems :: "('m \<Rightarrow> 'o heap \<Rightarrow> 'm \<times> 'o heap) \<Rightarrow> ('o, 'm list) kind \<Rightarrow> addr \<Rightarrow> nat \<Rightarrow> 'm list \<Rightarrow> 'o heap \<Rightarrow> 'o heap" where
  "copy_elems into k a i [] h = h"
| "copy_elems into k a i (x # xs) h =
     (case into x h of (y, h1) \<Rightarrow> copy_elems into k a (Suc i) xs (store a (inj k ((prj k (obj h1 a))[i := y])) h1))"

definition copy_slice_of ::
    "('o, 'm list) kind \<Rightarrow> 'm \<Rightarrow> ('m \<Rightarrow> 'o heap \<Rightarrow> 'm \<times> 'o heap) \<Rightarrow> slice option \<Rightarrow> 'o heap \<Rightarrow> slice option \<times> 'o heap" where
  "copy_slice_of k zero into s h =
     (case s of None \<Rightarrow> (None, h)
      | Some w \<Rightarrow>
          (case alloc (inj k (replicate (len w) zero)) h of (a, h1) \<Rightarrow>
             (Some \<lparr>arr = a, off = 0, len = len w\<rparr>, copy_elems into k a 0 (elems k h1 (Some w)) h1)))"

lemma flat_sel [simp]: "valid flat_layout h x" "view flat_layout h x = x" "foot flat_layout h x = {}"
  by (simp_all add: flat_layout_def)

lemma flat_ok: "layout_ok flat_layout"
  by (simp add: layout_ok_def)

lemma deep_copy_flat: "(\<And>x. f x = x) \<Longrightarrow> deep_copy flat_layout (\<lambda>x h. (f x, h))"
  by (unfold_locales) (auto simp: flat_ok)

lemma slice_sel:
  "valid (slice_layout k E) h s \<longleftrightarrow> (case s of None \<Rightarrow> True
     | Some w \<Rightarrow> arr w < lim h \<and> off w + len w \<le> length (prj k (obj h (arr w)))) \<and> (\<forall>x \<in> set (elems k h s). valid E h x)"
  "view (slice_layout k E) h s = map (view E h) (elems k h s)"
  "foot (slice_layout k E) h s = (case s of None \<Rightarrow> {} | Some w \<Rightarrow> {arr w}) \<union> (\<Union>x \<in> set (elems k h s). foot E h x)"
  by (simp_all add: slice_layout_def list_all_iff)

lemma elems_same: "(\<And>w. s = Some w \<Longrightarrow> obj h' (arr w) = obj h (arr w)) \<Longrightarrow> elems k h' s = elems k h s"
  by (simp add: elems_def split: option.split)

lemma length_elems: "valid (slice_layout k E) h (Some w) \<Longrightarrow> length (elems k h (Some w)) = len w"
  by (auto simp: slice_sel elems_def)

lemma slice_ok:
  assumes E: "layout_ok E"
  shows "layout_ok (slice_layout k E)"
  unfolding layout_ok_def
proof (intro allI impI conjI)
  fix h s assume v: "valid (slice_layout k E) h s"
  then show "foot (slice_layout k E) h s \<subseteq> {..<lim h}"
    using layout_foot [OF E] by (auto simp: slice_sel split: option.splits)
  fix h' :: "'a heap" assume l: "lim h \<le> lim h'" and same: "\<forall>a \<in> foot (slice_layout k E) h s. obj h' a = obj h a"
  have w: "s = Some w \<Longrightarrow> obj h' (arr w) = obj h (arr w)" for w using same by (simp add: slice_sel)
  then have e: "elems k h' s = elems k h s" by (rule elems_same)
  have x: "valid E h' x \<and> view E h' x = view E h x \<and> foot E h' x = foot E h x" if "x \<in> set (elems k h s)" for x
    using E v l same that unfolding layout_ok_def slice_sel by blast
  from v w l x show "valid (slice_layout k E) h' s" by (auto simp: slice_sel e split: option.splits)
  from x show "view (slice_layout k E) h' s = view (slice_layout k E) h s" by (simp add: slice_sel e)
  from x show "foot (slice_layout k E) h' s = foot (slice_layout k E) h s" by (simp add: slice_sel e)
qed

text \<open>An array under construction: its elements so far are finished copies, the rest is still zero.\<close>

definition part_copied ::
    "('o, 'm, 'v) layout \<Rightarrow> ('o, 'm list) kind \<Rightarrow> 'o heap \<Rightarrow> addr \<Rightarrow> 'v list \<Rightarrow> nat \<Rightarrow> 'm \<Rightarrow> 'o heap \<Rightarrow> bool" where
  "part_copied E k h0 a vs n zero h \<longleftrightarrow> extends h0 h \<and> lim h0 \<le> a \<and> a < lim h \<and>
     (\<exists>ys. prj k (obj h a) = ys @ replicate n zero \<and> map (view E h) ys = vs
        \<and> (\<forall>y \<in> set ys. valid E h y \<and> foot E h y \<subseteq> {lim h0..<lim h} - {a}))"

lemma part_copied_step:
  assumes E: "deep_copy E into" and k: "kind_ok k" and x: "valid E h0 x"
    and p: "part_copied E k h0 a vs (Suc n) zero h" and i: "into x h = (y, h1)"
  shows "part_copied E k h0 a (vs @ [view E h0 x]) n zero (store a (inj k ((prj k (obj h1 a))[length vs := y])) h1)"
proof -
  let ?h2 = "store a (inj k ((prj k (obj h1 a))[length vs := y])) h1"
  from p obtain ys where e: "extends h0 h" "lim h0 \<le> a" "a < lim h" and ys: "prj k (obj h a) = ys @ replicate (Suc n) zero"
    "map (view E h) ys = vs" "\<forall>y \<in> set ys. valid E h y \<and> foot E h y \<subseteq> {lim h0..<lim h} - {a}"
    unfolding part_copied_def by blast
  from deep_copy_at [OF E e(1) x i] have c: "extends h0 h1" "extends h h1" "valid E h1 y" "view E h1 y = view E h0 x" by blast+
  from deep_copy_at [OF E extends_refl _ i] layout_extends [OF deep_copy.layout [OF E] x e(1)]
  have fy: "foot E h1 y \<subseteq> {lim h..<lim h1}" by blast
  have le: "lim h0 \<le> lim h" "lim h \<le> lim h1" using e(1) c(2) by (simp_all add: extends_def)
  have arr: "prj k (obj h1 a) = ys @ replicate (Suc n) zero" using c(2) e(3) ys(1) by (simp add: extends_def)
  have len: "length vs = length ys" using ys(2) by auto
  have keep: "valid E ?h2 z \<and> view E ?h2 z = view E h1 z \<and> foot E ?h2 z = foot E h1 z" if "valid E h1 z" "a \<notin> foot E h1 z" for z
    by (rule layout_frame [OF deep_copy.layout [OF E] that(1), of "{a}"]) (use that(2) in \<open>auto simp: changes_in_def\<close>)
  have old: "valid E ?h2 z \<and> view E ?h2 z = view E h z \<and> foot E ?h2 z \<subseteq> {lim h0..<lim h1} - {a}" if "z \<in> set ys" for z
  proof -
    from that ys(3) have z: "valid E h z" "foot E h z \<subseteq> {lim h0..<lim h} - {a}" by blast+
    from layout_extends [OF deep_copy.layout [OF E] z(1) c(2)] keep [of z] z(2) le(2) show ?thesis by fastforce
  qed
  have new: "valid E ?h2 y \<and> view E ?h2 y = view E h0 x \<and> foot E ?h2 y \<subseteq> {lim h0..<lim h1} - {a}"
    using keep [OF c(3)] fy c(4) e(3) le(1) by fastforce
  have "extends h0 ?h2" by (rule extends_store [OF c(1) e(2)])
  moreover have "prj k (obj ?h2 a) = (ys @ [y]) @ replicate n zero" by (simp add: kind_prj [OF k] arr len)
  moreover have "map (view E ?h2) (ys @ [y]) = vs @ [view E h0 x]" using old new ys(2) by auto
  moreover have "\<forall>z \<in> set (ys @ [y]). valid E ?h2 z \<and> foot E ?h2 z \<subseteq> {lim h0..<lim ?h2} - {a}"
    using old new by simp
  moreover have "a < lim ?h2" using e(3) le(2) by simp
  ultimately show ?thesis unfolding part_copied_def using e(2) by blast
qed

lemma copy_elems_copied:
  assumes "deep_copy E into" "kind_ok k" "\<forall>x \<in> set xs. valid E h0 x" "part_copied E k h0 a vs (length xs) zero h"
  shows "part_copied E k h0 a (vs @ map (view E h0) xs) 0 zero (copy_elems into k a (length vs) xs h)"
  using assms(3,4)
proof (induction xs arbitrary: vs h)
  case (Cons x xs)
  obtain y h1 where i: "into x h = (y, h1)" by fastforce
  from part_copied_step [OF assms(1,2) _ _ i] Cons.prems
  have "part_copied E k h0 a (vs @ [view E h0 x]) (length xs) zero (store a (inj k ((prj k (obj h1 a))[length vs := y])) h1)" by simp
  from Cons.IH [OF _ this] Cons.prems(1) i show ?case by simp
qed simp

lemma deep_copy_slice_of:
  assumes E: "deep_copy E into" and k: "kind_ok k"
  shows "deep_copy (slice_layout k E) (copy_slice_of k zero into)"
proof unfold_locales
  show "layout_ok (slice_layout k E)" by (rule slice_ok [OF deep_copy.layout [OF E]])
  fix h s t h'
  assume v: "valid (slice_layout k E) h s" and c: "copy_slice_of k zero into s h = (t, h')"
  show "extends h h' \<and> valid (slice_layout k E) h' t \<and> view (slice_layout k E) h' t = view (slice_layout k E) h s
      \<and> foot (slice_layout k E) h' t \<subseteq> {lim h..<lim h'}"
  proof (cases s)
    case None
    with c show ?thesis by (simp add: copy_slice_of_def slice_sel elems_def)
  next
    case (Some w)
    let ?xs = "elems k h s" and ?a = "lim h" and ?h1 = "snd (alloc (inj k (replicate (len w) zero)) h)"
    have len: "length ?xs = len w" using v Some length_elems by simp
    have xs: "elems k ?h1 s = ?xs" by (rule elems_same) (use v Some in \<open>auto simp: slice_sel\<close>)
    have vx: "\<forall>x \<in> set ?xs. valid E h x" using v by (simp add: slice_sel)
    have e1: "extends h ?h1" by (simp add: extends_def)
    then have "part_copied E k h ?a [] (length ?xs) zero ?h1"
      by (auto simp: part_copied_def kind_prj [OF k] len)
    from copy_elems_copied [OF E k vx this]
    have p: "part_copied E k h ?a (map (view E h) ?xs) 0 zero (copy_elems into k ?a 0 ?xs ?h1)" by simp
    have "t = Some \<lparr>arr = ?a, off = 0, len = len w\<rparr>" "h' = copy_elems into k ?a 0 ?xs ?h1"
      using c Some xs by (simp_all add: copy_slice_of_def case_prod_beta)
    with p obtain ys where t: "t = Some \<lparr>arr = ?a, off = 0, len = len w\<rparr>" "extends h h'" "?a < lim h'" "prj k (obj h' ?a) = ys"
      "map (view E h') ys = map (view E h) ?xs" "\<forall>y \<in> set ys. valid E h' y \<and> foot E h' y \<subseteq> {lim h..<lim h'} - {?a}"
      unfolding part_copied_def by auto
    then have "length ys = len w" using len by (metis length_map)
    with t have "elems k h' t = ys" by (simp add: elems_def)
    with t \<open>length ys = len w\<close> show ?thesis by (auto simp: slice_sel)
  qed
qed

lemma deep_copy_slice:
  assumes k: "kind_ok k"
  shows "deep_copy (slice_layout k flat_layout) (copy_slice k zero)"
proof unfold_locales
  show "layout_ok (slice_layout k flat_layout)" by (rule slice_ok [OF flat_ok])
  fix h s t h'
  assume v: "valid (slice_layout k flat_layout) h s" and c: "copy_slice k zero s h = (t, h')"
  show "extends h h' \<and> valid (slice_layout k flat_layout) h' t \<and> view (slice_layout k flat_layout) h' t = view (slice_layout k flat_layout) h s
      \<and> foot (slice_layout k flat_layout) h' t \<subseteq> {lim h..<lim h'}"
  proof (cases s)
    case (Some w)
    let ?h1 = "snd (alloc (inj k (replicate (len w) zero)) h)"
    have "elems k ?h1 s = elems k h s" by (rule elems_same) (use v Some in \<open>auto simp: slice_sel\<close>)
    moreover have "length (elems k h s) = len w" using v Some length_elems by simp
    ultimately show ?thesis using c Some
      by (auto simp: copy_slice_def slice_sel elems_def case_prod_beta kind_prj [OF k] extends_def)
  qed (use c in \<open>simp add: copy_slice_def slice_sel elems_def\<close>)
qed

section \<open>Maps and pointers\<close>

definition map_layout :: "('o, 'k \<rightharpoonup> 'e) kind \<Rightarrow> ('o, addr option, 'k \<rightharpoonup> 'e) layout" where
  "map_layout k = \<lparr>
     valid = (\<lambda>h m. case m of None \<Rightarrow> True | Some a \<Rightarrow> a < lim h),
     view = (\<lambda>h m. case m of None \<Rightarrow> Map.empty | Some a \<Rightarrow> prj k (obj h a)),
     foot = (\<lambda>h m. case m of None \<Rightarrow> {} | Some a \<Rightarrow> {a})\<rparr>"

definition ptr_layout :: "('o, 'm) kind \<Rightarrow> ('o, 'm, 'v) layout \<Rightarrow> ('o, addr option, 'v option) layout" where
  "ptr_layout k E = \<lparr>
     valid = (\<lambda>h p. case p of None \<Rightarrow> True | Some a \<Rightarrow> a < lim h \<and> valid E h (prj k (obj h a))),
     view = (\<lambda>h p. map_option (\<lambda>a. view E h (prj k (obj h a))) p),
     foot = (\<lambda>h p. case p of None \<Rightarrow> {} | Some a \<Rightarrow> insert a (foot E h (prj k (obj h a))))\<rparr>"

text \<open>\<open>*out = make(map[K]V, len(*in))\<close> and the loop that copies the entries.\<close>

definition copy_map :: "('o, 'k \<rightharpoonup> 'e) kind \<Rightarrow> ('e \<Rightarrow> 'e) \<Rightarrow> addr option \<Rightarrow> 'o heap \<Rightarrow> addr option \<times> 'o heap" where
  "copy_map k val_copy m h =
     (case m of None \<Rightarrow> (None, h)
      | Some a \<Rightarrow>
          (case alloc (inj k Map.empty) h of (b, h1) \<Rightarrow>
             (Some b, store b (inj k (\<lambda>key. map_option val_copy (prj k (obj h1 a) key))) h1)))"

text \<open>\<open>if in == nil { return nil }; out := new(T); in.DeepCopyInto(out); return out\<close>.\<close>

definition new_copy :: "('o, 'm) kind \<Rightarrow> 'm \<Rightarrow> ('m \<Rightarrow> 'o heap \<Rightarrow> 'm \<times> 'o heap) \<Rightarrow> addr option \<Rightarrow> 'o heap \<Rightarrow> addr option \<times> 'o heap" where
  "new_copy k zero into p h =
     (case p of None \<Rightarrow> (None, h)
      | Some a \<Rightarrow>
          (case alloc (inj k zero) h of (b, h1) \<Rightarrow>
             (case into (prj k (obj h1 a)) h1 of (y, h2) \<Rightarrow> (Some b, store b (inj k y) h2))))"

lemma map_sel:
  "valid (map_layout k) h m \<longleftrightarrow> (case m of None \<Rightarrow> True | Some a \<Rightarrow> a < lim h)"
  "view (map_layout k) h m = (case m of None \<Rightarrow> Map.empty | Some a \<Rightarrow> prj k (obj h a))"
  "foot (map_layout k) h m = (case m of None \<Rightarrow> {} | Some a \<Rightarrow> {a})"
  by (simp_all add: map_layout_def)

lemma ptr_sel:
  "valid (ptr_layout k E) h p \<longleftrightarrow> (case p of None \<Rightarrow> True | Some a \<Rightarrow> a < lim h \<and> valid E h (prj k (obj h a)))"
  "view (ptr_layout k E) h p = map_option (\<lambda>a. view E h (prj k (obj h a))) p"
  "foot (ptr_layout k E) h p = (case p of None \<Rightarrow> {} | Some a \<Rightarrow> insert a (foot E h (prj k (obj h a))))"
  by (simp_all add: ptr_layout_def)

lemma deep_copy_map:
  assumes k: "kind_ok k" and f: "\<And>v. val_copy v = v"
  shows "deep_copy (map_layout k) (copy_map k val_copy)"
proof unfold_locales
  show "layout_ok (map_layout k)" by (auto simp: layout_ok_def map_sel split: option.splits)
  fix h m n h'
  assume "valid (map_layout k) h m" "copy_map k val_copy m h = (n, h')"
  moreover have "map_option val_copy = id" using f by (simp add: fun_eq_iff option.map_ident_strong)
  ultimately show "extends h h' \<and> valid (map_layout k) h' n \<and> view (map_layout k) h' n = view (map_layout k) h m
      \<and> foot (map_layout k) h' n \<subseteq> {lim h..<lim h'}"
    by (auto simp: copy_map_def map_sel case_prod_beta kind_prj [OF k] extends_def split: option.splits)
qed

lemma ptr_ok:
  assumes E: "layout_ok E"
  shows "layout_ok (ptr_layout k E)"
  unfolding layout_ok_def
proof (intro allI impI conjI)
  fix h p assume v: "valid (ptr_layout k E) h p"
  then show "foot (ptr_layout k E) h p \<subseteq> {..<lim h}"
    using layout_foot [OF E] by (auto simp: ptr_sel split: option.splits)
  fix h' :: "'a heap" assume l: "lim h \<le> lim h'" and same: "\<forall>a \<in> foot (ptr_layout k E) h p. obj h' a = obj h a"
  have x: "valid E h' y \<and> view E h' y = view E h y \<and> foot E h' y = foot E h y"
    if "p = Some a" "y = prj k (obj h a)" for a y
  proof -
    from v that have "valid E h y" by (simp add: ptr_sel)
    moreover from same that have "\<forall>b \<in> foot E h y. obj h' b = obj h b" by (simp add: ptr_sel)
    ultimately show ?thesis using E l unfolding layout_ok_def by blast
  qed
  from v l same x show "valid (ptr_layout k E) h' p" by (auto simp: ptr_sel split: option.splits)
  from same x show "view (ptr_layout k E) h' p = view (ptr_layout k E) h p" by (cases p) (simp_all add: ptr_sel)
  from same x show "foot (ptr_layout k E) h' p = foot (ptr_layout k E) h p" by (cases p) (simp_all add: ptr_sel)
qed

lemma deep_copy_new:
  assumes E: "deep_copy E into" and k: "kind_ok k"
  shows "deep_copy (ptr_layout k E) (new_copy k zero into)"
proof unfold_locales
  show "layout_ok (ptr_layout k E)" by (rule ptr_ok [OF deep_copy.layout [OF E]])
  fix h p q h'
  assume v: "valid (ptr_layout k E) h p" and c: "new_copy k zero into p h = (q, h')"
  show "extends h h' \<and> valid (ptr_layout k E) h' q \<and> view (ptr_layout k E) h' q = view (ptr_layout k E) h p
      \<and> foot (ptr_layout k E) h' q \<subseteq> {lim h..<lim h'}"
  proof (cases p)
    case None
    with c show ?thesis by (simp add: new_copy_def ptr_sel)
  next
    case (Some a)
    let ?x = "prj k (obj h a)" and ?b = "lim h" and ?h1 = "snd (alloc (inj k zero) h)"
    have a: "a < lim h" "valid E h ?x" using v Some by (simp_all add: ptr_sel)
    have e1: "extends h ?h1" "lim ?h1 = Suc ?b" by (simp_all add: extends_def)
    obtain y h2 where i: "into ?x ?h1 = (y, h2)" by fastforce
    from layout_extends [OF deep_copy.layout [OF E] a(2) e1(1)] have x1: "valid E ?h1 ?x" "view E ?h1 ?x = view E h ?x" by blast+
    from deep_copy.copies [OF E x1(1) i] have y: "extends ?h1 h2" "valid E h2 y" "view E h2 y = view E ?h1 ?x"
      "foot E h2 y \<subseteq> {lim ?h1..<lim h2}" by blast+
    have qh: "q = Some ?b" "h' = store ?b (inj k y) h2"
      using c Some i a(1) by (simp_all add: new_copy_def case_prod_beta)
    have "changes_in {?b} h2 h'" by (auto simp: changes_in_def qh(2))
    then have y': "valid E h' y \<and> view E h' y = view E h2 y \<and> foot E h' y = foot E h2 y"
      by (rule layout_frame [OF deep_copy.layout [OF E] y(2)]) (use y(4) e1(2) in fastforce)
    have l: "?b < lim h2" using y(1) by (simp add: extends_def)
    have "extends h h2" by (rule extends_trans [OF e1(1) y(1)])
    then have "extends h h'" unfolding qh(2) by (rule extends_store) simp
    moreover have "foot E h' y \<subseteq> {lim h..<lim h2}" using y' y(4) e1(2) by fastforce
    ultimately show ?thesis using y' y(3) x1(2) l Some by (simp add: ptr_sel qh kind_prj [OF k])
  qed
qed

section \<open>Structs\<close>

definition pair_layout :: "('o, 'm, 'v) layout \<Rightarrow> ('o, 'n, 'w) layout \<Rightarrow> ('o, 'm \<times> 'n, 'v \<times> 'w) layout" where
  "pair_layout S T = \<lparr>
     valid = (\<lambda>h p. valid S h (fst p) \<and> valid T h (snd p)),
     view = (\<lambda>h p. (view S h (fst p), view T h (snd p))),
     foot = (\<lambda>h p. foot S h (fst p) \<union> foot T h (snd p))\<rparr>"

definition copy_pair :: "('m \<Rightarrow> 'o heap \<Rightarrow> 'm \<times> 'o heap) \<Rightarrow> ('n \<Rightarrow> 'o heap \<Rightarrow> 'n \<times> 'o heap) \<Rightarrow> 'm \<times> 'n \<Rightarrow> 'o heap \<Rightarrow> ('m \<times> 'n) \<times> 'o heap" where
  "copy_pair c d p h = (case c (fst p) h of (x, h1) \<Rightarrow> (case d (snd p) h1 of (y, h2) \<Rightarrow> ((x, y), h2)))"

text \<open>
  A struct reaches memory through some of its fields, taken out by \<open>get\<close>; what it stands for is made
  by \<open>build\<close> of the struct, for the scalar fields, and of what those fields stand for.
\<close>

definition struct_layout :: "('m \<Rightarrow> 'p) \<Rightarrow> ('m \<Rightarrow> 'w \<Rightarrow> 'v) \<Rightarrow> ('o, 'p, 'w) layout \<Rightarrow> ('o, 'm, 'v) layout" where
  "struct_layout get build T = \<lparr>
     valid = (\<lambda>h x. valid T h (get x)),
     view = (\<lambda>h x. build x (view T h (get x))),
     foot = (\<lambda>h x. foot T h (get x))\<rparr>"

text \<open>\<open>*out = *in\<close> followed by the copies of some fields.\<close>

definition copy_field :: "('m \<Rightarrow> 'f) \<Rightarrow> (('f \<Rightarrow> 'f) \<Rightarrow> 'm \<Rightarrow> 'm) \<Rightarrow> ('f \<Rightarrow> 'o heap \<Rightarrow> 'f \<times> 'o heap) \<Rightarrow> 'm \<Rightarrow> 'o heap \<Rightarrow> 'm \<times> 'o heap" where
  "copy_field field update into x h = (case into (field x) h of (y, h1) \<Rightarrow> (update (\<lambda>_. y) x, h1))"

fun copy_fields :: "('m \<Rightarrow> 'o heap \<Rightarrow> 'm \<times> 'o heap) list \<Rightarrow> 'm \<Rightarrow> 'o heap \<Rightarrow> 'm \<times> 'o heap" where
  "copy_fields [] x h = (x, h)"
| "copy_fields (c # cs) x h = (case c x h of (y, h1) \<Rightarrow> copy_fields cs y h1)"

lemma pair_sel:
  "valid (pair_layout S T) h p \<longleftrightarrow> valid S h (fst p) \<and> valid T h (snd p)"
  "view (pair_layout S T) h p = (view S h (fst p), view T h (snd p))"
  "foot (pair_layout S T) h p = foot S h (fst p) \<union> foot T h (snd p)"
  by (simp_all add: pair_layout_def)

lemma struct_sel:
  "valid (struct_layout get build T) h x \<longleftrightarrow> valid T h (get x)"
  "view (struct_layout get build T) h x = build x (view T h (get x))"
  "foot (struct_layout get build T) h x = foot T h (get x)"
  by (simp_all add: struct_layout_def)

lemma pair_ok:
  assumes "layout_ok S" "layout_ok T"
  shows "layout_ok (pair_layout S T)"
  unfolding layout_ok_def
proof (intro allI impI conjI)
  fix h p assume v: "valid (pair_layout S T) h p"
  then show "foot (pair_layout S T) h p \<subseteq> {..<lim h}"
    using layout_foot [OF assms(1)] layout_foot [OF assms(2)] by (simp add: pair_sel)
  fix h' :: "'a heap" assume "lim h \<le> lim h'" "\<forall>a \<in> foot (pair_layout S T) h p. obj h' a = obj h a"
  then have 1: "valid S h' (fst p) \<and> view S h' (fst p) = view S h (fst p) \<and> foot S h' (fst p) = foot S h (fst p)"
    and 2: "valid T h' (snd p) \<and> view T h' (snd p) = view T h (snd p) \<and> foot T h' (snd p) = foot T h (snd p)"
    using v assms unfolding layout_ok_def pair_sel by blast+
  from 1 2 show "valid (pair_layout S T) h' p" by (simp add: pair_sel)
  from 1 2 show "view (pair_layout S T) h' p = view (pair_layout S T) h p" by (simp only: pair_sel)
  from 1 2 show "foot (pair_layout S T) h' p = foot (pair_layout S T) h p" by (simp only: pair_sel)
qed

lemma deep_copy_pair:
  assumes S: "deep_copy S c" and T: "deep_copy T d"
  shows "deep_copy (pair_layout S T) (copy_pair c d)"
proof unfold_locales
  show "layout_ok (pair_layout S T)" by (rule pair_ok [OF deep_copy.layout [OF S] deep_copy.layout [OF T]])
  fix h p q h'
  assume v: "valid (pair_layout S T) h p" and c: "copy_pair c d p h = (q, h')"
  obtain x h1 where x: "c (fst p) h = (x, h1)" by fastforce
  obtain y h2 where y: "d (snd p) h1 = (y, h2)" by fastforce
  have q: "q = (x, y)" "h' = h2" using c x y by (simp_all add: copy_pair_def)
  from deep_copy_at [OF S extends_refl _ x] v have 1: "extends h h1" "valid S h1 x" "view S h1 x = view S h (fst p)"
    "foot S h1 x \<subseteq> {lim h..<lim h1}" by (simp_all add: pair_sel)
  from deep_copy_at [OF T 1(1) _ y] v have 2: "extends h h2" "extends h1 h2" "valid T h2 y" "view T h2 y = view T h (snd p)"
    "foot T h2 y \<subseteq> {lim h..<lim h2}" by (simp_all add: pair_sel)
  have "foot S h1 x \<subseteq> {lim h..<lim h2}" using 1(4) 2(2) by (fastforce simp: extends_def)
  with layout_extends [OF deep_copy.layout [OF S] 1(2) 2(2)] 1(3) 2
  show "extends h h' \<and> valid (pair_layout S T) h' q \<and> view (pair_layout S T) h' q = view (pair_layout S T) h p
      \<and> foot (pair_layout S T) h' q \<subseteq> {lim h..<lim h'}"
    by (simp add: pair_sel q)
qed

lemma struct_ok: "layout_ok T \<Longrightarrow> layout_ok (struct_layout get build T)"
  unfolding layout_ok_def struct_sel by metis

lemma deep_copy_struct:
  assumes T: "deep_copy T c"
    and copy: "\<And>x h. copy x h = (case c (get x) h of (p, h1) \<Rightarrow> (put p x, h1))"
    and "\<And>p x. get (put p x) = p" "\<And>p x w. build (put p x) w = build x w"
  shows "deep_copy (struct_layout get build T) copy"
proof unfold_locales
  show "layout_ok (struct_layout get build T)" by (rule struct_ok [OF deep_copy.layout [OF T]])
  fix h x y h'
  assume v: "valid (struct_layout get build T) h x" and y: "copy x h = (y, h')"
  obtain p h1 where p: "c (get x) h = (p, h1)" by fastforce
  from deep_copy.copies [OF T _ p] v y p assms(2-4)
  show "extends h h' \<and> valid (struct_layout get build T) h' y
      \<and> view (struct_layout get build T) h' y = view (struct_layout get build T) h x
      \<and> foot (struct_layout get build T) h' y \<subseteq> {lim h..<lim h'}"
    by (auto simp: struct_sel)
qed

lemmas copy_struct_simps = copy_fields.simps copy_field_def copy_pair_def case_prod_beta fst_conv snd_conv prod.case

end
