(* ===== verification/Deep_Copy.thy ===== *)
theory Deep_Copy
  imports Api_Types Go_Memory
begin

text \<open>
  The deep copies of the custom resources, \<^verbatim>\<open>src/api/v1/zz_generated.deepcopy.go\<close>, over Go's memory.
  A struct in memory is its own part, the record of \<open>Api_Types\<close>, and the references that stand for its slices,
  maps, pointers and nested structs; the fields of the own part that these replace are not looked at. A layout
  says which value of \<open>Api_Types\<close> a struct in memory stands for. The lemma of each type is the contract
  \<open>deep_copy\<close> of its \<open>DeepCopyInto\<close>. The copies of \<open>ObjectMeta\<close>, \<open>ListMeta\<close>, \<open>Condition\<close>, \<open>Time\<close> and
  \<open>Quantity\<close> are code of apimachinery and parameters (\<open>copy_lib\<close>).
\<close>

section \<open>Structs in memory\<close>

record TypeMeta =
  tm_Kind :: string
  tm_APIVersion :: string

record ListMeta =
  lm_ResourceVersion :: string
  lm_Continue :: string
  lm_RemainingItemCount :: "int option"

record mAggregate =
  own_Aggregate :: Aggregate
  m_Metadata :: "addr option"

record mAggregateGroup =
  own_AggregateGroup :: AggregateGroup
  mg_Metadata :: "addr option"

record mGroup =
  m_Trait :: "addr option"
  m_Aggregate :: "addr option"

record mCell =
  own_Cell :: Cell
  mc_Allocation :: "addr option"
  mc_Capacity :: "addr option"
  mc_EffectiveCapacity :: "addr option"

record mDomainCapabilities =
  own_DomainCapabilities :: DomainCapabilities
  m_SupportedDevices :: "slice option"
  m_SupportedCpuModes :: "slice option"
  m_SupportedFeatures :: "slice option"

record mOperatingSystemStatus =
  own_OperatingSystem :: OperatingSystemStatus
  m_GardenLinuxFeatures :: "slice option"

record mHypervisorSpec =
  own_Spec :: HypervisorSpec
  m_CustomTraits :: "slice option"
  m_spec_Aggregates :: "slice option"
  m_Groups :: "slice option"
  m_AllowedProjects :: "slice option"
  m_Overcommit :: "addr option"

record mHypervisorStatus =
  own_Status :: HypervisorStatus
  m_OperatingSystem :: mOperatingSystemStatus
  m_Instances :: "slice option"
  m_DomainCapabilities :: mDomainCapabilities
  m_Allocation :: "addr option"
  m_Capacity :: "addr option"
  m_EffectiveCapacity :: "addr option"
  m_Cells :: "slice option"
  m_Traits :: "slice option"
  m_Aggregates :: "slice option"
  m_Conditions :: "slice option"

record 'q mHypervisor =
  m_TypeMeta :: TypeMeta
  m_ObjectMeta :: 'q
  m_Spec :: mHypervisorSpec
  m_Status :: mHypervisorStatus

record ('q, 'l) mHypervisorList =
  ml_TypeMeta :: TypeMeta
  ml_ListMeta :: 'l
  ml_Items :: "slice option"

record mEvictionStatus =
  own_EvictionStatus :: EvictionStatus
  m_OutstandingInstances :: "slice option"
  m_ev_Conditions :: "slice option"

record 'q mEviction =
  me_TypeMeta :: TypeMeta
  me_ObjectMeta :: 'q
  me_Spec :: EvictionSpec
  me_Status :: mEvictionStatus

record ('q, 'l) mEvictionList =
  mel_TypeMeta :: TypeMeta
  mel_ListMeta :: 'l
  mel_Items :: "slice option"

text \<open>The objects of the heap: arrays, maps and structs, one constructor for each type.\<close>

datatype (plugins only: code) ('q, 'l) go_object =
    Strings (the_Strings: "string list") | StringMap (the_StringMap: "string \<rightharpoonup> string")
  | Quantities (the_Quantities: "string \<rightharpoonup> quantity") | Ratios (the_Ratios: "string \<rightharpoonup> rat")
  | GroupArray (the_GroupArray: "mGroup list") | InstanceArray (the_InstanceArray: "Instance list")
  | CellArray (the_CellArray: "mCell list") | AggregateArray (the_AggregateArray: "mAggregate list")
  | ConditionArray (the_ConditionArray: "condition list")
  | HypervisorArray (the_HypervisorArray: "'q mHypervisor list") | EvictionArray (the_EvictionArray: "'q mEviction list")
  | TraitGroupObj (the_TraitGroup: TraitGroup) | AggregateGroupObj (the_AggregateGroup: mAggregateGroup)
  | GroupObj (the_Group: mGroup) | AggregateObj (the_Aggregate: mAggregate) | CapabilitiesObj (the_Capabilities: Capabilities)
  | CellObj (the_Cell: mCell) | DomainCapabilitiesObj (the_DomainCapabilities: mDomainCapabilities)
  | OperatingSystemObj (the_OperatingSystem: mOperatingSystemStatus) | UpdateStatusObj (the_UpdateStatus: HyperVisorUpdateStatus)
  | InstanceObj (the_Instance: Instance) | SpecObj (the_Spec: mHypervisorSpec) | StatusObj (the_Status: mHypervisorStatus)
  | HypervisorObj (the_Hypervisor: "'q mHypervisor") | HypervisorListObj (the_HypervisorList: "('q, 'l) mHypervisorList")
  | EvictionSpecObj (the_EvictionSpec: EvictionSpec) | EvictionStatusObj (the_EvictionStatus: mEvictionStatus)
  | EvictionObj (the_Eviction: "'q mEviction") | EvictionListObj (the_EvictionList: "('q, 'l) mEvictionList")

type_synonym ('q, 'l) memory = "('q, 'l) go_object heap"

section \<open>Kinds of objects\<close>

abbreviation strings_kind :: "(('q, 'l) go_object, string list) kind" where "strings_kind \<equiv> \<lparr>inj = Strings, prj = the_Strings\<rparr>"
abbreviation string_map_kind :: "(('q, 'l) go_object, string \<rightharpoonup> string) kind" where "string_map_kind \<equiv> \<lparr>inj = StringMap, prj = the_StringMap\<rparr>"
abbreviation quantities_kind :: "(('q, 'l) go_object, string \<rightharpoonup> quantity) kind" where "quantities_kind \<equiv> \<lparr>inj = Quantities, prj = the_Quantities\<rparr>"
abbreviation ratios_kind :: "(('q, 'l) go_object, string \<rightharpoonup> rat) kind" where "ratios_kind \<equiv> \<lparr>inj = Ratios, prj = the_Ratios\<rparr>"
abbreviation groups_kind :: "(('q, 'l) go_object, mGroup list) kind" where "groups_kind \<equiv> \<lparr>inj = GroupArray, prj = the_GroupArray\<rparr>"
abbreviation instances_kind :: "(('q, 'l) go_object, Instance list) kind" where "instances_kind \<equiv> \<lparr>inj = InstanceArray, prj = the_InstanceArray\<rparr>"
abbreviation cells_kind :: "(('q, 'l) go_object, mCell list) kind" where "cells_kind \<equiv> \<lparr>inj = CellArray, prj = the_CellArray\<rparr>"
abbreviation aggregates_kind :: "(('q, 'l) go_object, mAggregate list) kind" where "aggregates_kind \<equiv> \<lparr>inj = AggregateArray, prj = the_AggregateArray\<rparr>"
abbreviation conditions_kind :: "(('q, 'l) go_object, condition list) kind" where "conditions_kind \<equiv> \<lparr>inj = ConditionArray, prj = the_ConditionArray\<rparr>"
abbreviation hypervisors_kind :: "(('q, 'l) go_object, 'q mHypervisor list) kind" where "hypervisors_kind \<equiv> \<lparr>inj = HypervisorArray, prj = the_HypervisorArray\<rparr>"
abbreviation evictions_kind :: "(('q, 'l) go_object, 'q mEviction list) kind" where "evictions_kind \<equiv> \<lparr>inj = EvictionArray, prj = the_EvictionArray\<rparr>"
abbreviation trait_group_kind :: "(('q, 'l) go_object, TraitGroup) kind" where "trait_group_kind \<equiv> \<lparr>inj = TraitGroupObj, prj = the_TraitGroup\<rparr>"
abbreviation aggregate_group_kind :: "(('q, 'l) go_object, mAggregateGroup) kind" where "aggregate_group_kind \<equiv> \<lparr>inj = AggregateGroupObj, prj = the_AggregateGroup\<rparr>"
abbreviation group_kind :: "(('q, 'l) go_object, mGroup) kind" where "group_kind \<equiv> \<lparr>inj = GroupObj, prj = the_Group\<rparr>"
abbreviation aggregate_kind :: "(('q, 'l) go_object, mAggregate) kind" where "aggregate_kind \<equiv> \<lparr>inj = AggregateObj, prj = the_Aggregate\<rparr>"
abbreviation capabilities_kind :: "(('q, 'l) go_object, Capabilities) kind" where "capabilities_kind \<equiv> \<lparr>inj = CapabilitiesObj, prj = the_Capabilities\<rparr>"
abbreviation cell_kind :: "(('q, 'l) go_object, mCell) kind" where "cell_kind \<equiv> \<lparr>inj = CellObj, prj = the_Cell\<rparr>"
abbreviation domain_kind :: "(('q, 'l) go_object, mDomainCapabilities) kind" where "domain_kind \<equiv> \<lparr>inj = DomainCapabilitiesObj, prj = the_DomainCapabilities\<rparr>"
abbreviation os_kind :: "(('q, 'l) go_object, mOperatingSystemStatus) kind" where "os_kind \<equiv> \<lparr>inj = OperatingSystemObj, prj = the_OperatingSystem\<rparr>"
abbreviation update_kind :: "(('q, 'l) go_object, HyperVisorUpdateStatus) kind" where "update_kind \<equiv> \<lparr>inj = UpdateStatusObj, prj = the_UpdateStatus\<rparr>"
abbreviation instance_kind :: "(('q, 'l) go_object, Instance) kind" where "instance_kind \<equiv> \<lparr>inj = InstanceObj, prj = the_Instance\<rparr>"
abbreviation spec_kind :: "(('q, 'l) go_object, mHypervisorSpec) kind" where "spec_kind \<equiv> \<lparr>inj = SpecObj, prj = the_Spec\<rparr>"
abbreviation status_kind :: "(('q, 'l) go_object, mHypervisorStatus) kind" where "status_kind \<equiv> \<lparr>inj = StatusObj, prj = the_Status\<rparr>"
abbreviation hypervisor_kind :: "(('q, 'l) go_object, 'q mHypervisor) kind" where "hypervisor_kind \<equiv> \<lparr>inj = HypervisorObj, prj = the_Hypervisor\<rparr>"
abbreviation hypervisor_list_kind :: "(('q, 'l) go_object, ('q, 'l) mHypervisorList) kind" where "hypervisor_list_kind \<equiv> \<lparr>inj = HypervisorListObj, prj = the_HypervisorList\<rparr>"
abbreviation eviction_spec_kind :: "(('q, 'l) go_object, EvictionSpec) kind" where "eviction_spec_kind \<equiv> \<lparr>inj = EvictionSpecObj, prj = the_EvictionSpec\<rparr>"
abbreviation eviction_status_kind :: "(('q, 'l) go_object, mEvictionStatus) kind" where "eviction_status_kind \<equiv> \<lparr>inj = EvictionStatusObj, prj = the_EvictionStatus\<rparr>"
abbreviation eviction_kind :: "(('q, 'l) go_object, 'q mEviction) kind" where "eviction_kind \<equiv> \<lparr>inj = EvictionObj, prj = the_Eviction\<rparr>"
abbreviation eviction_list_kind :: "(('q, 'l) go_object, ('q, 'l) mEvictionList) kind" where "eviction_list_kind \<equiv> \<lparr>inj = EvictionListObj, prj = the_EvictionList\<rparr>"

lemma selector_kind: "(\<And>x. d (c x) = x) \<Longrightarrow> kind_ok \<lparr>inj = c, prj = d\<rparr>"
  by (simp add: kind_ok_def)

section \<open>The library's copies\<close>

record ('q, 'l) copy_lib =
  meta_layout :: "(('q, 'l) go_object, 'q, ObjectMeta) layout"
  meta_zero :: 'q
  meta_DeepCopyInto :: "'q \<Rightarrow> ('q, 'l) memory \<Rightarrow> 'q \<times> ('q, 'l) memory"
  list_layout :: "(('q, 'l) go_object, 'l, ListMeta) layout"
  list_zero :: 'l
  list_DeepCopyInto :: "'l \<Rightarrow> ('q, 'l) memory \<Rightarrow> 'l \<times> ('q, 'l) memory"
  condition_DeepCopyInto :: "condition \<Rightarrow> condition"
  time_DeepCopyInto :: "go_time \<Rightarrow> go_time"
  quantity_DeepCopy :: "quantity \<Rightarrow> quantity"

text \<open>What apimachinery documents of them: they are deep copies.\<close>

definition copy_laws :: "('q, 'l) copy_lib \<Rightarrow> bool" where
  "copy_laws M \<longleftrightarrow> deep_copy (meta_layout M) (meta_DeepCopyInto M) \<and> deep_copy (list_layout M) (list_DeepCopyInto M)
     \<and> (\<forall>c. condition_DeepCopyInto M c = c) \<and> (\<forall>t. time_DeepCopyInto M t = t) \<and> (\<forall>q. quantity_DeepCopy M q = q)"

section \<open>Zero values\<close>

text \<open>
  What \<open>new(T)\<close> and \<open>make\<close> leave in memory. Every one of them is overwritten by the copy before it is read; a \<open>Status\<close> of
  a condition has no empty value in the model, so \<open>zero_condition\<close> has \<open>ConditionUnknown\<close> there.
\<close>

definition zero_domain :: DomainCapabilities where
  "zero_domain = st_DomainCapabilities zero_status"

definition zero_mSpec :: mHypervisorSpec where
  "zero_mSpec = \<lparr>own_Spec = zero_spec, m_CustomTraits = None, m_spec_Aggregates = None, m_Groups = None,
     m_AllowedProjects = None, m_Overcommit = None\<rparr>"

definition zero_mOS :: mOperatingSystemStatus where
  "zero_mOS = \<lparr>own_OperatingSystem = zero_os, m_GardenLinuxFeatures = None\<rparr>"

definition zero_mDomain :: mDomainCapabilities where
  "zero_mDomain = \<lparr>own_DomainCapabilities = zero_domain, m_SupportedDevices = None, m_SupportedCpuModes = None,
     m_SupportedFeatures = None\<rparr>"

definition zero_mStatus :: mHypervisorStatus where
  "zero_mStatus = \<lparr>own_Status = zero_status, m_OperatingSystem = zero_mOS, m_Instances = None,
     m_DomainCapabilities = zero_mDomain, m_Allocation = None, m_Capacity = None, m_EffectiveCapacity = None,
     m_Cells = None, m_Traits = None, m_Aggregates = None, m_Conditions = None\<rparr>"

definition zero_type_meta :: TypeMeta where
  "zero_type_meta = \<lparr>tm_Kind = [], tm_APIVersion = []\<rparr>"

definition zero_mHypervisor :: "('q, 'l) copy_lib \<Rightarrow> 'q mHypervisor" where
  "zero_mHypervisor M = \<lparr>m_TypeMeta = zero_type_meta, m_ObjectMeta = meta_zero M, m_Spec = zero_mSpec, m_Status = zero_mStatus\<rparr>"

definition zero_mEvictionStatus :: mEvictionStatus where
  "zero_mEvictionStatus = \<lparr>own_EvictionStatus = \<lparr>HypervisorServiceId = [], OutstandingRamMb = 0, OutstandingInstances = [],
     ev_Conditions = []\<rparr>, m_OutstandingInstances = None, m_ev_Conditions = None\<rparr>"

definition zero_eviction_spec :: EvictionSpec where
  "zero_eviction_spec = \<lparr>es_Hypervisor = [], es_Reason = []\<rparr>"

definition zero_mEviction :: "('q, 'l) copy_lib \<Rightarrow> 'q mEviction" where
  "zero_mEviction M = \<lparr>me_TypeMeta = zero_type_meta, me_ObjectMeta = meta_zero M, me_Spec = zero_eviction_spec,
     me_Status = zero_mEvictionStatus\<rparr>"

definition zero_mAggregate :: mAggregate where
  "zero_mAggregate = \<lparr>own_Aggregate = \<lparr>agg_Name = [], agg_UUID = [], agg_Metadata = Map.empty\<rparr>, m_Metadata = None\<rparr>"

definition zero_mAggregateGroup :: mAggregateGroup where
  "zero_mAggregateGroup = \<lparr>own_AggregateGroup = \<lparr>ag_Name = [], ag_UUID = [], ag_Metadata = Map.empty\<rparr>, mg_Metadata = None\<rparr>"

definition zero_mGroup :: mGroup where
  "zero_mGroup = \<lparr>m_Trait = None, m_Aggregate = None\<rparr>"

definition zero_mCell :: mCell where
  "zero_mCell = \<lparr>own_Cell = \<lparr>CellID = 0, cell_Allocation = Map.empty, cell_Capacity = Map.empty, cell_EffectiveCapacity = Map.empty\<rparr>,
     mc_Allocation = None, mc_Capacity = None, mc_EffectiveCapacity = None\<rparr>"

abbreviation zero_trait_group :: TraitGroup where "zero_trait_group \<equiv> \<lparr>tg_Name = []\<rparr>"
abbreviation zero_instance :: Instance where "zero_instance \<equiv> \<lparr>in_ID = [], in_Name = [], in_Active = False\<rparr>"
abbreviation zero_condition :: condition where "zero_condition \<equiv> mk_condition [] ConditionUnknown [] []"

section \<open>DeepCopyInto\<close>

definition Aggregate_DeepCopyInto :: "mAggregate \<Rightarrow> ('q, 'l) memory \<Rightarrow> mAggregate \<times> ('q, 'l) memory" where
  "Aggregate_DeepCopyInto = copy_fields [copy_field m_Metadata m_Metadata_update (copy_map string_map_kind (\<lambda>v. v))]"

definition AggregateGroup_DeepCopyInto :: "mAggregateGroup \<Rightarrow> ('q, 'l) memory \<Rightarrow> mAggregateGroup \<times> ('q, 'l) memory" where
  "AggregateGroup_DeepCopyInto = copy_fields [copy_field mg_Metadata mg_Metadata_update (copy_map string_map_kind (\<lambda>v. v))]"

definition Capabilities_DeepCopyInto :: "('q, 'l) copy_lib \<Rightarrow> Capabilities \<Rightarrow> ('q, 'l) memory \<Rightarrow> Capabilities \<times> ('q, 'l) memory" where
  "Capabilities_DeepCopyInto M = copy_fields
     [copy_field HostMemory HostMemory_update (\<lambda>q h. (quantity_DeepCopy M q, h)),
      copy_field HostCpus HostCpus_update (\<lambda>q h. (quantity_DeepCopy M q, h))]"

definition Cell_DeepCopyInto :: "('q, 'l) copy_lib \<Rightarrow> mCell \<Rightarrow> ('q, 'l) memory \<Rightarrow> mCell \<times> ('q, 'l) memory" where
  "Cell_DeepCopyInto M = copy_fields
     [copy_field mc_Allocation mc_Allocation_update (copy_map quantities_kind (quantity_DeepCopy M)),
      copy_field mc_Capacity mc_Capacity_update (copy_map quantities_kind (quantity_DeepCopy M)),
      copy_field mc_EffectiveCapacity mc_EffectiveCapacity_update (copy_map quantities_kind (quantity_DeepCopy M))]"

definition DomainCapabilities_DeepCopyInto :: "mDomainCapabilities \<Rightarrow> ('q, 'l) memory \<Rightarrow> mDomainCapabilities \<times> ('q, 'l) memory" where
  "DomainCapabilities_DeepCopyInto = copy_fields
     [copy_field m_SupportedDevices m_SupportedDevices_update (copy_slice strings_kind []),
      copy_field m_SupportedCpuModes m_SupportedCpuModes_update (copy_slice strings_kind []),
      copy_field m_SupportedFeatures m_SupportedFeatures_update (copy_slice strings_kind [])]"

definition EvictionSpec_DeepCopyInto :: "EvictionSpec \<Rightarrow> ('q, 'l) memory \<Rightarrow> EvictionSpec \<times> ('q, 'l) memory" where
  "EvictionSpec_DeepCopyInto = copy_fields []"

definition EvictionStatus_DeepCopyInto ::
    "('q, 'l) copy_lib \<Rightarrow> mEvictionStatus \<Rightarrow> ('q, 'l) memory \<Rightarrow> mEvictionStatus \<times> ('q, 'l) memory" where
  "EvictionStatus_DeepCopyInto M = copy_fields
     [copy_field m_OutstandingInstances m_OutstandingInstances_update (copy_slice strings_kind []),
      copy_field m_ev_Conditions m_ev_Conditions_update
        (copy_slice_of conditions_kind zero_condition (\<lambda>c h. (condition_DeepCopyInto M c, h)))]"

definition Eviction_DeepCopyInto :: "('q, 'l) copy_lib \<Rightarrow> 'q mEviction \<Rightarrow> ('q, 'l) memory \<Rightarrow> 'q mEviction \<times> ('q, 'l) memory" where
  "Eviction_DeepCopyInto M = copy_fields
     [copy_field me_TypeMeta me_TypeMeta_update (\<lambda>t h. (t, h)),
      copy_field me_ObjectMeta me_ObjectMeta_update (meta_DeepCopyInto M),
      copy_field me_Spec me_Spec_update (\<lambda>s h. (s, h)),
      copy_field me_Status me_Status_update (EvictionStatus_DeepCopyInto M)]"

definition EvictionList_DeepCopyInto ::
    "('q, 'l) copy_lib \<Rightarrow> ('q, 'l) mEvictionList \<Rightarrow> ('q, 'l) memory \<Rightarrow> ('q, 'l) mEvictionList \<times> ('q, 'l) memory" where
  "EvictionList_DeepCopyInto M = copy_fields
     [copy_field mel_TypeMeta mel_TypeMeta_update (\<lambda>t h. (t, h)),
      copy_field mel_ListMeta mel_ListMeta_update (list_DeepCopyInto M),
      copy_field mel_Items mel_Items_update (copy_slice_of evictions_kind (zero_mEviction M) (Eviction_DeepCopyInto M))]"

definition TraitGroup_DeepCopyInto :: "TraitGroup \<Rightarrow> ('q, 'l) memory \<Rightarrow> TraitGroup \<times> ('q, 'l) memory" where
  "TraitGroup_DeepCopyInto = copy_fields []"

definition Group_DeepCopyInto :: "mGroup \<Rightarrow> ('q, 'l) memory \<Rightarrow> mGroup \<times> ('q, 'l) memory" where
  "Group_DeepCopyInto = copy_fields
     [copy_field m_Trait m_Trait_update (new_copy trait_group_kind zero_trait_group (\<lambda>t h. (t, h))),
      copy_field m_Aggregate m_Aggregate_update (new_copy aggregate_group_kind zero_mAggregateGroup AggregateGroup_DeepCopyInto)]"

definition HyperVisorUpdateStatus_DeepCopyInto ::
    "HyperVisorUpdateStatus \<Rightarrow> ('q, 'l) memory \<Rightarrow> HyperVisorUpdateStatus \<times> ('q, 'l) memory" where
  "HyperVisorUpdateStatus_DeepCopyInto = copy_fields []"

definition Instance_DeepCopyInto :: "Instance \<Rightarrow> ('q, 'l) memory \<Rightarrow> Instance \<times> ('q, 'l) memory" where
  "Instance_DeepCopyInto = copy_fields []"

definition OperatingSystemStatus_DeepCopyInto ::
    "('q, 'l) copy_lib \<Rightarrow> mOperatingSystemStatus \<Rightarrow> ('q, 'l) memory \<Rightarrow> mOperatingSystemStatus \<times> ('q, 'l) memory" where
  "OperatingSystemStatus_DeepCopyInto M = copy_fields
     [copy_field (\<lambda>s. FirmwareDate (own_OperatingSystem s)) (\<lambda>f. own_OperatingSystem_update (FirmwareDate_update f))
        (\<lambda>t h. (time_DeepCopyInto M t, h)),
      copy_field m_GardenLinuxFeatures m_GardenLinuxFeatures_update (copy_slice strings_kind [])]"

definition HypervisorSpec_DeepCopyInto :: "mHypervisorSpec \<Rightarrow> ('q, 'l) memory \<Rightarrow> mHypervisorSpec \<times> ('q, 'l) memory" where
  "HypervisorSpec_DeepCopyInto = copy_fields
     [copy_field m_CustomTraits m_CustomTraits_update (copy_slice strings_kind []),
      copy_field m_spec_Aggregates m_spec_Aggregates_update (copy_slice strings_kind []),
      copy_field m_Groups m_Groups_update (copy_slice_of groups_kind zero_mGroup Group_DeepCopyInto),
      copy_field m_AllowedProjects m_AllowedProjects_update (copy_slice strings_kind []),
      copy_field m_Overcommit m_Overcommit_update (copy_map ratios_kind (\<lambda>v. v))]"

definition HypervisorStatus_DeepCopyInto ::
    "('q, 'l) copy_lib \<Rightarrow> mHypervisorStatus \<Rightarrow> ('q, 'l) memory \<Rightarrow> mHypervisorStatus \<times> ('q, 'l) memory" where
  "HypervisorStatus_DeepCopyInto M = copy_fields
     [copy_field m_OperatingSystem m_OperatingSystem_update (OperatingSystemStatus_DeepCopyInto M),
      copy_field (\<lambda>s. Update (own_Status s)) (\<lambda>f. own_Status_update (Update_update f)) (\<lambda>u h. (u, h)),
      copy_field m_Instances m_Instances_update (copy_slice instances_kind zero_instance),
      copy_field (\<lambda>s. st_Capabilities (own_Status s)) (\<lambda>f. own_Status_update (st_Capabilities_update f)) (Capabilities_DeepCopyInto M),
      copy_field m_DomainCapabilities m_DomainCapabilities_update DomainCapabilities_DeepCopyInto,
      copy_field m_Allocation m_Allocation_update (copy_map quantities_kind (quantity_DeepCopy M)),
      copy_field m_Capacity m_Capacity_update (copy_map quantities_kind (quantity_DeepCopy M)),
      copy_field m_EffectiveCapacity m_EffectiveCapacity_update (copy_map quantities_kind (quantity_DeepCopy M)),
      copy_field m_Cells m_Cells_update (copy_slice_of cells_kind zero_mCell (Cell_DeepCopyInto M)),
      copy_field m_Traits m_Traits_update (copy_slice strings_kind []),
      copy_field m_Aggregates m_Aggregates_update (copy_slice_of aggregates_kind zero_mAggregate Aggregate_DeepCopyInto),
      copy_field m_Conditions m_Conditions_update
        (copy_slice_of conditions_kind zero_condition (\<lambda>c h. (condition_DeepCopyInto M c, h)))]"

definition Hypervisor_DeepCopyInto ::
    "('q, 'l) copy_lib \<Rightarrow> 'q mHypervisor \<Rightarrow> ('q, 'l) memory \<Rightarrow> 'q mHypervisor \<times> ('q, 'l) memory" where
  "Hypervisor_DeepCopyInto M = copy_fields
     [copy_field m_TypeMeta m_TypeMeta_update (\<lambda>t h. (t, h)),
      copy_field m_ObjectMeta m_ObjectMeta_update (meta_DeepCopyInto M),
      copy_field m_Spec m_Spec_update HypervisorSpec_DeepCopyInto,
      copy_field m_Status m_Status_update (HypervisorStatus_DeepCopyInto M)]"

definition HypervisorList_DeepCopyInto ::
    "('q, 'l) copy_lib \<Rightarrow> ('q, 'l) mHypervisorList \<Rightarrow> ('q, 'l) memory \<Rightarrow> ('q, 'l) mHypervisorList \<times> ('q, 'l) memory" where
  "HypervisorList_DeepCopyInto M = copy_fields
     [copy_field ml_TypeMeta ml_TypeMeta_update (\<lambda>t h. (t, h)),
      copy_field ml_ListMeta ml_ListMeta_update (list_DeepCopyInto M),
      copy_field ml_Items ml_Items_update (copy_slice_of hypervisors_kind (zero_mHypervisor M) (Hypervisor_DeepCopyInto M))]"

section \<open>DeepCopy\<close>

definition Aggregate_DeepCopy :: "addr option \<Rightarrow> ('q, 'l) memory \<Rightarrow> addr option \<times> ('q, 'l) memory" where
  "Aggregate_DeepCopy = new_copy aggregate_kind zero_mAggregate Aggregate_DeepCopyInto"

definition AggregateGroup_DeepCopy :: "addr option \<Rightarrow> ('q, 'l) memory \<Rightarrow> addr option \<times> ('q, 'l) memory" where
  "AggregateGroup_DeepCopy = new_copy aggregate_group_kind zero_mAggregateGroup AggregateGroup_DeepCopyInto"

definition Capabilities_DeepCopy :: "('q, 'l) copy_lib \<Rightarrow> addr option \<Rightarrow> ('q, 'l) memory \<Rightarrow> addr option \<times> ('q, 'l) memory" where
  "Capabilities_DeepCopy M = new_copy capabilities_kind (st_Capabilities zero_status) (Capabilities_DeepCopyInto M)"

definition Cell_DeepCopy :: "('q, 'l) copy_lib \<Rightarrow> addr option \<Rightarrow> ('q, 'l) memory \<Rightarrow> addr option \<times> ('q, 'l) memory" where
  "Cell_DeepCopy M = new_copy cell_kind zero_mCell (Cell_DeepCopyInto M)"

definition DomainCapabilities_DeepCopy :: "addr option \<Rightarrow> ('q, 'l) memory \<Rightarrow> addr option \<times> ('q, 'l) memory" where
  "DomainCapabilities_DeepCopy = new_copy domain_kind zero_mDomain DomainCapabilities_DeepCopyInto"

definition Eviction_DeepCopy :: "('q, 'l) copy_lib \<Rightarrow> addr option \<Rightarrow> ('q, 'l) memory \<Rightarrow> addr option \<times> ('q, 'l) memory" where
  "Eviction_DeepCopy M = new_copy eviction_kind (zero_mEviction M) (Eviction_DeepCopyInto M)"

definition EvictionList_DeepCopy :: "('q, 'l) copy_lib \<Rightarrow> addr option \<Rightarrow> ('q, 'l) memory \<Rightarrow> addr option \<times> ('q, 'l) memory" where
  "EvictionList_DeepCopy M = new_copy eviction_list_kind \<lparr>mel_TypeMeta = zero_type_meta, mel_ListMeta = list_zero M, mel_Items = None\<rparr> (EvictionList_DeepCopyInto M)"

definition EvictionSpec_DeepCopy :: "addr option \<Rightarrow> ('q, 'l) memory \<Rightarrow> addr option \<times> ('q, 'l) memory" where
  "EvictionSpec_DeepCopy = new_copy eviction_spec_kind zero_eviction_spec EvictionSpec_DeepCopyInto"

definition EvictionStatus_DeepCopy :: "('q, 'l) copy_lib \<Rightarrow> addr option \<Rightarrow> ('q, 'l) memory \<Rightarrow> addr option \<times> ('q, 'l) memory" where
  "EvictionStatus_DeepCopy M = new_copy eviction_status_kind zero_mEvictionStatus (EvictionStatus_DeepCopyInto M)"

definition Group_DeepCopy :: "addr option \<Rightarrow> ('q, 'l) memory \<Rightarrow> addr option \<times> ('q, 'l) memory" where
  "Group_DeepCopy = new_copy group_kind zero_mGroup Group_DeepCopyInto"

definition HyperVisorUpdateStatus_DeepCopy :: "addr option \<Rightarrow> ('q, 'l) memory \<Rightarrow> addr option \<times> ('q, 'l) memory" where
  "HyperVisorUpdateStatus_DeepCopy = new_copy update_kind (Update zero_status) HyperVisorUpdateStatus_DeepCopyInto"

definition Hypervisor_DeepCopy :: "('q, 'l) copy_lib \<Rightarrow> addr option \<Rightarrow> ('q, 'l) memory \<Rightarrow> addr option \<times> ('q, 'l) memory" where
  "Hypervisor_DeepCopy M = new_copy hypervisor_kind (zero_mHypervisor M) (Hypervisor_DeepCopyInto M)"

definition HypervisorList_DeepCopy :: "('q, 'l) copy_lib \<Rightarrow> addr option \<Rightarrow> ('q, 'l) memory \<Rightarrow> addr option \<times> ('q, 'l) memory" where
  "HypervisorList_DeepCopy M = new_copy hypervisor_list_kind \<lparr>ml_TypeMeta = zero_type_meta, ml_ListMeta = list_zero M, ml_Items = None\<rparr> (HypervisorList_DeepCopyInto M)"

definition HypervisorSpec_DeepCopy :: "addr option \<Rightarrow> ('q, 'l) memory \<Rightarrow> addr option \<times> ('q, 'l) memory" where
  "HypervisorSpec_DeepCopy = new_copy spec_kind zero_mSpec HypervisorSpec_DeepCopyInto"

definition HypervisorStatus_DeepCopy :: "('q, 'l) copy_lib \<Rightarrow> addr option \<Rightarrow> ('q, 'l) memory \<Rightarrow> addr option \<times> ('q, 'l) memory" where
  "HypervisorStatus_DeepCopy M = new_copy status_kind zero_mStatus (HypervisorStatus_DeepCopyInto M)"

definition Instance_DeepCopy :: "addr option \<Rightarrow> ('q, 'l) memory \<Rightarrow> addr option \<times> ('q, 'l) memory" where
  "Instance_DeepCopy = new_copy instance_kind zero_instance Instance_DeepCopyInto"

definition OperatingSystemStatus_DeepCopy :: "('q, 'l) copy_lib \<Rightarrow> addr option \<Rightarrow> ('q, 'l) memory \<Rightarrow> addr option \<times> ('q, 'l) memory" where
  "OperatingSystemStatus_DeepCopy M = new_copy os_kind zero_mOS (OperatingSystemStatus_DeepCopyInto M)"

definition TraitGroup_DeepCopy :: "addr option \<Rightarrow> ('q, 'l) memory \<Rightarrow> addr option \<times> ('q, 'l) memory" where
  "TraitGroup_DeepCopy = new_copy trait_group_kind zero_trait_group TraitGroup_DeepCopyInto"

text \<open>\<open>DeepCopyObject\<close> returns the copy as an interface value, and a \<open>nil\<close> interface for a \<open>nil\<close> pointer.\<close>

definition Eviction_DeepCopyObject :: "('q, 'l) copy_lib \<Rightarrow> addr option \<Rightarrow> ('q, 'l) memory \<Rightarrow> addr option \<times> ('q, 'l) memory" where
  "Eviction_DeepCopyObject M p h = (case Eviction_DeepCopy M p h of (c, h1) \<Rightarrow> if c \<noteq> None then (c, h1) else (None, h1))"

definition EvictionList_DeepCopyObject :: "('q, 'l) copy_lib \<Rightarrow> addr option \<Rightarrow> ('q, 'l) memory \<Rightarrow> addr option \<times> ('q, 'l) memory" where
  "EvictionList_DeepCopyObject M p h = (case EvictionList_DeepCopy M p h of (c, h1) \<Rightarrow> if c \<noteq> None then (c, h1) else (None, h1))"

definition Hypervisor_DeepCopyObject :: "('q, 'l) copy_lib \<Rightarrow> addr option \<Rightarrow> ('q, 'l) memory \<Rightarrow> addr option \<times> ('q, 'l) memory" where
  "Hypervisor_DeepCopyObject M p h = (case Hypervisor_DeepCopy M p h of (c, h1) \<Rightarrow> if c \<noteq> None then (c, h1) else (None, h1))"

definition HypervisorList_DeepCopyObject :: "('q, 'l) copy_lib \<Rightarrow> addr option \<Rightarrow> ('q, 'l) memory \<Rightarrow> addr option \<times> ('q, 'l) memory" where
  "HypervisorList_DeepCopyObject M p h = (case HypervisorList_DeepCopy M p h of (c, h1) \<Rightarrow> if c \<noteq> None then (c, h1) else (None, h1))"

section \<open>What the structs stand for\<close>

definition aggregate_layout :: "(('q, 'l) go_object, mAggregate, Aggregate) layout" where
  "aggregate_layout = struct_layout m_Metadata (\<lambda>x m. (own_Aggregate x)\<lparr>agg_Metadata := m\<rparr>) (map_layout string_map_kind)"

definition aggregate_group_layout :: "(('q, 'l) go_object, mAggregateGroup, AggregateGroup) layout" where
  "aggregate_group_layout = struct_layout mg_Metadata (\<lambda>x m. (own_AggregateGroup x)\<lparr>ag_Metadata := m\<rparr>) (map_layout string_map_kind)"

definition group_layout :: "(('q, 'l) go_object, mGroup, Group) layout" where
  "group_layout = struct_layout (\<lambda>x. (m_Trait x, m_Aggregate x)) (\<lambda>x (t, a). \<lparr>g_Trait = t, g_Aggregate = a\<rparr>)
     (pair_layout (ptr_layout trait_group_kind flat_layout) (ptr_layout aggregate_group_kind aggregate_group_layout))"

definition cell_layout :: "(('q, 'l) go_object, mCell, Cell) layout" where
  "cell_layout = struct_layout (\<lambda>x. (mc_Allocation x, mc_Capacity x, mc_EffectiveCapacity x))
     (\<lambda>x (a, c, e). (own_Cell x)\<lparr>cell_Allocation := a, cell_Capacity := c, cell_EffectiveCapacity := e\<rparr>)
     (pair_layout (map_layout quantities_kind) (pair_layout (map_layout quantities_kind) (map_layout quantities_kind)))"

abbreviation strings_layout :: "(('q, 'l) go_object, slice option, string list) layout" where
  "strings_layout \<equiv> slice_layout strings_kind flat_layout"

definition domain_layout :: "(('q, 'l) go_object, mDomainCapabilities, DomainCapabilities) layout" where
  "domain_layout = struct_layout (\<lambda>x. (m_SupportedDevices x, m_SupportedCpuModes x, m_SupportedFeatures x))
     (\<lambda>x (d, c, f). (own_DomainCapabilities x)\<lparr>SupportedDevices := d, SupportedCpuModes := c, SupportedFeatures := f\<rparr>)
     (pair_layout strings_layout (pair_layout strings_layout strings_layout))"

definition os_layout :: "(('q, 'l) go_object, mOperatingSystemStatus, OperatingSystemStatus) layout" where
  "os_layout = struct_layout (\<lambda>x. (FirmwareDate (own_OperatingSystem x), m_GardenLinuxFeatures x))
     (\<lambda>x (d, f). (own_OperatingSystem x)\<lparr>FirmwareDate := d, GardenLinuxFeatures := f\<rparr>) (pair_layout flat_layout strings_layout)"

definition spec_layout :: "(('q, 'l) go_object, mHypervisorSpec, HypervisorSpec) layout" where
  "spec_layout = struct_layout (\<lambda>x. (m_CustomTraits x, m_spec_Aggregates x, m_Groups x, m_AllowedProjects x, m_Overcommit x))
     (\<lambda>x (t, a, g, p, c). (own_Spec x)\<lparr>CustomTraits := t, spec_Aggregates := a, Groups := g, AllowedProjects := p, Overcommit := c\<rparr>)
     (pair_layout strings_layout (pair_layout strings_layout (pair_layout (slice_layout groups_kind group_layout)
       (pair_layout strings_layout (map_layout ratios_kind)))))"

abbreviation conditions_layout :: "(('q, 'l) go_object, slice option, condition list) layout" where
  "conditions_layout \<equiv> slice_layout conditions_kind flat_layout"

definition status_layout :: "(('q, 'l) go_object, mHypervisorStatus, HypervisorStatus) layout" where
  "status_layout = struct_layout
     (\<lambda>x. (m_OperatingSystem x, Update (own_Status x), m_Instances x, st_Capabilities (own_Status x), m_DomainCapabilities x,
        m_Allocation x, m_Capacity x, m_EffectiveCapacity x, m_Cells x, m_Traits x, m_Aggregates x, m_Conditions x))
     (\<lambda>x (os, u, i, c, d, al, ca, ec, ce, t, ag, co). (own_Status x)\<lparr>OperatingSystem := os, Update := u, Instances := i,
        st_Capabilities := c, st_DomainCapabilities := d, Allocation := al, Capacity := ca, EffectiveCapacity := ec,
        Cells := ce, Traits := t, Aggregates := ag, Conditions := co\<rparr>)
     (pair_layout os_layout (pair_layout flat_layout (pair_layout (slice_layout instances_kind flat_layout)
       (pair_layout flat_layout (pair_layout domain_layout (pair_layout (map_layout quantities_kind)
       (pair_layout (map_layout quantities_kind) (pair_layout (map_layout quantities_kind)
       (pair_layout (slice_layout cells_kind cell_layout) (pair_layout strings_layout
       (pair_layout (slice_layout aggregates_kind aggregate_layout) conditions_layout)))))))))))"

definition hypervisor_layout :: "('q, 'l) copy_lib \<Rightarrow> (('q, 'l) go_object, 'q mHypervisor, TypeMeta \<times> Hypervisor) layout" where
  "hypervisor_layout M = struct_layout (\<lambda>x. (m_TypeMeta x, m_ObjectMeta x, m_Spec x, m_Status x))
     (\<lambda>x (t, m, s, st). (t, \<lparr>Meta = m, Spec = s, hv_Status = st\<rparr>))
     (pair_layout flat_layout (pair_layout (meta_layout M) (pair_layout spec_layout status_layout)))"

definition hypervisor_list_layout ::
    "('q, 'l) copy_lib \<Rightarrow> (('q, 'l) go_object, ('q, 'l) mHypervisorList, TypeMeta \<times> ListMeta \<times> (TypeMeta \<times> Hypervisor) list) layout" where
  "hypervisor_list_layout M = struct_layout (\<lambda>x. (ml_TypeMeta x, ml_ListMeta x, ml_Items x)) (\<lambda>x v. v)
     (pair_layout flat_layout (pair_layout (list_layout M) (slice_layout hypervisors_kind (hypervisor_layout M))))"

definition eviction_status_layout :: "(('q, 'l) go_object, mEvictionStatus, EvictionStatus) layout" where
  "eviction_status_layout = struct_layout (\<lambda>x. (m_OutstandingInstances x, m_ev_Conditions x))
     (\<lambda>x (us, cs). (own_EvictionStatus x)\<lparr>OutstandingInstances := us, ev_Conditions := cs\<rparr>)
     (pair_layout strings_layout conditions_layout)"

definition eviction_layout :: "('q, 'l) copy_lib \<Rightarrow> (('q, 'l) go_object, 'q mEviction, TypeMeta \<times> Eviction) layout" where
  "eviction_layout M = struct_layout (\<lambda>x. (me_TypeMeta x, me_ObjectMeta x, me_Spec x, me_Status x))
     (\<lambda>x (t, m, s, st). (t, \<lparr>ev_Meta = m, ev_Spec = s, ev_Status = st\<rparr>))
     (pair_layout flat_layout (pair_layout (meta_layout M) (pair_layout flat_layout eviction_status_layout)))"

definition eviction_list_layout ::
    "('q, 'l) copy_lib \<Rightarrow> (('q, 'l) go_object, ('q, 'l) mEvictionList, TypeMeta \<times> ListMeta \<times> (TypeMeta \<times> Eviction) list) layout" where
  "eviction_list_layout M = struct_layout (\<lambda>x. (mel_TypeMeta x, mel_ListMeta x, mel_Items x)) (\<lambda>x v. v)
     (pair_layout flat_layout (pair_layout (list_layout M) (slice_layout evictions_kind (eviction_layout M))))"

section \<open>Every copy keeps the contract\<close>

lemmas new_kind = deep_copy_new [OF _ selector_kind]

lemma copy_nothing: "copy_fields [] = (\<lambda>x h. (x, h))"
  by (simp add: fun_eq_iff)

lemma deep_copy_same: "deep_copy flat_layout (\<lambda>x h. (x, h))"
  by (rule deep_copy_flat) simp

lemma Aggregate_copied: "deep_copy aggregate_layout Aggregate_DeepCopyInto"
  unfolding aggregate_layout_def Aggregate_DeepCopyInto_def
  by (rule deep_copy_struct [OF deep_copy_map [OF selector_kind], where put = "\<lambda>p. m_Metadata_update (\<lambda>_. p)"])
    (simp_all add: copy_struct_simps)

lemma AggregateGroup_copied: "deep_copy aggregate_group_layout AggregateGroup_DeepCopyInto"
  unfolding aggregate_group_layout_def AggregateGroup_DeepCopyInto_def
  by (rule deep_copy_struct [OF deep_copy_map [OF selector_kind], where put = "\<lambda>p. mg_Metadata_update (\<lambda>_. p)"])
    (simp_all add: copy_struct_simps)

lemma Group_copied: "deep_copy group_layout Group_DeepCopyInto"
  unfolding group_layout_def Group_DeepCopyInto_def
  by (rule deep_copy_struct [OF deep_copy_pair [OF new_kind [OF deep_copy_same] new_kind [OF AggregateGroup_copied]],
        where put = "\<lambda>(t, a) x. x\<lparr>m_Trait := t, m_Aggregate := a\<rparr>"])
    (simp_all add: copy_struct_simps split: prod.split)

lemma DomainCapabilities_copied: "deep_copy domain_layout DomainCapabilities_DeepCopyInto"
  unfolding domain_layout_def DomainCapabilities_DeepCopyInto_def
  by (rule deep_copy_struct [OF deep_copy_pair [OF deep_copy_slice [OF selector_kind]
          deep_copy_pair [OF deep_copy_slice [OF selector_kind] deep_copy_slice [OF selector_kind]]],
        where put = "\<lambda>(d, c, f) x. x\<lparr>m_SupportedDevices := d, m_SupportedCpuModes := c, m_SupportedFeatures := f\<rparr>"])
    (simp_all add: copy_struct_simps split: prod.split)

lemma HypervisorSpec_copied: "deep_copy spec_layout HypervisorSpec_DeepCopyInto"
  unfolding spec_layout_def HypervisorSpec_DeepCopyInto_def
  by (rule deep_copy_struct [OF deep_copy_pair [OF deep_copy_slice [OF selector_kind] deep_copy_pair [OF deep_copy_slice [OF selector_kind]
          deep_copy_pair [OF deep_copy_slice_of [OF Group_copied selector_kind] deep_copy_pair [OF deep_copy_slice [OF selector_kind]
          deep_copy_map [OF selector_kind]]]]],
        where put = "\<lambda>(t, a, g, p, c) x. x\<lparr>m_CustomTraits := t, m_spec_Aggregates := a, m_Groups := g, m_AllowedProjects := p, m_Overcommit := c\<rparr>"])
    (simp_all add: copy_struct_simps split: prod.split)

lemma copy_laws_flat:
  assumes "copy_laws M"
  shows "condition_DeepCopyInto M c = c" "time_DeepCopyInto M t = t" "quantity_DeepCopy M q = q"
  using assms by (simp_all add: copy_laws_def)

lemma copy_laws_meta:
  assumes "copy_laws M"
  shows "deep_copy (meta_layout M) (meta_DeepCopyInto M)" "deep_copy (list_layout M) (list_DeepCopyInto M)"
  using assms by (simp_all add: copy_laws_def)

lemma Capabilities_copied:
  assumes "copy_laws M"
  shows "deep_copy flat_layout (Capabilities_DeepCopyInto M)"
proof -
  have "Capabilities_DeepCopyInto M = (\<lambda>x h. (x, h))"
    by (simp add: fun_eq_iff Capabilities_DeepCopyInto_def copy_struct_simps copy_laws_flat [OF assms])
  then show ?thesis using deep_copy_same by simp
qed

lemma Cell_copied:
  assumes M: "copy_laws M"
  shows "deep_copy cell_layout (Cell_DeepCopyInto M)"
proof -
  note q = deep_copy_map [OF selector_kind, where val_copy = "quantity_DeepCopy M"]
  show ?thesis unfolding cell_layout_def Cell_DeepCopyInto_def
    by (rule deep_copy_struct [OF deep_copy_pair [OF q deep_copy_pair [OF q q]],
          where put = "\<lambda>(a, c, e) x. x\<lparr>mc_Allocation := a, mc_Capacity := c, mc_EffectiveCapacity := e\<rparr>"])
      (simp_all add: copy_struct_simps copy_laws_flat [OF M] split: prod.split)
qed

lemma OperatingSystemStatus_copied:
  assumes M: "copy_laws M"
  shows "deep_copy os_layout (OperatingSystemStatus_DeepCopyInto M)"
  unfolding os_layout_def OperatingSystemStatus_DeepCopyInto_def
  by (rule deep_copy_struct [OF deep_copy_pair [OF deep_copy_flat [where f = "time_DeepCopyInto M"]
          deep_copy_slice [OF selector_kind, where zero = "[]"]],
        where put = "\<lambda>(d, f) x. (own_OperatingSystem_update (FirmwareDate_update (\<lambda>_. d)) x)\<lparr>m_GardenLinuxFeatures := f\<rparr>"])
    (simp_all add: copy_struct_simps copy_laws_flat [OF M] split: prod.split)

lemma conditions_copied:
  "copy_laws M \<Longrightarrow> deep_copy conditions_layout (copy_slice_of conditions_kind zero (\<lambda>c h. (condition_DeepCopyInto M c, h)))"
  by (rule deep_copy_slice_of [OF deep_copy_flat selector_kind]) (simp_all add: copy_laws_flat)

lemma HypervisorStatus_copied:
  assumes M: "copy_laws M"
  shows "deep_copy status_layout (HypervisorStatus_DeepCopyInto M)"
proof -
  note q = deep_copy_map [OF selector_kind, where val_copy = "quantity_DeepCopy M"]
    and s = deep_copy_slice [OF selector_kind]
  have T: "deep_copy (pair_layout os_layout (pair_layout flat_layout (pair_layout (slice_layout instances_kind flat_layout)
       (pair_layout flat_layout (pair_layout domain_layout (pair_layout (map_layout quantities_kind)
       (pair_layout (map_layout quantities_kind) (pair_layout (map_layout quantities_kind)
       (pair_layout (slice_layout cells_kind cell_layout) (pair_layout strings_layout
       (pair_layout (slice_layout aggregates_kind aggregate_layout) conditions_layout)))))))))))
     (copy_pair (OperatingSystemStatus_DeepCopyInto M) (copy_pair (\<lambda>u h. (u, h)) (copy_pair (copy_slice instances_kind zero_instance)
       (copy_pair (Capabilities_DeepCopyInto M) (copy_pair DomainCapabilities_DeepCopyInto
       (copy_pair (copy_map quantities_kind (quantity_DeepCopy M)) (copy_pair (copy_map quantities_kind (quantity_DeepCopy M))
       (copy_pair (copy_map quantities_kind (quantity_DeepCopy M)) (copy_pair (copy_slice_of cells_kind zero_mCell (Cell_DeepCopyInto M))
       (copy_pair (copy_slice strings_kind []) (copy_pair (copy_slice_of aggregates_kind zero_mAggregate Aggregate_DeepCopyInto)
       (copy_slice_of conditions_kind zero_condition (\<lambda>c h. (condition_DeepCopyInto M c, h))))))))))))))"
    by (intro deep_copy_pair OperatingSystemStatus_copied [OF M] deep_copy_same s Capabilities_copied [OF M] DomainCapabilities_copied q
        deep_copy_slice_of [OF Cell_copied [OF M] selector_kind] deep_copy_slice_of [OF Aggregate_copied selector_kind]
        conditions_copied [OF M]) (simp_all add: copy_laws_flat [OF M])
  show ?thesis unfolding status_layout_def HypervisorStatus_DeepCopyInto_def
    by (rule deep_copy_struct [OF T, where put = "\<lambda>(os, u, i, c, d, al, ca, ec, ce, t, ag, co) x.
          (own_Status_update (\<lambda>o'. o'\<lparr>Update := u, st_Capabilities := c\<rparr>) x)\<lparr>m_OperatingSystem := os, m_Instances := i,
            m_DomainCapabilities := d, m_Allocation := al, m_Capacity := ca, m_EffectiveCapacity := ec, m_Cells := ce,
            m_Traits := t, m_Aggregates := ag, m_Conditions := co\<rparr>"])
      (simp_all add: copy_struct_simps split: prod.split)
qed

lemma Hypervisor_copied:
  assumes M: "copy_laws M"
  shows "deep_copy (hypervisor_layout M) (Hypervisor_DeepCopyInto M)"
  unfolding hypervisor_layout_def Hypervisor_DeepCopyInto_def
  by (rule deep_copy_struct [OF deep_copy_pair [OF deep_copy_same deep_copy_pair [OF copy_laws_meta(1) [OF M]
          deep_copy_pair [OF HypervisorSpec_copied HypervisorStatus_copied [OF M]]]],
        where put = "\<lambda>(t, m, s, st) x. x\<lparr>m_TypeMeta := t, m_ObjectMeta := m, m_Spec := s, m_Status := st\<rparr>"])
    (simp_all add: copy_struct_simps split: prod.split)

lemma HypervisorList_copied:
  assumes M: "copy_laws M"
  shows "deep_copy (hypervisor_list_layout M) (HypervisorList_DeepCopyInto M)"
  unfolding hypervisor_list_layout_def HypervisorList_DeepCopyInto_def
  by (rule deep_copy_struct [OF deep_copy_pair [OF deep_copy_same deep_copy_pair [OF copy_laws_meta(2) [OF M]
          deep_copy_slice_of [OF Hypervisor_copied [OF M] selector_kind]]],
        where put = "\<lambda>(t, m, i) x. x\<lparr>ml_TypeMeta := t, ml_ListMeta := m, ml_Items := i\<rparr>"])
    (simp_all add: copy_struct_simps split: prod.split)

lemma EvictionStatus_copied:
  assumes M: "copy_laws M"
  shows "deep_copy eviction_status_layout (EvictionStatus_DeepCopyInto M)"
  unfolding eviction_status_layout_def EvictionStatus_DeepCopyInto_def
  by (rule deep_copy_struct [OF deep_copy_pair [OF deep_copy_slice [OF selector_kind] conditions_copied [OF M]],
        where put = "\<lambda>(us, cs) x. x\<lparr>m_OutstandingInstances := us, m_ev_Conditions := cs\<rparr>"])
    (simp_all add: copy_struct_simps split: prod.split)

lemma Eviction_copied:
  assumes M: "copy_laws M"
  shows "deep_copy (eviction_layout M) (Eviction_DeepCopyInto M)"
  unfolding eviction_layout_def Eviction_DeepCopyInto_def
  by (rule deep_copy_struct [OF deep_copy_pair [OF deep_copy_same deep_copy_pair [OF copy_laws_meta(1) [OF M]
          deep_copy_pair [OF deep_copy_same EvictionStatus_copied [OF M]]]],
        where put = "\<lambda>(t, m, s, st) x. x\<lparr>me_TypeMeta := t, me_ObjectMeta := m, me_Spec := s, me_Status := st\<rparr>"])
    (simp_all add: copy_struct_simps split: prod.split)

lemma EvictionList_copied:
  assumes M: "copy_laws M"
  shows "deep_copy (eviction_list_layout M) (EvictionList_DeepCopyInto M)"
  unfolding eviction_list_layout_def EvictionList_DeepCopyInto_def
  by (rule deep_copy_struct [OF deep_copy_pair [OF deep_copy_same deep_copy_pair [OF copy_laws_meta(2) [OF M]
          deep_copy_slice_of [OF Eviction_copied [OF M] selector_kind]]],
        where put = "\<lambda>(t, m, i) x. x\<lparr>mel_TypeMeta := t, mel_ListMeta := m, mel_Items := i\<rparr>"])
    (simp_all add: copy_struct_simps split: prod.split)

end
