(* ===== verification/Patch_Memory.thy ===== *)
theory Patch_Memory
  imports Deep_Copy Eviction_Ctrl Ready_Ctrl Taint_Ctrl
begin

text \<open>
  The status updates over Go's memory. The models of the controllers treat a read object as a value, so that
  the base of a patch is the object as it was read whatever the update writes afterwards. The code
  gets this from \<open>DeepCopy\<close>: \<open>meta.SetStatusCondition\<close> changes a condition inside the array of the object, and
  without the copy the base would change with it. This theory has the closures of
  \<^verbatim>\<open>utils/status_patch.go\<close> and of \<open>updateStatus\<close> in \<^verbatim>\<open>eviction/controller.go\<close> with their objects in
  memory, and shows that they make the calls that the value models make.
\<close>

section \<open>A struct with conditions, updated in place\<close>

text \<open>\<open>meta.SetStatusCondition(conditions *[]Condition, c)\<close> over memory is a parameter; what it documents:\<close>

type_synonym ('q, 'l) condition_setter = "slice option \<Rightarrow> condition \<Rightarrow> ('q, 'l) memory \<Rightarrow> slice option \<times> ('q, 'l) memory"

definition setter_laws :: "lib \<Rightarrow> ('q, 'l) condition_setter \<Rightarrow> bool" where
  "setter_laws L S \<longleftrightarrow> (\<forall>h s c s' h'. valid conditions_layout h s \<longrightarrow> S s c h = (s', h') \<longrightarrow>
     valid conditions_layout h' s' \<and> view conditions_layout h' s' = setCondition L (view conditions_layout h s) c
     \<and> foot conditions_layout h' s' \<subseteq> foot conditions_layout h s \<union> {lim h..} \<and> changes_in (foot conditions_layout h s) h h')"

definition set_in_place ::
    "(('q, 'l) go_object, 'm) kind \<Rightarrow> ('m \<Rightarrow> slice option) \<Rightarrow> (slice option \<Rightarrow> 'm \<Rightarrow> 'm) \<Rightarrow> ('q, 'l) condition_setter
     \<Rightarrow> condition \<Rightarrow> addr \<Rightarrow> ('q, 'l) memory \<Rightarrow> ('q, 'l) memory" where
  "set_in_place k getc putc S c p h =
     (case S (getc (prj k (obj h p))) c h of (s, h1) \<Rightarrow> store p (inj k (putc s (prj k (obj h1 p)))) h1)"

text \<open>\<open>for _, c := range conditions { meta.SetStatusCondition(&p.Conditions, c) }\<close>\<close>

definition set_range ::
    "(('q, 'l) go_object, 'm) kind \<Rightarrow> ('m \<Rightarrow> slice option) \<Rightarrow> (slice option \<Rightarrow> 'm \<Rightarrow> 'm) \<Rightarrow> ('q, 'l) condition_setter
     \<Rightarrow> slice option \<Rightarrow> addr \<Rightarrow> ('q, 'l) memory \<Rightarrow> ('q, 'l) memory" where
  "set_range k getc putc S cs p h = fold (\<lambda>i h1. set_in_place k getc putc S (elems conditions_kind h1 cs ! i) p h1)
     [0..<length (elems conditions_kind h cs)] h"

text \<open>The conditions of the struct at an address share no memory with the rest of it.\<close>

definition apart ::
    "(('q, 'l) go_object, 'm, 'v) layout \<Rightarrow> (('q, 'l) go_object, 'm) kind \<Rightarrow> ('m \<Rightarrow> slice option) \<Rightarrow> (slice option \<Rightarrow> 'm \<Rightarrow> 'm)
     \<Rightarrow> ('q, 'l) memory \<Rightarrow> addr \<Rightarrow> bool" where
  "apart T k getc putc h p \<longleftrightarrow> p < lim h \<and> valid T h (prj k (obj h p)) \<and> p \<notin> foot T h (prj k (obj h p))
     \<and> foot conditions_layout h (getc (prj k (obj h p))) \<inter> foot T h (putc None (prj k (obj h p))) = {}"

locale conditions_owner =
  fixes T :: "(('q, 'l) go_object, 'm, 'v) layout" and k :: "(('q, 'l) go_object, 'm) kind"
    and getc :: "'m \<Rightarrow> slice option" and putc :: "slice option \<Rightarrow> 'm \<Rightarrow> 'm"
    and conds :: "'v \<Rightarrow> condition list" and setc :: "condition list \<Rightarrow> 'v \<Rightarrow> 'v" and lawful :: bool
  assumes T_ok: "lawful \<Longrightarrow> layout_ok T" and k_ok: "kind_ok k"
    and get_put: "getc (putc s x) = s" and put_put: "putc s (putc s' x) = putc s x"
    and valid_split: "valid T h x \<longleftrightarrow> valid conditions_layout h (getc x) \<and> valid T h (putc None x)"
    and foot_split: "foot T h x = foot conditions_layout h (getc x) \<union> foot T h (putc None x)"
    and view_split: "view T h x = setc (view conditions_layout h (getc x)) (view T h (putc None x))"
    and conds_set: "conds (setc cs v) = cs" and set_set: "setc cs (setc cs' v) = setc cs v"
begin

lemma set_in_place_step:
  assumes "lawful" and S: "setter_laws L S" and a: "apart T k getc putc h p"
  shows "apart T k getc putc (set_in_place k getc putc S c p h) p
    \<and> view T (set_in_place k getc putc S c p h) (prj k (obj (set_in_place k getc putc S c p h) p))
        = setc (setCondition L (conds (view T h (prj k (obj h p)))) c) (view T h (prj k (obj h p)))
    \<and> changes_in (insert p (foot T h (prj k (obj h p)))) h (set_in_place k getc putc S c p h)
    \<and> foot T (set_in_place k getc putc S c p h) (prj k (obj (set_in_place k getc putc S c p h) p))
        \<subseteq> foot T h (prj k (obj h p)) \<union> {lim h..}"
proof -
  let ?x = "prj k (obj h p)" and ?h' = "set_in_place k getc putc S c p h"
  let ?r = "putc None ?x"
  obtain s h1 where s: "S (getc ?x) c h = (s, h1)" by fastforce
  from a have p: "p < lim h" "valid T h ?x" "p \<notin> foot T h ?x" "foot conditions_layout h (getc ?x) \<inter> foot T h ?r = {}"
    by (simp_all add: apart_def)
  from p(2) valid_split have v: "valid conditions_layout h (getc ?x)" "valid T h ?r" by blast+
  have n: "valid conditions_layout h1 s" "view conditions_layout h1 s = setCondition L (view conditions_layout h (getc ?x)) c"
    "foot conditions_layout h1 s \<subseteq> foot conditions_layout h (getc ?x) \<union> {lim h..}"
    "changes_in (foot conditions_layout h (getc ?x)) h h1" using S v(1) s unfolding setter_laws_def by blast+
  have f: "foot T h ?x = foot conditions_layout h (getc ?x) \<union> foot T h ?r" by (rule foot_split)
  have same: "obj h1 p = obj h p" using n(4) p(1,3) f by (auto simp: changes_in_def)
  have h': "?h' = store p (inj k (putc s ?x)) h1" by (simp add: set_in_place_def s same)
  then have x': "prj k (obj ?h' p) = putc s ?x" by (simp add: kind_prj [OF k_ok])
  have l: "lim h \<le> lim h1" "lim ?h' = lim h1" using n(4) by (simp_all add: changes_in_def h')
  have st: "changes_in {p} h1 ?h'" by (auto simp: changes_in_def h')
  from layout_frame [OF T_ok [OF assms(1)] v(2) n(4)] p(4)
  have r1: "valid T h1 ?r \<and> view T h1 ?r = view T h ?r \<and> foot T h1 ?r = foot T h ?r" by blast
  have r: "valid T ?h' ?r \<and> view T ?h' ?r = view T h ?r \<and> foot T ?h' ?r = foot T h ?r"
    using layout_frame [OF T_ok [OF assms(1)] _ st, of ?r] r1 p(3) f by auto
  have "p \<notin> foot conditions_layout h1 s" using n(3) p(1,3) f by auto
  with layout_frame [OF slice_ok [OF flat_ok] n(1) st]
  have cn: "valid conditions_layout ?h' s \<and> view conditions_layout ?h' s = view conditions_layout h1 s
      \<and> foot conditions_layout ?h' s = foot conditions_layout h1 s" by blast
  have split: "getc (putc s ?x) = s" "putc None (putc s ?x) = ?r" by (simp_all add: get_put put_put)
  have rl: "foot T h ?r \<subseteq> {..<lim h}" by (rule layout_foot [OF T_ok [OF assms(1)] v(2)])
  have fx: "foot T ?h' (putc s ?x) = foot conditions_layout h1 s \<union> foot T h ?r"
    using foot_split [of ?h' "putc s ?x"] cn r by (simp add: split)
  have "apart T k getc putc ?h' p"
  proof -
    have "valid T ?h' (putc s ?x)" using valid_split [of ?h' "putc s ?x"] cn n(1) r by (simp add: split)
    moreover have "p \<notin> foot T ?h' (putc s ?x)" using fx n(3) p(1,3) f by auto
    moreover have "foot conditions_layout h1 s \<inter> foot T h ?r = {}" using n(3) p(4) rl by fastforce
    ultimately show ?thesis using p(1) l cn r by (simp add: apart_def x' split)
  qed
  moreover have "view T ?h' (putc s ?x) = setc (setCondition L (conds (view T h ?x)) c) (view T h ?x)"
    using view_split [of ?h' "putc s ?x"] view_split [of h ?x] cn n(2) r by (simp add: split conds_set set_set)
  moreover have "changes_in (insert p (foot T h ?x)) h ?h'"
    using n(4) st f l by (auto simp: changes_in_def)
  moreover have "foot T ?h' (putc s ?x) \<subseteq> foot T h ?x \<union> {lim h..}" using fx n(3) f by blast
  ultimately show ?thesis by (simp add: x')
qed

lemma set_range_steps:
  assumes "lawful" and S: "setter_laws L S" and a: "apart T k getc putc h p"
    and cs: "valid conditions_layout h cs" "foot conditions_layout h cs \<inter> insert p (foot T h (prj k (obj h p))) = {}"
    and n: "n \<le> length (elems conditions_kind h cs)"
    and h': "h' = fold (\<lambda>i h1. set_in_place k getc putc S (elems conditions_kind h1 cs ! i) p h1) [0..<n] h"
  shows "apart T k getc putc h' p \<and> elems conditions_kind h' cs = elems conditions_kind h cs
    \<and> view T h' (prj k (obj h' p)) = setc (foldl (setCondition L) (conds (view T h (prj k (obj h p)))) (take n (elems conditions_kind h cs)))
        (view T h (prj k (obj h p)))
    \<and> changes_in (insert p (foot T h (prj k (obj h p)))) h h'
    \<and> foot T h' (prj k (obj h' p)) \<subseteq> foot T h (prj k (obj h p)) \<union> {lim h..}"
  using n h'
proof (induction n arbitrary: h')
  case 0
  have "view T h (prj k (obj h p)) = setc (conds (view T h (prj k (obj h p)))) (view T h (prj k (obj h p)))"
    by (simp add: view_split [of h "prj k (obj h p)"] conds_set set_set)
  with 0 a show ?case by (simp add: changes_in_def)
next
  case (Suc n)
  let ?A = "insert p (foot T h (prj k (obj h p)))" and ?es = "elems conditions_kind h cs"
  define h1 where "h1 = fold (\<lambda>i h1. set_in_place k getc putc S (elems conditions_kind h1 cs ! i) p h1) [0..<n] h"
  from Suc.IH [OF _ h1_def] Suc.prems(1) have 1: "apart T k getc putc h1 p" "elems conditions_kind h1 cs = ?es"
    "view T h1 (prj k (obj h1 p)) = setc (foldl (setCondition L) (conds (view T h (prj k (obj h p)))) (take n ?es)) (view T h (prj k (obj h p)))"
    "changes_in ?A h h1" "foot T h1 (prj k (obj h1 p)) \<subseteq> foot T h (prj k (obj h p)) \<union> {lim h..}" by auto
  have h': "h' = set_in_place k getc putc S (?es ! n) p h1" using Suc.prems(2) 1(2) by (simp add: h1_def)
  from set_in_place_step [OF assms(1) S 1(1), of "?es ! n"] have 2: "apart T k getc putc h' p"
    "view T h' (prj k (obj h' p)) = setc (setCondition L (conds (view T h1 (prj k (obj h1 p)))) (?es ! n)) (view T h1 (prj k (obj h1 p)))"
    "changes_in (insert p (foot T h1 (prj k (obj h1 p)))) h1 h'"
    "foot T h' (prj k (obj h' p)) \<subseteq> foot T h1 (prj k (obj h1 p)) \<union> {lim h1..}" by (simp_all add: h')
  have l: "lim h \<le> lim h1" using 1(4) by (simp add: changes_in_def)
  have c: "changes_in ?A h h'" by (rule changes_in_trans [OF 1(4) 2(3)]) (use 1(5) in auto)
  have "elems conditions_kind h' cs = ?es"
  proof (rule elems_same)
    fix w assume w: "cs = Some w"
    then have "arr w < lim h" "arr w \<notin> ?A" using cs by (auto simp: slice_sel)
    with c show "obj h' (arr w) = obj h (arr w)" by (simp add: changes_in_def)
  qed
  moreover have "take (Suc n) ?es = take n ?es @ [?es ! n]" using Suc.prems(1) by (simp add: take_Suc_conv_app_nth)
  moreover have "foot T h' (prj k (obj h' p)) \<subseteq> foot T h (prj k (obj h p)) \<union> {lim h..}" using 2(4) 1(5) l by fastforce
  ultimately show ?case using 2(1,2) c 1(3) by (simp add: conds_set set_set)
qed

text \<open>A fresh allocation by someone else leaves the struct as it is.\<close>

lemma apart_extends:
  assumes "lawful" "apart T k getc putc h p" "extends h h'"
  shows "apart T k getc putc h' p \<and> obj h' p = obj h p \<and> view T h' (prj k (obj h p)) = view T h (prj k (obj h p))
    \<and> foot T h' (prj k (obj h p)) = foot T h (prj k (obj h p))"
proof -
  let ?x = "prj k (obj h p)"
  from assms(2) have p: "p < lim h" "valid T h ?x" "p \<notin> foot T h ?x"
    "foot conditions_layout h (getc ?x) \<inter> foot T h (putc None ?x) = {}" by (simp_all add: apart_def)
  from p(2) valid_split have v: "valid conditions_layout h (getc ?x)" "valid T h (putc None ?x)" by blast+
  note e = layout_extends [OF T_ok [OF assms(1)] p(2) assms(3)] layout_extends [OF T_ok [OF assms(1)] v(2) assms(3)]
    layout_extends [OF slice_ok [OF flat_ok] v(1) assms(3)]
  have "obj h' p = obj h p" "p < lim h'" using p(1) assms(3) by (auto simp: extends_def)
  with e p show ?thesis by (simp add: apart_def)
qed

end

section \<open>Hypervisor and Eviction\<close>

abbreviation hv_conditions_field :: "'q mHypervisor \<Rightarrow> slice option" where
  "hv_conditions_field x \<equiv> m_Conditions (m_Status x)"

definition hv_put_conditions :: "slice option \<Rightarrow> 'q mHypervisor \<Rightarrow> 'q mHypervisor" where
  "hv_put_conditions s x = x\<lparr>m_Status := (m_Status x)\<lparr>m_Conditions := s\<rparr>\<rparr>"

definition hv_with_conditions :: "condition list \<Rightarrow> TypeMeta \<times> Hypervisor \<Rightarrow> TypeMeta \<times> Hypervisor" where
  "hv_with_conditions cs v = (fst v, (snd v)\<lparr>hv_Status := (hv_Status (snd v))\<lparr>Conditions := cs\<rparr>\<rparr>)"

abbreviation ev_conditions_field :: "'q mEviction \<Rightarrow> slice option" where
  "ev_conditions_field x \<equiv> m_ev_Conditions (me_Status x)"

definition ev_put_conditions :: "slice option \<Rightarrow> 'q mEviction \<Rightarrow> 'q mEviction" where
  "ev_put_conditions s x = x\<lparr>me_Status := (me_Status x)\<lparr>m_ev_Conditions := s\<rparr>\<rparr>"

definition ev_with_conditions :: "condition list \<Rightarrow> TypeMeta \<times> Eviction \<Rightarrow> TypeMeta \<times> Eviction" where
  "ev_with_conditions cs v = (fst v, (snd v)\<lparr>ev_Status := (ev_Status (snd v))\<lparr>ev_Conditions := cs\<rparr>\<rparr>)"

lemma slice_None [simp]:
  "valid (slice_layout k E) h None" "view (slice_layout k E) h None = []" "foot (slice_layout k E) h None = {}"
  by (simp_all add: slice_sel elems_def)

lemma hypervisor_layout_ok: "copy_laws M \<Longrightarrow> layout_ok (hypervisor_layout M)"
  by (rule deep_copy.layout [OF Hypervisor_copied])

lemma eviction_layout_ok: "copy_laws M \<Longrightarrow> layout_ok (eviction_layout M)"
  by (rule deep_copy.layout [OF Eviction_copied])

interpretation hv_owner: conditions_owner "hypervisor_layout M" hypervisor_kind hv_conditions_field hv_put_conditions
    "\<lambda>v. hv_Conditions (snd v)" hv_with_conditions "copy_laws M" for M
  by (unfold_locales, erule hypervisor_layout_ok)
    (simp_all add: selector_kind hv_put_conditions_def hv_with_conditions_def hypervisor_layout_def status_layout_def
      struct_sel pair_sel conj_ac Un_ac)

interpretation ev_owner: conditions_owner "eviction_layout M" eviction_kind ev_conditions_field ev_put_conditions
    "\<lambda>v. ev_Conditions (ev_Status (snd v))" ev_with_conditions "copy_laws M" for M
  by (unfold_locales, erule eviction_layout_ok)
    (simp_all add: selector_kind ev_put_conditions_def ev_with_conditions_def eviction_layout_def eviction_status_layout_def
      struct_sel pair_sel conj_ac Un_ac)

section \<open>PatchHypervisorStatusWithRetry over memory\<close>

text \<open>
  What \<open>Get\<close> leaves at the address of the new struct: it stands for the response and shares nothing with
  what was there before.
\<close>

definition decoded ::
    "(('q, 'l) go_object, 'm, TypeMeta \<times> 'v) layout \<Rightarrow> (('q, 'l) go_object, 'm) kind \<Rightarrow> ('m \<Rightarrow> slice option)
     \<Rightarrow> (slice option \<Rightarrow> 'm \<Rightarrow> 'm) \<Rightarrow> 'v \<Rightarrow> ('q, 'l) memory \<Rightarrow> addr \<times> ('q, 'l) memory \<Rightarrow> bool" where
  "decoded T k getc putc v h r \<longleftrightarrow> extends h (snd r) \<and> lim h \<le> fst r \<and> apart T k getc putc (snd r) (fst r)
     \<and> snd (view T (snd r) (prj k (obj (snd r) (fst r)))) = v \<and> foot T (snd r) (prj k (obj (snd r) (fst r))) \<subseteq> {lim h..}"

abbreviation hv_at :: "('q, 'l) copy_lib \<Rightarrow> ('q, 'l) memory \<Rightarrow> addr \<Rightarrow> Hypervisor" where
  "hv_at M h p \<equiv> snd (view (hypervisor_layout M) h (the_Hypervisor (obj h p)))"

abbreviation ev_at :: "('q, 'l) copy_lib \<Rightarrow> ('q, 'l) memory \<Rightarrow> addr \<Rightarrow> Eviction" where
  "ev_at M h p \<equiv> snd (view (eviction_layout M) h (the_Eviction (obj h p)))"

definition mem_patch_hypervisor ::
    "('q, 'l) copy_lib \<Rightarrow> kube \<Rightarrow> (Hypervisor \<Rightarrow> ('q, 'l) memory \<Rightarrow> addr \<times> ('q, 'l) memory) \<Rightarrow> string \<Rightarrow> string
     \<Rightarrow> (addr \<Rightarrow> ('q, 'l) memory \<Rightarrow> ('q, 'l) memory) \<Rightarrow> ('q, 'l) memory \<Rightarrow> trace
     \<Rightarrow> (go_error option \<times> trace) \<times> ('q, 'l) memory" where
  "mem_patch_hypervisor M K decode name fieldOwner updateFn h tr =
     (case ask (k_get_Hypervisor K name) (Kube (GetHypervisor name)) tr of
        (Inl err, tr1) \<Rightarrow> ((Some err, tr1), h)
      | (Inr response, tr1) \<Rightarrow>
          (case decode response h of (hv, h1) \<Rightarrow>
             (case Hypervisor_DeepCopy M (Some hv) h1 of (base, h2) \<Rightarrow>
                let h3 = updateFn hv h2 in
                (ask (k_status_patch_Hypervisor K (hv_at M h3 (the base)) (hv_at M h3 hv))
                   (Kube (StatusPatchHypervisor (hv_at M h3 (the base)) (hv_at M h3 hv) fieldOwner)) tr1, h3))))"

text \<open>The pointers of the two kinds, and a copy of the object of a pointer.\<close>

lemma hypervisor_ptr_copied:
  "copy_laws M \<Longrightarrow> deep_copy (ptr_layout hypervisor_kind (hypervisor_layout M)) (Hypervisor_DeepCopy M)"
  unfolding Hypervisor_DeepCopy_def by (rule new_kind [OF Hypervisor_copied]) simp_all

lemma eviction_ptr_copied:
  "copy_laws M \<Longrightarrow> deep_copy (ptr_layout eviction_kind (eviction_layout M)) (Eviction_DeepCopy M)"
  unfolding Eviction_DeepCopy_def by (rule new_kind [OF Eviction_copied]) simp_all

text \<open>
  The base of a patch: a copy of the object at \<open>p\<close> still stands for what was there after any change to
  the object itself and to new memory.
\<close>

lemma base_kept:
  assumes D: "deep_copy (ptr_layout k T) copy" and p: "p < lim h" "valid T h (prj k (obj h p))"
    and c: "copy (Some p) h = (base, h1)" and w: "changes_in A h1 h2" "A \<subseteq> {..<lim h} \<union> {lim h1..}"
  obtains b where "base = Some b" "lim h \<le> b" "view T h2 (prj k (obj h2 b)) = view T h (prj k (obj h p))"
proof -
  have v: "valid (ptr_layout k T) h (Some p)" using p by (simp add: ptr_sel)
  have "view (ptr_layout k T) h2 base = view (ptr_layout k T) h (Some p)"
    using deep_copy.copy_kept [OF D v c w] by blast
  moreover have "foot (ptr_layout k T) h1 base \<subseteq> {lim h..<lim h1}" using deep_copy.copies [OF D v c] by blast
  ultimately show ?thesis using that by (auto simp: ptr_sel)
qed

text \<open>A copy is made, then a condition is set in place: the copy is the object as read, the object has the condition.\<close>

lemma copied_then_set:
  assumes M: "copy_laws M" and S: "setter_laws L S"
    and d: "decoded (hypervisor_layout M) hypervisor_kind hv_conditions_field hv_put_conditions v h (p, h1)"
    and b: "Hypervisor_DeepCopy M (Some p) h1 = (base, h2)"
    and h3: "h3 = set_in_place hypervisor_kind hv_conditions_field hv_put_conditions S c p h2"
  shows "hv_at M h2 p = v \<and> hv_at M h3 (the base) = v \<and> hv_at M h3 p = hv_set_condition L c v"
proof -
  from d have a1: "apart (hypervisor_layout M) hypervisor_kind hv_conditions_field hv_put_conditions h1 p"
    and v: "hv_at M h1 p = v" by (simp_all add: decoded_def)
  define F where "F = insert p (foot (hypervisor_layout M) h1 (the_Hypervisor (obj h1 p)))"
  from a1 have p: "p < lim h1" "valid (hypervisor_layout M) h1 (the_Hypervisor (obj h1 p))" by (simp_all add: apart_def)
  have e: "extends h1 h2" using deep_copy.copies [OF hypervisor_ptr_copied [OF M] _ b] p by (simp add: ptr_sel)
  from hv_owner.apart_extends [OF M a1 e] v have a2: "apart (hypervisor_layout M) hypervisor_kind hv_conditions_field hv_put_conditions h2 p"
    and v2: "hv_at M h2 p = v" and F2: "F = insert p (foot (hypervisor_layout M) h2 (the_Hypervisor (obj h2 p)))"
    by (simp_all add: F_def)
  from hv_owner.set_in_place_step [OF M S a2, of c] h3
  have n: "view (hypervisor_layout M) h3 (the_Hypervisor (obj h3 p)) = hv_with_conditions (setCondition L (hv_Conditions (hv_at M h2 p)) c)
      (view (hypervisor_layout M) h2 (the_Hypervisor (obj h2 p)))" and w: "changes_in F h2 h3"
    by (simp_all add: F2)
  have Fr: "F \<subseteq> {..<lim h1} \<union> {lim h2..}"
    using layout_foot [OF hypervisor_layout_ok [OF M] p(2)] p(1) by (auto simp: F_def)
  have pv: "valid (hypervisor_layout M) h1 (prj hypervisor_kind (obj h1 p))" using p(2) by simp
  obtain b' where "base = Some b'"
    "view (hypervisor_layout M) h3 (prj hypervisor_kind (obj h3 b')) = view (hypervisor_layout M) h1 (prj hypervisor_kind (obj h1 p))"
    using base_kept [OF hypervisor_ptr_copied [OF M] p(1) pv b w Fr] by blast
  with n v v2 show ?thesis by (simp add: hv_with_conditions_def hv_set_condition_def)
qed

text \<open>
  The passes of the ready and the taint controller copy the object they read, set their condition in it and
  compare the two.
\<close>

definition mem_Ready_Reconcile ::
    "('q, 'l) copy_lib \<Rightarrow> lib \<Rightarrow> kube \<Rightarrow> ('q, 'l) condition_setter \<Rightarrow> (Hypervisor \<Rightarrow> ('q, 'l) memory \<Rightarrow> addr \<times> ('q, 'l) memory)
     \<Rightarrow> string \<Rightarrow> ('q, 'l) memory \<Rightarrow> trace \<Rightarrow> reconcile_result \<times> trace" where
  "mem_Ready_Reconcile M L K S decode name h tr =
     (case ask (k_get_Hypervisor K name) (Kube (GetHypervisor name)) tr of
        (Inl err, tr1) \<Rightarrow> ((no_requeue, IgnoreNotFound L err), tr1)
      | (Inr response, tr1) \<Rightarrow>
          (case decode response h of (hv, h1) \<Rightarrow>
             (case Hypervisor_DeepCopy M (Some hv) h1 of (base, h2) \<Rightarrow>
                let readyCondition = ComputeReadyCondition L (hv_at M h2 hv);
                    h3 = set_in_place hypervisor_kind hv_conditions_field hv_put_conditions S readyCondition hv h2 in
                if DeepEqual_Status L (hv_Status (hv_at M h3 hv)) (hv_Status (hv_at M h3 (the base))) then (reconcile_ok, tr1)
                else (case PatchHypervisorStatusWithRetry L K name ReadyControllerName (hv_set_condition L readyCondition) tr1 of
                        (err, tr2) \<Rightarrow> ((no_requeue, err), tr2)))))"

definition mem_Taint_Reconcile ::
    "('q, 'l) copy_lib \<Rightarrow> lib \<Rightarrow> kube \<Rightarrow> ('q, 'l) condition_setter \<Rightarrow> (Hypervisor \<Rightarrow> ('q, 'l) memory \<Rightarrow> addr \<times> ('q, 'l) memory)
     \<Rightarrow> string \<Rightarrow> ('q, 'l) memory \<Rightarrow> trace \<Rightarrow> reconcile_result \<times> trace" where
  "mem_Taint_Reconcile M L K S decode name h tr =
     (case ask (k_get_Hypervisor K name) (Kube (GetHypervisor name)) tr of
        (Inl err, tr1) \<Rightarrow> ((no_requeue, IgnoreNotFound L err), tr1)
      | (Inr response, tr1) \<Rightarrow>
          (case decode response h of (hypervisor, h1) \<Rightarrow>
             (case Hypervisor_DeepCopy M (Some hypervisor) h1 of (before, h2) \<Rightarrow>
                let h3 = set_in_place hypervisor_kind hv_conditions_field hv_put_conditions S
                      (tainted_condition (hv_at M h2 hypervisor)) hypervisor h2 in
                if DeepEqual_Hypervisor L (hv_at M h3 hypervisor) (hv_at M h3 (the before)) then (reconcile_ok, tr1)
                else
                  (let taintedCondition = FindStatusCondition L (hv_Conditions (hv_at M h3 hypervisor)) ConditionTypeTainted in
                   case PatchHypervisorStatusWithRetry L K (hv_Name (hv_at M h3 hypervisor)) HypervisorTaintControllerName
                          (\<lambda>h. case taintedCondition of None \<Rightarrow> h | Some c \<Rightarrow> hv_set_condition L c h) tr1 of
                     (err, tr2) \<Rightarrow> ((no_requeue, err), tr2)))))"

text \<open>
  C13. Where a condition of a hypervisor is set in place after a copy was made, the value models make the calls of the
  code. In the closure of \<open>PatchHypervisorStatusWithRetry\<close> with \<open>meta.SetStatusCondition\<close> as its update, the base of
  the patch is the object as it was read, although the update writes into the array of conditions that was read, and
  the patched object is the read one with the condition set; and the ready and the taint controller compare the
  status they computed with the one they read, not with itself.
\<close>

theorem status_patch_over_memory:
  assumes M: "copy_laws M" and S: "setter_laws L S"
    and dec: "\<And>v. k_get_Hypervisor K name tr = Inr v \<Longrightarrow>
      decoded (hypervisor_layout M) hypervisor_kind hv_conditions_field hv_put_conditions v h (decode v h)"
  shows "fst (mem_patch_hypervisor M K decode name fieldOwner
        (set_in_place hypervisor_kind hv_conditions_field hv_put_conditions S c) h tr)
      = patch_hypervisor_attempt K name fieldOwner (hv_set_condition L c) tr
    \<and> mem_Ready_Reconcile M L K S decode name h tr = Ready_Reconcile L K name tr
    \<and> mem_Taint_Reconcile M L K S decode name h tr = Taint_Reconcile L K name tr"
proof (cases "k_get_Hypervisor K name tr")
  case (Inl e)
  then show ?thesis
    by (simp add: mem_patch_hypervisor_def patch_hypervisor_attempt_def mem_Ready_Reconcile_def Ready_Reconcile_def
        mem_Taint_Reconcile_def Taint_Reconcile_def ask_def)
next
  case (Inr v)
  obtain hv h1 where r: "decode v h = (hv, h1)" by fastforce
  obtain base h2 where b: "Hypervisor_DeepCopy M (Some hv) h1 = (base, h2)" by fastforce
  have d: "decoded (hypervisor_layout M) hypervisor_kind hv_conditions_field hv_put_conditions v h (hv, h1)"
    using dec [OF Inr] r by simp
  have v: "hv_at M h2 hv = v" using copied_then_set [OF M S d b refl] by blast
  have "hv_at M (set_in_place hypervisor_kind hv_conditions_field hv_put_conditions S c hv h2) (the base) = v"
    and "hv_at M (set_in_place hypervisor_kind hv_conditions_field hv_put_conditions S c hv h2) hv = hv_set_condition L c v" for c
    using copied_then_set [OF M S d b refl] by blast+
  with Inr r b v show ?thesis
    by (simp add: mem_patch_hypervisor_def patch_hypervisor_attempt_def mem_Ready_Reconcile_def Ready_Reconcile_def
        mem_Taint_Reconcile_def Taint_Reconcile_def ask_def Let_def)
qed

section \<open>updateStatus over memory\<close>

text \<open>
  The closure of \<open>updateStatus\<close>. The desired status is in memory, at \<open>pd\<close>; its array of instances becomes the
  array of the fresh object too, its conditions are copied one by one.
\<close>

definition take_over :: "mEvictionStatus \<Rightarrow> 'q mEviction \<Rightarrow> 'q mEviction" where
  "take_over d x = x\<lparr>me_Status := (me_Status x)\<lparr>
     m_OutstandingInstances := m_OutstandingInstances d,
     own_EvictionStatus := (own_EvictionStatus (me_Status x))\<lparr>
       OutstandingRamMb := OutstandingRamMb (own_EvictionStatus d),
       HypervisorServiceId := HypervisorServiceId (own_EvictionStatus d)\<rparr>\<rparr>\<rparr>"

definition mem_update_attempt ::
    "('q, 'l) copy_lib \<Rightarrow> kube \<Rightarrow> ('q, 'l) condition_setter \<Rightarrow> (Eviction \<Rightarrow> ('q, 'l) memory \<Rightarrow> addr \<times> ('q, 'l) memory) \<Rightarrow> string
     \<Rightarrow> addr \<Rightarrow> ('q, 'l) memory \<Rightarrow> trace \<Rightarrow> (go_error option \<times> trace) \<times> ('q, 'l) memory" where
  "mem_update_attempt M K S decode name pd h tr =
     (case ask (k_get_Eviction K name) (Kube (GetEviction name)) tr of
        (Inl err, tr1) \<Rightarrow> ((Some err, tr1), h)
      | (Inr response, tr1) \<Rightarrow>
          (case decode response h of (fresh, h1) \<Rightarrow>
             (case Eviction_DeepCopy M (Some fresh) h1 of (freshBase, h2) \<Rightarrow>
                let h3 = set_range eviction_kind ev_conditions_field ev_put_conditions S
                           (m_ev_Conditions (the_EvictionStatus (obj h2 pd))) fresh h2;
                    h4 = store fresh (EvictionObj (take_over (the_EvictionStatus (obj h3 pd)) (the_Eviction (obj h3 fresh)))) h3 in
                (ask (k_status_patch_Eviction K (ev_at M h4 (the freshBase)) (ev_at M h4 fresh))
                   (Kube (StatusPatchEviction (ev_at M h4 (the freshBase)) (ev_at M h4 fresh) EvictionControllerName)) tr1, h4))))"

abbreviation desired_at :: "('q, 'l) memory \<Rightarrow> addr \<Rightarrow> EvictionStatus" where
  "desired_at h pd \<equiv> view eviction_status_layout h (the_EvictionStatus (obj h pd))"

lemma eviction_status_ok: "layout_ok (eviction_status_layout :: (('q, 'l) go_object, mEvictionStatus, EvictionStatus) layout)"
  unfolding eviction_status_layout_def by (rule struct_ok [OF pair_ok [OF slice_ok [OF flat_ok] slice_ok [OF flat_ok]]])

lemma eviction_status_sel:
  "valid eviction_status_layout h x \<longleftrightarrow> valid strings_layout h (m_OutstandingInstances x) \<and> valid conditions_layout h (m_ev_Conditions x)"
  "view eviction_status_layout h x = (own_EvictionStatus x)\<lparr>OutstandingInstances := view strings_layout h (m_OutstandingInstances x),
     ev_Conditions := view conditions_layout h (m_ev_Conditions x)\<rparr>"
  "foot eviction_status_layout h x = foot strings_layout h (m_OutstandingInstances x) \<union> foot conditions_layout h (m_ev_Conditions x)"
  by (simp_all add: eviction_status_layout_def struct_sel pair_sel)

lemma eviction_view:
  "view (eviction_layout M) h x = (me_TypeMeta x, \<lparr>ev_Meta = view (meta_layout M) h (me_ObjectMeta x), ev_Spec = me_Spec x,
     ev_Status = view eviction_status_layout h (me_Status x)\<rparr>)"
  "valid (eviction_layout M) h x \<longleftrightarrow> valid (meta_layout M) h (me_ObjectMeta x) \<and> valid eviction_status_layout h (me_Status x)"
  "foot (eviction_layout M) h x = foot (meta_layout M) h (me_ObjectMeta x) \<union> foot eviction_status_layout h (me_Status x)"
  by (simp_all add: eviction_layout_def struct_sel pair_sel)

text \<open>The last three assignments of the closure.\<close>

lemma take_over_view:
  assumes M: "copy_laws M" and a: "p < lim h" "valid (eviction_layout M) h (the_Eviction (obj h p))"
      "p \<notin> foot (eviction_layout M) h (the_Eviction (obj h p))"
    and d: "valid eviction_status_layout h d" "p \<notin> foot eviction_status_layout h d"
    and h': "h' = store p (EvictionObj (take_over d (the_Eviction (obj h p)))) h"
  shows "ev_at M h' p = (ev_at M h p)\<lparr>ev_Status := (ev_Status (ev_at M h p))\<lparr>
      OutstandingInstances := OutstandingInstances (view eviction_status_layout h d),
      OutstandingRamMb := OutstandingRamMb (view eviction_status_layout h d),
      HypervisorServiceId := HypervisorServiceId (view eviction_status_layout h d)\<rparr>\<rparr>"
proof -
  let ?x = "the_Eviction (obj h p)"
  have st: "changes_in {p} h h'" by (auto simp: changes_in_def h')
  have ml: "layout_ok (meta_layout M)" by (rule deep_copy.layout [OF copy_laws_meta(1) [OF M]])
  from a have v: "valid (meta_layout M) h (me_ObjectMeta ?x)" "valid conditions_layout h (m_ev_Conditions (me_Status ?x))"
    and n: "p \<notin> foot (meta_layout M) h (me_ObjectMeta ?x)" "p \<notin> foot conditions_layout h (m_ev_Conditions (me_Status ?x))"
    by (simp_all add: eviction_view eviction_status_sel)
  from d have s: "valid strings_layout h (m_OutstandingInstances d)" "p \<notin> foot strings_layout h (m_OutstandingInstances d)"
    by (simp_all add: eviction_status_sel)
  have "view (meta_layout M) h' (me_ObjectMeta ?x) = view (meta_layout M) h (me_ObjectMeta ?x)"
    using layout_frame [OF ml v(1) st] n(1) by simp
  moreover have "view conditions_layout h' (m_ev_Conditions (me_Status ?x)) = view conditions_layout h (m_ev_Conditions (me_Status ?x))"
    using layout_frame [OF slice_ok [OF flat_ok] v(2) st] n(2) by simp
  moreover have "view strings_layout h' (m_OutstandingInstances d) = view strings_layout h (m_OutstandingInstances d)"
    using layout_frame [OF slice_ok [OF flat_ok] s(1) st] s(2) by simp
  moreover have "the_Eviction (obj h' p) = take_over d ?x" by (simp add: h')
  ultimately show ?thesis by (simp add: eviction_view eviction_status_sel take_over_def)
qed

text \<open>The writes of the closure: they stay in the fresh object, and make the merged status.\<close>

lemma desired_kept:
  assumes "extends h h2" "changes_in F h2 h'" "F \<subseteq> {lim h..}" "pd < lim h" "valid eviction_status_layout h d"
  shows "valid eviction_status_layout h' d \<and> view eviction_status_layout h' d = view eviction_status_layout h d
    \<and> foot eviction_status_layout h' d = foot eviction_status_layout h d \<and> obj h' pd = obj h pd"
proof -
  have "changes_in {} h h'" by (rule changes_in_trans [OF extends_changes [OF assms(1)] assms(2)]) (use assms(3) in auto)
  with layout_frame [OF eviction_status_ok assms(5)] assms(4) show ?thesis by (auto simp: changes_in_def)
qed

lemma merged_in_memory:
  assumes M: "copy_laws M" and S: "setter_laws L S"
    and a: "apart (eviction_layout M) eviction_kind ev_conditions_field ev_put_conditions h p"
    and F: "F = insert p (foot (eviction_layout M) h (the_Eviction (obj h p)))"
    and d: "valid eviction_status_layout h d" "foot eviction_status_layout h d \<inter> F = {}"
    and h3: "h3 = set_range eviction_kind ev_conditions_field ev_put_conditions S (m_ev_Conditions d) p h"
    and h4: "h4 = store p (EvictionObj (take_over d (the_Eviction (obj h3 p)))) h3"
  shows "changes_in F h h3 \<and> changes_in F h h4
    \<and> ev_at M h4 p = (ev_at M h p)\<lparr>ev_Status := merge_status L (view eviction_status_layout h d) (ev_Status (ev_at M h p))\<rparr>"
proof -
  let ?cs = "elems conditions_kind h (m_ev_Conditions d)"
  have cs: "valid conditions_layout h (m_ev_Conditions d)"
    "foot conditions_layout h (m_ev_Conditions d) \<inter> insert p (foot (eviction_layout M) h (prj eviction_kind (obj h p))) = {}"
    using d F unfolding eviction_status_sel kind.select_convs by blast+
  have cv: "?cs = ev_Conditions (view eviction_status_layout h d)" by (simp add: eviction_status_sel slice_sel map_idI)
  from ev_owner.set_range_steps [OF M S a cs order_refl, of h3] h3
  have n: "apart (eviction_layout M) eviction_kind ev_conditions_field ev_put_conditions h3 p"
    and v: "view (eviction_layout M) h3 (the_Eviction (obj h3 p)) = ev_with_conditions
      (foldl (setCondition L) (ev_Conditions (ev_Status (ev_at M h p))) ?cs) (view (eviction_layout M) h (the_Eviction (obj h p)))"
    and w: "changes_in F h h3"
    by (simp_all add: set_range_def F)
  have w4: "changes_in F h h4" by (rule changes_in_trans [OF w, of "{p}"]) (auto simp: changes_in_def h4 F)
  have d3: "valid eviction_status_layout h3 d \<and> view eviction_status_layout h3 d = view eviction_status_layout h d
      \<and> foot eviction_status_layout h3 d = foot eviction_status_layout h d"
    by (rule layout_frame [OF eviction_status_ok d(1) w d(2)])
  then have "p \<notin> foot eviction_status_layout h3 d" using d(2) F by auto
  with n d3 take_over_view [OF M _ _ _ _ _ h4] v cv
  have "ev_at M h4 p = (ev_at M h p)\<lparr>ev_Status := merge_status L (view eviction_status_layout h d) (ev_Status (ev_at M h p))\<rparr>"
    by (simp add: apart_def ev_with_conditions_def merge_status_def)
  with w w4 show ?thesis by simp
qed

text \<open>The copy and the writes together.\<close>

lemma copied_then_merged:
  assumes M: "copy_laws M" and S: "setter_laws L S"
    and dec: "decoded (eviction_layout M) eviction_kind ev_conditions_field ev_put_conditions v h (p, h1)"
    and b: "Eviction_DeepCopy M (Some p) h1 = (base, h2)"
    and d: "pd < lim h" "valid eviction_status_layout h d"
    and h3: "h3 = set_range eviction_kind ev_conditions_field ev_put_conditions S (m_ev_Conditions d) p h2"
    and h4: "h4 = store p (EvictionObj (take_over d (the_Eviction (obj h3 p)))) h3"
  shows "obj h2 pd = obj h pd \<and> obj h3 pd = obj h pd \<and> obj h4 pd = obj h pd
    \<and> valid eviction_status_layout h4 d \<and> view eviction_status_layout h4 d = view eviction_status_layout h d
    \<and> ev_at M h4 (the base) = v
    \<and> ev_at M h4 p = v\<lparr>ev_Status := merge_status L (view eviction_status_layout h d) (ev_Status v)\<rparr>"
proof -
  from dec have a1: "apart (eviction_layout M) eviction_kind ev_conditions_field ev_put_conditions h1 p"
    and v: "ev_at M h1 p = v" and e1: "extends h h1" "lim h \<le> p" "foot (eviction_layout M) h1 (the_Eviction (obj h1 p)) \<subseteq> {lim h..}"
    by (simp_all add: decoded_def)
  define F where "F = insert p (foot (eviction_layout M) h1 (the_Eviction (obj h1 p)))"
  from a1 have p: "p < lim h1" "valid (eviction_layout M) h1 (prj eviction_kind (obj h1 p))" by (simp_all add: apart_def)
  have F: "F \<subseteq> {lim h..}" "F \<subseteq> {..<lim h1} \<union> {lim h2..}"
    using layout_foot [OF eviction_layout_ok [OF M] p(2)] p(1) e1(2,3) by (auto simp: F_def)
  have e2: "extends h1 h2" using deep_copy.copies [OF eviction_ptr_copied [OF M] _ b] p by (simp add: ptr_sel)
  have e: "extends h h2" by (rule extends_trans [OF e1(1) e2])
  from ev_owner.apart_extends [OF M a1 e2] v
  have a2: "apart (eviction_layout M) eviction_kind ev_conditions_field ev_put_conditions h2 p" and v2: "ev_at M h2 p = v"
    and F2: "F = insert p (foot (eviction_layout M) h2 (the_Eviction (obj h2 p)))" by (simp_all add: F_def)
  note keep = desired_kept [OF e _ F(1) d]
  have "foot eviction_status_layout h d \<inter> F = {}" using layout_foot [OF eviction_status_ok d(2)] F(1) by fastforce
  with keep [of h2] have d2: "valid eviction_status_layout h2 d" "foot eviction_status_layout h2 d \<inter> F = {}"
    "view eviction_status_layout h2 d = view eviction_status_layout h d" "obj h2 pd = obj h pd" by (simp_all add: changes_in_def)
  from merged_in_memory [OF M S a2 F2 d2(1,2) h3 h4] v2 d2(3)
  have w: "changes_in F h2 h3" "changes_in F h2 h4"
    and new: "ev_at M h4 p = v\<lparr>ev_Status := merge_status L (view eviction_status_layout h d) (ev_Status v)\<rparr>" by simp_all
  obtain b' where "base = Some b'"
    "view (eviction_layout M) h4 (prj eviction_kind (obj h4 b')) = view (eviction_layout M) h1 (prj eviction_kind (obj h1 p))"
    using base_kept [OF eviction_ptr_copied [OF M] p b w(2) F(2)] by blast
  with v have "ev_at M h4 (the base) = v" by simp
  with new d2(4) keep [OF w(1)] keep [OF w(2)] show ?thesis by blast
qed

text \<open>
  C14. One attempt of the eviction's \<open>updateStatus\<close> over memory makes the calls of the value model: the base
  is the eviction as it was read, and the patched object has the desired conditions set on the read
  ones and the desired instances, memory and service id. The attempt leaves the desired status as it
  was, although the patched object shares its array of instances, so the next attempt of the retry
  sees the same.
\<close>

theorem eviction_update_over_memory:
  assumes M: "copy_laws M" and S: "setter_laws L S"
    and dec: "\<And>v. k_get_Eviction K name tr = Inr v \<Longrightarrow>
      decoded (eviction_layout M) eviction_kind ev_conditions_field ev_put_conditions v h (decode v h)"
    and d: "pd < lim h" "valid eviction_status_layout h (the_EvictionStatus (obj h pd))"
  shows "fst (mem_update_attempt M K S decode name pd h tr) = update_attempt L K name (desired_at h pd) tr
    \<and> desired_at (snd (mem_update_attempt M K S decode name pd h tr)) pd = desired_at h pd
    \<and> valid eviction_status_layout (snd (mem_update_attempt M K S decode name pd h tr))
        (the_EvictionStatus (obj (snd (mem_update_attempt M K S decode name pd h tr)) pd))"
proof (cases "k_get_Eviction K name tr")
  case (Inl e)
  with d show ?thesis by (simp add: mem_update_attempt_def update_attempt_def ask_def)
next
  case (Inr v)
  let ?d = "the_EvictionStatus (obj h pd)"
  obtain p h1 where r: "decode v h = (p, h1)" by fastforce
  obtain base h2 where b: "Eviction_DeepCopy M (Some p) h1 = (base, h2)" by fastforce
  define h3 where "h3 = set_range eviction_kind ev_conditions_field ev_put_conditions S (m_ev_Conditions ?d) p h2"
  define h4 where "h4 = store p (EvictionObj (take_over ?d (the_Eviction (obj h3 p)))) h3"
  have "decoded (eviction_layout M) eviction_kind ev_conditions_field ev_put_conditions v h (p, h1)"
    using dec [OF Inr] r by simp
  note c = copied_then_merged [OF M S this b d h3_def h4_def]
  have "mem_update_attempt M K S decode name pd h tr = (update_attempt L K name (desired_at h pd) tr, h4)"
    using Inr r b c by (simp add: mem_update_attempt_def update_attempt_def ask_def Let_def h3_def [symmetric] h4_def [symmetric] del: store_sel)
  with c show ?thesis by simp
qed

section \<open>What a deep copy of a hypervisor is\<close>

abbreviation hypervisor_pointer :: "('q, 'l) copy_lib \<Rightarrow> (('q, 'l) go_object, addr option, (TypeMeta \<times> Hypervisor) option) layout" where
  "hypervisor_pointer M \<equiv> ptr_layout hypervisor_kind (hypervisor_layout M)"

lemma same_pointer: "view (ptr_layout k E) h c = view (ptr_layout k E) h' p \<Longrightarrow> c = None \<longleftrightarrow> p = None"
  by (cases c; cases p) (simp_all add: ptr_sel)

text \<open>The contract on the types without fields of apimachinery.\<close>

interpretation group_copy: deep_copy group_layout Group_DeepCopyInto by (rule Group_copied)

interpretation spec_copy: deep_copy spec_layout HypervisorSpec_DeepCopyInto by (rule HypervisorSpec_copied)

text \<open>
  C36. \<open>Hypervisor.DeepCopy\<close> is deep. The copy stands for the same hypervisor, a copy of \<open>nil\<close> is \<open>nil\<close>; whatever is
  written afterwards into objects that were there before, the original among them, or that are made later does not
  change what the copy stands for; and what is written into the copy does not change the original.
\<close>

theorem hypervisor_deep_copy:
  assumes M: "copy_laws M" and p: "valid (hypervisor_pointer M) h p" and c: "Hypervisor_DeepCopy M p h = (c, h1)"
    and old: "changes_in ({..<lim h} \<union> {lim h1..}) h1 h2" and new: "changes_in (foot (hypervisor_pointer M) h1 c) h1 h3"
  shows "view (hypervisor_pointer M) h2 c = view (hypervisor_pointer M) h p
    \<and> view (hypervisor_pointer M) h3 p = view (hypervisor_pointer M) h p \<and> (c = None \<longleftrightarrow> p = None)"
proof -
  note D = hypervisor_ptr_copied [OF M]
  have v: "view (hypervisor_pointer M) h2 c = view (hypervisor_pointer M) h p"
    using deep_copy.copy_kept [OF D p c old] by blast
  moreover have "view (hypervisor_pointer M) h3 p = view (hypervisor_pointer M) h p"
    using deep_copy.others_kept [OF D p c new deep_copy.layout [OF D] p] by blast
  ultimately show ?thesis using same_pointer [OF v] by blast
qed

section \<open>A sample memory\<close>

text \<open>
  Objects whose labels are a map in memory, copies of apimachinery that copy them, and a
  \<open>meta.SetStatusCondition\<close> that writes into the array when it is long enough, as Go's \<open>append\<close> and index
  assignment do.
\<close>

definition labelled_layout :: "(('q, 'l) go_object, ObjectMeta \<times> addr option, ObjectMeta) layout" where
  "labelled_layout = struct_layout snd (\<lambda>x l. (fst x)\<lparr>Labels := l\<rparr>) (map_layout string_map_kind)"

definition sample_copies :: "(ObjectMeta \<times> addr option, ListMeta) copy_lib" where
  "sample_copies = \<lparr>meta_layout = labelled_layout, meta_zero = (empty_meta [], None),
     meta_DeepCopyInto = (\<lambda>x h. case copy_map string_map_kind (\<lambda>v. v) (snd x) h of (l, h1) \<Rightarrow> ((fst x, l), h1)),
     list_layout = flat_layout, list_zero = \<lparr>lm_ResourceVersion = [], lm_Continue = [], lm_RemainingItemCount = None\<rparr>,
     list_DeepCopyInto = (\<lambda>x h. (x, h)),
     condition_DeepCopyInto = (\<lambda>c. c), time_DeepCopyInto = (\<lambda>t. t), quantity_DeepCopy = (\<lambda>q. q)\<rparr>"

definition sample_setter :: "lib \<Rightarrow> ('q, 'l) condition_setter" where
  "sample_setter L s c h =
     (let xs = elems conditions_kind h s; ys = setCondition L xs c in
      case (if length ys = length xs then s else None) of
        Some w \<Rightarrow> (let a = the_ConditionArray (obj h (arr w)) in
           (s, store (arr w) (ConditionArray (take (off w) a @ ys @ drop (off w + len w) a)) h))
      | None \<Rightarrow> (case alloc (ConditionArray ys) h of (a, h1) \<Rightarrow> (Some \<lparr>arr = a, off = 0, len = length ys\<rparr>, h1)))"

lemma sample_copies_laws: "copy_laws sample_copies"
  unfolding copy_laws_def
proof (intro conjI allI)
  show "deep_copy (meta_layout sample_copies) (meta_DeepCopyInto sample_copies)"
    unfolding sample_copies_def labelled_layout_def copy_lib.select_convs
    by (rule deep_copy_struct [OF deep_copy_map [OF selector_kind], where put = "\<lambda>l x. (fst x, l)"]) simp_all
qed (simp_all add: sample_copies_def deep_copy_same)

lemma sample_setter_laws: "setter_laws L (sample_setter L)"
  unfolding setter_laws_def
proof (intro allI impI)
  fix h :: "('q, 'l) memory" and s c s' h'
  assume v: "valid conditions_layout h s" and S: "sample_setter L s c h = (s', h')"
  let ?ys = "setCondition L (elems conditions_kind h s) c"
  show "valid conditions_layout h' s' \<and> view conditions_layout h' s' = setCondition L (view conditions_layout h s) c
     \<and> foot conditions_layout h' s' \<subseteq> foot conditions_layout h s \<union> {lim h..} \<and> changes_in (foot conditions_layout h s) h h'"
  proof (cases "if length ?ys = length (elems conditions_kind h s) then s else None")
    case None
    then show ?thesis using S by (auto simp: sample_setter_def slice_sel elems_def changes_in_def Let_def alloc_def map_idI)
  next
    case (Some w)
    then have w: "s = Some w" "length ?ys = length (elems conditions_kind h s)" by (auto split: if_splits)
    then show ?thesis using S Some v length_elems [of conditions_kind flat_layout h w]
      by (auto simp: sample_setter_def slice_sel elems_def changes_in_def Let_def map_idI)
  qed
qed

definition decode_Hypervisor :: "Hypervisor \<Rightarrow> (ObjectMeta \<times> addr option, 'l) memory \<Rightarrow> addr \<times> (ObjectMeta \<times> addr option, 'l) memory" where
  "decode_Hypervisor v h = (case alloc (ConditionArray (hv_Conditions v)) h of (a, h1) \<Rightarrow>
     alloc (HypervisorObj \<lparr>m_TypeMeta = zero_type_meta, m_ObjectMeta = (Meta v, None), m_Spec = zero_mSpec,
       m_Status = zero_mStatus\<lparr>m_Conditions := Some \<lparr>arr = a, off = 0, len = length (hv_Conditions v)\<rparr>\<rparr>\<rparr>) h1)"

definition decode_Eviction :: "Eviction \<Rightarrow> (ObjectMeta \<times> addr option, 'l) memory \<Rightarrow> addr \<times> (ObjectMeta \<times> addr option, 'l) memory" where
  "decode_Eviction v h = (case alloc (ConditionArray (ev_Conditions (ev_Status v))) h of (a, h1) \<Rightarrow>
     alloc (EvictionObj \<lparr>me_TypeMeta = zero_type_meta, me_ObjectMeta = (ev_Meta v, None), me_Spec = ev_Spec v,
       me_Status = \<lparr>own_EvictionStatus = ev_Status v, m_OutstandingInstances = None,
         m_ev_Conditions = Some \<lparr>arr = a, off = 0, len = length (ev_Conditions (ev_Status v))\<rparr>\<rparr>\<rparr>) h1)"

text \<open>They decode objects without labels and lists other than the conditions.\<close>

lemmas layout_sels = struct_sel pair_sel slice_sel map_sel hypervisor_layout_def status_layout_def spec_layout_def os_layout_def
  domain_layout_def labelled_layout_def zero_mSpec_def zero_mStatus_def zero_mOS_def zero_mDomain_def zero_domain_def
  zero_spec_def zero_status_def zero_os_def

lemma decode_Hypervisor_ok:
  assumes "Labels m = Map.empty"
  shows "decoded (hypervisor_layout sample_copies) hypervisor_kind hv_conditions_field hv_put_conditions
    \<lparr>Meta = m, Spec = zero_spec, hv_Status = zero_status\<lparr>Conditions := cs\<rparr>\<rparr> h
    (decode_Hypervisor \<lparr>Meta = m, Spec = zero_spec, hv_Status = zero_status\<lparr>Conditions := cs\<rparr>\<rparr> h)"
  using assms
  by (simp add: decoded_def decode_Hypervisor_def apart_def alloc_def extends_def hv_put_conditions_def sample_copies_def
      layout_sels elems_def map_idI)

lemma decode_Eviction_ok:
  assumes "Labels m = Map.empty"
  shows "decoded (eviction_layout sample_copies) eviction_kind ev_conditions_field ev_put_conditions
    \<lparr>ev_Meta = m, ev_Spec = s, ev_Status = \<lparr>HypervisorServiceId = i, OutstandingRamMb = r, OutstandingInstances = [], ev_Conditions = cs\<rparr>\<rparr> h
    (decode_Eviction \<lparr>ev_Meta = m, ev_Spec = s, ev_Status = \<lparr>HypervisorServiceId = i, OutstandingRamMb = r, OutstandingInstances = [], ev_Conditions = cs\<rparr>\<rparr> h)"
  using assms
  by (simp add: decoded_def decode_Eviction_def apart_def alloc_def extends_def ev_put_conditions_def sample_copies_def
      eviction_view eviction_status_sel labelled_layout_def struct_sel slice_sel map_sel elems_def map_idI)

abbreviation sample_hv :: Hypervisor where
  "sample_hv \<equiv> \<lparr>Meta = empty_meta ''h'', Spec = zero_spec, hv_Status = zero_status\<lparr>Conditions :=
     [mk_condition ConditionTypeReady ConditionFalse ''Onboarding'' ''busy'', mk_condition ConditionTypeTainted ConditionTrue ''Taint'' []]\<rparr>\<rparr>"

abbreviation ready_now :: condition where
  "ready_now \<equiv> mk_condition ConditionTypeReady ConditionTrue ConditionReasonReadyReady ''ready''"

abbreviation nothing_stored :: "('q, 'l) memory" where
  "nothing_stored \<equiv> \<lparr>lim = 0, obj = \<lambda>_. Strings []\<rparr>"

theorem hypervisor_deep_copy_witness:
  "let h = snd (decode_Hypervisor sample_hv nothing_stored);
       r = Hypervisor_DeepCopy sample_copies (Some 1) h;
       h2 = store 0 (ConditionArray [ready_now, ready_now]) (snd r) in
   view (hypervisor_pointer sample_copies) h2 (fst r) = Some (zero_type_meta, sample_hv)
   \<and> view (hypervisor_pointer sample_copies) h2 (Some 1) = Some (zero_type_meta, sample_hv\<lparr>hv_Status := zero_status\<lparr>Conditions := [ready_now, ready_now]\<rparr>\<rparr>)"
proof -
  define h :: "(ObjectMeta \<times> addr option, ListMeta) memory" where "h = snd (decode_Hypervisor sample_hv nothing_stored)"
  obtain c h1 where c: "Hypervisor_DeepCopy sample_copies (Some 1) h = (c, h1)" by fastforce
  define h2 where "h2 = store 0 (ConditionArray [ready_now, ready_now]) h1"
  have x: "lim h = 2" by (simp add: h_def decode_Hypervisor_def alloc_def)
  have d: "decode_Hypervisor sample_hv nothing_stored = (1, h)" by (simp add: h_def decode_Hypervisor_def alloc_def)
  have "decoded (hypervisor_layout sample_copies) hypervisor_kind hv_conditions_field hv_put_conditions sample_hv nothing_stored (1, h)"
    unfolding d [symmetric] by (rule decode_Hypervisor_ok) (simp add: empty_meta_def)
  then have p: "valid (hypervisor_pointer sample_copies) h (Some 1)" by (simp add: decoded_def apart_def ptr_sel)
  have "changes_in ({..<lim h} \<union> {lim h1..}) h1 h2" by (simp add: changes_in_def x h2_def)
  moreover have "changes_in (foot (hypervisor_pointer sample_copies) h1 c) h1 h1" by (simp add: changes_in_def)
  ultimately have 1: "view (hypervisor_pointer sample_copies) h2 c = view (hypervisor_pointer sample_copies) h (Some 1)"
    using hypervisor_deep_copy [OF sample_copies_laws p c] by blast
  have "extends h h1" using deep_copy.copies [OF hypervisor_ptr_copied [OF sample_copies_laws] p c] by blast
  then have "obj h2 1 = obj h 1" "obj h2 0 = ConditionArray [ready_now, ready_now]" by (simp_all add: extends_def x h2_def)
  then have 2: "view (hypervisor_pointer sample_copies) h2 (Some 1) = Some (zero_type_meta, sample_hv\<lparr>hv_Status := zero_status\<lparr>Conditions := [ready_now, ready_now]\<rparr>\<rparr>)"
    by (simp add: ptr_sel h_def decode_Hypervisor_def alloc_def sample_copies_def layout_sels elems_def map_idI empty_meta_def)
  have "view (hypervisor_pointer sample_copies) h (Some 1) = Some (zero_type_meta, sample_hv)"
    by (simp add: ptr_sel h_def decode_Hypervisor_def alloc_def sample_copies_def layout_sels elems_def map_idI empty_meta_def)
  with 1 2 show ?thesis by (simp add: h_def [symmetric] c h2_def [symmetric] Let_def del: One_nat_def)
qed

theorem status_patch_over_memory_witness:
  "fst (mem_patch_hypervisor sample_copies (sample_kube sample_hv (empty_eviction ''e'') (empty_node ''n'')) decode_Hypervisor ''h'' ''op''
      (set_in_place hypervisor_kind hv_conditions_field hv_put_conditions (sample_setter list_lib) ready_now) nothing_stored [])
   = (None, [Kube (GetHypervisor ''h''), Kube (StatusPatchHypervisor sample_hv (sample_hv\<lparr>hv_Status := (hv_Status sample_hv)\<lparr>Conditions :=
        [ready_now, mk_condition ConditionTypeTainted ConditionTrue ''Taint'' []]\<rparr>\<rparr>) ''op'')])
   \<and> mem_Taint_Reconcile sample_copies list_lib (sample_kube sample_hv (empty_eviction ''e'') (empty_node ''n'')) (sample_setter list_lib)
        decode_Hypervisor ''h'' nothing_stored []
      = Taint_Reconcile list_lib (sample_kube sample_hv (empty_eviction ''e'') (empty_node ''n'')) ''h'' []"
proof -
  let ?K = "sample_kube sample_hv (empty_eviction ''e'') (empty_node ''n'')"
  have "decoded (hypervisor_layout sample_copies) hypervisor_kind hv_conditions_field hv_put_conditions v nothing_stored
      (decode_Hypervisor v nothing_stored)" if "k_get_Hypervisor ?K ''h'' [] = Inr v" for v
    using that decode_Hypervisor_ok [of "empty_meta ''h''"] by (auto simp: sample_kube_def empty_meta_def)
  note t = status_patch_over_memory [where decode = decode_Hypervisor and K = ?K and name = "''h''" and tr = "[]" and c = ready_now
      and fieldOwner = "''op''", OF sample_copies_laws sample_setter_laws [of list_lib] this]
  have "patch_hypervisor_attempt ?K ''h'' ''op'' (hv_set_condition list_lib ready_now) []
      = (None, [Kube (GetHypervisor ''h''), Kube (StatusPatchHypervisor sample_hv (sample_hv\<lparr>hv_Status := (hv_Status sample_hv)\<lparr>Conditions :=
          [ready_now, mk_condition ConditionTypeTainted ConditionTrue ''Taint'' []]\<rparr>\<rparr>) ''op'')])"
    by (simp add: sample_kube_def patch_hypervisor_attempt_def ask_def hv_set_condition_def list_lib_def list_find_def meta_view_def
        mk_condition_def)
  with t show ?thesis by simp
qed

text \<open>An eviction that is read with one condition, and a desired status with another value of it and one more.\<close>

abbreviation sample_ev :: "string list \<Rightarrow> condition list \<Rightarrow> Eviction" where
  "sample_ev us cs \<equiv> \<lparr>ev_Meta = empty_meta ''e'', ev_Spec = \<lparr>es_Hypervisor = ''h'', es_Reason = []\<rparr>,
     ev_Status = \<lparr>HypervisorServiceId = ''7'', OutstandingRamMb = 512, OutstandingInstances = us, ev_Conditions = cs\<rparr>\<rparr>"

abbreviation evicting :: "ConditionStatus \<Rightarrow> condition" where
  "evicting s \<equiv> mk_condition ConditionTypeEvicting s ConditionReasonRunning ''Running''"

abbreviation migrating :: condition where
  "migrating \<equiv> mk_condition ConditionTypeMigration ConditionFalse ConditionReasonSucceeded []"

definition desired_memory :: "('q, 'l) memory" where
  "desired_memory = \<lparr>lim = 3, obj = (\<lambda>_. Strings [])(0 := Strings [''a'', ''b'', ''c''],
     1 := ConditionArray [evicting ConditionTrue, migrating], 2 := EvictionStatusObj \<lparr>own_EvictionStatus =
       \<lparr>HypervisorServiceId = ''7'', OutstandingRamMb = 512, OutstandingInstances = [], ev_Conditions = []\<rparr>,
       m_OutstandingInstances = Some \<lparr>arr = 0, off = 1, len = 2\<rparr>, m_ev_Conditions = Some \<lparr>arr = 1, off = 0, len = 2\<rparr>\<rparr>)\<rparr>"

theorem eviction_update_over_memory_witness:
  "fst (mem_update_attempt sample_copies (sample_kube sample_hv (sample_ev [] [evicting ConditionUnknown]) (empty_node ''n''))
      (sample_setter list_lib) decode_Eviction ''e'' 2 desired_memory [])
   = (None, [Kube (GetEviction ''e''), Kube (StatusPatchEviction (sample_ev [] [evicting ConditionUnknown])
       (sample_ev [''b'', ''c''] [evicting ConditionTrue, migrating]) EvictionControllerName)])"
proof -
  let ?K = "sample_kube sample_hv (sample_ev [] [evicting ConditionUnknown]) (empty_node ''n'')"
  have d: "2 < lim desired_memory" "valid eviction_status_layout desired_memory (the_EvictionStatus (obj desired_memory 2))"
    and v: "desired_at desired_memory 2 = ev_Status (sample_ev [''b'', ''c''] [evicting ConditionTrue, migrating])"
    by (simp_all add: desired_memory_def eviction_status_sel slice_sel elems_def)
  have "decoded (eviction_layout sample_copies) eviction_kind ev_conditions_field ev_put_conditions v desired_memory
      (decode_Eviction v desired_memory)" if "k_get_Eviction ?K ''e'' [] = Inr v" for v
    using that decode_Eviction_ok [of "empty_meta ''e''"] by (auto simp: sample_kube_def empty_meta_def)
  from eviction_update_over_memory [where decode = decode_Eviction and K = ?K and name = "''e''" and tr = "[]",
      OF sample_copies_laws sample_setter_laws [of list_lib] this d, THEN conjunct1]
  have "fst (mem_update_attempt sample_copies ?K (sample_setter list_lib) decode_Eviction ''e'' 2 desired_memory [])
      = update_attempt list_lib ?K ''e'' (ev_Status (sample_ev [''b'', ''c''] [evicting ConditionTrue, migrating])) []"
    unfolding v .
  also have "\<dots> = (None, [Kube (GetEviction ''e''), Kube (StatusPatchEviction (sample_ev [] [evicting ConditionUnknown])
       (sample_ev [''b'', ''c''] [evicting ConditionTrue, migrating]) EvictionControllerName)])"
    by (simp add: sample_kube_def update_attempt_def ask_def merge_status_def list_lib_def list_find_def meta_view_def mk_condition_def)
  finally show ?thesis .
qed

end
