(* ===== verification/Apply_Config.thy ===== *)
theory Apply_Config
  imports Environment
begin

text \<open>
  The generated builders of apply configurations, \<^verbatim>\<open>src/applyconfigurations\<close>. A struct \<open>TApplyConfiguration\<close> is
  the record \<open>TAC\<close>, its fields \<open>None\<close> or \<open>[]\<close> when they are absent from the payload (the struct tags are
  \<open>omitempty\<close>), and a method \<open>WithF\<close> is \<open>TAC_WithF\<close>: it returns the receiver as it leaves it, or the message of a panic.
  The code also uses the receiver itself after a call, which is the same value. The structs of the metadata and of
  owner references are those of client-go. \<open>Apply_Payloads\<close> shows that the
  controllers' builder calls make the payloads that their value models send.
\<close>

section \<open>Loops of the builders\<close>

abbreviation nil_dereference :: string where "nil_dereference \<equiv> ''invalid memory address or nil pointer dereference''"
abbreviation nil_map_write :: string where "nil_map_write \<equiv> ''assignment to entry in nil map''"

text \<open>A chain of calls; a panic ends it.\<close>

fun chain :: "('b \<Rightarrow> string + 'b) list \<Rightarrow> 'b \<Rightarrow> string + 'b" where
  "chain [] b = Inr b"
| "chain (f # fs) b = (case f b of Inl panic \<Rightarrow> Inl panic | Inr b1 \<Rightarrow> chain fs b1)"

text \<open>\<open>for i := range values { b.F = append(b.F, values[i]) }\<close>, and the same through pointers.\<close>

fun append_values :: "'v list \<Rightarrow> 'v list \<Rightarrow> 'v list" where
  "append_values xs [] = xs"
| "append_values xs (v # vs) = append_values (xs @ [v]) vs"

fun append_pointed :: "string \<Rightarrow> 'v list \<Rightarrow> 'v option list \<Rightarrow> string + 'v list" where
  "append_pointed setter xs [] = Inr xs"
| "append_pointed setter xs (None # vs) = Inl (''nil value passed to '' @ setter)"
| "append_pointed setter xs (Some v # vs) = append_pointed setter (xs @ [v]) vs"

text \<open>
  \<open>if b.F == nil && len(entries) > 0 { b.F = make(...) }; for k, v := range entries { b.F[k] = v }\<close>; the
  entries of the map stand in the order of the iteration.
\<close>

fun write_entries :: "('k \<rightharpoonup> 'v) option \<Rightarrow> ('k \<times> 'v) list \<Rightarrow> string + ('k \<rightharpoonup> 'v) option" where
  "write_entries f [] = Inr f"
| "write_entries f ((k, v) # es) = (case f of None \<Rightarrow> Inl nil_map_write | Some m \<Rightarrow> write_entries (Some (m(k \<mapsto> v))) es)"

definition put_entries :: "('k \<rightharpoonup> 'v) option \<Rightarrow> ('k \<times> 'v) list \<Rightarrow> string + ('k \<rightharpoonup> 'v) option" where
  "put_entries f entries = write_entries (if Option.is_none f \<and> 0 < length entries then Some Map.empty else f) entries"

lemma append_values_append [simp]: "append_values xs vs = xs @ vs"
  by (induction xs vs rule: append_values.induct) simp_all

lemma append_pointed_cases:
  "append_pointed setter xs vs = (if None \<in> set vs then Inl (''nil value passed to '' @ setter) else Inr (xs @ map the vs))"
  by (induction setter xs vs rule: append_pointed.induct) simp_all

lemma write_entries_Some: "write_entries (Some m) es = Inr (Some (m ++ map_of (rev es)))"
  by (induction "Some m" es arbitrary: m rule: write_entries.induct) simp_all

text \<open>The guard makes sure that no entry is written into a \<open>nil\<close> map.\<close>

lemma put_entries_value:
  "put_entries f es = Inr (if es = [] then f else Some ((case f of None \<Rightarrow> Map.empty | Some m \<Rightarrow> m) ++ map_of (rev es)))"
proof (cases "es = []")
  case False
  then show ?thesis by (cases f) (simp_all add: put_entries_def write_entries_Some)
qed (simp add: put_entries_def)

lemma map_of_rev: "distinct (map fst es) \<Longrightarrow> map_of (rev es) = map_of es"
  by (rule map_of_inject_set [THEN iffD2]) (simp_all add: rev_map [symmetric])

section \<open>Metadata\<close>

record TypeMetaAC =
  tm_Kind_AC :: "string option"
  tm_APIVersion_AC :: "string option"

record ObjectMetaAC =
  om_Name :: "string option"
  om_GenerateName :: "string option"
  om_Namespace :: "string option"
  om_UID :: "string option"
  om_ResourceVersion :: "string option"
  om_Generation :: "int option"
  om_CreationTimestamp :: "go_time option"
  om_DeletionTimestamp :: "go_time option"
  om_DeletionGracePeriodSeconds :: "int option"
  om_Labels :: "(string \<rightharpoonup> string) option"
  om_Annotations :: "(string \<rightharpoonup> string) option"
  om_OwnerReferences :: "OwnerRef list"
  om_Finalizers :: "string list"

definition no_type_meta :: TypeMetaAC where
  "no_type_meta = \<lparr>tm_Kind_AC = None, tm_APIVersion_AC = None\<rparr>"

definition no_object_meta :: ObjectMetaAC where
  "no_object_meta = \<lparr>om_Name = None, om_GenerateName = None, om_Namespace = None, om_UID = None, om_ResourceVersion = None,
     om_Generation = None, om_CreationTimestamp = None, om_DeletionTimestamp = None, om_DeletionGracePeriodSeconds = None,
     om_Labels = None, om_Annotations = None, om_OwnerReferences = [], om_Finalizers = []\<rparr>"

section \<open>Instance\<close>

record InstanceAC =
  instance_ac_ID :: "string option"
  instance_ac_Name :: "string option"
  instance_ac_Active :: "bool option"

definition Instance_AC :: InstanceAC where
  "Instance_AC = \<lparr>instance_ac_ID = None, instance_ac_Name = None, instance_ac_Active = None\<rparr>"

definition InstanceAC_WithID :: "string \<Rightarrow> InstanceAC \<Rightarrow> string + InstanceAC" where
  "InstanceAC_WithID value b = Inr (b\<lparr>instance_ac_ID := Some value\<rparr>)"

definition InstanceAC_WithName :: "string \<Rightarrow> InstanceAC \<Rightarrow> string + InstanceAC" where
  "InstanceAC_WithName value b = Inr (b\<lparr>instance_ac_Name := Some value\<rparr>)"

definition InstanceAC_WithActive :: "bool \<Rightarrow> InstanceAC \<Rightarrow> string + InstanceAC" where
  "InstanceAC_WithActive value b = Inr (b\<lparr>instance_ac_Active := Some value\<rparr>)"

section \<open>HyperVisorUpdateStatus\<close>

record HyperVisorUpdateStatusAC =
  hyperVisorUpdateStatus_ac_InProgress :: "bool option"
  hyperVisorUpdateStatus_ac_Installed :: "string option"
  hyperVisorUpdateStatus_ac_Retry :: "int option"

definition HyperVisorUpdateStatus_AC :: HyperVisorUpdateStatusAC where
  "HyperVisorUpdateStatus_AC = \<lparr>hyperVisorUpdateStatus_ac_InProgress = None, hyperVisorUpdateStatus_ac_Installed = None,
     hyperVisorUpdateStatus_ac_Retry = None\<rparr>"

definition HyperVisorUpdateStatusAC_WithInProgress :: "bool \<Rightarrow> HyperVisorUpdateStatusAC \<Rightarrow> string + HyperVisorUpdateStatusAC" where
  "HyperVisorUpdateStatusAC_WithInProgress value b = Inr (b\<lparr>hyperVisorUpdateStatus_ac_InProgress := Some value\<rparr>)"

definition HyperVisorUpdateStatusAC_WithInstalled :: "string \<Rightarrow> HyperVisorUpdateStatusAC \<Rightarrow> string + HyperVisorUpdateStatusAC" where
  "HyperVisorUpdateStatusAC_WithInstalled value b = Inr (b\<lparr>hyperVisorUpdateStatus_ac_Installed := Some value\<rparr>)"

definition HyperVisorUpdateStatusAC_WithRetry :: "int \<Rightarrow> HyperVisorUpdateStatusAC \<Rightarrow> string + HyperVisorUpdateStatusAC" where
  "HyperVisorUpdateStatusAC_WithRetry value b = Inr (b\<lparr>hyperVisorUpdateStatus_ac_Retry := Some value\<rparr>)"

section \<open>OperatingSystemStatus\<close>

record OperatingSystemStatusAC =
  operatingSystemStatus_ac_Version :: "string option"
  operatingSystemStatus_ac_VariantID :: "string option"
  operatingSystemStatus_ac_PrettyVersion :: "string option"
  operatingSystemStatus_ac_KernelName :: "string option"
  operatingSystemStatus_ac_KernelRelease :: "string option"
  operatingSystemStatus_ac_KernelVersion :: "string option"
  operatingSystemStatus_ac_KernelCommandLine :: "string option"
  operatingSystemStatus_ac_HardwareVendor :: "string option"
  operatingSystemStatus_ac_HardwareModel :: "string option"
  operatingSystemStatus_ac_HardwareSerial :: "string option"
  operatingSystemStatus_ac_FirmwareVersion :: "string option"
  operatingSystemStatus_ac_FirmwareVendor :: "string option"
  operatingSystemStatus_ac_FirmwareDate :: "go_time option"
  operatingSystemStatus_ac_GardenLinuxCommitID :: "string option"
  operatingSystemStatus_ac_GardenLinuxFeatures :: "string list"

definition OperatingSystemStatus_AC :: OperatingSystemStatusAC where
  "OperatingSystemStatus_AC = \<lparr>operatingSystemStatus_ac_Version = None, operatingSystemStatus_ac_VariantID = None,
     operatingSystemStatus_ac_PrettyVersion = None, operatingSystemStatus_ac_KernelName = None,
     operatingSystemStatus_ac_KernelRelease = None, operatingSystemStatus_ac_KernelVersion = None,
     operatingSystemStatus_ac_KernelCommandLine = None, operatingSystemStatus_ac_HardwareVendor = None,
     operatingSystemStatus_ac_HardwareModel = None, operatingSystemStatus_ac_HardwareSerial = None,
     operatingSystemStatus_ac_FirmwareVersion = None, operatingSystemStatus_ac_FirmwareVendor = None,
     operatingSystemStatus_ac_FirmwareDate = None, operatingSystemStatus_ac_GardenLinuxCommitID = None,
     operatingSystemStatus_ac_GardenLinuxFeatures = []\<rparr>"

definition OperatingSystemStatusAC_WithVersion :: "string \<Rightarrow> OperatingSystemStatusAC \<Rightarrow> string + OperatingSystemStatusAC" where
  "OperatingSystemStatusAC_WithVersion value b = Inr (b\<lparr>operatingSystemStatus_ac_Version := Some value\<rparr>)"

definition OperatingSystemStatusAC_WithVariantID :: "string \<Rightarrow> OperatingSystemStatusAC \<Rightarrow> string + OperatingSystemStatusAC" where
  "OperatingSystemStatusAC_WithVariantID value b = Inr (b\<lparr>operatingSystemStatus_ac_VariantID := Some value\<rparr>)"

definition OperatingSystemStatusAC_WithPrettyVersion :: "string \<Rightarrow> OperatingSystemStatusAC \<Rightarrow> string + OperatingSystemStatusAC" where
  "OperatingSystemStatusAC_WithPrettyVersion value b = Inr (b\<lparr>operatingSystemStatus_ac_PrettyVersion := Some value\<rparr>)"

definition OperatingSystemStatusAC_WithKernelName :: "string \<Rightarrow> OperatingSystemStatusAC \<Rightarrow> string + OperatingSystemStatusAC" where
  "OperatingSystemStatusAC_WithKernelName value b = Inr (b\<lparr>operatingSystemStatus_ac_KernelName := Some value\<rparr>)"

definition OperatingSystemStatusAC_WithKernelRelease :: "string \<Rightarrow> OperatingSystemStatusAC \<Rightarrow> string + OperatingSystemStatusAC" where
  "OperatingSystemStatusAC_WithKernelRelease value b = Inr (b\<lparr>operatingSystemStatus_ac_KernelRelease := Some value\<rparr>)"

definition OperatingSystemStatusAC_WithKernelVersion :: "string \<Rightarrow> OperatingSystemStatusAC \<Rightarrow> string + OperatingSystemStatusAC" where
  "OperatingSystemStatusAC_WithKernelVersion value b = Inr (b\<lparr>operatingSystemStatus_ac_KernelVersion := Some value\<rparr>)"

definition OperatingSystemStatusAC_WithKernelCommandLine :: "string \<Rightarrow> OperatingSystemStatusAC \<Rightarrow> string + OperatingSystemStatusAC" where
  "OperatingSystemStatusAC_WithKernelCommandLine value b = Inr (b\<lparr>operatingSystemStatus_ac_KernelCommandLine := Some value\<rparr>)"

definition OperatingSystemStatusAC_WithHardwareVendor :: "string \<Rightarrow> OperatingSystemStatusAC \<Rightarrow> string + OperatingSystemStatusAC" where
  "OperatingSystemStatusAC_WithHardwareVendor value b = Inr (b\<lparr>operatingSystemStatus_ac_HardwareVendor := Some value\<rparr>)"

definition OperatingSystemStatusAC_WithHardwareModel :: "string \<Rightarrow> OperatingSystemStatusAC \<Rightarrow> string + OperatingSystemStatusAC" where
  "OperatingSystemStatusAC_WithHardwareModel value b = Inr (b\<lparr>operatingSystemStatus_ac_HardwareModel := Some value\<rparr>)"

definition OperatingSystemStatusAC_WithHardwareSerial :: "string \<Rightarrow> OperatingSystemStatusAC \<Rightarrow> string + OperatingSystemStatusAC" where
  "OperatingSystemStatusAC_WithHardwareSerial value b = Inr (b\<lparr>operatingSystemStatus_ac_HardwareSerial := Some value\<rparr>)"

definition OperatingSystemStatusAC_WithFirmwareVersion :: "string \<Rightarrow> OperatingSystemStatusAC \<Rightarrow> string + OperatingSystemStatusAC" where
  "OperatingSystemStatusAC_WithFirmwareVersion value b = Inr (b\<lparr>operatingSystemStatus_ac_FirmwareVersion := Some value\<rparr>)"

definition OperatingSystemStatusAC_WithFirmwareVendor :: "string \<Rightarrow> OperatingSystemStatusAC \<Rightarrow> string + OperatingSystemStatusAC" where
  "OperatingSystemStatusAC_WithFirmwareVendor value b = Inr (b\<lparr>operatingSystemStatus_ac_FirmwareVendor := Some value\<rparr>)"

definition OperatingSystemStatusAC_WithFirmwareDate :: "go_time \<Rightarrow> OperatingSystemStatusAC \<Rightarrow> string + OperatingSystemStatusAC" where
  "OperatingSystemStatusAC_WithFirmwareDate value b = Inr (b\<lparr>operatingSystemStatus_ac_FirmwareDate := Some value\<rparr>)"

definition OperatingSystemStatusAC_WithGardenLinuxCommitID :: "string \<Rightarrow> OperatingSystemStatusAC \<Rightarrow> string + OperatingSystemStatusAC" where
  "OperatingSystemStatusAC_WithGardenLinuxCommitID value b = Inr (b\<lparr>operatingSystemStatus_ac_GardenLinuxCommitID := Some value\<rparr>)"

definition OperatingSystemStatusAC_WithGardenLinuxFeatures :: "string list \<Rightarrow> OperatingSystemStatusAC \<Rightarrow> string + OperatingSystemStatusAC" where
  "OperatingSystemStatusAC_WithGardenLinuxFeatures values b = Inr (b\<lparr>operatingSystemStatus_ac_GardenLinuxFeatures := append_values (operatingSystemStatus_ac_GardenLinuxFeatures b) values\<rparr>)"

section \<open>Capabilities\<close>

record CapabilitiesAC =
  capabilities_ac_HostCpuArch :: "string option"
  capabilities_ac_HostMemory :: "quantity option"
  capabilities_ac_HostCpus :: "quantity option"

definition Capabilities_AC :: CapabilitiesAC where
  "Capabilities_AC = \<lparr>capabilities_ac_HostCpuArch = None, capabilities_ac_HostMemory = None, capabilities_ac_HostCpus = None\<rparr>"

definition CapabilitiesAC_WithHostCpuArch :: "string \<Rightarrow> CapabilitiesAC \<Rightarrow> string + CapabilitiesAC" where
  "CapabilitiesAC_WithHostCpuArch value b = Inr (b\<lparr>capabilities_ac_HostCpuArch := Some value\<rparr>)"

definition CapabilitiesAC_WithHostMemory :: "quantity \<Rightarrow> CapabilitiesAC \<Rightarrow> string + CapabilitiesAC" where
  "CapabilitiesAC_WithHostMemory value b = Inr (b\<lparr>capabilities_ac_HostMemory := Some value\<rparr>)"

definition CapabilitiesAC_WithHostCpus :: "quantity \<Rightarrow> CapabilitiesAC \<Rightarrow> string + CapabilitiesAC" where
  "CapabilitiesAC_WithHostCpus value b = Inr (b\<lparr>capabilities_ac_HostCpus := Some value\<rparr>)"

section \<open>DomainCapabilities\<close>

record DomainCapabilitiesAC =
  domainCapabilities_ac_Arch :: "string option"
  domainCapabilities_ac_HypervisorType :: "string option"
  domainCapabilities_ac_SupportedDevices :: "string list"
  domainCapabilities_ac_SupportedCpuModes :: "string list"
  domainCapabilities_ac_SupportedFeatures :: "string list"

definition DomainCapabilities_AC :: DomainCapabilitiesAC where
  "DomainCapabilities_AC = \<lparr>domainCapabilities_ac_Arch = None, domainCapabilities_ac_HypervisorType = None,
     domainCapabilities_ac_SupportedDevices = [], domainCapabilities_ac_SupportedCpuModes = [],
     domainCapabilities_ac_SupportedFeatures = []\<rparr>"

definition DomainCapabilitiesAC_WithArch :: "string \<Rightarrow> DomainCapabilitiesAC \<Rightarrow> string + DomainCapabilitiesAC" where
  "DomainCapabilitiesAC_WithArch value b = Inr (b\<lparr>domainCapabilities_ac_Arch := Some value\<rparr>)"

definition DomainCapabilitiesAC_WithHypervisorType :: "string \<Rightarrow> DomainCapabilitiesAC \<Rightarrow> string + DomainCapabilitiesAC" where
  "DomainCapabilitiesAC_WithHypervisorType value b = Inr (b\<lparr>domainCapabilities_ac_HypervisorType := Some value\<rparr>)"

definition DomainCapabilitiesAC_WithSupportedDevices :: "string list \<Rightarrow> DomainCapabilitiesAC \<Rightarrow> string + DomainCapabilitiesAC" where
  "DomainCapabilitiesAC_WithSupportedDevices values b = Inr (b\<lparr>domainCapabilities_ac_SupportedDevices := append_values (domainCapabilities_ac_SupportedDevices b) values\<rparr>)"

definition DomainCapabilitiesAC_WithSupportedCpuModes :: "string list \<Rightarrow> DomainCapabilitiesAC \<Rightarrow> string + DomainCapabilitiesAC" where
  "DomainCapabilitiesAC_WithSupportedCpuModes values b = Inr (b\<lparr>domainCapabilities_ac_SupportedCpuModes := append_values (domainCapabilities_ac_SupportedCpuModes b) values\<rparr>)"

definition DomainCapabilitiesAC_WithSupportedFeatures :: "string list \<Rightarrow> DomainCapabilitiesAC \<Rightarrow> string + DomainCapabilitiesAC" where
  "DomainCapabilitiesAC_WithSupportedFeatures values b = Inr (b\<lparr>domainCapabilities_ac_SupportedFeatures := append_values (domainCapabilities_ac_SupportedFeatures b) values\<rparr>)"

section \<open>DomainInfo\<close>

record DomainInfoAC =
  domainInfo_ac_Name :: "string option"
  domainInfo_ac_UUID :: "string option"
  domainInfo_ac_Allocation :: "(string \<rightharpoonup> quantity) option"
  domainInfo_ac_MemoryCells :: "int list"
  domainInfo_ac_CpuCells :: "int list"

definition DomainInfo_AC :: DomainInfoAC where
  "DomainInfo_AC = \<lparr>domainInfo_ac_Name = None, domainInfo_ac_UUID = None, domainInfo_ac_Allocation = None,
     domainInfo_ac_MemoryCells = [], domainInfo_ac_CpuCells = []\<rparr>"

definition DomainInfoAC_WithName :: "string \<Rightarrow> DomainInfoAC \<Rightarrow> string + DomainInfoAC" where
  "DomainInfoAC_WithName value b = Inr (b\<lparr>domainInfo_ac_Name := Some value\<rparr>)"

definition DomainInfoAC_WithUUID :: "string \<Rightarrow> DomainInfoAC \<Rightarrow> string + DomainInfoAC" where
  "DomainInfoAC_WithUUID value b = Inr (b\<lparr>domainInfo_ac_UUID := Some value\<rparr>)"

definition DomainInfoAC_WithAllocation :: "(string \<times> quantity) list \<Rightarrow> DomainInfoAC \<Rightarrow> string + DomainInfoAC" where
  "DomainInfoAC_WithAllocation entries b = map_sum id (\<lambda>x. b\<lparr>domainInfo_ac_Allocation := x\<rparr>) (put_entries (domainInfo_ac_Allocation b) entries)"

definition DomainInfoAC_WithMemoryCells :: "int list \<Rightarrow> DomainInfoAC \<Rightarrow> string + DomainInfoAC" where
  "DomainInfoAC_WithMemoryCells values b = Inr (b\<lparr>domainInfo_ac_MemoryCells := append_values (domainInfo_ac_MemoryCells b) values\<rparr>)"

definition DomainInfoAC_WithCpuCells :: "int list \<Rightarrow> DomainInfoAC \<Rightarrow> string + DomainInfoAC" where
  "DomainInfoAC_WithCpuCells values b = Inr (b\<lparr>domainInfo_ac_CpuCells := append_values (domainInfo_ac_CpuCells b) values\<rparr>)"

section \<open>Cell\<close>

record CellAC =
  cell_ac_CellID :: "nat option"
  cell_ac_Allocation :: "(string \<rightharpoonup> quantity) option"
  cell_ac_Capacity :: "(string \<rightharpoonup> quantity) option"
  cell_ac_EffectiveCapacity :: "(string \<rightharpoonup> quantity) option"

definition Cell_AC :: CellAC where
  "Cell_AC = \<lparr>cell_ac_CellID = None, cell_ac_Allocation = None, cell_ac_Capacity = None, cell_ac_EffectiveCapacity =
     None\<rparr>"

definition CellAC_WithCellID :: "nat \<Rightarrow> CellAC \<Rightarrow> string + CellAC" where
  "CellAC_WithCellID value b = Inr (b\<lparr>cell_ac_CellID := Some value\<rparr>)"

definition CellAC_WithAllocation :: "(string \<times> quantity) list \<Rightarrow> CellAC \<Rightarrow> string + CellAC" where
  "CellAC_WithAllocation entries b = map_sum id (\<lambda>x. b\<lparr>cell_ac_Allocation := x\<rparr>) (put_entries (cell_ac_Allocation b) entries)"

definition CellAC_WithCapacity :: "(string \<times> quantity) list \<Rightarrow> CellAC \<Rightarrow> string + CellAC" where
  "CellAC_WithCapacity entries b = map_sum id (\<lambda>x. b\<lparr>cell_ac_Capacity := x\<rparr>) (put_entries (cell_ac_Capacity b) entries)"

definition CellAC_WithEffectiveCapacity :: "(string \<times> quantity) list \<Rightarrow> CellAC \<Rightarrow> string + CellAC" where
  "CellAC_WithEffectiveCapacity entries b = map_sum id (\<lambda>x. b\<lparr>cell_ac_EffectiveCapacity := x\<rparr>) (put_entries (cell_ac_EffectiveCapacity b) entries)"

section \<open>Aggregate\<close>

record AggregateAC =
  aggregate_ac_Name :: "string option"
  aggregate_ac_UUID :: "string option"
  aggregate_ac_Metadata :: "(string \<rightharpoonup> string) option"

definition Aggregate_AC :: AggregateAC where
  "Aggregate_AC = \<lparr>aggregate_ac_Name = None, aggregate_ac_UUID = None, aggregate_ac_Metadata = None\<rparr>"

definition AggregateAC_WithName :: "string \<Rightarrow> AggregateAC \<Rightarrow> string + AggregateAC" where
  "AggregateAC_WithName value b = Inr (b\<lparr>aggregate_ac_Name := Some value\<rparr>)"

definition AggregateAC_WithUUID :: "string \<Rightarrow> AggregateAC \<Rightarrow> string + AggregateAC" where
  "AggregateAC_WithUUID value b = Inr (b\<lparr>aggregate_ac_UUID := Some value\<rparr>)"

definition AggregateAC_WithMetadata :: "(string \<times> string) list \<Rightarrow> AggregateAC \<Rightarrow> string + AggregateAC" where
  "AggregateAC_WithMetadata entries b = map_sum id (\<lambda>x. b\<lparr>aggregate_ac_Metadata := x\<rparr>) (put_entries (aggregate_ac_Metadata b) entries)"

section \<open>AggregateGroup\<close>

record AggregateGroupAC =
  aggregateGroup_ac_Name :: "string option"
  aggregateGroup_ac_UUID :: "string option"
  aggregateGroup_ac_Metadata :: "(string \<rightharpoonup> string) option"

definition AggregateGroup_AC :: AggregateGroupAC where
  "AggregateGroup_AC = \<lparr>aggregateGroup_ac_Name = None, aggregateGroup_ac_UUID = None, aggregateGroup_ac_Metadata = None\<rparr>"

definition AggregateGroupAC_WithName :: "string \<Rightarrow> AggregateGroupAC \<Rightarrow> string + AggregateGroupAC" where
  "AggregateGroupAC_WithName value b = Inr (b\<lparr>aggregateGroup_ac_Name := Some value\<rparr>)"

definition AggregateGroupAC_WithUUID :: "string \<Rightarrow> AggregateGroupAC \<Rightarrow> string + AggregateGroupAC" where
  "AggregateGroupAC_WithUUID value b = Inr (b\<lparr>aggregateGroup_ac_UUID := Some value\<rparr>)"

definition AggregateGroupAC_WithMetadata :: "(string \<times> string) list \<Rightarrow> AggregateGroupAC \<Rightarrow> string + AggregateGroupAC" where
  "AggregateGroupAC_WithMetadata entries b = map_sum id (\<lambda>x. b\<lparr>aggregateGroup_ac_Metadata := x\<rparr>) (put_entries (aggregateGroup_ac_Metadata b) entries)"

section \<open>TraitGroup\<close>

record TraitGroupAC =
  traitGroup_ac_Name :: "string option"

definition TraitGroup_AC :: TraitGroupAC where
  "TraitGroup_AC = \<lparr>traitGroup_ac_Name = None\<rparr>"

definition TraitGroupAC_WithName :: "string \<Rightarrow> TraitGroupAC \<Rightarrow> string + TraitGroupAC" where
  "TraitGroupAC_WithName value b = Inr (b\<lparr>traitGroup_ac_Name := Some value\<rparr>)"

section \<open>Group\<close>

record GroupAC =
  group_ac_Trait :: "TraitGroupAC option"
  group_ac_Aggregate :: "AggregateGroupAC option"

definition Group_AC :: GroupAC where
  "Group_AC = \<lparr>group_ac_Trait = None, group_ac_Aggregate = None\<rparr>"

definition GroupAC_WithTrait :: "TraitGroupAC option \<Rightarrow> GroupAC \<Rightarrow> string + GroupAC" where
  "GroupAC_WithTrait value b = Inr (b\<lparr>group_ac_Trait := value\<rparr>)"

definition GroupAC_WithAggregate :: "AggregateGroupAC option \<Rightarrow> GroupAC \<Rightarrow> string + GroupAC" where
  "GroupAC_WithAggregate value b = Inr (b\<lparr>group_ac_Aggregate := value\<rparr>)"

section \<open>HypervisorSpec\<close>

record HypervisorSpecAC =
  hypervisorSpec_ac_OperatingSystemVersion :: "string option"
  hypervisorSpec_ac_Reboot :: "bool option"
  hypervisorSpec_ac_EvacuateOnReboot :: "bool option"
  hypervisorSpec_ac_LifecycleEnabled :: "bool option"
  hypervisorSpec_ac_SkipTests :: "bool option"
  hypervisorSpec_ac_CustomTraits :: "string list"
  hypervisorSpec_ac_Aggregates :: "string list"
  hypervisorSpec_ac_Groups :: "GroupAC list"
  hypervisorSpec_ac_AllowedProjects :: "string list"
  hypervisorSpec_ac_HighAvailability :: "bool option"
  hypervisorSpec_ac_CreateCertManagerCertificate :: "bool option"
  hypervisorSpec_ac_InstallCertificate :: "bool option"
  hypervisorSpec_ac_Maintenance :: "string option"
  hypervisorSpec_ac_MaintenanceReason :: "string option"
  hypervisorSpec_ac_Overcommit :: "(string \<rightharpoonup> rat) option"

definition HypervisorSpec_AC :: HypervisorSpecAC where
  "HypervisorSpec_AC = \<lparr>hypervisorSpec_ac_OperatingSystemVersion = None, hypervisorSpec_ac_Reboot = None,
     hypervisorSpec_ac_EvacuateOnReboot = None, hypervisorSpec_ac_LifecycleEnabled = None,
     hypervisorSpec_ac_SkipTests = None, hypervisorSpec_ac_CustomTraits = [], hypervisorSpec_ac_Aggregates =
     [], hypervisorSpec_ac_Groups = [], hypervisorSpec_ac_AllowedProjects = [],
     hypervisorSpec_ac_HighAvailability = None, hypervisorSpec_ac_CreateCertManagerCertificate = None,
     hypervisorSpec_ac_InstallCertificate = None, hypervisorSpec_ac_Maintenance = None,
     hypervisorSpec_ac_MaintenanceReason = None, hypervisorSpec_ac_Overcommit = None\<rparr>"

definition HypervisorSpecAC_WithOperatingSystemVersion :: "string \<Rightarrow> HypervisorSpecAC \<Rightarrow> string + HypervisorSpecAC" where
  "HypervisorSpecAC_WithOperatingSystemVersion value b = Inr (b\<lparr>hypervisorSpec_ac_OperatingSystemVersion := Some value\<rparr>)"

definition HypervisorSpecAC_WithReboot :: "bool \<Rightarrow> HypervisorSpecAC \<Rightarrow> string + HypervisorSpecAC" where
  "HypervisorSpecAC_WithReboot value b = Inr (b\<lparr>hypervisorSpec_ac_Reboot := Some value\<rparr>)"

definition HypervisorSpecAC_WithEvacuateOnReboot :: "bool \<Rightarrow> HypervisorSpecAC \<Rightarrow> string + HypervisorSpecAC" where
  "HypervisorSpecAC_WithEvacuateOnReboot value b = Inr (b\<lparr>hypervisorSpec_ac_EvacuateOnReboot := Some value\<rparr>)"

definition HypervisorSpecAC_WithLifecycleEnabled :: "bool \<Rightarrow> HypervisorSpecAC \<Rightarrow> string + HypervisorSpecAC" where
  "HypervisorSpecAC_WithLifecycleEnabled value b = Inr (b\<lparr>hypervisorSpec_ac_LifecycleEnabled := Some value\<rparr>)"

definition HypervisorSpecAC_WithSkipTests :: "bool \<Rightarrow> HypervisorSpecAC \<Rightarrow> string + HypervisorSpecAC" where
  "HypervisorSpecAC_WithSkipTests value b = Inr (b\<lparr>hypervisorSpec_ac_SkipTests := Some value\<rparr>)"

definition HypervisorSpecAC_WithCustomTraits :: "string list \<Rightarrow> HypervisorSpecAC \<Rightarrow> string + HypervisorSpecAC" where
  "HypervisorSpecAC_WithCustomTraits values b = Inr (b\<lparr>hypervisorSpec_ac_CustomTraits := append_values (hypervisorSpec_ac_CustomTraits b) values\<rparr>)"

definition HypervisorSpecAC_WithAggregates :: "string list \<Rightarrow> HypervisorSpecAC \<Rightarrow> string + HypervisorSpecAC" where
  "HypervisorSpecAC_WithAggregates values b = Inr (b\<lparr>hypervisorSpec_ac_Aggregates := append_values (hypervisorSpec_ac_Aggregates b) values\<rparr>)"

definition HypervisorSpecAC_WithGroups :: "GroupAC option list \<Rightarrow> HypervisorSpecAC \<Rightarrow> string + HypervisorSpecAC" where
  "HypervisorSpecAC_WithGroups values b = map_sum id (\<lambda>x. b\<lparr>hypervisorSpec_ac_Groups := x\<rparr>) (append_pointed ''WithGroups'' (hypervisorSpec_ac_Groups b) values)"

definition HypervisorSpecAC_WithAllowedProjects :: "string list \<Rightarrow> HypervisorSpecAC \<Rightarrow> string + HypervisorSpecAC" where
  "HypervisorSpecAC_WithAllowedProjects values b = Inr (b\<lparr>hypervisorSpec_ac_AllowedProjects := append_values (hypervisorSpec_ac_AllowedProjects b) values\<rparr>)"

definition HypervisorSpecAC_WithHighAvailability :: "bool \<Rightarrow> HypervisorSpecAC \<Rightarrow> string + HypervisorSpecAC" where
  "HypervisorSpecAC_WithHighAvailability value b = Inr (b\<lparr>hypervisorSpec_ac_HighAvailability := Some value\<rparr>)"

definition HypervisorSpecAC_WithCreateCertManagerCertificate :: "bool \<Rightarrow> HypervisorSpecAC \<Rightarrow> string + HypervisorSpecAC" where
  "HypervisorSpecAC_WithCreateCertManagerCertificate value b = Inr (b\<lparr>hypervisorSpec_ac_CreateCertManagerCertificate := Some value\<rparr>)"

definition HypervisorSpecAC_WithInstallCertificate :: "bool \<Rightarrow> HypervisorSpecAC \<Rightarrow> string + HypervisorSpecAC" where
  "HypervisorSpecAC_WithInstallCertificate value b = Inr (b\<lparr>hypervisorSpec_ac_InstallCertificate := Some value\<rparr>)"

definition HypervisorSpecAC_WithMaintenance :: "string \<Rightarrow> HypervisorSpecAC \<Rightarrow> string + HypervisorSpecAC" where
  "HypervisorSpecAC_WithMaintenance value b = Inr (b\<lparr>hypervisorSpec_ac_Maintenance := Some value\<rparr>)"

definition HypervisorSpecAC_WithMaintenanceReason :: "string \<Rightarrow> HypervisorSpecAC \<Rightarrow> string + HypervisorSpecAC" where
  "HypervisorSpecAC_WithMaintenanceReason value b = Inr (b\<lparr>hypervisorSpec_ac_MaintenanceReason := Some value\<rparr>)"

definition HypervisorSpecAC_WithOvercommit :: "(string \<times> rat) list \<Rightarrow> HypervisorSpecAC \<Rightarrow> string + HypervisorSpecAC" where
  "HypervisorSpecAC_WithOvercommit entries b = map_sum id (\<lambda>x. b\<lparr>hypervisorSpec_ac_Overcommit := x\<rparr>) (put_entries (hypervisorSpec_ac_Overcommit b) entries)"

section \<open>HypervisorStatus\<close>

record HypervisorStatusAC =
  hypervisorStatus_ac_LibVirtVersion :: "string option"
  hypervisorStatus_ac_HypervisorVersion :: "string option"
  hypervisorStatus_ac_OperatingSystem :: "OperatingSystemStatusAC option"
  hypervisorStatus_ac_Update :: "HyperVisorUpdateStatusAC option"
  hypervisorStatus_ac_Instances :: "InstanceAC list"
  hypervisorStatus_ac_Capabilities :: "CapabilitiesAC option"
  hypervisorStatus_ac_DomainCapabilities :: "DomainCapabilitiesAC option"
  hypervisorStatus_ac_Allocation :: "(string \<rightharpoonup> quantity) option"
  hypervisorStatus_ac_Capacity :: "(string \<rightharpoonup> quantity) option"
  hypervisorStatus_ac_EffectiveCapacity :: "(string \<rightharpoonup> quantity) option"
  hypervisorStatus_ac_Cells :: "CellAC list"
  hypervisorStatus_ac_NumInstances :: "int option"
  hypervisorStatus_ac_HypervisorID :: "string option"
  hypervisorStatus_ac_ServiceID :: "string option"
  hypervisorStatus_ac_Traits :: "string list"
  hypervisorStatus_ac_Aggregates :: "AggregateAC list"
  hypervisorStatus_ac_InternalIP :: "string option"
  hypervisorStatus_ac_Evicted :: "bool option"
  hypervisorStatus_ac_Conditions :: "ConditionApplyConfiguration list"
  hypervisorStatus_ac_SpecHash :: "string option"

definition HypervisorStatus_AC :: HypervisorStatusAC where
  "HypervisorStatus_AC = \<lparr>hypervisorStatus_ac_LibVirtVersion = None, hypervisorStatus_ac_HypervisorVersion = None,
     hypervisorStatus_ac_OperatingSystem = None, hypervisorStatus_ac_Update = None,
     hypervisorStatus_ac_Instances = [], hypervisorStatus_ac_Capabilities = None,
     hypervisorStatus_ac_DomainCapabilities = None, hypervisorStatus_ac_Allocation = None,
     hypervisorStatus_ac_Capacity = None, hypervisorStatus_ac_EffectiveCapacity = None,
     hypervisorStatus_ac_Cells = [], hypervisorStatus_ac_NumInstances = None, hypervisorStatus_ac_HypervisorID
     = None, hypervisorStatus_ac_ServiceID = None, hypervisorStatus_ac_Traits = [],
     hypervisorStatus_ac_Aggregates = [], hypervisorStatus_ac_InternalIP = None, hypervisorStatus_ac_Evicted =
     None, hypervisorStatus_ac_Conditions = [], hypervisorStatus_ac_SpecHash = None\<rparr>"

definition HypervisorStatusAC_WithLibVirtVersion :: "string \<Rightarrow> HypervisorStatusAC \<Rightarrow> string + HypervisorStatusAC" where
  "HypervisorStatusAC_WithLibVirtVersion value b = Inr (b\<lparr>hypervisorStatus_ac_LibVirtVersion := Some value\<rparr>)"

definition HypervisorStatusAC_WithHypervisorVersion :: "string \<Rightarrow> HypervisorStatusAC \<Rightarrow> string + HypervisorStatusAC" where
  "HypervisorStatusAC_WithHypervisorVersion value b = Inr (b\<lparr>hypervisorStatus_ac_HypervisorVersion := Some value\<rparr>)"

definition HypervisorStatusAC_WithOperatingSystem :: "OperatingSystemStatusAC option \<Rightarrow> HypervisorStatusAC \<Rightarrow> string + HypervisorStatusAC" where
  "HypervisorStatusAC_WithOperatingSystem value b = Inr (b\<lparr>hypervisorStatus_ac_OperatingSystem := value\<rparr>)"

definition HypervisorStatusAC_WithUpdate :: "HyperVisorUpdateStatusAC option \<Rightarrow> HypervisorStatusAC \<Rightarrow> string + HypervisorStatusAC" where
  "HypervisorStatusAC_WithUpdate value b = Inr (b\<lparr>hypervisorStatus_ac_Update := value\<rparr>)"

definition HypervisorStatusAC_WithInstances :: "InstanceAC option list \<Rightarrow> HypervisorStatusAC \<Rightarrow> string + HypervisorStatusAC" where
  "HypervisorStatusAC_WithInstances values b = map_sum id (\<lambda>x. b\<lparr>hypervisorStatus_ac_Instances := x\<rparr>) (append_pointed ''WithInstances'' (hypervisorStatus_ac_Instances b) values)"

definition HypervisorStatusAC_WithCapabilities :: "CapabilitiesAC option \<Rightarrow> HypervisorStatusAC \<Rightarrow> string + HypervisorStatusAC" where
  "HypervisorStatusAC_WithCapabilities value b = Inr (b\<lparr>hypervisorStatus_ac_Capabilities := value\<rparr>)"

definition HypervisorStatusAC_WithDomainCapabilities :: "DomainCapabilitiesAC option \<Rightarrow> HypervisorStatusAC \<Rightarrow> string + HypervisorStatusAC" where
  "HypervisorStatusAC_WithDomainCapabilities value b = Inr (b\<lparr>hypervisorStatus_ac_DomainCapabilities := value\<rparr>)"

definition HypervisorStatusAC_WithAllocation :: "(string \<times> quantity) list \<Rightarrow> HypervisorStatusAC \<Rightarrow> string + HypervisorStatusAC" where
  "HypervisorStatusAC_WithAllocation entries b = map_sum id (\<lambda>x. b\<lparr>hypervisorStatus_ac_Allocation := x\<rparr>) (put_entries (hypervisorStatus_ac_Allocation b) entries)"

definition HypervisorStatusAC_WithCapacity :: "(string \<times> quantity) list \<Rightarrow> HypervisorStatusAC \<Rightarrow> string + HypervisorStatusAC" where
  "HypervisorStatusAC_WithCapacity entries b = map_sum id (\<lambda>x. b\<lparr>hypervisorStatus_ac_Capacity := x\<rparr>) (put_entries (hypervisorStatus_ac_Capacity b) entries)"

definition HypervisorStatusAC_WithEffectiveCapacity :: "(string \<times> quantity) list \<Rightarrow> HypervisorStatusAC \<Rightarrow> string + HypervisorStatusAC" where
  "HypervisorStatusAC_WithEffectiveCapacity entries b = map_sum id (\<lambda>x. b\<lparr>hypervisorStatus_ac_EffectiveCapacity := x\<rparr>) (put_entries (hypervisorStatus_ac_EffectiveCapacity b) entries)"

definition HypervisorStatusAC_WithCells :: "CellAC option list \<Rightarrow> HypervisorStatusAC \<Rightarrow> string + HypervisorStatusAC" where
  "HypervisorStatusAC_WithCells values b = map_sum id (\<lambda>x. b\<lparr>hypervisorStatus_ac_Cells := x\<rparr>) (append_pointed ''WithCells'' (hypervisorStatus_ac_Cells b) values)"

definition HypervisorStatusAC_WithNumInstances :: "int \<Rightarrow> HypervisorStatusAC \<Rightarrow> string + HypervisorStatusAC" where
  "HypervisorStatusAC_WithNumInstances value b = Inr (b\<lparr>hypervisorStatus_ac_NumInstances := Some value\<rparr>)"

definition HypervisorStatusAC_WithHypervisorID :: "string \<Rightarrow> HypervisorStatusAC \<Rightarrow> string + HypervisorStatusAC" where
  "HypervisorStatusAC_WithHypervisorID value b = Inr (b\<lparr>hypervisorStatus_ac_HypervisorID := Some value\<rparr>)"

definition HypervisorStatusAC_WithServiceID :: "string \<Rightarrow> HypervisorStatusAC \<Rightarrow> string + HypervisorStatusAC" where
  "HypervisorStatusAC_WithServiceID value b = Inr (b\<lparr>hypervisorStatus_ac_ServiceID := Some value\<rparr>)"

definition HypervisorStatusAC_WithTraits :: "string list \<Rightarrow> HypervisorStatusAC \<Rightarrow> string + HypervisorStatusAC" where
  "HypervisorStatusAC_WithTraits values b = Inr (b\<lparr>hypervisorStatus_ac_Traits := append_values (hypervisorStatus_ac_Traits b) values\<rparr>)"

definition HypervisorStatusAC_WithAggregates :: "AggregateAC option list \<Rightarrow> HypervisorStatusAC \<Rightarrow> string + HypervisorStatusAC" where
  "HypervisorStatusAC_WithAggregates values b = map_sum id (\<lambda>x. b\<lparr>hypervisorStatus_ac_Aggregates := x\<rparr>) (append_pointed ''WithAggregates'' (hypervisorStatus_ac_Aggregates b) values)"

definition HypervisorStatusAC_WithInternalIP :: "string \<Rightarrow> HypervisorStatusAC \<Rightarrow> string + HypervisorStatusAC" where
  "HypervisorStatusAC_WithInternalIP value b = Inr (b\<lparr>hypervisorStatus_ac_InternalIP := Some value\<rparr>)"

definition HypervisorStatusAC_WithEvicted :: "bool \<Rightarrow> HypervisorStatusAC \<Rightarrow> string + HypervisorStatusAC" where
  "HypervisorStatusAC_WithEvicted value b = Inr (b\<lparr>hypervisorStatus_ac_Evicted := Some value\<rparr>)"

definition HypervisorStatusAC_WithConditions :: "ConditionApplyConfiguration option list \<Rightarrow> HypervisorStatusAC \<Rightarrow> string + HypervisorStatusAC" where
  "HypervisorStatusAC_WithConditions values b = map_sum id (\<lambda>x. b\<lparr>hypervisorStatus_ac_Conditions := x\<rparr>) (append_pointed ''WithConditions'' (hypervisorStatus_ac_Conditions b) values)"

definition HypervisorStatusAC_WithSpecHash :: "string \<Rightarrow> HypervisorStatusAC \<Rightarrow> string + HypervisorStatusAC" where
  "HypervisorStatusAC_WithSpecHash value b = Inr (b\<lparr>hypervisorStatus_ac_SpecHash := Some value\<rparr>)"

section \<open>EvictionSpec\<close>

record EvictionSpecAC =
  evictionSpec_ac_Hypervisor :: "string option"
  evictionSpec_ac_Reason :: "string option"

definition EvictionSpec_AC :: EvictionSpecAC where
  "EvictionSpec_AC = \<lparr>evictionSpec_ac_Hypervisor = None, evictionSpec_ac_Reason = None\<rparr>"

definition EvictionSpecAC_WithHypervisor :: "string \<Rightarrow> EvictionSpecAC \<Rightarrow> string + EvictionSpecAC" where
  "EvictionSpecAC_WithHypervisor value b = Inr (b\<lparr>evictionSpec_ac_Hypervisor := Some value\<rparr>)"

definition EvictionSpecAC_WithReason :: "string \<Rightarrow> EvictionSpecAC \<Rightarrow> string + EvictionSpecAC" where
  "EvictionSpecAC_WithReason value b = Inr (b\<lparr>evictionSpec_ac_Reason := Some value\<rparr>)"

section \<open>EvictionStatus\<close>

record EvictionStatusAC =
  evictionStatus_ac_HypervisorServiceId :: "string option"
  evictionStatus_ac_OutstandingRamMb :: "int option"
  evictionStatus_ac_OutstandingInstances :: "string list"
  evictionStatus_ac_Conditions :: "ConditionApplyConfiguration list"

definition EvictionStatus_AC :: EvictionStatusAC where
  "EvictionStatus_AC = \<lparr>evictionStatus_ac_HypervisorServiceId = None, evictionStatus_ac_OutstandingRamMb = None,
     evictionStatus_ac_OutstandingInstances = [], evictionStatus_ac_Conditions = []\<rparr>"

definition EvictionStatusAC_WithHypervisorServiceId :: "string \<Rightarrow> EvictionStatusAC \<Rightarrow> string + EvictionStatusAC" where
  "EvictionStatusAC_WithHypervisorServiceId value b = Inr (b\<lparr>evictionStatus_ac_HypervisorServiceId := Some value\<rparr>)"

definition EvictionStatusAC_WithOutstandingRamMb :: "int \<Rightarrow> EvictionStatusAC \<Rightarrow> string + EvictionStatusAC" where
  "EvictionStatusAC_WithOutstandingRamMb value b = Inr (b\<lparr>evictionStatus_ac_OutstandingRamMb := Some value\<rparr>)"

definition EvictionStatusAC_WithOutstandingInstances :: "string list \<Rightarrow> EvictionStatusAC \<Rightarrow> string + EvictionStatusAC" where
  "EvictionStatusAC_WithOutstandingInstances values b = Inr (b\<lparr>evictionStatus_ac_OutstandingInstances := append_values (evictionStatus_ac_OutstandingInstances b) values\<rparr>)"

definition EvictionStatusAC_WithConditions :: "ConditionApplyConfiguration option list \<Rightarrow> EvictionStatusAC \<Rightarrow> string + EvictionStatusAC" where
  "EvictionStatusAC_WithConditions values b = map_sum id (\<lambda>x. b\<lparr>evictionStatus_ac_Conditions := x\<rparr>) (append_pointed ''WithConditions'' (evictionStatus_ac_Conditions b) values)"

section \<open>Hypervisor\<close>

record HypervisorAC =
  hypervisor_ac_TypeMeta :: TypeMetaAC
  hypervisor_ac_ObjectMeta :: "ObjectMetaAC option"
  hypervisor_ac_Spec :: "HypervisorSpecAC option"
  hypervisor_ac_Status :: "HypervisorStatusAC option"

definition HypervisorAC_ensureObjectMeta :: "HypervisorAC \<Rightarrow> HypervisorAC" where
  "HypervisorAC_ensureObjectMeta b = (if Option.is_none (hypervisor_ac_ObjectMeta b) then b\<lparr>hypervisor_ac_ObjectMeta := Some no_object_meta\<rparr> else b)"

definition HypervisorAC_on_meta :: "(ObjectMetaAC \<Rightarrow> string + ObjectMetaAC) \<Rightarrow> HypervisorAC \<Rightarrow> string + HypervisorAC" where
  "HypervisorAC_on_meta f b = (let b = HypervisorAC_ensureObjectMeta b in
     case hypervisor_ac_ObjectMeta b of None \<Rightarrow> Inl nil_dereference
     | Some m \<Rightarrow> map_sum id (\<lambda>m. b\<lparr>hypervisor_ac_ObjectMeta := Some m\<rparr>) (f m))"

definition HypervisorAC_WithKind :: "string \<Rightarrow> HypervisorAC \<Rightarrow> string + HypervisorAC" where
  "HypervisorAC_WithKind value b = Inr (hypervisor_ac_TypeMeta_update (tm_Kind_AC_update (\<lambda>_. Some value)) b)"

definition HypervisorAC_WithAPIVersion :: "string \<Rightarrow> HypervisorAC \<Rightarrow> string + HypervisorAC" where
  "HypervisorAC_WithAPIVersion value b = Inr (hypervisor_ac_TypeMeta_update (tm_APIVersion_AC_update (\<lambda>_. Some value)) b)"

definition HypervisorAC_WithName :: "string \<Rightarrow> HypervisorAC \<Rightarrow> string + HypervisorAC" where
  "HypervisorAC_WithName value b = HypervisorAC_on_meta (\<lambda>m. Inr (om_Name_update (\<lambda>_. Some value) m)) b"

definition HypervisorAC_WithGenerateName :: "string \<Rightarrow> HypervisorAC \<Rightarrow> string + HypervisorAC" where
  "HypervisorAC_WithGenerateName value b = HypervisorAC_on_meta (\<lambda>m. Inr (om_GenerateName_update (\<lambda>_. Some value) m)) b"

definition HypervisorAC_WithNamespace :: "string \<Rightarrow> HypervisorAC \<Rightarrow> string + HypervisorAC" where
  "HypervisorAC_WithNamespace value b = HypervisorAC_on_meta (\<lambda>m. Inr (om_Namespace_update (\<lambda>_. Some value) m)) b"

definition HypervisorAC_WithUID :: "string \<Rightarrow> HypervisorAC \<Rightarrow> string + HypervisorAC" where
  "HypervisorAC_WithUID value b = HypervisorAC_on_meta (\<lambda>m. Inr (om_UID_update (\<lambda>_. Some value) m)) b"

definition HypervisorAC_WithResourceVersion :: "string \<Rightarrow> HypervisorAC \<Rightarrow> string + HypervisorAC" where
  "HypervisorAC_WithResourceVersion value b = HypervisorAC_on_meta (\<lambda>m. Inr (om_ResourceVersion_update (\<lambda>_. Some value) m)) b"

definition HypervisorAC_WithGeneration :: "int \<Rightarrow> HypervisorAC \<Rightarrow> string + HypervisorAC" where
  "HypervisorAC_WithGeneration value b = HypervisorAC_on_meta (\<lambda>m. Inr (om_Generation_update (\<lambda>_. Some value) m)) b"

definition HypervisorAC_WithCreationTimestamp :: "go_time \<Rightarrow> HypervisorAC \<Rightarrow> string + HypervisorAC" where
  "HypervisorAC_WithCreationTimestamp value b = HypervisorAC_on_meta (\<lambda>m. Inr (om_CreationTimestamp_update (\<lambda>_. Some value) m)) b"

definition HypervisorAC_WithDeletionTimestamp :: "go_time \<Rightarrow> HypervisorAC \<Rightarrow> string + HypervisorAC" where
  "HypervisorAC_WithDeletionTimestamp value b = HypervisorAC_on_meta (\<lambda>m. Inr (om_DeletionTimestamp_update (\<lambda>_. Some value) m)) b"

definition HypervisorAC_WithDeletionGracePeriodSeconds :: "int \<Rightarrow> HypervisorAC \<Rightarrow> string + HypervisorAC" where
  "HypervisorAC_WithDeletionGracePeriodSeconds value b = HypervisorAC_on_meta (\<lambda>m. Inr (om_DeletionGracePeriodSeconds_update (\<lambda>_. Some value) m)) b"

definition HypervisorAC_WithLabels :: "(string \<times> string) list \<Rightarrow> HypervisorAC \<Rightarrow> string + HypervisorAC" where
  "HypervisorAC_WithLabels entries b = HypervisorAC_on_meta (\<lambda>m. map_sum id (\<lambda>x. om_Labels_update (\<lambda>_. x) m) (put_entries (om_Labels m) entries)) b"

definition HypervisorAC_WithAnnotations :: "(string \<times> string) list \<Rightarrow> HypervisorAC \<Rightarrow> string + HypervisorAC" where
  "HypervisorAC_WithAnnotations entries b = HypervisorAC_on_meta (\<lambda>m. map_sum id (\<lambda>x. om_Annotations_update (\<lambda>_. x) m) (put_entries (om_Annotations m) entries)) b"

definition HypervisorAC_WithOwnerReferences :: "OwnerRef option list \<Rightarrow> HypervisorAC \<Rightarrow> string + HypervisorAC" where
  "HypervisorAC_WithOwnerReferences values b = HypervisorAC_on_meta (\<lambda>m. map_sum id (\<lambda>x. om_OwnerReferences_update (\<lambda>_. x) m) (append_pointed ''WithOwnerReferences'' (om_OwnerReferences m) values)) b"

definition HypervisorAC_WithFinalizers :: "string list \<Rightarrow> HypervisorAC \<Rightarrow> string + HypervisorAC" where
  "HypervisorAC_WithFinalizers values b = HypervisorAC_on_meta (\<lambda>m. Inr (om_Finalizers_update (\<lambda>_. append_values (om_Finalizers m) values) m)) b"

definition HypervisorAC_WithSpec :: "HypervisorSpecAC option \<Rightarrow> HypervisorAC \<Rightarrow> string + HypervisorAC" where
  "HypervisorAC_WithSpec value b = Inr (b\<lparr>hypervisor_ac_Spec := value\<rparr>)"

definition HypervisorAC_WithStatus :: "HypervisorStatusAC option \<Rightarrow> HypervisorAC \<Rightarrow> string + HypervisorAC" where
  "HypervisorAC_WithStatus value b = Inr (b\<lparr>hypervisor_ac_Status := value\<rparr>)"

definition HypervisorAC_GetKind :: "HypervisorAC \<Rightarrow> string option" where
  "HypervisorAC_GetKind b = tm_Kind_AC (hypervisor_ac_TypeMeta b)"

definition HypervisorAC_GetAPIVersion :: "HypervisorAC \<Rightarrow> string option" where
  "HypervisorAC_GetAPIVersion b = tm_APIVersion_AC (hypervisor_ac_TypeMeta b)"

definition HypervisorAC_GetName :: "HypervisorAC \<Rightarrow> string option \<times> HypervisorAC" where
  "HypervisorAC_GetName b = (let b = HypervisorAC_ensureObjectMeta b in (Option.bind (hypervisor_ac_ObjectMeta b) om_Name, b))"

definition HypervisorAC_GetNamespace :: "HypervisorAC \<Rightarrow> string option \<times> HypervisorAC" where
  "HypervisorAC_GetNamespace b = (let b = HypervisorAC_ensureObjectMeta b in (Option.bind (hypervisor_ac_ObjectMeta b) om_Namespace, b))"

definition empty_Hypervisor_AC :: HypervisorAC where
  "empty_Hypervisor_AC = \<lparr>hypervisor_ac_TypeMeta = no_type_meta, hypervisor_ac_ObjectMeta = None, hypervisor_ac_Spec = None,
     hypervisor_ac_Status = None\<rparr>"

definition Hypervisor_AC :: "string \<Rightarrow> string + HypervisorAC" where
  "Hypervisor_AC name = chain [HypervisorAC_WithName name, HypervisorAC_WithKind ''Hypervisor'', HypervisorAC_WithAPIVersion ''kvm.cloud.sap/v1''] empty_Hypervisor_AC"

section \<open>Eviction\<close>

record EvictionAC =
  eviction_ac_TypeMeta :: TypeMetaAC
  eviction_ac_ObjectMeta :: "ObjectMetaAC option"
  eviction_ac_Spec :: "EvictionSpecAC option"
  eviction_ac_Status :: "EvictionStatusAC option"

definition EvictionAC_ensureObjectMeta :: "EvictionAC \<Rightarrow> EvictionAC" where
  "EvictionAC_ensureObjectMeta b = (if Option.is_none (eviction_ac_ObjectMeta b) then b\<lparr>eviction_ac_ObjectMeta := Some no_object_meta\<rparr> else b)"

definition EvictionAC_on_meta :: "(ObjectMetaAC \<Rightarrow> string + ObjectMetaAC) \<Rightarrow> EvictionAC \<Rightarrow> string + EvictionAC" where
  "EvictionAC_on_meta f b = (let b = EvictionAC_ensureObjectMeta b in
     case eviction_ac_ObjectMeta b of None \<Rightarrow> Inl nil_dereference
     | Some m \<Rightarrow> map_sum id (\<lambda>m. b\<lparr>eviction_ac_ObjectMeta := Some m\<rparr>) (f m))"

definition EvictionAC_WithKind :: "string \<Rightarrow> EvictionAC \<Rightarrow> string + EvictionAC" where
  "EvictionAC_WithKind value b = Inr (eviction_ac_TypeMeta_update (tm_Kind_AC_update (\<lambda>_. Some value)) b)"

definition EvictionAC_WithAPIVersion :: "string \<Rightarrow> EvictionAC \<Rightarrow> string + EvictionAC" where
  "EvictionAC_WithAPIVersion value b = Inr (eviction_ac_TypeMeta_update (tm_APIVersion_AC_update (\<lambda>_. Some value)) b)"

definition EvictionAC_WithName :: "string \<Rightarrow> EvictionAC \<Rightarrow> string + EvictionAC" where
  "EvictionAC_WithName value b = EvictionAC_on_meta (\<lambda>m. Inr (om_Name_update (\<lambda>_. Some value) m)) b"

definition EvictionAC_WithGenerateName :: "string \<Rightarrow> EvictionAC \<Rightarrow> string + EvictionAC" where
  "EvictionAC_WithGenerateName value b = EvictionAC_on_meta (\<lambda>m. Inr (om_GenerateName_update (\<lambda>_. Some value) m)) b"

definition EvictionAC_WithNamespace :: "string \<Rightarrow> EvictionAC \<Rightarrow> string + EvictionAC" where
  "EvictionAC_WithNamespace value b = EvictionAC_on_meta (\<lambda>m. Inr (om_Namespace_update (\<lambda>_. Some value) m)) b"

definition EvictionAC_WithUID :: "string \<Rightarrow> EvictionAC \<Rightarrow> string + EvictionAC" where
  "EvictionAC_WithUID value b = EvictionAC_on_meta (\<lambda>m. Inr (om_UID_update (\<lambda>_. Some value) m)) b"

definition EvictionAC_WithResourceVersion :: "string \<Rightarrow> EvictionAC \<Rightarrow> string + EvictionAC" where
  "EvictionAC_WithResourceVersion value b = EvictionAC_on_meta (\<lambda>m. Inr (om_ResourceVersion_update (\<lambda>_. Some value) m)) b"

definition EvictionAC_WithGeneration :: "int \<Rightarrow> EvictionAC \<Rightarrow> string + EvictionAC" where
  "EvictionAC_WithGeneration value b = EvictionAC_on_meta (\<lambda>m. Inr (om_Generation_update (\<lambda>_. Some value) m)) b"

definition EvictionAC_WithCreationTimestamp :: "go_time \<Rightarrow> EvictionAC \<Rightarrow> string + EvictionAC" where
  "EvictionAC_WithCreationTimestamp value b = EvictionAC_on_meta (\<lambda>m. Inr (om_CreationTimestamp_update (\<lambda>_. Some value) m)) b"

definition EvictionAC_WithDeletionTimestamp :: "go_time \<Rightarrow> EvictionAC \<Rightarrow> string + EvictionAC" where
  "EvictionAC_WithDeletionTimestamp value b = EvictionAC_on_meta (\<lambda>m. Inr (om_DeletionTimestamp_update (\<lambda>_. Some value) m)) b"

definition EvictionAC_WithDeletionGracePeriodSeconds :: "int \<Rightarrow> EvictionAC \<Rightarrow> string + EvictionAC" where
  "EvictionAC_WithDeletionGracePeriodSeconds value b = EvictionAC_on_meta (\<lambda>m. Inr (om_DeletionGracePeriodSeconds_update (\<lambda>_. Some value) m)) b"

definition EvictionAC_WithLabels :: "(string \<times> string) list \<Rightarrow> EvictionAC \<Rightarrow> string + EvictionAC" where
  "EvictionAC_WithLabels entries b = EvictionAC_on_meta (\<lambda>m. map_sum id (\<lambda>x. om_Labels_update (\<lambda>_. x) m) (put_entries (om_Labels m) entries)) b"

definition EvictionAC_WithAnnotations :: "(string \<times> string) list \<Rightarrow> EvictionAC \<Rightarrow> string + EvictionAC" where
  "EvictionAC_WithAnnotations entries b = EvictionAC_on_meta (\<lambda>m. map_sum id (\<lambda>x. om_Annotations_update (\<lambda>_. x) m) (put_entries (om_Annotations m) entries)) b"

definition EvictionAC_WithOwnerReferences :: "OwnerRef option list \<Rightarrow> EvictionAC \<Rightarrow> string + EvictionAC" where
  "EvictionAC_WithOwnerReferences values b = EvictionAC_on_meta (\<lambda>m. map_sum id (\<lambda>x. om_OwnerReferences_update (\<lambda>_. x) m) (append_pointed ''WithOwnerReferences'' (om_OwnerReferences m) values)) b"

definition EvictionAC_WithFinalizers :: "string list \<Rightarrow> EvictionAC \<Rightarrow> string + EvictionAC" where
  "EvictionAC_WithFinalizers values b = EvictionAC_on_meta (\<lambda>m. Inr (om_Finalizers_update (\<lambda>_. append_values (om_Finalizers m) values) m)) b"

definition EvictionAC_WithSpec :: "EvictionSpecAC option \<Rightarrow> EvictionAC \<Rightarrow> string + EvictionAC" where
  "EvictionAC_WithSpec value b = Inr (b\<lparr>eviction_ac_Spec := value\<rparr>)"

definition EvictionAC_WithStatus :: "EvictionStatusAC option \<Rightarrow> EvictionAC \<Rightarrow> string + EvictionAC" where
  "EvictionAC_WithStatus value b = Inr (b\<lparr>eviction_ac_Status := value\<rparr>)"

definition EvictionAC_GetKind :: "EvictionAC \<Rightarrow> string option" where
  "EvictionAC_GetKind b = tm_Kind_AC (eviction_ac_TypeMeta b)"

definition EvictionAC_GetAPIVersion :: "EvictionAC \<Rightarrow> string option" where
  "EvictionAC_GetAPIVersion b = tm_APIVersion_AC (eviction_ac_TypeMeta b)"

definition EvictionAC_GetName :: "EvictionAC \<Rightarrow> string option \<times> EvictionAC" where
  "EvictionAC_GetName b = (let b = EvictionAC_ensureObjectMeta b in (Option.bind (eviction_ac_ObjectMeta b) om_Name, b))"

definition EvictionAC_GetNamespace :: "EvictionAC \<Rightarrow> string option \<times> EvictionAC" where
  "EvictionAC_GetNamespace b = (let b = EvictionAC_ensureObjectMeta b in (Option.bind (eviction_ac_ObjectMeta b) om_Namespace, b))"

definition empty_Eviction_AC :: EvictionAC where
  "empty_Eviction_AC = \<lparr>eviction_ac_TypeMeta = no_type_meta, eviction_ac_ObjectMeta = None, eviction_ac_Spec = None,
     eviction_ac_Status = None\<rparr>"

definition Eviction_AC :: "string \<Rightarrow> string + EvictionAC" where
  "Eviction_AC name = chain [EvictionAC_WithName name, EvictionAC_WithKind ''Eviction'', EvictionAC_WithAPIVersion ''kvm.cloud.sap/v1''] empty_Eviction_AC"

end
