(* ===== verification/Apply_Schema.thy ===== *)
theory Apply_Schema
  imports Apply_Config
begin

text \<open>
  The schema that the generated code carries for server-side apply, \<^verbatim>\<open>src/applyconfigurations/internal/internal.go\<close>, the
  struct tags of the apply configurations, and the table of kinds in \<^verbatim>\<open>src/applyconfigurations/utils.go\<close>. The parser is
  code of structured-merge-diff and a parameter; the schema is the value its YAML denotes. The three
  generated parts fit together, and \<open>conforms\<close> says what the schema admits (\<open>Apply_Validity\<close> shows that the controllers
  apply nothing else).
\<close>

section \<open>The schema\<close>

datatype (plugins only: code) relationship = Atomic | Associative | Separable

text \<open>The names of types: of this repository's API, of the API machinery's metadata, and others.\<close>

datatype (plugins only: code) type_name = ApiType string | MetaType string | OtherType string

fun full_name :: "type_name \<Rightarrow> string" where
  "full_name (ApiType n) = ''com.github.cobaltcore-dev.openstack-hypervisor-operator.api.v1.'' @ n"
| "full_name (MetaType n) = ''io.k8s.apimachinery.pkg.apis.meta.v1.'' @ n"
| "full_name (OtherType n) = n"

datatype (plugins only: code size) schema_type =
    ScalarType string | NamedType type_name | ListType schema_type relationship "string list"
  | MapType schema_type "relationship option" | UntypedType schema_type schema_type

datatype (plugins only: code) schema_field = SchemaField (sf_name: string) (sf_type: schema_type) (sf_default: "string option")

text \<open>A named type: a scalar, a list, a map with one type of elements, or a map with named fields.\<close>

datatype (plugins only: code) named_type =
  named_type (nt_name: type_name) (nt_scalar: "string option") (nt_list: "schema_type option") (nt_map: "schema_type option")
    (nt_fields: "schema_field list")

definition schema_Aggregate :: named_type where
  "schema_Aggregate = named_type (ApiType ''Aggregate'') None None None
     [SchemaField ''metadata'' (MapType (ScalarType ''string'') None) None,
      SchemaField ''name'' (ScalarType ''string'') None,
      SchemaField ''uuid'' (ScalarType ''string'') None]"

definition schema_AggregateGroup :: named_type where
  "schema_AggregateGroup = named_type (ApiType ''AggregateGroup'') None None None
     [SchemaField ''metadata'' (MapType (ScalarType ''string'') None) None,
      SchemaField ''name'' (ScalarType ''string'') None,
      SchemaField ''uuid'' (ScalarType ''string'') None]"

definition schema_Capabilities :: named_type where
  "schema_Capabilities = named_type (ApiType ''Capabilities'') None None None
     [SchemaField ''cpuArch'' (ScalarType ''string'') (Some ''unknown''),
      SchemaField ''cpus'' (NamedType (OtherType ''io.k8s.apimachinery.pkg.api.resource.Quantity'')) None,
      SchemaField ''memory'' (NamedType (OtherType ''io.k8s.apimachinery.pkg.api.resource.Quantity'')) None]"

definition schema_Cell :: named_type where
  "schema_Cell = named_type (ApiType ''Cell'') None None None
     [SchemaField ''allocation'' (MapType (NamedType (OtherType ''io.k8s.apimachinery.pkg.api.resource.Quantity'')) None) None,
      SchemaField ''capacity'' (MapType (NamedType (OtherType ''io.k8s.apimachinery.pkg.api.resource.Quantity'')) None) None,
      SchemaField ''cellID'' (ScalarType ''numeric'') None,
      SchemaField ''effectiveCapacity'' (MapType (NamedType (OtherType ''io.k8s.apimachinery.pkg.api.resource.Quantity'')) None) None]"

definition schema_DomainCapabilities :: named_type where
  "schema_DomainCapabilities = named_type (ApiType ''DomainCapabilities'') None None None
     [SchemaField ''arch'' (ScalarType ''string'') (Some ''unknown''),
      SchemaField ''hypervisorType'' (ScalarType ''string'') (Some ''unknown''),
      SchemaField ''supportedCpuModes'' (ListType (ScalarType ''string'') Atomic []) (Some ''[]''),
      SchemaField ''supportedDevices'' (ListType (ScalarType ''string'') Atomic []) (Some ''[]''),
      SchemaField ''supportedFeatures'' (ListType (ScalarType ''string'') Atomic []) (Some ''[]'')]"

definition schema_Eviction :: named_type where
  "schema_Eviction = named_type (ApiType ''Eviction'') None None None
     [SchemaField ''apiVersion'' (ScalarType ''string'') None,
      SchemaField ''kind'' (ScalarType ''string'') None,
      SchemaField ''metadata'' (NamedType (MetaType ''ObjectMeta'')) None,
      SchemaField ''spec'' (NamedType (ApiType ''EvictionSpec'')) None,
      SchemaField ''status'' (NamedType (ApiType ''EvictionStatus'')) None]"

definition schema_EvictionSpec :: named_type where
  "schema_EvictionSpec = named_type (ApiType ''EvictionSpec'') None None None
     [SchemaField ''hypervisor'' (ScalarType ''string'') None,
      SchemaField ''reason'' (ScalarType ''string'') None]"

definition schema_EvictionStatus :: named_type where
  "schema_EvictionStatus = named_type (ApiType ''EvictionStatus'') None None None
     [SchemaField ''conditions'' (ListType (NamedType (MetaType ''Condition'')) Associative [''type'']) None,
      SchemaField ''hypervisorServiceId'' (ScalarType ''string'') None,
      SchemaField ''outstandingInstances'' (ListType (ScalarType ''string'') Atomic []) None,
      SchemaField ''outstandingRamMb'' (ScalarType ''numeric'') (Some ''0'')]"

definition schema_Group :: named_type where
  "schema_Group = named_type (ApiType ''Group'') None None None
     [SchemaField ''aggregate'' (NamedType (ApiType ''AggregateGroup'')) None,
      SchemaField ''trait'' (NamedType (ApiType ''TraitGroup'')) None]"

definition schema_HyperVisorUpdateStatus :: named_type where
  "schema_HyperVisorUpdateStatus = named_type (ApiType ''HyperVisorUpdateStatus'') None None None
     [SchemaField ''inProgress'' (ScalarType ''boolean'') (Some ''false''),
      SchemaField ''installed'' (ScalarType ''string'') (Some ''unknown''),
      SchemaField ''retry'' (ScalarType ''numeric'') (Some ''3'')]"

definition schema_Hypervisor :: named_type where
  "schema_Hypervisor = named_type (ApiType ''Hypervisor'') None None None
     [SchemaField ''apiVersion'' (ScalarType ''string'') None,
      SchemaField ''kind'' (ScalarType ''string'') None,
      SchemaField ''metadata'' (NamedType (MetaType ''ObjectMeta'')) None,
      SchemaField ''spec'' (NamedType (ApiType ''HypervisorSpec'')) None,
      SchemaField ''status'' (NamedType (ApiType ''HypervisorStatus'')) None]"

definition schema_HypervisorSpec :: named_type where
  "schema_HypervisorSpec = named_type (ApiType ''HypervisorSpec'') None None None
     [SchemaField ''aggregates'' (ListType (ScalarType ''string'') Atomic []) (Some ''[]''),
      SchemaField ''allowedProjects'' (ListType (ScalarType ''string'') Atomic []) (Some ''[]''),
      SchemaField ''createCertManagerCertificate'' (ScalarType ''boolean'') (Some ''false''),
      SchemaField ''customTraits'' (ListType (ScalarType ''string'') Atomic []) (Some ''[]''),
      SchemaField ''evacuateOnReboot'' (ScalarType ''boolean'') (Some ''true''),
      SchemaField ''groups'' (ListType (NamedType (ApiType ''Group'')) Atomic []) None,
      SchemaField ''highAvailability'' (ScalarType ''boolean'') (Some ''true''),
      SchemaField ''installCertificate'' (ScalarType ''boolean'') (Some ''true''),
      SchemaField ''lifecycleEnabled'' (ScalarType ''boolean'') (Some ''true''),
      SchemaField ''maintenance'' (ScalarType ''string'') None,
      SchemaField ''maintenanceReason'' (ScalarType ''string'') None,
      SchemaField ''overcommit'' (MapType (ScalarType ''numeric'') None) None,
      SchemaField ''reboot'' (ScalarType ''boolean'') (Some ''false''),
      SchemaField ''skipTests'' (ScalarType ''boolean'') (Some ''false''),
      SchemaField ''version'' (ScalarType ''string'') None]"

definition schema_HypervisorStatus :: named_type where
  "schema_HypervisorStatus = named_type (ApiType ''HypervisorStatus'') None None None
     [SchemaField ''aggregates'' (ListType (NamedType (ApiType ''Aggregate'')) Atomic []) None,
      SchemaField ''allocation'' (MapType (NamedType (OtherType ''io.k8s.apimachinery.pkg.api.resource.Quantity'')) None) None,
      SchemaField ''capabilities'' (NamedType (ApiType ''Capabilities'')) None,
      SchemaField ''capacity'' (MapType (NamedType (OtherType ''io.k8s.apimachinery.pkg.api.resource.Quantity'')) None) None,
      SchemaField ''cells'' (ListType (NamedType (ApiType ''Cell'')) Atomic []) None,
      SchemaField ''conditions'' (ListType (NamedType (MetaType ''Condition'')) Associative [''type'']) None,
      SchemaField ''domainCapabilities'' (NamedType (ApiType ''DomainCapabilities'')) None,
      SchemaField ''effectiveCapacity'' (MapType (NamedType (OtherType ''io.k8s.apimachinery.pkg.api.resource.Quantity'')) None) None,
      SchemaField ''evicted'' (ScalarType ''boolean'') None,
      SchemaField ''hypervisorId'' (ScalarType ''string'') None,
      SchemaField ''hypervisorVersion'' (ScalarType ''string'') (Some ''unknown''),
      SchemaField ''instances'' (ListType (NamedType (ApiType ''Instance'')) Atomic []) None,
      SchemaField ''internalIp'' (ScalarType ''string'') None,
      SchemaField ''libVirtVersion'' (ScalarType ''string'') (Some ''unknown''),
      SchemaField ''numInstances'' (ScalarType ''numeric'') (Some ''0''),
      SchemaField ''operatingSystem'' (NamedType (ApiType ''OperatingSystemStatus'')) None,
      SchemaField ''serviceId'' (ScalarType ''string'') None,
      SchemaField ''specHash'' (ScalarType ''string'') None,
      SchemaField ''traits'' (ListType (ScalarType ''string'') Atomic []) None,
      SchemaField ''updateStatus'' (NamedType (ApiType ''HyperVisorUpdateStatus'')) None]"

definition schema_Instance :: named_type where
  "schema_Instance = named_type (ApiType ''Instance'') None None None
     [SchemaField ''active'' (ScalarType ''boolean'') None,
      SchemaField ''id'' (ScalarType ''string'') None,
      SchemaField ''name'' (ScalarType ''string'') None]"

definition schema_OperatingSystemStatus :: named_type where
  "schema_OperatingSystemStatus = named_type (ApiType ''OperatingSystemStatus'') None None None
     [SchemaField ''firmwareDate'' (NamedType (MetaType ''Time'')) None,
      SchemaField ''firmwareVendor'' (ScalarType ''string'') None,
      SchemaField ''firmwareVersion'' (ScalarType ''string'') None,
      SchemaField ''gardenLinuxCommitID'' (ScalarType ''string'') None,
      SchemaField ''gardenLinuxFeatures'' (ListType (ScalarType ''string'') Atomic []) None,
      SchemaField ''hardwareModel'' (ScalarType ''string'') None,
      SchemaField ''hardwareSerial'' (ScalarType ''string'') None,
      SchemaField ''hardwareVendor'' (ScalarType ''string'') None,
      SchemaField ''kernelCommandLine'' (ScalarType ''string'') None,
      SchemaField ''kernelName'' (ScalarType ''string'') None,
      SchemaField ''kernelRelease'' (ScalarType ''string'') None,
      SchemaField ''kernelVersion'' (ScalarType ''string'') None,
      SchemaField ''prettyVersion'' (ScalarType ''string'') None,
      SchemaField ''variantID'' (ScalarType ''string'') None,
      SchemaField ''version'' (ScalarType ''string'') None]"

definition schema_TraitGroup :: named_type where
  "schema_TraitGroup = named_type (ApiType ''TraitGroup'') None None None
     [SchemaField ''name'' (ScalarType ''string'') None]"

definition schema_Quantity :: named_type where
  "schema_Quantity = named_type (OtherType ''io.k8s.apimachinery.pkg.api.resource.Quantity'') (Some ''untyped'') (Some (ListType (NamedType (OtherType ''__untyped_atomic_'')) Atomic [])) (Some (MapType (NamedType (OtherType ''__untyped_deduced_'')) (Some Separable)))
     []"

definition schema_meta_Condition :: named_type where
  "schema_meta_Condition = named_type (MetaType ''Condition'') None None None
     [SchemaField ''lastTransitionTime'' (NamedType (MetaType ''Time'')) None,
      SchemaField ''message'' (ScalarType ''string'') None,
      SchemaField ''observedGeneration'' (ScalarType ''numeric'') None,
      SchemaField ''reason'' (ScalarType ''string'') None,
      SchemaField ''status'' (NamedType (MetaType ''ConditionStatus'')) None,
      SchemaField ''type'' (ScalarType ''string'') None]"

definition schema_meta_ConditionStatus :: named_type where
  "schema_meta_ConditionStatus = named_type (MetaType ''ConditionStatus'') (Some ''string'') None None
     []"

definition schema_meta_FieldsV1 :: named_type where
  "schema_meta_FieldsV1 = named_type (MetaType ''FieldsV1'') None None (Some (MapType (UntypedType (ListType (NamedType (OtherType ''__untyped_atomic_'')) Atomic []) (MapType (NamedType (OtherType ''__untyped_deduced_'')) (Some Separable))) None))
     []"

definition schema_meta_ManagedFieldsEntry :: named_type where
  "schema_meta_ManagedFieldsEntry = named_type (MetaType ''ManagedFieldsEntry'') None None None
     [SchemaField ''apiVersion'' (ScalarType ''string'') None,
      SchemaField ''fieldsType'' (ScalarType ''string'') None,
      SchemaField ''fieldsV1'' (NamedType (MetaType ''FieldsV1'')) None,
      SchemaField ''manager'' (ScalarType ''string'') None,
      SchemaField ''operation'' (NamedType (MetaType ''ManagedFieldsOperationType'')) None,
      SchemaField ''subresource'' (ScalarType ''string'') None,
      SchemaField ''time'' (NamedType (MetaType ''Time'')) None]"

definition schema_meta_ManagedFieldsOperationType :: named_type where
  "schema_meta_ManagedFieldsOperationType = named_type (MetaType ''ManagedFieldsOperationType'') (Some ''string'') None None
     []"

definition schema_meta_ObjectMeta :: named_type where
  "schema_meta_ObjectMeta = named_type (MetaType ''ObjectMeta'') None None None
     [SchemaField ''annotations'' (MapType (ScalarType ''string'') None) None,
      SchemaField ''creationTimestamp'' (NamedType (MetaType ''Time'')) None,
      SchemaField ''deletionGracePeriodSeconds'' (ScalarType ''numeric'') None,
      SchemaField ''deletionTimestamp'' (NamedType (MetaType ''Time'')) None,
      SchemaField ''finalizers'' (ListType (ScalarType ''string'') Associative []) None,
      SchemaField ''generateName'' (ScalarType ''string'') None,
      SchemaField ''generation'' (ScalarType ''numeric'') None,
      SchemaField ''labels'' (MapType (ScalarType ''string'') None) None,
      SchemaField ''managedFields'' (ListType (NamedType (MetaType ''ManagedFieldsEntry'')) Atomic []) None,
      SchemaField ''name'' (ScalarType ''string'') None,
      SchemaField ''namespace'' (ScalarType ''string'') None,
      SchemaField ''ownerReferences'' (ListType (NamedType (MetaType ''OwnerReference'')) Associative [''uid'']) None,
      SchemaField ''resourceVersion'' (ScalarType ''string'') None,
      SchemaField ''selfLink'' (ScalarType ''string'') None,
      SchemaField ''uid'' (NamedType (OtherType ''io.k8s.apimachinery.pkg.types.UID'')) None]"

definition schema_meta_OwnerReference :: named_type where
  "schema_meta_OwnerReference = named_type (MetaType ''OwnerReference'') None None None
     [SchemaField ''apiVersion'' (ScalarType ''string'') None,
      SchemaField ''blockOwnerDeletion'' (ScalarType ''boolean'') None,
      SchemaField ''controller'' (ScalarType ''boolean'') None,
      SchemaField ''kind'' (ScalarType ''string'') None,
      SchemaField ''name'' (ScalarType ''string'') None,
      SchemaField ''uid'' (NamedType (OtherType ''io.k8s.apimachinery.pkg.types.UID'')) None]"

definition schema_meta_Time :: named_type where
  "schema_meta_Time = named_type (MetaType ''Time'') (Some ''untyped'') None None
     []"

definition schema_types_UID :: named_type where
  "schema_types_UID = named_type (OtherType ''io.k8s.apimachinery.pkg.types.UID'') (Some ''string'') None None
     []"

definition schema_untyped_atomic :: named_type where
  "schema_untyped_atomic = named_type (OtherType ''__untyped_atomic_'') (Some ''untyped'') (Some (ListType (NamedType (OtherType ''__untyped_atomic_'')) Atomic [])) (Some (MapType (NamedType (OtherType ''__untyped_atomic_'')) (Some Atomic)))
     []"

definition schema_untyped_deduced :: named_type where
  "schema_untyped_deduced = named_type (OtherType ''__untyped_deduced_'') (Some ''untyped'') (Some (ListType (NamedType (OtherType ''__untyped_atomic_'')) Atomic [])) (Some (MapType (NamedType (OtherType ''__untyped_deduced_'')) (Some Separable)))
     []"

definition schemaYAML :: "named_type list" where
  "schemaYAML = [schema_Aggregate, schema_AggregateGroup, schema_Capabilities, schema_Cell, schema_DomainCapabilities,
     schema_Eviction, schema_EvictionSpec, schema_EvictionStatus, schema_Group, schema_HyperVisorUpdateStatus,
     schema_Hypervisor, schema_HypervisorSpec, schema_HypervisorStatus, schema_Instance,
     schema_OperatingSystemStatus, schema_TraitGroup, schema_Quantity, schema_meta_Condition,
     schema_meta_ConditionStatus, schema_meta_FieldsV1, schema_meta_ManagedFieldsEntry,
     schema_meta_ManagedFieldsOperationType, schema_meta_ObjectMeta, schema_meta_OwnerReference,
     schema_meta_Time, schema_types_UID, schema_untyped_atomic, schema_untyped_deduced]"

section \<open>The struct tags\<close>

text \<open>The JSON names of the fields of the apply configurations and the Go types behind the pointers.\<close>

datatype (plugins only: code size) go_shape =
  GoString | GoBool | GoNumber | GoQuantity | GoTime | GoMeta string | GoStruct string | GoSlice go_shape | GoMap go_shape

definition Instance_tags :: "(string \<times> go_shape) list" where
  "Instance_tags = [(''id'', GoString),
     (''name'', GoString),
     (''active'', GoBool)]"

definition HyperVisorUpdateStatus_tags :: "(string \<times> go_shape) list" where
  "HyperVisorUpdateStatus_tags = [(''inProgress'', GoBool),
     (''installed'', GoString),
     (''retry'', GoNumber)]"

definition OperatingSystemStatus_tags :: "(string \<times> go_shape) list" where
  "OperatingSystemStatus_tags = [(''version'', GoString),
     (''variantID'', GoString),
     (''prettyVersion'', GoString),
     (''kernelName'', GoString),
     (''kernelRelease'', GoString),
     (''kernelVersion'', GoString),
     (''kernelCommandLine'', GoString),
     (''hardwareVendor'', GoString),
     (''hardwareModel'', GoString),
     (''hardwareSerial'', GoString),
     (''firmwareVersion'', GoString),
     (''firmwareVendor'', GoString),
     (''firmwareDate'', GoTime),
     (''gardenLinuxCommitID'', GoString),
     (''gardenLinuxFeatures'', GoSlice GoString)]"

definition Capabilities_tags :: "(string \<times> go_shape) list" where
  "Capabilities_tags = [(''cpuArch'', GoString),
     (''memory'', GoQuantity),
     (''cpus'', GoQuantity)]"

definition DomainCapabilities_tags :: "(string \<times> go_shape) list" where
  "DomainCapabilities_tags = [(''arch'', GoString),
     (''hypervisorType'', GoString),
     (''supportedDevices'', GoSlice GoString),
     (''supportedCpuModes'', GoSlice GoString),
     (''supportedFeatures'', GoSlice GoString)]"

definition DomainInfo_tags :: "(string \<times> go_shape) list" where
  "DomainInfo_tags = [(''name'', GoString),
     (''uuid'', GoString),
     (''allocation'', GoMap GoQuantity),
     (''memoryCells'', GoSlice GoNumber),
     (''cpuCells'', GoSlice GoNumber)]"

definition Cell_tags :: "(string \<times> go_shape) list" where
  "Cell_tags = [(''cellID'', GoNumber),
     (''allocation'', GoMap GoQuantity),
     (''capacity'', GoMap GoQuantity),
     (''effectiveCapacity'', GoMap GoQuantity)]"

definition Aggregate_tags :: "(string \<times> go_shape) list" where
  "Aggregate_tags = [(''name'', GoString),
     (''uuid'', GoString),
     (''metadata'', GoMap GoString)]"

definition AggregateGroup_tags :: "(string \<times> go_shape) list" where
  "AggregateGroup_tags = [(''name'', GoString),
     (''uuid'', GoString),
     (''metadata'', GoMap GoString)]"

definition TraitGroup_tags :: "(string \<times> go_shape) list" where
  "TraitGroup_tags = [(''name'', GoString)]"

definition Group_tags :: "(string \<times> go_shape) list" where
  "Group_tags = [(''trait'', GoStruct ''TraitGroup''),
     (''aggregate'', GoStruct ''AggregateGroup'')]"

definition HypervisorSpec_tags :: "(string \<times> go_shape) list" where
  "HypervisorSpec_tags = [(''version'', GoString),
     (''reboot'', GoBool),
     (''evacuateOnReboot'', GoBool),
     (''lifecycleEnabled'', GoBool),
     (''skipTests'', GoBool),
     (''customTraits'', GoSlice GoString),
     (''aggregates'', GoSlice GoString),
     (''groups'', GoSlice (GoStruct ''Group'')),
     (''allowedProjects'', GoSlice GoString),
     (''highAvailability'', GoBool),
     (''createCertManagerCertificate'', GoBool),
     (''installCertificate'', GoBool),
     (''maintenance'', GoString),
     (''maintenanceReason'', GoString),
     (''overcommit'', GoMap GoNumber)]"

definition HypervisorStatus_tags :: "(string \<times> go_shape) list" where
  "HypervisorStatus_tags = [(''libVirtVersion'', GoString),
     (''hypervisorVersion'', GoString),
     (''operatingSystem'', GoStruct ''OperatingSystemStatus''),
     (''updateStatus'', GoStruct ''HyperVisorUpdateStatus''),
     (''instances'', GoSlice (GoStruct ''Instance'')),
     (''capabilities'', GoStruct ''Capabilities''),
     (''domainCapabilities'', GoStruct ''DomainCapabilities''),
     (''allocation'', GoMap GoQuantity),
     (''capacity'', GoMap GoQuantity),
     (''effectiveCapacity'', GoMap GoQuantity),
     (''cells'', GoSlice (GoStruct ''Cell'')),
     (''numInstances'', GoNumber),
     (''hypervisorId'', GoString),
     (''serviceId'', GoString),
     (''traits'', GoSlice GoString),
     (''aggregates'', GoSlice (GoStruct ''Aggregate'')),
     (''internalIp'', GoString),
     (''evicted'', GoBool),
     (''conditions'', GoSlice (GoMeta ''Condition'')),
     (''specHash'', GoString)]"

definition EvictionSpec_tags :: "(string \<times> go_shape) list" where
  "EvictionSpec_tags = [(''hypervisor'', GoString),
     (''reason'', GoString)]"

definition EvictionStatus_tags :: "(string \<times> go_shape) list" where
  "EvictionStatus_tags = [(''hypervisorServiceId'', GoString),
     (''outstandingRamMb'', GoNumber),
     (''outstandingInstances'', GoSlice GoString),
     (''conditions'', GoSlice (GoMeta ''Condition''))]"

definition Hypervisor_tags :: "(string \<times> go_shape) list" where
  "Hypervisor_tags = [(''kind'', GoString),
     (''apiVersion'', GoString),
     (''metadata'', GoMeta ''ObjectMeta''),
     (''spec'', GoStruct ''HypervisorSpec''),
     (''status'', GoStruct ''HypervisorStatus'')]"

definition Eviction_tags :: "(string \<times> go_shape) list" where
  "Eviction_tags = [(''kind'', GoString),
     (''apiVersion'', GoString),
     (''metadata'', GoMeta ''ObjectMeta''),
     (''spec'', GoStruct ''EvictionSpec''),
     (''status'', GoStruct ''EvictionStatus'')]"

definition apply_structs :: "(string \<times> (string \<times> go_shape) list) list" where
  "apply_structs =
    [(''Instance'', Instance_tags),
     (''HyperVisorUpdateStatus'', HyperVisorUpdateStatus_tags),
     (''OperatingSystemStatus'', OperatingSystemStatus_tags),
     (''Capabilities'', Capabilities_tags),
     (''DomainCapabilities'', DomainCapabilities_tags),
     (''DomainInfo'', DomainInfo_tags),
     (''Cell'', Cell_tags),
     (''Aggregate'', Aggregate_tags),
     (''AggregateGroup'', AggregateGroup_tags),
     (''TraitGroup'', TraitGroup_tags),
     (''Group'', Group_tags),
     (''HypervisorSpec'', HypervisorSpec_tags),
     (''HypervisorStatus'', HypervisorStatus_tags),
     (''EvictionSpec'', EvictionSpec_tags),
     (''EvictionStatus'', EvictionStatus_tags),
     (''Hypervisor'', Hypervisor_tags),
     (''Eviction'', Eviction_tags)]"

section \<open>The parser of the schema\<close>

text \<open>It is made once, and a schema that does not parse panics in the first call.\<close>

record 'p parser_state =
  parserOnce :: bool
  parser_var :: "'p option"

definition schema_Parser :: "(named_type list \<Rightarrow> go_error + 'p) \<Rightarrow> 'p parser_state \<Rightarrow> (string + 'p option) \<times> 'p parser_state" where
  "schema_Parser NewParser st =
     (if parserOnce st then (Inr (parser_var st), st)
      else (case NewParser schemaYAML of
              Inr p \<Rightarrow> (Inr (Some p), \<lparr>parserOnce = True, parser_var = Some p\<rparr>)
            | Inl err \<Rightarrow> (Inl (''Failed to parse schema: '' @ Error_text err), \<lparr>parserOnce = True, parser_var = None\<rparr>)))"

lemma schema_Parser_twice:
  "NewParser schemaYAML = Inr p \<Longrightarrow> schema_Parser NewParser \<lparr>parserOnce = False, parser_var = None\<rparr> = (r, st) \<Longrightarrow>
   r = Inr (Some p) \<and> schema_Parser NewParser' st = (r, st)"
  by (auto simp: schema_Parser_def)

section \<open>The table of kinds\<close>

datatype (plugins only: code) any_config =
    AnyAggregate AggregateAC | AnyAggregateGroup AggregateGroupAC | AnyCapabilities CapabilitiesAC | AnyCell CellAC
  | AnyDomainCapabilities DomainCapabilitiesAC | AnyEviction EvictionAC | AnyEvictionSpec EvictionSpecAC
  | AnyEvictionStatus EvictionStatusAC | AnyGroup GroupAC | AnyHypervisor HypervisorAC | AnyHypervisorSpec HypervisorSpecAC
  | AnyHypervisorStatus HypervisorStatusAC | AnyHyperVisorUpdateStatus HyperVisorUpdateStatusAC | AnyInstance InstanceAC
  | AnyOperatingSystemStatus OperatingSystemStatusAC | AnyTraitGroup TraitGroupAC

record GroupVersionKind =
  gvk_Group :: string
  gvk_Version :: string
  gvk_Kind :: string

definition SchemeGroupVersion_WithKind :: "string \<Rightarrow> GroupVersionKind" where
  "SchemeGroupVersion_WithKind k = \<lparr>gvk_Group = ''kvm.cloud.sap'', gvk_Version = ''v1'', gvk_Kind = k\<rparr>"

definition ForKind_cases :: "(GroupVersionKind \<times> any_config) list" where
  "ForKind_cases = map (\<lambda>(k, c). (SchemeGroupVersion_WithKind k, c))
    [(''Aggregate'', AnyAggregate Aggregate_AC), (''AggregateGroup'', AnyAggregateGroup AggregateGroup_AC),
     (''Capabilities'', AnyCapabilities Capabilities_AC), (''Cell'', AnyCell Cell_AC),
     (''DomainCapabilities'', AnyDomainCapabilities DomainCapabilities_AC), (''Eviction'', AnyEviction empty_Eviction_AC),
     (''EvictionSpec'', AnyEvictionSpec EvictionSpec_AC), (''EvictionStatus'', AnyEvictionStatus EvictionStatus_AC),
     (''Group'', AnyGroup Group_AC), (''Hypervisor'', AnyHypervisor empty_Hypervisor_AC),
     (''HypervisorSpec'', AnyHypervisorSpec HypervisorSpec_AC), (''HypervisorStatus'', AnyHypervisorStatus HypervisorStatus_AC),
     (''HyperVisorUpdateStatus'', AnyHyperVisorUpdateStatus HyperVisorUpdateStatus_AC), (''Instance'', AnyInstance Instance_AC),
     (''OperatingSystemStatus'', AnyOperatingSystemStatus OperatingSystemStatus_AC), (''TraitGroup'', AnyTraitGroup TraitGroup_AC)]"

text \<open>\<open>nil\<close> is \<open>None\<close>.\<close>

definition ForKind :: "GroupVersionKind \<Rightarrow> any_config option" where
  "ForKind kind = map_of ForKind_cases kind"

section \<open>The parts fit together\<close>

definition find_type :: "type_name \<Rightarrow> named_type option" where
  "find_type n = List.find (\<lambda>t. nt_name t = n) schemaYAML"

definition find_field :: "string \<Rightarrow> named_type \<Rightarrow> schema_type option" where
  "find_field j t = map_option sf_type (List.find (\<lambda>f. sf_name f = j) (nt_fields t))"

fun shape_matches :: "go_shape \<Rightarrow> schema_type \<Rightarrow> bool" where
  "shape_matches GoString (ScalarType s) \<longleftrightarrow> s = ''string''"
| "shape_matches GoBool (ScalarType s) \<longleftrightarrow> s = ''boolean''"
| "shape_matches GoNumber (ScalarType s) \<longleftrightarrow> s = ''numeric''"
| "shape_matches GoQuantity (NamedType n) \<longleftrightarrow> n = OtherType ''io.k8s.apimachinery.pkg.api.resource.Quantity''"
| "shape_matches GoTime (NamedType n) \<longleftrightarrow> n = MetaType ''Time''"
| "shape_matches (GoMeta k) (NamedType n) \<longleftrightarrow> n = MetaType k"
| "shape_matches (GoStruct k) (NamedType n) \<longleftrightarrow> n = ApiType k"
| "shape_matches (GoSlice g) (ListType t r ks) \<longleftrightarrow> shape_matches g t"
| "shape_matches (GoMap g) (MapType t r) \<longleftrightarrow> shape_matches g t"
| "shape_matches g t \<longleftrightarrow> False"

text \<open>The fields of a struct and of its type in the schema have the same names and matching types.\<close>

definition struct_agrees :: "string \<times> (string \<times> go_shape) list \<Rightarrow> bool" where
  "struct_agrees s = (case s of (k, fs) \<Rightarrow>
     (case find_type (ApiType k) of
        None \<Rightarrow> False
      | Some t \<Rightarrow> distinct (map fst fs) \<and> length fs = length (nt_fields t)
          \<and> list_all (\<lambda>(j, g). case find_field j t of None \<Rightarrow> False | Some ty \<Rightarrow> shape_matches g ty) fs))"

fun refs :: "schema_type \<Rightarrow> type_name list" where
  "refs (ScalarType s) = []"
| "refs (NamedType n) = [n]"
| "refs (ListType t r ks) = refs t"
| "refs (MapType t r) = refs t"
| "refs (UntypedType s t) = refs s @ refs t"

definition named_refs :: "named_type \<Rightarrow> type_name list" where
  "named_refs t = concat (map refs (map sf_type (nt_fields t) @ (case nt_list t of None \<Rightarrow> [] | Some l \<Rightarrow> [l])
     @ (case nt_map t of None \<Rightarrow> [] | Some m \<Rightarrow> [m])))"

text \<open>The lists that server-side apply merges entry by entry, with their keys.\<close>

fun merge_keys :: "schema_type \<Rightarrow> string list" where
  "merge_keys (ListType t Associative ks) = ks"
| "merge_keys t = []"

definition merged_lists :: "(type_name \<times> string \<times> string list) list" where
  "merged_lists = concat (map (\<lambda>t. map (\<lambda>f. (nt_name t, sf_name f, merge_keys (sf_type f)))
     (filter (\<lambda>f. merge_keys (sf_type f) \<noteq> []) (nt_fields t))) schemaYAML)"

text \<open>
  The generated parts agree: every struct with a kind has a type in the schema with the same fields and
  matching types, every type that the schema mentions is defined in it, once; the lists that
  server-side apply merges by key are the conditions of the two statuses, by type, and the owner references, by uid,
  and the one struct without a kind, \<open>DomainInfo\<close>, has no type.
\<close>

lemma generated_parts_agree:
  "list_all (\<lambda>s. (ForKind (SchemeGroupVersion_WithKind (fst s)) = None) = (fst s = ''DomainInfo'')) apply_structs
   \<and> list_all (\<lambda>s. if fst s = ''DomainInfo'' then find_type (ApiType (fst s)) = None else struct_agrees s) apply_structs
   \<and> distinct (map (\<lambda>t. full_name (nt_name t)) schemaYAML)
   \<and> list_all (\<lambda>t. list_all (\<lambda>n. find_type n \<noteq> None) (named_refs t)) schemaYAML
   \<and> merged_lists = [(ApiType ''EvictionStatus'', ''conditions'', [''type'']), (ApiType ''HypervisorStatus'', ''conditions'', [''type'']),
        (MetaType ''ObjectMeta'', ''ownerReferences'', [''uid''])]"
proof (intro conjI)
  show "list_all (\<lambda>s. (ForKind (SchemeGroupVersion_WithKind (fst s)) = None) = (fst s = ''DomainInfo'')) apply_structs"
    by (simp add: apply_structs_def ForKind_def ForKind_cases_def SchemeGroupVersion_WithKind_def)
  show "list_all (\<lambda>s. if fst s = ''DomainInfo'' then find_type (ApiType (fst s)) = None else struct_agrees s) apply_structs"
    by code_simp
  show "distinct (map (\<lambda>t. full_name (nt_name t)) schemaYAML)" by code_simp
  show "list_all (\<lambda>t. list_all (\<lambda>n. find_type n \<noteq> None) (named_refs t)) schemaYAML" by code_simp
  show "merged_lists = [(ApiType ''EvictionStatus'', ''conditions'', [''type'']), (ApiType ''HypervisorStatus'', ''conditions'', [''type'']),
        (MetaType ''ObjectMeta'', ''ownerReferences'', [''uid''])]" by code_simp
qed

section \<open>What the schema admits\<close>

text \<open>
  JSON values, and the specification of the values of a type: scalars of its kind; lists of values of the element
  type, in an associative list with present and pairwise distinct keys (the values themselves when it names no key);
  objects with pairwise distinct, declared fields of the declared types. A named type stands for any of its
  alternatives.
\<close>

datatype (plugins only: code size) json =
  JString string | JBool bool | JNumber int | JList "json list" | JObject "(string \<times> json) list"

definition scalar_of :: "schema_type \<Rightarrow> string option" where
  "scalar_of t = (case t of ScalarType s \<Rightarrow> Some s | NamedType n \<Rightarrow> Option.bind (find_type n) nt_scalar | _ \<Rightarrow> None)"

definition list_of :: "schema_type \<Rightarrow> (schema_type \<times> relationship \<times> string list) option" where
  "list_of t = (case (case t of NamedType n \<Rightarrow> Option.bind (find_type n) nt_list | _ \<Rightarrow> Some t) of
     Some (ListType e r ks) \<Rightarrow> Some (e, r, ks) | _ \<Rightarrow> None)"

definition map_of_type :: "schema_type \<Rightarrow> schema_type option" where
  "map_of_type t = (case (case t of NamedType n \<Rightarrow> Option.bind (find_type n) nt_map | _ \<Rightarrow> Some t) of
     Some (MapType e r) \<Rightarrow> Some e | _ \<Rightarrow> None)"

definition field_of :: "schema_type \<Rightarrow> string \<Rightarrow> schema_type option" where
  "field_of t j = (case map_of_type t of
     Some e \<Rightarrow> Some e
   | None \<Rightarrow> (case t of NamedType n \<Rightarrow> Option.bind (find_type n) (find_field j) | _ \<Rightarrow> None))"

fun key_of :: "string list \<Rightarrow> json \<Rightarrow> json option list" where
  "key_of ks (JObject fs) = map (map_of fs) ks"
| "key_of ks v = map (\<lambda>_. None) ks"

definition keyed :: "relationship \<Rightarrow> string list \<Rightarrow> json list \<Rightarrow> bool" where
  "keyed r ks vs \<longleftrightarrow> (if r \<noteq> Associative then True
     else if ks = [] then distinct vs
     else list_all (\<lambda>v. None \<notin> set (key_of ks v)) vs \<and> distinct (map (key_of ks) vs))"

fun conforms :: "schema_type \<Rightarrow> json \<Rightarrow> bool" where
  "conforms t (JString s) \<longleftrightarrow> scalar_of t \<in> {Some ''string'', Some ''untyped''}"
| "conforms t (JBool b) \<longleftrightarrow> scalar_of t \<in> {Some ''boolean'', Some ''untyped''}"
| "conforms t (JNumber n) \<longleftrightarrow> scalar_of t \<in> {Some ''numeric'', Some ''untyped''}"
| "conforms t (JList vs) \<longleftrightarrow> (case list_of t of None \<Rightarrow> False | Some (e, r, ks) \<Rightarrow> list_all (conforms e) vs \<and> keyed r ks vs)"
| "conforms t (JObject fs) \<longleftrightarrow> distinct (map fst fs)
     \<and> list_all (\<lambda>(j, v). case field_of t j of None \<Rightarrow> False | Some e \<Rightarrow> conforms e v) fs"

end
