(* ===== verification/Apply_Payloads.thy ===== *)
theory Apply_Payloads
  imports Apply_Schema Maintenance_Ctrl Traits_Ctrl Onboarding_Ctrl
begin

text \<open>
  What the controllers apply, built with the generated builders: the status configurations of the onboarding, the
  traits and the maintenance controller, from their start to their apply, and the Eviction of the maintenance controller. The value models of the
  controllers work on smaller records, for a status the \<open>status_payload\<close> of what is built; the
  theorem on the Eviction shows that the builders do not panic, that they set nothing beyond such a record, and that the
  call is the one of the value model (for whole passes over a built status see \<open>Built_Passes\<close>). The rest of the theory has what else is generated with the builders: extraction, the schema
  parser and the table of kinds.
\<close>

section \<open>Status configurations\<close>

text \<open>The part of a status configuration that some controller sets, and that nothing else is set.\<close>

definition status_payload :: "HypervisorStatusAC \<Rightarrow> HypervisorStatusApplyConfiguration" where
  "status_payload b = \<lparr>cfg_Evicted = hypervisorStatus_ac_Evicted b, cfg_HypervisorID = hypervisorStatus_ac_HypervisorID b,
     cfg_ServiceID = hypervisorStatus_ac_ServiceID b, cfg_Traits = hypervisorStatus_ac_Traits b,
     cfg_Conditions = hypervisorStatus_ac_Conditions b\<rparr>"

definition only_applied :: "HypervisorStatusAC \<Rightarrow> bool" where
  "only_applied b \<longleftrightarrow> b = HypervisorStatus_AC\<lparr>
     hypervisorStatus_ac_Evicted := hypervisorStatus_ac_Evicted b, hypervisorStatus_ac_HypervisorID := hypervisorStatus_ac_HypervisorID b,
     hypervisorStatus_ac_ServiceID := hypervisorStatus_ac_ServiceID b, hypervisorStatus_ac_Traits := hypervisorStatus_ac_Traits b,
     hypervisorStatus_ac_Conditions := hypervisorStatus_ac_Conditions b\<rparr>"

text \<open>\<open>utils.SetApplyConfigurationStatusCondition(&statusCfg.Conditions, c)\<close>.\<close>

definition set_condition_in :: "go_time \<Rightarrow> ConditionApplyConfiguration \<Rightarrow> HypervisorStatusAC \<Rightarrow> string + HypervisorStatusAC" where
  "set_condition_in now c b =
     Inr (b\<lparr>hypervisorStatus_ac_Conditions := set_apply_condition now (hypervisorStatus_ac_Conditions b) c\<rparr>)"

definition seed_condition :: "lib \<Rightarrow> Hypervisor \<Rightarrow> string \<Rightarrow> (HypervisorStatusAC \<Rightarrow> string + HypervisorStatusAC) list" where
  "seed_condition L hv conditionType =
     (case FindStatusCondition L (hv_Conditions hv) conditionType of
        None \<Rightarrow> [] | Some c \<Rightarrow> [HypervisorStatusAC_WithConditions [Some (ConditionFromStatus c)]])"

definition onboarding_built :: "lib \<Rightarrow> Hypervisor \<Rightarrow> string + HypervisorStatusAC" where
  "onboarding_built L hv = chain
     ([HypervisorStatusAC_WithHypervisorID (HypervisorID (hv_Status hv)), HypervisorStatusAC_WithServiceID (ServiceID (hv_Status hv))]
      @ seed_condition L hv ConditionTypeOnboarding) HypervisorStatus_AC"

text \<open>A \<open>nil\<close> slice of traits is \<open>None\<close>.\<close>

definition traits_built :: "lib \<Rightarrow> go_time \<Rightarrow> Hypervisor \<Rightarrow> string list option \<Rightarrow> condition \<Rightarrow> string + HypervisorStatusAC" where
  "traits_built L now hv traits cond = chain
     (seed_condition L hv ConditionTypeTraitsUpdated
      @ [set_condition_in now (ac_condition (Type cond) (Status cond) (Reason cond) (Message cond))]
      @ (case traits of None \<Rightarrow> [] | Some ts \<Rightarrow> [HypervisorStatusAC_WithTraits ts])) HypervisorStatus_AC"

definition maintenance_built :: "lib \<Rightarrow> go_time \<Rightarrow> Hypervisor \<Rightarrow> string + HypervisorStatusAC" where
  "maintenance_built L now hv = chain
     ([HypervisorStatusAC_WithEvicted (Evicted (hv_Status hv))]
      @ (case FindStatusCondition L (hv_Conditions hv) ConditionTypeHypervisorDisabled of
           None \<Rightarrow> [] | Some condition \<Rightarrow> [set_condition_in now (ConditionFromStatus condition)])) HypervisorStatus_AC"

text \<open>
  \<open>r.Status().Apply(ctx, apiv1.Hypervisor(hv.Name).WithStatus(statusCfg), ...)\<close>: the call for the object, when it
  has the name and the kind that the API server needs.
\<close>

definition status_object :: "string \<Rightarrow> HypervisorStatusAC \<Rightarrow> string + HypervisorAC" where
  "status_object name statusCfg =
     (case Hypervisor_AC name of Inl panic \<Rightarrow> Inl panic | Inr b \<Rightarrow> HypervisorAC_WithStatus (Some statusCfg) b)"

definition status_call :: "string \<Rightarrow> string + HypervisorStatusAC \<Rightarrow> string \<Rightarrow> call option" where
  "status_call name built fieldOwner =
     (case built of Inl _ \<Rightarrow> None
      | Inr statusCfg \<Rightarrow>
          (case status_object name statusCfg of Inl _ \<Rightarrow> None
           | Inr obj \<Rightarrow>
               (case (HypervisorAC_GetKind obj, HypervisorAC_GetAPIVersion obj, fst (HypervisorAC_GetName obj), hypervisor_ac_Status obj) of
                  (Some kind, Some version, Some n, Some st) \<Rightarrow>
                    if kind = ''Hypervisor'' \<and> version = GroupVersion \<and> only_applied st
                    then Some (Kube (StatusApplyHypervisor n (status_payload st) fieldOwner)) else None
                | _ \<Rightarrow> None)))"

lemmas built_defs = HypervisorStatusAC_WithHypervisorID_def HypervisorStatusAC_WithServiceID_def HypervisorStatusAC_WithConditions_def
  HypervisorStatusAC_WithTraits_def HypervisorStatusAC_WithEvicted_def HypervisorStatus_AC_def set_condition_in_def seed_condition_def
  append_pointed_cases

lemma status_object_eq:
  "status_object name st = Inr (empty_Hypervisor_AC\<lparr>hypervisor_ac_TypeMeta := \<lparr>tm_Kind_AC = Some ''Hypervisor'', tm_APIVersion_AC = Some GroupVersion\<rparr>,
     hypervisor_ac_ObjectMeta := Some (no_object_meta\<lparr>om_Name := Some name\<rparr>), hypervisor_ac_Status := Some st\<rparr>)"
  by (simp add: status_object_def Hypervisor_AC_def HypervisorAC_WithName_def HypervisorAC_on_meta_def HypervisorAC_ensureObjectMeta_def
      HypervisorAC_WithKind_def HypervisorAC_WithAPIVersion_def HypervisorAC_WithStatus_def empty_Hypervisor_AC_def no_type_meta_def Let_def)

lemma status_call_built:
  "only_applied st \<Longrightarrow> status_call name (Inr st) ow = Some (Kube (StatusApplyHypervisor name (status_payload st) ow))"
  by (simp add: status_call_def status_object_eq HypervisorAC_GetKind_def HypervisorAC_GetAPIVersion_def HypervisorAC_GetName_def
      HypervisorAC_ensureObjectMeta_def empty_Hypervisor_AC_def Let_def)

section \<open>The Eviction of the maintenance controller\<close>

definition eviction_owner :: "Hypervisor \<Rightarrow> OwnerRef" where
  "eviction_owner hv = \<lparr>or_APIVersion = GroupVersion, or_Kind = ''Hypervisor'', or_Name = hv_Name hv,
     or_UID = UID (Meta hv), or_Controller = Some True, or_BlockOwnerDeletion = Some True\<rparr>"

definition eviction_spec_built :: "Hypervisor \<Rightarrow> string + EvictionSpecAC" where
  "eviction_spec_built hv = chain [EvictionSpecAC_WithHypervisor (hv_Name hv),
     EvictionSpecAC_WithReason ''openstack-hypervisor-operator maintenance''] EvictionSpec_AC"

definition eviction_built :: "(string \<times> string) list \<Rightarrow> Hypervisor \<Rightarrow> string + EvictionAC" where
  "eviction_built evictionLabels hv =
     (case eviction_spec_built hv of Inl panic \<Rightarrow> Inl panic
      | Inr sp \<Rightarrow>
          (case Eviction_AC (hv_Name hv) of Inl panic \<Rightarrow> Inl panic
           | Inr b \<Rightarrow> chain [EvictionAC_WithLabels evictionLabels, EvictionAC_WithOwnerReferences [Some (eviction_owner hv)],
               EvictionAC_WithSpec (Some sp)] b))"

text \<open>The call that applies it, when everything the value model has is set and nothing else is.\<close>

definition eviction_call :: "string + EvictionAC \<Rightarrow> string \<Rightarrow> call option" where
  "eviction_call built fieldOwner =
     (case built of Inl _ \<Rightarrow> None
      | Inr b \<Rightarrow>
          (case (eviction_ac_ObjectMeta b, eviction_ac_Spec b, eviction_ac_Status b) of
             (Some m, Some sp, None) \<Rightarrow>
               (case (om_Name m, evictionSpec_ac_Hypervisor sp, evictionSpec_ac_Reason sp) of
                  (Some n, Some h, Some r) \<Rightarrow>
                    if m = no_object_meta\<lparr>om_Name := Some n, om_Labels := om_Labels m, om_OwnerReferences := om_OwnerReferences m\<rparr>
                      \<and> EvictionAC_GetKind b = Some ''Eviction'' \<and> EvictionAC_GetAPIVersion b = Some GroupVersion
                    then Some (Kube (ApplyEviction \<lparr>ea_Name = n,
                      ea_Labels = (case om_Labels m of None \<Rightarrow> Map.empty | Some l \<Rightarrow> l), ea_OwnerReferences = om_OwnerReferences m,
                      ea_Spec = \<lparr>es_Hypervisor = h, es_Reason = r\<rparr>\<rparr> fieldOwner)) else None
                | _ \<Rightarrow> None)
           | _ \<Rightarrow> None))"

lemma ensureEviction_first:
  "\<exists>cs. snd (ensureEviction L K labels hv tr) = tr @ Kube (ApplyEviction \<lparr>ea_Name = hv_Name hv,
     ea_Labels = transfer_labels labels (Labels (Meta hv)) Map.empty, ea_OwnerReferences = [eviction_owner hv],
     ea_Spec = \<lparr>es_Hypervisor = hv_Name hv, es_Reason = ''openstack-hypervisor-operator maintenance''\<rparr>\<rparr>
     HypervisorMaintenanceControllerName) # cs"
  by (auto simp: ensureEviction_def eviction_owner_def ask_def Let_def split: option.split sum.split)

lemma eviction_built_call:
  assumes "distinct (map fst es)"
  shows "eviction_call (eviction_built es hv) ow = Some (Kube (ApplyEviction \<lparr>ea_Name = hv_Name hv, ea_Labels = map_of es,
     ea_OwnerReferences = [eviction_owner hv],
     ea_Spec = \<lparr>es_Hypervisor = hv_Name hv, es_Reason = ''openstack-hypervisor-operator maintenance''\<rparr>\<rparr> ow))"
  using map_of_rev [OF assms]
  by (simp add: eviction_built_def eviction_spec_built_def EvictionSpecAC_WithHypervisor_def EvictionSpecAC_WithReason_def EvictionSpec_AC_def
      Eviction_AC_def EvictionAC_WithName_def EvictionAC_WithKind_def EvictionAC_WithAPIVersion_def EvictionAC_WithLabels_def
      EvictionAC_WithOwnerReferences_def EvictionAC_WithSpec_def EvictionAC_on_meta_def EvictionAC_ensureObjectMeta_def empty_Eviction_AC_def
      EvictionAC_GetKind_def EvictionAC_GetAPIVersion_def eviction_call_def put_entries_value append_pointed_cases no_object_meta_def no_type_meta_def Let_def)

text \<open>
  C38. The Eviction that \<open>ensureEviction\<close> builds from the labels to transfer is applied as the value model applies it, in
  whatever order Go ranges over the labels: the builders neither dereference a nil pointer nor write into a nil
  map, also when there is no label, and the first call is the apply of the built object.
\<close>

theorem eviction_apply_built:
  assumes "distinct (map fst es)" and "map_of es = transfer_labels labels (Labels (Meta hv)) Map.empty"
  shows "\<exists>c cs. eviction_call (eviction_built es hv) HypervisorMaintenanceControllerName = Some c
    \<and> snd (ensureEviction L K labels hv tr) = tr @ c # cs"
  using eviction_built_call [OF assms(1), of hv] ensureEviction_first [of L K labels hv tr] assms(2) by auto

theorem eviction_apply_built_witness:
  "\<exists>c cs. eviction_call (eviction_built [(''b'', ''2''), (''a'', ''1'')] ((empty_hypervisor ''h'')\<lparr>Meta := (empty_meta ''h'')
      \<lparr>Labels := [''a'' \<mapsto> ''1'', ''b'' \<mapsto> ''2'', ''x'' \<mapsto> ''3'']\<rparr>\<rparr>)) HypervisorMaintenanceControllerName = Some c
    \<and> snd (ensureEviction list_lib (sample_kube (empty_hypervisor ''h'') (empty_eviction ''h'') (empty_node ''h'')) [''a'', ''b'', ''c'']
        ((empty_hypervisor ''h'')\<lparr>Meta := (empty_meta ''h'')\<lparr>Labels := [''a'' \<mapsto> ''1'', ''b'' \<mapsto> ''2'', ''x'' \<mapsto> ''3'']\<rparr>\<rparr>) []) = [] @ c # cs"
  by (rule eviction_apply_built) (auto simp: fun_eq_iff)

section \<open>What else is generated\<close>

text \<open>
  \<open>ExtractHypervisorFrom\<close> and its variants: the configuration that a field manager applied before.
  \<open>managedfields.ExtractInto\<close>, with the parser of the schema, is a parameter: it gets the object, the type's name, the
  manager, the subresource and an empty configuration to fill. The outer sum is a panic.
\<close>

definition ExtractHypervisorFrom ::
    "(Hypervisor \<Rightarrow> string \<Rightarrow> string \<Rightarrow> string \<Rightarrow> HypervisorAC \<Rightarrow> go_error option \<times> HypervisorAC)
     \<Rightarrow> Hypervisor \<Rightarrow> string \<Rightarrow> string \<Rightarrow> string + (go_error + HypervisorAC)" where
  "ExtractHypervisorFrom ExtractInto hypervisor fieldManager subresource =
     (case ExtractInto hypervisor (full_name (ApiType ''Hypervisor'')) fieldManager subresource empty_Hypervisor_AC of
        (Some err, b) \<Rightarrow> Inr (Inl err)
      | (None, b) \<Rightarrow> map_sum id Inr (chain [HypervisorAC_WithName (hv_Name hypervisor), HypervisorAC_WithKind ''Hypervisor'',
          HypervisorAC_WithAPIVersion ''kvm.cloud.sap/v1''] b))"

definition ExtractHypervisor ::
    "(Hypervisor \<Rightarrow> string \<Rightarrow> string \<Rightarrow> string \<Rightarrow> HypervisorAC \<Rightarrow> go_error option \<times> HypervisorAC)
     \<Rightarrow> Hypervisor \<Rightarrow> string \<Rightarrow> string + (go_error + HypervisorAC)" where
  "ExtractHypervisor ExtractInto hypervisor fieldManager = ExtractHypervisorFrom ExtractInto hypervisor fieldManager []"

definition ExtractHypervisorStatus ::
    "(Hypervisor \<Rightarrow> string \<Rightarrow> string \<Rightarrow> string \<Rightarrow> HypervisorAC \<Rightarrow> go_error option \<times> HypervisorAC)
     \<Rightarrow> Hypervisor \<Rightarrow> string \<Rightarrow> string + (go_error + HypervisorAC)" where
  "ExtractHypervisorStatus ExtractInto hypervisor fieldManager = ExtractHypervisorFrom ExtractInto hypervisor fieldManager ''status''"

definition ExtractEvictionFrom ::
    "(Eviction \<Rightarrow> string \<Rightarrow> string \<Rightarrow> string \<Rightarrow> EvictionAC \<Rightarrow> go_error option \<times> EvictionAC)
     \<Rightarrow> Eviction \<Rightarrow> string \<Rightarrow> string \<Rightarrow> string + (go_error + EvictionAC)" where
  "ExtractEvictionFrom ExtractInto eviction fieldManager subresource =
     (case ExtractInto eviction (full_name (ApiType ''Eviction'')) fieldManager subresource empty_Eviction_AC of
        (Some err, b) \<Rightarrow> Inr (Inl err)
      | (None, b) \<Rightarrow> map_sum id Inr (chain [EvictionAC_WithName (Name (ev_Meta eviction)), EvictionAC_WithKind ''Eviction'',
          EvictionAC_WithAPIVersion ''kvm.cloud.sap/v1''] b))"

definition ExtractEviction ::
    "(Eviction \<Rightarrow> string \<Rightarrow> string \<Rightarrow> string \<Rightarrow> EvictionAC \<Rightarrow> go_error option \<times> EvictionAC)
     \<Rightarrow> Eviction \<Rightarrow> string \<Rightarrow> string + (go_error + EvictionAC)" where
  "ExtractEviction ExtractInto eviction fieldManager = ExtractEvictionFrom ExtractInto eviction fieldManager []"

definition ExtractEvictionStatus ::
    "(Eviction \<Rightarrow> string \<Rightarrow> string \<Rightarrow> string \<Rightarrow> EvictionAC \<Rightarrow> go_error option \<times> EvictionAC)
     \<Rightarrow> Eviction \<Rightarrow> string \<Rightarrow> string + (go_error + EvictionAC)" where
  "ExtractEvictionStatus ExtractInto eviction fieldManager = ExtractEvictionFrom ExtractInto eviction fieldManager ''status''"

text \<open>Whatever was extracted, the result names the object it was extracted from.\<close>

lemma extracted_named:
  assumes "ExtractHypervisorFrom X hv fm sub = Inr (Inr b)"
  shows "fst (HypervisorAC_GetName b) = Some (hv_Name hv) \<and> HypervisorAC_GetKind b = Some ''Hypervisor''
    \<and> HypervisorAC_GetAPIVersion b = Some GroupVersion"
  using assms
  by (auto simp: ExtractHypervisorFrom_def HypervisorAC_WithName_def HypervisorAC_on_meta_def HypervisorAC_ensureObjectMeta_def
      HypervisorAC_WithKind_def HypervisorAC_WithAPIVersion_def HypervisorAC_GetName_def HypervisorAC_GetKind_def
      HypervisorAC_GetAPIVersion_def Let_def Option.is_none_def split: prod.splits option.splits if_splits)

end
