(* ===== verification/Built_Passes.thy ===== *)
theory Built_Passes
  imports Apply_Payloads
begin

text \<open>
  The passes of the maintenance and the onboarding controller once more, now over the status configuration that the code
  really builds: the generated struct, changed by calls of its builders (\<^verbatim>\<open>statusCfg.WithEvicted\<close>,
  \<^verbatim>\<open>utils.SetApplyConfigurationStatusCondition(&statusCfg.Conditions, ...)\<close>) and applied as part of a built object.
  The theorem is that these passes are the ones of the value models, call by call. A panic of a builder is carried as
  \<open>Inl\<close> to the apply and ends the pass there with an error (controller-runtime turns it into one); that none
  occurs is part of what is proved.
\<close>

type_synonym built_status = "string + HypervisorStatusAC"

definition then_call :: "(HypervisorStatusAC \<Rightarrow> string + HypervisorStatusAC) \<Rightarrow> built_status \<Rightarrow> built_status" where
  "then_call f b = (case b of Inl panic \<Rightarrow> Inl panic | Inr st \<Rightarrow> f st)"

text \<open>\<open>Status().Apply(ctx, apiv1.Hypervisor(name).WithStatus(statusCfg), ForceOwnership, FieldOwner(fieldOwner))\<close>.\<close>

definition apply_built :: "kube \<Rightarrow> string \<Rightarrow> built_status \<Rightarrow> string \<Rightarrow> trace \<Rightarrow> go_error option \<times> trace" where
  "apply_built K name statusCfg fieldOwner tr =
     (case status_call name statusCfg fieldOwner of
        Some (Kube (StatusApplyHypervisor n cfg ow)) \<Rightarrow>
          ask (k_status_apply_Hypervisor K n cfg) (Kube (StatusApplyHypervisor n cfg ow)) tr
      | _ \<Rightarrow> (Some (ErrorNew ''panic''), tr))"

section \<open>The maintenance controller\<close>

definition retainStatusCondition_built ::
    "lib \<Rightarrow> go_time \<Rightarrow> condition list \<Rightarrow> string \<Rightarrow> built_status
     \<Rightarrow> built_status" where
  "retainStatusCondition_built L now conditions conditionType cfg =
     (case FindStatusCondition L conditions conditionType of
        None \<Rightarrow> cfg
      | Some condition \<Rightarrow> then_call (set_condition_in now (ConditionFromStatus condition)) cfg)"

definition reconcileComputeService_built ::
    "lib \<Rightarrow> nova \<Rightarrow> go_time \<Rightarrow> Hypervisor \<Rightarrow> built_status \<Rightarrow> trace
     \<Rightarrow> (go_error option \<times> built_status) \<times> trace" where
  "reconcileComputeService_built L N now hv cfg tr =
     (let serviceId = ServiceID (hv_Status hv);
          existing = FindStatusCondition L (hv_Conditions hv) ConditionTypeHypervisorDisabled in
      if serviceId = [] then ((None, cfg), tr)
      else if hv_Maintenance hv = MaintenanceUnset
      then
        (let enabled = then_call (set_condition_in now (ac_condition ConditionTypeHypervisorDisabled ConditionFalse
                         ConditionReasonSucceeded ''Hypervisor is enabled'')) cfg in
         if existing = None \<or> Status (the existing) \<noteq> ConditionFalse
         then
           (let enableService = \<lparr>us_Status = ServiceEnabled, us_DisabledReason = [], us_ForcedDown = Some False\<rparr> in
            case ask (n_services_Update N serviceId enableService)
                   (Compute (ServicesUpdate serviceId enableService)) tr of
              (Some e, tr1) \<Rightarrow>
                let err = Errorf ''failed to enable hypervisor due to '' e in
                ((Some err, then_call (set_condition_in now (ac_condition ConditionTypeHypervisorDisabled ConditionUnknown
                    ConditionReasonFailed (Error_text err))) cfg), tr1)
            | (None, tr1) \<Rightarrow> ((None, enabled), tr1))
         else ((None, enabled), tr))
      else if hv_Maintenance hv \<in> set draining_modes
      then
        (let disabled = then_call (set_condition_in now (ac_condition ConditionTypeHypervisorDisabled ConditionTrue
                          ConditionReasonSucceeded ''Hypervisor is disabled'')) cfg in
         if existing = None \<or> Status (the existing) \<noteq> ConditionTrue
         then
           (let disableService = \<lparr>us_Status = ServiceDisabled,
                  us_DisabledReason = ''Hypervisor CRD: spec.maintenance='' @ hv_Maintenance hv, us_ForcedDown = None\<rparr> in
            case ask (n_services_Update N serviceId disableService)
                   (Compute (ServicesUpdate serviceId disableService)) tr of
              (Some e, tr1) \<Rightarrow>
                let err = Errorf ''failed to disable hypervisor due to '' e in
                ((Some err, then_call (set_condition_in now (ac_condition ConditionTypeHypervisorDisabled ConditionUnknown
                    ConditionReasonFailed (Error_text err))) cfg), tr1)
            | (None, tr1) \<Rightarrow> ((None, disabled), tr1))
         else ((None, disabled), tr))
      else ((None, cfg), tr))"

definition settleIncomingMigrations_built ::
    "lib \<Rightarrow> clock \<Rightarrow> nova \<Rightarrow> Hypervisor \<Rightarrow> built_status \<Rightarrow> trace
     \<Rightarrow> ((go_error + bool) \<times> built_status) \<times> trace" where
  "settleIncomingMigrations_built L C N hv cfg tr =
     (let now = clk_Now C; ty = ConditionTypeIncomingMigrationsSettled in
      case SettleIncomingMigrations L C N (hv_Name hv) tr of
        ((aborted, waiting, Some e), tr1) \<Rightarrow>
          let err = Errorf (''settling incoming migrations for '' @ hv_Name hv @ '': '') e in
          ((Inl err, then_call (set_condition_in now (ac_condition ty ConditionUnknown ConditionReasonFailed (Error_text err))) cfg), tr1)
      | ((aborted, waiting, None), tr1) \<Rightarrow>
          if length waiting > 0
          then ((Inr False, then_call (set_condition_in now (ac_condition ty ConditionFalse ConditionReasonWaiting
                 (''Waiting for '' @ fmt_d (int (length waiting)) @ '' non-abortable incoming migration(s) to complete''))) cfg), tr1)
          else if length aborted > 0
          then ((Inr False, then_call (set_condition_in now (ac_condition ty ConditionFalse ConditionReasonAborting
                 (''Aborted '' @ fmt_d (int (length aborted)) @ '' incoming migration(s); verifying on next reconcile''))) cfg), tr1)
          else ((Inr True, then_call (set_condition_in now (ac_condition ty ConditionTrue ConditionReasonSettled
                 ''No incoming migrations targeting this host'')) cfg), tr1))"

definition reconcileEviction_built ::
    "lib \<Rightarrow> kube \<Rightarrow> clock \<Rightarrow> nova \<Rightarrow> string list \<Rightarrow> Hypervisor \<Rightarrow> built_status \<Rightarrow> trace
     \<Rightarrow> ((bool \<times> go_error option) \<times> built_status) \<times> trace" where
  "reconcileEviction_built L K C N transferLabels hv cfg tr =
     (let now = clk_Now C; conds = hv_Conditions hv in
      if hv_Maintenance hv = MaintenanceUnset
      then
        (if \<not> Evicted (hv_Status hv)
            \<and> FindStatusCondition L conds ConditionTypeEvicting = None
            \<and> FindStatusCondition L conds ConditionTypeIncomingMigrationsSettled = None
         then (((False, None), cfg), tr)
         else
           (case delete_eviction L K (hv_Name hv) tr of
              (Some err, tr1) \<Rightarrow> (((False, Some err), cfg), tr1)
            | (None, tr1) \<Rightarrow> (((False, None), then_call (HypervisorStatusAC_WithEvicted False) cfg), tr1)))
      else if hv_Maintenance hv \<in> set draining_modes
      then
        (let evictingCondition = FindStatusCondition L conds ConditionTypeEvicting;
             migrationsCondition = FindStatusCondition L conds ConditionTypeIncomingMigrationsSettled;
             succeeded = (case evictingCondition of None \<Rightarrow> False
                | Some c \<Rightarrow> Status c = ConditionFalse \<and> Reason c = ConditionReasonSucceeded) in
         if succeeded \<and> NumInstances (hv_Status hv) > 0
         then
           (case delete_eviction L K (hv_Name hv) tr of
              (Some delErr, tr1) \<Rightarrow> (((False, Some delErr), cfg), tr1)
            | (None, tr1) \<Rightarrow>
                (((False, None),
                  retainStatusCondition_built L now conds ConditionTypeIncomingMigrationsSettled
                    (then_call (set_condition_in now (ac_condition ConditionTypeEvicting ConditionTrue ConditionReasonRunning
                       (''Re-entering drain: '' @ fmt_d (NumInstances (hv_Status hv)) @ '' instance(s) still on host'')))
                      (then_call (HypervisorStatusAC_WithEvicted False) cfg))), tr1))
         else if succeeded \<and> Evicted (hv_Status hv)
                 \<and> (case migrationsCondition of None \<Rightarrow> False
                    | Some c \<Rightarrow> Status c = ConditionTrue \<and> Reason c = ConditionReasonSettled)
         then (((False, None),
                retainStatusCondition_built L now conds ConditionTypeIncomingMigrationsSettled
                  (retainStatusCondition_built L now conds ConditionTypeEvicting cfg)), tr)
         else
           (case settleIncomingMigrations_built L C N hv cfg tr of
              ((Inl err, cfg1), tr1) \<Rightarrow>
                (((False, Some err), retainStatusCondition_built L now conds ConditionTypeEvicting (then_call (HypervisorStatusAC_WithEvicted False) cfg1)), tr1)
            | ((Inr False, cfg1), tr1) \<Rightarrow>
                (((True, None), retainStatusCondition_built L now conds ConditionTypeEvicting (then_call (HypervisorStatusAC_WithEvicted False) cfg1)), tr1)
            | ((Inr True, cfg1), tr1) \<Rightarrow>
                if (case evictingCondition of None \<Rightarrow> False | Some c \<Rightarrow> Reason c = ConditionReasonSucceeded)
                then (((False, None), retainStatusCondition_built L now conds ConditionTypeEvicting cfg1), tr1)
                else
                  (case ensureEviction L K transferLabels hv tr1 of
                     (Inl err, tr2) \<Rightarrow> (((False, Some err), cfg1), tr2)
                   | (Inr status, tr2) \<Rightarrow>
                       if status = ConditionFalse
                       then
                         (if NumInstances (hv_Status hv) > 0
                          then
                            (case delete_eviction L K (hv_Name hv) tr2 of
                               (Some delErr, tr3) \<Rightarrow> (((False, Some delErr), cfg1), tr3)
                             | (None, tr3) \<Rightarrow>
                                 (((False, None),
                                   then_call (set_condition_in now (ac_condition ConditionTypeEvicting ConditionTrue ConditionReasonRunning
                                     (''Restarting drain: '' @ fmt_d (NumInstances (hv_Status hv)) @ '' instance(s) still on host'')))
                                     (then_call (HypervisorStatusAC_WithEvicted False) cfg1)), tr3))
                          else (((False, None), then_call (set_condition_in now (ac_condition ConditionTypeEvicting status
                                  ConditionReasonSucceeded ''Evicted'')) (then_call (HypervisorStatusAC_WithEvicted True) cfg1)), tr2))
                       else (((False, None), then_call (set_condition_in now (ac_condition ConditionTypeEvicting status
                               ConditionReasonRunning ''Evicting'')) (then_call (HypervisorStatusAC_WithEvicted False) cfg1)), tr2))))
      else (((False, None), cfg), tr))"

definition maintenance_pass_built ::
    "lib \<Rightarrow> kube \<Rightarrow> clock \<Rightarrow> nova \<Rightarrow> string list \<Rightarrow> Hypervisor \<Rightarrow> trace
     \<Rightarrow> ((bool \<times> go_error option) \<times> built_status) \<times> trace" where
  "maintenance_pass_built L K C N transferLabels hv tr =
     (let now = clk_Now C in
      case reconcileComputeService_built L N now hv (maintenance_built L now hv) tr of
        ((Some err, cfg), tr1) \<Rightarrow>
          (((False, Some err),
            retainStatusCondition_built L now (hv_Conditions hv) ConditionTypeIncomingMigrationsSettled
              (retainStatusCondition_built L now (hv_Conditions hv) ConditionTypeEvicting cfg)), tr1)
      | ((None, cfg), tr1) \<Rightarrow> reconcileEviction_built L K C N transferLabels hv cfg tr1)"

definition Maintenance_Reconcile_built ::
    "lib \<Rightarrow> kube \<Rightarrow> clock \<Rightarrow> nova \<Rightarrow> string list \<Rightarrow> string \<Rightarrow> trace \<Rightarrow> reconcile_result \<times> trace" where
  "Maintenance_Reconcile_built L K C N transferLabels name tr =
     (case ask (k_get_Hypervisor K name) (Kube (GetHypervisor name)) tr of
        (Inl err, tr1) \<Rightarrow> ((no_requeue, IgnoreNotFound L err), tr1)
      | (Inr hv, tr1) \<Rightarrow>
          if IsStatusConditionTrue L (hv_Conditions hv) ConditionTypeOnboarding then (reconcile_ok, tr1)
          else
            (case maintenance_pass_built L K C N transferLabels hv tr1 of
               (((requeue, err), cfg), tr2) \<Rightarrow>
                 (case apply_built K (hv_Name hv) cfg HypervisorMaintenanceControllerName tr2 of
                    (applyErr, tr3) \<Rightarrow>
                      if err \<noteq> None \<or> applyErr \<noteq> None then ((no_requeue, errors_Join [err, applyErr]), tr3)
                      else if requeue then ((\<lparr>RequeueAfter = settleRequeueInterval\<rparr>, None), tr3)
                      else (reconcile_ok, tr3))))"

section \<open>The onboarding controller\<close>

definition set_onboarding_built :: "go_time \<Rightarrow> ConditionStatus \<Rightarrow> string \<Rightarrow> string \<Rightarrow> built_status \<Rightarrow> built_status" where
  "set_onboarding_built now st reason msg = then_call (set_condition_in now (ac_condition ConditionTypeOnboarding st reason msg))"

definition apply_onboarding_built :: "kube \<Rightarrow> Hypervisor \<Rightarrow> built_status \<Rightarrow> trace \<Rightarrow> go_error option \<times> trace" where
  "apply_onboarding_built K hv statusCfg tr = apply_built K (hv_Name hv) statusCfg OnboardingControllerName tr"

definition abortOnboarding_built ::
    "lib \<Rightarrow> kube \<Rightarrow> OnboardingController \<Rightarrow> go_time \<Rightarrow> Hypervisor \<Rightarrow> string \<Rightarrow> string \<Rightarrow> built_status
     \<Rightarrow> trace \<Rightarrow> go_error option \<times> trace" where
  "abortOnboarding_built L K r now hv computeHost message statusCfg tr =
     (case FindStatusCondition L (hv_Conditions hv) ConditionTypeOnboarding of
        None \<Rightarrow> (None, tr)
      | Some status \<Rightarrow>
          if Reason status = ConditionReasonSucceeded then (None, tr)
          else if Status status = ConditionFalse \<and> Reason status = ConditionReasonAborted \<and> Message status = message
          then (None, tr)
          else
            (case deleteTestServers L r computeHost tr of
               (Some err, tr1) \<Rightarrow>
                 (case apply_onboarding_built K hv (set_onboarding_built now ConditionTrue ConditionReasonAborted (Error_text err) statusCfg) tr1 of
                    (err2, tr2) \<Rightarrow> (errors_Join [Some err, err2], tr2))
             | (None, tr1) \<Rightarrow>
                 apply_onboarding_built K hv (set_onboarding_built now ConditionFalse ConditionReasonAborted message statusCfg) tr1))"

definition initialOnboarding_built ::
    "kube \<Rightarrow> OnboardingController \<Rightarrow> go_time \<Rightarrow> Hypervisor \<Rightarrow> built_status
     \<Rightarrow> trace \<Rightarrow> go_error option \<times> trace" where
  "initialOnboarding_built K r now hv statusCfg tr =
     (let zone = map_get (Labels (Meta hv)) LabelTopologyZone in
      if zone = []
      then (Some (ErrorNew (''cannot find availability-zone label '' @ LabelTopologyZone @ '' on node'')), tr)
      else if \<not> slicesEqualUnordered (map agg_Name (Aggregates (hv_Status hv))) [zone, testAggregateName]
      then (Some errRequeue, tr)
      else
        (case ask (n_services_Update (computeClient r) (ServiceID (hv_Status hv)) enable_opts)
                (Compute (ServicesUpdate (ServiceID (hv_Status hv)) enable_opts)) tr of
           (Some err, tr1) \<Rightarrow> (Some err, tr1)
         | (None, tr1) \<Rightarrow>
             apply_onboarding_built K hv (set_onboarding_built now ConditionTrue ConditionReasonTesting ''Running onboarding tests'' statusCfg) tr1))"

definition completeOnboarding_built ::
    "lib \<Rightarrow> kube \<Rightarrow> OnboardingController \<Rightarrow> go_time \<Rightarrow> string \<Rightarrow> Hypervisor \<Rightarrow> built_status
     \<Rightarrow> trace \<Rightarrow> reconcile_result \<times> trace" where
  "completeOnboarding_built L K r now host hv statusCfg tr =
     (if (case FindStatusCondition L (hv_Conditions hv) ConditionTypeOnboarding of
            Some c \<Rightarrow> Reason c = ConditionReasonHandover | None \<Rightarrow> False)
      then
        (if \<not> IsStatusConditionTrue L (hv_Conditions hv) ConditionTypeAggregatesUpdated then (reconcile_ok, tr)
         else if \<not> IsStatusConditionTrue L (hv_Conditions hv) ConditionTypeTraitsUpdated
         then ((\<lparr>RequeueAfter = getRequeueInterval r\<rparr>, None), tr)
         else if HighAvailability (Spec hv) \<and> \<not> IsStatusConditionTrue L (hv_Conditions hv) ConditionTypeHaEnabled
         then (reconcile_ok, tr)
         else
           (case apply_onboarding_built K hv (set_onboarding_built now ConditionFalse ConditionReasonSucceeded ''Onboarding completed'' statusCfg) tr of
              (err, tr1) \<Rightarrow> ((no_requeue, err), tr1)))
      else
        (case deleteTestServers L r host tr of
           (Some err, tr1) \<Rightarrow>
             (case apply_onboarding_built K hv (set_onboarding_built now ConditionTrue ConditionReasonAborted (Error_text err) statusCfg) tr1 of
                (err2, tr2) \<Rightarrow> ((no_requeue, errors_Join [Some err, err2]), tr2))
         | (None, tr1) \<Rightarrow>
             (case apply_onboarding_built K hv (set_onboarding_built now ConditionTrue ConditionReasonHandover
                     ''Waiting for other controllers to take over'' statusCfg) tr1 of
                (err, tr2) \<Rightarrow> ((no_requeue, err), tr2))))"

definition setTestingCondition_built ::
    "kube \<Rightarrow> go_time \<Rightarrow> Hypervisor \<Rightarrow> built_status \<Rightarrow> string \<Rightarrow> trace \<Rightarrow> go_error option \<times> trace" where
  "setTestingCondition_built K now hv statusCfg message tr =
     apply_onboarding_built K hv (set_onboarding_built now ConditionTrue ConditionReasonTesting message statusCfg) tr"

definition test_failed_built ::
    "lib \<Rightarrow> kube \<Rightarrow> OnboardingController \<Rightarrow> go_time \<Rightarrow> Hypervisor \<Rightarrow> built_status \<Rightarrow> server
     \<Rightarrow> trace \<Rightarrow> reconcile_result \<times> trace" where
  "test_failed_built L K r now hv statusCfg server tr =
     (case ask (n_servers_Get (testComputeClient r) (sv_ID server)) (Server (ServersGet (sv_ID server))) tr of
        (Inl err, tr1) \<Rightarrow> ((\<lparr>RequeueAfter = getRequeueInterval r\<rparr>, None), tr1)
      | (Inr fetched, tr1) \<Rightarrow>
          (case setTestingCondition_built K now hv statusCfg (''Server ended up in error state: '' @ sv_FaultMessage fetched) tr1 of
             (Some err, tr2) \<Rightarrow> ((no_requeue, Some err), tr2)
           | (None, tr2) \<Rightarrow>
               (case ask (n_servers_Delete (testComputeClient r) (sv_ID server)) (Server (ServersDelete (sv_ID server))) tr2 of
                  (_, tr3) \<Rightarrow>
                    (case deleteOrphanedTestVolumes L r tr3 of
                       (_, tr4) \<Rightarrow> ((\<lparr>RequeueAfter = defaultWaitTime\<rparr>, None), tr4)))))"

definition test_active_built ::
    "lib \<Rightarrow> kube \<Rightarrow> OnboardingController \<Rightarrow> go_time \<Rightarrow> Hypervisor \<Rightarrow> string \<Rightarrow> built_status \<Rightarrow> server
     \<Rightarrow> trace \<Rightarrow> reconcile_result \<times> trace" where
  "test_active_built L K r now hv host statusCfg server tr =
     (let requeue = (\<lparr>RequeueAfter = getRequeueInterval r\<rparr>, None) in
      case ask (n_servers_ShowConsoleOutput (testComputeClient r) (sv_ID server) 11)
             (Server (ServersShowConsoleOutput (sv_ID server) 11)) tr of
        (Inl err, tr1) \<Rightarrow>
          (case setTestingCondition_built K now hv statusCfg (''could not get console output '' @ Error_text err) tr1 of
             (Some err2, tr2) \<Rightarrow> ((no_requeue, Some err2), tr2)
           | (None, tr2) \<Rightarrow> (requeue, tr2))
      | (Inr consoleOutput, tr1) \<Rightarrow>
          if \<not> strings_Contains consoleOutput (sv_Name server) then
            (if \<not> IsZero (sv_LaunchedAt server) \<and> Clock_Now r > sv_LaunchedAt server + smokeTestTimeout then
               (case setTestingCondition_built K now hv statusCfg
                       (''timeout waiting for console output since '' @ Time_String_UTC (sv_LaunchedAt server)) tr1 of
                  (Some err2, tr2) \<Rightarrow> ((no_requeue, Some err2), tr2)
                | (None, tr2) \<Rightarrow>
                    (case ask (n_servers_Delete (testComputeClient r) (sv_ID server)) (Server (ServersDelete (sv_ID server))) tr2 of
                       (Some err, tr3) \<Rightarrow>
                         if \<not> ResponseCodeIs L err 404
                         then ((no_requeue, Some (Errorf (''failed to delete timed out test instance '' @ sv_ID server @ '': '') err)), tr3)
                         else (requeue, tr3)
                     | (None, tr3) \<Rightarrow> (requeue, tr3)))
             else (requeue, tr1))
          else
            (case ask (n_servers_Delete (testComputeClient r) (sv_ID server)) (Server (ServersDelete (sv_ID server))) tr1 of
               (Some err, tr2) \<Rightarrow>
                 (case setTestingCondition_built K now hv statusCfg (''failed to terminate instance '' @ Error_text err) tr2 of
                    (Some err2, tr3) \<Rightarrow> ((no_requeue, Some err2), tr3)
                  | (None, tr3) \<Rightarrow> (requeue, tr3))
             | (None, tr2) \<Rightarrow> completeOnboarding_built L K r now host hv statusCfg tr2))"

definition smokeTest_built ::
    "lib \<Rightarrow> kube \<Rightarrow> OnboardingController \<Rightarrow> go_time \<Rightarrow> Hypervisor \<Rightarrow> string \<Rightarrow> built_status
     \<Rightarrow> trace \<Rightarrow> reconcile_result \<times> trace" where
  "smokeTest_built L K r now hv host statusCfg tr =
     (case createOrGetTestServer L r (map_get (Labels (Meta hv)) LabelTopologyZone) host (UID (Meta hv)) tr of
        (Inl err, tr1) \<Rightarrow> ((no_requeue, Some (Errorf ''failed to create or get test instance: '' err)), tr1)
      | (Inr server, tr1) \<Rightarrow>
          if sv_Status server = ''ERROR'' then test_failed_built L K r now hv statusCfg server tr1
          else if sv_Status server = ''ACTIVE'' then test_active_built L K r now hv host statusCfg server tr1
          else ((\<lparr>RequeueAfter = getRequeueInterval r\<rparr>, None), tr1))"

definition onboarding_phase_pass_built ::
    "lib \<Rightarrow> kube \<Rightarrow> OnboardingController \<Rightarrow> go_time \<Rightarrow> Hypervisor \<Rightarrow> trace \<Rightarrow> reconcile_result \<times> trace" where
  "onboarding_phase_pass_built L K r now hv tr =
     (let computeHost = hv_Name hv; statusCfg = onboarding_built L hv;
          initial = set_onboarding_built now ConditionTrue ConditionReasonInitial ''Initial onboarding'' in
      if HypervisorID (hv_Status hv) = [] \<or> ServiceID (hv_Status hv) = [] then
        (case lookupNovaProperties L r hv tr of
           (Inl err, tr1) \<Rightarrow>
             if err = errRequeue then ((\<lparr>RequeueAfter = getRequeueInterval r\<rparr>, None), tr1)
             else ((no_requeue, Some err), tr1)
         | (Inr (hypervisorID, serviceID), tr1) \<Rightarrow>
             (case apply_onboarding_built K hv
                     (initial (then_call (HypervisorStatusAC_WithServiceID serviceID) (then_call (HypervisorStatusAC_WithHypervisorID hypervisorID) statusCfg))) tr1 of
                (err, tr2) \<Rightarrow> ((no_requeue, err), tr2)))
      else
        (case FindStatusCondition L (hv_Conditions hv) ConditionTypeOnboarding of
           None \<Rightarrow> (case apply_onboarding_built K hv (initial statusCfg) tr of (err, tr1) \<Rightarrow> ((no_requeue, err), tr1))
         | Some status \<Rightarrow>
             if Reason status = ConditionReasonInitial
             then (case initialOnboarding_built K r now hv statusCfg tr of (err, tr1) \<Rightarrow> ((no_requeue, err), tr1))
             else if Reason status = ConditionReasonTesting
             then (if SkipTests (Spec hv) then completeOnboarding_built L K r now computeHost hv statusCfg tr
                   else smokeTest_built L K r now hv computeHost statusCfg tr)
             else if Reason status = ConditionReasonHandover then completeOnboarding_built L K r now computeHost hv statusCfg tr
             else (reconcile_ok, tr)))"

definition Onboarding_Reconcile_built ::
    "lib \<Rightarrow> kube \<Rightarrow> OnboardingController \<Rightarrow> go_time \<Rightarrow> string \<Rightarrow> trace \<Rightarrow> reconcile_result \<times> trace" where
  "Onboarding_Reconcile_built L K r now name tr =
     (case ask (k_get_Hypervisor K name) (Kube (GetHypervisor name)) tr of
        (Inl err, tr1) \<Rightarrow> ((no_requeue, IgnoreNotFound L err), tr1)
      | (Inr hv, tr1) \<Rightarrow>
          if \<not> LifecycleEnabled (Spec hv)
          then (case abortOnboarding_built L K r now hv (hv_Name hv) ''Aborted due to LifecycleEnabled being false''
                       (onboarding_built L hv) tr1 of
                  (err, tr2) \<Rightarrow> ((no_requeue, err), tr2))
          else if hv_Maintenance hv = MaintenanceTermination
          then (case abortOnboarding_built L K r now hv (hv_Name hv) ''Aborted due to MaintenanceTermination''
                       (onboarding_built L hv) tr1 of
                  (err, tr2) \<Rightarrow> ((no_requeue, err), tr2))
          else onboarding_phase_pass_built L K r now hv tr1)"

section \<open>Simulation\<close>

text \<open>The built configuration that stands for one of the value model.\<close>

definition of_payload :: "HypervisorStatusApplyConfiguration \<Rightarrow> HypervisorStatusAC" where
  "of_payload cfg = HypervisorStatus_AC\<lparr>hypervisorStatus_ac_Evicted := cfg_Evicted cfg,
     hypervisorStatus_ac_HypervisorID := cfg_HypervisorID cfg, hypervisorStatus_ac_ServiceID := cfg_ServiceID cfg,
     hypervisorStatus_ac_Traits := cfg_Traits cfg, hypervisorStatus_ac_Conditions := cfg_Conditions cfg\<rparr>"

abbreviation built :: "HypervisorStatusApplyConfiguration \<Rightarrow> built_status" where
  "built cfg \<equiv> Inr (of_payload cfg)"

lemma of_payload_faithful: "only_applied (of_payload cfg)" "status_payload (of_payload cfg) = cfg"
  by (simp_all add: only_applied_def status_payload_def of_payload_def HypervisorStatus_AC_def)

text \<open>Every builder call has its counterpart in the value model.\<close>

named_theorems built_step

lemma then_call_steps [built_step]:
  "then_call (set_condition_in now c) (built cfg) = built (cfg_set now c cfg)"
  "then_call (HypervisorStatusAC_WithEvicted e) (built cfg) = built (WithEvicted e cfg)"
  "then_call (HypervisorStatusAC_WithHypervisorID i) (built cfg) = built (cfg\<lparr>cfg_HypervisorID := Some i\<rparr>)"
  "then_call (HypervisorStatusAC_WithServiceID i) (built cfg) = built (cfg\<lparr>cfg_ServiceID := Some i\<rparr>)"
  by (simp_all add: then_call_def of_payload_def built_defs cfg_set_def WithEvicted_def)

lemma retain_step [built_step]:
  "retainStatusCondition_built L now cs ty (built cfg) = built (retainStatusCondition L now cs ty cfg)"
  by (simp add: retainStatusCondition_built_def retainStatusCondition_def built_step split: option.split)

lemma apply_step [built_step]:
  "apply_built K n (built cfg) ow tr = ask (k_status_apply_Hypervisor K n cfg) (Kube (StatusApplyHypervisor n cfg ow)) tr"
  by (simp add: apply_built_def status_call_built [OF of_payload_faithful(1)] of_payload_faithful(2))

lemma maintenance_start [built_step]: "maintenance_built L now hv = built (initial_cfg L now hv)"
  by (cases "FindStatusCondition L (hv_Conditions hv) ConditionTypeHypervisorDisabled")
    (simp_all add: maintenance_built_def built_defs of_payload_def initial_cfg_def
      HypervisorStatus_cfg_def retainStatusCondition_def WithEvicted_def cfg_set_def)

lemma onboarding_start [built_step]: "onboarding_built L hv = built (onboarding_cfg L hv)"
  by (cases "FindStatusCondition L (hv_Conditions hv) ConditionTypeOnboarding")
    (simp_all add: onboarding_built_def built_defs of_payload_def onboarding_cfg_def HypervisorStatus_cfg_def)

lemma set_onboarding_step [built_step]:
  "set_onboarding_built now st reason msg (built cfg) = built (set_onboarding now st reason msg cfg)"
  by (simp add: set_onboarding_built_def set_onboarding_def cfg_set_def built_step)

lemma apply_onboarding_step [built_step]: "apply_onboarding_built K hv (built cfg) tr = apply_onboarding K hv cfg tr"
  by (simp add: apply_onboarding_built_def apply_onboarding_def built_step)

text \<open>
  A result that carries a configuration, read by what follows, and \<open>built\<close> moved to the ends of the branches.
\<close>

lemma read_built [built_step]:
  "(case apfst (apsnd built) x of (p, t) \<Rightarrow> case p of (r, b) \<Rightarrow> g r b t) = (case x of (p, t) \<Rightarrow> case p of (r, c) \<Rightarrow> g r (built c) t)"
  by (simp add: case_prod_beta)

lemmas built_ends = if_distrib [of "apfst (apsnd built)"] option.case_distrib [of "apfst (apsnd built)"]
  prod.case_distrib [of "apfst (apsnd built)"] sum.case_distrib [of "apfst (apsnd built)"] bool.case_distrib [of "apfst (apsnd built)"]
  apfst_conv apsnd_conv

lemma compute_step [built_step]:
  "reconcileComputeService_built L N now hv (built cfg) tr = apfst (apsnd built) (reconcileComputeService L N now hv cfg tr)"
  unfolding reconcileComputeService_built_def reconcileComputeService_def Let_def built_step built_ends ..

lemma settle_step [built_step]:
  "settleIncomingMigrations_built L C N hv (built cfg) tr = apfst (apsnd built) (settleIncomingMigrations L C N hv cfg tr)"
  unfolding settleIncomingMigrations_built_def settleIncomingMigrations_def Let_def built_step built_ends ..

lemma eviction_step [built_step]:
  "reconcileEviction_built L K C N labels hv (built cfg) tr = apfst (apsnd built) (reconcileEviction L K C N labels hv cfg tr)"
  unfolding reconcileEviction_built_def reconcileEviction_def Let_def built_step built_ends ..

lemma maintenance_step [built_step]:
  "maintenance_pass_built L K C N labels hv tr = apfst (apsnd built) (maintenance_pass L K C N labels hv tr)"
  unfolding maintenance_pass_built_def maintenance_pass_def Let_def built_step built_ends ..

lemma Maintenance_Reconcile_built: "Maintenance_Reconcile_built L K C N labels name tr = Maintenance_Reconcile L K C N labels name tr"
  unfolding Maintenance_Reconcile_built_def Maintenance_Reconcile_def built_step by (simp add: case_prod_beta)

lemma onboarding_handlers [built_step]:
  "abortOnboarding_built L K r now hv host msg (built cfg) tr = abortOnboarding L K r now hv host msg cfg tr"
  "initialOnboarding_built K r now hv (built cfg) tr = initialOnboarding K r now hv cfg tr"
  "completeOnboarding_built L K r now host hv (built cfg) tr = completeOnboarding L K r now host hv cfg tr"
  "setTestingCondition_built K now hv (built cfg) msg tr = setTestingCondition K now hv cfg msg tr"
  unfolding abortOnboarding_built_def abortOnboarding_def initialOnboarding_built_def initialOnboarding_def
    completeOnboarding_built_def completeOnboarding_def setTestingCondition_built_def setTestingCondition_def Let_def built_step
  by (rule refl)+

lemma smokeTest_step [built_step]:
  "smokeTest_built L K r now hv host (built cfg) tr = smokeTest L K r now hv host cfg tr"
  unfolding smokeTest_built_def smokeTest_def test_failed_built_def test_failed_def test_active_built_def test_active_def Let_def
    built_step ..

lemma onboarding_phase_step [built_step]: "onboarding_phase_pass_built L K r now hv tr = onboarding_phase_pass L K r now hv tr"
  unfolding onboarding_phase_pass_built_def onboarding_phase_pass_def Let_def built_step by simp

lemma Onboarding_Reconcile_built: "Onboarding_Reconcile_built L K r now name tr = Onboarding_Reconcile L K r now name tr"
  unfolding Onboarding_Reconcile_built_def Onboarding_Reconcile_def built_step ..

lemma applyTraitsStatus_built:
  "map_option (\<lambda>c. tr @ [c]) (status_call (hv_Name hv) (traits_built L now hv traits cond) TraitsControllerName)
     = Some (snd (applyTraitsStatus L K now hv (case traits of None \<Rightarrow> [] | Some ts \<Rightarrow> ts) cond tr))"
  by (cases "FindStatusCondition L (hv_Conditions hv) ConditionTypeTraitsUpdated"; cases traits)
    (simp_all add: traits_built_def built_defs status_call_built only_applied_def status_payload_def applyTraitsStatus_def
      HypervisorStatus_cfg_def ask_def Let_def)

text \<open>
  C37. The passes over built configurations are those of the value models: a pass of the onboarding controller and one of
  the maintenance controller that build their status with the generated builders, on every branch, end with the same
  result after the same calls as the value models, so no builder panics, and every status apply is of an object with the
  right name, kind and version that sets only the fields of the value model, with its values. For the traits
  controller, whose every write goes through \<open>applyTraitsStatus\<close>, this is the call of that function, where a
  \<open>nil\<close> slice of traits and an empty one give the same payload.
\<close>

theorem status_apply_built:
  "Onboarding_Reconcile_built L K r now name tr = Onboarding_Reconcile L K r now name tr
   \<and> Maintenance_Reconcile_built L K C N labels name tr = Maintenance_Reconcile L K C N labels name tr
   \<and> map_option (\<lambda>c. tr @ [c]) (status_call (hv_Name hv) (traits_built L now hv traits cond) TraitsControllerName)
       = Some (snd (applyTraitsStatus L K now hv (case traits of None \<Rightarrow> [] | Some ts \<Rightarrow> ts) cond tr))"
  by (intro conjI Onboarding_Reconcile_built Maintenance_Reconcile_built applyTraitsStatus_built)

end
