(* ===== verification/Apply_Validity.thy ===== *)
theory Apply_Validity
  imports Apply_Schema Onboarding_Props Maintenance_Props Traits_Ctrl
begin

text \<open>
  What the controllers apply against what the generated schema admits. The encoders write out what
  \<^verbatim>\<open>encoding/json\<close> makes of the built structs with their tags (all \<open>omitempty\<close>): of a status and its object,
  and of an Eviction. The theorem is that every apply of a pass of the three controllers conforms to the
  schema, in particular that no list merged by key has an entry without its key or two entries with the same key.
\<close>

section \<open>The payloads\<close>

text \<open>A pointer field with \<open>omitempty\<close>.\<close>

definition opt_field :: "string \<Rightarrow> ('a \<Rightarrow> json) \<Rightarrow> 'a option \<Rightarrow> (string \<times> json) list" where
  "opt_field j enc v = (case v of None \<Rightarrow> [] | Some x \<Rightarrow> [(j, enc x)])"

text \<open>A slice field with \<open>omitempty\<close>.\<close>

definition list_field :: "string \<Rightarrow> ('a \<Rightarrow> json) \<Rightarrow> 'a list \<Rightarrow> (string \<times> json) list" where
  "list_field j enc vs = (if vs = [] then [] else [(j, JList (map enc vs))])"

fun encode_ConditionStatus :: "ConditionStatus \<Rightarrow> json" where
  "encode_ConditionStatus ConditionTrue = JString ''True''"
| "encode_ConditionStatus ConditionFalse = JString ''False''"
| "encode_ConditionStatus ConditionUnknown = JString ''Unknown''"

definition encode_Condition :: "ConditionApplyConfiguration \<Rightarrow> json" where
  "encode_Condition c = JObject (opt_field ''type'' JString (ac_Type c) @ opt_field ''status'' encode_ConditionStatus (ac_Status c)
     @ opt_field ''observedGeneration'' JNumber (ac_ObservedGeneration c)
     @ opt_field ''lastTransitionTime'' (\<lambda>t. JString (RFC3339_UTC t)) (ac_LastTransitionTime c)
     @ opt_field ''reason'' JString (ac_Reason c) @ opt_field ''message'' JString (ac_Message c))"

definition encode_HypervisorStatus :: "HypervisorStatusApplyConfiguration \<Rightarrow> json" where
  "encode_HypervisorStatus cfg = JObject (opt_field ''hypervisorId'' JString (cfg_HypervisorID cfg)
     @ opt_field ''serviceId'' JString (cfg_ServiceID cfg) @ list_field ''traits'' JString (cfg_Traits cfg)
     @ opt_field ''evicted'' JBool (cfg_Evicted cfg) @ list_field ''conditions'' encode_Condition (cfg_Conditions cfg))"

definition encode_Hypervisor :: "string \<Rightarrow> HypervisorStatusApplyConfiguration \<Rightarrow> json" where
  "encode_Hypervisor name cfg = JObject [(''kind'', JString ''Hypervisor''), (''apiVersion'', JString GroupVersion),
     (''metadata'', JObject [(''name'', JString name)]), (''status'', encode_HypervisorStatus cfg)]"

definition encode_OwnerReference :: "OwnerRef \<Rightarrow> json" where
  "encode_OwnerReference r = JObject ([(''apiVersion'', JString (or_APIVersion r)), (''kind'', JString (or_Kind r)),
     (''name'', JString (or_Name r)), (''uid'', JString (or_UID r))]
     @ opt_field ''controller'' JBool (or_Controller r) @ opt_field ''blockOwnerDeletion'' JBool (or_BlockOwnerDeletion r))"

text \<open>The labels in the order in which they are written.\<close>

definition encode_Eviction :: "EvictionApplyConfiguration \<Rightarrow> (string \<times> string) list \<Rightarrow> json" where
  "encode_Eviction e es = JObject [(''kind'', JString ''Eviction''), (''apiVersion'', JString GroupVersion),
     (''metadata'', JObject ((''name'', JString (ea_Name e))
        # (if es = [] then [] else [(''labels'', JObject (map (\<lambda>(k, v). (k, JString v)) es))])
        @ list_field ''ownerReferences'' encode_OwnerReference (ea_OwnerReferences e))),
     (''spec'', JObject [(''hypervisor'', JString (es_Hypervisor (ea_Spec e))), (''reason'', JString (es_Reason (ea_Spec e)))])]"

text \<open>Whether what a call applies conforms, whatever the order of the labels.\<close>

fun call_conforms :: "call \<Rightarrow> bool" where
  "call_conforms (Kube (StatusApplyHypervisor n cfg ow)) \<longleftrightarrow> conforms (NamedType (ApiType ''Hypervisor'')) (encode_Hypervisor n cfg)"
| "call_conforms (Kube (ApplyEviction e ow)) \<longleftrightarrow>
     (\<forall>es. distinct (map fst es) \<and> map_of es = ea_Labels e \<longrightarrow> conforms (NamedType (ApiType ''Eviction'')) (encode_Eviction e es))"
| "call_conforms c \<longleftrightarrow> True"

section \<open>Conforming payloads\<close>

text \<open>The types of the schema that occur in the payloads.\<close>

lemma found_types:
  "find_type (ApiType ''Hypervisor'') = Some schema_Hypervisor" "find_type (ApiType ''HypervisorStatus'') = Some schema_HypervisorStatus"
  "find_type (ApiType ''Eviction'') = Some schema_Eviction" "find_type (ApiType ''EvictionSpec'') = Some schema_EvictionSpec"
  "find_type (MetaType ''ObjectMeta'') = Some schema_meta_ObjectMeta" "find_type (MetaType ''Condition'') = Some schema_meta_Condition"
  "find_type (MetaType ''ConditionStatus'') = Some schema_meta_ConditionStatus" "find_type (MetaType ''Time'') = Some schema_meta_Time"
  "find_type (MetaType ''OwnerReference'') = Some schema_meta_OwnerReference"
  "find_type (OtherType ''io.k8s.apimachinery.pkg.types.UID'') = Some schema_types_UID"
  by code_simp+

lemmas schema_eval = scalar_of_def list_of_def map_of_type_def field_of_def find_field_def found_types

text \<open>The fields of each type, looked up.\<close>

lemma Condition_fields:
  "field_of (NamedType (MetaType ''Condition'')) ''type'' = Some (ScalarType ''string'')"
  "field_of (NamedType (MetaType ''Condition'')) ''status'' = Some (NamedType (MetaType ''ConditionStatus''))"
  "field_of (NamedType (MetaType ''Condition'')) ''observedGeneration'' = Some (ScalarType ''numeric'')"
  "field_of (NamedType (MetaType ''Condition'')) ''lastTransitionTime'' = Some (NamedType (MetaType ''Time''))"
  "field_of (NamedType (MetaType ''Condition'')) ''reason'' = Some (ScalarType ''string'')"
  "field_of (NamedType (MetaType ''Condition'')) ''message'' = Some (ScalarType ''string'')"
  by (simp_all add: schema_eval schema_meta_Condition_def)

lemma HypervisorStatus_fields:
  "field_of (NamedType (ApiType ''HypervisorStatus'')) ''hypervisorId'' = Some (ScalarType ''string'')"
  "field_of (NamedType (ApiType ''HypervisorStatus'')) ''serviceId'' = Some (ScalarType ''string'')"
  "field_of (NamedType (ApiType ''HypervisorStatus'')) ''evicted'' = Some (ScalarType ''boolean'')"
  "field_of (NamedType (ApiType ''HypervisorStatus'')) ''traits'' = Some (ListType (ScalarType ''string'') Atomic [])"
  "field_of (NamedType (ApiType ''HypervisorStatus'')) ''conditions'' =
     Some (ListType (NamedType (MetaType ''Condition'')) Associative [''type''])"
  by (simp_all add: schema_eval schema_HypervisorStatus_def)

lemma object_fields:
  "field_of (NamedType (ApiType ''Hypervisor'')) ''kind'' = Some (ScalarType ''string'')"
  "field_of (NamedType (ApiType ''Hypervisor'')) ''apiVersion'' = Some (ScalarType ''string'')"
  "field_of (NamedType (ApiType ''Hypervisor'')) ''metadata'' = Some (NamedType (MetaType ''ObjectMeta''))"
  "field_of (NamedType (ApiType ''Hypervisor'')) ''status'' = Some (NamedType (ApiType ''HypervisorStatus''))"
  "field_of (NamedType (ApiType ''Eviction'')) ''kind'' = Some (ScalarType ''string'')"
  "field_of (NamedType (ApiType ''Eviction'')) ''apiVersion'' = Some (ScalarType ''string'')"
  "field_of (NamedType (ApiType ''Eviction'')) ''metadata'' = Some (NamedType (MetaType ''ObjectMeta''))"
  "field_of (NamedType (ApiType ''Eviction'')) ''spec'' = Some (NamedType (ApiType ''EvictionSpec''))"
  "field_of (NamedType (ApiType ''EvictionSpec'')) ''hypervisor'' = Some (ScalarType ''string'')"
  "field_of (NamedType (ApiType ''EvictionSpec'')) ''reason'' = Some (ScalarType ''string'')"
  by (simp_all add: schema_eval schema_Hypervisor_def schema_Eviction_def schema_EvictionSpec_def)

lemma metadata_fields:
  "field_of (NamedType (MetaType ''ObjectMeta'')) ''name'' = Some (ScalarType ''string'')"
  "field_of (NamedType (MetaType ''ObjectMeta'')) ''labels'' = Some (MapType (ScalarType ''string'') None)"
  "field_of (NamedType (MetaType ''ObjectMeta'')) ''ownerReferences'' =
     Some (ListType (NamedType (MetaType ''OwnerReference'')) Associative [''uid''])"
  "field_of (NamedType (MetaType ''OwnerReference'')) ''apiVersion'' = Some (ScalarType ''string'')"
  "field_of (NamedType (MetaType ''OwnerReference'')) ''kind'' = Some (ScalarType ''string'')"
  "field_of (NamedType (MetaType ''OwnerReference'')) ''name'' = Some (ScalarType ''string'')"
  "field_of (NamedType (MetaType ''OwnerReference'')) ''uid'' = Some (NamedType (OtherType ''io.k8s.apimachinery.pkg.types.UID''))"
  "field_of (NamedType (MetaType ''OwnerReference'')) ''controller'' = Some (ScalarType ''boolean'')"
  "field_of (NamedType (MetaType ''OwnerReference'')) ''blockOwnerDeletion'' = Some (ScalarType ''boolean'')"
  "field_of (MapType (ScalarType ''string'') None) j = Some (ScalarType ''string'')"
  by (simp_all add: schema_eval schema_meta_ObjectMeta_def schema_meta_OwnerReference_def)

lemma named_scalars:
  "scalar_of (ScalarType s) = Some s" "scalar_of (NamedType (MetaType ''ConditionStatus'')) = Some ''string''"
  "scalar_of (NamedType (MetaType ''Time'')) = Some ''untyped''"
  "scalar_of (NamedType (OtherType ''io.k8s.apimachinery.pkg.types.UID'')) = Some ''string''"
  "list_of (ListType e r ks) = Some (e, r, ks)"
  by (simp_all add: schema_eval schema_meta_ConditionStatus_def schema_meta_Time_def schema_types_UID_def)

lemma encoded_Condition: "conforms (NamedType (MetaType ''Condition'')) (encode_Condition c)"
proof -
  have "conforms (NamedType (MetaType ''ConditionStatus'')) (encode_ConditionStatus st)" for st
    by (cases st) (simp_all add: named_scalars)
  then show ?thesis
    by (simp add: encode_Condition_def opt_field_def Condition_fields named_scalars split: option.split)
qed

lemma Condition_key: "key_of [''type''] (encode_Condition c) = [map_option JString (ac_Type c)]"
  by (simp add: encode_Condition_def opt_field_def split: option.split)

text \<open>A status conforms exactly when its conditions have present and pairwise distinct types.\<close>

definition cfg_keyed :: "HypervisorStatusApplyConfiguration \<Rightarrow> bool" where
  "cfg_keyed cfg \<longleftrightarrow> None \<notin> set (map ac_Type (cfg_Conditions cfg)) \<and> distinct (map ac_Type (cfg_Conditions cfg))"

lemma keyed_conditions:
  "keyed Associative [''type''] (map encode_Condition cs) \<longleftrightarrow> None \<notin> set (map ac_Type cs) \<and> distinct (map ac_Type cs)"
proof -
  have "map (key_of [''type'']) (map encode_Condition cs) = map (\<lambda>t. [map_option JString t]) (map ac_Type cs)"
    by (simp add: Condition_key)
  moreover have "inj (\<lambda>t. [map_option JString t])"
    by (intro injI) (metis list.inject option.inj_map_strong json.inject(1))
  ultimately have "distinct (map (key_of [''type'']) (map encode_Condition cs)) \<longleftrightarrow> distinct (map ac_Type cs)"
    by (simp only: distinct_map) (meson inj_on_subset subset_UNIV)
  moreover have "None \<notin> set (map ac_Type cs) \<longleftrightarrow> (\<forall>c \<in> set cs. map_option JString (ac_Type c) \<noteq> None)"
    by (auto simp: image_iff) (metis not_None_eq)
  ultimately show ?thesis by (simp add: keyed_def list_all_iff Condition_key)
qed

lemma status_conforms:
  "conforms (NamedType (ApiType ''HypervisorStatus'')) (encode_HypervisorStatus cfg) \<longleftrightarrow> cfg_keyed cfg"
  by (simp add: encode_HypervisorStatus_def opt_field_def list_field_def HypervisorStatus_fields named_scalars cfg_keyed_def
      list_all_iff encoded_Condition keyed_conditions [simplified] keyed_def [of Atomic] split: option.split)

lemma hypervisor_conforms:
  "conforms (NamedType (ApiType ''Hypervisor'')) (encode_Hypervisor n cfg) \<longleftrightarrow> cfg_keyed cfg"
  by (simp add: encode_Hypervisor_def object_fields metadata_fields named_scalars status_conforms)

text \<open>An Eviction with one owner conforms.\<close>

lemma encoded_OwnerReference: "conforms (NamedType (MetaType ''OwnerReference'')) (encode_OwnerReference r)"
  by (simp add: encode_OwnerReference_def opt_field_def metadata_fields named_scalars split: option.split)

lemma owner_key: "key_of [''uid''] (encode_OwnerReference r) = [Some (JString (or_UID r))]"
  by (simp add: encode_OwnerReference_def)

lemma labels_conform:
  "conforms (MapType (ScalarType ''string'') None) (JObject (map (\<lambda>(k, v). (k, JString v)) es)) \<longleftrightarrow> distinct (map fst es)"
  by (simp add: metadata_fields named_scalars list_all_iff case_prod_beta comp_def)

lemma eviction_conforms:
  assumes "ea_OwnerReferences e = [r]" "distinct (map fst es)"
  shows "conforms (NamedType (ApiType ''Eviction'')) (encode_Eviction e es)"
  using assms labels_conform [of es]
  by (simp add: encode_Eviction_def list_field_def object_fields metadata_fields named_scalars encoded_OwnerReference owner_key keyed_def)

section \<open>The configurations that are applied\<close>

lemma keyed_put:
  assumes "cfg_keyed cfg" "apply_ok c"
  shows "cfg_keyed (cfg\<lparr>cfg_Conditions := set_apply_condition now (cfg_Conditions cfg) c\<rparr>)"
  using assms apply_store.keys_put [OF assms(2), of now "cfg_Conditions cfg"] by (auto simp: cfg_keyed_def apply_ok_def)

lemma keyed_set_onboarding: "cfg_keyed cfg \<Longrightarrow> cfg_keyed (set_onboarding now st reason msg cfg)"
  by (simp add: set_onboarding_def keyed_put)

lemma keyed_onboarding_cfg: "cfg_keyed (onboarding_cfg L hv)" "cfg_keyed (onboarding_cfg L hv\<lparr>cfg_HypervisorID := i, cfg_ServiceID := s\<rparr>)"
  by (simp_all add: cfg_keyed_def onboarding_cfg_def HypervisorStatus_cfg_def split: option.split)

lemma keyed_cfg_ok: "cfg_ok cfg \<Longrightarrow> cfg_keyed cfg"
  by (auto simp: cfg_ok_def cfg_keyed_def)

abbreviation valid_calls :: "trace \<Rightarrow> trace \<Rightarrow> bool" where
  "valid_calls \<equiv> extends_by call_conforms"

lemma valid_test_calls: "extends_by test_project_call t t' \<Longrightarrow> valid_calls t t'"
  by (erule extends_by_mono) (auto simp: test_project_call_def)

text \<open>Every handler of the onboarding controller applies a configuration that it has set a condition in.\<close>

lemma apply_valid:
  "cfg_keyed cfg \<Longrightarrow> valid_calls t (snd (apply_onboarding K hv (set_onboarding now st reason msg cfg) t))"
  by (auto simp: apply_onboarding_def hypervisor_conforms keyed_set_onboarding intro: extends_by_snoc)

lemma cleanup_valid: "valid_calls t (snd (deleteTestServers L r host t))" "valid_calls t (snd (deleteOrphanedTestVolumes L r t))"
  "valid_calls t (snd (createOrGetTestServer L r zone host uid t))"
  by (rule valid_test_calls; rule deleteTestServers_extends deleteOrphanedTestVolumes_extends createOrGetTestServer_extends)+

lemma valid_server: "valid_calls t (t @ [Server c])"
  by (rule extends_by_snoc) simp

lemmas valid_steps = apply_valid cleanup_valid valid_server extends_by_refl

lemma abortOnboarding_valid: "cfg_keyed cfg \<Longrightarrow> valid_calls t (snd (abortOnboarding L K r now hv host msg cfg t))"
  by (auto simp: abortOnboarding_def case_prod_beta split: option.split
      intro!: extends_by_trans [OF cleanup_valid(1) apply_valid])

lemma initialOnboarding_valid: "cfg_keyed cfg \<Longrightarrow> valid_calls t (snd (initialOnboarding K r now hv cfg t))"
  by (auto simp: initialOnboarding_def ask_def Let_def split: option.split
      intro!: extends_by_snoc extends_by_trans [OF extends_by_snoc apply_valid])

lemma completeOnboarding_valid: "cfg_keyed cfg \<Longrightarrow> valid_calls t (snd (completeOnboarding L K r now host hv cfg t))"
  by (auto simp: completeOnboarding_def case_prod_beta split: option.split
      intro!: apply_valid extends_by_trans [OF cleanup_valid(1) apply_valid])

lemma setTesting_valid: "cfg_keyed cfg \<Longrightarrow> valid_calls t (snd (setTestingCondition K now hv cfg msg t))"
  by (simp add: setTestingCondition_def apply_valid)

text \<open>The same as steps of a longer run.\<close>

lemma valid_server_step: "valid_calls t0 t \<Longrightarrow> valid_calls t0 (t @ [Server c])"
  by (erule extends_by_append) simp

lemma valid_then: "valid_calls t0 t \<Longrightarrow> (\<And>t. valid_calls t (snd (f t))) \<Longrightarrow> valid_calls t0 (snd (f t))"
  by (erule extends_by_trans) blast

lemmas valid_intros = valid_server_step valid_then [OF _ cleanup_valid(1)] valid_then [OF _ cleanup_valid(2)]
  valid_then [OF _ setTesting_valid] valid_then [OF _ completeOnboarding_valid] extends_by_refl

lemma test_failed_valid: "cfg_keyed cfg \<Longrightarrow> valid_calls t0 t \<Longrightarrow> valid_calls t0 (snd (test_failed L K r now hv cfg server t))"
  by (auto simp: test_failed_def ask_def case_prod_beta split: sum.split option.split intro!: valid_intros)

lemma test_active_valid:
  assumes "cfg_keyed cfg" and t: "valid_calls t0 t"
  shows "valid_calls t0 (snd (test_active L K r now hv host cfg server t))"
proof -
  let ?t1 = "t @ [Server (ServersShowConsoleOutput (sv_ID server) 11)]"
  note t1 = valid_server_step [OF t, of "ServersShowConsoleOutput (sv_ID server) 11"]
  have cond: "valid_calls t0 (snd (setTestingCondition K now hv cfg m t'))" if "valid_calls t0 t'" for m t'
    by (rule valid_then [OF that setTesting_valid]) (rule assms(1))
  show ?thesis
  proof (cases "n_servers_ShowConsoleOutput (testComputeClient r) (sv_ID server) 11 t")
    case (Inl e)
    with cond [OF t1] show ?thesis
      by (simp add: test_active_def ask_def Let_def case_prod_beta split: option.split)
  next
    case (Inr out)
    show ?thesis
    proof (cases "strings_Contains out (sv_Name server)")
      case False
      with Inr t1 cond [OF t1] valid_server_step [OF cond [OF t1]] show ?thesis
        by (simp add: test_active_def ask_def Let_def case_prod_beta split: option.split)
    next
      case c: True
      have "valid_calls t0 (snd (completeOnboarding L K r now host hv cfg (?t1 @ [Server (ServersDelete (sv_ID server))])))"
        by (rule valid_then [OF valid_server_step [OF t1] completeOnboarding_valid]) (rule assms(1))
      with Inr c cond [OF valid_server_step [OF t1]] show ?thesis
        by (simp add: test_active_def ask_def Let_def case_prod_beta split: option.split)
    qed
  qed
qed

lemma smokeTest_valid: "cfg_keyed cfg \<Longrightarrow> valid_calls t (snd (smokeTest L K r now hv host cfg t))"
  by (auto simp: smokeTest_def case_prod_beta split: sum.split intro!: test_failed_valid test_active_valid cleanup_valid(3))

lemma onboarding_phase_valid: "valid_calls t (snd (onboarding_phase_pass L K r now hv t))"
proof -
  have "valid_calls t (snd (lookupNovaProperties L r hv t))"
    using lookupNovaProperties_trace [of L r hv t] by (auto intro!: extends_by_snoc)
  from extends_by_trans [OF this apply_valid] this show ?thesis
    by (auto simp: onboarding_phase_pass_def Let_def case_prod_beta keyed_onboarding_cfg split: sum.split option.split
        intro!: apply_valid initialOnboarding_valid completeOnboarding_valid smokeTest_valid)
qed

lemma Onboarding_Reconcile_valid: "valid_calls t (snd (Onboarding_Reconcile L K r now name t))"
proof -
  have "valid_calls t (t @ [Kube (GetHypervisor name)])" by (rule extends_by_snoc) simp
  from extends_by_trans [OF this abortOnboarding_valid] extends_by_trans [OF this onboarding_phase_valid] this show ?thesis
    by (auto simp: Onboarding_Reconcile_def ask_def case_prod_beta keyed_onboarding_cfg split: sum.split)
qed

text \<open>The maintenance controller, from the invariant of its configuration, and its Eviction.\<close>

lemma ensureEviction_valid: "valid_calls t (snd (ensureEviction L K labels hv t))"
  by (auto simp: ensureEviction_def ask_def Let_def extends_by_def eviction_conforms split: option.split sum.split)

lemma settle_valid: "settleIncomingMigrations L C N hv cfg tr = (r, tr') \<Longrightarrow> valid_calls tr tr'"
  by (erule settle_calls) (auto simp: extends_by_def list_all_iff)

lemma maintenance_pass_valid:
  assumes "maintenance_pass L K C N labels hv tr = (((rq, err), cfg), tr')"
  shows "valid_calls tr tr'"
proof -
  obtain r cfg1 tr1 where c: "reconcileComputeService L N (clk_Now C) hv (initial_cfg L (clk_Now C) hv) tr = ((r, cfg1), tr1)"
    by (metis surj_pair)
  then have 1: "valid_calls tr tr1"
    by (cases rule: reconcileComputeService_cases) (auto intro: extends_by_snoc)
  have d: "valid_calls t t'" if "delete_eviction L K n t = (r, t')" for n t r t'
    using delete_eviction_trace [OF that] by (auto intro: extends_by_snoc)
  have e: "valid_calls t t'" if "ensureEviction L K labels hv t = (r, t')" for t r t'
    using ensureEviction_valid [of t L K labels hv] that by simp
  show ?thesis
  proof (cases r)
    case None
    with assms c have "reconcileEviction L K C N labels hv cfg1 tr1 = (((rq, err), cfg), tr')"
      by (simp add: maintenance_pass_def Let_def)
    then have "valid_calls tr1 tr'"
      by (cases rule: reconcileEviction_cases)
        (auto simp del: list.set dest!: settle_valid d e intro: extends_by_trans [OF _ extends_by_trans] extends_by_trans)
    with 1 show ?thesis by (rule extends_by_trans)
  next
    case (Some er)
    with assms c 1 show ?thesis by (simp add: maintenance_pass_def Let_def)
  qed
qed

lemma Maintenance_Reconcile_valid:
  assumes "meta_laws L"
  shows "valid_calls t (snd (Maintenance_Reconcile L K C N labels name t))"
proof -
  let ?t1 = "t @ [Kube (GetHypervisor name)]"
  have 1: "valid_calls t ?t1" by (rule extends_by_snoc) simp
  have "valid_calls t (t' @ [Kube (StatusApplyHypervisor (hv_Name hv) cfg ow)])"
    if "maintenance_pass L K C N labels hv ?t1 = (((rq, err), cfg), t')" for hv rq err cfg t' ow
    using extends_by_trans [OF 1 maintenance_pass_valid [OF that]] maintenance_pass_cfg_ok [OF assms that]
    by (auto simp: hypervisor_conforms keyed_cfg_ok intro!: extends_by_append)
  with 1 show ?thesis
    by (auto simp: Maintenance_Reconcile_def ask_def split: sum.split prod.split)
qed

lemma applyTraitsStatus_valid: "valid_calls t (snd (applyTraitsStatus L K now hv traits (getTraitCondition e m) t))"
proof -
  have "cfg_keyed (HypervisorStatus_cfg\<lparr>cfg_Conditions := (case FindStatusCondition L (hv_Conditions hv) ConditionTypeTraitsUpdated of
      Some c \<Rightarrow> [ConditionFromStatus c] | None \<Rightarrow> [])\<rparr>)"
    by (simp add: cfg_keyed_def HypervisorStatus_cfg_def split: option.split)
  from keyed_put [OF this, of "ac_condition ConditionTypeTraitsUpdated st r msg" now for st r msg]
  show ?thesis
    by (auto simp: applyTraitsStatus_def getTraitCondition_def ask_def Let_def hypervisor_conforms cfg_keyed_def
        split: option.split intro!: extends_by_snoc)
qed

lemma Traits_Reconcile_valid: "valid_calls t (snd (Traits_Reconcile L K P now name t))"
proof -
  obtain res t' where eq: "Traits_Reconcile L K P now name t = (res, t')" by fastforce
  have read: "valid_calls t (t @ cs)" if "list_all call_conforms cs" for cs
    using that by (auto simp: extends_by_def)
  show ?thesis unfolding eq snd_conv using eq
    by (cases rule: Traits_Reconcile_cases)
      (auto intro!: read extends_by_trans [OF read applyTraitsStatus_valid])
qed

text \<open>
  C39. Whatever a pass of the onboarding, the maintenance or the traits controller applies conforms to the
  generated schema of its kind: a Hypervisor with its status, and an Eviction with its labels in any order. All
  fields are declared and have the declared types, and the lists that server-side apply merges by key,
  conditions by type and owner references by uid, have present and pairwise distinct keys.
\<close>

theorem applied_objects_conform:
  assumes "meta_laws L"
  shows "list_all call_conforms (new_calls tr (snd (Onboarding_Reconcile L K r now name tr)))
    \<and> list_all call_conforms (new_calls tr (snd (Maintenance_Reconcile L K C N labels name tr)))
    \<and> list_all call_conforms (new_calls tr (snd (Traits_Reconcile L K P now name tr)))"
  using extends_by_new_calls [OF Onboarding_Reconcile_valid] extends_by_new_calls [OF Maintenance_Reconcile_valid [OF assms]]
    extends_by_new_calls [OF Traits_Reconcile_valid]
  by (simp add: list_all_iff)

theorem applied_objects_conform_witness:
  "\<exists>n cfg ow e ow'. Kube (StatusApplyHypervisor n cfg ow) \<in> set draining_calls
     \<and> conforms (NamedType (ApiType ''Hypervisor'')) (encode_Hypervisor n cfg)
     \<and> Kube (ApplyEviction e ow') \<in> set draining_calls \<and> conforms (NamedType (ApiType ''Eviction'')) (encode_Eviction e [])"
proof -
  obtain n cfg ow e ow' where c: "Kube (StatusApplyHypervisor n cfg ow) \<in> set draining_calls" "Kube (ApplyEviction e ow') \<in> set draining_calls"
    using draining_result by blast
  have "Labels (Meta draining_hv) = Map.empty" by (simp add: draining_hv_def zero_values)
  have "ea_Labels e = Map.empty"
    using c(2) by (auto simp: draining_eval)
  then have "map_of [] = ea_Labels e" by simp
  moreover have "list_all call_conforms draining_calls"
    using applied_objects_conform [OF meta_laws_list_lib, of "[]" draining_kube sample_onboarding 0 "''h1''" sample_clock sample_nova "[]"] by blast
  ultimately have "call_conforms (Kube (StatusApplyHypervisor n cfg ow))" "call_conforms (Kube (ApplyEviction e ow'))"
    using c by (auto simp: list_all_iff)
  with c \<open>map_of [] = ea_Labels e\<close> show ?thesis by fastforce
qed

end
