(* ===== verification/Spec2Isabelle.thy ===== *)
theory Spec2Isabelle
  imports Operator Drain Startup_Props Placement_Http Logger Patch_Memory Built_Passes Apply_Validity
begin

text \<open>
  Verification of the OpenStack hypervisor operator.

  The operator is one process with eleven controllers. A Node with the virt-driver label gets a
  Hypervisor resource; the controllers take the host behind it into Nova (onboarding), keep its
  aggregates, traits, labels and certificate, drain it when it goes into maintenance (eviction of its
  servers), and take it out of Nova again before its machine may go (offboarding, node lifecycle). They
  share no memory but the provider cache of the OpenStack clients: they interact through the
  conditions and fields of the Hypervisor status, each owned by one controller and read by the others.

  \<^bold>\<open>How the code is modelled.\<close> A structure is a record, an enumeration a datatype or its texts, a Go
  error a value of \<open>go_error\<close>, a result \<open>(T, error)\<close> a sum; a string is a list of bytes. A function of the
  source is a function of the same name (\<open>Reconcile\<close> with the name of its controller in front, a loop or a closure a
  function beside it). The remote services are records of response functions (\<open>kube\<close>, \<open>nova\<close>,
  \<open>placement\<close>, \<open>test_resources\<close>), the functions of apimachinery, controller-runtime and gophercloud the record
  \<open>lib\<close>: all of them are arguments. A response depends on the history of all calls (\<open>trace\<close>); a handler
  takes the history and returns it with its own calls appended, so a theorem for arbitrary response functions covers
  failures, stale reads and concurrent writers, and "what the handler did" is a stretch of history.

  \<^bold>\<open>The theories.\<close>
  \<^item> \<open>Prelude\<close>, \<open>Go_Time\<close>, \<open>Go_Netip\<close>, \<open>Go_Json\<close>: what the sources use of Go's library (\<open>errors\<close>, \<open>strings\<close>, \<open>slices\<close>, \<open>time\<close>,
    \<open>net/netip\<close>, \<open>encoding/json\<close>). The lemmas show that texts of addresses and of JSON values are read back.
  \<^item> \<open>Api_Types\<close>: the custom resources and the validation markers as admission predicates
    (\<^verbatim>\<open>api/v1/hypervisor_types.go\<close>, \<^verbatim>\<open>eviction_types.go\<close>). \<open>Environment\<close>: calls, histories, services, \<open>ask\<close>.
  \<^item> \<open>Conditions\<close>, \<open>Status_Patch\<close>, \<open>Utils\<close> (\<^verbatim>\<open>internal/utils\<close>, \<^verbatim>\<open>internal/controller/utils.go\<close>): the upsert of conditions, the locale
    \<open>keyed_condition_store\<close> of what a store of conditions promises (interpreted for the repository's own store, and the
    shape in which \<open>meta_laws\<close> states that of apimachinery), and the patch with retry as an abstract run of attempts.
  \<^item> \<open>Config\<close> (\<^verbatim>\<open>internal/global\<close>, the flags of \<^verbatim>\<open>cmd/main.go\<close>), \<open>Logger\<close>, \<open>Service_Client\<close> (\<^verbatim>\<open>internal/openstack/service_client.go\<close>: the cache as a
    function, and as the step relation \<open>auth_step\<close> of concurrent callers), \<open>Startup\<close> and \<open>Startup_Props\<close> (\<open>main\<close> and every
    \<open>SetupWithManager\<close>; the locale \<open>set_up_relation\<close> gives what a relation between the states before and after
    a set-up needs so that the whole start-up keeps it).
  \<^item> \<open>Migrations\<close>, \<open>Host_Aggregates\<close>, \<open>Placement_Api\<close>, \<open>Placement_Http\<close>: the rest of \<^verbatim>\<open>internal/openstack\<close>.
  \<^item> One or two theories per controller of \<^verbatim>\<open>internal/controller\<close>: \<open>Eviction_Ctrl\<close> and \<open>Eviction_Props\<close>, \<open>Maintenance_Ctrl\<close> and
    \<open>Maintenance_Props\<close>, \<open>Onboarding_Tests\<close>, \<open>Onboarding_Ctrl\<close> and \<open>Onboarding_Props\<close>, \<open>Offboarding_Ctrl\<close>, \<open>Aggregates_Ctrl\<close>, \<open>Traits_Ctrl\<close>, \<open>Ready_Ctrl\<close>,
    \<open>Taint_Ctrl\<close>, \<open>Node_Ctrl\<close> (\<^verbatim>\<open>hypervisor_controller.go\<close>), \<open>Lifecycle_Ctrl\<close> (\<^verbatim>\<open>gardener_node_lifecycle_controller.go\<close>), \<open>Certificate_Ctrl\<close>.
  \<^item> \<open>Life_Cycle\<close>: the locale \<open>life_cycle\<close>, the contract between a controller and the phases it moves an object through,
    interpreted for the passes over an Eviction and for the logs of passes over a host that is onboarded.
  \<^item> \<open>Drain\<close>: the eviction and the maintenance controller in turn, over an API server that keeps what was patched.
    \<open>Schedule\<close> and \<open>Operator\<close>: any interleaving of passes of all controllers, under the locale \<open>guarded_pass\<close>.
  \<^item> \<open>Go_Memory\<close>, \<open>Deep_Copy\<close>, \<open>Patch_Memory\<close>: a heap with arrays, maps and structs, the locale \<open>deep_copy\<close> (an equal value in new
    memory), the generated copies of \<^verbatim>\<open>api/v1/zz_generated.deepcopy.go\<close> with one contract lemma per type, and the status patch, the eviction's
    update and the ready and taint passes with their objects in memory (locale \<open>conditions_owner\<close>: a struct whose conditions are set in place).
  \<^item> \<open>Apply_Config\<close>, \<open>Apply_Schema\<close>, \<open>Apply_Payloads\<close> (\<^verbatim>\<open>src/applyconfigurations\<close>): the structs and builders of apply configurations, the
    schema for server-side apply with the struct tags and the table of kinds, and what the controllers build with them.
    \<open>Built_Passes\<close>: the passes of the maintenance and the onboarding controller over built configurations, simulated by the value models.
    \<open>Apply_Validity\<close>: what the controllers apply against what the schema admits.
  \<^item> \<open>Sample_World\<close>: the concrete services at which the properties are applied.

  \<^bold>\<open>What is shown.\<close> For the eviction: the limit on concurrent migrations, the accounting of the queue, the evidence
  for success, progress, and a refinement of the abstract life cycle \<open>phase_step\<close>. For the maintenance: what has
  to be known before a host counts as evicted or an Eviction is created, what a pass leaves of the
  compute service and of the conditions, and which failed deletions it forgets. For the onboarding: a refinement of the machine of its phases \<open>onboarding_step\<close>, and
  the passed test on every way to a completed onboarding, and where a failed cleanup ends. For aggregates, traits, offboarding, nodes and machines: which reads come before
  every write that matters, and what a successful write achieves on a service that does what it answers. For readiness: the
  exact condition of every reason of the \<open>Ready\<close> condition, and that the watch misses no update that changes the result. For the certificate: exactly which names and
  addresses it has, and that they are canonical and routable. For the clients: one session per
  context under concurrent callers, two requests for sessions at the start. For memory: a deep copy is equal to
  the original and apart from it, so the base of a status patch is the object as it was read although the update writes
  into its arrays, and the controllers' value models make the calls of the code. For apply configurations: passes
  over built configurations are those of the value models, what is built holds nothing else, struct, tag, schema and kind agree, and
  every object that is applied conforms to the schema. Across controllers: draining comes first under every schedule, a
  drain whose servers have left is handed over until the host counts as evicted, and the
  aggregates controller unblocks the onboarding. Some theorems show behaviour that is not what a comment or the
  design says; they are stated as the code behaves (for instance \<open>evicted_flag_not_restored\<close>, \<open>failed_delete_forgotten\<close>,
  \<open>aborted_onboarding_stuck\<close>, \<open>foreign_test_server_deleted\<close>, \<open>drained_service_deleted\<close>, \<open>terminating_head_blocks\<close>).

  \<^bold>\<open>Hypotheses.\<close> They state documented behaviour of code outside the repository, each by name: \<open>meta_laws\<close> and
  \<open>meta_list_laws\<close> (condition helpers of apimachinery), \<open>retry_laws\<close> (\<open>retry.RetryOnConflict\<close> is a finite run of attempts),
  \<open>wrap_laws\<close> (an HTTP code is seen through \<open>%w\<close>), \<open>server_laws\<close> and \<open>aggregate_laws\<close> (Nova answers for what it was asked, and does what it
  answers), \<open>served_ok\<close> (the API server keeps condition types distinct), \<open>pages_end\<close> (continue tokens end),
  \<open>singleflight_laws\<close> (no two executions for one key at a time), \<open>copy_laws\<close> (the copies of apimachinery's own types are deep),
  \<open>setter_laws\<close> (\<open>meta.SetStatusCondition\<close> writes only into the array it is given and new memory), \<open>decoded\<close> (a response is decoded
  into new memory), \<open>client_laws\<close> (gophercloud reports every status code that is no
  success). Each one is met by a concrete instance (\<open>list_lib\<close>, \<open>one_at_a_time\<close>, \<open>sample_client\<close>, \<open>sample_copies\<close>, \<open>sample_setter\<close> and others).

  \<^bold>\<open>Bounds and termination.\<close> All functions are total and executable, with one exception: the listing of
  agent pods follows continue tokens, which a server need not end; it is a partial function (\<open>list_pages\<close>), and
  \<open>Node_Reconcile_returns\<close> proves that the pass returns under \<open>pages_end\<close>. No fuel is used. Integers of the sources are counts, codes and durations that
  stay far from 64 bits and are \<open>int\<close>; where the width matters (addresses, \<open>strconv.Atoi\<close>) words and bounds are written out.

  \<^bold>\<open>Not modelled.\<close> Of the generated code: the embedding of the metadata's own builders, which are client-go's, and the
  empty marker method \<open>IsApplyConfiguration\<close>. The copies that the node and the lifecycle controller
  make before they write are taken as values; the status patches, the eviction's update and the ready and taint passes are restated over memory. Log output (but for the encoder).
  Inside \<open>main\<close>: the registration of schemes, the logger options and the user agent. The delivery of events by
  controller-runtime: registrations are data (\<open>registration\<close>), the predicates of the repository are functions, and
  the schedules of \<open>Operator\<close> are arbitrary. Regular expressions are predicates and their compiler a parameter.
\<close>

section \<open>Properties across components\<close>

text \<open>
  C30. Drain first. However the passes of the controllers for one host interleave, and whatever
  Kubernetes, Nova and Placement answer: whenever the host is taken apart (removed from an aggregate,
  its compute service or its resource provider deleted, its node tainted), the very pass that does it
  was served, at its start, a Hypervisor that was drained (\<open>Evicting\<close> is \<open>False\<close>), not to be
  terminated, or without a compute service.
\<close>

theorem dismantled_only_drained:
  assumes "retry_laws (oe_lib env)" "meta_laws (oe_lib env)" "\<And>p. p \<in> set ps \<Longrightarrow> pass_host p = host"
    and "c \<in> set (new_calls tr (run_all (run_pass env) ps tr))" "dismantling c"
  shows "\<exists>xs p ys hv. ps = xs @ p # ys
    \<and> c \<in> set (new_calls (run_all (run_pass env) xs tr) (run_pass env p (run_all (run_pass env) xs tr)))
    \<and> k_get_Hypervisor (oe_kube env) host (run_all (run_pass env) xs tr @ read_before p) = Inr hv
    \<and> (hv_Maintenance hv = MaintenanceTermination \<and> ServiceID (hv_Status hv) \<noteq> [] \<longrightarrow>
        IsStatusConditionFalse (oe_lib env) (hv_Conditions hv) ConditionTypeEvicting)"
proof -
  obtain xs p ys where ps: "ps = xs @ p # ys"
    and c: "c \<in> set (new_calls (run_all (run_pass env) xs tr) (run_pass env p (run_all (run_pass env) xs tr)))"
    and ok: "pass_ok env p (run_all (run_pass env) xs tr) c"
    using operator.run_guarded [of env c tr ps] assms(1,2,4) by blast
  from ps assms(3) have "pass_host p = host" by simp
  with ok assms(5) ps c show ?thesis by (auto simp: pass_ok_def drained_if_terminating_def)
qed

definition sample_env :: operator_env where
  "sample_env = \<lparr>oe_lib = list_lib, oe_kube = terminated_kube, oe_nova = listing_nova ''node1.example.org'',
     oe_placement = sample_placement, oe_onboarding = sample_onboarding, oe_gvk = Inr ([], ''v1'', ''Node''), oe_clock = sample_clock,
     oe_globals = \<lparr>AgentNamespaces = [], EvictionConcurrency = 1, EvictionTraitConcurrency = Map.empty\<rparr>, oe_labels = [],
     oe_certificate = sample_cert_controller\<rparr>"

theorem dismantled_only_drained_witness:
  "\<exists>hv. k_get_Hypervisor (oe_kube sample_env) ''node1'' [] = Inr hv
    \<and> IsStatusConditionFalse list_lib (hv_Conditions hv) ConditionTypeEvicting"
proof -
  have l: "retry_laws (oe_lib sample_env)" "meta_laws (oe_lib sample_env)" by (simp_all add: sample_env_def)
  have c: "Compute (ServicesDelete ''svc10'') \<in> set (new_calls [] (run_all (run_pass sample_env) [OffboardingPass ''node1''] []))"
    using service_delete_sample by (simp add: sample_env_def)
  have "\<exists>xs p ys hv. [OffboardingPass ''node1''] = xs @ p # ys
    \<and> Compute (ServicesDelete ''svc10'') \<in> set (new_calls (run_all (run_pass sample_env) xs [])
        (run_pass sample_env p (run_all (run_pass sample_env) xs [])))
    \<and> k_get_Hypervisor (oe_kube sample_env) ''node1'' (run_all (run_pass sample_env) xs [] @ read_before p) = Inr hv
    \<and> (hv_Maintenance hv = MaintenanceTermination \<and> ServiceID (hv_Status hv) \<noteq> [] \<longrightarrow>
        IsStatusConditionFalse (oe_lib sample_env) (hv_Conditions hv) ConditionTypeEvicting)"
    by (rule dismantled_only_drained [OF l _ c]) simp_all
  then show ?thesis by (auto simp: sample_env_def sample_kube_def drained_hv_def zero_values)
qed

text \<open>
  C40. The aggregates controller unblocks the onboarding: for a managed host in the initial phase with
  a zone label, the aggregates it has applied for that phase are those the onboarding controller waits
  for, so the next onboarding pass that reads the recorded status asks Nova to enable the service.
\<close>

theorem aggregates_unblock_onboarding:
  assumes "meta_laws L" "managed hv" "registered hv" "map_get (Labels (Meta hv)) LabelTopologyZone \<noteq> []"
    and "FindStatusCondition L (hv_Conditions hv) ConditionTypeOnboarding = Some c"
    "Status c = ConditionTrue" "Reason c = ConditionReasonInitial"
    and "ApplyAggregates N host (fst (determineDesiredState L hv)) t = (Inr aggs, t')"
    and "k_get_Hypervisor K name tr = Inr (set_aggregates L (snd (determineDesiredState L hv)) (Some aggs) hv)"
  shows "Compute (ServicesUpdate (ServiceID (hv_Status hv)) enable_opts)
    \<in> set (new_calls tr (snd (Onboarding_Reconcile L K r now name tr)))"
proof -
  let ?hv = "set_aggregates L (snd (determineDesiredState L hv)) (Some aggs) hv"
  have sel: "Spec ?hv = Spec hv" "Meta ?hv = Meta hv" "HypervisorID (hv_Status ?hv) = HypervisorID (hv_Status hv)"
    "ServiceID (hv_Status ?hv) = ServiceID (hv_Status hv)"
    by (simp_all add: set_aggregates_def hv_set_condition_def)
  have find: "FindStatusCondition L (hv_Conditions ?hv) ConditionTypeOnboarding = Some c"
    using assms(5) by (simp add: meta_find_set_other [OF assms(1)])
  have "fst (determineDesiredState L hv) = [map_get (Labels (Meta hv)) LabelTopologyZone, testAggregateName]"
    using assms(2,5-7) by (simp add: determineDesiredState_def managed_def Let_def)
  with ApplyAggregates_names [OF assms(8)] have "map agg_Name (Aggregates (hv_Status ?hv)) = [map_get (Labels (Meta hv)) LabelTopologyZone, testAggregateName]"
    by simp
  then have eq: "slicesEqualUnordered (map agg_Name (Aggregates (hv_Status ?hv))) [map_get (Labels (Meta ?hv)) LabelTopologyZone, testAggregateName]"
    by (simp add: slicesEqualUnordered_iff sel)
  show ?thesis
    using assms(2-4,7,9) find eq
    by (auto simp: Onboarding_Reconcile_def ask_def onboarding_phase_pass_def initialOnboarding_def Let_def managed_def
        registered_def sel apply_onboarding_def case_prod_beta split: option.split)
qed

theorem aggregates_unblock_onboarding_witness:
  "\<exists>aggs. map agg_Name aggs = [''az1'', testAggregateName]
    \<and> Compute (ServicesUpdate ''svc'' enable_opts) \<in> set (new_calls [] (snd (Onboarding_Reconcile list_lib
        (sample_kube (set_aggregates list_lib (snd (determineDesiredState list_lib (onboarding_hv ConditionReasonInitial))) (Some aggs)
           (onboarding_hv ConditionReasonInitial)) (empty_eviction ''e'') (empty_node ''h1'')) sample_onboarding 1 ''h1'' [])))"
proof -
  let ?hv = "onboarding_hv ConditionReasonInitial"
  let ?c = "mk_condition ConditionTypeOnboarding ConditionTrue ConditionReasonInitial []"
  have f: "FindStatusCondition list_lib (hv_Conditions ?hv) ConditionTypeOnboarding = Some ?c"
    by (simp add: list_lib_def list_find_def onboarding_hv_def)
  have z: "map_get (Labels (Meta ?hv)) LabelTopologyZone \<noteq> []" by (simp add: onboarding_hv_def map_get_def)
  have g: "managed ?hv" "registered ?hv" by (simp_all add: managed_def registered_def onboarding_hv_def zero_values)
  have d: "fst (determineDesiredState list_lib ?hv) = [''az1'', testAggregateName]"
    using f by (simp add: determineDesiredState_def Let_def) (simp add: onboarding_hv_def map_get_def zero_values)
  have "\<exists>aggs t'. ApplyAggregates (aggregate_nova ''h1'') ''h1'' [''az1'', testAggregateName] [] = (Inr aggs, t')"
    by (simp add: ApplyAggregates_def ask_def aggregate_nova_def sample_nova_def two_aggregates_def member_after_def Let_def)
  then obtain aggs t' where a: "ApplyAggregates (aggregate_nova ''h1'') ''h1'' (fst (determineDesiredState list_lib ?hv)) [] = (Inr aggs, t')"
    by (auto simp: d)
  have names: "map agg_Name aggs = [''az1'', testAggregateName]" using ApplyAggregates_names [OF a] d by simp
  have "Compute (ServicesUpdate (ServiceID (hv_Status ?hv)) enable_opts) \<in> set (new_calls [] (snd (Onboarding_Reconcile list_lib
      (sample_kube (set_aggregates list_lib (snd (determineDesiredState list_lib ?hv)) (Some aggs) ?hv) (empty_eviction ''e'') (empty_node ''h1''))
      sample_onboarding 1 ''h1'' [])))"
    by (rule aggregates_unblock_onboarding [OF meta_laws_list_lib g z f _ _ a]) (simp_all add: sample_kube_def)
  moreover have "ServiceID (hv_Status ?hv) = ''svc''" by (simp add: onboarding_hv_def zero_values)
  ultimately have "Compute (ServicesUpdate ''svc'' enable_opts) \<in> set (new_calls [] (snd (Onboarding_Reconcile list_lib
      (sample_kube (set_aggregates list_lib (snd (determineDesiredState list_lib ?hv)) (Some aggs) ?hv) (empty_eviction ''e'') (empty_node ''h1''))
      sample_onboarding 1 ''h1'' [])))" by (simp only:)
  with names show ?thesis by (intro exI [of _ aggs] conjI)
qed

end
